(* ===== verification/Prelude.thy ===== *)
theory Prelude
  imports Main "HOL-Library.Sublist"
begin

text \<open>
  Shared vocabulary of the development: the result type of fallible code, the decimal
  rendering JavaScript's string concatenation gives an index, and list lemmas several
  components use.  JavaScript strings are modelled as HOL \<open>string\<close>s (one character per
  code unit) wherever the code only compares, splits or concatenates them; the theories
  about text encodings (\<open>Utf8\<close>, \<open>Invitation_Card\<close>) use 16-bit code units instead.
\<close>

named_theorems check_laws \<open>contracts of the emitted statements, as introduction rules\<close>
named_theorems conform_laws \<open>contracts of the emitted statements against the schema they come from\<close>
named_theorems guard_parts \<open>contracts of the guards' own parts\<close>
named_theorems state_defs \<open>definitions of the state-changing operations\<close>

text \<open>A JavaScript function that may throw: \<open>Inl\<close> carries the thrown error.\<close>

type_synonym ('e, 'a) result = "'e + 'a"

definition bind_result :: "('e, 'a) result \<Rightarrow> ('a \<Rightarrow> ('e, 'b) result) \<Rightarrow> ('e, 'b) result" where
  "bind_result r f = (case r of Inl e \<Rightarrow> Inl e | Inr x \<Rightarrow> f x)"

lemma bind_result_simps [simp]:
  "bind_result (Inl e) f = Inl e"
  "bind_result (Inr x) f = f x"
  by (simp_all add: bind_result_def)

lemma bind_result_eq_Inr:
  "bind_result r f = Inr y \<longleftrightarrow> (\<exists>x. r = Inr x \<and> f x = Inr y)"
  by (cases r) simp_all

section \<open>Decimal rendering of indices\<close>

definition digit_char :: "nat \<Rightarrow> char" where
  "digit_char n = char_of (48 + n)"

fun decimal :: "nat \<Rightarrow> string" where
  "decimal n = (if n < 10 then [digit_char n] else decimal (n div 10) @ [digit_char (n mod 10)])"

declare decimal.simps [simp del]

lemma decimal_nonempty [simp]: "decimal n \<noteq> []"
  by (subst decimal.simps) simp

section \<open>Lists\<close>

lemma find_None_list_all: "find P xs = None \<longleftrightarrow> list_all (\<lambda>x. \<not> P x) xs"
  by (induction xs) auto

lemma list_all_map_of_mem:
  "list_all P (map snd kvs) \<Longrightarrow> map_of kvs k = Some v \<Longrightarrow> P v"
  by (induction kvs) (auto split: if_splits)

lemma length_one_filter_Cons:
  "length (filter P (x # xs)) = 1 \<longleftrightarrow>
     (if P x then list_all (\<lambda>y. \<not> P y) xs else length (filter P xs) = 1)"
  by (auto simp: filter_empty_conv list_all_iff)

lemma prefix_append_left [simp]: "prefix p (p @ q)"
  by simp

lemma prefix_of_append: "prefix (p @ q) r \<Longrightarrow> prefix p r"
  by (rule append_prefixD)

section \<open>The JavaScript \<open>Map\<close>\<close>

text \<open>
  A \<open>Map\<close> is an association list in insertion order: setting a present key keeps its
  place, a new key comes last.
\<close>

fun put :: "'k \<Rightarrow> 'a \<Rightarrow> ('k \<times> 'a) list \<Rightarrow> ('k \<times> 'a) list" where
  "put k v [] = [(k, v)]"
| "put k v ((k', v') # kvs) = (if k' = k then (k, v) # kvs else (k', v') # put k v kvs)"

definition remove_key :: "'k \<Rightarrow> ('k \<times> 'a) list \<Rightarrow> ('k \<times> 'a) list" where
  "remove_key k kvs = filter (\<lambda>kv. fst kv \<noteq> k) kvs"

lemma map_of_put [simp]: "map_of (put k v kvs) x = (if x = k then Some v else map_of kvs x)"
  by (induction kvs) auto

lemma keys_put: "map fst (put k v kvs) = (if k \<in> fst ` set kvs then map fst kvs else map fst kvs @ [k])"
  by (induction kvs) (auto split: if_splits)

lemma set_put: "distinct (map fst kvs) \<Longrightarrow> set (put k v kvs) \<subseteq> insert (k, v) {kv \<in> set kvs. fst kv \<noteq> k}"
proof (induction kvs)
  case (Cons kv kvs)
  then show ?case by (cases kv) (force split: if_splits)
qed simp

lemma distinct_put: "distinct (map fst kvs) \<Longrightarrow> distinct (map fst (put k v kvs))"
  by (auto simp: keys_put)

lemma map_of_remove_key [simp]: "map_of (remove_key k kvs) x = (if x = k then None else map_of kvs x)"
  by (induction kvs) (auto simp: remove_key_def)

lemma distinct_remove_key: "distinct (map fst kvs) \<Longrightarrow> distinct (map fst (remove_key k kvs))"
  by (simp add: remove_key_def distinct_map_filter)

lemma put_put [simp]: "put k v (put k w kvs) = put k v kvs"
  by (induction kvs) auto

end
