(* ===== verification/Json.thy ===== *)
theory Json
  imports Prelude Complex_Main
begin

text \<open>
  The values the generated guards of \<open>ui/src/rpc-validators.js\<close> inspect: what
  \<open>JSON.parse\<close> delivers (and, for numbers, every IEEE value a caller may pass).  An object
  is the list of its own properties in enumeration order; \<open>data.k === undefined\<close> is
  \<open>get_prop data k = None\<close>.
\<close>

datatype jsnum = Finite rat | NaN | PosInf | NegInf

datatype json =
    JNull
  | JBool bool
  | JNum jsnum
  | JStr string
  | JArr "json list"
  | JObj "(string \<times> json) list"

fun get_prop :: "json \<Rightarrow> string \<Rightarrow> json option" where
  "get_prop (JObj kvs) k = map_of kvs k"
| "get_prop _ k = None"

fun own_keys :: "json \<Rightarrow> string list" where
  "own_keys (JObj kvs) = map fst kvs"
| "own_keys _ = []"

fun is_object :: "json \<Rightarrow> bool" where
  "is_object (JObj _) = True"
| "is_object _ = False"

lemma is_objectE: "is_object d \<Longrightarrow> (\<And>kvs. d = JObj kvs \<Longrightarrow> P) \<Longrightarrow> P"
  by (cases d) auto

lemma size_get_prop: "get_prop d k = Some v \<Longrightarrow> size v < size d"
proof (cases d)
  case (JObj kvs)
  assume "get_prop d k = Some v"
  then have "(k, v) \<in> set kvs" using JObj by (simp add: map_of_SomeD)
  then have "size v \<le> size_list (size_prod (\<lambda>_. 0) size) kvs"
    by (induction kvs) auto
  then show ?thesis using JObj by simp
qed auto

section \<open>Types as the emitted code tests them\<close>

datatype jtype = TString | TNull | TBoolean | TInteger | TArray | TObject

definition js_integer :: "jsnum \<Rightarrow> bool" where
  "js_integer n = (case n of Finite q \<Rightarrow> of_int \<lfloor>q\<rfloor> = q | _ \<Rightarrow> False)"

fun has_type :: "jtype \<Rightarrow> json \<Rightarrow> bool" where
  "has_type TString d = (case d of JStr _ \<Rightarrow> True | _ \<Rightarrow> False)"
| "has_type TNull d = (d = JNull)"
| "has_type TBoolean d = (case d of JBool _ \<Rightarrow> True | _ \<Rightarrow> False)"
| "has_type TInteger d = (case d of JNum n \<Rightarrow> js_integer n | _ \<Rightarrow> False)"
| "has_type TArray d = (case d of JArr _ \<Rightarrow> True | _ \<Rightarrow> False)"
| "has_type TObject d = is_object d"

fun type_name :: "jtype \<Rightarrow> string" where
  "type_name TString = ''string''"
| "type_name TNull = ''null''"
| "type_name TBoolean = ''boolean''"
| "type_name TInteger = ''integer''"
| "type_name TArray = ''array''"
| "type_name TObject = ''object''"

text \<open>\<open>data2 > limit || isNaN(data2)\<close> and \<open>data2 < limit || isNaN(data2)\<close>.\<close>

fun exceeds :: "jsnum \<Rightarrow> rat \<Rightarrow> bool" where
  "exceeds (Finite q) limit = (q > limit)"
| "exceeds NegInf limit = False"
| "exceeds _ limit = True"

fun falls_below :: "jsnum \<Rightarrow> rat \<Rightarrow> bool" where
  "falls_below (Finite q) limit = (q < limit)"
| "falls_below PosInf limit = False"
| "falls_below _ limit = True"

fun is_finite_num :: "json \<Rightarrow> bool" where
  "is_finite_num (JNum (Finite _)) = True"
| "is_finite_num _ = False"

end
