(* ===== verification/Ajv.thy ===== *)
theory Ajv
  imports Json
begin

text \<open>
  The statement shapes the generated guards of \<open>ui/src/rpc-validators.js\<close> are made of, one
  definition per shape, over the two local variables every guard keeps: \<open>vErrors\<close> and
  \<open>errors\<close>.  A statement may leave the guard early (\<open>validateN.errors = ...; return false\<close>),
  which is \<open>Inl\<close> of the error list.  Outside \<open>anyOf\<close>/\<open>oneOf\<close> branches the code reports an
  error by returning at once; inside it appends to \<open>vErrors\<close> and goes on: the \<open>mode\<close>.  The
  bookkeeping of evaluated properties (\<open>evaluated0\<close>, \<open>props0\<close>) never influences a result and
  is left out.
\<close>

datatype passing = NoPassing | PassingOne nat | PassingMore passing nat

datatype param =
    PType "string list"
  | PMissingProperty string
  | PAdditionalProperty string
  | PAllowedValue string
  | PAllowedValues "string list"
  | PComparison string nat
  | PPassingSchemas passing
  | PEmpty

record verror =
  instance_path :: string
  schema_path :: string
  keyword_of :: string
  params :: param
  message :: string

record vstate =
  vErrors :: "verror list option"
  errors :: nat

datatype mode = Return | Collect

type_synonym step = "vstate \<Rightarrow> verror list + vstate"
type_synonym validation = "bool \<times> verror list option"
type_synonym validator = "json \<Rightarrow> string \<Rightarrow> validation"

section \<open>Reporting and sequencing\<close>

definition push_error :: "verror \<Rightarrow> vstate \<Rightarrow> vstate" where
  "push_error e st = st\<lparr>vErrors := (case vErrors st of None \<Rightarrow> Some [e] | Some es \<Rightarrow> Some (es @ [e])),
     errors := errors st + 1\<rparr>"

fun report :: "mode \<Rightarrow> verror \<Rightarrow> step" where
  "report Return e st = Inl [e]"
| "report Collect e st = Inr (push_error e st)"

definition skip :: step where
  "skip st = Inr st"

definition seq :: "step \<Rightarrow> step \<Rightarrow> step" where
  "seq c1 c2 st = (case c1 st of Inl es \<Rightarrow> Inl es | Inr st' \<Rightarrow> c2 st')"

text \<open>\<open>const _errs = errors; c1; if(_errs === errors){ c2 }\<close>\<close>

definition then_valid :: "step \<Rightarrow> step \<Rightarrow> step" where
  "then_valid c1 c2 st = (case c1 st of Inl es \<Rightarrow> Inl es
     | Inr st' \<Rightarrow> if errors st' = errors st then c2 st' else Inr st')"

fun properties :: "step list \<Rightarrow> step" where
  "properties [] = skip"
| "properties (c # cs) = then_valid c (properties cs)"

section \<open>Keywords\<close>

definition type_error :: "jtype list \<Rightarrow> string \<Rightarrow> string \<Rightarrow> verror" where
  "type_error ts p sp = \<lparr>instance_path = p, schema_path = sp, keyword_of = ''type'',
     params = PType (map type_name ts),
     message = ''must be '' @ concat (case map type_name ts of [] \<Rightarrow> [] | n # ns \<Rightarrow> n # map ((@) '','') ns)\<rparr>"

definition check_type :: "mode \<Rightarrow> jtype list \<Rightarrow> string \<Rightarrow> string \<Rightarrow> json \<Rightarrow> step" where
  "check_type m ts p sp d =
     (if list_ex (\<lambda>t. has_type t d) ts then skip else report m (type_error ts p sp))"

text \<open>\<open>if(data is of type t){ c } else { report the type }\<close>\<close>

definition on_type :: "mode \<Rightarrow> jtype \<Rightarrow> string \<Rightarrow> string \<Rightarrow> json \<Rightarrow> step \<Rightarrow> step" where
  "on_type m t p sp d c = (if has_type t d then c else report m (type_error [t] p sp))"

definition required_error :: "string \<Rightarrow> string \<Rightarrow> string \<Rightarrow> verror" where
  "required_error k p sp = \<lparr>instance_path = p, schema_path = sp, keyword_of = ''required'',
     params = PMissingProperty k, message = ''must have required property '' @ [CHR 0x27] @ k @ [CHR 0x27]\<rparr>"

text \<open>\<open>if((data.k1 === undefined) && (missing0 = "k1") || ...){ report } else { c }\<close>\<close>

definition required :: "mode \<Rightarrow> string list \<Rightarrow> string \<Rightarrow> string \<Rightarrow> json \<Rightarrow> step \<Rightarrow> step" where
  "required m ks p sp d c = (case find (\<lambda>k. get_prop d k = None) ks of
     Some k \<Rightarrow> report m (required_error k p sp) | None \<Rightarrow> c)"

definition additional_error :: "string \<Rightarrow> string \<Rightarrow> string \<Rightarrow> verror" where
  "additional_error k p sp = \<lparr>instance_path = p, schema_path = sp, keyword_of = ''additionalProperties'',
     params = PAdditionalProperty k, message = ''must NOT have additional properties''\<rparr>"

text \<open>\<open>for(const key0 in data){ if(!(key0 === "k1" || ...)){ report; break; } }\<close>\<close>

definition no_additional :: "mode \<Rightarrow> string list \<Rightarrow> string \<Rightarrow> string \<Rightarrow> json \<Rightarrow> step" where
  "no_additional m ks p sp d = (case find (\<lambda>k. k \<notin> set ks) (own_keys d) of
     Some k \<Rightarrow> report m (additional_error k p sp) | None \<Rightarrow> skip)"

text \<open>\<open>if(data.k !== undefined){ let d = data.k; ... }\<close>\<close>

definition on_prop :: "json \<Rightarrow> string \<Rightarrow> (json \<Rightarrow> step) \<Rightarrow> step" where
  "on_prop d k c = (case get_prop d k of None \<Rightarrow> skip | Some v \<Rightarrow> c v)"

definition check_const :: "mode \<Rightarrow> string \<Rightarrow> string \<Rightarrow> string \<Rightarrow> json \<Rightarrow> step" where
  "check_const m v p sp d = (if d = JStr v then skip else report m
     \<lparr>instance_path = p, schema_path = sp, keyword_of = ''const'', params = PAllowedValue v,
      message = ''must be equal to constant''\<rparr>)"

definition check_enum :: "mode \<Rightarrow> string list \<Rightarrow> string \<Rightarrow> string \<Rightarrow> json \<Rightarrow> step" where
  "check_enum m vs p sp d = (if list_ex (\<lambda>v. d = JStr v) vs then skip else report m
     \<lparr>instance_path = p, schema_path = sp, keyword_of = ''enum'', params = PAllowedValues vs,
      message = ''must be equal to one of the allowed values''\<rparr>)"

definition limit_error :: "string \<Rightarrow> string \<Rightarrow> nat \<Rightarrow> string \<Rightarrow> string \<Rightarrow> verror" where
  "limit_error kw cmp limit p sp = \<lparr>instance_path = p, schema_path = sp @ ''/'' @ kw,
     keyword_of = kw, params = PComparison cmp limit,
     message = ''must be '' @ cmp @ '' '' @ decimal limit\<rparr>"

text \<open>
  \<open>if(typeof d == "number" && isFinite(d)){ if(d > max || isNaN(d)){ report } else { if(d < min
  || isNaN(d)){ report } } }\<close>, the first test absent where the schema has no maximum.
\<close>

definition check_range :: "mode \<Rightarrow> nat option \<Rightarrow> nat \<Rightarrow> string \<Rightarrow> string \<Rightarrow> json \<Rightarrow> step" where
  "check_range m mx mn p sp d = (case d of JNum n \<Rightarrow>
       if \<not> is_finite_num d then skip
       else if (case mx of Some v \<Rightarrow> exceeds n (of_nat v) | None \<Rightarrow> False)
       then report m (limit_error ''maximum'' ''<='' (the mx) p sp)
       else if falls_below n (of_nat mn)
       then report m (limit_error ''minimum'' ''>='' mn p sp)
       else skip
     | _ \<Rightarrow> skip)"

text \<open>\<open>instancePath+"/k"\<close> and \<open>instancePath+"/" + i0\<close>.\<close>

definition at_prop :: "string \<Rightarrow> string \<Rightarrow> string" where
  "at_prop p k = p @ ''/'' @ k"

definition at_index :: "string \<Rightarrow> nat \<Rightarrow> string" where
  "at_index p i = p @ ''/'' @ decimal i"

text \<open>\<open>for(let i0=0; i0<len0; i0++){ ...; if(!valid){ break; } }\<close>\<close>

fun items_from :: "nat \<Rightarrow> json list \<Rightarrow> (nat \<Rightarrow> json \<Rightarrow> step) \<Rightarrow> step" where
  "items_from i [] c = skip"
| "items_from i (v # vs) c = then_valid (c i v) (items_from (Suc i) vs c)"

fun items :: "json \<Rightarrow> (nat \<Rightarrow> json \<Rightarrow> step) \<Rightarrow> step" where
  "items (JArr vs) c = items_from 0 vs c"
| "items _ c = skip"

section \<open>Alternatives\<close>

text \<open>
  \<open>errors = _errs; if(vErrors !== null){ if(_errs){ vErrors.length = _errs; } else { vErrors =
  null; } }\<close>
\<close>

definition reset :: "nat \<Rightarrow> vstate \<Rightarrow> vstate" where
  "reset n st = st\<lparr>errors := n, vErrors := (case vErrors st of None \<Rightarrow> None
     | Some es \<Rightarrow> if n \<noteq> 0 then Some (take n es) else None)\<rparr>"

text \<open>
  The failure of a whole alternative is always appended; outside a branch the guard then returns
  with everything collected.
\<close>

fun fail_with :: "mode \<Rightarrow> verror \<Rightarrow> step" where
  "fail_with Collect e st = Inr (push_error e st)"
| "fail_with Return e st = Inl (the (vErrors (push_error e st)))"

text \<open>\<open>const _errs = errors; c; var _valid = _errs === errors; valid = valid || _valid;\<close>\<close>

fun any_branches :: "step list \<Rightarrow> bool \<Rightarrow> vstate \<Rightarrow> verror list + (bool \<times> vstate)" where
  "any_branches [] valid st = Inr (valid, st)"
| "any_branches (c # cs) valid st = (case c st of Inl es \<Rightarrow> Inl es
     | Inr st' \<Rightarrow> any_branches cs (valid \<or> errors st' = errors st) st')"

definition any_of :: "mode \<Rightarrow> string \<Rightarrow> string \<Rightarrow> step list \<Rightarrow> step" where
  "any_of m p sp cs st = (case any_branches cs False st of Inl es \<Rightarrow> Inl es
     | Inr (valid, st') \<Rightarrow>
         if \<not> valid then fail_with m \<lparr>instance_path = p, schema_path = sp, keyword_of = ''anyOf'',
           params = PEmpty, message = ''must match a schema in anyOf''\<rparr> st'
         else Inr (reset (errors st) st'))"

text \<open>
  \<open>if(_valid && valid){ valid = false; passing = [passing, i]; } else { if(_valid){ valid = true;
  passing = i; } ...next branch... }\<close>
\<close>

fun one_branches :: "nat \<Rightarrow> step list \<Rightarrow> bool \<Rightarrow> passing \<Rightarrow> vstate
    \<Rightarrow> verror list + (bool \<times> passing \<times> vstate)" where
  "one_branches i [] valid pass st = Inr (valid, pass, st)"
| "one_branches i (c # cs) valid pass st = (case c st of Inl es \<Rightarrow> Inl es
     | Inr st' \<Rightarrow>
         if errors st' = errors st \<and> valid then Inr (False, PassingMore pass i, st')
         else if errors st' = errors st then one_branches (Suc i) cs True (PassingOne i) st'
         else one_branches (Suc i) cs valid pass st')"

definition one_of :: "mode \<Rightarrow> string \<Rightarrow> string \<Rightarrow> step list \<Rightarrow> step" where
  "one_of m p sp cs st = (case one_branches 0 cs False NoPassing st of Inl es \<Rightarrow> Inl es
     | Inr (valid, pass, st') \<Rightarrow>
         if \<not> valid then fail_with m \<lparr>instance_path = p, schema_path = sp, keyword_of = ''oneOf'',
           params = PPassingSchemas pass, message = ''must match exactly one schema in oneOf''\<rparr> st'
         else Inr (reset (errors st) st'))"

section \<open>Guards and calls between them\<close>

text \<open>
  \<open>if(!(validateN(v, {instancePath: p}))){ vErrors = vErrors === null ? validateN.errors :
  vErrors.concat(validateN.errors); errors = vErrors.length; }\<close>
\<close>

definition absorb :: "verror list \<Rightarrow> vstate \<Rightarrow> vstate" where
  "absorb sub st = (let all = (case vErrors st of None \<Rightarrow> sub | Some es \<Rightarrow> es @ sub)
     in st\<lparr>vErrors := Some all, errors := length all\<rparr>)"

definition call :: "validator \<Rightarrow> json \<Rightarrow> string \<Rightarrow> step" where
  "call v d p st = (case v d p of (ok, sub) \<Rightarrow>
     if \<not> ok then Inr (absorb (the sub) st) else Inr st)"

definition init_vstate :: vstate where
  "init_vstate = \<lparr>vErrors = None, errors = 0\<rparr>"

text \<open>A guard's frame: its locals, its body, \<open>validateN.errors = vErrors; return errors === 0;\<close>\<close>

definition run_guard :: "step \<Rightarrow> validation" where
  "run_guard c = (case c init_vstate of Inl es \<Rightarrow> (False, Some es)
     | Inr st \<Rightarrow> (errors st = 0, vErrors st))"

end
