(* ===== verification/Guard.thy ===== *)
theory Guard
  imports Ajv
begin

text \<open>
  The contract of one emitted statement: from a coherent state (\<open>errors\<close> is the length of
  \<open>vErrors\<close>) it either leaves the guard, only in \<open>Return\<close> mode and only when its condition
  \<open>P\<close> fails, or appends errors, none exactly when \<open>P\<close> holds; every error it adds points at
  the value under check or inside it.  The laws below build the contract of a whole guard
  from those of its statements.
\<close>

definition error_list :: "vstate \<Rightarrow> verror list" where
  "error_list st = (case vErrors st of None \<Rightarrow> [] | Some es \<Rightarrow> es)"

definition coherent :: "vstate \<Rightarrow> bool" where
  "coherent st \<longleftrightarrow> errors st = length (error_list st) \<and> vErrors st \<noteq> Some []"

definition located :: "string \<Rightarrow> verror list \<Rightarrow> bool" where
  "located p es \<longleftrightarrow> list_all (\<lambda>e. prefix p (instance_path e)) es"

definition extends :: "string \<Rightarrow> vstate \<Rightarrow> bool \<Rightarrow> vstate \<Rightarrow> bool" where
  "extends p st P st' \<longleftrightarrow> coherent st' \<and>
     (\<exists>es. error_list st' = error_list st @ es \<and> located p es \<and> (es = [] \<longleftrightarrow> P))"

definition outcome :: "mode \<Rightarrow> string \<Rightarrow> vstate \<Rightarrow> bool \<Rightarrow> verror list + vstate \<Rightarrow> bool" where
  "outcome m p st P r \<longleftrightarrow> (case r of
     Inl es \<Rightarrow> m = Return \<and> \<not> P \<and> es \<noteq> [] \<and> (\<forall>e \<in> set es. e \<in> set (error_list st) \<or> prefix p (instance_path e))
   | Inr st' \<Rightarrow> extends p st P st')"

definition checks :: "mode \<Rightarrow> string \<Rightarrow> step \<Rightarrow> bool \<Rightarrow> bool" where
  "checks m p c P \<longleftrightarrow> (\<forall>st. coherent st \<longrightarrow> outcome m p st P (c st))"

lemma outcome_simps [simp]:
  "outcome m p st P (Inl es) \<longleftrightarrow> m = Return \<and> \<not> P \<and> es \<noteq> []
     \<and> (\<forall>e \<in> set es. e \<in> set (error_list st) \<or> prefix p (instance_path e))"
  "outcome m p st P (Inr st') \<longleftrightarrow> extends p st P st'"
  by (simp_all add: outcome_def)

lemma checksD: "checks m p c P \<Longrightarrow> coherent st \<Longrightarrow> outcome m p st P (c st)"
  by (simp add: checks_def)

lemma coherent_init [simp]: "coherent init_vstate"
  by (simp add: coherent_def error_list_def init_vstate_def)

lemma coherent_eqI: "coherent s \<Longrightarrow> coherent t \<Longrightarrow> error_list s = error_list t \<Longrightarrow> s = t"
  by (cases s; cases t) (auto simp: coherent_def error_list_def split: option.splits)

lemma error_list_init [simp]: "error_list init_vstate = []"
  by (simp add: error_list_def init_vstate_def)

lemma located_simps [simp]:
  "located p []"
  "located p (e # es) \<longleftrightarrow> prefix p (instance_path e) \<and> located p es"
  "located p (es @ fs) \<longleftrightarrow> located p es \<and> located p fs"
  by (simp_all add: located_def)

lemma located_append: "located (p @ q) es \<Longrightarrow> located p es"
  by (auto simp: located_def list_all_iff dest: append_prefixD)

lemma push_error_simps [simp]:
  "error_list (push_error e st) = error_list st @ [e]"
  "coherent st \<Longrightarrow> coherent (push_error e st)"
  "vErrors (push_error e st) = Some (error_list st @ [e])"
  by (auto simp: push_error_def error_list_def coherent_def split: option.splits)

lemma extends_refl [simp]: "coherent st \<Longrightarrow> extends p st P st \<longleftrightarrow> P"
  by (auto simp: extends_def)

lemma extends_push [simp]:
  "coherent st \<Longrightarrow> prefix p (instance_path e) \<Longrightarrow> extends p st P (push_error e st) \<longleftrightarrow> \<not> P"
  by (auto simp: extends_def)

text \<open>The test \<open>_errs === errors\<close> tells whether the statement's condition held.\<close>

lemma extends_errors_eq:
  assumes "coherent st" "extends p st P st'"
  shows "errors st' = errors st \<longleftrightarrow> P" "P \<Longrightarrow> st' = st"
proof -
  from assms obtain es where es: "coherent st'" "error_list st' = error_list st @ es"
    "es = [] \<longleftrightarrow> P" by (auto simp: extends_def)
  from es assms(1) show "errors st' = errors st \<longleftrightarrow> P" by (auto simp: coherent_def)
  from es assms(1) show "P \<Longrightarrow> st' = st" by (auto intro: coherent_eqI)
qed

lemma checksI:
  assumes "\<And>st. coherent st \<Longrightarrow> outcome m p st P (c st)"
  shows "checks m p c P"
  using assms by (simp add: checks_def)

lemma checks_cong: "checks m p c P \<Longrightarrow> P = Q \<Longrightarrow> checks m p c Q"
  by simp

lemma checks_sub: "checks m (p @ q) c P \<Longrightarrow> checks m p c P"
  by (auto simp: checks_def outcome_def extends_def split: sum.splits)
     (blast dest: located_append prefix_of_append)+

lemma checks_report [check_laws]:
  "instance_path e = p \<Longrightarrow> checks m p (report m e) False"
  by (cases m) (auto simp: checks_def)

lemma checks_skip [check_laws]: "checks m p skip True"
  by (auto simp: checks_def skip_def)

lemma checks_if:
  "(b \<Longrightarrow> checks m p c1 P) \<Longrightarrow> (\<not> b \<Longrightarrow> checks m p c2 Q) \<Longrightarrow>
   checks m p (if b then c1 else c2) (if b then P else Q)"
  by simp

lemma checks_then_valid [check_laws]:
  assumes "checks m p c1 P" "checks m p c2 Q"
  shows "checks m p (then_valid c1 c2) (P \<and> Q)"
proof (rule checksI)
  fix st assume st: "coherent st"
  show "outcome m p st (P \<and> Q) (then_valid c1 c2 st)"
  proof (cases "c1 st")
    case (Inl es)
    with assms(1) st show ?thesis by (fastforce simp: then_valid_def checks_def)
  next
    case (Inr st')
    with assms(1) st have ext: "extends p st P st'" by (fastforce simp: checks_def)
    show ?thesis
    proof (cases P)
      case True
      with extends_errors_eq[OF st ext] have "st' = st" by simp
      with Inr True assms(2) st show ?thesis by (fastforce simp: then_valid_def checks_def split: sum.splits)
    next
      case False
      with extends_errors_eq[OF st ext] have "errors st' \<noteq> errors st" by simp
      with Inr False ext show ?thesis by (simp add: then_valid_def)
    qed
  qed
qed

lemma checks_seq [check_laws]:
  assumes "checks m p c1 P" "checks m p c2 Q"
  shows "checks m p (seq c1 c2) (P \<and> Q)"
proof (rule checksI)
  fix st assume st: "coherent st"
  show "outcome m p st (P \<and> Q) (seq c1 c2 st)"
  proof (cases "c1 st")
    case (Inl es)
    with assms(1) st show ?thesis by (fastforce simp: seq_def checks_def)
  next
    case (Inr s1)
    with assms(1) st have e1: "extends p st P s1" by (fastforce simp: checks_def)
    then obtain es where es: "error_list s1 = error_list st @ es" "located p es" "es = [] \<longleftrightarrow> P"
      and s1: "coherent s1" by (auto simp: extends_def)
    show ?thesis
    proof (cases "c2 s1")
      case (Inl fs)
      with assms(2) s1 have "m = Return" "\<not> Q" "fs \<noteq> []"
        "\<forall>e \<in> set fs. e \<in> set (error_list s1) \<or> prefix p (instance_path e)"
        by (fastforce simp: checks_def)+
      with es Inr Inl show ?thesis by (auto simp: seq_def located_def list_all_iff)
    next
      case (Inr s2)
      with assms(2) s1 have "extends p s1 Q s2" by (fastforce simp: checks_def)
      with es \<open>c1 st = Inr s1\<close> Inr show ?thesis by (auto simp: seq_def extends_def)
    qed
  qed
qed

lemma checks_properties_Nil [check_laws]: "checks m p (properties []) True"
  by (simp add: checks_skip)

lemma checks_properties_Cons [check_laws]:
  "checks m p c P \<Longrightarrow> checks m p (properties cs) Q \<Longrightarrow> checks m p (properties (c # cs)) (P \<and> Q)"
  by (simp add: checks_then_valid)

lemma checks_type [check_laws]:
  "checks m p (check_type m ts p sp d) (list_ex (\<lambda>t. has_type t d) ts)"
  by (auto simp: check_type_def type_error_def intro!: checks_skip checks_report[THEN checks_cong]
      intro: checks_skip[THEN checks_cong])

lemma checks_on_type [check_laws]:
  "(has_type t d \<Longrightarrow> checks m p c P) \<Longrightarrow> checks m p (on_type m t p sp d c) (has_type t d \<and> P)"
  by (cases "has_type t d")
     (auto simp: on_type_def type_error_def intro!: checks_report)

lemma checks_required [check_laws]:
  assumes "checks m p c P"
  shows "checks m p (required m ks p sp d c) (list_all (\<lambda>k. get_prop d k \<noteq> None) ks \<and> P)"
proof (cases "find (\<lambda>k. get_prop d k = None) ks")
  case None
  then have "list_all (\<lambda>k. get_prop d k \<noteq> None) ks" by (simp add: find_None_list_all)
  with None assms show ?thesis by (simp add: required_def)
next
  case (Some k)
  then have "\<not> list_all (\<lambda>k. get_prop d k \<noteq> None) ks"
    by (metis find_None_list_all option.distinct(1))
  with Some show ?thesis by (simp add: required_def required_error_def checks_report)
qed

lemma checks_no_additional [check_laws]:
  "checks m p (no_additional m ks p sp d) (list_all (\<lambda>k. k \<in> set ks) (own_keys d))"
proof (cases "find (\<lambda>k. k \<notin> set ks) (own_keys d)")
  case None
  then have "list_all (\<lambda>k. k \<in> set ks) (own_keys d)" by (simp add: find_None_list_all)
  with None show ?thesis by (simp add: no_additional_def checks_skip)
next
  case (Some k)
  then have "\<not> list_all (\<lambda>k. k \<in> set ks) (own_keys d)"
    by (metis (no_types, lifting) find_None_list_all option.distinct(1) list.pred_cong)
  with Some show ?thesis by (simp add: no_additional_def additional_error_def checks_report)
qed

lemma checks_on_prop [check_laws]:
  "(\<And>v. get_prop d k = Some v \<Longrightarrow> checks m (p @ q) (c v) (P v)) \<Longrightarrow>
   checks m p (on_prop d k c) (case get_prop d k of None \<Rightarrow> True | Some v \<Rightarrow> P v)"
  by (cases "get_prop d k") (auto simp: on_prop_def intro: checks_skip checks_sub)

lemma checks_const [check_laws]: "checks m p (check_const m v p sp d) (d = JStr v)"
  by (auto simp: check_const_def intro!: checks_report[THEN checks_cong]
      intro: checks_skip[THEN checks_cong])

lemma checks_enum [check_laws]:
  "checks m p (check_enum m vs p sp d) (list_ex (\<lambda>v. d = JStr v) vs)"
  by (auto simp: check_enum_def intro!: checks_report[THEN checks_cong]
      intro: checks_skip[THEN checks_cong])


definition in_range :: "nat option \<Rightarrow> nat \<Rightarrow> json \<Rightarrow> bool" where
  "in_range mx mn d = (case d of JNum (Finite q) \<Rightarrow>
       (case mx of Some v \<Rightarrow> q \<le> of_nat v | None \<Rightarrow> True) \<and> of_nat mn \<le> q
     | _ \<Rightarrow> True)"

lemma checks_range [check_laws]: "checks m p (check_range m mx mn p sp d) (in_range mx mn d)"
proof (cases "\<exists>q. d = JNum (Finite q)")
  case True
  then obtain q where d: "d = JNum (Finite q)" by blast
  show ?thesis
    by (cases mx) (auto simp: d check_range_def in_range_def limit_error_def not_less not_le
        intro!: checks_report[THEN checks_cong] intro: checks_skip[THEN checks_cong])
next
  case False
  then show ?thesis
    using checks_skip[of m p] by (auto simp: check_range_def in_range_def split: json.splits jsnum.splits)
qed

lemma checks_items_from:
  "(\<And>i v. v \<in> set vs \<Longrightarrow> checks m p (c i v) (P v)) \<Longrightarrow>
   checks m p (items_from i vs c) (list_all P vs)"
  by (induction vs arbitrary: i) (auto intro!: checks_skip checks_then_valid)

lemma checks_items [check_laws]:
  assumes "\<And>i v. v \<in> set (case d of JArr vs \<Rightarrow> vs | _ \<Rightarrow> []) \<Longrightarrow> checks m (p @ q i) (c i v) (P v)"
  shows "checks m p (items d c) (case d of JArr vs \<Rightarrow> list_all P vs | _ \<Rightarrow> True)"
proof (cases d)
  case (JArr vs)
  have "checks m p (c i v) (P v)" if "v \<in> set vs" for i v
    by (rule checks_sub[of m p "q i"], rule assms) (simp add: JArr that)
  then show ?thesis by (simp add: JArr checks_items_from)
qed (simp_all add: checks_skip)

section \<open>Alternatives\<close>

lemma coherent_error_list_Nil: "coherent st \<Longrightarrow> vErrors st = None \<longleftrightarrow> error_list st = []"
  by (auto simp: coherent_def error_list_def split: option.splits)

text \<open>Resetting after a valid alternative restores exactly the state before it.\<close>

lemma reset_extends:
  assumes "coherent st" "coherent st'" "error_list st' = error_list st @ es"
  shows "reset (errors st) st' = st"
proof (rule coherent_eqI)
  show "coherent (reset (errors st) st')" and "error_list (reset (errors st) st') = error_list st"
    using assms by (auto simp: reset_def coherent_def error_list_def split: option.splits)
qed fact

lemma any_branches_spec:
  assumes "list_all2 (checks Collect p) cs Ps" "coherent st"
  shows "\<exists>st' es. any_branches cs v st = Inr (v \<or> True \<in> set Ps, st') \<and> coherent st'
    \<and> error_list st' = error_list st @ es \<and> located p es"
  using assms
proof (induction cs Ps arbitrary: v st rule: list_all2_induct)
  case Nil
  then show ?case by (auto intro: exI[of _ "[]"])
next
  case (Cons c cs P Ps)
  then obtain s1 where s1: "c st = Inr s1" "extends p st P s1"
    by (cases "c st") (fastforce simp: checks_def)+
  then obtain es where es: "coherent s1" "error_list s1 = error_list st @ es" "located p es"
    by (auto simp: extends_def)
  have "errors s1 = errors st \<longleftrightarrow> P" using extends_errors_eq[OF Cons.prems s1(2)] by simp
  moreover obtain st' fs where "any_branches cs (v \<or> P) s1 = Inr ((v \<or> P) \<or> True \<in> set Ps, st')"
    "coherent st'" "error_list st' = error_list s1 @ fs" "located p fs"
    using Cons.IH[OF es(1)] by blast
  ultimately show ?case using s1(1) es by auto
qed

lemma fail_with_spec:
  assumes "coherent st" "coherent s1" "error_list s1 = error_list st @ es" "located p es"
    "instance_path e = p"
  shows "outcome m p st False (fail_with m e s1)"
  using assms by (cases m) (auto simp: extends_def located_def list_all_iff)

lemma checks_any_of [check_laws]:
  assumes "list_all2 (checks Collect p) cs Ps"
  shows "checks m p (any_of m p sp cs) (True \<in> set Ps)"
proof (rule checksI)
  fix st assume st: "coherent st"
  obtain st' es where b: "any_branches cs False st = Inr (True \<in> set Ps, st')" "coherent st'"
    "error_list st' = error_list st @ es" "located p es"
    using any_branches_spec[OF assms st, of False] by auto
  show "outcome m p st (True \<in> set Ps) (any_of m p sp cs st)"
  proof (cases "True \<in> set Ps")
    case True
    with b st show ?thesis by (simp add: any_of_def reset_extends)
  next
    case False
    with b(1) fail_with_spec[OF st b(2-4)] show ?thesis by (simp add: any_of_def)
  qed
qed

text \<open>How many of the conditions hold: exactly one, which is what \<open>oneOf\<close> asks.\<close>

definition exactly_one :: "bool list \<Rightarrow> bool" where
  "exactly_one Ps \<longleftrightarrow> length (filter id Ps) = 1"

lemma exactly_one_simps [simp]:
  "exactly_one [] \<longleftrightarrow> False"
  "exactly_one (P # Ps) \<longleftrightarrow> (if P then True \<notin> set Ps else exactly_one Ps)"
  by (auto simp: exactly_one_def filter_empty_conv)

lemma one_branches_spec:
  assumes "list_all2 (checks Collect p) cs Ps" "coherent st"
  shows "\<exists>pass' st' es. one_branches i cs v pass st
      = Inr (if v then True \<notin> set Ps else exactly_one Ps, pass', st') \<and> coherent st'
    \<and> error_list st' = error_list st @ es \<and> located p es"
  using assms
proof (induction cs Ps arbitrary: i v pass st rule: list_all2_induct)
  case Nil
  then show ?case by (auto intro: exI[of _ "[]"])
next
  case (Cons c cs P Ps)
  then obtain s1 where s1: "c st = Inr s1" "extends p st P s1"
    by (cases "c st") (fastforce simp: checks_def)+
  then obtain es where es: "coherent s1" "error_list s1 = error_list st @ es" "located p es"
    by (auto simp: extends_def)
  have P: "errors s1 = errors st \<longleftrightarrow> P" using extends_errors_eq[OF Cons.prems s1(2)] by simp
  show ?case
  proof (cases "P \<and> v")
    case True
    with P s1(1) es show ?thesis by auto
  next
    case False
    obtain pass' st' fs where IH: "one_branches (Suc i) cs (v \<or> P) (if P then PassingOne i else pass) s1
        = Inr (if v \<or> P then True \<notin> set Ps else exactly_one Ps, pass', st')"
      "coherent st'" "error_list st' = error_list s1 @ fs" "located p fs"
      using Cons.IH[OF es(1)] by blast
    have "one_branches i (c # cs) v pass st
        = one_branches (Suc i) cs (v \<or> P) (if P then PassingOne i else pass) s1"
      using s1(1) P False by auto
    with IH es False show ?thesis by auto
  qed
qed

lemma checks_one_of [check_laws]:
  assumes "list_all2 (checks Collect p) cs Ps"
  shows "checks m p (one_of m p sp cs) (exactly_one Ps)"
proof (rule checksI)
  fix st assume st: "coherent st"
  obtain pass' st' es where b: "one_branches 0 cs False NoPassing st = Inr (exactly_one Ps, pass', st')"
    "coherent st'" "error_list st' = error_list st @ es" "located p es"
    using one_branches_spec[OF assms st, of 0 False NoPassing] by auto
  show "outcome m p st (exactly_one Ps) (one_of m p sp cs st)"
  proof (cases "exactly_one Ps")
    case True
    with b st show ?thesis by (simp add: one_of_def reset_extends)
  next
    case False
    with b(1) fail_with_spec[OF st b(2-4)] show ?thesis by (simp add: one_of_def)
  qed
qed

lemma branches_laws [check_laws]:
  "list_all2 (checks Collect p) [] []"
  "checks Collect p c P \<Longrightarrow> list_all2 (checks Collect p) cs Ps \<Longrightarrow>
   list_all2 (checks Collect p) (c # cs) (P # Ps)"
  by simp_all

section \<open>Whole guards\<close>

definition validates :: "validator \<Rightarrow> (json \<Rightarrow> bool) \<Rightarrow> json \<Rightarrow> bool" where
  "validates v A d \<longleftrightarrow> (\<forall>p. if A d then v d p = (True, None)
     else \<exists>es. v d p = (False, Some es) \<and> es \<noteq> [] \<and> located p es)"

lemma validates_fst: "validates v A d \<Longrightarrow> fst (v d p) \<longleftrightarrow> A d"
  by (auto simp: validates_def dest!: spec[of _ p] split: if_splits)

lemma validates_run:
  assumes "\<And>p. v d p = run_guard (c p)" "\<And>p. checks m p (c p) (A d)"
  shows "validates v A d"
  unfolding validates_def
proof
  fix p
  show "if A d then v d p = (True, None)
     else \<exists>es. v d p = (False, Some es) \<and> es \<noteq> [] \<and> located p es"
  proof (cases "c p init_vstate")
    case (Inl es)
    with assms(2)[of p] show ?thesis
      by (auto simp: assms(1) run_guard_def located_def list_all_iff dest!: checksD[OF _ coherent_init])
  next
    case (Inr st)
    with assms(2)[of p] have "extends p init_vstate (A d) st"
      by (auto dest: checksD[OF _ coherent_init])
    then obtain es where "coherent st" "error_list st = es" "located p es" "es = [] \<longleftrightarrow> A d"
      by (auto simp: extends_def)
    with Inr show ?thesis
      by (cases "vErrors st") (auto simp: assms(1) run_guard_def coherent_def error_list_def)
  qed
qed

lemma absorb_simps:
  "es \<noteq> [] \<Longrightarrow> coherent (absorb es st)" "error_list (absorb es st) = error_list st @ es"
  by (auto simp: absorb_def coherent_def error_list_def split: option.splits)

lemma checks_call:
  assumes "validates v A d"
  shows "checks m p (call v d p) (A d)"
  using assms by (auto simp: checks_def validates_def call_def extends_def absorb_simps
      dest!: spec[of _ p] split: if_splits)

text \<open>
  The interface a caller of a guard relies on: what the guard accepts, and the shape of what
  it reports.
\<close>

locale guard =
  fixes validate :: validator and accepts :: "json \<Rightarrow> bool"
  assumes contract: "validates validate accepts d"
begin

lemma valid_iff: "fst (validate d p) \<longleftrightarrow> accepts d"
  using contract[of d] by (auto simp: validates_def dest!: spec[of _ p] split: if_splits)

lemma no_errors_iff: "snd (validate d p) = None \<longleftrightarrow> accepts d"
  using contract[of d] by (auto simp: validates_def dest!: spec[of _ p] split: if_splits)

lemma reported: "snd (validate d p) = Some es \<Longrightarrow> es \<noteq> [] \<and> located p es"
  using contract[of d] by (auto simp: validates_def dest!: spec[of _ p] split: if_splits)

lemma path_irrelevant: "fst (validate d p) = fst (validate d q)"
  by (simp add: valid_iff)

lemma call_law: "checks m p (call validate d p) (accepts d)"
  by (rule checks_call[OF contract])

end

end
