(* ===== verification/Json_Schema.thy ===== *)
theory Json_Schema
  imports Guard
begin

text \<open>
  The JSON Schemas the guards are generated from (the \<open>schemaN\<close> constants of
  \<open>ui/src/rpc-validators.js\<close>), in the subset they use, and what they mean: a declarative
  semantics that knows nothing of error lists, early returns or evaluation order.  References
  are interpreted by a parameter \<open>\<rho>\<close>, so that recursive definitions (a request that carries a
  network request that carries a request) are the equations \<open>models\<close> asks of \<open>\<rho>\<close>.
  Annotations (\<open>title\<close>, \<open>description\<close>, \<open>default\<close>, \<open>format\<close>) constrain nothing.
\<close>

datatype schema =
    SType "jtype list"
  | SEnum "string list"
  | SConst string
  | SInteger "nat option" nat
  | SObject "(string \<times> schema) list" "string list" bool
  | SArray schema
  | SAnyOf "schema list"
  | SOneOf "schema list"
  | SRef string
  | SNullable schema

fun conforms :: "(string \<Rightarrow> json \<Rightarrow> bool) \<Rightarrow> schema \<Rightarrow> json \<Rightarrow> bool" where
  "conforms \<rho> (SType ts) d = list_ex (\<lambda>t. has_type t d) ts"
| "conforms \<rho> (SEnum vs) d = (case d of JStr s \<Rightarrow> s \<in> set vs | _ \<Rightarrow> False)"
| "conforms \<rho> (SConst v) d = (d = JStr v)"
| "conforms \<rho> (SInteger mx mn) d = (case d of
     JNum (Finite q) \<Rightarrow> of_int \<lfloor>q\<rfloor> = q \<and> of_nat mn \<le> q
       \<and> (case mx of None \<Rightarrow> True | Some v \<Rightarrow> q \<le> of_nat v)
   | _ \<Rightarrow> False)"
| "conforms \<rho> (SObject ps req strict) d = (case d of
     JObj kvs \<Rightarrow> (\<forall>k \<in> set req. map_of kvs k \<noteq> None)
       \<and> (strict \<longrightarrow> fst ` set kvs \<subseteq> fst ` set ps)
       \<and> (\<forall>ks \<in> set ps. case map_of kvs (fst ks) of None \<Rightarrow> True | Some v \<Rightarrow> conforms \<rho> (snd ks) v)
   | _ \<Rightarrow> False)"
| "conforms \<rho> (SArray s) d = (case d of JArr vs \<Rightarrow> (\<forall>v \<in> set vs. conforms \<rho> s v) | _ \<Rightarrow> False)"
| "conforms \<rho> (SAnyOf ss) d = (\<exists>s \<in> set ss. conforms \<rho> s d)"
| "conforms \<rho> (SOneOf ss) d = (length (filter (\<lambda>s. conforms \<rho> s d) ss) = 1)"
| "conforms \<rho> (SRef r) d = \<rho> r d"
| "conforms \<rho> (SNullable s) d = (d = JNull \<or> conforms \<rho> s d)"

text \<open>A document's \<open>$defs\<close>, and an interpretation that satisfies all of them.\<close>

type_synonym defs = "(string \<times> schema) list"

definition models :: "(string \<Rightarrow> json \<Rightarrow> bool) \<Rightarrow> defs \<Rightarrow> bool" where
  "models \<rho> defs \<longleftrightarrow> list_all (\<lambda>(r, s). \<forall>d. \<rho> r d = conforms \<rho> s d) defs"

lemma modelsD: "models \<rho> defs \<Longrightarrow> map_of defs r = Some s \<Longrightarrow> \<rho> r d = conforms \<rho> s d"
  by (auto simp: models_def list_all_iff dest: map_of_SomeD)

text \<open>A document whose references are not recursive, resolved to a fixed depth.\<close>

fun unroll :: "nat \<Rightarrow> defs \<Rightarrow> string \<Rightarrow> json \<Rightarrow> bool" where
  "unroll 0 defs r d = False"
| "unroll (Suc n) defs r d = (case map_of defs r of None \<Rightarrow> False | Some s \<Rightarrow> conforms (unroll n defs) s d)"

fun refs_of :: "schema \<Rightarrow> string list" where
  "refs_of (SRef r) = [r]"
| "refs_of (SObject ps _ _) = concat (map (\<lambda>ks. refs_of (snd ks)) ps)"
| "refs_of (SArray s) = refs_of s"
| "refs_of (SAnyOf ss) = concat (map refs_of ss)"
| "refs_of (SOneOf ss) = concat (map refs_of ss)"
| "refs_of (SNullable s) = refs_of s"
| "refs_of _ = []"

text \<open>Only the references a schema mentions matter.\<close>

lemma conforms_refs:
  "(\<And>r d. r \<in> set (refs_of s) \<Longrightarrow> \<rho> r d = \<rho>' r d) \<Longrightarrow> conforms \<rho> s d = conforms \<rho>' s d"
proof (induction \<rho> s d rule: conforms.induct)
  case (5 \<rho> ps req strict d)
  have step: "conforms \<rho> (snd ks) v = conforms \<rho>' (snd ks) v"
    if "d = JObj kvs" "ks \<in> set ps" "map_of kvs (fst ks) = Some v" for kvs ks v
    using that by (intro "5.IH") (auto intro!: "5.prems")
  show ?case
    by (auto split: json.splits option.splits simp: step)
next
  case (7 \<rho> ss d)
  then have "conforms \<rho> s d = conforms \<rho>' s d" if "s \<in> set ss" for s
    using that by auto
  then show ?case by simp
next
  case (8 \<rho> ss d)
  then have "filter (\<lambda>s. conforms \<rho> s d) ss = filter (\<lambda>s. conforms \<rho>' s d) ss"
    by (intro filter_cong) auto
  then show ?case by simp
qed (auto split: json.splits)

text \<open>References that resolve within \<open>n\<close> steps.\<close>

fun resolved :: "nat \<Rightarrow> defs \<Rightarrow> string \<Rightarrow> bool" where
  "resolved 0 defs r = False"
| "resolved (Suc n) defs r = (case map_of defs r of None \<Rightarrow> False
     | Some s \<Rightarrow> list_all (resolved n defs) (refs_of s))"

lemma unroll_stable: "resolved n defs r \<Longrightarrow> n \<le> m \<Longrightarrow> unroll m defs r d = unroll n defs r d"
proof (induction n arbitrary: m r d)
  case (Suc n)
  from Suc.prems obtain m' where m: "m = Suc m'" "n \<le> m'" by (cases m) auto
  from Suc.prems obtain s where s: "map_of defs r = Some s" "list_all (resolved n defs) (refs_of s)"
    by (auto split: option.splits)
  have "conforms (unroll m' defs) s d = conforms (unroll n defs) s d"
  proof (rule conforms_refs)
    fix r d assume "r \<in> set (refs_of s)"
    with s have "resolved n defs r" by (simp add: list_all_iff)
    then show "unroll m' defs r d = unroll n defs r d" using m(2) by (rule Suc.IH)
  qed
  with s m show ?case by simp
qed simp

lemma models_unroll:
  assumes "distinct (map fst defs)" "list_all (resolved n defs) (map fst defs)"
  shows "models (unroll n defs) defs"
  unfolding models_def list_all_iff
proof (clarify)
  fix r s d assume rs: "(r, s) \<in> set defs"
  with assms have s: "map_of defs r = Some s" and ok: "resolved n defs r"
    by (force simp: list_all_iff)+
  then obtain k where n: "n = Suc k" by (cases n) auto
  have "conforms (unroll k defs) s d = conforms (unroll n defs) s d"
  proof (rule conforms_refs)
    fix r d assume "r \<in> set (refs_of s)"
    with s ok n have "resolved k defs r" by (simp add: list_all_iff)
    then show "unroll k defs r d = unroll n defs r d"
      using unroll_stable[of k defs r n d] n by simp
  qed
  with s n show "unroll n defs r d = conforms (unroll n defs) s d" by simp
qed

lemma conforms_flat: "refs_of s = [] \<Longrightarrow> conforms \<rho> s d = conforms \<rho>' s d"
  by (rule conforms_refs) simp

section \<open>The meaning of a document\<close>

text \<open>
  A definition is guarded when its references describe properties or items, so only smaller values.
  Then recursion through references is well founded: unrolling them once more than a value is deep
  settles it, and every interpretation that satisfies the definitions is this one.
\<close>

fun guarded :: "schema \<Rightarrow> bool" where
  "guarded (SRef r) = False"
| "guarded (SAnyOf ss) = list_all guarded ss"
| "guarded (SOneOf ss) = list_all guarded ss"
| "guarded (SNullable s) = guarded s"
| "guarded _ = True"

definition meaning :: "defs \<Rightarrow> string \<Rightarrow> json \<Rightarrow> bool" where
  "meaning defs r d = unroll (Suc (size d)) defs r d"

lemma size_member: "(k, v) \<in> set kvs \<Longrightarrow> size v < size (JObj kvs)"
proof -
  assume "(k, v) \<in> set kvs"
  then have "size v \<le> size_list (size_prod (\<lambda>_. 0) size) kvs" by (induction kvs) auto
  then show ?thesis by simp
qed

lemma size_item: "v \<in> set vs \<Longrightarrow> size v < size (JArr vs)"
  by (induction vs) auto

text \<open>Only the values at hand matter: all of them, or the smaller ones when the schema is guarded.\<close>

lemma conforms_local:
  "(\<And>r x. r \<in> set (refs_of s) \<Longrightarrow> size x \<le> size d \<Longrightarrow> \<rho> r x = \<rho>' r x) \<Longrightarrow> conforms \<rho> s d = conforms \<rho>' s d"
proof (induction \<rho> s d rule: conforms.induct)
  case (5 \<rho> ps req strict d)
  have "conforms \<rho> (snd ks) v = conforms \<rho>' (snd ks) v"
    if "d = JObj kvs" "ks \<in> set ps" "map_of kvs (fst ks) = Some v" for kvs ks v
  proof -
    have "size v < size d" using that size_member [of "fst ks" v kvs] by (simp add: map_of_SomeD)
    then show ?thesis using that by (intro "5.IH") (auto intro!: "5.prems")
  qed
  then show ?case by (auto split: json.splits option.splits)
next
  case (6 \<rho> s d)
  have "conforms \<rho> s v = conforms \<rho>' s v" if "d = JArr vs" "v \<in> set vs" for vs v
    using that size_item [of v vs] by (intro "6.IH") (auto intro!: "6.prems")
  then show ?case by (auto split: json.splits)
next
  case (7 \<rho> ss d)
  have "conforms \<rho> s d = conforms \<rho>' s d" if "s \<in> set ss" for s
    using that by (intro "7.IH" "7.prems") auto
  then show ?case by simp
next
  case (8 \<rho> ss d)
  have "filter (\<lambda>s. conforms \<rho> s d) ss = filter (\<lambda>s. conforms \<rho>' s d) ss"
    by (intro filter_cong refl "8.IH" "8.prems") auto
  then show ?case by simp
qed (auto split: json.splits)

lemma conforms_guarded:
  "guarded s \<Longrightarrow> (\<And>r x. r \<in> set (refs_of s) \<Longrightarrow> size x < size d \<Longrightarrow> \<rho> r x = \<rho>' r x) \<Longrightarrow> conforms \<rho> s d = conforms \<rho>' s d"
proof (induction \<rho> s d rule: conforms.induct)
  case (5 \<rho> ps req strict d)
  have "conforms \<rho> (snd ks) v = conforms \<rho>' (snd ks) v"
    if "d = JObj kvs" "ks \<in> set ps" "map_of kvs (fst ks) = Some v" for kvs ks v
  proof -
    have "size v < size d" using that size_member [of "fst ks" v kvs] by (simp add: map_of_SomeD)
    then show ?thesis using that by (intro conforms_local "5.prems") auto
  qed
  then show ?case by (auto split: json.splits option.splits)
next
  case (6 \<rho> s d)
  have "conforms \<rho> s v = conforms \<rho>' s v" if "d = JArr vs" "v \<in> set vs" for vs v
    using that size_item [of v vs] by (intro conforms_local "6.prems") auto
  then show ?case by (auto split: json.splits)
next
  case (7 \<rho> ss d)
  have "conforms \<rho> s d = conforms \<rho>' s d" if "s \<in> set ss" for s
    using that "7.prems"(1) by (intro "7.IH" "7.prems"(2)) (auto simp: list_all_iff)
  then show ?case by simp
next
  case (8 \<rho> ss d)
  have "filter (\<lambda>s. conforms \<rho> s d) ss = filter (\<lambda>s. conforms \<rho>' s d) ss"
    using "8.prems"(1) by (intro filter_cong refl "8.IH" "8.prems"(2)) (auto simp: list_all_iff)
  then show ?case by simp
qed (auto split: json.splits)

definition well_founded_defs :: "defs \<Rightarrow> bool" where
  "well_founded_defs defs \<longleftrightarrow> distinct (map fst defs) \<and>
     list_all (\<lambda>(r, s). guarded s \<and> list_all (\<lambda>q. map_of defs q \<noteq> None) (refs_of s)) defs"

lemma well_founded_defsD:
  "well_founded_defs defs \<Longrightarrow> map_of defs r = Some s \<Longrightarrow> guarded s \<and> set (refs_of s) \<subseteq> dom (map_of defs)"
  by (force simp: well_founded_defs_def list_all_iff dest: map_of_SomeD)

lemma unroll_settles:
  assumes "well_founded_defs defs"
  shows "size d < n \<Longrightarrow> size d < m \<Longrightarrow> unroll n defs r d = unroll m defs r d"
proof (induction "size d" arbitrary: d n m r rule: less_induct)
  case less
  obtain n' m' where n: "n = Suc n'" "m = Suc m'" using less.prems by (cases n; cases m) auto
  have "unroll n' defs q x = unroll m' defs q x" if "size x < size d" for q x
    using less.prems that by (intro less.hyps) (auto simp: n)
  then have "conforms (unroll n' defs) s d = conforms (unroll m' defs) s d" if "map_of defs r = Some s" for s
    using well_founded_defsD [OF assms that] by (intro conforms_guarded) auto
  then show ?case unfolding n by (cases "map_of defs r") simp_all
qed

lemma meaning_eq:
  assumes "well_founded_defs defs" "map_of defs r = Some s"
  shows "meaning defs r d = conforms (meaning defs) s d"
proof -
  have "unroll (size d) defs q x = meaning defs q x" if "size x < size d" for q x
    unfolding meaning_def using that by (intro unroll_settles assms(1)) auto
  then have "conforms (unroll (size d) defs) s d = conforms (meaning defs) s d"
    using well_founded_defsD [OF assms] by (intro conforms_guarded) auto
  then show ?thesis by (simp add: meaning_def [of defs r d] assms(2))
qed

lemma meaning_models: "well_founded_defs defs \<Longrightarrow> models (meaning defs) defs"
  by (auto simp: models_def list_all_iff well_founded_defs_def intro!: meaning_eq)

lemma meaning_unique:
  assumes "well_founded_defs defs" "models \<rho> defs"
  shows "r \<in> dom (map_of defs) \<Longrightarrow> \<rho> r d = meaning defs r d"
proof (induction "size d" arbitrary: d r rule: less_induct)
  case less
  then obtain s where s: "map_of defs r = Some s" by blast
  have "conforms \<rho> s d = conforms (meaning defs) s d"
    using well_founded_defsD [OF assms(1) s] by (intro conforms_guarded less.hyps) blast+
  then show ?case using modelsD [OF assms(2) s] meaning_eq [OF assms(1) s] by simp
qed

text \<open>A value is valid for a document: its root schema, with the references the document defines.\<close>

definition accepts :: "schema \<Rightarrow> defs \<Rightarrow> json \<Rightarrow> bool" where
  "accepts s defs d = conforms (meaning defs) s d"

lemma accepts_unique:
  assumes "well_founded_defs defs" "models \<rho> defs" "set (refs_of s) \<subseteq> dom (map_of defs)"
  shows "conforms \<rho> s d = accepts s defs d"
  unfolding accepts_def using assms(3) by (intro conforms_refs meaning_unique [OF assms(1,2)]) blast

section \<open>From emitted statements to schemas\<close>

text \<open>
  The conditions of the statement laws, in the order the emitted code checks them, are the
  schema's meaning.
\<close>

lemma get_prop_object: "is_object d \<Longrightarrow> get_prop d k = (case d of JObj kvs \<Rightarrow> map_of kvs k | _ \<Rightarrow> None)"
  by (cases d) simp_all

fun props_conform :: "(string \<Rightarrow> json \<Rightarrow> bool) \<Rightarrow> (string \<times> schema) list \<Rightarrow> json \<Rightarrow> bool" where
  "props_conform \<rho> [] d = True"
| "props_conform \<rho> ((k, s) # ps) d =
     ((case get_prop d k of None \<Rightarrow> True | Some v \<Rightarrow> conforms \<rho> s v) \<and> props_conform \<rho> ps d)"

lemma props_conform_iff:
  "props_conform \<rho> ps d \<longleftrightarrow>
   (\<forall>ks \<in> set ps. case get_prop d (fst ks) of None \<Rightarrow> True | Some v \<Rightarrow> conforms \<rho> (snd ks) v)"
  by (induction ps) (auto split: option.splits)

lemma checks_open_object [conform_laws]:
  assumes "checks m p c (props_conform \<rho> ps d)"
  shows "checks m p (on_type m TObject p sp d (required m req p sp' d c)) (conforms \<rho> (SObject ps req False) d)"
proof (rule checks_cong[OF checks_on_type[OF checks_required[OF assms]]])
  show "(has_type TObject d \<and> list_all (\<lambda>k. get_prop d k \<noteq> None) req \<and> props_conform \<rho> ps d)
      = conforms \<rho> (SObject ps req False) d"
    by (cases d) (auto simp: props_conform_iff list_all_iff)
qed

lemma checks_closed_object [conform_laws]:
  assumes "set ks = fst ` set ps" and "checks m p c (props_conform \<rho> ps d)"
  shows "checks m p (on_type m TObject p sp d (required m req p sp' d
     (then_valid (no_additional m ks p sp'' d) c))) (conforms \<rho> (SObject ps req True) d)"
proof (rule checks_cong[OF checks_on_type[OF checks_required[OF
        checks_then_valid[OF checks_no_additional assms(2)]]]])
  show "(has_type TObject d \<and> list_all (\<lambda>k. get_prop d k \<noteq> None) req
      \<and> list_all (\<lambda>k. k \<in> set ks) (own_keys d) \<and> props_conform \<rho> ps d)
      = conforms \<rho> (SObject ps req True) d"
    using assms(1) by (cases d) (auto simp: props_conform_iff list_all_iff)
qed

lemma checks_props [conform_laws]:
  shows "checks m p (properties []) (props_conform \<rho> [] d)"
    and "(\<And>v. get_prop d k = Some v \<Longrightarrow> checks m (at_prop p k) (c v) (conforms \<rho> s v)) \<Longrightarrow>
     checks m p (properties cs) (props_conform \<rho> ps d) \<Longrightarrow>
     checks m p (properties (on_prop d k c # cs)) (props_conform \<rho> ((k, s) # ps) d)"
  unfolding properties.simps props_conform.simps at_prop_def
  by (rule checks_skip) (intro checks_then_valid checks_on_prop[where q = "''/'' @ k"])

lemma checks_stype [conform_laws]: "checks m p (check_type m ts p sp d) (conforms \<rho> (SType ts) d)"
  by (simp add: checks_type)

lemma checks_sconst [conform_laws]:
  "checks m p (seq (check_type m [TString] p sp d) (check_const m v p sp' d)) (conforms \<rho> (SConst v) d)"
  by (rule checks_cong[OF checks_seq[OF checks_type checks_const]]) auto

lemma checks_senum [conform_laws]:
  "checks m p (seq (check_type m [TString] p sp d) (check_enum m vs p sp' d)) (conforms \<rho> (SEnum vs) d)"
  by (rule checks_cong[OF checks_seq[OF checks_type checks_enum]])
     (auto simp: list_ex_iff split: json.splits)

lemma checks_sinteger [conform_laws]:
  "checks m p (then_valid (check_type m [TInteger] p sp d) (check_range m mx mn p sp' d))
     (conforms \<rho> (SInteger mx mn) d)"
  by (rule checks_cong[OF checks_then_valid[OF checks_type checks_range]])
     (auto simp: in_range_def js_integer_def split: json.splits jsnum.splits option.splits)

lemma checks_sarray [conform_laws]:
  assumes "\<And>i v. v \<in> set (case d of JArr vs \<Rightarrow> vs | _ \<Rightarrow> []) \<Longrightarrow>
    checks m (at_index p i) (c i v) (conforms \<rho> s v)"
  shows "checks m p (on_type m TArray p sp d (items d c)) (conforms \<rho> (SArray s) d)"
proof (rule checks_cong[OF checks_on_type[OF checks_items[where P = "conforms \<rho> s"]]])
  fix i v assume "v \<in> set (case d of JArr vs \<Rightarrow> vs | _ \<Rightarrow> [])"
  then show "checks m (p @ ''/'' @ decimal i) (c i v) (conforms \<rho> s v)"
    using assms by (simp add: at_index_def)
qed (auto simp: list_all_iff split: json.splits)

lemma checks_sany_of [conform_laws]:
  assumes "list_all2 (\<lambda>c s. checks Collect p c (conforms \<rho> s d)) cs ss"
  shows "checks m p (any_of m p sp cs) (conforms \<rho> (SAnyOf ss) d)"
proof (rule checks_cong[OF checks_any_of])
  show "list_all2 (checks Collect p) cs (map (\<lambda>s. conforms \<rho> s d) ss)"
    using assms by (simp add: list_all2_conv_all_nth)
  show "(True \<in> set (map (\<lambda>s. conforms \<rho> s d) ss)) = conforms \<rho> (SAnyOf ss) d" by auto
qed

lemma checks_sone_of [conform_laws]:
  assumes "list_all2 (\<lambda>c s. checks Collect p c (conforms \<rho> s d)) cs ss"
  shows "checks m p (one_of m p sp cs) (conforms \<rho> (SOneOf ss) d)"
proof (rule checks_cong[OF checks_one_of])
  show "list_all2 (checks Collect p) cs (map (\<lambda>s. conforms \<rho> s d) ss)"
    using assms by (simp add: list_all2_conv_all_nth)
  show "exactly_one (map (\<lambda>s. conforms \<rho> s d) ss) = conforms \<rho> (SOneOf ss) d"
    by (simp add: exactly_one_def filter_map comp_def)
qed

lemma checks_nullable_integer [conform_laws]:
  "checks m p (then_valid (check_type m [TInteger, TNull] p sp d) (check_range m mx mn p sp' d))
     (conforms \<rho> (SNullable (SInteger mx mn)) d)"
  by (rule checks_cong[OF checks_then_valid[OF checks_type checks_range]])
     (auto simp: in_range_def js_integer_def split: json.splits jsnum.splits option.splits)

lemma checks_nullable_array [conform_laws]:
  assumes "\<And>i v. v \<in> set (case d of JArr vs \<Rightarrow> vs | _ \<Rightarrow> []) \<Longrightarrow>
    checks m (at_index p i) (c i v) (conforms \<rho> s v)"
  shows "checks m p (then_valid (check_type m [TArray, TNull] p sp d) (items d c)) (conforms \<rho> (SNullable (SArray s)) d)"
proof (rule checks_cong[OF checks_then_valid[OF checks_type checks_items[where P = "conforms \<rho> s"]]])
  fix i v assume "v \<in> set (case d of JArr vs \<Rightarrow> vs | _ \<Rightarrow> [])"
  then show "checks m (p @ ''/'' @ decimal i) (c i v) (conforms \<rho> s v)"
    using assms by (simp add: at_index_def)
qed (auto simp: list_all_iff split: json.splits)

lemma checks_empty_object [conform_laws]:
  "checks m p (on_type m TObject p sp d (no_additional m [] p sp' d)) (conforms \<rho> (SObject [] [] True) d)"
  by (rule checks_cong[OF checks_on_type[OF checks_no_additional]]) (cases d; auto simp: list_all_iff)

lemma checks_optional_object [conform_laws]:
  assumes "set ks = fst ` set ps" and "checks m p c (props_conform \<rho> ps d)"
  shows "checks m p (on_type m TObject p sp d
     (then_valid (no_additional m ks p sp'' d) c)) (conforms \<rho> (SObject ps [] True) d)"
proof (rule checks_cong[OF checks_on_type[OF checks_then_valid[OF checks_no_additional assms(2)]]])
  show "(has_type TObject d \<and> list_all (\<lambda>k. k \<in> set ks) (own_keys d) \<and> props_conform \<rho> ps d)
      = conforms \<rho> (SObject ps [] True) d"
    using assms(1) by (cases d) (auto simp: props_conform_iff list_all_iff)
qed

lemma checks_sref:
  assumes "models \<rho> defs" "map_of defs r = Some s" "checks m p c (conforms \<rho> s d)"
  shows "checks m p c (conforms \<rho> (SRef r) d)"
  using assms modelsD[OF assms(1,2)] by simp

lemma branch_schemas [conform_laws]:
  "list_all2 (\<lambda>c s. checks Collect p c (conforms \<rho> s d)) [] []"
  "checks Collect p c (conforms \<rho> s d) \<Longrightarrow>
   list_all2 (\<lambda>c s. checks Collect p c (conforms \<rho> s d)) cs ss \<Longrightarrow>
   list_all2 (\<lambda>c s. checks Collect p c (conforms \<rho> s d)) (c # cs) (s # ss)"
  by simp_all

end
