(* ===== verification/History_Guards.thy ===== *)
theory History_Guards
  imports Json_Schema
begin

text \<open>
  The guards of the \<open>history_details\<close> method of \<open>ui/src/rpc-validators.js\<close>: its arguments
  (\<open>validate20\<close>), its result page (\<open>validate21\<close>, over messages \<open>validate22\<close> and action
  results \<open>validate23\<close>) and its error (\<open>validate26\<close>), each beside the schema constant it was
  generated from, with the theorem that it accepts exactly what the schema describes.  A part
  of a guard that the code inlines and that stands for a schema of its own is a definition of
  its own, named after the property it checks.
\<close>

section \<open>The schemas\<close>

definition schema37 :: schema where
  "schema37 = SObject
    [(''name'', SType [TString]),
     (''url'', SType [TString])]
    [''name'', ''url''] False"

definition schema36 :: schema where
  "schema36 = SObject
    [(''artifacts'', SArray (SRef ''Artifact'')),
     (''details'', SArray (SType [TString])),
     (''id'', SType [TString]),
     (''messageId'', SType [TString, TNull]),
     (''outputBase64'', SType [TString, TNull]),
     (''state'', SType [TString]),
     (''stderr'', SType [TBoolean])]
    [''id'', ''state'', ''stderr'', ''details'', ''artifacts''] False"

definition schema35 :: schema where
  "schema35 = SEnum [''text'', ''action'', ''notice'']"

definition schema34 :: schema where
  "schema34 = SEnum [''local_accepted'', ''delivered'', ''service_accepted'', ''failed'']"

definition schema33 :: schema where
  "schema33 = SObject
    [(''body'', SType [TString]),
     (''conversationId'', SType [TString]),
     (''delivery'', SAnyOf [SRef ''Delivery'', SType [TNull]]),
     (''highlighted'', SType [TBoolean, TNull]),
     (''id'', SType [TString]),
     (''memberId'', SType [TString, TNull]),
     (''messageKind'', SAnyOf [SRef ''MessageKind'', SType [TNull]]),
     (''mine'', SType [TBoolean]),
     (''nickname'', SType [TString]),
     (''operationId'', SType [TString, TNull]),
     (''result'', SAnyOf [SRef ''ActionResult'', SType [TNull]]),
     (''timestamp'', SInteger None 0)]
    [''id'', ''conversationId'', ''nickname'', ''body'', ''timestamp'', ''mine''] False"

definition schema31 :: schema where
  "schema31 = SObject
    [(''before'', SType [TString, TNull]),
     (''conversation'', SType [TString]),
     (''limit'', SInteger (Some 65535) 0)]
    [''conversation'', ''limit''] True"

definition schema32 :: schema where
  "schema32 = SObject
    [(''before'', SType [TString, TNull]),
     (''messages'', SArray (SRef ''Message''))]
    [''messages''] False"

definition schema38 :: schema where
  "schema38 = SObject
    [(''code'', SType [TString]),
     (''message'', SType [TString])]
    [''code'', ''message''] True"

definition schema32_defs :: defs where
  "schema32_defs = [(''ActionResult'', schema36), (''Artifact'', schema37), (''Delivery'', schema34), (''Message'', schema33), (''MessageKind'', schema35)]"

section \<open>The guards\<close>

definition validate20 :: "validator" where
  "validate20 data instancePath = run_guard (on_type Return TObject instancePath ''#/type'' data
    (required Return [''conversation'', ''limit''] instancePath ''#/required'' data
    (then_valid (no_additional Return [''before'', ''conversation'', ''limit''] instancePath ''#/additionalProperties'' data)
    (properties [
      on_prop data ''before'' (\<lambda>data0. check_type Return [TString, TNull] (at_prop instancePath ''before'') ''#/properties/before/type'' data0),
      on_prop data ''conversation'' (\<lambda>v. check_type Return [TString] (at_prop instancePath ''conversation'') ''#/properties/conversation/type'' v),
      on_prop data ''limit'' (\<lambda>data2. then_valid (check_type Return [TInteger] (at_prop instancePath ''limit'') ''#/properties/limit/type'' data2) (check_range Return (Some 65535) 0 (at_prop instancePath ''limit'') ''#/properties/limit'' data2))]))))"

definition validate23_artifacts_item :: "json \<Rightarrow> string \<Rightarrow> step" where
  "validate23_artifacts_item data p = on_type Return TObject p ''#/$defs/Artifact/type'' data
    (required Return [''name'', ''url''] p ''#/$defs/Artifact/required'' data
    (properties [
      on_prop data ''name'' (\<lambda>v. check_type Return [TString] (at_prop p ''name'') ''#/$defs/Artifact/properties/name/type'' v),
      on_prop data ''url'' (\<lambda>v. check_type Return [TString] (at_prop p ''url'') ''#/$defs/Artifact/properties/url/type'' v)]))"

definition validate23 :: "validator" where
  "validate23 data instancePath = run_guard (on_type Return TObject instancePath ''#/type'' data
    (required Return [''id'', ''state'', ''stderr'', ''details'', ''artifacts''] instancePath ''#/required'' data
    (properties [
      on_prop data ''artifacts'' (\<lambda>data0. on_type Return TArray (at_prop instancePath ''artifacts'') ''#/properties/artifacts/type'' data0
    (items data0 (\<lambda>i0 data1. validate23_artifacts_item data1 (at_index (at_prop instancePath ''artifacts'') i0)))),
      on_prop data ''details'' (\<lambda>data4. on_type Return TArray (at_prop instancePath ''details'') ''#/properties/details/type'' data4
    (items data4 (\<lambda>i1 item. check_type Return [TString] (at_index (at_prop instancePath ''details'') i1) ''#/properties/details/items/type'' item))),
      on_prop data ''id'' (\<lambda>v. check_type Return [TString] (at_prop instancePath ''id'') ''#/properties/id/type'' v),
      on_prop data ''messageId'' (\<lambda>data7. check_type Return [TString, TNull] (at_prop instancePath ''messageId'') ''#/properties/messageId/type'' data7),
      on_prop data ''outputBase64'' (\<lambda>data8. check_type Return [TString, TNull] (at_prop instancePath ''outputBase64'') ''#/properties/outputBase64/type'' data8),
      on_prop data ''state'' (\<lambda>v. check_type Return [TString] (at_prop instancePath ''state'') ''#/properties/state/type'' v),
      on_prop data ''stderr'' (\<lambda>v. check_type Return [TBoolean] (at_prop instancePath ''stderr'') ''#/properties/stderr/type'' v)])))"

definition validate22_delivery :: "json \<Rightarrow> string \<Rightarrow> step" where
  "validate22_delivery data p = any_of Return p ''#/properties/delivery/anyOf'' [
      seq (check_type Collect [TString] p ''#/$defs/Delivery/type'' data) (check_enum Collect [''local_accepted'', ''delivered'', ''service_accepted'', ''failed''] p ''#/$defs/Delivery/enum'' data),
      check_type Collect [TNull] p ''#/properties/delivery/anyOf/1/type'' data]"

definition validate22_messageKind :: "json \<Rightarrow> string \<Rightarrow> step" where
  "validate22_messageKind data p = any_of Return p ''#/properties/messageKind/anyOf'' [
      seq (check_type Collect [TString] p ''#/$defs/MessageKind/type'' data) (check_enum Collect [''text'', ''action'', ''notice''] p ''#/$defs/MessageKind/enum'' data),
      check_type Collect [TNull] p ''#/properties/messageKind/anyOf/1/type'' data]"

definition validate22_result :: "json \<Rightarrow> string \<Rightarrow> step" where
  "validate22_result data p = any_of Return p ''#/properties/result/anyOf'' [
      call validate23 data p,
      check_type Collect [TNull] p ''#/properties/result/anyOf/1/type'' data]"

definition validate22 :: "validator" where
  "validate22 data instancePath = run_guard (on_type Return TObject instancePath ''#/type'' data
    (required Return [''id'', ''conversationId'', ''nickname'', ''body'', ''timestamp'', ''mine''] instancePath ''#/required'' data
    (properties [
      on_prop data ''body'' (\<lambda>v. check_type Return [TString] (at_prop instancePath ''body'') ''#/properties/body/type'' v),
      on_prop data ''conversationId'' (\<lambda>v. check_type Return [TString] (at_prop instancePath ''conversationId'') ''#/properties/conversationId/type'' v),
      on_prop data ''delivery'' (\<lambda>data2. validate22_delivery data2 (at_prop instancePath ''delivery'')),
      on_prop data ''highlighted'' (\<lambda>data3. check_type Return [TBoolean, TNull] (at_prop instancePath ''highlighted'') ''#/properties/highlighted/type'' data3),
      on_prop data ''id'' (\<lambda>v. check_type Return [TString] (at_prop instancePath ''id'') ''#/properties/id/type'' v),
      on_prop data ''memberId'' (\<lambda>data5. check_type Return [TString, TNull] (at_prop instancePath ''memberId'') ''#/properties/memberId/type'' data5),
      on_prop data ''messageKind'' (\<lambda>data6. validate22_messageKind data6 (at_prop instancePath ''messageKind'')),
      on_prop data ''mine'' (\<lambda>v. check_type Return [TBoolean] (at_prop instancePath ''mine'') ''#/properties/mine/type'' v),
      on_prop data ''nickname'' (\<lambda>v. check_type Return [TString] (at_prop instancePath ''nickname'') ''#/properties/nickname/type'' v),
      on_prop data ''operationId'' (\<lambda>data9. check_type Return [TString, TNull] (at_prop instancePath ''operationId'') ''#/properties/operationId/type'' data9),
      on_prop data ''result'' (\<lambda>data10. validate22_result data10 (at_prop instancePath ''result'')),
      on_prop data ''timestamp'' (\<lambda>data11. then_valid (check_type Return [TInteger] (at_prop instancePath ''timestamp'') ''#/properties/timestamp/type'' data11) (check_range Return None 0 (at_prop instancePath ''timestamp'') ''#/properties/timestamp'' data11))])))"

definition validate21 :: "validator" where
  "validate21 data instancePath = run_guard (on_type Return TObject instancePath ''#/type'' data
    (required Return [''messages''] instancePath ''#/required'' data
    (properties [
      on_prop data ''before'' (\<lambda>data0. check_type Return [TString, TNull] (at_prop instancePath ''before'') ''#/properties/before/type'' data0),
      on_prop data ''messages'' (\<lambda>data1. on_type Return TArray (at_prop instancePath ''messages'') ''#/properties/messages/type'' data1
    (items data1 (\<lambda>i0 item. call validate22 item (at_index (at_prop instancePath ''messages'') i0))))])))"

definition validate26 :: "validator" where
  "validate26 data instancePath = run_guard (on_type Return TObject instancePath ''#/type'' data
    (required Return [''code'', ''message''] instancePath ''#/required'' data
    (then_valid (no_additional Return [''code'', ''message''] instancePath ''#/additionalProperties'' data)
    (properties [
      on_prop data ''code'' (\<lambda>v. check_type Return [TString] (at_prop instancePath ''code'') ''#/properties/code/type'' v),
      on_prop data ''message'' (\<lambda>v. check_type Return [TString] (at_prop instancePath ''message'') ''#/properties/message/type'' v)]))))"

section \<open>Each guard implements its schema\<close>

locale history_schema =
  fixes \<rho> :: "string \<Rightarrow> json \<Rightarrow> bool"
  assumes models: "models \<rho> schema32_defs"
begin

lemma ref_ActionResult [guard_parts]:
  "checks m p c (conforms \<rho> schema36 d) \<Longrightarrow> checks m p c (conforms \<rho> (SRef ''ActionResult'') d)"
  by (rule checks_sref[OF models, where s = "schema36"], simp add: schema32_defs_def, assumption)

lemma ref_Artifact [guard_parts]:
  "checks m p c (conforms \<rho> schema37 d) \<Longrightarrow> checks m p c (conforms \<rho> (SRef ''Artifact'') d)"
  by (rule checks_sref[OF models, where s = "schema37"], simp add: schema32_defs_def, assumption)

lemma ref_Delivery [guard_parts]:
  "checks m p c (conforms \<rho> (SEnum [''local_accepted'', ''delivered'', ''service_accepted'', ''failed'']) d) \<Longrightarrow> checks m p c (conforms \<rho> (SRef ''Delivery'') d)"
  by (rule checks_sref[OF models, where s = "(SEnum [''local_accepted'', ''delivered'', ''service_accepted'', ''failed''])"], simp add: schema32_defs_def schema34_def, assumption)

lemma ref_Message [guard_parts]:
  "checks m p c (conforms \<rho> schema33 d) \<Longrightarrow> checks m p c (conforms \<rho> (SRef ''Message'') d)"
  by (rule checks_sref[OF models, where s = "schema33"], simp add: schema32_defs_def, assumption)

lemma ref_MessageKind [guard_parts]:
  "checks m p c (conforms \<rho> (SEnum [''text'', ''action'', ''notice'']) d) \<Longrightarrow> checks m p c (conforms \<rho> (SRef ''MessageKind'') d)"
  by (rule checks_sref[OF models, where s = "(SEnum [''text'', ''action'', ''notice''])"], simp add: schema32_defs_def schema35_def, assumption)

lemma validates_validate20: "validates validate20 (conforms \<rho> schema31) d"
  unfolding schema31_def
  by (rule validates_run[where m = Return], rule validate20_def) (intro conform_laws guard_parts; simp)

lemmas call_validate20 [guard_parts] = checks_call[OF validates_validate20]

lemma checks_validate23_artifacts_item [guard_parts]: "checks Return p (validate23_artifacts_item data p) (conforms \<rho> schema37 data)"
  unfolding validate23_artifacts_item_def schema37_def by (intro conform_laws guard_parts; simp)

lemma validates_validate23: "validates validate23 (conforms \<rho> schema36) d"
  unfolding schema36_def
  by (rule validates_run[where m = Return], rule validate23_def) (intro conform_laws guard_parts; simp)

lemmas call_validate23 [guard_parts] = checks_call[OF validates_validate23]

lemma checks_validate22_delivery [guard_parts]: "checks Return p (validate22_delivery data p) (conforms \<rho> (SAnyOf [SRef ''Delivery'', SType [TNull]]) data)"
  unfolding validate22_delivery_def by (intro conform_laws guard_parts; simp)

lemma checks_validate22_messageKind [guard_parts]: "checks Return p (validate22_messageKind data p) (conforms \<rho> (SAnyOf [SRef ''MessageKind'', SType [TNull]]) data)"
  unfolding validate22_messageKind_def by (intro conform_laws guard_parts; simp)

lemma checks_validate22_result [guard_parts]: "checks Return p (validate22_result data p) (conforms \<rho> (SAnyOf [SRef ''ActionResult'', SType [TNull]]) data)"
  unfolding validate22_result_def by (intro conform_laws guard_parts; simp)

lemma validates_validate22: "validates validate22 (conforms \<rho> schema33) d"
  unfolding schema33_def
  by (rule validates_run[where m = Return], rule validate22_def) (intro conform_laws guard_parts; simp)

lemmas call_validate22 [guard_parts] = checks_call[OF validates_validate22]

lemma validates_validate21: "validates validate21 (conforms \<rho> schema32) d"
  unfolding schema32_def
  by (rule validates_run[where m = Return], rule validate21_def) (intro conform_laws guard_parts; simp)

lemmas call_validate21 [guard_parts] = checks_call[OF validates_validate21]

lemma validates_validate26: "validates validate26 (conforms \<rho> schema38) d"
  unfolding schema38_def
  by (rule validates_run[where m = Return], rule validate26_def) (intro conform_laws guard_parts; simp)

lemmas call_validate26 [guard_parts] = checks_call[OF validates_validate26]

end

end
