(* ===== verification/Network_Guards.thy ===== *)
theory Network_Guards
  imports Json_Schema
begin

text \<open>
  The argument guard of the \<open>networks_details\<close> method of \<open>ui/src/rpc-validators.js\<close>:
  \<open>validate34\<close> for the arguments, \<open>validate35\<close> for a network request and \<open>validate36\<close> for a
  request, with one definition per branch of their \<open>oneOf\<close>s (named after the \<open>kind\<close> or
  \<open>action\<close> the branch asks for).  A network request of kind \<open>call\<close> carries a request and a
  request of kind \<open>networks\<close> carries a network request, so the two guards call each other;
  they stop because a property's value is smaller than its object.
\<close>

section \<open>The schemas\<close>

definition schema51_list :: schema where
  "schema51_list = SObject
    [(''action'', SConst ''list''),
     (''conversation'', SType [TString, TNull])]
    [''action''] True"

definition schema51_publications :: schema where
  "schema51_publications = SObject
    [(''action'', SConst ''publications''),
     (''conversation'', SType [TString, TNull])]
    [''action''] True"

definition schema51_prepare :: schema where
  "schema51_prepare = SObject
    [(''action'', SConst ''prepare''),
     (''conversation'', SType [TString]),
     (''id'', SType [TString]),
     (''name'', SType [TString]),
     (''size_bytes'', SType [TString])]
    [''action'', ''id'', ''conversation'', ''name'', ''size_bytes''] True"

definition schema51_commit :: schema where
  "schema51_commit = SObject
    [(''action'', SConst ''commit''),
     (''id'', SType [TString])]
    [''action'', ''id''] True"

definition schema51_accept :: schema where
  "schema51_accept = SObject
    [(''action'', SConst ''accept''),
     (''id'', SType [TString])]
    [''action'', ''id''] True"

definition schema51_pause :: schema where
  "schema51_pause = SObject
    [(''action'', SConst ''pause''),
     (''id'', SType [TString])]
    [''action'', ''id''] True"

definition schema51_resume :: schema where
  "schema51_resume = SObject
    [(''action'', SConst ''resume''),
     (''id'', SType [TString])]
    [''action'', ''id''] True"

definition schema51_cancel :: schema where
  "schema51_cancel = SObject
    [(''action'', SConst ''cancel''),
     (''id'', SType [TString])]
    [''action'', ''id''] True"

definition schema51_configure :: schema where
  "schema51_configure = SObject
    [(''action'', SConst ''configure''),
     (''quota_bytes'', SType [TString]),
     (''retention_days'', SInteger (Some 65535) 0)]
    [''action'', ''quota_bytes'', ''retention_days''] True"

definition schema51 :: schema where
  "schema51 = SOneOf [
     schema51_list,
     schema51_publications,
     schema51_prepare,
     schema51_commit,
     schema51_accept,
     schema51_pause,
     schema51_resume,
     schema51_cancel,
     schema51_configure]"

definition schema50_heartbeat :: schema where
  "schema50_heartbeat = SObject
    [(''action'', SConst ''heartbeat''),
     (''view'', SType [TString])]
    [''action'', ''view''] True"

definition schema50_detach :: schema where
  "schema50_detach = SObject
    [(''action'', SConst ''detach''),
     (''view'', SType [TString])]
    [''action'', ''view''] True"

definition schema50_prepare :: schema where
  "schema50_prepare = SObject
    [(''action'', SConst ''prepare''),
     (''release'', SType [TString]),
     (''view'', SType [TString])]
    [''action'', ''view'', ''release''] True"

definition schema50_abort :: schema where
  "schema50_abort = SObject
    [(''action'', SConst ''abort''),
     (''release'', SType [TString]),
     (''view'', SType [TString])]
    [''action'', ''view'', ''release''] True"

definition schema50_exit :: schema where
  "schema50_exit = SObject
    [(''action'', SConst ''exit''),
     (''release'', SType [TString]),
     (''view'', SType [TString])]
    [''action'', ''view'', ''release''] True"

definition schema50 :: schema where
  "schema50 = SOneOf [
     schema50_heartbeat,
     schema50_detach,
     schema50_prepare,
     schema50_abort,
     schema50_exit]"

definition schema49_enrollment :: schema where
  "schema49_enrollment = SObject
    [(''action'', SType [TString]),
     (''id'', SType [TString]),
     (''kind'', SConst ''enrollment'')]
    [''kind'', ''id'', ''action''] True"

definition schema49_update :: schema where
  "schema49_update = SObject
    [(''kind'', SConst ''update''),
     (''request'', SRef ''UpdateRequest'')]
    [''kind'', ''request''] True"

definition schema49_networks :: schema where
  "schema49_networks = SObject
    [(''kind'', SConst ''networks''),
     (''request'', SRef ''NetworkRequest'')]
    [''kind'', ''request''] True"

definition schema49_files :: schema where
  "schema49_files = SObject
    [(''kind'', SConst ''files''),
     (''request'', SRef ''FileRequest'')]
    [''kind'', ''request''] True"

definition schema49_identify :: schema where
  "schema49_identify = SObject
    [(''kind'', SConst ''identify'')]
    [''kind''] True"

definition schema49_unlock :: schema where
  "schema49_unlock = SObject
    [(''create'', SType [TBoolean]),
     (''kind'', SConst ''unlock''),
     (''passphrase'', SType [TString])]
    [''kind'', ''passphrase'', ''create''] True"

definition schema49_lock :: schema where
  "schema49_lock = SObject
    [(''kind'', SConst ''lock'')]
    [''kind''] True"

definition schema49_disconnect :: schema where
  "schema49_disconnect = SObject
    [(''kind'', SConst ''disconnect'')]
    [''kind''] True"

definition schema49_snapshot :: schema where
  "schema49_snapshot = SObject
    [(''kind'', SConst ''snapshot'')]
    [''kind''] True"

definition schema49_network_status :: schema where
  "schema49_network_status = SObject
    [(''kind'', SConst ''network_status'')]
    [''kind''] True"

definition schema49_import_network_invitation :: schema where
  "schema49_import_network_invitation = SObject
    [(''code'', SType [TString]),
     (''kind'', SConst ''import_network_invitation'')]
    [''kind'', ''code''] True"

definition schema49_catalogue :: schema where
  "schema49_catalogue = SObject
    [(''conversation'', SType [TString, TNull]),
     (''kind'', SConst ''catalogue'')]
    [''kind''] True"

definition schema49_history :: schema where
  "schema49_history = SObject
    [(''before'', SType [TString, TNull]),
     (''conversation'', SType [TString]),
     (''kind'', SConst ''history''),
     (''limit'', SInteger (Some 65535) 0)]
    [''kind'', ''conversation'', ''limit''] True"

definition schema49_search :: schema where
  "schema49_search = SObject
    [(''before'', SType [TString, TNull]),
     (''conversation'', SType [TString]),
     (''kind'', SConst ''search''),
     (''limit'', SInteger (Some 65535) 0),
     (''text'', SType [TString])]
    [''kind'', ''conversation'', ''text'', ''limit''] True"

definition schema49_submit :: schema where
  "schema49_submit = SObject
    [(''conversation'', SType [TString, TNull]),
     (''kind'', SConst ''submit''),
     (''operation_id'', SType [TString]),
     (''text'', SType [TString])]
    [''kind'', ''operation_id'', ''text''] True"

definition schema49_complete :: schema where
  "schema49_complete = SObject
    [(''conversation'', SType [TString, TNull]),
     (''kind'', SConst ''complete''),
     (''text'', SType [TString])]
    [''kind'', ''text''] True"

definition schema49_mark_read :: schema where
  "schema49_mark_read = SObject
    [(''conversation'', SType [TString]),
     (''kind'', SConst ''mark_read''),
     (''message_id'', SType [TString])]
    [''kind'', ''conversation'', ''message_id''] True"

definition schema49_events :: schema where
  "schema49_events = SObject
    [(''after'', SType [TString]),
     (''kind'', SConst ''events''),
     (''wait_ms'', SInteger (Some 65535) 0)]
    [''kind'', ''after'', ''wait_ms''] True"

definition schema49 :: schema where
  "schema49 = SOneOf [
     schema49_enrollment,
     schema49_update,
     schema49_networks,
     schema49_files,
     schema49_identify,
     schema49_unlock,
     schema49_lock,
     schema49_disconnect,
     schema49_snapshot,
     schema49_network_status,
     schema49_import_network_invitation,
     schema49_catalogue,
     schema49_history,
     schema49_search,
     schema49_submit,
     schema49_complete,
     schema49_mark_read,
     schema49_events]"

definition schema48_list :: schema where
  "schema48_list = SObject
    [(''kind'', SConst ''list'')]
    [''kind''] True"

definition schema48_inspect :: schema where
  "schema48_inspect = SObject
    [(''code'', SType [TString]),
     (''kind'', SConst ''inspect'')]
    [''kind'', ''code''] True"

definition schema48_join :: schema where
  "schema48_join = SObject
    [(''accepted_network'', SType [TString]),
     (''code'', SType [TString]),
     (''kind'', SConst ''join''),
     (''nickname'', SType [TString]),
     (''operation_id'', SType [TString])]
    [''kind'', ''code'', ''nickname'', ''accepted_network'', ''operation_id''] True"

definition schema48_call :: schema where
  "schema48_call = SObject
    [(''kind'', SConst ''call''),
     (''network'', SType [TString]),
     (''request'', SRef ''Request'')]
    [''kind'', ''network'', ''request''] True"

definition schema48 :: schema where
  "schema48 = SOneOf [
     schema48_list,
     schema48_inspect,
     schema48_join,
     schema48_call]"

definition schema47 :: schema where
  "schema47 = SObject
    [(''request'', SRef ''NetworkRequest'')]
    [''request''] True"

definition schema47_defs :: defs where
  "schema47_defs = [(''FileRequest'', schema51), (''NetworkRequest'', schema48), (''Request'', schema49), (''UpdateRequest'', schema50)]"

section \<open>The guards\<close>

definition validate36_enrollment :: "json \<Rightarrow> string \<Rightarrow> step" where
  "validate36_enrollment data p = on_type Collect TObject p ''#/oneOf/0/type'' data
    (required Collect [''kind'', ''id'', ''action''] p ''#/oneOf/0/required'' data
    (then_valid (no_additional Collect [''action'', ''id'', ''kind''] p ''#/oneOf/0/additionalProperties'' data)
    (properties [
      on_prop data ''action'' (\<lambda>v. check_type Collect [TString] (at_prop p ''action'') ''#/oneOf/0/properties/action/type'' v),
      on_prop data ''id'' (\<lambda>v. check_type Collect [TString] (at_prop p ''id'') ''#/oneOf/0/properties/id/type'' v),
      on_prop data ''kind'' (\<lambda>data2. seq (check_type Collect [TString] (at_prop p ''kind'') ''#/oneOf/0/properties/kind/type'' data2) (check_const Collect ''enrollment'' (at_prop p ''kind'') ''#/oneOf/0/properties/kind/const'' data2))])))"

definition validate36_update_request_heartbeat :: "json \<Rightarrow> string \<Rightarrow> step" where
  "validate36_update_request_heartbeat data p = on_type Collect TObject p ''#/$defs/UpdateRequest/oneOf/0/type'' data
    (required Collect [''action'', ''view''] p ''#/$defs/UpdateRequest/oneOf/0/required'' data
    (then_valid (no_additional Collect [''action'', ''view''] p ''#/$defs/UpdateRequest/oneOf/0/additionalProperties'' data)
    (properties [
      on_prop data ''action'' (\<lambda>data5. seq (check_type Collect [TString] (at_prop p ''action'') ''#/$defs/UpdateRequest/oneOf/0/properties/action/type'' data5) (check_const Collect ''heartbeat'' (at_prop p ''action'') ''#/$defs/UpdateRequest/oneOf/0/properties/action/const'' data5)),
      on_prop data ''view'' (\<lambda>v. check_type Collect [TString] (at_prop p ''view'') ''#/$defs/UpdateRequest/oneOf/0/properties/view/type'' v)])))"

definition validate36_update_request_detach :: "json \<Rightarrow> string \<Rightarrow> step" where
  "validate36_update_request_detach data p = on_type Collect TObject p ''#/$defs/UpdateRequest/oneOf/1/type'' data
    (required Collect [''action'', ''view''] p ''#/$defs/UpdateRequest/oneOf/1/required'' data
    (then_valid (no_additional Collect [''action'', ''view''] p ''#/$defs/UpdateRequest/oneOf/1/additionalProperties'' data)
    (properties [
      on_prop data ''action'' (\<lambda>data7. seq (check_type Collect [TString] (at_prop p ''action'') ''#/$defs/UpdateRequest/oneOf/1/properties/action/type'' data7) (check_const Collect ''detach'' (at_prop p ''action'') ''#/$defs/UpdateRequest/oneOf/1/properties/action/const'' data7)),
      on_prop data ''view'' (\<lambda>v. check_type Collect [TString] (at_prop p ''view'') ''#/$defs/UpdateRequest/oneOf/1/properties/view/type'' v)])))"

definition validate36_update_request_prepare :: "json \<Rightarrow> string \<Rightarrow> step" where
  "validate36_update_request_prepare data p = on_type Collect TObject p ''#/$defs/UpdateRequest/oneOf/2/type'' data
    (required Collect [''action'', ''view'', ''release''] p ''#/$defs/UpdateRequest/oneOf/2/required'' data
    (then_valid (no_additional Collect [''action'', ''release'', ''view''] p ''#/$defs/UpdateRequest/oneOf/2/additionalProperties'' data)
    (properties [
      on_prop data ''action'' (\<lambda>data9. seq (check_type Collect [TString] (at_prop p ''action'') ''#/$defs/UpdateRequest/oneOf/2/properties/action/type'' data9) (check_const Collect ''prepare'' (at_prop p ''action'') ''#/$defs/UpdateRequest/oneOf/2/properties/action/const'' data9)),
      on_prop data ''release'' (\<lambda>v. check_type Collect [TString] (at_prop p ''release'') ''#/$defs/UpdateRequest/oneOf/2/properties/release/type'' v),
      on_prop data ''view'' (\<lambda>v. check_type Collect [TString] (at_prop p ''view'') ''#/$defs/UpdateRequest/oneOf/2/properties/view/type'' v)])))"

definition validate36_update_request_abort :: "json \<Rightarrow> string \<Rightarrow> step" where
  "validate36_update_request_abort data p = on_type Collect TObject p ''#/$defs/UpdateRequest/oneOf/3/type'' data
    (required Collect [''action'', ''view'', ''release''] p ''#/$defs/UpdateRequest/oneOf/3/required'' data
    (then_valid (no_additional Collect [''action'', ''release'', ''view''] p ''#/$defs/UpdateRequest/oneOf/3/additionalProperties'' data)
    (properties [
      on_prop data ''action'' (\<lambda>data12. seq (check_type Collect [TString] (at_prop p ''action'') ''#/$defs/UpdateRequest/oneOf/3/properties/action/type'' data12) (check_const Collect ''abort'' (at_prop p ''action'') ''#/$defs/UpdateRequest/oneOf/3/properties/action/const'' data12)),
      on_prop data ''release'' (\<lambda>v. check_type Collect [TString] (at_prop p ''release'') ''#/$defs/UpdateRequest/oneOf/3/properties/release/type'' v),
      on_prop data ''view'' (\<lambda>v. check_type Collect [TString] (at_prop p ''view'') ''#/$defs/UpdateRequest/oneOf/3/properties/view/type'' v)])))"

definition validate36_update_request_exit :: "json \<Rightarrow> string \<Rightarrow> step" where
  "validate36_update_request_exit data p = on_type Collect TObject p ''#/$defs/UpdateRequest/oneOf/4/type'' data
    (required Collect [''action'', ''view'', ''release''] p ''#/$defs/UpdateRequest/oneOf/4/required'' data
    (then_valid (no_additional Collect [''action'', ''release'', ''view''] p ''#/$defs/UpdateRequest/oneOf/4/additionalProperties'' data)
    (properties [
      on_prop data ''action'' (\<lambda>data15. seq (check_type Collect [TString] (at_prop p ''action'') ''#/$defs/UpdateRequest/oneOf/4/properties/action/type'' data15) (check_const Collect ''exit'' (at_prop p ''action'') ''#/$defs/UpdateRequest/oneOf/4/properties/action/const'' data15)),
      on_prop data ''release'' (\<lambda>v. check_type Collect [TString] (at_prop p ''release'') ''#/$defs/UpdateRequest/oneOf/4/properties/release/type'' v),
      on_prop data ''view'' (\<lambda>v. check_type Collect [TString] (at_prop p ''view'') ''#/$defs/UpdateRequest/oneOf/4/properties/view/type'' v)])))"

definition validate36_update_request :: "json \<Rightarrow> string \<Rightarrow> step" where
  "validate36_update_request data p = one_of Collect p ''#/$defs/UpdateRequest/oneOf'' [
      validate36_update_request_heartbeat data p,
      validate36_update_request_detach data p,
      validate36_update_request_prepare data p,
      validate36_update_request_abort data p,
      validate36_update_request_exit data p]"

definition validate36_update :: "json \<Rightarrow> string \<Rightarrow> step" where
  "validate36_update data p = on_type Collect TObject p ''#/oneOf/1/type'' data
    (required Collect [''kind'', ''request''] p ''#/oneOf/1/required'' data
    (then_valid (no_additional Collect [''kind'', ''request''] p ''#/oneOf/1/additionalProperties'' data)
    (properties [
      on_prop data ''kind'' (\<lambda>data3. seq (check_type Collect [TString] (at_prop p ''kind'') ''#/oneOf/1/properties/kind/type'' data3) (check_const Collect ''update'' (at_prop p ''kind'') ''#/oneOf/1/properties/kind/const'' data3)),
      on_prop data ''request'' (\<lambda>data4. validate36_update_request data4 (at_prop p ''request''))])))"

definition validate36_networks :: "validator \<Rightarrow> json \<Rightarrow> string \<Rightarrow> step" where
  "validate36_networks recur data p = on_type Collect TObject p ''#/oneOf/2/type'' data
    (required Collect [''kind'', ''request''] p ''#/oneOf/2/required'' data
    (then_valid (no_additional Collect [''kind'', ''request''] p ''#/oneOf/2/additionalProperties'' data)
    (properties [
      on_prop data ''kind'' (\<lambda>data18. seq (check_type Collect [TString] (at_prop p ''kind'') ''#/oneOf/2/properties/kind/type'' data18) (check_const Collect ''networks'' (at_prop p ''kind'') ''#/oneOf/2/properties/kind/const'' data18)),
      on_prop data ''request'' (\<lambda>v. call recur v (at_prop p ''request''))])))"

definition validate36_files_request_list :: "json \<Rightarrow> string \<Rightarrow> step" where
  "validate36_files_request_list data p = on_type Collect TObject p ''#/$defs/FileRequest/oneOf/0/type'' data
    (required Collect [''action''] p ''#/$defs/FileRequest/oneOf/0/required'' data
    (then_valid (no_additional Collect [''action'', ''conversation''] p ''#/$defs/FileRequest/oneOf/0/additionalProperties'' data)
    (properties [
      on_prop data ''action'' (\<lambda>data22. seq (check_type Collect [TString] (at_prop p ''action'') ''#/$defs/FileRequest/oneOf/0/properties/action/type'' data22) (check_const Collect ''list'' (at_prop p ''action'') ''#/$defs/FileRequest/oneOf/0/properties/action/const'' data22)),
      on_prop data ''conversation'' (\<lambda>data23. check_type Collect [TString, TNull] (at_prop p ''conversation'') ''#/$defs/FileRequest/oneOf/0/properties/conversation/type'' data23)])))"

definition validate36_files_request_publications :: "json \<Rightarrow> string \<Rightarrow> step" where
  "validate36_files_request_publications data p = on_type Collect TObject p ''#/$defs/FileRequest/oneOf/1/type'' data
    (required Collect [''action''] p ''#/$defs/FileRequest/oneOf/1/required'' data
    (then_valid (no_additional Collect [''action'', ''conversation''] p ''#/$defs/FileRequest/oneOf/1/additionalProperties'' data)
    (properties [
      on_prop data ''action'' (\<lambda>data24. seq (check_type Collect [TString] (at_prop p ''action'') ''#/$defs/FileRequest/oneOf/1/properties/action/type'' data24) (check_const Collect ''publications'' (at_prop p ''action'') ''#/$defs/FileRequest/oneOf/1/properties/action/const'' data24)),
      on_prop data ''conversation'' (\<lambda>data25. check_type Collect [TString, TNull] (at_prop p ''conversation'') ''#/$defs/FileRequest/oneOf/1/properties/conversation/type'' data25)])))"

definition validate36_files_request_prepare :: "json \<Rightarrow> string \<Rightarrow> step" where
  "validate36_files_request_prepare data p = on_type Collect TObject p ''#/$defs/FileRequest/oneOf/2/type'' data
    (required Collect [''action'', ''id'', ''conversation'', ''name'', ''size_bytes''] p ''#/$defs/FileRequest/oneOf/2/required'' data
    (then_valid (no_additional Collect [''action'', ''conversation'', ''id'', ''name'', ''size_bytes''] p ''#/$defs/FileRequest/oneOf/2/additionalProperties'' data)
    (properties [
      on_prop data ''action'' (\<lambda>data26. seq (check_type Collect [TString] (at_prop p ''action'') ''#/$defs/FileRequest/oneOf/2/properties/action/type'' data26) (check_const Collect ''prepare'' (at_prop p ''action'') ''#/$defs/FileRequest/oneOf/2/properties/action/const'' data26)),
      on_prop data ''conversation'' (\<lambda>v. check_type Collect [TString] (at_prop p ''conversation'') ''#/$defs/FileRequest/oneOf/2/properties/conversation/type'' v),
      on_prop data ''id'' (\<lambda>v. check_type Collect [TString] (at_prop p ''id'') ''#/$defs/FileRequest/oneOf/2/properties/id/type'' v),
      on_prop data ''name'' (\<lambda>v. check_type Collect [TString] (at_prop p ''name'') ''#/$defs/FileRequest/oneOf/2/properties/name/type'' v),
      on_prop data ''size_bytes'' (\<lambda>v. check_type Collect [TString] (at_prop p ''size_bytes'') ''#/$defs/FileRequest/oneOf/2/properties/size_bytes/type'' v)])))"

definition validate36_files_request_commit :: "json \<Rightarrow> string \<Rightarrow> step" where
  "validate36_files_request_commit data p = on_type Collect TObject p ''#/$defs/FileRequest/oneOf/3/type'' data
    (required Collect [''action'', ''id''] p ''#/$defs/FileRequest/oneOf/3/required'' data
    (then_valid (no_additional Collect [''action'', ''id''] p ''#/$defs/FileRequest/oneOf/3/additionalProperties'' data)
    (properties [
      on_prop data ''action'' (\<lambda>data31. seq (check_type Collect [TString] (at_prop p ''action'') ''#/$defs/FileRequest/oneOf/3/properties/action/type'' data31) (check_const Collect ''commit'' (at_prop p ''action'') ''#/$defs/FileRequest/oneOf/3/properties/action/const'' data31)),
      on_prop data ''id'' (\<lambda>v. check_type Collect [TString] (at_prop p ''id'') ''#/$defs/FileRequest/oneOf/3/properties/id/type'' v)])))"

definition validate36_files_request_accept :: "json \<Rightarrow> string \<Rightarrow> step" where
  "validate36_files_request_accept data p = on_type Collect TObject p ''#/$defs/FileRequest/oneOf/4/type'' data
    (required Collect [''action'', ''id''] p ''#/$defs/FileRequest/oneOf/4/required'' data
    (then_valid (no_additional Collect [''action'', ''id''] p ''#/$defs/FileRequest/oneOf/4/additionalProperties'' data)
    (properties [
      on_prop data ''action'' (\<lambda>data33. seq (check_type Collect [TString] (at_prop p ''action'') ''#/$defs/FileRequest/oneOf/4/properties/action/type'' data33) (check_const Collect ''accept'' (at_prop p ''action'') ''#/$defs/FileRequest/oneOf/4/properties/action/const'' data33)),
      on_prop data ''id'' (\<lambda>v. check_type Collect [TString] (at_prop p ''id'') ''#/$defs/FileRequest/oneOf/4/properties/id/type'' v)])))"

definition validate36_files_request_pause :: "json \<Rightarrow> string \<Rightarrow> step" where
  "validate36_files_request_pause data p = on_type Collect TObject p ''#/$defs/FileRequest/oneOf/5/type'' data
    (required Collect [''action'', ''id''] p ''#/$defs/FileRequest/oneOf/5/required'' data
    (then_valid (no_additional Collect [''action'', ''id''] p ''#/$defs/FileRequest/oneOf/5/additionalProperties'' data)
    (properties [
      on_prop data ''action'' (\<lambda>data35. seq (check_type Collect [TString] (at_prop p ''action'') ''#/$defs/FileRequest/oneOf/5/properties/action/type'' data35) (check_const Collect ''pause'' (at_prop p ''action'') ''#/$defs/FileRequest/oneOf/5/properties/action/const'' data35)),
      on_prop data ''id'' (\<lambda>v. check_type Collect [TString] (at_prop p ''id'') ''#/$defs/FileRequest/oneOf/5/properties/id/type'' v)])))"

definition validate36_files_request_resume :: "json \<Rightarrow> string \<Rightarrow> step" where
  "validate36_files_request_resume data p = on_type Collect TObject p ''#/$defs/FileRequest/oneOf/6/type'' data
    (required Collect [''action'', ''id''] p ''#/$defs/FileRequest/oneOf/6/required'' data
    (then_valid (no_additional Collect [''action'', ''id''] p ''#/$defs/FileRequest/oneOf/6/additionalProperties'' data)
    (properties [
      on_prop data ''action'' (\<lambda>data37. seq (check_type Collect [TString] (at_prop p ''action'') ''#/$defs/FileRequest/oneOf/6/properties/action/type'' data37) (check_const Collect ''resume'' (at_prop p ''action'') ''#/$defs/FileRequest/oneOf/6/properties/action/const'' data37)),
      on_prop data ''id'' (\<lambda>v. check_type Collect [TString] (at_prop p ''id'') ''#/$defs/FileRequest/oneOf/6/properties/id/type'' v)])))"

definition validate36_files_request_cancel :: "json \<Rightarrow> string \<Rightarrow> step" where
  "validate36_files_request_cancel data p = on_type Collect TObject p ''#/$defs/FileRequest/oneOf/7/type'' data
    (required Collect [''action'', ''id''] p ''#/$defs/FileRequest/oneOf/7/required'' data
    (then_valid (no_additional Collect [''action'', ''id''] p ''#/$defs/FileRequest/oneOf/7/additionalProperties'' data)
    (properties [
      on_prop data ''action'' (\<lambda>data39. seq (check_type Collect [TString] (at_prop p ''action'') ''#/$defs/FileRequest/oneOf/7/properties/action/type'' data39) (check_const Collect ''cancel'' (at_prop p ''action'') ''#/$defs/FileRequest/oneOf/7/properties/action/const'' data39)),
      on_prop data ''id'' (\<lambda>v. check_type Collect [TString] (at_prop p ''id'') ''#/$defs/FileRequest/oneOf/7/properties/id/type'' v)])))"

definition validate36_files_request_configure :: "json \<Rightarrow> string \<Rightarrow> step" where
  "validate36_files_request_configure data p = on_type Collect TObject p ''#/$defs/FileRequest/oneOf/8/type'' data
    (required Collect [''action'', ''quota_bytes'', ''retention_days''] p ''#/$defs/FileRequest/oneOf/8/required'' data
    (then_valid (no_additional Collect [''action'', ''quota_bytes'', ''retention_days''] p ''#/$defs/FileRequest/oneOf/8/additionalProperties'' data)
    (properties [
      on_prop data ''action'' (\<lambda>data41. seq (check_type Collect [TString] (at_prop p ''action'') ''#/$defs/FileRequest/oneOf/8/properties/action/type'' data41) (check_const Collect ''configure'' (at_prop p ''action'') ''#/$defs/FileRequest/oneOf/8/properties/action/const'' data41)),
      on_prop data ''quota_bytes'' (\<lambda>v. check_type Collect [TString] (at_prop p ''quota_bytes'') ''#/$defs/FileRequest/oneOf/8/properties/quota_bytes/type'' v),
      on_prop data ''retention_days'' (\<lambda>data43. then_valid (check_type Collect [TInteger] (at_prop p ''retention_days'') ''#/$defs/FileRequest/oneOf/8/properties/retention_days/type'' data43) (check_range Collect (Some 65535) 0 (at_prop p ''retention_days'') ''#/$defs/FileRequest/oneOf/8/properties/retention_days'' data43))])))"

definition validate36_files_request :: "json \<Rightarrow> string \<Rightarrow> step" where
  "validate36_files_request data p = one_of Collect p ''#/$defs/FileRequest/oneOf'' [
      validate36_files_request_list data p,
      validate36_files_request_publications data p,
      validate36_files_request_prepare data p,
      validate36_files_request_commit data p,
      validate36_files_request_accept data p,
      validate36_files_request_pause data p,
      validate36_files_request_resume data p,
      validate36_files_request_cancel data p,
      validate36_files_request_configure data p]"

definition validate36_files :: "json \<Rightarrow> string \<Rightarrow> step" where
  "validate36_files data p = on_type Collect TObject p ''#/oneOf/3/type'' data
    (required Collect [''kind'', ''request''] p ''#/oneOf/3/required'' data
    (then_valid (no_additional Collect [''kind'', ''request''] p ''#/oneOf/3/additionalProperties'' data)
    (properties [
      on_prop data ''kind'' (\<lambda>data20. seq (check_type Collect [TString] (at_prop p ''kind'') ''#/oneOf/3/properties/kind/type'' data20) (check_const Collect ''files'' (at_prop p ''kind'') ''#/oneOf/3/properties/kind/const'' data20)),
      on_prop data ''request'' (\<lambda>data21. validate36_files_request data21 (at_prop p ''request''))])))"

definition validate36_identify :: "json \<Rightarrow> string \<Rightarrow> step" where
  "validate36_identify data p = on_type Collect TObject p ''#/oneOf/4/type'' data
    (required Collect [''kind''] p ''#/oneOf/4/required'' data
    (then_valid (no_additional Collect [''kind''] p ''#/oneOf/4/additionalProperties'' data)
    (properties [
      on_prop data ''kind'' (\<lambda>data44. seq (check_type Collect [TString] (at_prop p ''kind'') ''#/oneOf/4/properties/kind/type'' data44) (check_const Collect ''identify'' (at_prop p ''kind'') ''#/oneOf/4/properties/kind/const'' data44))])))"

definition validate36_unlock :: "json \<Rightarrow> string \<Rightarrow> step" where
  "validate36_unlock data p = on_type Collect TObject p ''#/oneOf/5/type'' data
    (required Collect [''kind'', ''passphrase'', ''create''] p ''#/oneOf/5/required'' data
    (then_valid (no_additional Collect [''create'', ''kind'', ''passphrase''] p ''#/oneOf/5/additionalProperties'' data)
    (properties [
      on_prop data ''create'' (\<lambda>v. check_type Collect [TBoolean] (at_prop p ''create'') ''#/oneOf/5/properties/create/type'' v),
      on_prop data ''kind'' (\<lambda>data46. seq (check_type Collect [TString] (at_prop p ''kind'') ''#/oneOf/5/properties/kind/type'' data46) (check_const Collect ''unlock'' (at_prop p ''kind'') ''#/oneOf/5/properties/kind/const'' data46)),
      on_prop data ''passphrase'' (\<lambda>v. check_type Collect [TString] (at_prop p ''passphrase'') ''#/oneOf/5/properties/passphrase/type'' v)])))"

definition validate36_lock :: "json \<Rightarrow> string \<Rightarrow> step" where
  "validate36_lock data p = on_type Collect TObject p ''#/oneOf/6/type'' data
    (required Collect [''kind''] p ''#/oneOf/6/required'' data
    (then_valid (no_additional Collect [''kind''] p ''#/oneOf/6/additionalProperties'' data)
    (properties [
      on_prop data ''kind'' (\<lambda>data48. seq (check_type Collect [TString] (at_prop p ''kind'') ''#/oneOf/6/properties/kind/type'' data48) (check_const Collect ''lock'' (at_prop p ''kind'') ''#/oneOf/6/properties/kind/const'' data48))])))"

definition validate36_disconnect :: "json \<Rightarrow> string \<Rightarrow> step" where
  "validate36_disconnect data p = on_type Collect TObject p ''#/oneOf/7/type'' data
    (required Collect [''kind''] p ''#/oneOf/7/required'' data
    (then_valid (no_additional Collect [''kind''] p ''#/oneOf/7/additionalProperties'' data)
    (properties [
      on_prop data ''kind'' (\<lambda>data49. seq (check_type Collect [TString] (at_prop p ''kind'') ''#/oneOf/7/properties/kind/type'' data49) (check_const Collect ''disconnect'' (at_prop p ''kind'') ''#/oneOf/7/properties/kind/const'' data49))])))"

definition validate36_snapshot :: "json \<Rightarrow> string \<Rightarrow> step" where
  "validate36_snapshot data p = on_type Collect TObject p ''#/oneOf/8/type'' data
    (required Collect [''kind''] p ''#/oneOf/8/required'' data
    (then_valid (no_additional Collect [''kind''] p ''#/oneOf/8/additionalProperties'' data)
    (properties [
      on_prop data ''kind'' (\<lambda>data50. seq (check_type Collect [TString] (at_prop p ''kind'') ''#/oneOf/8/properties/kind/type'' data50) (check_const Collect ''snapshot'' (at_prop p ''kind'') ''#/oneOf/8/properties/kind/const'' data50))])))"

definition validate36_network_status :: "json \<Rightarrow> string \<Rightarrow> step" where
  "validate36_network_status data p = on_type Collect TObject p ''#/oneOf/9/type'' data
    (required Collect [''kind''] p ''#/oneOf/9/required'' data
    (then_valid (no_additional Collect [''kind''] p ''#/oneOf/9/additionalProperties'' data)
    (properties [
      on_prop data ''kind'' (\<lambda>data51. seq (check_type Collect [TString] (at_prop p ''kind'') ''#/oneOf/9/properties/kind/type'' data51) (check_const Collect ''network_status'' (at_prop p ''kind'') ''#/oneOf/9/properties/kind/const'' data51))])))"

definition validate36_import_network_invitation :: "json \<Rightarrow> string \<Rightarrow> step" where
  "validate36_import_network_invitation data p = on_type Collect TObject p ''#/oneOf/10/type'' data
    (required Collect [''kind'', ''code''] p ''#/oneOf/10/required'' data
    (then_valid (no_additional Collect [''code'', ''kind''] p ''#/oneOf/10/additionalProperties'' data)
    (properties [
      on_prop data ''code'' (\<lambda>v. check_type Collect [TString] (at_prop p ''code'') ''#/oneOf/10/properties/code/type'' v),
      on_prop data ''kind'' (\<lambda>data53. seq (check_type Collect [TString] (at_prop p ''kind'') ''#/oneOf/10/properties/kind/type'' data53) (check_const Collect ''import_network_invitation'' (at_prop p ''kind'') ''#/oneOf/10/properties/kind/const'' data53))])))"

definition validate36_catalogue :: "json \<Rightarrow> string \<Rightarrow> step" where
  "validate36_catalogue data p = on_type Collect TObject p ''#/oneOf/11/type'' data
    (required Collect [''kind''] p ''#/oneOf/11/required'' data
    (then_valid (no_additional Collect [''conversation'', ''kind''] p ''#/oneOf/11/additionalProperties'' data)
    (properties [
      on_prop data ''conversation'' (\<lambda>data54. check_type Collect [TString, TNull] (at_prop p ''conversation'') ''#/oneOf/11/properties/conversation/type'' data54),
      on_prop data ''kind'' (\<lambda>data55. seq (check_type Collect [TString] (at_prop p ''kind'') ''#/oneOf/11/properties/kind/type'' data55) (check_const Collect ''catalogue'' (at_prop p ''kind'') ''#/oneOf/11/properties/kind/const'' data55))])))"

definition validate36_history :: "json \<Rightarrow> string \<Rightarrow> step" where
  "validate36_history data p = on_type Collect TObject p ''#/oneOf/12/type'' data
    (required Collect [''kind'', ''conversation'', ''limit''] p ''#/oneOf/12/required'' data
    (then_valid (no_additional Collect [''before'', ''conversation'', ''kind'', ''limit''] p ''#/oneOf/12/additionalProperties'' data)
    (properties [
      on_prop data ''before'' (\<lambda>data56. check_type Collect [TString, TNull] (at_prop p ''before'') ''#/oneOf/12/properties/before/type'' data56),
      on_prop data ''conversation'' (\<lambda>v. check_type Collect [TString] (at_prop p ''conversation'') ''#/oneOf/12/properties/conversation/type'' v),
      on_prop data ''kind'' (\<lambda>data58. seq (check_type Collect [TString] (at_prop p ''kind'') ''#/oneOf/12/properties/kind/type'' data58) (check_const Collect ''history'' (at_prop p ''kind'') ''#/oneOf/12/properties/kind/const'' data58)),
      on_prop data ''limit'' (\<lambda>data59. then_valid (check_type Collect [TInteger] (at_prop p ''limit'') ''#/oneOf/12/properties/limit/type'' data59) (check_range Collect (Some 65535) 0 (at_prop p ''limit'') ''#/oneOf/12/properties/limit'' data59))])))"

definition validate36_search :: "json \<Rightarrow> string \<Rightarrow> step" where
  "validate36_search data p = on_type Collect TObject p ''#/oneOf/13/type'' data
    (required Collect [''kind'', ''conversation'', ''text'', ''limit''] p ''#/oneOf/13/required'' data
    (then_valid (no_additional Collect [''before'', ''conversation'', ''kind'', ''limit'', ''text''] p ''#/oneOf/13/additionalProperties'' data)
    (properties [
      on_prop data ''before'' (\<lambda>data60. check_type Collect [TString, TNull] (at_prop p ''before'') ''#/oneOf/13/properties/before/type'' data60),
      on_prop data ''conversation'' (\<lambda>v. check_type Collect [TString] (at_prop p ''conversation'') ''#/oneOf/13/properties/conversation/type'' v),
      on_prop data ''kind'' (\<lambda>data62. seq (check_type Collect [TString] (at_prop p ''kind'') ''#/oneOf/13/properties/kind/type'' data62) (check_const Collect ''search'' (at_prop p ''kind'') ''#/oneOf/13/properties/kind/const'' data62)),
      on_prop data ''limit'' (\<lambda>data63. then_valid (check_type Collect [TInteger] (at_prop p ''limit'') ''#/oneOf/13/properties/limit/type'' data63) (check_range Collect (Some 65535) 0 (at_prop p ''limit'') ''#/oneOf/13/properties/limit'' data63)),
      on_prop data ''text'' (\<lambda>v. check_type Collect [TString] (at_prop p ''text'') ''#/oneOf/13/properties/text/type'' v)])))"

definition validate36_submit :: "json \<Rightarrow> string \<Rightarrow> step" where
  "validate36_submit data p = on_type Collect TObject p ''#/oneOf/14/type'' data
    (required Collect [''kind'', ''operation_id'', ''text''] p ''#/oneOf/14/required'' data
    (then_valid (no_additional Collect [''conversation'', ''kind'', ''operation_id'', ''text''] p ''#/oneOf/14/additionalProperties'' data)
    (properties [
      on_prop data ''conversation'' (\<lambda>data65. check_type Collect [TString, TNull] (at_prop p ''conversation'') ''#/oneOf/14/properties/conversation/type'' data65),
      on_prop data ''kind'' (\<lambda>data66. seq (check_type Collect [TString] (at_prop p ''kind'') ''#/oneOf/14/properties/kind/type'' data66) (check_const Collect ''submit'' (at_prop p ''kind'') ''#/oneOf/14/properties/kind/const'' data66)),
      on_prop data ''operation_id'' (\<lambda>v. check_type Collect [TString] (at_prop p ''operation_id'') ''#/oneOf/14/properties/operation_id/type'' v),
      on_prop data ''text'' (\<lambda>v. check_type Collect [TString] (at_prop p ''text'') ''#/oneOf/14/properties/text/type'' v)])))"

definition validate36_complete :: "json \<Rightarrow> string \<Rightarrow> step" where
  "validate36_complete data p = on_type Collect TObject p ''#/oneOf/15/type'' data
    (required Collect [''kind'', ''text''] p ''#/oneOf/15/required'' data
    (then_valid (no_additional Collect [''conversation'', ''kind'', ''text''] p ''#/oneOf/15/additionalProperties'' data)
    (properties [
      on_prop data ''conversation'' (\<lambda>data69. check_type Collect [TString, TNull] (at_prop p ''conversation'') ''#/oneOf/15/properties/conversation/type'' data69),
      on_prop data ''kind'' (\<lambda>data70. seq (check_type Collect [TString] (at_prop p ''kind'') ''#/oneOf/15/properties/kind/type'' data70) (check_const Collect ''complete'' (at_prop p ''kind'') ''#/oneOf/15/properties/kind/const'' data70)),
      on_prop data ''text'' (\<lambda>v. check_type Collect [TString] (at_prop p ''text'') ''#/oneOf/15/properties/text/type'' v)])))"

definition validate36_mark_read :: "json \<Rightarrow> string \<Rightarrow> step" where
  "validate36_mark_read data p = on_type Collect TObject p ''#/oneOf/16/type'' data
    (required Collect [''kind'', ''conversation'', ''message_id''] p ''#/oneOf/16/required'' data
    (then_valid (no_additional Collect [''conversation'', ''kind'', ''message_id''] p ''#/oneOf/16/additionalProperties'' data)
    (properties [
      on_prop data ''conversation'' (\<lambda>v. check_type Collect [TString] (at_prop p ''conversation'') ''#/oneOf/16/properties/conversation/type'' v),
      on_prop data ''kind'' (\<lambda>data73. seq (check_type Collect [TString] (at_prop p ''kind'') ''#/oneOf/16/properties/kind/type'' data73) (check_const Collect ''mark_read'' (at_prop p ''kind'') ''#/oneOf/16/properties/kind/const'' data73)),
      on_prop data ''message_id'' (\<lambda>v. check_type Collect [TString] (at_prop p ''message_id'') ''#/oneOf/16/properties/message_id/type'' v)])))"

definition validate36_events :: "json \<Rightarrow> string \<Rightarrow> step" where
  "validate36_events data p = on_type Collect TObject p ''#/oneOf/17/type'' data
    (required Collect [''kind'', ''after'', ''wait_ms''] p ''#/oneOf/17/required'' data
    (then_valid (no_additional Collect [''after'', ''kind'', ''wait_ms''] p ''#/oneOf/17/additionalProperties'' data)
    (properties [
      on_prop data ''after'' (\<lambda>v. check_type Collect [TString] (at_prop p ''after'') ''#/oneOf/17/properties/after/type'' v),
      on_prop data ''kind'' (\<lambda>data76. seq (check_type Collect [TString] (at_prop p ''kind'') ''#/oneOf/17/properties/kind/type'' data76) (check_const Collect ''events'' (at_prop p ''kind'') ''#/oneOf/17/properties/kind/const'' data76)),
      on_prop data ''wait_ms'' (\<lambda>data77. then_valid (check_type Collect [TInteger] (at_prop p ''wait_ms'') ''#/oneOf/17/properties/wait_ms/type'' data77) (check_range Collect (Some 65535) 0 (at_prop p ''wait_ms'') ''#/oneOf/17/properties/wait_ms'' data77))])))"

definition validate35_list :: "json \<Rightarrow> string \<Rightarrow> step" where
  "validate35_list data p = on_type Collect TObject p ''#/oneOf/0/type'' data
    (required Collect [''kind''] p ''#/oneOf/0/required'' data
    (then_valid (no_additional Collect [''kind''] p ''#/oneOf/0/additionalProperties'' data)
    (properties [
      on_prop data ''kind'' (\<lambda>data0. seq (check_type Collect [TString] (at_prop p ''kind'') ''#/oneOf/0/properties/kind/type'' data0) (check_const Collect ''list'' (at_prop p ''kind'') ''#/oneOf/0/properties/kind/const'' data0))])))"

definition validate35_inspect :: "json \<Rightarrow> string \<Rightarrow> step" where
  "validate35_inspect data p = on_type Collect TObject p ''#/oneOf/1/type'' data
    (required Collect [''kind'', ''code''] p ''#/oneOf/1/required'' data
    (then_valid (no_additional Collect [''code'', ''kind''] p ''#/oneOf/1/additionalProperties'' data)
    (properties [
      on_prop data ''code'' (\<lambda>v. check_type Collect [TString] (at_prop p ''code'') ''#/oneOf/1/properties/code/type'' v),
      on_prop data ''kind'' (\<lambda>data2. seq (check_type Collect [TString] (at_prop p ''kind'') ''#/oneOf/1/properties/kind/type'' data2) (check_const Collect ''inspect'' (at_prop p ''kind'') ''#/oneOf/1/properties/kind/const'' data2))])))"

definition validate35_join :: "json \<Rightarrow> string \<Rightarrow> step" where
  "validate35_join data p = on_type Collect TObject p ''#/oneOf/2/type'' data
    (required Collect [''kind'', ''code'', ''nickname'', ''accepted_network'', ''operation_id''] p ''#/oneOf/2/required'' data
    (then_valid (no_additional Collect [''accepted_network'', ''code'', ''kind'', ''nickname'', ''operation_id''] p ''#/oneOf/2/additionalProperties'' data)
    (properties [
      on_prop data ''accepted_network'' (\<lambda>v. check_type Collect [TString] (at_prop p ''accepted_network'') ''#/oneOf/2/properties/accepted_network/type'' v),
      on_prop data ''code'' (\<lambda>v. check_type Collect [TString] (at_prop p ''code'') ''#/oneOf/2/properties/code/type'' v),
      on_prop data ''kind'' (\<lambda>data5. seq (check_type Collect [TString] (at_prop p ''kind'') ''#/oneOf/2/properties/kind/type'' data5) (check_const Collect ''join'' (at_prop p ''kind'') ''#/oneOf/2/properties/kind/const'' data5)),
      on_prop data ''nickname'' (\<lambda>v. check_type Collect [TString] (at_prop p ''nickname'') ''#/oneOf/2/properties/nickname/type'' v),
      on_prop data ''operation_id'' (\<lambda>v. check_type Collect [TString] (at_prop p ''operation_id'') ''#/oneOf/2/properties/operation_id/type'' v)])))"

definition validate35_call :: "validator \<Rightarrow> json \<Rightarrow> string \<Rightarrow> step" where
  "validate35_call recur data p = on_type Collect TObject p ''#/oneOf/3/type'' data
    (required Collect [''kind'', ''network'', ''request''] p ''#/oneOf/3/required'' data
    (then_valid (no_additional Collect [''kind'', ''network'', ''request''] p ''#/oneOf/3/additionalProperties'' data)
    (properties [
      on_prop data ''kind'' (\<lambda>data8. seq (check_type Collect [TString] (at_prop p ''kind'') ''#/oneOf/3/properties/kind/type'' data8) (check_const Collect ''call'' (at_prop p ''kind'') ''#/oneOf/3/properties/kind/const'' data8)),
      on_prop data ''network'' (\<lambda>v. check_type Collect [TString] (at_prop p ''network'') ''#/oneOf/3/properties/network/type'' v),
      on_prop data ''request'' (\<lambda>v. call recur v (at_prop p ''request''))])))"

text \<open>
  The two branches that call the other guard use it on a property's value only, which is what
  makes the recursion below well founded.
\<close>

lemma on_prop_call_cong:
  "(\<And>x q. size x < size d \<Longrightarrow> v x q = v' x q) \<Longrightarrow>
   on_prop d k (\<lambda>x. call v x q) = on_prop d k (\<lambda>x. call v' x q)"
  by (auto simp: on_prop_def call_def fun_eq_iff size_get_prop split: option.splits)

lemma validate36_networks_cong [fundef_cong]:
  "data = data' \<Longrightarrow> p = p' \<Longrightarrow> (\<And>x q. size x < size data' \<Longrightarrow> v x q = v' x q) \<Longrightarrow>
   validate36_networks v data p = validate36_networks v' data' p'"
  by (simp add: validate36_networks_def on_prop_call_cong[of data' v v'])

lemma validate35_call_cong [fundef_cong]:
  "data = data' \<Longrightarrow> p = p' \<Longrightarrow> (\<And>x q. size x < size data' \<Longrightarrow> v x q = v' x q) \<Longrightarrow>
   validate35_call v data p = validate35_call v' data' p'"
  by (simp add: validate35_call_def on_prop_call_cong[of data' v v'])

function validate35 :: validator and validate36 :: validator where
  "validate35 data instancePath = run_guard (one_of Return instancePath ''#/oneOf'' [
      validate35_list data instancePath,
      validate35_inspect data instancePath,
      validate35_join data instancePath,
      validate35_call (\<lambda>x q. validate36 x q) data instancePath])"
| "validate36 data instancePath = run_guard (one_of Return instancePath ''#/oneOf'' [
      validate36_enrollment data instancePath,
      validate36_update data instancePath,
      validate36_networks (\<lambda>x q. validate35 x q) data instancePath,
      validate36_files data instancePath,
      validate36_identify data instancePath,
      validate36_unlock data instancePath,
      validate36_lock data instancePath,
      validate36_disconnect data instancePath,
      validate36_snapshot data instancePath,
      validate36_network_status data instancePath,
      validate36_import_network_invitation data instancePath,
      validate36_catalogue data instancePath,
      validate36_history data instancePath,
      validate36_search data instancePath,
      validate36_submit data instancePath,
      validate36_complete data instancePath,
      validate36_mark_read data instancePath,
      validate36_events data instancePath])"
  by pat_completeness auto
termination
  by (relation "measure (case_sum (size \<circ> fst) (size \<circ> fst))") auto

declare validate35.simps [simp del] validate36.simps [simp del]

definition validate34 :: validator where
  "validate34 data instancePath = run_guard (on_type Return TObject instancePath ''#/type'' data
    (required Return [''request''] instancePath ''#/required'' data
    (then_valid (no_additional Return [''request''] instancePath ''#/additionalProperties'' data)
    (properties [
      on_prop data ''request'' (\<lambda>v. call validate35 v (at_prop instancePath ''request''))]))))"

section \<open>Each part implements its schema\<close>

lemma checks_call_inside:
  "(\<And>x. size x < size d \<Longrightarrow> validates v (\<rho> r) x) \<Longrightarrow> get_prop d k = Some x \<Longrightarrow>
   checks m p (call v x p) (conforms \<rho> (SRef r) x)"
  by (simp add: checks_call size_get_prop)

text \<open>
  The laws need only the two definitions that refer to nothing else; the guards' recursion
  supplies the rest.
\<close>

locale flat_requests =
  fixes \<rho> :: "string \<Rightarrow> json \<Rightarrow> bool"
  assumes update_request: "\<rho> ''UpdateRequest'' d = conforms \<rho> schema50 d"
    and file_request: "\<rho> ''FileRequest'' d = conforms \<rho> schema51 d"
begin

lemma ref_UpdateRequest [guard_parts]:
  "checks m p c (conforms \<rho> schema50 d) \<Longrightarrow> checks m p c (conforms \<rho> (SRef ''UpdateRequest'') d)"
  by (simp add: update_request)

lemma ref_FileRequest [guard_parts]:
  "checks m p c (conforms \<rho> schema51 d) \<Longrightarrow> checks m p c (conforms \<rho> (SRef ''FileRequest'') d)"
  by (simp add: file_request)

lemma checks_validate36_enrollment [guard_parts]:
  "checks Collect p (validate36_enrollment data p) (conforms \<rho> schema49_enrollment data)"
  unfolding validate36_enrollment_def schema49_enrollment_def by (intro conform_laws guard_parts; simp)

lemma checks_validate36_update_request_heartbeat [guard_parts]:
  "checks Collect p (validate36_update_request_heartbeat data p) (conforms \<rho> schema50_heartbeat data)"
  unfolding validate36_update_request_heartbeat_def schema50_heartbeat_def by (intro conform_laws guard_parts; simp)

lemma checks_validate36_update_request_detach [guard_parts]:
  "checks Collect p (validate36_update_request_detach data p) (conforms \<rho> schema50_detach data)"
  unfolding validate36_update_request_detach_def schema50_detach_def by (intro conform_laws guard_parts; simp)

lemma checks_validate36_update_request_prepare [guard_parts]:
  "checks Collect p (validate36_update_request_prepare data p) (conforms \<rho> schema50_prepare data)"
  unfolding validate36_update_request_prepare_def schema50_prepare_def by (intro conform_laws guard_parts; simp)

lemma checks_validate36_update_request_abort [guard_parts]:
  "checks Collect p (validate36_update_request_abort data p) (conforms \<rho> schema50_abort data)"
  unfolding validate36_update_request_abort_def schema50_abort_def by (intro conform_laws guard_parts; simp)

lemma checks_validate36_update_request_exit [guard_parts]:
  "checks Collect p (validate36_update_request_exit data p) (conforms \<rho> schema50_exit data)"
  unfolding validate36_update_request_exit_def schema50_exit_def by (intro conform_laws guard_parts; simp)

lemma checks_validate36_update_request [guard_parts]:
  "checks Collect p (validate36_update_request data p) (conforms \<rho> schema50 data)"
  unfolding validate36_update_request_def schema50_def by (intro conform_laws guard_parts; simp)

lemma checks_validate36_update [guard_parts]:
  "checks Collect p (validate36_update data p) (conforms \<rho> schema49_update data)"
  unfolding validate36_update_def schema49_update_def by (intro conform_laws guard_parts; simp)

lemma checks_validate36_networks:
  assumes "\<And>x. size x < size data \<Longrightarrow> validates v (\<rho> ''NetworkRequest'') x"
  shows "checks Collect p (validate36_networks v data p) (conforms \<rho> schema49_networks data)"
  unfolding validate36_networks_def schema49_networks_def
  by (intro conform_laws guard_parts checks_call_inside[where d = data and v = v and \<rho> = \<rho> and r = "''NetworkRequest''", OF assms]; (assumption | simp))

lemma checks_validate36_files_request_list [guard_parts]:
  "checks Collect p (validate36_files_request_list data p) (conforms \<rho> schema51_list data)"
  unfolding validate36_files_request_list_def schema51_list_def by (intro conform_laws guard_parts; simp)

lemma checks_validate36_files_request_publications [guard_parts]:
  "checks Collect p (validate36_files_request_publications data p) (conforms \<rho> schema51_publications data)"
  unfolding validate36_files_request_publications_def schema51_publications_def by (intro conform_laws guard_parts; simp)

lemma checks_validate36_files_request_prepare [guard_parts]:
  "checks Collect p (validate36_files_request_prepare data p) (conforms \<rho> schema51_prepare data)"
  unfolding validate36_files_request_prepare_def schema51_prepare_def by (intro conform_laws guard_parts; simp)

lemma checks_validate36_files_request_commit [guard_parts]:
  "checks Collect p (validate36_files_request_commit data p) (conforms \<rho> schema51_commit data)"
  unfolding validate36_files_request_commit_def schema51_commit_def by (intro conform_laws guard_parts; simp)

lemma checks_validate36_files_request_accept [guard_parts]:
  "checks Collect p (validate36_files_request_accept data p) (conforms \<rho> schema51_accept data)"
  unfolding validate36_files_request_accept_def schema51_accept_def by (intro conform_laws guard_parts; simp)

lemma checks_validate36_files_request_pause [guard_parts]:
  "checks Collect p (validate36_files_request_pause data p) (conforms \<rho> schema51_pause data)"
  unfolding validate36_files_request_pause_def schema51_pause_def by (intro conform_laws guard_parts; simp)

lemma checks_validate36_files_request_resume [guard_parts]:
  "checks Collect p (validate36_files_request_resume data p) (conforms \<rho> schema51_resume data)"
  unfolding validate36_files_request_resume_def schema51_resume_def by (intro conform_laws guard_parts; simp)

lemma checks_validate36_files_request_cancel [guard_parts]:
  "checks Collect p (validate36_files_request_cancel data p) (conforms \<rho> schema51_cancel data)"
  unfolding validate36_files_request_cancel_def schema51_cancel_def by (intro conform_laws guard_parts; simp)

lemma checks_validate36_files_request_configure [guard_parts]:
  "checks Collect p (validate36_files_request_configure data p) (conforms \<rho> schema51_configure data)"
  unfolding validate36_files_request_configure_def schema51_configure_def by (intro conform_laws guard_parts; simp)

lemma checks_validate36_files_request [guard_parts]:
  "checks Collect p (validate36_files_request data p) (conforms \<rho> schema51 data)"
  unfolding validate36_files_request_def schema51_def by (intro conform_laws guard_parts; simp)

lemma checks_validate36_files [guard_parts]:
  "checks Collect p (validate36_files data p) (conforms \<rho> schema49_files data)"
  unfolding validate36_files_def schema49_files_def by (intro conform_laws guard_parts; simp)

lemma checks_validate36_identify [guard_parts]:
  "checks Collect p (validate36_identify data p) (conforms \<rho> schema49_identify data)"
  unfolding validate36_identify_def schema49_identify_def by (intro conform_laws guard_parts; simp)

lemma checks_validate36_unlock [guard_parts]:
  "checks Collect p (validate36_unlock data p) (conforms \<rho> schema49_unlock data)"
  unfolding validate36_unlock_def schema49_unlock_def by (intro conform_laws guard_parts; simp)

lemma checks_validate36_lock [guard_parts]:
  "checks Collect p (validate36_lock data p) (conforms \<rho> schema49_lock data)"
  unfolding validate36_lock_def schema49_lock_def by (intro conform_laws guard_parts; simp)

lemma checks_validate36_disconnect [guard_parts]:
  "checks Collect p (validate36_disconnect data p) (conforms \<rho> schema49_disconnect data)"
  unfolding validate36_disconnect_def schema49_disconnect_def by (intro conform_laws guard_parts; simp)

lemma checks_validate36_snapshot [guard_parts]:
  "checks Collect p (validate36_snapshot data p) (conforms \<rho> schema49_snapshot data)"
  unfolding validate36_snapshot_def schema49_snapshot_def by (intro conform_laws guard_parts; simp)

lemma checks_validate36_network_status [guard_parts]:
  "checks Collect p (validate36_network_status data p) (conforms \<rho> schema49_network_status data)"
  unfolding validate36_network_status_def schema49_network_status_def by (intro conform_laws guard_parts; simp)

lemma checks_validate36_import_network_invitation [guard_parts]:
  "checks Collect p (validate36_import_network_invitation data p) (conforms \<rho> schema49_import_network_invitation data)"
  unfolding validate36_import_network_invitation_def schema49_import_network_invitation_def by (intro conform_laws guard_parts; simp)

lemma checks_validate36_catalogue [guard_parts]:
  "checks Collect p (validate36_catalogue data p) (conforms \<rho> schema49_catalogue data)"
  unfolding validate36_catalogue_def schema49_catalogue_def by (intro conform_laws guard_parts; simp)

lemma checks_validate36_history [guard_parts]:
  "checks Collect p (validate36_history data p) (conforms \<rho> schema49_history data)"
  unfolding validate36_history_def schema49_history_def by (intro conform_laws guard_parts; simp)

lemma checks_validate36_search [guard_parts]:
  "checks Collect p (validate36_search data p) (conforms \<rho> schema49_search data)"
  unfolding validate36_search_def schema49_search_def by (intro conform_laws guard_parts; simp)

lemma checks_validate36_submit [guard_parts]:
  "checks Collect p (validate36_submit data p) (conforms \<rho> schema49_submit data)"
  unfolding validate36_submit_def schema49_submit_def by (intro conform_laws guard_parts; simp)

lemma checks_validate36_complete [guard_parts]:
  "checks Collect p (validate36_complete data p) (conforms \<rho> schema49_complete data)"
  unfolding validate36_complete_def schema49_complete_def by (intro conform_laws guard_parts; simp)

lemma checks_validate36_mark_read [guard_parts]:
  "checks Collect p (validate36_mark_read data p) (conforms \<rho> schema49_mark_read data)"
  unfolding validate36_mark_read_def schema49_mark_read_def by (intro conform_laws guard_parts; simp)

lemma checks_validate36_events [guard_parts]:
  "checks Collect p (validate36_events data p) (conforms \<rho> schema49_events data)"
  unfolding validate36_events_def schema49_events_def by (intro conform_laws guard_parts; simp)

lemma checks_validate35_list [guard_parts]:
  "checks Collect p (validate35_list data p) (conforms \<rho> schema48_list data)"
  unfolding validate35_list_def schema48_list_def by (intro conform_laws guard_parts; simp)

lemma checks_validate35_inspect [guard_parts]:
  "checks Collect p (validate35_inspect data p) (conforms \<rho> schema48_inspect data)"
  unfolding validate35_inspect_def schema48_inspect_def by (intro conform_laws guard_parts; simp)

lemma checks_validate35_join [guard_parts]:
  "checks Collect p (validate35_join data p) (conforms \<rho> schema48_join data)"
  unfolding validate35_join_def schema48_join_def by (intro conform_laws guard_parts; simp)

lemma checks_validate35_call:
  assumes "\<And>x. size x < size data \<Longrightarrow> validates v (\<rho> ''Request'') x"
  shows "checks Collect p (validate35_call v data p) (conforms \<rho> schema48_call data)"
  unfolding validate35_call_def schema48_call_def
  by (intro conform_laws guard_parts checks_call_inside[where d = data and v = v and \<rho> = \<rho> and r = "''Request''", OF assms]; (assumption | simp))

lemma validates_validate35_step:
  assumes "\<And>x. size x < size d \<Longrightarrow> validates validate36 (\<rho> ''Request'') x"
  shows "validates validate35 (conforms \<rho> schema48) d"
  unfolding schema48_def
  by (rule validates_run[where m = Return], rule validate35.simps)
     (intro conform_laws guard_parts checks_validate35_call[OF assms]; assumption)

lemma validates_validate36_step:
  assumes "\<And>x. size x < size d \<Longrightarrow> validates validate35 (\<rho> ''NetworkRequest'') x"
  shows "validates validate36 (conforms \<rho> schema49) d"
  unfolding schema49_def
  by (rule validates_run[where m = Return], rule validate36.simps)
     (intro conform_laws guard_parts checks_validate36_networks[OF assms]; assumption)

end

end
