(* ===== verification/Rpc_Guards.thy ===== *)
theory Rpc_Guards
  imports History_Guards Network_Guards
begin

text \<open>
  What the typed RPC client of \<open>ui/src/rpc-api.ts\<close> gets from the guards: each exported guard
  is its schema's meaning, and a rejected value leaves a non-empty report located inside it.
\<close>

section \<open>The exported guards\<close>

text \<open>A guard is called with a value alone, so \<open>instancePath\<close> is the empty string.\<close>

definition history_details_args :: "json \<Rightarrow> bool" where
  "history_details_args value = fst (validate20 value [])"

definition history_details_output :: "json \<Rightarrow> bool" where
  "history_details_output value = fst (validate21 value [])"

definition history_details_error :: "json \<Rightarrow> bool" where
  "history_details_error value = fst (validate26 value [])"

definition networks_details_args :: "json \<Rightarrow> bool" where
  "networks_details_args value = fst (validate34 value [])"

section \<open>History\<close>

definition history_meaning :: "string \<Rightarrow> json \<Rightarrow> bool" where
  "history_meaning = unroll 3 schema32_defs"

lemmas history_schemas = schema33_def schema34_def schema35_def schema36_def schema37_def

lemma history_meaning_models: "models history_meaning schema32_defs"
  unfolding history_meaning_def
  by (rule models_unroll) (simp_all add: schema32_defs_def history_schemas numeral_3_eq_3)

interpretation history: history_schema history_meaning
  by unfold_locales (rule history_meaning_models)

interpretation history_args_guard: guard validate20 "conforms history_meaning schema31"
  by unfold_locales (rule history.validates_validate20)

interpretation history_output_guard: guard validate21 "conforms history_meaning schema32"
  by unfold_locales (rule history.validates_validate21)

interpretation history_error_guard: guard validate26 "conforms history_meaning schema38"
  by unfold_locales (rule history.validates_validate26)

section \<open>Networks\<close>

text \<open>The guards themselves interpret the recursive definitions.\<close>

definition network_meaning :: "string \<Rightarrow> json \<Rightarrow> bool" where
  "network_meaning r d =
     (if r = ''NetworkRequest'' then fst (validate35 d [])
      else if r = ''Request'' then fst (validate36 d [])
      else unroll 1 schema47_defs r d)"

lemma request_refs:
  "refs_of schema50 = []" "refs_of schema51 = []"
  by (simp_all add: schema50_def schema50_heartbeat_def schema50_detach_def schema50_prepare_def
      schema50_abort_def schema50_exit_def schema51_def schema51_list_def schema51_publications_def
      schema51_prepare_def schema51_commit_def schema51_accept_def schema51_pause_def
      schema51_resume_def schema51_cancel_def schema51_configure_def)

interpretation own: flat_requests network_meaning
proof unfold_locales
  show "network_meaning ''UpdateRequest'' d = conforms network_meaning schema50 d" for d
    by (simp add: network_meaning_def schema47_defs_def) (rule conforms_flat[OF request_refs(1)])
  show "network_meaning ''FileRequest'' d = conforms network_meaning schema51 d" for d
    by (simp add: network_meaning_def schema47_defs_def) (rule conforms_flat[OF request_refs(2)])
qed

lemma network_meaning_guards:
  "network_meaning ''NetworkRequest'' = (\<lambda>d. fst (validate35 d []))"
  "network_meaning ''Request'' = (\<lambda>d. fst (validate36 d []))"
  by (simp_all add: network_meaning_def fun_eq_iff)

lemma validates_own_verdict: "validates v A d \<Longrightarrow> validates v (\<lambda>d. fst (v d [])) d"
  using validates_fst[of v A d "[]"] by (simp add: validates_def)

lemma network_guards_sound:
  "validates validate35 (conforms network_meaning schema48) d
   \<and> validates validate36 (conforms network_meaning schema49) d"
proof (induction d rule: measure_induct_rule[where f = size])
  case (less d)
  have "validates validate36 (network_meaning ''Request'') x"
    and "validates validate35 (network_meaning ''NetworkRequest'') x" if "size x < size d" for x
    unfolding network_meaning_guards using less[OF that] by (blast intro: validates_own_verdict)+
  then show ?case
    by (blast intro: own.validates_validate35_step own.validates_validate36_step)
qed

lemma network_meaning_solves: "models network_meaning schema47_defs"
proof -
  have "network_meaning ''NetworkRequest'' d = conforms network_meaning schema48 d"
    and "network_meaning ''Request'' d = conforms network_meaning schema49 d" for d
    unfolding network_meaning_guards by (simp_all add: network_guards_sound[THEN conjunct1, THEN validates_fst]
        network_guards_sound[THEN conjunct2, THEN validates_fst])
  then show ?thesis
    by (simp add: models_def schema47_defs_def own.update_request own.file_request)
qed

text \<open>Any interpretation that satisfies the definitions agrees with the guards.\<close>

locale network_schema =
  fixes \<rho> :: "string \<Rightarrow> json \<Rightarrow> bool"
  assumes network_models: "models \<rho> schema47_defs"

sublocale network_schema \<subseteq> flat_requests
  using network_models by unfold_locales (auto simp: models_def schema47_defs_def)

context network_schema
begin

lemma guards_implement:
  "validates validate35 (\<rho> ''NetworkRequest'') d \<and> validates validate36 (\<rho> ''Request'') d"
proof (induction d rule: measure_induct_rule[where f = size])
  case (less d)
  have "\<rho> ''NetworkRequest'' = conforms \<rho> schema48" and "\<rho> ''Request'' = conforms \<rho> schema49"
    using network_models by (auto simp: models_def schema47_defs_def)
  with less show ?case
    by (simp add: validates_validate35_step validates_validate36_step)
qed

lemma call_validate35:
  "checks m p (call validate35 d p) (conforms \<rho> (SRef ''NetworkRequest'') d)"
  by (simp add: checks_call guards_implement)

lemma validates_validate34: "validates validate34 (conforms \<rho> schema47) d"
  unfolding schema47_def
  by (rule validates_run[where m = Return], rule validate34_def)
     (intro conform_laws call_validate35; simp)

end

interpretation network: network_schema network_meaning
  by unfold_locales (rule network_meaning_solves)

interpretation network_args_guard: guard validate34 "conforms network_meaning schema47"
  by unfold_locales (rule network.validates_validate34)


section \<open>What the guards promise\<close>

lemmas network_request_schemas = schema47_def schema48_def schema48_list_def schema48_inspect_def
  schema48_join_def schema48_call_def schema49_def schema49_enrollment_def schema49_update_def
  schema49_networks_def schema49_files_def schema49_identify_def schema49_unlock_def
  schema49_lock_def schema49_disconnect_def schema49_snapshot_def schema49_network_status_def
  schema49_import_network_invitation_def schema49_catalogue_def schema49_history_def
  schema49_search_def schema49_submit_def schema49_complete_def schema49_mark_read_def
  schema49_events_def

text \<open>The argument guard of \<open>networks_details\<close>, two thousand lines of generated branches that
  collect and discard errors, accepts exactly the values its JSON Schema describes, for every
  reading of the recursive definitions \<open>NetworkRequest\<close> and \<open>Request\<close>; so the recursion through
  \<open>call\<close> and \<open>networks\<close> neither loses nor adds a value.\<close>

theorem networks_details_args_iff:
  assumes "models \<rho> schema47_defs"
  shows "networks_details_args d \<longleftrightarrow> conforms \<rho> schema47 d"
  using network_schema.validates_validate34[OF network_schema.intro[OF assms]]
  by (simp add: networks_details_args_def validates_fst)

definition nested_request :: json where
  "nested_request = JObj [(''request'', JObj [(''kind'', JStr ''call''), (''network'', JStr ''n''),
     (''request'', JObj [(''kind'', JStr ''networks''), (''request'', JObj [(''kind'', JStr ''list'')])])])]"

lemma network_meaning_unfold:
  "network_meaning ''NetworkRequest'' d = conforms network_meaning schema48 d"
  "network_meaning ''Request'' d = conforms network_meaning schema49 d"
  using network_meaning_solves by (simp_all add: models_def schema47_defs_def)

theorem networks_details_args_iff_witness:
  "models network_meaning schema47_defs \<and> networks_details_args nested_request"
  using network_meaning_solves networks_details_args_iff[OF network_meaning_solves, of nested_request]
  by (simp add: nested_request_def network_request_schemas network_meaning_unfold)

text \<open>The two mutually recursive guards, taken as the meaning of the schema definitions
  \<open>NetworkRequest\<close> and \<open>Request\<close>, satisfy those definitions: the hypothesis above has a
  solution, the one the code computes.\<close>

theorem guards_solve_definitions: "models network_meaning schema47_defs"
  by (rule network_meaning_solves)

text \<open>A history page is accepted exactly when it is what the published schema says, all
  references resolved: messages with their optional delivery state, kind and action result.\<close>

theorem history_details_output_iff:
  "history_details_output d \<longleftrightarrow> conforms (unroll 3 schema32_defs) schema32 d"
  unfolding history_details_output_def history_meaning_def[symmetric]
  by (rule history_output_guard.valid_iff)

lemma integer_interval:
  "of_int \<lfloor>q\<rfloor> = q \<and> 0 \<le> q \<and> q \<le> of_nat b \<longleftrightarrow> (\<exists>n\<le>b. q = of_nat n)" for q :: rat
proof
  assume q: "of_int \<lfloor>q\<rfloor> = q \<and> 0 \<le> q \<and> q \<le> of_nat b"
  then have "0 \<le> \<lfloor>q\<rfloor>" by linarith
  then have "of_nat (nat \<lfloor>q\<rfloor>) = (of_int \<lfloor>q\<rfloor> :: rat)" by simp
  with q have n: "q = of_nat (nat \<lfloor>q\<rfloor>)" by metis
  with q have "nat \<lfloor>q\<rfloor> \<le> b" by (metis of_nat_le_iff)
  with n show "\<exists>n\<le>b. q = of_nat n" by blast
next
  assume "\<exists>n\<le>b. q = of_nat n"
  then show "of_int \<lfloor>q\<rfloor> = q \<and> 0 \<le> q \<and> q \<le> of_nat b"
    by (auto intro: exI[of _ "int _"])
qed

lemma conforms_u16:
  "conforms \<rho> (SInteger (Some b) 0) v \<longleftrightarrow> (\<exists>n\<le>b. v = JNum (Finite (of_nat n)))"
  using integer_interval[where b = b] by (auto split: json.splits jsnum.splits)

lemma conforms_nullable:
  "conforms \<rho> (SType [TString, TNull]) v \<longleftrightarrow> v = JNull \<or> (\<exists>s. v = JStr s)"
  by (auto split: json.splits)

lemma conforms_string: "conforms \<rho> (SType [TString]) v \<longleftrightarrow> (\<exists>s. v = JStr s)"
  by (auto split: json.splits)

text \<open>The arguments of a history request are accepted exactly when they are an object with
  a string \<open>conversation\<close>, an integer \<open>limit\<close> of at most 16 bits, at most a string or null
  \<open>before\<close> and no other property.\<close>

theorem history_details_args_iff:
  "history_details_args d \<longleftrightarrow> (\<exists>kvs. d = JObj kvs
     \<and> fst ` set kvs \<subseteq> {''before'', ''conversation'', ''limit''}
     \<and> (\<exists>s. map_of kvs ''conversation'' = Some (JStr s))
     \<and> (\<exists>n\<le>65535. map_of kvs ''limit'' = Some (JNum (Finite (of_nat n))))
     \<and> (map_of kvs ''before'' = None \<or> map_of kvs ''before'' = Some JNull
        \<or> (\<exists>s. map_of kvs ''before'' = Some (JStr s))))"
  unfolding history_details_args_def history_args_guard.valid_iff schema31_def
  by (cases d) (auto simp: conforms_u16 conforms_nullable conforms_string simp del: conforms.simps(1) conforms.simps(4) split: option.splits)

text \<open>Every verdict comes with the report the client shows: none when the value is accepted,
  and otherwise a non-empty list of errors, each of which points at the value under check or
  inside it.\<close>

theorem networks_report_located:
  "case validate34 d p of
     (ok, None) \<Rightarrow> ok \<and> networks_details_args d
   | (ok, Some es) \<Rightarrow> \<not> ok \<and> \<not> networks_details_args d \<and> es \<noteq> [] \<and> list_all (\<lambda>e. prefix p (instance_path e)) es"
  using network_args_guard.contract[of d]
  by (auto simp: networks_details_args_def network_args_guard.valid_iff validates_def located_def
      dest!: spec[of _ p] split: if_splits)

end
