(* ===== verification/Api_Schemas.thy ===== *)
theory Api_Schemas
  imports History_Guards Network_Guards
begin

text \<open>
  The JSON Schemas of all methods of the service (the \<open>schemaN\<close> constants of
  \<open>ui/src/rpc-validators.js\<close>).  The file repeats the schema of a type for every method that uses
  it; here equal ones are one constant, named after the first.  Each document with references has a
  locale over an interpretation that satisfies its definitions.
\<close>

section \<open>The schemas\<close>

definition schema66 :: schema where
  "schema66 = SObject
    [(''conversation'', SType [TString]),
     (''id'', SType [TString]),
     (''kind'', SType [TString]),
     (''text'', SType [TString]),
     (''timestamp'', SInteger None 0)]
    [''id'', ''conversation'', ''kind'', ''text'', ''timestamp''] False"

definition schema64 :: schema where
  "schema64 = SObject
    [(''gchatCommit'', SType [TString]),
     (''gcomsCommit'', SType [TString]),
     (''releaseId'', SType [TString]),
     (''version'', SType [TString])]
    [''releaseId'', ''gchatCommit'', ''gcomsCommit'', ''version''] False"

definition schema68 :: schema where
  "schema68 = SObject
    [(''appliedRecords'', SInteger None 0)]
    [''appliedRecords''] False"

definition schema73 :: schema where
  "schema73 = SObject
    [(''capacity'', SInteger None 0),
     (''inviteOnly'', SType [TBoolean]),
     (''moderated'', SType [TBoolean]),
     (''presenceEnabled'', SType [TBoolean]),
     (''profile'', SType [TString]),
     (''topicOperators'', SType [TBoolean])]
    [''profile'', ''capacity'', ''moderated'', ''inviteOnly'', ''topicOperators'', ''presenceEnabled''] False"

definition schema76_invitation_options :: schema where
  "schema76_invitation_options = SObject
    [(''channel'', SType [TString]),
     (''kind'', SConst ''invitation_options'')]
    [''kind'', ''channel''] False"

definition schema76_invitations :: schema where
  "schema76_invitations = SObject
    [(''channel'', SType [TString]),
     (''kind'', SConst ''invitations''),
     (''records'', SArray (SRef ''InvitationRecord''))]
    [''kind'', ''channel'', ''records''] False"

definition schema76_reusable_invitation :: schema where
  "schema76_reusable_invitation = SObject
    [(''channel'', SType [TString]),
     (''expires'', SNullable (SInteger None 0)),
     (''id'', SType [TString]),
     (''kind'', SConst ''reusable_invitation''),
     (''limit'', SNullable (SInteger None 0)),
     (''link'', SType [TString]),
     (''localOnly'', SType [TBoolean])]
    [''kind'', ''channel'', ''link'', ''id'', ''localOnly''] False"

definition schema76_enrollment :: schema where
  "schema76_enrollment = SObject
    [(''attempts'', SInteger None 0),
     (''channel'', SType [TString]),
     (''id'', SType [TString]),
     (''kind'', SConst ''enrollment''),
     (''message'', SType [TString, TNull]),
     (''phase'', SType [TString])]
    [''kind'', ''id'', ''channel'', ''phase'', ''attempts''] False"

definition schema76_enrollments :: schema where
  "schema76_enrollments = SObject
    [(''entries'', SArray (SRef ''CommandOutput'')),
     (''kind'', SConst ''enrollments'')]
    [''kind'', ''entries''] False"

definition schema76_help :: schema where
  "schema76_help = SObject
    [(''commands'', SArray (SRef ''CommandSpec'')),
     (''kind'', SConst ''help'')]
    [''kind'', ''commands''] False"

definition schema76_directory :: schema where
  "schema76_directory = SObject
    [(''channels'', SArray (SRef ''DirectoryEntry'')),
     (''kind'', SConst ''directory'')]
    [''kind'', ''channels''] False"

definition schema76_invitation :: schema where
  "schema76_invitation = SObject
    [(''channel'', SType [TString]),
     (''expires'', SInteger None 0),
     (''kind'', SConst ''invitation''),
     (''link'', SType [TString]),
     (''localOnly'', SType [TBoolean])]
    [''kind'', ''channel'', ''link'', ''expires''] False"

definition schema76_text :: schema where
  "schema76_text = SObject
    [(''kind'', SConst ''text''),
     (''text'', SType [TString]),
     (''title'', SType [TString])]
    [''kind'', ''title'', ''text''] False"

definition schema76_status :: schema where
  "schema76_status = SObject
    [(''kind'', SConst ''status''),
     (''text'', SType [TString])]
    [''kind'', ''text''] False"

definition schema76_close :: schema where
  "schema76_close = SObject
    [(''conversation'', SType [TString]),
     (''kind'', SConst ''close'')]
    [''kind'', ''conversation''] False"

definition schema76_membership_recovery :: schema where
  "schema76_membership_recovery = SObject
    [(''channel'', SType [TString]),
     (''epoch'', SType [TString]),
     (''expected'', SType [TString]),
     (''kind'', SConst ''membership_recovery''),
     (''members'', SArray (SRef ''RecoveryMember'')),
     (''pending'', SType [TBoolean]),
     (''retained_messages'', SInteger None 0)]
    [''kind'', ''channel'', ''expected'', ''epoch'', ''pending'', ''retained_messages'', ''members''] False"

definition schema76 :: schema where
  "schema76 = SOneOf [
     schema76_invitation_options,
     schema76_invitations,
     schema76_reusable_invitation,
     schema76_enrollment,
     schema76_enrollments,
     schema76_help,
     schema76_directory,
     schema76_invitation,
     schema76_text,
     schema76_status,
     schema76_close,
     schema76_membership_recovery]"

definition schema69 :: schema where
  "schema69 = SObject
    [(''available'', SType [TBoolean]),
     (''capability'', SType [TString, TNull]),
     (''description'', SType [TString]),
     (''name'', SType [TString]),
     (''scope'', SType [TString]),
     (''usage'', SType [TString])]
    [''name'', ''usage'', ''description'', ''scope'', ''available''] False"

definition schema88 :: schema where
  "schema88 = SObject
    [(''description'', SType [TString]),
     (''text'', SType [TString])]
    [''text'', ''description''] False"

definition schema67 :: schema where
  "schema67 = SObject
    [(''active'', SType [TBoolean]),
     (''catchUp'', SAnyOf [SRef ''ChannelCatchUp'', SType [TNull]]),
     (''channelId'', SType [TString]),
     (''commands'', SArray (SRef ''CommandSpec'')),
     (''directory'', SType [TString, TNull]),
     (''id'', SType [TString]),
     (''inputLimitBytes'', SInteger None 0),
     (''kind'', SRef ''ConversationKind''),
     (''lastMessageId'', SType [TString, TNull]),
     (''members'', SArray (SRef ''Member'')),
     (''muted'', SType [TBoolean, TNull]),
     (''name'', SType [TString]),
     (''owner'', SType [TBoolean]),
     (''policy'', SAnyOf [SRef ''ChannelPolicy'', SType [TNull]]),
     (''provider'', SType [TString, TNull]),
     (''topic'', SType [TString]),
     (''unread'', SInteger None 0),
     (''visibility'', SType [TString, TNull])]
    [''id'', ''channelId'', ''kind'', ''name'', ''topic'', ''active'', ''owner'', ''members'', ''unread''] False"

definition schema70 :: schema where
  "schema70 = SEnum [''channel'', ''query'', ''archive'']"

definition schema79 :: schema where
  "schema79 = SObject
    [(''conversation'', SType [TString, TNull]),
     (''joined'', SType [TBoolean]),
     (''name'', SType [TString])]
    [''name'', ''joined''] False"

definition schema60 :: schema where
  "schema60 = SObject
    [(''aliases'', SNullable (SArray (SType [TString]))),
     (''completed_by'', SInteger (Some 65535) 0),
     (''conversation'', SType [TString]),
     (''error'', SType [TString, TNull]),
     (''id'', SType [TString]),
     (''name'', SType [TString]),
     (''publication'', SAnyOf [SRef ''FilePublication'', SType [TNull]]),
     (''size_bytes'', SType [TString]),
     (''sources'', SInteger (Some 65535) 0),
     (''state'', SRef ''FileState''),
     (''verified_bytes'', SType [TString]),
     (''verified_sources'', SInteger (Some 65535) 0)]
    [''id'', ''conversation'', ''name'', ''size_bytes'', ''verified_bytes'', ''state'', ''sources'', ''completed_by''] True"

definition schema61 :: schema where
  "schema61 = SObject
    [(''canonical_id'', SType [TString]),
     (''committed_unix'', SType [TString]),
     (''name'', SType [TString]),
     (''publisher_safety_number'', SType [TString]),
     (''sequence'', SType [TString]),
     (''sha256'', SType [TString])]
    [''name'', ''canonical_id'', ''sha256'', ''publisher_safety_number'', ''sequence'', ''committed_unix''] True"

definition schema59 :: schema where
  "schema59 = SObject
    [(''files'', SArray (SRef ''FileInfo'')),
     (''quota_bytes'', SType [TString]),
     (''retention_days'', SInteger (Some 65535) 0),
     (''used_bytes'', SType [TString])]
    [''files'', ''quota_bytes'', ''used_bytes'', ''retention_days''] True"

definition schema62 :: schema where
  "schema62 = SEnum [''offered'', ''importing'', ''downloading'', ''waiting_for_peers'', ''paused'', ''complete'', ''failed'', ''cancelled'']"

definition schema74 :: schema where
  "schema74 = SObject
    [(''conversation'', SType [TString, TNull]),
     (''text'', SType [TString])]
    [''text''] False"

definition schema63 :: schema where
  "schema63 = SObject
    [(''archiveExists'', SType [TBoolean]),
     (''bootId'', SType [TString]),
     (''build'', SAnyOf [SRef ''BuildInfo'', SType [TNull]]),
     (''capabilities'', SArray (SType [TString])),
     (''id'', SType [TString]),
     (''label'', SType [TString]),
     (''locked'', SType [TBoolean]),
     (''profileExists'', SType [TBoolean]),
     (''protocolLocked'', SType [TBoolean]),
     (''safetyNumber'', SType [TString])]
    [''id'', ''label'', ''bootId'', ''locked'', ''protocolLocked'', ''profileExists'', ''archiveExists'', ''safetyNumber'', ''capabilities''] False"

definition schema56 :: schema where
  "schema56 = SObject
    [(''channel'', SType [TString, TNull]),
     (''expires'', SNullable (SInteger None 0)),
     (''network'', SRef ''JoinedNetwork''),
     (''newNetwork'', SType [TBoolean])]
    [''network'', ''newNetwork''] False"

definition schema77 :: schema where
  "schema77 = SObject
    [(''admitted'', SInteger None 0),
     (''expires'', SNullable (SInteger None 0)),
     (''id'', SType [TString]),
     (''limit'', SNullable (SInteger None 0)),
     (''pending'', SInteger None 0),
     (''revoked'', SType [TBoolean])]
    [''id'', ''admitted'', ''pending'', ''revoked''] False"

definition schema53 :: schema where
  "schema53 = SObject
    [(''fingerprint'', SType [TString]),
     (''id'', SType [TString]),
     (''name'', SType [TString]),
     (''primary'', SType [TBoolean]),
     (''status'', SRef ''NetworkStatus'')]
    [''id'', ''name'', ''fingerprint'', ''primary'', ''status''] False"

definition schema71 :: schema where
  "schema71 = SObject
    [(''capabilities'', SArray (SType [TString])),
     (''id'', SType [TString]),
     (''isSelf'', SType [TBoolean]),
     (''nickname'', SType [TString]),
     (''presence'', SAnyOf [SRef ''MemberPresence'', SType [TNull]]),
     (''recentlyActive'', SType [TBoolean, TNull])]
    [''id'', ''nickname'', ''isSelf''] False"

definition schema72_available :: schema where
  "schema72_available = SObject
    [(''state'', SConst ''available'')]
    [''state''] False"

definition schema72_away :: schema where
  "schema72_away = SObject
    [(''reason'', SType [TString]),
     (''state'', SConst ''away'')]
    [''state'', ''reason''] False"

definition schema72_unknown :: schema where
  "schema72_unknown = SObject
    [(''state'', SConst ''unknown'')]
    [''state''] False"

definition schema72 :: schema where
  "schema72 = SOneOf [
     schema72_available,
     schema72_away,
     schema72_unknown]"

definition schema55 :: schema where
  "schema55 = SEnum [''locked'', ''local_only'', ''invitation_required'', ''connecting'', ''connected'', ''reconnecting'', ''invitation_expired'', ''unavailable'']"

definition schema54 :: schema where
  "schema54 = SObject
    [(''message'', SType [TString]),
     (''state'', SRef ''NetworkState'')]
    [''state'', ''message''] False"

definition schema75 :: schema where
  "schema75 = SObject
    [(''action'', SType [TString]),
     (''conversation'', SType [TString, TNull]),
     (''id'', SType [TString]),
     (''instance'', SType [TString]),
     (''message'', SType [TString, TNull]),
     (''network'', SType [TString, TNull]),
     (''output'', SAnyOf [SRef ''CommandOutput'', SType [TNull]]),
     (''started'', SInteger None 0),
     (''state'', SType [TString])]
    [''id'', ''instance'', ''action'', ''started'', ''state''] False"

definition schema58_attached :: schema where
  "schema58_attached = SObject
    [(''state'', SConst ''attached'')]
    [''state''] False"

definition schema58_ready :: schema where
  "schema58_ready = SObject
    [(''boot_id'', SType [TString]),
     (''process_id'', SInteger None 0),
     (''state'', SConst ''ready'')]
    [''state'', ''process_id'', ''boot_id''] False"

definition schema58_busy :: schema where
  "schema58_busy = SObject
    [(''reason'', SType [TString]),
     (''state'', SConst ''busy'')]
    [''state'', ''reason''] False"

definition schema58 :: schema where
  "schema58 = SOneOf [
     schema58_attached,
     schema58_ready,
     schema58_busy]"

definition schema81 :: schema where
  "schema81 = SObject
    [(''code'', SType [TString]),
     (''id'', SType [TString]),
     (''message'', SType [TString]),
     (''retryable'', SType [TBoolean])]
    [''id'', ''code'', ''message'', ''retryable''] False"

definition schema80 :: schema where
  "schema80 = SObject
    [(''id'', SType [TString]),
     (''isSelf'', SType [TBoolean]),
     (''missingCommit'', SType [TBoolean]),
     (''nickname'', SType [TString]),
     (''pendingMessages'', SInteger None 0)]
    [''id'', ''nickname'', ''isSelf'', ''missingCommit'', ''pendingMessages''] False"

definition schema57_update :: schema where
  "schema57_update = SObject
    [(''kind'', SConst ''update''),
     (''result'', SRef ''PrepareUpdateResult'')]
    [''kind'', ''result''] False"

definition schema57_networks :: schema where
  "schema57_networks = SObject
    [(''kind'', SConst ''networks''),
     (''response'', SRef ''#'')]
    [''kind'', ''response''] False"

definition schema57_files :: schema where
  "schema57_files = SObject
    [(''kind'', SConst ''files''),
     (''snapshot'', SRef ''FileSnapshot'')]
    [''kind'', ''snapshot''] False"

definition schema57_network_status :: schema where
  "schema57_network_status = SObject
    [(''kind'', SConst ''network_status''),
     (''status'', SRef ''NetworkStatus'')]
    [''kind'', ''status''] False"

definition schema57_instance :: schema where
  "schema57_instance = SObject
    [(''instance'', SRef ''InstanceInfo''),
     (''kind'', SConst ''instance'')]
    [''kind'', ''instance''] False"

definition schema57_snapshot :: schema where
  "schema57_snapshot = SObject
    [(''kind'', SConst ''snapshot''),
     (''snapshot'', SRef ''Snapshot'')]
    [''kind'', ''snapshot''] False"

definition schema57_history :: schema where
  "schema57_history = SObject
    [(''kind'', SConst ''history''),
     (''page'', SRef ''HistoryPage'')]
    [''kind'', ''page''] False"

definition schema57_completed :: schema where
  "schema57_completed = SObject
    [(''items'', SArray (SRef ''Completion'')),
     (''kind'', SConst ''completed'')]
    [''kind'', ''items''] False"

definition schema57_catalogue :: schema where
  "schema57_catalogue = SObject
    [(''commands'', SArray (SRef ''CommandSpec'')),
     (''kind'', SConst ''catalogue'')]
    [''kind'', ''commands''] False"

definition schema57_projection :: schema where
  "schema57_projection = SObject
    [(''conversations'', SArray (SRef ''Conversation'')),
     (''kind'', SConst ''projection''),
     (''revision'', SType [TString])]
    [''kind'', ''conversations'', ''revision''] False"

definition schema57_output :: schema where
  "schema57_output = SObject
    [(''conversation'', SType [TString, TNull]),
     (''kind'', SConst ''output''),
     (''output'', SRef ''CommandOutput'')]
    [''kind'', ''output''] False"

definition schema57_applied :: schema where
  "schema57_applied = SObject
    [(''conversation'', SType [TString, TNull]),
     (''kind'', SConst ''applied''),
     (''notice'', SType [TString, TNull])]
    [''kind''] False"

definition schema57_changed :: schema where
  "schema57_changed = SObject
    [(''kind'', SConst ''changed''),
     (''revision'', SType [TString])]
    [''kind'', ''revision''] False"

definition schema57_error :: schema where
  "schema57_error = SObject
    [(''code'', SType [TString]),
     (''kind'', SConst ''error''),
     (''message'', SType [TString])]
    [''kind'', ''code'', ''message''] False"

definition schema57 :: schema where
  "schema57 = SOneOf [
     schema57_update,
     schema57_networks,
     schema57_files,
     schema57_network_status,
     schema57_instance,
     schema57_snapshot,
     schema57_history,
     schema57_completed,
     schema57_catalogue,
     schema57_projection,
     schema57_output,
     schema57_applied,
     schema57_changed,
     schema57_error]"

definition schema65 :: schema where
  "schema65 = SObject
    [(''activity'', SNullable (SArray (SRef ''Activity''))),
     (''commandHistory'', SArray (SType [TString])),
     (''conversations'', SArray (SRef ''Conversation'')),
     (''inputHistory'', SArray (SRef ''InputHistoryEntry'')),
     (''instance'', SRef ''InstanceInfo''),
     (''operations'', SNullable (SArray (SRef ''OperationDetail''))),
     (''presenceEnabled'', SType [TBoolean, TNull]),
     (''providerErrors'', SArray (SRef ''ProviderStatus'')),
     (''revision'', SType [TString])]
    [''instance'', ''revision'', ''conversations'', ''commandHistory'', ''inputHistory''] False"

definition schema52_list :: schema where
  "schema52_list = SObject
    [(''kind'', SConst ''list''),
     (''networks'', SArray (SRef ''JoinedNetwork''))]
    [''kind'', ''networks''] False"

definition schema52_preview :: schema where
  "schema52_preview = SObject
    [(''kind'', SConst ''preview''),
     (''preview'', SRef ''InvitationPreview'')]
    [''kind'', ''preview''] False"

definition schema52_result :: schema where
  "schema52_result = SObject
    [(''kind'', SConst ''result''),
     (''network'', SType [TString]),
     (''response'', SRef ''Response'')]
    [''kind'', ''network'', ''response''] False"

definition schema52 :: schema where
  "schema52 = SOneOf [
     schema52_list,
     schema52_preview,
     schema52_result]"

definition schema52_defs :: defs where
  "schema52_defs = [(''ActionResult'', schema36), (''Activity'', schema66), (''Artifact'', schema37), (''BuildInfo'', schema64), (''ChannelCatchUp'', schema68), (''ChannelPolicy'', schema73), (''CommandOutput'', schema76), (''CommandSpec'', schema69), (''Completion'', schema88), (''Conversation'', schema67), (''ConversationKind'', schema70), (''Delivery'', schema34), (''DirectoryEntry'', schema79), (''FileInfo'', schema60), (''FilePublication'', schema61), (''FileSnapshot'', schema59), (''FileState'', schema62), (''HistoryPage'', schema32), (''InputHistoryEntry'', schema74), (''InstanceInfo'', schema63), (''InvitationPreview'', schema56), (''InvitationRecord'', schema77), (''JoinedNetwork'', schema53), (''Member'', schema71), (''MemberPresence'', schema72), (''Message'', schema33), (''MessageKind'', schema35), (''NetworkState'', schema55), (''NetworkStatus'', schema54), (''OperationDetail'', schema75), (''PrepareUpdateResult'', schema58), (''ProviderStatus'', schema81), (''RecoveryMember'', schema80), (''Response'', schema57), (''Snapshot'', schema65), (''#'', schema52)]"

definition schema65_defs :: defs where
  "schema65_defs = [(''Activity'', schema66), (''BuildInfo'', schema64), (''ChannelCatchUp'', schema68), (''ChannelPolicy'', schema73), (''CommandOutput'', schema76), (''CommandSpec'', schema69), (''Conversation'', schema67), (''ConversationKind'', schema70), (''DirectoryEntry'', schema79), (''InputHistoryEntry'', schema74), (''InstanceInfo'', schema63), (''InvitationRecord'', schema77), (''Member'', schema71), (''MemberPresence'', schema72), (''OperationDetail'', schema75), (''ProviderStatus'', schema81), (''RecoveryMember'', schema80)]"

definition schema92_applied :: schema where
  "schema92_applied = SObject
    [(''conversation'', SType [TString, TNull]),
     (''kind'', SConst ''applied''),
     (''notice'', SType [TString, TNull])]
    [''kind''] True"

definition schema92_output :: schema where
  "schema92_output = SObject
    [(''conversation'', SType [TString, TNull]),
     (''kind'', SConst ''output''),
     (''output'', SRef ''CommandOutput'')]
    [''kind'', ''output''] True"

definition schema92 :: schema where
  "schema92 = SOneOf [
     schema92_applied,
     schema92_output]"

definition schema92_defs :: defs where
  "schema92_defs = [(''CommandOutput'', schema76), (''CommandSpec'', schema69), (''DirectoryEntry'', schema79), (''InvitationRecord'', schema77), (''RecoveryMember'', schema80)]"

definition schema39 :: schema where
  "schema39 = SObject
    [(''before'', SType [TString, TNull]),
     (''conversation'', SType [TString]),
     (''limit'', SInteger (Some 65535) 0),
     (''text'', SType [TString])]
    [''conversation'', ''text'', ''limit''] True"

definition schema91 :: schema where
  "schema91 = SObject
    [(''action'', SType [TString]),
     (''id'', SType [TString])]
    [''id'', ''action''] True"

definition schema187 :: schema where
  "schema187 = SObject
    [(''request'', SRef ''FileRequest'')]
    [''request''] True"

definition schema187_defs :: defs where
  "schema187_defs = [(''FileRequest'', schema51)]"

definition schema59_defs :: defs where
  "schema59_defs = [(''FileInfo'', schema60), (''FilePublication'', schema61), (''FileState'', schema62)]"

definition schema194 :: schema where
  "schema194 = SObject
    []
    [] True"

definition schema63_defs :: defs where
  "schema63_defs = [(''BuildInfo'', schema64)]"

definition schema198 :: schema where
  "schema198 = SObject
    [(''create'', SType [TBoolean]),
     (''passphrase'', SType [TString])]
    [''passphrase'', ''create''] True"

definition schema54_defs :: defs where
  "schema54_defs = [(''NetworkState'', schema55)]"

definition schema269 :: schema where
  "schema269 = SObject
    [(''code'', SType [TString])]
    [''code''] True"

definition schema273 :: schema where
  "schema273 = SObject
    [(''conversation'', SType [TString, TNull])]
    [] True"

definition schema274 :: schema where
  "schema274 = SArray (SRef ''CommandSpec'')"

definition schema274_defs :: defs where
  "schema274_defs = [(''CommandSpec'', schema69)]"

definition schema293 :: schema where
  "schema293 = SObject
    [(''conversation'', SType [TString, TNull]),
     (''text'', SType [TString])]
    [''text''] True"

definition schema302 :: schema where
  "schema302 = SArray (SRef ''Completion'')"

definition schema302_defs :: defs where
  "schema302_defs = [(''Completion'', schema88)]"

definition schema305 :: schema where
  "schema305 = SObject
    [(''conversation'', SType [TString]),
     (''message_id'', SType [TString])]
    [''conversation'', ''message_id''] True"

definition schema306 :: schema where
  "schema306 = SObject
    [(''conversation'', SType [TString, TNull]),
     (''notice'', SType [TString, TNull])]
    [] True"

definition schema308 :: schema where
  "schema308 = SObject
    [(''after'', SType [TString]),
     (''wait_ms'', SInteger (Some 65535) 0)]
    [''after'', ''wait_ms''] True"

definition schema309 :: schema where
  "schema309 = SType [TString]"

section \<open>Documents with references\<close>

locale request_document =
  fixes \<rho> :: "string \<Rightarrow> json \<Rightarrow> bool"
  assumes models: "models \<rho> schema47_defs"

sublocale request_document \<subseteq> flat_requests
  using models by unfold_locales (auto simp: models_def schema47_defs_def)

context request_document
begin

lemma def_Request: "\<rho> ''Request'' = conforms \<rho> schema49"
  using models by (auto simp: models_def schema47_defs_def)

lemma def_NetworkRequest: "\<rho> ''NetworkRequest'' = conforms \<rho> schema48"
  using models by (auto simp: models_def schema47_defs_def)

lemma ref_Request [guard_parts]:
  "checks m p c (conforms \<rho> schema49 d) \<Longrightarrow> checks m p c (conforms \<rho> (SRef ''Request'') d)"
  by (simp add: def_Request)

lemma ref_NetworkRequest [guard_parts]:
  "checks m p c (conforms \<rho> schema48 d) \<Longrightarrow> checks m p c (conforms \<rho> (SRef ''NetworkRequest'') d)"
  by (simp add: def_NetworkRequest)

end

locale document_schema52 =
  fixes \<rho> :: "string \<Rightarrow> json \<Rightarrow> bool"
  assumes models: "models \<rho> schema52_defs"
begin

lemma def_ActionResult: "\<rho> ''ActionResult'' = conforms \<rho> schema36"
  by (rule ext, rule modelsD[OF models]) (simp add: schema52_defs_def)

lemma def_Activity: "\<rho> ''Activity'' = conforms \<rho> schema66"
  by (rule ext, rule modelsD[OF models]) (simp add: schema52_defs_def)

lemma def_Artifact: "\<rho> ''Artifact'' = conforms \<rho> schema37"
  by (rule ext, rule modelsD[OF models]) (simp add: schema52_defs_def)

lemma def_BuildInfo: "\<rho> ''BuildInfo'' = conforms \<rho> schema64"
  by (rule ext, rule modelsD[OF models]) (simp add: schema52_defs_def)

lemma def_ChannelCatchUp: "\<rho> ''ChannelCatchUp'' = conforms \<rho> schema68"
  by (rule ext, rule modelsD[OF models]) (simp add: schema52_defs_def)

lemma def_ChannelPolicy: "\<rho> ''ChannelPolicy'' = conforms \<rho> schema73"
  by (rule ext, rule modelsD[OF models]) (simp add: schema52_defs_def)

lemma def_CommandOutput: "\<rho> ''CommandOutput'' = conforms \<rho> schema76"
  by (rule ext, rule modelsD[OF models]) (simp add: schema52_defs_def)

lemma def_CommandSpec: "\<rho> ''CommandSpec'' = conforms \<rho> schema69"
  by (rule ext, rule modelsD[OF models]) (simp add: schema52_defs_def)

lemma def_Completion: "\<rho> ''Completion'' = conforms \<rho> schema88"
  by (rule ext, rule modelsD[OF models]) (simp add: schema52_defs_def)

lemma def_Conversation: "\<rho> ''Conversation'' = conforms \<rho> schema67"
  by (rule ext, rule modelsD[OF models]) (simp add: schema52_defs_def)

lemma def_ConversationKind: "\<rho> ''ConversationKind'' = conforms \<rho> schema70"
  by (rule ext, rule modelsD[OF models]) (simp add: schema52_defs_def)

lemma def_Delivery: "\<rho> ''Delivery'' = conforms \<rho> schema34"
  by (rule ext, rule modelsD[OF models]) (simp add: schema52_defs_def)

lemma def_DirectoryEntry: "\<rho> ''DirectoryEntry'' = conforms \<rho> schema79"
  by (rule ext, rule modelsD[OF models]) (simp add: schema52_defs_def)

lemma def_FileInfo: "\<rho> ''FileInfo'' = conforms \<rho> schema60"
  by (rule ext, rule modelsD[OF models]) (simp add: schema52_defs_def)

lemma def_FilePublication: "\<rho> ''FilePublication'' = conforms \<rho> schema61"
  by (rule ext, rule modelsD[OF models]) (simp add: schema52_defs_def)

lemma def_FileSnapshot: "\<rho> ''FileSnapshot'' = conforms \<rho> schema59"
  by (rule ext, rule modelsD[OF models]) (simp add: schema52_defs_def)

lemma def_FileState: "\<rho> ''FileState'' = conforms \<rho> schema62"
  by (rule ext, rule modelsD[OF models]) (simp add: schema52_defs_def)

lemma def_HistoryPage: "\<rho> ''HistoryPage'' = conforms \<rho> schema32"
  by (rule ext, rule modelsD[OF models]) (simp add: schema52_defs_def)

lemma def_InputHistoryEntry: "\<rho> ''InputHistoryEntry'' = conforms \<rho> schema74"
  by (rule ext, rule modelsD[OF models]) (simp add: schema52_defs_def)

lemma def_InstanceInfo: "\<rho> ''InstanceInfo'' = conforms \<rho> schema63"
  by (rule ext, rule modelsD[OF models]) (simp add: schema52_defs_def)

lemma def_InvitationPreview: "\<rho> ''InvitationPreview'' = conforms \<rho> schema56"
  by (rule ext, rule modelsD[OF models]) (simp add: schema52_defs_def)

lemma def_InvitationRecord: "\<rho> ''InvitationRecord'' = conforms \<rho> schema77"
  by (rule ext, rule modelsD[OF models]) (simp add: schema52_defs_def)

lemma def_JoinedNetwork: "\<rho> ''JoinedNetwork'' = conforms \<rho> schema53"
  by (rule ext, rule modelsD[OF models]) (simp add: schema52_defs_def)

lemma def_Member: "\<rho> ''Member'' = conforms \<rho> schema71"
  by (rule ext, rule modelsD[OF models]) (simp add: schema52_defs_def)

lemma def_MemberPresence: "\<rho> ''MemberPresence'' = conforms \<rho> schema72"
  by (rule ext, rule modelsD[OF models]) (simp add: schema52_defs_def)

lemma def_Message: "\<rho> ''Message'' = conforms \<rho> schema33"
  by (rule ext, rule modelsD[OF models]) (simp add: schema52_defs_def)

lemma def_MessageKind: "\<rho> ''MessageKind'' = conforms \<rho> schema35"
  by (rule ext, rule modelsD[OF models]) (simp add: schema52_defs_def)

lemma def_NetworkState: "\<rho> ''NetworkState'' = conforms \<rho> schema55"
  by (rule ext, rule modelsD[OF models]) (simp add: schema52_defs_def)

lemma def_NetworkStatus: "\<rho> ''NetworkStatus'' = conforms \<rho> schema54"
  by (rule ext, rule modelsD[OF models]) (simp add: schema52_defs_def)

lemma def_OperationDetail: "\<rho> ''OperationDetail'' = conforms \<rho> schema75"
  by (rule ext, rule modelsD[OF models]) (simp add: schema52_defs_def)

lemma def_PrepareUpdateResult: "\<rho> ''PrepareUpdateResult'' = conforms \<rho> schema58"
  by (rule ext, rule modelsD[OF models]) (simp add: schema52_defs_def)

lemma def_ProviderStatus: "\<rho> ''ProviderStatus'' = conforms \<rho> schema81"
  by (rule ext, rule modelsD[OF models]) (simp add: schema52_defs_def)

lemma def_RecoveryMember: "\<rho> ''RecoveryMember'' = conforms \<rho> schema80"
  by (rule ext, rule modelsD[OF models]) (simp add: schema52_defs_def)

lemma def_Response: "\<rho> ''Response'' = conforms \<rho> schema57"
  by (rule ext, rule modelsD[OF models]) (simp add: schema52_defs_def)

lemma def_Snapshot: "\<rho> ''Snapshot'' = conforms \<rho> schema65"
  by (rule ext, rule modelsD[OF models]) (simp add: schema52_defs_def)

lemma def_root: "\<rho> ''#'' = conforms \<rho> schema52"
  by (rule ext, rule modelsD[OF models]) (simp add: schema52_defs_def)

lemma ref_ActionResult [guard_parts]:
  "checks m p c (conforms \<rho> schema36 d) \<Longrightarrow> checks m p c (conforms \<rho> (SRef ''ActionResult'') d)"
  by (simp add: def_ActionResult)

lemma ref_Activity [guard_parts]:
  "checks m p c (conforms \<rho> schema66 d) \<Longrightarrow> checks m p c (conforms \<rho> (SRef ''Activity'') d)"
  by (simp add: def_Activity)

lemma ref_Artifact [guard_parts]:
  "checks m p c (conforms \<rho> schema37 d) \<Longrightarrow> checks m p c (conforms \<rho> (SRef ''Artifact'') d)"
  by (simp add: def_Artifact)

lemma ref_BuildInfo [guard_parts]:
  "checks m p c (conforms \<rho> schema64 d) \<Longrightarrow> checks m p c (conforms \<rho> (SRef ''BuildInfo'') d)"
  by (simp add: def_BuildInfo)

lemma ref_ChannelCatchUp [guard_parts]:
  "checks m p c (conforms \<rho> schema68 d) \<Longrightarrow> checks m p c (conforms \<rho> (SRef ''ChannelCatchUp'') d)"
  by (simp add: def_ChannelCatchUp)

lemma ref_ChannelPolicy [guard_parts]:
  "checks m p c (conforms \<rho> schema73 d) \<Longrightarrow> checks m p c (conforms \<rho> (SRef ''ChannelPolicy'') d)"
  by (simp add: def_ChannelPolicy)

lemma ref_CommandOutput [guard_parts]:
  "checks m p c (conforms \<rho> schema76 d) \<Longrightarrow> checks m p c (conforms \<rho> (SRef ''CommandOutput'') d)"
  by (simp add: def_CommandOutput)

lemma ref_CommandSpec [guard_parts]:
  "checks m p c (conforms \<rho> schema69 d) \<Longrightarrow> checks m p c (conforms \<rho> (SRef ''CommandSpec'') d)"
  by (simp add: def_CommandSpec)

lemma ref_Completion [guard_parts]:
  "checks m p c (conforms \<rho> schema88 d) \<Longrightarrow> checks m p c (conforms \<rho> (SRef ''Completion'') d)"
  by (simp add: def_Completion)

lemma ref_Conversation [guard_parts]:
  "checks m p c (conforms \<rho> schema67 d) \<Longrightarrow> checks m p c (conforms \<rho> (SRef ''Conversation'') d)"
  by (simp add: def_Conversation)

lemma ref_ConversationKind [guard_parts]:
  "checks m p c (conforms \<rho> (SEnum [''channel'', ''query'', ''archive'']) d) \<Longrightarrow> checks m p c (conforms \<rho> (SRef ''ConversationKind'') d)"
  by (simp add: def_ConversationKind schema70_def)

lemma ref_Delivery [guard_parts]:
  "checks m p c (conforms \<rho> (SEnum [''local_accepted'', ''delivered'', ''service_accepted'', ''failed'']) d) \<Longrightarrow> checks m p c (conforms \<rho> (SRef ''Delivery'') d)"
  by (simp add: def_Delivery schema34_def)

lemma ref_DirectoryEntry [guard_parts]:
  "checks m p c (conforms \<rho> schema79 d) \<Longrightarrow> checks m p c (conforms \<rho> (SRef ''DirectoryEntry'') d)"
  by (simp add: def_DirectoryEntry)

lemma ref_FileInfo [guard_parts]:
  "checks m p c (conforms \<rho> schema60 d) \<Longrightarrow> checks m p c (conforms \<rho> (SRef ''FileInfo'') d)"
  by (simp add: def_FileInfo)

lemma ref_FilePublication [guard_parts]:
  "checks m p c (conforms \<rho> schema61 d) \<Longrightarrow> checks m p c (conforms \<rho> (SRef ''FilePublication'') d)"
  by (simp add: def_FilePublication)

lemma ref_FileSnapshot [guard_parts]:
  "checks m p c (conforms \<rho> schema59 d) \<Longrightarrow> checks m p c (conforms \<rho> (SRef ''FileSnapshot'') d)"
  by (simp add: def_FileSnapshot)

lemma ref_FileState [guard_parts]:
  "checks m p c (conforms \<rho> (SEnum [''offered'', ''importing'', ''downloading'', ''waiting_for_peers'', ''paused'', ''complete'', ''failed'', ''cancelled'']) d) \<Longrightarrow> checks m p c (conforms \<rho> (SRef ''FileState'') d)"
  by (simp add: def_FileState schema62_def)

lemma ref_HistoryPage [guard_parts]:
  "checks m p c (conforms \<rho> schema32 d) \<Longrightarrow> checks m p c (conforms \<rho> (SRef ''HistoryPage'') d)"
  by (simp add: def_HistoryPage)

lemma ref_InputHistoryEntry [guard_parts]:
  "checks m p c (conforms \<rho> schema74 d) \<Longrightarrow> checks m p c (conforms \<rho> (SRef ''InputHistoryEntry'') d)"
  by (simp add: def_InputHistoryEntry)

lemma ref_InstanceInfo [guard_parts]:
  "checks m p c (conforms \<rho> schema63 d) \<Longrightarrow> checks m p c (conforms \<rho> (SRef ''InstanceInfo'') d)"
  by (simp add: def_InstanceInfo)

lemma ref_InvitationPreview [guard_parts]:
  "checks m p c (conforms \<rho> schema56 d) \<Longrightarrow> checks m p c (conforms \<rho> (SRef ''InvitationPreview'') d)"
  by (simp add: def_InvitationPreview)

lemma ref_InvitationRecord [guard_parts]:
  "checks m p c (conforms \<rho> schema77 d) \<Longrightarrow> checks m p c (conforms \<rho> (SRef ''InvitationRecord'') d)"
  by (simp add: def_InvitationRecord)

lemma ref_JoinedNetwork [guard_parts]:
  "checks m p c (conforms \<rho> schema53 d) \<Longrightarrow> checks m p c (conforms \<rho> (SRef ''JoinedNetwork'') d)"
  by (simp add: def_JoinedNetwork)

lemma ref_Member [guard_parts]:
  "checks m p c (conforms \<rho> schema71 d) \<Longrightarrow> checks m p c (conforms \<rho> (SRef ''Member'') d)"
  by (simp add: def_Member)

lemma ref_MemberPresence [guard_parts]:
  "checks m p c (conforms \<rho> schema72 d) \<Longrightarrow> checks m p c (conforms \<rho> (SRef ''MemberPresence'') d)"
  by (simp add: def_MemberPresence)

lemma ref_Message [guard_parts]:
  "checks m p c (conforms \<rho> schema33 d) \<Longrightarrow> checks m p c (conforms \<rho> (SRef ''Message'') d)"
  by (simp add: def_Message)

lemma ref_MessageKind [guard_parts]:
  "checks m p c (conforms \<rho> (SEnum [''text'', ''action'', ''notice'']) d) \<Longrightarrow> checks m p c (conforms \<rho> (SRef ''MessageKind'') d)"
  by (simp add: def_MessageKind schema35_def)

lemma ref_NetworkState [guard_parts]:
  "checks m p c (conforms \<rho> (SEnum [''locked'', ''local_only'', ''invitation_required'', ''connecting'', ''connected'', ''reconnecting'', ''invitation_expired'', ''unavailable'']) d) \<Longrightarrow> checks m p c (conforms \<rho> (SRef ''NetworkState'') d)"
  by (simp add: def_NetworkState schema55_def)

lemma ref_NetworkStatus [guard_parts]:
  "checks m p c (conforms \<rho> schema54 d) \<Longrightarrow> checks m p c (conforms \<rho> (SRef ''NetworkStatus'') d)"
  by (simp add: def_NetworkStatus)

lemma ref_OperationDetail [guard_parts]:
  "checks m p c (conforms \<rho> schema75 d) \<Longrightarrow> checks m p c (conforms \<rho> (SRef ''OperationDetail'') d)"
  by (simp add: def_OperationDetail)

lemma ref_PrepareUpdateResult [guard_parts]:
  "checks m p c (conforms \<rho> schema58 d) \<Longrightarrow> checks m p c (conforms \<rho> (SRef ''PrepareUpdateResult'') d)"
  by (simp add: def_PrepareUpdateResult)

lemma ref_ProviderStatus [guard_parts]:
  "checks m p c (conforms \<rho> schema81 d) \<Longrightarrow> checks m p c (conforms \<rho> (SRef ''ProviderStatus'') d)"
  by (simp add: def_ProviderStatus)

lemma ref_RecoveryMember [guard_parts]:
  "checks m p c (conforms \<rho> schema80 d) \<Longrightarrow> checks m p c (conforms \<rho> (SRef ''RecoveryMember'') d)"
  by (simp add: def_RecoveryMember)

lemma ref_Response [guard_parts]:
  "checks m p c (conforms \<rho> schema57 d) \<Longrightarrow> checks m p c (conforms \<rho> (SRef ''Response'') d)"
  by (simp add: def_Response)

lemma ref_Snapshot [guard_parts]:
  "checks m p c (conforms \<rho> schema65 d) \<Longrightarrow> checks m p c (conforms \<rho> (SRef ''Snapshot'') d)"
  by (simp add: def_Snapshot)

lemma ref_root [guard_parts]:
  "checks m p c (conforms \<rho> schema52 d) \<Longrightarrow> checks m p c (conforms \<rho> (SRef ''#'') d)"
  by (simp add: def_root)

end

locale document_schema65 =
  fixes \<rho> :: "string \<Rightarrow> json \<Rightarrow> bool"
  assumes models: "models \<rho> schema65_defs"
begin

lemma def_Activity: "\<rho> ''Activity'' = conforms \<rho> schema66"
  by (rule ext, rule modelsD[OF models]) (simp add: schema65_defs_def)

lemma def_BuildInfo: "\<rho> ''BuildInfo'' = conforms \<rho> schema64"
  by (rule ext, rule modelsD[OF models]) (simp add: schema65_defs_def)

lemma def_ChannelCatchUp: "\<rho> ''ChannelCatchUp'' = conforms \<rho> schema68"
  by (rule ext, rule modelsD[OF models]) (simp add: schema65_defs_def)

lemma def_ChannelPolicy: "\<rho> ''ChannelPolicy'' = conforms \<rho> schema73"
  by (rule ext, rule modelsD[OF models]) (simp add: schema65_defs_def)

lemma def_CommandOutput: "\<rho> ''CommandOutput'' = conforms \<rho> schema76"
  by (rule ext, rule modelsD[OF models]) (simp add: schema65_defs_def)

lemma def_CommandSpec: "\<rho> ''CommandSpec'' = conforms \<rho> schema69"
  by (rule ext, rule modelsD[OF models]) (simp add: schema65_defs_def)

lemma def_Conversation: "\<rho> ''Conversation'' = conforms \<rho> schema67"
  by (rule ext, rule modelsD[OF models]) (simp add: schema65_defs_def)

lemma def_ConversationKind: "\<rho> ''ConversationKind'' = conforms \<rho> schema70"
  by (rule ext, rule modelsD[OF models]) (simp add: schema65_defs_def)

lemma def_DirectoryEntry: "\<rho> ''DirectoryEntry'' = conforms \<rho> schema79"
  by (rule ext, rule modelsD[OF models]) (simp add: schema65_defs_def)

lemma def_InputHistoryEntry: "\<rho> ''InputHistoryEntry'' = conforms \<rho> schema74"
  by (rule ext, rule modelsD[OF models]) (simp add: schema65_defs_def)

lemma def_InstanceInfo: "\<rho> ''InstanceInfo'' = conforms \<rho> schema63"
  by (rule ext, rule modelsD[OF models]) (simp add: schema65_defs_def)

lemma def_InvitationRecord: "\<rho> ''InvitationRecord'' = conforms \<rho> schema77"
  by (rule ext, rule modelsD[OF models]) (simp add: schema65_defs_def)

lemma def_Member: "\<rho> ''Member'' = conforms \<rho> schema71"
  by (rule ext, rule modelsD[OF models]) (simp add: schema65_defs_def)

lemma def_MemberPresence: "\<rho> ''MemberPresence'' = conforms \<rho> schema72"
  by (rule ext, rule modelsD[OF models]) (simp add: schema65_defs_def)

lemma def_OperationDetail: "\<rho> ''OperationDetail'' = conforms \<rho> schema75"
  by (rule ext, rule modelsD[OF models]) (simp add: schema65_defs_def)

lemma def_ProviderStatus: "\<rho> ''ProviderStatus'' = conforms \<rho> schema81"
  by (rule ext, rule modelsD[OF models]) (simp add: schema65_defs_def)

lemma def_RecoveryMember: "\<rho> ''RecoveryMember'' = conforms \<rho> schema80"
  by (rule ext, rule modelsD[OF models]) (simp add: schema65_defs_def)

lemma ref_Activity [guard_parts]:
  "checks m p c (conforms \<rho> schema66 d) \<Longrightarrow> checks m p c (conforms \<rho> (SRef ''Activity'') d)"
  by (simp add: def_Activity)

lemma ref_BuildInfo [guard_parts]:
  "checks m p c (conforms \<rho> schema64 d) \<Longrightarrow> checks m p c (conforms \<rho> (SRef ''BuildInfo'') d)"
  by (simp add: def_BuildInfo)

lemma ref_ChannelCatchUp [guard_parts]:
  "checks m p c (conforms \<rho> schema68 d) \<Longrightarrow> checks m p c (conforms \<rho> (SRef ''ChannelCatchUp'') d)"
  by (simp add: def_ChannelCatchUp)

lemma ref_ChannelPolicy [guard_parts]:
  "checks m p c (conforms \<rho> schema73 d) \<Longrightarrow> checks m p c (conforms \<rho> (SRef ''ChannelPolicy'') d)"
  by (simp add: def_ChannelPolicy)

lemma ref_CommandOutput [guard_parts]:
  "checks m p c (conforms \<rho> schema76 d) \<Longrightarrow> checks m p c (conforms \<rho> (SRef ''CommandOutput'') d)"
  by (simp add: def_CommandOutput)

lemma ref_CommandSpec [guard_parts]:
  "checks m p c (conforms \<rho> schema69 d) \<Longrightarrow> checks m p c (conforms \<rho> (SRef ''CommandSpec'') d)"
  by (simp add: def_CommandSpec)

lemma ref_Conversation [guard_parts]:
  "checks m p c (conforms \<rho> schema67 d) \<Longrightarrow> checks m p c (conforms \<rho> (SRef ''Conversation'') d)"
  by (simp add: def_Conversation)

lemma ref_ConversationKind [guard_parts]:
  "checks m p c (conforms \<rho> (SEnum [''channel'', ''query'', ''archive'']) d) \<Longrightarrow> checks m p c (conforms \<rho> (SRef ''ConversationKind'') d)"
  by (simp add: def_ConversationKind schema70_def)

lemma ref_DirectoryEntry [guard_parts]:
  "checks m p c (conforms \<rho> schema79 d) \<Longrightarrow> checks m p c (conforms \<rho> (SRef ''DirectoryEntry'') d)"
  by (simp add: def_DirectoryEntry)

lemma ref_InputHistoryEntry [guard_parts]:
  "checks m p c (conforms \<rho> schema74 d) \<Longrightarrow> checks m p c (conforms \<rho> (SRef ''InputHistoryEntry'') d)"
  by (simp add: def_InputHistoryEntry)

lemma ref_InstanceInfo [guard_parts]:
  "checks m p c (conforms \<rho> schema63 d) \<Longrightarrow> checks m p c (conforms \<rho> (SRef ''InstanceInfo'') d)"
  by (simp add: def_InstanceInfo)

lemma ref_InvitationRecord [guard_parts]:
  "checks m p c (conforms \<rho> schema77 d) \<Longrightarrow> checks m p c (conforms \<rho> (SRef ''InvitationRecord'') d)"
  by (simp add: def_InvitationRecord)

lemma ref_Member [guard_parts]:
  "checks m p c (conforms \<rho> schema71 d) \<Longrightarrow> checks m p c (conforms \<rho> (SRef ''Member'') d)"
  by (simp add: def_Member)

lemma ref_MemberPresence [guard_parts]:
  "checks m p c (conforms \<rho> schema72 d) \<Longrightarrow> checks m p c (conforms \<rho> (SRef ''MemberPresence'') d)"
  by (simp add: def_MemberPresence)

lemma ref_OperationDetail [guard_parts]:
  "checks m p c (conforms \<rho> schema75 d) \<Longrightarrow> checks m p c (conforms \<rho> (SRef ''OperationDetail'') d)"
  by (simp add: def_OperationDetail)

lemma ref_ProviderStatus [guard_parts]:
  "checks m p c (conforms \<rho> schema81 d) \<Longrightarrow> checks m p c (conforms \<rho> (SRef ''ProviderStatus'') d)"
  by (simp add: def_ProviderStatus)

lemma ref_RecoveryMember [guard_parts]:
  "checks m p c (conforms \<rho> schema80 d) \<Longrightarrow> checks m p c (conforms \<rho> (SRef ''RecoveryMember'') d)"
  by (simp add: def_RecoveryMember)

end

locale document_schema92 =
  fixes \<rho> :: "string \<Rightarrow> json \<Rightarrow> bool"
  assumes models: "models \<rho> schema92_defs"
begin

lemma def_CommandOutput: "\<rho> ''CommandOutput'' = conforms \<rho> schema76"
  by (rule ext, rule modelsD[OF models]) (simp add: schema92_defs_def)

lemma def_CommandSpec: "\<rho> ''CommandSpec'' = conforms \<rho> schema69"
  by (rule ext, rule modelsD[OF models]) (simp add: schema92_defs_def)

lemma def_DirectoryEntry: "\<rho> ''DirectoryEntry'' = conforms \<rho> schema79"
  by (rule ext, rule modelsD[OF models]) (simp add: schema92_defs_def)

lemma def_InvitationRecord: "\<rho> ''InvitationRecord'' = conforms \<rho> schema77"
  by (rule ext, rule modelsD[OF models]) (simp add: schema92_defs_def)

lemma def_RecoveryMember: "\<rho> ''RecoveryMember'' = conforms \<rho> schema80"
  by (rule ext, rule modelsD[OF models]) (simp add: schema92_defs_def)

lemma ref_CommandOutput [guard_parts]:
  "checks m p c (conforms \<rho> schema76 d) \<Longrightarrow> checks m p c (conforms \<rho> (SRef ''CommandOutput'') d)"
  by (simp add: def_CommandOutput)

lemma ref_CommandSpec [guard_parts]:
  "checks m p c (conforms \<rho> schema69 d) \<Longrightarrow> checks m p c (conforms \<rho> (SRef ''CommandSpec'') d)"
  by (simp add: def_CommandSpec)

lemma ref_DirectoryEntry [guard_parts]:
  "checks m p c (conforms \<rho> schema79 d) \<Longrightarrow> checks m p c (conforms \<rho> (SRef ''DirectoryEntry'') d)"
  by (simp add: def_DirectoryEntry)

lemma ref_InvitationRecord [guard_parts]:
  "checks m p c (conforms \<rho> schema77 d) \<Longrightarrow> checks m p c (conforms \<rho> (SRef ''InvitationRecord'') d)"
  by (simp add: def_InvitationRecord)

lemma ref_RecoveryMember [guard_parts]:
  "checks m p c (conforms \<rho> schema80 d) \<Longrightarrow> checks m p c (conforms \<rho> (SRef ''RecoveryMember'') d)"
  by (simp add: def_RecoveryMember)

end

locale document_schema187 =
  fixes \<rho> :: "string \<Rightarrow> json \<Rightarrow> bool"
  assumes models: "models \<rho> schema187_defs"
begin

lemma def_FileRequest: "\<rho> ''FileRequest'' = conforms \<rho> schema51"
  by (rule ext, rule modelsD[OF models]) (simp add: schema187_defs_def)

lemma ref_FileRequest [guard_parts]:
  "checks m p c (conforms \<rho> schema51 d) \<Longrightarrow> checks m p c (conforms \<rho> (SRef ''FileRequest'') d)"
  by (simp add: def_FileRequest)

end

locale document_schema59 =
  fixes \<rho> :: "string \<Rightarrow> json \<Rightarrow> bool"
  assumes models: "models \<rho> schema59_defs"
begin

lemma def_FileInfo: "\<rho> ''FileInfo'' = conforms \<rho> schema60"
  by (rule ext, rule modelsD[OF models]) (simp add: schema59_defs_def)

lemma def_FilePublication: "\<rho> ''FilePublication'' = conforms \<rho> schema61"
  by (rule ext, rule modelsD[OF models]) (simp add: schema59_defs_def)

lemma def_FileState: "\<rho> ''FileState'' = conforms \<rho> schema62"
  by (rule ext, rule modelsD[OF models]) (simp add: schema59_defs_def)

lemma ref_FileInfo [guard_parts]:
  "checks m p c (conforms \<rho> schema60 d) \<Longrightarrow> checks m p c (conforms \<rho> (SRef ''FileInfo'') d)"
  by (simp add: def_FileInfo)

lemma ref_FilePublication [guard_parts]:
  "checks m p c (conforms \<rho> schema61 d) \<Longrightarrow> checks m p c (conforms \<rho> (SRef ''FilePublication'') d)"
  by (simp add: def_FilePublication)

lemma ref_FileState [guard_parts]:
  "checks m p c (conforms \<rho> (SEnum [''offered'', ''importing'', ''downloading'', ''waiting_for_peers'', ''paused'', ''complete'', ''failed'', ''cancelled'']) d) \<Longrightarrow> checks m p c (conforms \<rho> (SRef ''FileState'') d)"
  by (simp add: def_FileState schema62_def)

end

locale document_schema63 =
  fixes \<rho> :: "string \<Rightarrow> json \<Rightarrow> bool"
  assumes models: "models \<rho> schema63_defs"
begin

lemma def_BuildInfo: "\<rho> ''BuildInfo'' = conforms \<rho> schema64"
  by (rule ext, rule modelsD[OF models]) (simp add: schema63_defs_def)

lemma ref_BuildInfo [guard_parts]:
  "checks m p c (conforms \<rho> schema64 d) \<Longrightarrow> checks m p c (conforms \<rho> (SRef ''BuildInfo'') d)"
  by (simp add: def_BuildInfo)

end

locale document_schema54 =
  fixes \<rho> :: "string \<Rightarrow> json \<Rightarrow> bool"
  assumes models: "models \<rho> schema54_defs"
begin

lemma def_NetworkState: "\<rho> ''NetworkState'' = conforms \<rho> schema55"
  by (rule ext, rule modelsD[OF models]) (simp add: schema54_defs_def)

lemma ref_NetworkState [guard_parts]:
  "checks m p c (conforms \<rho> (SEnum [''locked'', ''local_only'', ''invitation_required'', ''connecting'', ''connected'', ''reconnecting'', ''invitation_expired'', ''unavailable'']) d) \<Longrightarrow> checks m p c (conforms \<rho> (SRef ''NetworkState'') d)"
  by (simp add: def_NetworkState schema55_def)

end

locale document_schema274 =
  fixes \<rho> :: "string \<Rightarrow> json \<Rightarrow> bool"
  assumes models: "models \<rho> schema274_defs"
begin

lemma def_CommandSpec: "\<rho> ''CommandSpec'' = conforms \<rho> schema69"
  by (rule ext, rule modelsD[OF models]) (simp add: schema274_defs_def)

lemma ref_CommandSpec [guard_parts]:
  "checks m p c (conforms \<rho> schema69 d) \<Longrightarrow> checks m p c (conforms \<rho> (SRef ''CommandSpec'') d)"
  by (simp add: def_CommandSpec)

end

locale document_schema302 =
  fixes \<rho> :: "string \<Rightarrow> json \<Rightarrow> bool"
  assumes models: "models \<rho> schema302_defs"
begin

lemma def_Completion: "\<rho> ''Completion'' = conforms \<rho> schema88"
  by (rule ext, rule modelsD[OF models]) (simp add: schema302_defs_def)

lemma ref_Completion [guard_parts]:
  "checks m p c (conforms \<rho> schema88 d) \<Longrightarrow> checks m p c (conforms \<rho> (SRef ''Completion'') d)"
  by (simp add: def_Completion)

end

section \<open>Recursion inside a property\<close>

lemma on_prop_items_cong:
  "(\<And>x q. size x < size d \<Longrightarrow> v x q = v' x q) \<Longrightarrow>
   on_prop d k (\<lambda>a. on_type m t (p a) sp a (items a (\<lambda>i x. call v x (q a i)))) =
   on_prop d k (\<lambda>a. on_type m t (p a) sp a (items a (\<lambda>i x. call v' x (q a i))))"
proof -
  assume v: "\<And>x q. size x < size d \<Longrightarrow> v x q = v' x q"
  have "call v x p = call v' x p" if "size x < size d" for x p
    using v [OF that] by (simp add: call_def fun_eq_iff)
  then have "items_from n vs (\<lambda>i x. call v x (q a i)) = items_from n vs (\<lambda>i x. call v' x (q a i))"
    if "\<And>x. x \<in> set vs \<Longrightarrow> size x < size d" for n vs a
    using that by (induction vs arbitrary: n) simp_all
  note step = this
  have "items a (\<lambda>i x. call v x (q a i)) = items a (\<lambda>i x. call v' x (q a i))"
    if "size a < size d" for a
  proof (cases a)
    case (JArr vs)
    have "size x < size d" if "x \<in> set vs" for x
      using size_item [OF that] \<open>size a < size d\<close> by (simp add: JArr)
    then show ?thesis by (simp add: JArr step)
  qed simp_all
  then show ?thesis by (auto simp: on_prop_def on_type_def size_get_prop split: option.split)
qed

lemma checks_call_item:
  "(\<And>x. size x < size d \<Longrightarrow> validates v (\<rho> r) x) \<Longrightarrow> get_prop d k = Some a \<Longrightarrow>
   x \<in> set (case a of JArr vs \<Rightarrow> vs | _ \<Rightarrow> []) \<Longrightarrow> checks m p (call v x p) (conforms \<rho> (SRef r) x)"
  by (cases a) (auto simp: checks_call dest!: size_get_prop size_item)

end
