(* ===== verification/Api_Documents.thy ===== *)
theory Api_Documents
  imports Api_Schemas
begin

text \<open>
  Every schema document of the service is well founded: its names are distinct, its references are
  defined, and each describes a smaller value.  So each document has exactly one meaning.
\<close>

section \<open>Every document is well founded\<close>

lemma shape_schema51_list: "guarded schema51_list" "refs_of schema51_list = []"
  by (simp_all add: schema51_list_def)

lemma shape_schema51_publications: "guarded schema51_publications" "refs_of schema51_publications = []"
  by (simp_all add: schema51_publications_def)

lemma shape_schema51_prepare: "guarded schema51_prepare" "refs_of schema51_prepare = []"
  by (simp_all add: schema51_prepare_def)

lemma shape_schema51_commit: "guarded schema51_commit" "refs_of schema51_commit = []"
  by (simp_all add: schema51_commit_def)

lemma shape_schema51_accept: "guarded schema51_accept" "refs_of schema51_accept = []"
  by (simp_all add: schema51_accept_def)

lemma shape_schema51_pause: "guarded schema51_pause" "refs_of schema51_pause = []"
  by (simp_all add: schema51_pause_def)

lemma shape_schema51_resume: "guarded schema51_resume" "refs_of schema51_resume = []"
  by (simp_all add: schema51_resume_def)

lemma shape_schema51_cancel: "guarded schema51_cancel" "refs_of schema51_cancel = []"
  by (simp_all add: schema51_cancel_def)

lemma shape_schema51_configure: "guarded schema51_configure" "refs_of schema51_configure = []"
  by (simp_all add: schema51_configure_def)

lemma shape_schema48_list: "guarded schema48_list" "refs_of schema48_list = []"
  by (simp_all add: schema48_list_def)

lemma shape_schema48_inspect: "guarded schema48_inspect" "refs_of schema48_inspect = []"
  by (simp_all add: schema48_inspect_def)

lemma shape_schema48_join: "guarded schema48_join" "refs_of schema48_join = []"
  by (simp_all add: schema48_join_def)

lemma shape_schema48_call: "guarded schema48_call" "refs_of schema48_call = [''Request'']"
  by (simp_all add: schema48_call_def)

lemma shape_schema49_enrollment: "guarded schema49_enrollment" "refs_of schema49_enrollment = []"
  by (simp_all add: schema49_enrollment_def)

lemma shape_schema49_update: "guarded schema49_update" "refs_of schema49_update = [''UpdateRequest'']"
  by (simp_all add: schema49_update_def)

lemma shape_schema49_networks: "guarded schema49_networks" "refs_of schema49_networks = [''NetworkRequest'']"
  by (simp_all add: schema49_networks_def)

lemma shape_schema49_files: "guarded schema49_files" "refs_of schema49_files = [''FileRequest'']"
  by (simp_all add: schema49_files_def)

lemma shape_schema49_identify: "guarded schema49_identify" "refs_of schema49_identify = []"
  by (simp_all add: schema49_identify_def)

lemma shape_schema49_unlock: "guarded schema49_unlock" "refs_of schema49_unlock = []"
  by (simp_all add: schema49_unlock_def)

lemma shape_schema49_lock: "guarded schema49_lock" "refs_of schema49_lock = []"
  by (simp_all add: schema49_lock_def)

lemma shape_schema49_disconnect: "guarded schema49_disconnect" "refs_of schema49_disconnect = []"
  by (simp_all add: schema49_disconnect_def)

lemma shape_schema49_snapshot: "guarded schema49_snapshot" "refs_of schema49_snapshot = []"
  by (simp_all add: schema49_snapshot_def)

lemma shape_schema49_network_status: "guarded schema49_network_status" "refs_of schema49_network_status = []"
  by (simp_all add: schema49_network_status_def)

lemma shape_schema49_import_network_invitation: "guarded schema49_import_network_invitation" "refs_of schema49_import_network_invitation = []"
  by (simp_all add: schema49_import_network_invitation_def)

lemma shape_schema49_catalogue: "guarded schema49_catalogue" "refs_of schema49_catalogue = []"
  by (simp_all add: schema49_catalogue_def)

lemma shape_schema49_history: "guarded schema49_history" "refs_of schema49_history = []"
  by (simp_all add: schema49_history_def)

lemma shape_schema49_search: "guarded schema49_search" "refs_of schema49_search = []"
  by (simp_all add: schema49_search_def)

lemma shape_schema49_submit: "guarded schema49_submit" "refs_of schema49_submit = []"
  by (simp_all add: schema49_submit_def)

lemma shape_schema49_complete: "guarded schema49_complete" "refs_of schema49_complete = []"
  by (simp_all add: schema49_complete_def)

lemma shape_schema49_mark_read: "guarded schema49_mark_read" "refs_of schema49_mark_read = []"
  by (simp_all add: schema49_mark_read_def)

lemma shape_schema49_events: "guarded schema49_events" "refs_of schema49_events = []"
  by (simp_all add: schema49_events_def)

lemma shape_schema50_heartbeat: "guarded schema50_heartbeat" "refs_of schema50_heartbeat = []"
  by (simp_all add: schema50_heartbeat_def)

lemma shape_schema50_detach: "guarded schema50_detach" "refs_of schema50_detach = []"
  by (simp_all add: schema50_detach_def)

lemma shape_schema50_prepare: "guarded schema50_prepare" "refs_of schema50_prepare = []"
  by (simp_all add: schema50_prepare_def)

lemma shape_schema50_abort: "guarded schema50_abort" "refs_of schema50_abort = []"
  by (simp_all add: schema50_abort_def)

lemma shape_schema50_exit: "guarded schema50_exit" "refs_of schema50_exit = []"
  by (simp_all add: schema50_exit_def)

lemma shape_schema76_invitation_options: "guarded schema76_invitation_options" "refs_of schema76_invitation_options = []"
  by (simp_all add: schema76_invitation_options_def)

lemma shape_schema76_invitations: "guarded schema76_invitations" "refs_of schema76_invitations = [''InvitationRecord'']"
  by (simp_all add: schema76_invitations_def)

lemma shape_schema76_reusable_invitation: "guarded schema76_reusable_invitation" "refs_of schema76_reusable_invitation = []"
  by (simp_all add: schema76_reusable_invitation_def)

lemma shape_schema76_enrollment: "guarded schema76_enrollment" "refs_of schema76_enrollment = []"
  by (simp_all add: schema76_enrollment_def)

lemma shape_schema76_enrollments: "guarded schema76_enrollments" "refs_of schema76_enrollments = [''CommandOutput'']"
  by (simp_all add: schema76_enrollments_def)

lemma shape_schema76_help: "guarded schema76_help" "refs_of schema76_help = [''CommandSpec'']"
  by (simp_all add: schema76_help_def)

lemma shape_schema76_directory: "guarded schema76_directory" "refs_of schema76_directory = [''DirectoryEntry'']"
  by (simp_all add: schema76_directory_def)

lemma shape_schema76_invitation: "guarded schema76_invitation" "refs_of schema76_invitation = []"
  by (simp_all add: schema76_invitation_def)

lemma shape_schema76_text: "guarded schema76_text" "refs_of schema76_text = []"
  by (simp_all add: schema76_text_def)

lemma shape_schema76_status: "guarded schema76_status" "refs_of schema76_status = []"
  by (simp_all add: schema76_status_def)

lemma shape_schema76_close: "guarded schema76_close" "refs_of schema76_close = []"
  by (simp_all add: schema76_close_def)

lemma shape_schema76_membership_recovery: "guarded schema76_membership_recovery" "refs_of schema76_membership_recovery = [''RecoveryMember'']"
  by (simp_all add: schema76_membership_recovery_def)

lemma shape_schema72_available: "guarded schema72_available" "refs_of schema72_available = []"
  by (simp_all add: schema72_available_def)

lemma shape_schema72_away: "guarded schema72_away" "refs_of schema72_away = []"
  by (simp_all add: schema72_away_def)

lemma shape_schema72_unknown: "guarded schema72_unknown" "refs_of schema72_unknown = []"
  by (simp_all add: schema72_unknown_def)

lemma shape_schema58_attached: "guarded schema58_attached" "refs_of schema58_attached = []"
  by (simp_all add: schema58_attached_def)

lemma shape_schema58_ready: "guarded schema58_ready" "refs_of schema58_ready = []"
  by (simp_all add: schema58_ready_def)

lemma shape_schema58_busy: "guarded schema58_busy" "refs_of schema58_busy = []"
  by (simp_all add: schema58_busy_def)

lemma shape_schema57_update: "guarded schema57_update" "refs_of schema57_update = [''PrepareUpdateResult'']"
  by (simp_all add: schema57_update_def)

lemma shape_schema57_networks: "guarded schema57_networks" "refs_of schema57_networks = [''#'']"
  by (simp_all add: schema57_networks_def)

lemma shape_schema57_files: "guarded schema57_files" "refs_of schema57_files = [''FileSnapshot'']"
  by (simp_all add: schema57_files_def)

lemma shape_schema57_network_status: "guarded schema57_network_status" "refs_of schema57_network_status = [''NetworkStatus'']"
  by (simp_all add: schema57_network_status_def)

lemma shape_schema57_instance: "guarded schema57_instance" "refs_of schema57_instance = [''InstanceInfo'']"
  by (simp_all add: schema57_instance_def)

lemma shape_schema57_snapshot: "guarded schema57_snapshot" "refs_of schema57_snapshot = [''Snapshot'']"
  by (simp_all add: schema57_snapshot_def)

lemma shape_schema57_history: "guarded schema57_history" "refs_of schema57_history = [''HistoryPage'']"
  by (simp_all add: schema57_history_def)

lemma shape_schema57_completed: "guarded schema57_completed" "refs_of schema57_completed = [''Completion'']"
  by (simp_all add: schema57_completed_def)

lemma shape_schema57_catalogue: "guarded schema57_catalogue" "refs_of schema57_catalogue = [''CommandSpec'']"
  by (simp_all add: schema57_catalogue_def)

lemma shape_schema57_projection: "guarded schema57_projection" "refs_of schema57_projection = [''Conversation'']"
  by (simp_all add: schema57_projection_def)

lemma shape_schema57_output: "guarded schema57_output" "refs_of schema57_output = [''CommandOutput'']"
  by (simp_all add: schema57_output_def)

lemma shape_schema57_applied: "guarded schema57_applied" "refs_of schema57_applied = []"
  by (simp_all add: schema57_applied_def)

lemma shape_schema57_changed: "guarded schema57_changed" "refs_of schema57_changed = []"
  by (simp_all add: schema57_changed_def)

lemma shape_schema57_error: "guarded schema57_error" "refs_of schema57_error = []"
  by (simp_all add: schema57_error_def)

lemma shape_schema52_list: "guarded schema52_list" "refs_of schema52_list = [''JoinedNetwork'']"
  by (simp_all add: schema52_list_def)

lemma shape_schema52_preview: "guarded schema52_preview" "refs_of schema52_preview = [''InvitationPreview'']"
  by (simp_all add: schema52_preview_def)

lemma shape_schema52_result: "guarded schema52_result" "refs_of schema52_result = [''Response'']"
  by (simp_all add: schema52_result_def)

lemma shape_schema36: "guarded schema36" "refs_of schema36 = [''Artifact'']"
  by (simp_all add: schema36_def)

lemma shape_schema37: "guarded schema37" "refs_of schema37 = []"
  by (simp_all add: schema37_def)

lemma shape_schema34: "guarded schema34" "refs_of schema34 = []"
  by (simp_all add: schema34_def)

lemma shape_schema33: "guarded schema33" "refs_of schema33 = [''Delivery'', ''MessageKind'', ''ActionResult'']"
  by (simp_all add: schema33_def)

lemma shape_schema35: "guarded schema35" "refs_of schema35 = []"
  by (simp_all add: schema35_def)

lemma shape_schema51: "guarded schema51" "refs_of schema51 = []"
  by (simp_all add: schema51_def shape_schema51_list shape_schema51_publications shape_schema51_prepare shape_schema51_commit shape_schema51_accept shape_schema51_pause shape_schema51_resume shape_schema51_cancel shape_schema51_configure)

lemma shape_schema48: "guarded schema48" "refs_of schema48 = [''Request'']"
  by (simp_all add: schema48_def shape_schema48_list shape_schema48_inspect shape_schema48_join shape_schema48_call)

lemma shape_schema49: "guarded schema49" "refs_of schema49 = [''UpdateRequest'', ''NetworkRequest'', ''FileRequest'']"
  by (simp_all add: schema49_def shape_schema49_enrollment shape_schema49_update shape_schema49_networks shape_schema49_files shape_schema49_identify shape_schema49_unlock shape_schema49_lock shape_schema49_disconnect shape_schema49_snapshot shape_schema49_network_status shape_schema49_import_network_invitation shape_schema49_catalogue shape_schema49_history shape_schema49_search shape_schema49_submit shape_schema49_complete shape_schema49_mark_read shape_schema49_events)

lemma shape_schema50: "guarded schema50" "refs_of schema50 = []"
  by (simp_all add: schema50_def shape_schema50_heartbeat shape_schema50_detach shape_schema50_prepare shape_schema50_abort shape_schema50_exit)

lemma shape_schema66: "guarded schema66" "refs_of schema66 = []"
  by (simp_all add: schema66_def)

lemma shape_schema64: "guarded schema64" "refs_of schema64 = []"
  by (simp_all add: schema64_def)

lemma shape_schema68: "guarded schema68" "refs_of schema68 = []"
  by (simp_all add: schema68_def)

lemma shape_schema73: "guarded schema73" "refs_of schema73 = []"
  by (simp_all add: schema73_def)

lemma shape_schema76: "guarded schema76" "refs_of schema76 = [''InvitationRecord'', ''CommandOutput'', ''CommandSpec'', ''DirectoryEntry'', ''RecoveryMember'']"
  by (simp_all add: schema76_def shape_schema76_invitation_options shape_schema76_invitations shape_schema76_reusable_invitation shape_schema76_enrollment shape_schema76_enrollments shape_schema76_help shape_schema76_directory shape_schema76_invitation shape_schema76_text shape_schema76_status shape_schema76_close shape_schema76_membership_recovery)

lemma shape_schema69: "guarded schema69" "refs_of schema69 = []"
  by (simp_all add: schema69_def)

lemma shape_schema88: "guarded schema88" "refs_of schema88 = []"
  by (simp_all add: schema88_def)

lemma shape_schema67: "guarded schema67" "refs_of schema67 = [''ChannelCatchUp'', ''CommandSpec'', ''ConversationKind'', ''Member'', ''ChannelPolicy'']"
  by (simp_all add: schema67_def)

lemma shape_schema70: "guarded schema70" "refs_of schema70 = []"
  by (simp_all add: schema70_def)

lemma shape_schema79: "guarded schema79" "refs_of schema79 = []"
  by (simp_all add: schema79_def)

lemma shape_schema60: "guarded schema60" "refs_of schema60 = [''FilePublication'', ''FileState'']"
  by (simp_all add: schema60_def)

lemma shape_schema61: "guarded schema61" "refs_of schema61 = []"
  by (simp_all add: schema61_def)

lemma shape_schema59: "guarded schema59" "refs_of schema59 = [''FileInfo'']"
  by (simp_all add: schema59_def)

lemma shape_schema62: "guarded schema62" "refs_of schema62 = []"
  by (simp_all add: schema62_def)

lemma shape_schema32: "guarded schema32" "refs_of schema32 = [''Message'']"
  by (simp_all add: schema32_def)

lemma shape_schema74: "guarded schema74" "refs_of schema74 = []"
  by (simp_all add: schema74_def)

lemma shape_schema63: "guarded schema63" "refs_of schema63 = [''BuildInfo'']"
  by (simp_all add: schema63_def)

lemma shape_schema56: "guarded schema56" "refs_of schema56 = [''JoinedNetwork'']"
  by (simp_all add: schema56_def)

lemma shape_schema77: "guarded schema77" "refs_of schema77 = []"
  by (simp_all add: schema77_def)

lemma shape_schema53: "guarded schema53" "refs_of schema53 = [''NetworkStatus'']"
  by (simp_all add: schema53_def)

lemma shape_schema71: "guarded schema71" "refs_of schema71 = [''MemberPresence'']"
  by (simp_all add: schema71_def)

lemma shape_schema72: "guarded schema72" "refs_of schema72 = []"
  by (simp_all add: schema72_def shape_schema72_available shape_schema72_away shape_schema72_unknown)

lemma shape_schema55: "guarded schema55" "refs_of schema55 = []"
  by (simp_all add: schema55_def)

lemma shape_schema54: "guarded schema54" "refs_of schema54 = [''NetworkState'']"
  by (simp_all add: schema54_def)

lemma shape_schema75: "guarded schema75" "refs_of schema75 = [''CommandOutput'']"
  by (simp_all add: schema75_def)

lemma shape_schema58: "guarded schema58" "refs_of schema58 = []"
  by (simp_all add: schema58_def shape_schema58_attached shape_schema58_ready shape_schema58_busy)

lemma shape_schema81: "guarded schema81" "refs_of schema81 = []"
  by (simp_all add: schema81_def)

lemma shape_schema80: "guarded schema80" "refs_of schema80 = []"
  by (simp_all add: schema80_def)

lemma shape_schema57: "guarded schema57" "refs_of schema57 = [''PrepareUpdateResult'', ''#'', ''FileSnapshot'', ''NetworkStatus'', ''InstanceInfo'', ''Snapshot'', ''HistoryPage'', ''Completion'', ''CommandSpec'', ''Conversation'', ''CommandOutput'']"
  by (simp_all add: schema57_def shape_schema57_update shape_schema57_networks shape_schema57_files shape_schema57_network_status shape_schema57_instance shape_schema57_snapshot shape_schema57_history shape_schema57_completed shape_schema57_catalogue shape_schema57_projection shape_schema57_output shape_schema57_applied shape_schema57_changed shape_schema57_error)

lemma shape_schema65: "guarded schema65" "refs_of schema65 = [''Activity'', ''Conversation'', ''InputHistoryEntry'', ''InstanceInfo'', ''OperationDetail'', ''ProviderStatus'']"
  by (simp_all add: schema65_def)

lemma shape_schema52: "guarded schema52" "refs_of schema52 = [''JoinedNetwork'', ''InvitationPreview'', ''Response'']"
  by (simp_all add: schema52_def shape_schema52_list shape_schema52_preview shape_schema52_result)

lemmas shapes = shape_schema51_list shape_schema51_publications shape_schema51_prepare shape_schema51_commit shape_schema51_accept shape_schema51_pause shape_schema51_resume shape_schema51_cancel shape_schema51_configure shape_schema48_list shape_schema48_inspect shape_schema48_join shape_schema48_call shape_schema49_enrollment shape_schema49_update shape_schema49_networks shape_schema49_files shape_schema49_identify shape_schema49_unlock shape_schema49_lock shape_schema49_disconnect shape_schema49_snapshot shape_schema49_network_status shape_schema49_import_network_invitation shape_schema49_catalogue shape_schema49_history shape_schema49_search shape_schema49_submit shape_schema49_complete shape_schema49_mark_read shape_schema49_events shape_schema50_heartbeat shape_schema50_detach shape_schema50_prepare shape_schema50_abort shape_schema50_exit shape_schema76_invitation_options shape_schema76_invitations shape_schema76_reusable_invitation shape_schema76_enrollment shape_schema76_enrollments shape_schema76_help shape_schema76_directory shape_schema76_invitation shape_schema76_text shape_schema76_status shape_schema76_close shape_schema76_membership_recovery shape_schema72_available shape_schema72_away shape_schema72_unknown shape_schema58_attached shape_schema58_ready shape_schema58_busy shape_schema57_update shape_schema57_networks shape_schema57_files shape_schema57_network_status shape_schema57_instance shape_schema57_snapshot shape_schema57_history shape_schema57_completed shape_schema57_catalogue shape_schema57_projection shape_schema57_output shape_schema57_applied shape_schema57_changed shape_schema57_error shape_schema52_list shape_schema52_preview shape_schema52_result shape_schema36 shape_schema37 shape_schema34 shape_schema33 shape_schema35 shape_schema51 shape_schema48 shape_schema49 shape_schema50 shape_schema66 shape_schema64 shape_schema68 shape_schema73 shape_schema76 shape_schema69 shape_schema88 shape_schema67 shape_schema70 shape_schema79 shape_schema60 shape_schema61 shape_schema59 shape_schema62 shape_schema32 shape_schema74 shape_schema63 shape_schema56 shape_schema77 shape_schema53 shape_schema71 shape_schema72 shape_schema55 shape_schema54 shape_schema75 shape_schema58 shape_schema81 shape_schema80 shape_schema57 shape_schema65 shape_schema52

lemma schema32_defs_well_founded: "well_founded_defs schema32_defs"
  unfolding well_founded_defs_def schema32_defs_def by (simp add: shapes)

lemma schema47_defs_well_founded: "well_founded_defs schema47_defs"
  unfolding well_founded_defs_def schema47_defs_def by (simp add: shapes)

lemma schema52_defs_well_founded: "well_founded_defs schema52_defs"
  unfolding well_founded_defs_def schema52_defs_def by (simp add: shapes)

lemma schema65_defs_well_founded: "well_founded_defs schema65_defs"
  unfolding well_founded_defs_def schema65_defs_def by (simp add: shapes)

lemma schema92_defs_well_founded: "well_founded_defs schema92_defs"
  unfolding well_founded_defs_def schema92_defs_def by (simp add: shapes)

lemma schema187_defs_well_founded: "well_founded_defs schema187_defs"
  unfolding well_founded_defs_def schema187_defs_def by (simp add: shapes)

lemma schema59_defs_well_founded: "well_founded_defs schema59_defs"
  unfolding well_founded_defs_def schema59_defs_def by (simp add: shapes)

lemma schema63_defs_well_founded: "well_founded_defs schema63_defs"
  unfolding well_founded_defs_def schema63_defs_def by (simp add: shapes)

lemma schema54_defs_well_founded: "well_founded_defs schema54_defs"
  unfolding well_founded_defs_def schema54_defs_def by (simp add: shapes)

lemma schema274_defs_well_founded: "well_founded_defs schema274_defs"
  unfolding well_founded_defs_def schema274_defs_def by (simp add: shapes)

lemma schema302_defs_well_founded: "well_founded_defs schema302_defs"
  unfolding well_founded_defs_def schema302_defs_def by (simp add: shapes)

end
