(* ===== verification/Call_Guards.thy ===== *)
theory Call_Guards
  imports Api_Schemas
begin

text \<open>
  The remaining guards: the arguments and small results of every other method, and the errors.
\<close>

section \<open>The guards\<close>

definition validate27 :: validator where
  "validate27 data instancePath = run_guard (on_type Return TObject instancePath ''#/type'' data
    (required Return [''conversation'', ''text'', ''limit''] instancePath ''#/required'' data
    (then_valid (no_additional Return [''before'', ''conversation'', ''limit'', ''text''] instancePath ''#/additionalProperties'' data)
    (properties [
      on_prop data ''before'' (\<lambda>data0. check_type Return [TString, TNull] (at_prop instancePath ''before'') ''#/properties/before/type'' data0),
      on_prop data ''conversation'' (\<lambda>v. check_type Return [TString] (at_prop instancePath ''conversation'') ''#/properties/conversation/type'' v),
      on_prop data ''limit'' (\<lambda>data2. then_valid (check_type Return [TInteger] (at_prop instancePath ''limit'') ''#/properties/limit/type'' data2) (check_range Return (Some 65535) 0 (at_prop instancePath ''limit'') ''#/properties/limit'' data2)),
      on_prop data ''text'' (\<lambda>v. check_type Return [TString] (at_prop instancePath ''text'') ''#/properties/text/type'' v)]))))"

definition validate33 :: validator where
  "validate33 data instancePath = run_guard (on_type Return TObject instancePath ''#/type'' data
    (required Return [''code'', ''message''] instancePath ''#/required'' data
    (then_valid (no_additional Return [''code'', ''message''] instancePath ''#/additionalProperties'' data)
    (properties [
      on_prop data ''code'' (\<lambda>v. check_type Return [TString] (at_prop instancePath ''code'') ''#/properties/code/type'' v),
      on_prop data ''message'' (\<lambda>v. check_type Return [TString] (at_prop instancePath ''message'') ''#/properties/message/type'' v)]))))"

definition validate75 :: validator where
  "validate75 data instancePath = run_guard (on_type Return TObject instancePath ''#/type'' data
    (required Return [''code'', ''message''] instancePath ''#/required'' data
    (then_valid (no_additional Return [''code'', ''message''] instancePath ''#/additionalProperties'' data)
    (properties [
      on_prop data ''code'' (\<lambda>v. check_type Return [TString] (at_prop instancePath ''code'') ''#/properties/code/type'' v),
      on_prop data ''message'' (\<lambda>v. check_type Return [TString] (at_prop instancePath ''message'') ''#/properties/message/type'' v)]))))"

definition validate76 :: validator where
  "validate76 data instancePath = run_guard (on_type Return TObject instancePath ''#/type'' data
    (required Return [''id'', ''action''] instancePath ''#/required'' data
    (then_valid (no_additional Return [''action'', ''id''] instancePath ''#/additionalProperties'' data)
    (properties [
      on_prop data ''action'' (\<lambda>v. check_type Return [TString] (at_prop instancePath ''action'') ''#/properties/action/type'' v),
      on_prop data ''id'' (\<lambda>v. check_type Return [TString] (at_prop instancePath ''id'') ''#/properties/id/type'' v)]))))"

definition validate80 :: validator where
  "validate80 data instancePath = run_guard (on_type Return TObject instancePath ''#/type'' data
    (required Return [''code'', ''message''] instancePath ''#/required'' data
    (then_valid (no_additional Return [''code'', ''message''] instancePath ''#/additionalProperties'' data)
    (properties [
      on_prop data ''code'' (\<lambda>v. check_type Return [TString] (at_prop instancePath ''code'') ''#/properties/code/type'' v),
      on_prop data ''message'' (\<lambda>v. check_type Return [TString] (at_prop instancePath ''message'') ''#/properties/message/type'' v)]))))"

definition validate122 :: validator where
  "validate122 data instancePath = run_guard (on_type Return TObject instancePath ''#/type'' data
    (required Return [''code'', ''message''] instancePath ''#/required'' data
    (then_valid (no_additional Return [''code'', ''message''] instancePath ''#/additionalProperties'' data)
    (properties [
      on_prop data ''code'' (\<lambda>v. check_type Return [TString] (at_prop instancePath ''code'') ''#/properties/code/type'' v),
      on_prop data ''message'' (\<lambda>v. check_type Return [TString] (at_prop instancePath ''message'') ''#/properties/message/type'' v)]))))"

definition validate164 :: validator where
  "validate164 data instancePath = run_guard (on_type Return TObject instancePath ''#/type'' data
    (required Return [''code'', ''message''] instancePath ''#/required'' data
    (then_valid (no_additional Return [''code'', ''message''] instancePath ''#/additionalProperties'' data)
    (properties [
      on_prop data ''code'' (\<lambda>v. check_type Return [TString] (at_prop instancePath ''code'') ''#/properties/code/type'' v),
      on_prop data ''message'' (\<lambda>v. check_type Return [TString] (at_prop instancePath ''message'') ''#/properties/message/type'' v)]))))"

definition validate165_request_list :: "json \<Rightarrow> string \<Rightarrow> step" where
  "validate165_request_list data p = on_type Collect TObject p ''#/$defs/FileRequest/oneOf/0/type'' data
    (required Collect [''action''] p ''#/$defs/FileRequest/oneOf/0/required'' data
    (then_valid (no_additional Collect [''action'', ''conversation''] p ''#/$defs/FileRequest/oneOf/0/additionalProperties'' data)
    (properties [
      on_prop data ''action'' (\<lambda>data1. seq (check_type Collect [TString] (at_prop p ''action'') ''#/$defs/FileRequest/oneOf/0/properties/action/type'' data1) (check_const Collect ''list'' (at_prop p ''action'') ''#/$defs/FileRequest/oneOf/0/properties/action/const'' data1)),
      on_prop data ''conversation'' (\<lambda>data2. check_type Collect [TString, TNull] (at_prop p ''conversation'') ''#/$defs/FileRequest/oneOf/0/properties/conversation/type'' data2)])))"

definition validate165_request_publications :: "json \<Rightarrow> string \<Rightarrow> step" where
  "validate165_request_publications data p = on_type Collect TObject p ''#/$defs/FileRequest/oneOf/1/type'' data
    (required Collect [''action''] p ''#/$defs/FileRequest/oneOf/1/required'' data
    (then_valid (no_additional Collect [''action'', ''conversation''] p ''#/$defs/FileRequest/oneOf/1/additionalProperties'' data)
    (properties [
      on_prop data ''action'' (\<lambda>data3. seq (check_type Collect [TString] (at_prop p ''action'') ''#/$defs/FileRequest/oneOf/1/properties/action/type'' data3) (check_const Collect ''publications'' (at_prop p ''action'') ''#/$defs/FileRequest/oneOf/1/properties/action/const'' data3)),
      on_prop data ''conversation'' (\<lambda>data4. check_type Collect [TString, TNull] (at_prop p ''conversation'') ''#/$defs/FileRequest/oneOf/1/properties/conversation/type'' data4)])))"

definition validate165_request_prepare :: "json \<Rightarrow> string \<Rightarrow> step" where
  "validate165_request_prepare data p = on_type Collect TObject p ''#/$defs/FileRequest/oneOf/2/type'' data
    (required Collect [''action'', ''id'', ''conversation'', ''name'', ''size_bytes''] p ''#/$defs/FileRequest/oneOf/2/required'' data
    (then_valid (no_additional Collect [''action'', ''conversation'', ''id'', ''name'', ''size_bytes''] p ''#/$defs/FileRequest/oneOf/2/additionalProperties'' data)
    (properties [
      on_prop data ''action'' (\<lambda>data5. seq (check_type Collect [TString] (at_prop p ''action'') ''#/$defs/FileRequest/oneOf/2/properties/action/type'' data5) (check_const Collect ''prepare'' (at_prop p ''action'') ''#/$defs/FileRequest/oneOf/2/properties/action/const'' data5)),
      on_prop data ''conversation'' (\<lambda>v. check_type Collect [TString] (at_prop p ''conversation'') ''#/$defs/FileRequest/oneOf/2/properties/conversation/type'' v),
      on_prop data ''id'' (\<lambda>v. check_type Collect [TString] (at_prop p ''id'') ''#/$defs/FileRequest/oneOf/2/properties/id/type'' v),
      on_prop data ''name'' (\<lambda>v. check_type Collect [TString] (at_prop p ''name'') ''#/$defs/FileRequest/oneOf/2/properties/name/type'' v),
      on_prop data ''size_bytes'' (\<lambda>v. check_type Collect [TString] (at_prop p ''size_bytes'') ''#/$defs/FileRequest/oneOf/2/properties/size_bytes/type'' v)])))"

definition validate165_request_commit :: "json \<Rightarrow> string \<Rightarrow> step" where
  "validate165_request_commit data p = on_type Collect TObject p ''#/$defs/FileRequest/oneOf/3/type'' data
    (required Collect [''action'', ''id''] p ''#/$defs/FileRequest/oneOf/3/required'' data
    (then_valid (no_additional Collect [''action'', ''id''] p ''#/$defs/FileRequest/oneOf/3/additionalProperties'' data)
    (properties [
      on_prop data ''action'' (\<lambda>data10. seq (check_type Collect [TString] (at_prop p ''action'') ''#/$defs/FileRequest/oneOf/3/properties/action/type'' data10) (check_const Collect ''commit'' (at_prop p ''action'') ''#/$defs/FileRequest/oneOf/3/properties/action/const'' data10)),
      on_prop data ''id'' (\<lambda>v. check_type Collect [TString] (at_prop p ''id'') ''#/$defs/FileRequest/oneOf/3/properties/id/type'' v)])))"

definition validate165_request_accept :: "json \<Rightarrow> string \<Rightarrow> step" where
  "validate165_request_accept data p = on_type Collect TObject p ''#/$defs/FileRequest/oneOf/4/type'' data
    (required Collect [''action'', ''id''] p ''#/$defs/FileRequest/oneOf/4/required'' data
    (then_valid (no_additional Collect [''action'', ''id''] p ''#/$defs/FileRequest/oneOf/4/additionalProperties'' data)
    (properties [
      on_prop data ''action'' (\<lambda>data12. seq (check_type Collect [TString] (at_prop p ''action'') ''#/$defs/FileRequest/oneOf/4/properties/action/type'' data12) (check_const Collect ''accept'' (at_prop p ''action'') ''#/$defs/FileRequest/oneOf/4/properties/action/const'' data12)),
      on_prop data ''id'' (\<lambda>v. check_type Collect [TString] (at_prop p ''id'') ''#/$defs/FileRequest/oneOf/4/properties/id/type'' v)])))"

definition validate165_request_pause :: "json \<Rightarrow> string \<Rightarrow> step" where
  "validate165_request_pause data p = on_type Collect TObject p ''#/$defs/FileRequest/oneOf/5/type'' data
    (required Collect [''action'', ''id''] p ''#/$defs/FileRequest/oneOf/5/required'' data
    (then_valid (no_additional Collect [''action'', ''id''] p ''#/$defs/FileRequest/oneOf/5/additionalProperties'' data)
    (properties [
      on_prop data ''action'' (\<lambda>data14. seq (check_type Collect [TString] (at_prop p ''action'') ''#/$defs/FileRequest/oneOf/5/properties/action/type'' data14) (check_const Collect ''pause'' (at_prop p ''action'') ''#/$defs/FileRequest/oneOf/5/properties/action/const'' data14)),
      on_prop data ''id'' (\<lambda>v. check_type Collect [TString] (at_prop p ''id'') ''#/$defs/FileRequest/oneOf/5/properties/id/type'' v)])))"

definition validate165_request_resume :: "json \<Rightarrow> string \<Rightarrow> step" where
  "validate165_request_resume data p = on_type Collect TObject p ''#/$defs/FileRequest/oneOf/6/type'' data
    (required Collect [''action'', ''id''] p ''#/$defs/FileRequest/oneOf/6/required'' data
    (then_valid (no_additional Collect [''action'', ''id''] p ''#/$defs/FileRequest/oneOf/6/additionalProperties'' data)
    (properties [
      on_prop data ''action'' (\<lambda>data16. seq (check_type Collect [TString] (at_prop p ''action'') ''#/$defs/FileRequest/oneOf/6/properties/action/type'' data16) (check_const Collect ''resume'' (at_prop p ''action'') ''#/$defs/FileRequest/oneOf/6/properties/action/const'' data16)),
      on_prop data ''id'' (\<lambda>v. check_type Collect [TString] (at_prop p ''id'') ''#/$defs/FileRequest/oneOf/6/properties/id/type'' v)])))"

definition validate165_request_cancel :: "json \<Rightarrow> string \<Rightarrow> step" where
  "validate165_request_cancel data p = on_type Collect TObject p ''#/$defs/FileRequest/oneOf/7/type'' data
    (required Collect [''action'', ''id''] p ''#/$defs/FileRequest/oneOf/7/required'' data
    (then_valid (no_additional Collect [''action'', ''id''] p ''#/$defs/FileRequest/oneOf/7/additionalProperties'' data)
    (properties [
      on_prop data ''action'' (\<lambda>data18. seq (check_type Collect [TString] (at_prop p ''action'') ''#/$defs/FileRequest/oneOf/7/properties/action/type'' data18) (check_const Collect ''cancel'' (at_prop p ''action'') ''#/$defs/FileRequest/oneOf/7/properties/action/const'' data18)),
      on_prop data ''id'' (\<lambda>v. check_type Collect [TString] (at_prop p ''id'') ''#/$defs/FileRequest/oneOf/7/properties/id/type'' v)])))"

definition validate165_request_configure :: "json \<Rightarrow> string \<Rightarrow> step" where
  "validate165_request_configure data p = on_type Collect TObject p ''#/$defs/FileRequest/oneOf/8/type'' data
    (required Collect [''action'', ''quota_bytes'', ''retention_days''] p ''#/$defs/FileRequest/oneOf/8/required'' data
    (then_valid (no_additional Collect [''action'', ''quota_bytes'', ''retention_days''] p ''#/$defs/FileRequest/oneOf/8/additionalProperties'' data)
    (properties [
      on_prop data ''action'' (\<lambda>data20. seq (check_type Collect [TString] (at_prop p ''action'') ''#/$defs/FileRequest/oneOf/8/properties/action/type'' data20) (check_const Collect ''configure'' (at_prop p ''action'') ''#/$defs/FileRequest/oneOf/8/properties/action/const'' data20)),
      on_prop data ''quota_bytes'' (\<lambda>v. check_type Collect [TString] (at_prop p ''quota_bytes'') ''#/$defs/FileRequest/oneOf/8/properties/quota_bytes/type'' v),
      on_prop data ''retention_days'' (\<lambda>data22. then_valid (check_type Collect [TInteger] (at_prop p ''retention_days'') ''#/$defs/FileRequest/oneOf/8/properties/retention_days/type'' data22) (check_range Collect (Some 65535) 0 (at_prop p ''retention_days'') ''#/$defs/FileRequest/oneOf/8/properties/retention_days'' data22))])))"

definition validate165_request :: "json \<Rightarrow> string \<Rightarrow> step" where
  "validate165_request data p = one_of Return p ''#/$defs/FileRequest/oneOf'' [
      validate165_request_list data p,
      validate165_request_publications data p,
      validate165_request_prepare data p,
      validate165_request_commit data p,
      validate165_request_accept data p,
      validate165_request_pause data p,
      validate165_request_resume data p,
      validate165_request_cancel data p,
      validate165_request_configure data p]"

definition validate165 :: validator where
  "validate165 data instancePath = run_guard (on_type Return TObject instancePath ''#/type'' data
    (required Return [''request''] instancePath ''#/required'' data
    (then_valid (no_additional Return [''request''] instancePath ''#/additionalProperties'' data)
    (properties [
      on_prop data ''request'' (\<lambda>data0. validate165_request data0 (at_prop instancePath ''request''))]))))"

definition validate167_publication_any0 :: "json \<Rightarrow> string \<Rightarrow> step" where
  "validate167_publication_any0 data p = on_type Collect TObject p ''#/$defs/FilePublication/type'' data
    (required Collect [''name'', ''canonical_id'', ''sha256'', ''publisher_safety_number'', ''sequence'', ''committed_unix''] p ''#/$defs/FilePublication/required'' data
    (then_valid (no_additional Collect [''canonical_id'', ''committed_unix'', ''name'', ''publisher_safety_number'', ''sequence'', ''sha256''] p ''#/$defs/FilePublication/additionalProperties'' data)
    (properties [
      on_prop data ''canonical_id'' (\<lambda>v. check_type Collect [TString] (at_prop p ''canonical_id'') ''#/$defs/FilePublication/properties/canonical_id/type'' v),
      on_prop data ''committed_unix'' (\<lambda>v. check_type Collect [TString] (at_prop p ''committed_unix'') ''#/$defs/FilePublication/properties/committed_unix/type'' v),
      on_prop data ''name'' (\<lambda>v. check_type Collect [TString] (at_prop p ''name'') ''#/$defs/FilePublication/properties/name/type'' v),
      on_prop data ''publisher_safety_number'' (\<lambda>v. check_type Collect [TString] (at_prop p ''publisher_safety_number'') ''#/$defs/FilePublication/properties/publisher_safety_number/type'' v),
      on_prop data ''sequence'' (\<lambda>v. check_type Collect [TString] (at_prop p ''sequence'') ''#/$defs/FilePublication/properties/sequence/type'' v),
      on_prop data ''sha256'' (\<lambda>v. check_type Collect [TString] (at_prop p ''sha256'') ''#/$defs/FilePublication/properties/sha256/type'' v)])))"

definition validate167_publication :: "json \<Rightarrow> string \<Rightarrow> step" where
  "validate167_publication data p = any_of Return p ''#/properties/publication/anyOf'' [
      validate167_publication_any0 data p,
      check_type Collect [TNull] p ''#/properties/publication/anyOf/1/type'' data]"

definition validate167 :: validator where
  "validate167 data instancePath = run_guard (on_type Return TObject instancePath ''#/type'' data
    (required Return [''id'', ''conversation'', ''name'', ''size_bytes'', ''verified_bytes'', ''state'', ''sources'', ''completed_by''] instancePath ''#/required'' data
    (then_valid (no_additional Return [''aliases'', ''completed_by'', ''conversation'', ''error'', ''id'', ''name'', ''publication'', ''size_bytes'', ''sources'', ''state'', ''verified_bytes'', ''verified_sources''] instancePath ''#/additionalProperties'' data)
    (properties [
      on_prop data ''aliases'' (\<lambda>data0. then_valid (check_type Return [TArray, TNull] (at_prop instancePath ''aliases'') ''#/properties/aliases/type'' data0) (items data0 (\<lambda>i0 item. check_type Return [TString] (at_index (at_prop instancePath ''aliases'') i0) ''#/properties/aliases/items/type'' item))),
      on_prop data ''completed_by'' (\<lambda>data2. then_valid (check_type Return [TInteger] (at_prop instancePath ''completed_by'') ''#/properties/completed_by/type'' data2) (check_range Return (Some 65535) 0 (at_prop instancePath ''completed_by'') ''#/properties/completed_by'' data2)),
      on_prop data ''conversation'' (\<lambda>v. check_type Return [TString] (at_prop instancePath ''conversation'') ''#/properties/conversation/type'' v),
      on_prop data ''error'' (\<lambda>data4. check_type Return [TString, TNull] (at_prop instancePath ''error'') ''#/properties/error/type'' data4),
      on_prop data ''id'' (\<lambda>v. check_type Return [TString] (at_prop instancePath ''id'') ''#/properties/id/type'' v),
      on_prop data ''name'' (\<lambda>v. check_type Return [TString] (at_prop instancePath ''name'') ''#/properties/name/type'' v),
      on_prop data ''publication'' (\<lambda>data7. validate167_publication data7 (at_prop instancePath ''publication'')),
      on_prop data ''size_bytes'' (\<lambda>v. check_type Return [TString] (at_prop instancePath ''size_bytes'') ''#/properties/size_bytes/type'' v),
      on_prop data ''sources'' (\<lambda>data15. then_valid (check_type Return [TInteger] (at_prop instancePath ''sources'') ''#/properties/sources/type'' data15) (check_range Return (Some 65535) 0 (at_prop instancePath ''sources'') ''#/properties/sources'' data15)),
      on_prop data ''state'' (\<lambda>data16. seq (check_type Return [TString] (at_prop instancePath ''state'') ''#/$defs/FileState/type'' data16) (check_enum Return [''offered'', ''importing'', ''downloading'', ''waiting_for_peers'', ''paused'', ''complete'', ''failed'', ''cancelled''] (at_prop instancePath ''state'') ''#/$defs/FileState/enum'' data16)),
      on_prop data ''verified_bytes'' (\<lambda>v. check_type Return [TString] (at_prop instancePath ''verified_bytes'') ''#/properties/verified_bytes/type'' v),
      on_prop data ''verified_sources'' (\<lambda>data18. then_valid (check_type Return [TInteger] (at_prop instancePath ''verified_sources'') ''#/properties/verified_sources/type'' data18) (check_range Return (Some 65535) 0 (at_prop instancePath ''verified_sources'') ''#/properties/verified_sources'' data18))]))))"

definition validate166 :: validator where
  "validate166 data instancePath = run_guard (on_type Return TObject instancePath ''#/type'' data
    (required Return [''files'', ''quota_bytes'', ''used_bytes'', ''retention_days''] instancePath ''#/required'' data
    (then_valid (no_additional Return [''files'', ''quota_bytes'', ''retention_days'', ''used_bytes''] instancePath ''#/additionalProperties'' data)
    (properties [
      on_prop data ''files'' (\<lambda>data0. on_type Return TArray (at_prop instancePath ''files'') ''#/properties/files/type'' data0
    (items data0 (\<lambda>i0 item. call validate167 item (at_index (at_prop instancePath ''files'') i0)))),
      on_prop data ''quota_bytes'' (\<lambda>v. check_type Return [TString] (at_prop instancePath ''quota_bytes'') ''#/properties/quota_bytes/type'' v),
      on_prop data ''retention_days'' (\<lambda>data3. then_valid (check_type Return [TInteger] (at_prop instancePath ''retention_days'') ''#/properties/retention_days/type'' data3) (check_range Return (Some 65535) 0 (at_prop instancePath ''retention_days'') ''#/properties/retention_days'' data3)),
      on_prop data ''used_bytes'' (\<lambda>v. check_type Return [TString] (at_prop instancePath ''used_bytes'') ''#/properties/used_bytes/type'' v)]))))"

definition validate169 :: validator where
  "validate169 data instancePath = run_guard (on_type Return TObject instancePath ''#/type'' data
    (required Return [''code'', ''message''] instancePath ''#/required'' data
    (then_valid (no_additional Return [''code'', ''message''] instancePath ''#/additionalProperties'' data)
    (properties [
      on_prop data ''code'' (\<lambda>v. check_type Return [TString] (at_prop instancePath ''code'') ''#/properties/code/type'' v),
      on_prop data ''message'' (\<lambda>v. check_type Return [TString] (at_prop instancePath ''message'') ''#/properties/message/type'' v)]))))"

definition validate170 :: validator where
  "validate170 data instancePath = run_guard (on_type Return TObject instancePath ''#/type'' data
    (no_additional Return [] instancePath ''#/additionalProperties'' data))"

definition validate171_build_any0 :: "json \<Rightarrow> string \<Rightarrow> step" where
  "validate171_build_any0 data p = on_type Collect TObject p ''#/$defs/BuildInfo/type'' data
    (required Collect [''releaseId'', ''gchatCommit'', ''gcomsCommit'', ''version''] p ''#/$defs/BuildInfo/required'' data
    (properties [
      on_prop data ''gchatCommit'' (\<lambda>v. check_type Collect [TString] (at_prop p ''gchatCommit'') ''#/$defs/BuildInfo/properties/gchatCommit/type'' v),
      on_prop data ''gcomsCommit'' (\<lambda>v. check_type Collect [TString] (at_prop p ''gcomsCommit'') ''#/$defs/BuildInfo/properties/gcomsCommit/type'' v),
      on_prop data ''releaseId'' (\<lambda>v. check_type Collect [TString] (at_prop p ''releaseId'') ''#/$defs/BuildInfo/properties/releaseId/type'' v),
      on_prop data ''version'' (\<lambda>v. check_type Collect [TString] (at_prop p ''version'') ''#/$defs/BuildInfo/properties/version/type'' v)]))"

definition validate171_build :: "json \<Rightarrow> string \<Rightarrow> step" where
  "validate171_build data p = any_of Return p ''#/properties/build/anyOf'' [
      validate171_build_any0 data p,
      check_type Collect [TNull] p ''#/properties/build/anyOf/1/type'' data]"

definition validate171 :: validator where
  "validate171 data instancePath = run_guard (on_type Return TObject instancePath ''#/type'' data
    (required Return [''id'', ''label'', ''bootId'', ''locked'', ''protocolLocked'', ''profileExists'', ''archiveExists'', ''safetyNumber'', ''capabilities''] instancePath ''#/required'' data
    (properties [
      on_prop data ''archiveExists'' (\<lambda>v. check_type Return [TBoolean] (at_prop instancePath ''archiveExists'') ''#/properties/archiveExists/type'' v),
      on_prop data ''bootId'' (\<lambda>v. check_type Return [TString] (at_prop instancePath ''bootId'') ''#/properties/bootId/type'' v),
      on_prop data ''build'' (\<lambda>data2. validate171_build data2 (at_prop instancePath ''build'')),
      on_prop data ''capabilities'' (\<lambda>data7. on_type Return TArray (at_prop instancePath ''capabilities'') ''#/properties/capabilities/type'' data7
    (items data7 (\<lambda>i0 item. check_type Return [TString] (at_index (at_prop instancePath ''capabilities'') i0) ''#/properties/capabilities/items/type'' item))),
      on_prop data ''id'' (\<lambda>v. check_type Return [TString] (at_prop instancePath ''id'') ''#/properties/id/type'' v),
      on_prop data ''label'' (\<lambda>v. check_type Return [TString] (at_prop instancePath ''label'') ''#/properties/label/type'' v),
      on_prop data ''locked'' (\<lambda>v. check_type Return [TBoolean] (at_prop instancePath ''locked'') ''#/properties/locked/type'' v),
      on_prop data ''profileExists'' (\<lambda>v. check_type Return [TBoolean] (at_prop instancePath ''profileExists'') ''#/properties/profileExists/type'' v),
      on_prop data ''protocolLocked'' (\<lambda>v. check_type Return [TBoolean] (at_prop instancePath ''protocolLocked'') ''#/properties/protocolLocked/type'' v),
      on_prop data ''safetyNumber'' (\<lambda>v. check_type Return [TString] (at_prop instancePath ''safetyNumber'') ''#/properties/safetyNumber/type'' v)])))"

definition validate172 :: validator where
  "validate172 data instancePath = run_guard (on_type Return TObject instancePath ''#/type'' data
    (required Return [''code'', ''message''] instancePath ''#/required'' data
    (then_valid (no_additional Return [''code'', ''message''] instancePath ''#/additionalProperties'' data)
    (properties [
      on_prop data ''code'' (\<lambda>v. check_type Return [TString] (at_prop instancePath ''code'') ''#/properties/code/type'' v),
      on_prop data ''message'' (\<lambda>v. check_type Return [TString] (at_prop instancePath ''message'') ''#/properties/message/type'' v)]))))"

definition validate173 :: validator where
  "validate173 data instancePath = run_guard (on_type Return TObject instancePath ''#/type'' data
    (required Return [''passphrase'', ''create''] instancePath ''#/required'' data
    (then_valid (no_additional Return [''create'', ''passphrase''] instancePath ''#/additionalProperties'' data)
    (properties [
      on_prop data ''create'' (\<lambda>v. check_type Return [TBoolean] (at_prop instancePath ''create'') ''#/properties/create/type'' v),
      on_prop data ''passphrase'' (\<lambda>v. check_type Return [TString] (at_prop instancePath ''passphrase'') ''#/properties/passphrase/type'' v)]))))"

definition validate185 :: validator where
  "validate185 data instancePath = run_guard (on_type Return TObject instancePath ''#/type'' data
    (required Return [''code'', ''message''] instancePath ''#/required'' data
    (then_valid (no_additional Return [''code'', ''message''] instancePath ''#/additionalProperties'' data)
    (properties [
      on_prop data ''code'' (\<lambda>v. check_type Return [TString] (at_prop instancePath ''code'') ''#/properties/code/type'' v),
      on_prop data ''message'' (\<lambda>v. check_type Return [TString] (at_prop instancePath ''message'') ''#/properties/message/type'' v)]))))"

definition validate186 :: validator where
  "validate186 data instancePath = run_guard (on_type Return TObject instancePath ''#/type'' data
    (no_additional Return [] instancePath ''#/additionalProperties'' data))"

definition validate187_build_any0 :: "json \<Rightarrow> string \<Rightarrow> step" where
  "validate187_build_any0 data p = on_type Collect TObject p ''#/$defs/BuildInfo/type'' data
    (required Collect [''releaseId'', ''gchatCommit'', ''gcomsCommit'', ''version''] p ''#/$defs/BuildInfo/required'' data
    (properties [
      on_prop data ''gchatCommit'' (\<lambda>v. check_type Collect [TString] (at_prop p ''gchatCommit'') ''#/$defs/BuildInfo/properties/gchatCommit/type'' v),
      on_prop data ''gcomsCommit'' (\<lambda>v. check_type Collect [TString] (at_prop p ''gcomsCommit'') ''#/$defs/BuildInfo/properties/gcomsCommit/type'' v),
      on_prop data ''releaseId'' (\<lambda>v. check_type Collect [TString] (at_prop p ''releaseId'') ''#/$defs/BuildInfo/properties/releaseId/type'' v),
      on_prop data ''version'' (\<lambda>v. check_type Collect [TString] (at_prop p ''version'') ''#/$defs/BuildInfo/properties/version/type'' v)]))"

definition validate187_build :: "json \<Rightarrow> string \<Rightarrow> step" where
  "validate187_build data p = any_of Return p ''#/properties/build/anyOf'' [
      validate187_build_any0 data p,
      check_type Collect [TNull] p ''#/properties/build/anyOf/1/type'' data]"

definition validate187 :: validator where
  "validate187 data instancePath = run_guard (on_type Return TObject instancePath ''#/type'' data
    (required Return [''id'', ''label'', ''bootId'', ''locked'', ''protocolLocked'', ''profileExists'', ''archiveExists'', ''safetyNumber'', ''capabilities''] instancePath ''#/required'' data
    (properties [
      on_prop data ''archiveExists'' (\<lambda>v. check_type Return [TBoolean] (at_prop instancePath ''archiveExists'') ''#/properties/archiveExists/type'' v),
      on_prop data ''bootId'' (\<lambda>v. check_type Return [TString] (at_prop instancePath ''bootId'') ''#/properties/bootId/type'' v),
      on_prop data ''build'' (\<lambda>data2. validate187_build data2 (at_prop instancePath ''build'')),
      on_prop data ''capabilities'' (\<lambda>data7. on_type Return TArray (at_prop instancePath ''capabilities'') ''#/properties/capabilities/type'' data7
    (items data7 (\<lambda>i0 item. check_type Return [TString] (at_index (at_prop instancePath ''capabilities'') i0) ''#/properties/capabilities/items/type'' item))),
      on_prop data ''id'' (\<lambda>v. check_type Return [TString] (at_prop instancePath ''id'') ''#/properties/id/type'' v),
      on_prop data ''label'' (\<lambda>v. check_type Return [TString] (at_prop instancePath ''label'') ''#/properties/label/type'' v),
      on_prop data ''locked'' (\<lambda>v. check_type Return [TBoolean] (at_prop instancePath ''locked'') ''#/properties/locked/type'' v),
      on_prop data ''profileExists'' (\<lambda>v. check_type Return [TBoolean] (at_prop instancePath ''profileExists'') ''#/properties/profileExists/type'' v),
      on_prop data ''protocolLocked'' (\<lambda>v. check_type Return [TBoolean] (at_prop instancePath ''protocolLocked'') ''#/properties/protocolLocked/type'' v),
      on_prop data ''safetyNumber'' (\<lambda>v. check_type Return [TString] (at_prop instancePath ''safetyNumber'') ''#/properties/safetyNumber/type'' v)])))"

definition validate188 :: validator where
  "validate188 data instancePath = run_guard (on_type Return TObject instancePath ''#/type'' data
    (required Return [''code'', ''message''] instancePath ''#/required'' data
    (then_valid (no_additional Return [''code'', ''message''] instancePath ''#/additionalProperties'' data)
    (properties [
      on_prop data ''code'' (\<lambda>v. check_type Return [TString] (at_prop instancePath ''code'') ''#/properties/code/type'' v),
      on_prop data ''message'' (\<lambda>v. check_type Return [TString] (at_prop instancePath ''message'') ''#/properties/message/type'' v)]))))"

definition validate189 :: validator where
  "validate189 data instancePath = run_guard (on_type Return TObject instancePath ''#/type'' data
    (no_additional Return [] instancePath ''#/additionalProperties'' data))"

definition validate201 :: validator where
  "validate201 data instancePath = run_guard (on_type Return TObject instancePath ''#/type'' data
    (required Return [''code'', ''message''] instancePath ''#/required'' data
    (then_valid (no_additional Return [''code'', ''message''] instancePath ''#/additionalProperties'' data)
    (properties [
      on_prop data ''code'' (\<lambda>v. check_type Return [TString] (at_prop instancePath ''code'') ''#/properties/code/type'' v),
      on_prop data ''message'' (\<lambda>v. check_type Return [TString] (at_prop instancePath ''message'') ''#/properties/message/type'' v)]))))"

definition validate202 :: validator where
  "validate202 data instancePath = run_guard (on_type Return TObject instancePath ''#/type'' data
    (no_additional Return [] instancePath ''#/additionalProperties'' data))"

definition validate214 :: validator where
  "validate214 data instancePath = run_guard (on_type Return TObject instancePath ''#/type'' data
    (required Return [''code'', ''message''] instancePath ''#/required'' data
    (then_valid (no_additional Return [''code'', ''message''] instancePath ''#/additionalProperties'' data)
    (properties [
      on_prop data ''code'' (\<lambda>v. check_type Return [TString] (at_prop instancePath ''code'') ''#/properties/code/type'' v),
      on_prop data ''message'' (\<lambda>v. check_type Return [TString] (at_prop instancePath ''message'') ''#/properties/message/type'' v)]))))"

definition validate215 :: validator where
  "validate215 data instancePath = run_guard (on_type Return TObject instancePath ''#/type'' data
    (no_additional Return [] instancePath ''#/additionalProperties'' data))"

definition validate216 :: validator where
  "validate216 data instancePath = run_guard (on_type Return TObject instancePath ''#/type'' data
    (required Return [''state'', ''message''] instancePath ''#/required'' data
    (properties [
      on_prop data ''message'' (\<lambda>v. check_type Return [TString] (at_prop instancePath ''message'') ''#/properties/message/type'' v),
      on_prop data ''state'' (\<lambda>data1. seq (check_type Return [TString] (at_prop instancePath ''state'') ''#/$defs/NetworkState/type'' data1) (check_enum Return [''locked'', ''local_only'', ''invitation_required'', ''connecting'', ''connected'', ''reconnecting'', ''invitation_expired'', ''unavailable''] (at_prop instancePath ''state'') ''#/$defs/NetworkState/enum'' data1))])))"

definition validate217 :: validator where
  "validate217 data instancePath = run_guard (on_type Return TObject instancePath ''#/type'' data
    (required Return [''code'', ''message''] instancePath ''#/required'' data
    (then_valid (no_additional Return [''code'', ''message''] instancePath ''#/additionalProperties'' data)
    (properties [
      on_prop data ''code'' (\<lambda>v. check_type Return [TString] (at_prop instancePath ''code'') ''#/properties/code/type'' v),
      on_prop data ''message'' (\<lambda>v. check_type Return [TString] (at_prop instancePath ''message'') ''#/properties/message/type'' v)]))))"

definition validate218 :: validator where
  "validate218 data instancePath = run_guard (on_type Return TObject instancePath ''#/type'' data
    (required Return [''code''] instancePath ''#/required'' data
    (then_valid (no_additional Return [''code''] instancePath ''#/additionalProperties'' data)
    (properties [
      on_prop data ''code'' (\<lambda>v. check_type Return [TString] (at_prop instancePath ''code'') ''#/properties/code/type'' v)]))))"

definition validate219 :: validator where
  "validate219 data instancePath = run_guard (on_type Return TObject instancePath ''#/type'' data
    (required Return [''state'', ''message''] instancePath ''#/required'' data
    (properties [
      on_prop data ''message'' (\<lambda>v. check_type Return [TString] (at_prop instancePath ''message'') ''#/properties/message/type'' v),
      on_prop data ''state'' (\<lambda>data1. seq (check_type Return [TString] (at_prop instancePath ''state'') ''#/$defs/NetworkState/type'' data1) (check_enum Return [''locked'', ''local_only'', ''invitation_required'', ''connecting'', ''connected'', ''reconnecting'', ''invitation_expired'', ''unavailable''] (at_prop instancePath ''state'') ''#/$defs/NetworkState/enum'' data1))])))"

definition validate220 :: validator where
  "validate220 data instancePath = run_guard (on_type Return TObject instancePath ''#/type'' data
    (required Return [''code'', ''message''] instancePath ''#/required'' data
    (then_valid (no_additional Return [''code'', ''message''] instancePath ''#/additionalProperties'' data)
    (properties [
      on_prop data ''code'' (\<lambda>v. check_type Return [TString] (at_prop instancePath ''code'') ''#/properties/code/type'' v),
      on_prop data ''message'' (\<lambda>v. check_type Return [TString] (at_prop instancePath ''message'') ''#/properties/message/type'' v)]))))"

definition validate221 :: validator where
  "validate221 data instancePath = run_guard (on_type Return TObject instancePath ''#/type'' data
    (then_valid (no_additional Return [''conversation''] instancePath ''#/additionalProperties'' data)
    (properties [
      on_prop data ''conversation'' (\<lambda>data0. check_type Return [TString, TNull] (at_prop instancePath ''conversation'') ''#/properties/conversation/type'' data0)])))"

definition validate222_item :: "json \<Rightarrow> string \<Rightarrow> step" where
  "validate222_item data p = on_type Return TObject p ''#/$defs/CommandSpec/type'' data
    (required Return [''name'', ''usage'', ''description'', ''scope'', ''available''] p ''#/$defs/CommandSpec/required'' data
    (properties [
      on_prop data ''available'' (\<lambda>v. check_type Return [TBoolean] (at_prop p ''available'') ''#/$defs/CommandSpec/properties/available/type'' v),
      on_prop data ''capability'' (\<lambda>data2. check_type Return [TString, TNull] (at_prop p ''capability'') ''#/$defs/CommandSpec/properties/capability/type'' data2),
      on_prop data ''description'' (\<lambda>v. check_type Return [TString] (at_prop p ''description'') ''#/$defs/CommandSpec/properties/description/type'' v),
      on_prop data ''name'' (\<lambda>v. check_type Return [TString] (at_prop p ''name'') ''#/$defs/CommandSpec/properties/name/type'' v),
      on_prop data ''scope'' (\<lambda>v. check_type Return [TString] (at_prop p ''scope'') ''#/$defs/CommandSpec/properties/scope/type'' v),
      on_prop data ''usage'' (\<lambda>v. check_type Return [TString] (at_prop p ''usage'') ''#/$defs/CommandSpec/properties/usage/type'' v)]))"

definition validate222 :: validator where
  "validate222 data instancePath = run_guard (on_type Return TArray instancePath ''#/type'' data
    (items data (\<lambda>i0 data0. validate222_item data0 (at_index instancePath i0))))"

definition validate223 :: validator where
  "validate223 data instancePath = run_guard (on_type Return TObject instancePath ''#/type'' data
    (required Return [''code'', ''message''] instancePath ''#/required'' data
    (then_valid (no_additional Return [''code'', ''message''] instancePath ''#/additionalProperties'' data)
    (properties [
      on_prop data ''code'' (\<lambda>v. check_type Return [TString] (at_prop instancePath ''code'') ''#/properties/code/type'' v),
      on_prop data ''message'' (\<lambda>v. check_type Return [TString] (at_prop instancePath ''message'') ''#/properties/message/type'' v)]))))"

definition validate224 :: validator where
  "validate224 data instancePath = run_guard (on_type Return TObject instancePath ''#/type'' data
    (required Return [''conversation'', ''limit''] instancePath ''#/required'' data
    (then_valid (no_additional Return [''before'', ''conversation'', ''limit''] instancePath ''#/additionalProperties'' data)
    (properties [
      on_prop data ''before'' (\<lambda>data0. check_type Return [TString, TNull] (at_prop instancePath ''before'') ''#/properties/before/type'' data0),
      on_prop data ''conversation'' (\<lambda>v. check_type Return [TString] (at_prop instancePath ''conversation'') ''#/properties/conversation/type'' v),
      on_prop data ''limit'' (\<lambda>data2. then_valid (check_type Return [TInteger] (at_prop instancePath ''limit'') ''#/properties/limit/type'' data2) (check_range Return (Some 65535) 0 (at_prop instancePath ''limit'') ''#/properties/limit'' data2))]))))"

definition validate230 :: validator where
  "validate230 data instancePath = run_guard (on_type Return TObject instancePath ''#/type'' data
    (required Return [''code'', ''message''] instancePath ''#/required'' data
    (then_valid (no_additional Return [''code'', ''message''] instancePath ''#/additionalProperties'' data)
    (properties [
      on_prop data ''code'' (\<lambda>v. check_type Return [TString] (at_prop instancePath ''code'') ''#/properties/code/type'' v),
      on_prop data ''message'' (\<lambda>v. check_type Return [TString] (at_prop instancePath ''message'') ''#/properties/message/type'' v)]))))"

definition validate231 :: validator where
  "validate231 data instancePath = run_guard (on_type Return TObject instancePath ''#/type'' data
    (required Return [''conversation'', ''text'', ''limit''] instancePath ''#/required'' data
    (then_valid (no_additional Return [''before'', ''conversation'', ''limit'', ''text''] instancePath ''#/additionalProperties'' data)
    (properties [
      on_prop data ''before'' (\<lambda>data0. check_type Return [TString, TNull] (at_prop instancePath ''before'') ''#/properties/before/type'' data0),
      on_prop data ''conversation'' (\<lambda>v. check_type Return [TString] (at_prop instancePath ''conversation'') ''#/properties/conversation/type'' v),
      on_prop data ''limit'' (\<lambda>data2. then_valid (check_type Return [TInteger] (at_prop instancePath ''limit'') ''#/properties/limit/type'' data2) (check_range Return (Some 65535) 0 (at_prop instancePath ''limit'') ''#/properties/limit'' data2)),
      on_prop data ''text'' (\<lambda>v. check_type Return [TString] (at_prop instancePath ''text'') ''#/properties/text/type'' v)]))))"

definition validate237 :: validator where
  "validate237 data instancePath = run_guard (on_type Return TObject instancePath ''#/type'' data
    (required Return [''code'', ''message''] instancePath ''#/required'' data
    (then_valid (no_additional Return [''code'', ''message''] instancePath ''#/additionalProperties'' data)
    (properties [
      on_prop data ''code'' (\<lambda>v. check_type Return [TString] (at_prop instancePath ''code'') ''#/properties/code/type'' v),
      on_prop data ''message'' (\<lambda>v. check_type Return [TString] (at_prop instancePath ''message'') ''#/properties/message/type'' v)]))))"

definition validate238 :: validator where
  "validate238 data instancePath = run_guard (on_type Return TObject instancePath ''#/type'' data
    (required Return [''text''] instancePath ''#/required'' data
    (then_valid (no_additional Return [''conversation'', ''text''] instancePath ''#/additionalProperties'' data)
    (properties [
      on_prop data ''conversation'' (\<lambda>data0. check_type Return [TString, TNull] (at_prop instancePath ''conversation'') ''#/properties/conversation/type'' data0),
      on_prop data ''text'' (\<lambda>v. check_type Return [TString] (at_prop instancePath ''text'') ''#/properties/text/type'' v)]))))"

definition validate242 :: validator where
  "validate242 data instancePath = run_guard (on_type Return TObject instancePath ''#/type'' data
    (required Return [''code'', ''message''] instancePath ''#/required'' data
    (then_valid (no_additional Return [''code'', ''message''] instancePath ''#/additionalProperties'' data)
    (properties [
      on_prop data ''code'' (\<lambda>v. check_type Return [TString] (at_prop instancePath ''code'') ''#/properties/code/type'' v),
      on_prop data ''message'' (\<lambda>v. check_type Return [TString] (at_prop instancePath ''message'') ''#/properties/message/type'' v)]))))"

definition validate243 :: validator where
  "validate243 data instancePath = run_guard (on_type Return TObject instancePath ''#/type'' data
    (required Return [''text''] instancePath ''#/required'' data
    (then_valid (no_additional Return [''conversation'', ''text''] instancePath ''#/additionalProperties'' data)
    (properties [
      on_prop data ''conversation'' (\<lambda>data0. check_type Return [TString, TNull] (at_prop instancePath ''conversation'') ''#/properties/conversation/type'' data0),
      on_prop data ''text'' (\<lambda>v. check_type Return [TString] (at_prop instancePath ''text'') ''#/properties/text/type'' v)]))))"

definition validate244_item :: "json \<Rightarrow> string \<Rightarrow> step" where
  "validate244_item data p = on_type Return TObject p ''#/$defs/Completion/type'' data
    (required Return [''text'', ''description''] p ''#/$defs/Completion/required'' data
    (properties [
      on_prop data ''description'' (\<lambda>v. check_type Return [TString] (at_prop p ''description'') ''#/$defs/Completion/properties/description/type'' v),
      on_prop data ''text'' (\<lambda>v. check_type Return [TString] (at_prop p ''text'') ''#/$defs/Completion/properties/text/type'' v)]))"

definition validate244 :: validator where
  "validate244 data instancePath = run_guard (on_type Return TArray instancePath ''#/type'' data
    (items data (\<lambda>i0 data0. validate244_item data0 (at_index instancePath i0))))"

definition validate245 :: validator where
  "validate245 data instancePath = run_guard (on_type Return TObject instancePath ''#/type'' data
    (required Return [''code'', ''message''] instancePath ''#/required'' data
    (then_valid (no_additional Return [''code'', ''message''] instancePath ''#/additionalProperties'' data)
    (properties [
      on_prop data ''code'' (\<lambda>v. check_type Return [TString] (at_prop instancePath ''code'') ''#/properties/code/type'' v),
      on_prop data ''message'' (\<lambda>v. check_type Return [TString] (at_prop instancePath ''message'') ''#/properties/message/type'' v)]))))"

definition validate246 :: validator where
  "validate246 data instancePath = run_guard (on_type Return TObject instancePath ''#/type'' data
    (required Return [''conversation'', ''message_id''] instancePath ''#/required'' data
    (then_valid (no_additional Return [''conversation'', ''message_id''] instancePath ''#/additionalProperties'' data)
    (properties [
      on_prop data ''conversation'' (\<lambda>v. check_type Return [TString] (at_prop instancePath ''conversation'') ''#/properties/conversation/type'' v),
      on_prop data ''message_id'' (\<lambda>v. check_type Return [TString] (at_prop instancePath ''message_id'') ''#/properties/message_id/type'' v)]))))"

definition validate247 :: validator where
  "validate247 data instancePath = run_guard (on_type Return TObject instancePath ''#/type'' data
    (then_valid (no_additional Return [''conversation'', ''notice''] instancePath ''#/additionalProperties'' data)
    (properties [
      on_prop data ''conversation'' (\<lambda>data0. check_type Return [TString, TNull] (at_prop instancePath ''conversation'') ''#/properties/conversation/type'' data0),
      on_prop data ''notice'' (\<lambda>data1. check_type Return [TString, TNull] (at_prop instancePath ''notice'') ''#/properties/notice/type'' data1)])))"

definition validate248 :: validator where
  "validate248 data instancePath = run_guard (on_type Return TObject instancePath ''#/type'' data
    (required Return [''code'', ''message''] instancePath ''#/required'' data
    (then_valid (no_additional Return [''code'', ''message''] instancePath ''#/additionalProperties'' data)
    (properties [
      on_prop data ''code'' (\<lambda>v. check_type Return [TString] (at_prop instancePath ''code'') ''#/properties/code/type'' v),
      on_prop data ''message'' (\<lambda>v. check_type Return [TString] (at_prop instancePath ''message'') ''#/properties/message/type'' v)]))))"

definition validate249 :: validator where
  "validate249 data instancePath = run_guard (on_type Return TObject instancePath ''#/type'' data
    (required Return [''after'', ''wait_ms''] instancePath ''#/required'' data
    (then_valid (no_additional Return [''after'', ''wait_ms''] instancePath ''#/additionalProperties'' data)
    (properties [
      on_prop data ''after'' (\<lambda>v. check_type Return [TString] (at_prop instancePath ''after'') ''#/properties/after/type'' v),
      on_prop data ''wait_ms'' (\<lambda>data1. then_valid (check_type Return [TInteger] (at_prop instancePath ''wait_ms'') ''#/properties/wait_ms/type'' data1) (check_range Return (Some 65535) 0 (at_prop instancePath ''wait_ms'') ''#/properties/wait_ms'' data1))]))))"

definition validate250 :: validator where
  "validate250 data instancePath = run_guard (check_type Return [TString] instancePath ''#/type'' data)"

definition validate251 :: validator where
  "validate251 data instancePath = run_guard (on_type Return TObject instancePath ''#/type'' data
    (required Return [''code'', ''message''] instancePath ''#/required'' data
    (then_valid (no_additional Return [''code'', ''message''] instancePath ''#/additionalProperties'' data)
    (properties [
      on_prop data ''code'' (\<lambda>v. check_type Return [TString] (at_prop instancePath ''code'') ''#/properties/code/type'' v),
      on_prop data ''message'' (\<lambda>v. check_type Return [TString] (at_prop instancePath ''message'') ''#/properties/message/type'' v)]))))"

section \<open>Each guard implements its schema\<close>

lemma validates_validate27: "validates validate27 (conforms \<rho> schema39) d"
  unfolding schema39_def
  by (rule validates_run[where m = Return], rule validate27_def) (intro conform_laws guard_parts; simp)

lemmas call_validate27 [guard_parts] = checks_call[OF validates_validate27]

lemma validates_validate33: "validates validate33 (conforms \<rho> schema38) d"
  unfolding schema38_def
  by (rule validates_run[where m = Return], rule validate33_def) (intro conform_laws guard_parts; simp)

lemmas call_validate33 [guard_parts] = checks_call[OF validates_validate33]

lemma validates_validate75: "validates validate75 (conforms \<rho> schema38) d"
  unfolding schema38_def
  by (rule validates_run[where m = Return], rule validate75_def) (intro conform_laws guard_parts; simp)

lemmas call_validate75 [guard_parts] = checks_call[OF validates_validate75]

lemma validates_validate76: "validates validate76 (conforms \<rho> schema91) d"
  unfolding schema91_def
  by (rule validates_run[where m = Return], rule validate76_def) (intro conform_laws guard_parts; simp)

lemmas call_validate76 [guard_parts] = checks_call[OF validates_validate76]

lemma validates_validate80: "validates validate80 (conforms \<rho> schema38) d"
  unfolding schema38_def
  by (rule validates_run[where m = Return], rule validate80_def) (intro conform_laws guard_parts; simp)

lemmas call_validate80 [guard_parts] = checks_call[OF validates_validate80]

lemma validates_validate122: "validates validate122 (conforms \<rho> schema38) d"
  unfolding schema38_def
  by (rule validates_run[where m = Return], rule validate122_def) (intro conform_laws guard_parts; simp)

lemmas call_validate122 [guard_parts] = checks_call[OF validates_validate122]

lemma validates_validate164: "validates validate164 (conforms \<rho> schema38) d"
  unfolding schema38_def
  by (rule validates_run[where m = Return], rule validate164_def) (intro conform_laws guard_parts; simp)

lemmas call_validate164 [guard_parts] = checks_call[OF validates_validate164]

context document_schema187
begin

lemma checks_validate165_request_list [guard_parts]: "checks Collect p (validate165_request_list data p) (conforms \<rho> schema51_list data)"
  unfolding validate165_request_list_def schema51_list_def by (intro conform_laws guard_parts; simp)

lemma checks_validate165_request_publications [guard_parts]: "checks Collect p (validate165_request_publications data p) (conforms \<rho> schema51_publications data)"
  unfolding validate165_request_publications_def schema51_publications_def by (intro conform_laws guard_parts; simp)

lemma checks_validate165_request_prepare [guard_parts]: "checks Collect p (validate165_request_prepare data p) (conforms \<rho> schema51_prepare data)"
  unfolding validate165_request_prepare_def schema51_prepare_def by (intro conform_laws guard_parts; simp)

lemma checks_validate165_request_commit [guard_parts]: "checks Collect p (validate165_request_commit data p) (conforms \<rho> schema51_commit data)"
  unfolding validate165_request_commit_def schema51_commit_def by (intro conform_laws guard_parts; simp)

lemma checks_validate165_request_accept [guard_parts]: "checks Collect p (validate165_request_accept data p) (conforms \<rho> schema51_accept data)"
  unfolding validate165_request_accept_def schema51_accept_def by (intro conform_laws guard_parts; simp)

lemma checks_validate165_request_pause [guard_parts]: "checks Collect p (validate165_request_pause data p) (conforms \<rho> schema51_pause data)"
  unfolding validate165_request_pause_def schema51_pause_def by (intro conform_laws guard_parts; simp)

lemma checks_validate165_request_resume [guard_parts]: "checks Collect p (validate165_request_resume data p) (conforms \<rho> schema51_resume data)"
  unfolding validate165_request_resume_def schema51_resume_def by (intro conform_laws guard_parts; simp)

lemma checks_validate165_request_cancel [guard_parts]: "checks Collect p (validate165_request_cancel data p) (conforms \<rho> schema51_cancel data)"
  unfolding validate165_request_cancel_def schema51_cancel_def by (intro conform_laws guard_parts; simp)

lemma checks_validate165_request_configure [guard_parts]: "checks Collect p (validate165_request_configure data p) (conforms \<rho> schema51_configure data)"
  unfolding validate165_request_configure_def schema51_configure_def by (intro conform_laws guard_parts; simp)

lemma checks_validate165_request [guard_parts]: "checks Return p (validate165_request data p) (conforms \<rho> schema51 data)"
  unfolding validate165_request_def schema51_def by (intro conform_laws guard_parts; simp)

lemma validates_validate165: "validates validate165 (conforms \<rho> schema187) d"
  unfolding schema187_def
  by (rule validates_run[where m = Return], rule validate165_def) (intro conform_laws guard_parts; simp)

lemmas call_validate165 [guard_parts] = checks_call[OF validates_validate165]

end

context document_schema59
begin

lemma checks_validate167_publication_any0 [guard_parts]: "checks Collect p (validate167_publication_any0 data p) (conforms \<rho> schema61 data)"
  unfolding validate167_publication_any0_def schema61_def by (intro conform_laws guard_parts; simp)

lemma checks_validate167_publication [guard_parts]: "checks Return p (validate167_publication data p) (conforms \<rho> (SAnyOf [SRef ''FilePublication'', SType [TNull]]) data)"
  unfolding validate167_publication_def by (intro conform_laws guard_parts; simp)

lemma validates_validate167: "validates validate167 (conforms \<rho> schema60) d"
  unfolding schema60_def
  by (rule validates_run[where m = Return], rule validate167_def) (intro conform_laws guard_parts; simp)

lemmas call_validate167 [guard_parts] = checks_call[OF validates_validate167]

lemma validates_validate166: "validates validate166 (conforms \<rho> schema59) d"
  unfolding schema59_def
  by (rule validates_run[where m = Return], rule validate166_def) (intro conform_laws guard_parts; simp)

lemmas call_validate166 [guard_parts] = checks_call[OF validates_validate166]

end

lemma validates_validate169: "validates validate169 (conforms \<rho> schema38) d"
  unfolding schema38_def
  by (rule validates_run[where m = Return], rule validate169_def) (intro conform_laws guard_parts; simp)

lemmas call_validate169 [guard_parts] = checks_call[OF validates_validate169]

lemma validates_validate170: "validates validate170 (conforms \<rho> schema194) d"
  unfolding schema194_def
  by (rule validates_run[where m = Return], rule validate170_def) (intro conform_laws guard_parts; simp)

lemmas call_validate170 [guard_parts] = checks_call[OF validates_validate170]

context document_schema63
begin

lemma checks_validate171_build_any0 [guard_parts]: "checks Collect p (validate171_build_any0 data p) (conforms \<rho> schema64 data)"
  unfolding validate171_build_any0_def schema64_def by (intro conform_laws guard_parts; simp)

lemma checks_validate171_build [guard_parts]: "checks Return p (validate171_build data p) (conforms \<rho> (SAnyOf [SRef ''BuildInfo'', SType [TNull]]) data)"
  unfolding validate171_build_def by (intro conform_laws guard_parts; simp)

lemma validates_validate171: "validates validate171 (conforms \<rho> schema63) d"
  unfolding schema63_def
  by (rule validates_run[where m = Return], rule validate171_def) (intro conform_laws guard_parts; simp)

lemmas call_validate171 [guard_parts] = checks_call[OF validates_validate171]

end

lemma validates_validate172: "validates validate172 (conforms \<rho> schema38) d"
  unfolding schema38_def
  by (rule validates_run[where m = Return], rule validate172_def) (intro conform_laws guard_parts; simp)

lemmas call_validate172 [guard_parts] = checks_call[OF validates_validate172]

lemma validates_validate173: "validates validate173 (conforms \<rho> schema198) d"
  unfolding schema198_def
  by (rule validates_run[where m = Return], rule validate173_def) (intro conform_laws guard_parts; simp)

lemmas call_validate173 [guard_parts] = checks_call[OF validates_validate173]

lemma validates_validate185: "validates validate185 (conforms \<rho> schema38) d"
  unfolding schema38_def
  by (rule validates_run[where m = Return], rule validate185_def) (intro conform_laws guard_parts; simp)

lemmas call_validate185 [guard_parts] = checks_call[OF validates_validate185]

lemma validates_validate186: "validates validate186 (conforms \<rho> schema194) d"
  unfolding schema194_def
  by (rule validates_run[where m = Return], rule validate186_def) (intro conform_laws guard_parts; simp)

lemmas call_validate186 [guard_parts] = checks_call[OF validates_validate186]

context document_schema63
begin

lemma checks_validate187_build_any0 [guard_parts]: "checks Collect p (validate187_build_any0 data p) (conforms \<rho> schema64 data)"
  unfolding validate187_build_any0_def schema64_def by (intro conform_laws guard_parts; simp)

lemma checks_validate187_build [guard_parts]: "checks Return p (validate187_build data p) (conforms \<rho> (SAnyOf [SRef ''BuildInfo'', SType [TNull]]) data)"
  unfolding validate187_build_def by (intro conform_laws guard_parts; simp)

lemma validates_validate187: "validates validate187 (conforms \<rho> schema63) d"
  unfolding schema63_def
  by (rule validates_run[where m = Return], rule validate187_def) (intro conform_laws guard_parts; simp)

lemmas call_validate187 [guard_parts] = checks_call[OF validates_validate187]

end

lemma validates_validate188: "validates validate188 (conforms \<rho> schema38) d"
  unfolding schema38_def
  by (rule validates_run[where m = Return], rule validate188_def) (intro conform_laws guard_parts; simp)

lemmas call_validate188 [guard_parts] = checks_call[OF validates_validate188]

lemma validates_validate189: "validates validate189 (conforms \<rho> schema194) d"
  unfolding schema194_def
  by (rule validates_run[where m = Return], rule validate189_def) (intro conform_laws guard_parts; simp)

lemmas call_validate189 [guard_parts] = checks_call[OF validates_validate189]

lemma validates_validate201: "validates validate201 (conforms \<rho> schema38) d"
  unfolding schema38_def
  by (rule validates_run[where m = Return], rule validate201_def) (intro conform_laws guard_parts; simp)

lemmas call_validate201 [guard_parts] = checks_call[OF validates_validate201]

lemma validates_validate202: "validates validate202 (conforms \<rho> schema194) d"
  unfolding schema194_def
  by (rule validates_run[where m = Return], rule validate202_def) (intro conform_laws guard_parts; simp)

lemmas call_validate202 [guard_parts] = checks_call[OF validates_validate202]

lemma validates_validate214: "validates validate214 (conforms \<rho> schema38) d"
  unfolding schema38_def
  by (rule validates_run[where m = Return], rule validate214_def) (intro conform_laws guard_parts; simp)

lemmas call_validate214 [guard_parts] = checks_call[OF validates_validate214]

lemma validates_validate215: "validates validate215 (conforms \<rho> schema194) d"
  unfolding schema194_def
  by (rule validates_run[where m = Return], rule validate215_def) (intro conform_laws guard_parts; simp)

lemmas call_validate215 [guard_parts] = checks_call[OF validates_validate215]

context document_schema54
begin

lemma validates_validate216: "validates validate216 (conforms \<rho> schema54) d"
  unfolding schema54_def
  by (rule validates_run[where m = Return], rule validate216_def) (intro conform_laws guard_parts; simp)

lemmas call_validate216 [guard_parts] = checks_call[OF validates_validate216]

end

lemma validates_validate217: "validates validate217 (conforms \<rho> schema38) d"
  unfolding schema38_def
  by (rule validates_run[where m = Return], rule validate217_def) (intro conform_laws guard_parts; simp)

lemmas call_validate217 [guard_parts] = checks_call[OF validates_validate217]

lemma validates_validate218: "validates validate218 (conforms \<rho> schema269) d"
  unfolding schema269_def
  by (rule validates_run[where m = Return], rule validate218_def) (intro conform_laws guard_parts; simp)

lemmas call_validate218 [guard_parts] = checks_call[OF validates_validate218]

context document_schema54
begin

lemma validates_validate219: "validates validate219 (conforms \<rho> schema54) d"
  unfolding schema54_def
  by (rule validates_run[where m = Return], rule validate219_def) (intro conform_laws guard_parts; simp)

lemmas call_validate219 [guard_parts] = checks_call[OF validates_validate219]

end

lemma validates_validate220: "validates validate220 (conforms \<rho> schema38) d"
  unfolding schema38_def
  by (rule validates_run[where m = Return], rule validate220_def) (intro conform_laws guard_parts; simp)

lemmas call_validate220 [guard_parts] = checks_call[OF validates_validate220]

lemma validates_validate221: "validates validate221 (conforms \<rho> schema273) d"
  unfolding schema273_def
  by (rule validates_run[where m = Return], rule validate221_def) (intro conform_laws guard_parts; simp)

lemmas call_validate221 [guard_parts] = checks_call[OF validates_validate221]

context document_schema274
begin

lemma checks_validate222_item [guard_parts]: "checks Return p (validate222_item data p) (conforms \<rho> schema69 data)"
  unfolding validate222_item_def schema69_def by (intro conform_laws guard_parts; simp)

lemma validates_validate222: "validates validate222 (conforms \<rho> schema274) d"
  unfolding schema274_def
  by (rule validates_run[where m = Return], rule validate222_def) (intro conform_laws guard_parts; simp)

lemmas call_validate222 [guard_parts] = checks_call[OF validates_validate222]

end

lemma validates_validate223: "validates validate223 (conforms \<rho> schema38) d"
  unfolding schema38_def
  by (rule validates_run[where m = Return], rule validate223_def) (intro conform_laws guard_parts; simp)

lemmas call_validate223 [guard_parts] = checks_call[OF validates_validate223]

lemma validates_validate224: "validates validate224 (conforms \<rho> schema31) d"
  unfolding schema31_def
  by (rule validates_run[where m = Return], rule validate224_def) (intro conform_laws guard_parts; simp)

lemmas call_validate224 [guard_parts] = checks_call[OF validates_validate224]

lemma validates_validate230: "validates validate230 (conforms \<rho> schema38) d"
  unfolding schema38_def
  by (rule validates_run[where m = Return], rule validate230_def) (intro conform_laws guard_parts; simp)

lemmas call_validate230 [guard_parts] = checks_call[OF validates_validate230]

lemma validates_validate231: "validates validate231 (conforms \<rho> schema39) d"
  unfolding schema39_def
  by (rule validates_run[where m = Return], rule validate231_def) (intro conform_laws guard_parts; simp)

lemmas call_validate231 [guard_parts] = checks_call[OF validates_validate231]

lemma validates_validate237: "validates validate237 (conforms \<rho> schema38) d"
  unfolding schema38_def
  by (rule validates_run[where m = Return], rule validate237_def) (intro conform_laws guard_parts; simp)

lemmas call_validate237 [guard_parts] = checks_call[OF validates_validate237]

lemma validates_validate238: "validates validate238 (conforms \<rho> schema293) d"
  unfolding schema293_def
  by (rule validates_run[where m = Return], rule validate238_def) (intro conform_laws guard_parts; simp)

lemmas call_validate238 [guard_parts] = checks_call[OF validates_validate238]

lemma validates_validate242: "validates validate242 (conforms \<rho> schema38) d"
  unfolding schema38_def
  by (rule validates_run[where m = Return], rule validate242_def) (intro conform_laws guard_parts; simp)

lemmas call_validate242 [guard_parts] = checks_call[OF validates_validate242]

lemma validates_validate243: "validates validate243 (conforms \<rho> schema293) d"
  unfolding schema293_def
  by (rule validates_run[where m = Return], rule validate243_def) (intro conform_laws guard_parts; simp)

lemmas call_validate243 [guard_parts] = checks_call[OF validates_validate243]

context document_schema302
begin

lemma checks_validate244_item [guard_parts]: "checks Return p (validate244_item data p) (conforms \<rho> schema88 data)"
  unfolding validate244_item_def schema88_def by (intro conform_laws guard_parts; simp)

lemma validates_validate244: "validates validate244 (conforms \<rho> schema302) d"
  unfolding schema302_def
  by (rule validates_run[where m = Return], rule validate244_def) (intro conform_laws guard_parts; simp)

lemmas call_validate244 [guard_parts] = checks_call[OF validates_validate244]

end

lemma validates_validate245: "validates validate245 (conforms \<rho> schema38) d"
  unfolding schema38_def
  by (rule validates_run[where m = Return], rule validate245_def) (intro conform_laws guard_parts; simp)

lemmas call_validate245 [guard_parts] = checks_call[OF validates_validate245]

lemma validates_validate246: "validates validate246 (conforms \<rho> schema305) d"
  unfolding schema305_def
  by (rule validates_run[where m = Return], rule validate246_def) (intro conform_laws guard_parts; simp)

lemmas call_validate246 [guard_parts] = checks_call[OF validates_validate246]

lemma validates_validate247: "validates validate247 (conforms \<rho> schema306) d"
  unfolding schema306_def
  by (rule validates_run[where m = Return], rule validate247_def) (intro conform_laws guard_parts; simp)

lemmas call_validate247 [guard_parts] = checks_call[OF validates_validate247]

lemma validates_validate248: "validates validate248 (conforms \<rho> schema38) d"
  unfolding schema38_def
  by (rule validates_run[where m = Return], rule validate248_def) (intro conform_laws guard_parts; simp)

lemmas call_validate248 [guard_parts] = checks_call[OF validates_validate248]

lemma validates_validate249: "validates validate249 (conforms \<rho> schema308) d"
  unfolding schema308_def
  by (rule validates_run[where m = Return], rule validate249_def) (intro conform_laws guard_parts; simp)

lemmas call_validate249 [guard_parts] = checks_call[OF validates_validate249]

lemma validates_validate250: "validates validate250 (conforms \<rho> schema309) d"
  unfolding schema309_def
  by (rule validates_run[where m = Return], rule validate250_def) (intro conform_laws guard_parts; simp)

lemmas call_validate250 [guard_parts] = checks_call[OF validates_validate250]

lemma validates_validate251: "validates validate251 (conforms \<rho> schema38) d"
  unfolding schema38_def
  by (rule validates_run[where m = Return], rule validate251_def) (intro conform_laws guard_parts; simp)

lemmas call_validate251 [guard_parts] = checks_call[OF validates_validate251]

section \<open>The exported guards\<close>

definition search_details_args :: "json \<Rightarrow> bool" where
  "search_details_args value = fst (validate27 value [])"

definition search_details_error :: "json \<Rightarrow> bool" where
  "search_details_error value = fst (validate33 value [])"

definition networks_details_error :: "json \<Rightarrow> bool" where
  "networks_details_error value = fst (validate75 value [])"

definition enrollment_args :: "json \<Rightarrow> bool" where
  "enrollment_args value = fst (validate76 value [])"

definition enrollment_error :: "json \<Rightarrow> bool" where
  "enrollment_error value = fst (validate80 value [])"

definition network_operation_error :: "json \<Rightarrow> bool" where
  "network_operation_error value = fst (validate122 value [])"

definition networks_error :: "json \<Rightarrow> bool" where
  "networks_error value = fst (validate164 value [])"

definition files_args :: "json \<Rightarrow> bool" where
  "files_args value = fst (validate165 value [])"

definition files_output :: "json \<Rightarrow> bool" where
  "files_output value = fst (validate166 value [])"

definition files_error :: "json \<Rightarrow> bool" where
  "files_error value = fst (validate169 value [])"

definition identify_args :: "json \<Rightarrow> bool" where
  "identify_args value = fst (validate170 value [])"

definition identify_output :: "json \<Rightarrow> bool" where
  "identify_output value = fst (validate171 value [])"

definition identify_error :: "json \<Rightarrow> bool" where
  "identify_error value = fst (validate172 value [])"

definition unlock_args :: "json \<Rightarrow> bool" where
  "unlock_args value = fst (validate173 value [])"

definition unlock_error :: "json \<Rightarrow> bool" where
  "unlock_error value = fst (validate185 value [])"

definition lock_args :: "json \<Rightarrow> bool" where
  "lock_args value = fst (validate186 value [])"

definition lock_output :: "json \<Rightarrow> bool" where
  "lock_output value = fst (validate187 value [])"

definition lock_error :: "json \<Rightarrow> bool" where
  "lock_error value = fst (validate188 value [])"

definition disconnect_args :: "json \<Rightarrow> bool" where
  "disconnect_args value = fst (validate189 value [])"

definition disconnect_error :: "json \<Rightarrow> bool" where
  "disconnect_error value = fst (validate201 value [])"

definition snapshot_args :: "json \<Rightarrow> bool" where
  "snapshot_args value = fst (validate202 value [])"

definition snapshot_error :: "json \<Rightarrow> bool" where
  "snapshot_error value = fst (validate214 value [])"

definition network_status_args :: "json \<Rightarrow> bool" where
  "network_status_args value = fst (validate215 value [])"

definition network_status_output :: "json \<Rightarrow> bool" where
  "network_status_output value = fst (validate216 value [])"

definition network_status_error :: "json \<Rightarrow> bool" where
  "network_status_error value = fst (validate217 value [])"

definition import_network_invitation_args :: "json \<Rightarrow> bool" where
  "import_network_invitation_args value = fst (validate218 value [])"

definition import_network_invitation_output :: "json \<Rightarrow> bool" where
  "import_network_invitation_output value = fst (validate219 value [])"

definition import_network_invitation_error :: "json \<Rightarrow> bool" where
  "import_network_invitation_error value = fst (validate220 value [])"

definition catalogue_args :: "json \<Rightarrow> bool" where
  "catalogue_args value = fst (validate221 value [])"

definition catalogue_output :: "json \<Rightarrow> bool" where
  "catalogue_output value = fst (validate222 value [])"

definition catalogue_error :: "json \<Rightarrow> bool" where
  "catalogue_error value = fst (validate223 value [])"

definition history_args :: "json \<Rightarrow> bool" where
  "history_args value = fst (validate224 value [])"

definition history_error :: "json \<Rightarrow> bool" where
  "history_error value = fst (validate230 value [])"

definition search_args :: "json \<Rightarrow> bool" where
  "search_args value = fst (validate231 value [])"

definition search_error :: "json \<Rightarrow> bool" where
  "search_error value = fst (validate237 value [])"

definition submit_args :: "json \<Rightarrow> bool" where
  "submit_args value = fst (validate238 value [])"

definition submit_error :: "json \<Rightarrow> bool" where
  "submit_error value = fst (validate242 value [])"

definition complete_args :: "json \<Rightarrow> bool" where
  "complete_args value = fst (validate243 value [])"

definition complete_output :: "json \<Rightarrow> bool" where
  "complete_output value = fst (validate244 value [])"

definition complete_error :: "json \<Rightarrow> bool" where
  "complete_error value = fst (validate245 value [])"

definition mark_read_args :: "json \<Rightarrow> bool" where
  "mark_read_args value = fst (validate246 value [])"

definition mark_read_output :: "json \<Rightarrow> bool" where
  "mark_read_output value = fst (validate247 value [])"

definition mark_read_error :: "json \<Rightarrow> bool" where
  "mark_read_error value = fst (validate248 value [])"

definition events_args :: "json \<Rightarrow> bool" where
  "events_args value = fst (validate249 value [])"

definition events_output :: "json \<Rightarrow> bool" where
  "events_output value = fst (validate250 value [])"

definition events_error :: "json \<Rightarrow> bool" where
  "events_error value = fst (validate251 value [])"

end
