(* ===== verification/Page_Guards.thy ===== *)
theory Page_Guards
  imports Api_Schemas
begin

text \<open>
  The guards of the pages \<open>search_details\<close>, \<open>history\<close> and \<open>search\<close> return.
\<close>

section \<open>The guards\<close>

definition validate30_artifacts_item :: "json \<Rightarrow> string \<Rightarrow> step" where
  "validate30_artifacts_item data p = on_type Return TObject p ''#/$defs/Artifact/type'' data
    (required Return [''name'', ''url''] p ''#/$defs/Artifact/required'' data
    (properties [
      on_prop data ''name'' (\<lambda>v. check_type Return [TString] (at_prop p ''name'') ''#/$defs/Artifact/properties/name/type'' v),
      on_prop data ''url'' (\<lambda>v. check_type Return [TString] (at_prop p ''url'') ''#/$defs/Artifact/properties/url/type'' v)]))"

definition validate30 :: validator where
  "validate30 data instancePath = run_guard (on_type Return TObject instancePath ''#/type'' data
    (required Return [''id'', ''state'', ''stderr'', ''details'', ''artifacts''] instancePath ''#/required'' data
    (properties [
      on_prop data ''artifacts'' (\<lambda>data0. on_type Return TArray (at_prop instancePath ''artifacts'') ''#/properties/artifacts/type'' data0
    (items data0 (\<lambda>i0 data1. validate30_artifacts_item data1 (at_index (at_prop instancePath ''artifacts'') i0)))),
      on_prop data ''details'' (\<lambda>data4. on_type Return TArray (at_prop instancePath ''details'') ''#/properties/details/type'' data4
    (items data4 (\<lambda>i1 item. check_type Return [TString] (at_index (at_prop instancePath ''details'') i1) ''#/properties/details/items/type'' item))),
      on_prop data ''id'' (\<lambda>v. check_type Return [TString] (at_prop instancePath ''id'') ''#/properties/id/type'' v),
      on_prop data ''messageId'' (\<lambda>data7. check_type Return [TString, TNull] (at_prop instancePath ''messageId'') ''#/properties/messageId/type'' data7),
      on_prop data ''outputBase64'' (\<lambda>data8. check_type Return [TString, TNull] (at_prop instancePath ''outputBase64'') ''#/properties/outputBase64/type'' data8),
      on_prop data ''state'' (\<lambda>v. check_type Return [TString] (at_prop instancePath ''state'') ''#/properties/state/type'' v),
      on_prop data ''stderr'' (\<lambda>v. check_type Return [TBoolean] (at_prop instancePath ''stderr'') ''#/properties/stderr/type'' v)])))"

definition validate29_delivery :: "json \<Rightarrow> string \<Rightarrow> step" where
  "validate29_delivery data p = any_of Return p ''#/properties/delivery/anyOf'' [
      seq (check_type Collect [TString] p ''#/$defs/Delivery/type'' data) (check_enum Collect [''local_accepted'', ''delivered'', ''service_accepted'', ''failed''] p ''#/$defs/Delivery/enum'' data),
      check_type Collect [TNull] p ''#/properties/delivery/anyOf/1/type'' data]"

definition validate29_messageKind :: "json \<Rightarrow> string \<Rightarrow> step" where
  "validate29_messageKind data p = any_of Return p ''#/properties/messageKind/anyOf'' [
      seq (check_type Collect [TString] p ''#/$defs/MessageKind/type'' data) (check_enum Collect [''text'', ''action'', ''notice''] p ''#/$defs/MessageKind/enum'' data),
      check_type Collect [TNull] p ''#/properties/messageKind/anyOf/1/type'' data]"

definition validate29_result :: "json \<Rightarrow> string \<Rightarrow> step" where
  "validate29_result data p = any_of Return p ''#/properties/result/anyOf'' [
      call validate30 data p,
      check_type Collect [TNull] p ''#/properties/result/anyOf/1/type'' data]"

definition validate29 :: validator where
  "validate29 data instancePath = run_guard (on_type Return TObject instancePath ''#/type'' data
    (required Return [''id'', ''conversationId'', ''nickname'', ''body'', ''timestamp'', ''mine''] instancePath ''#/required'' data
    (properties [
      on_prop data ''body'' (\<lambda>v. check_type Return [TString] (at_prop instancePath ''body'') ''#/properties/body/type'' v),
      on_prop data ''conversationId'' (\<lambda>v. check_type Return [TString] (at_prop instancePath ''conversationId'') ''#/properties/conversationId/type'' v),
      on_prop data ''delivery'' (\<lambda>data2. validate29_delivery data2 (at_prop instancePath ''delivery'')),
      on_prop data ''highlighted'' (\<lambda>data3. check_type Return [TBoolean, TNull] (at_prop instancePath ''highlighted'') ''#/properties/highlighted/type'' data3),
      on_prop data ''id'' (\<lambda>v. check_type Return [TString] (at_prop instancePath ''id'') ''#/properties/id/type'' v),
      on_prop data ''memberId'' (\<lambda>data5. check_type Return [TString, TNull] (at_prop instancePath ''memberId'') ''#/properties/memberId/type'' data5),
      on_prop data ''messageKind'' (\<lambda>data6. validate29_messageKind data6 (at_prop instancePath ''messageKind'')),
      on_prop data ''mine'' (\<lambda>v. check_type Return [TBoolean] (at_prop instancePath ''mine'') ''#/properties/mine/type'' v),
      on_prop data ''nickname'' (\<lambda>v. check_type Return [TString] (at_prop instancePath ''nickname'') ''#/properties/nickname/type'' v),
      on_prop data ''operationId'' (\<lambda>data9. check_type Return [TString, TNull] (at_prop instancePath ''operationId'') ''#/properties/operationId/type'' data9),
      on_prop data ''result'' (\<lambda>data10. validate29_result data10 (at_prop instancePath ''result'')),
      on_prop data ''timestamp'' (\<lambda>data11. then_valid (check_type Return [TInteger] (at_prop instancePath ''timestamp'') ''#/properties/timestamp/type'' data11) (check_range Return None 0 (at_prop instancePath ''timestamp'') ''#/properties/timestamp'' data11))])))"

definition validate28 :: validator where
  "validate28 data instancePath = run_guard (on_type Return TObject instancePath ''#/type'' data
    (required Return [''messages''] instancePath ''#/required'' data
    (properties [
      on_prop data ''before'' (\<lambda>data0. check_type Return [TString, TNull] (at_prop instancePath ''before'') ''#/properties/before/type'' data0),
      on_prop data ''messages'' (\<lambda>data1. on_type Return TArray (at_prop instancePath ''messages'') ''#/properties/messages/type'' data1
    (items data1 (\<lambda>i0 item. call validate29 item (at_index (at_prop instancePath ''messages'') i0))))])))"

definition validate227_artifacts_item :: "json \<Rightarrow> string \<Rightarrow> step" where
  "validate227_artifacts_item data p = on_type Return TObject p ''#/$defs/Artifact/type'' data
    (required Return [''name'', ''url''] p ''#/$defs/Artifact/required'' data
    (properties [
      on_prop data ''name'' (\<lambda>v. check_type Return [TString] (at_prop p ''name'') ''#/$defs/Artifact/properties/name/type'' v),
      on_prop data ''url'' (\<lambda>v. check_type Return [TString] (at_prop p ''url'') ''#/$defs/Artifact/properties/url/type'' v)]))"

definition validate227 :: validator where
  "validate227 data instancePath = run_guard (on_type Return TObject instancePath ''#/type'' data
    (required Return [''id'', ''state'', ''stderr'', ''details'', ''artifacts''] instancePath ''#/required'' data
    (properties [
      on_prop data ''artifacts'' (\<lambda>data0. on_type Return TArray (at_prop instancePath ''artifacts'') ''#/properties/artifacts/type'' data0
    (items data0 (\<lambda>i0 data1. validate227_artifacts_item data1 (at_index (at_prop instancePath ''artifacts'') i0)))),
      on_prop data ''details'' (\<lambda>data4. on_type Return TArray (at_prop instancePath ''details'') ''#/properties/details/type'' data4
    (items data4 (\<lambda>i1 item. check_type Return [TString] (at_index (at_prop instancePath ''details'') i1) ''#/properties/details/items/type'' item))),
      on_prop data ''id'' (\<lambda>v. check_type Return [TString] (at_prop instancePath ''id'') ''#/properties/id/type'' v),
      on_prop data ''messageId'' (\<lambda>data7. check_type Return [TString, TNull] (at_prop instancePath ''messageId'') ''#/properties/messageId/type'' data7),
      on_prop data ''outputBase64'' (\<lambda>data8. check_type Return [TString, TNull] (at_prop instancePath ''outputBase64'') ''#/properties/outputBase64/type'' data8),
      on_prop data ''state'' (\<lambda>v. check_type Return [TString] (at_prop instancePath ''state'') ''#/properties/state/type'' v),
      on_prop data ''stderr'' (\<lambda>v. check_type Return [TBoolean] (at_prop instancePath ''stderr'') ''#/properties/stderr/type'' v)])))"

definition validate226_delivery :: "json \<Rightarrow> string \<Rightarrow> step" where
  "validate226_delivery data p = any_of Return p ''#/properties/delivery/anyOf'' [
      seq (check_type Collect [TString] p ''#/$defs/Delivery/type'' data) (check_enum Collect [''local_accepted'', ''delivered'', ''service_accepted'', ''failed''] p ''#/$defs/Delivery/enum'' data),
      check_type Collect [TNull] p ''#/properties/delivery/anyOf/1/type'' data]"

definition validate226_messageKind :: "json \<Rightarrow> string \<Rightarrow> step" where
  "validate226_messageKind data p = any_of Return p ''#/properties/messageKind/anyOf'' [
      seq (check_type Collect [TString] p ''#/$defs/MessageKind/type'' data) (check_enum Collect [''text'', ''action'', ''notice''] p ''#/$defs/MessageKind/enum'' data),
      check_type Collect [TNull] p ''#/properties/messageKind/anyOf/1/type'' data]"

definition validate226_result :: "json \<Rightarrow> string \<Rightarrow> step" where
  "validate226_result data p = any_of Return p ''#/properties/result/anyOf'' [
      call validate227 data p,
      check_type Collect [TNull] p ''#/properties/result/anyOf/1/type'' data]"

definition validate226 :: validator where
  "validate226 data instancePath = run_guard (on_type Return TObject instancePath ''#/type'' data
    (required Return [''id'', ''conversationId'', ''nickname'', ''body'', ''timestamp'', ''mine''] instancePath ''#/required'' data
    (properties [
      on_prop data ''body'' (\<lambda>v. check_type Return [TString] (at_prop instancePath ''body'') ''#/properties/body/type'' v),
      on_prop data ''conversationId'' (\<lambda>v. check_type Return [TString] (at_prop instancePath ''conversationId'') ''#/properties/conversationId/type'' v),
      on_prop data ''delivery'' (\<lambda>data2. validate226_delivery data2 (at_prop instancePath ''delivery'')),
      on_prop data ''highlighted'' (\<lambda>data3. check_type Return [TBoolean, TNull] (at_prop instancePath ''highlighted'') ''#/properties/highlighted/type'' data3),
      on_prop data ''id'' (\<lambda>v. check_type Return [TString] (at_prop instancePath ''id'') ''#/properties/id/type'' v),
      on_prop data ''memberId'' (\<lambda>data5. check_type Return [TString, TNull] (at_prop instancePath ''memberId'') ''#/properties/memberId/type'' data5),
      on_prop data ''messageKind'' (\<lambda>data6. validate226_messageKind data6 (at_prop instancePath ''messageKind'')),
      on_prop data ''mine'' (\<lambda>v. check_type Return [TBoolean] (at_prop instancePath ''mine'') ''#/properties/mine/type'' v),
      on_prop data ''nickname'' (\<lambda>v. check_type Return [TString] (at_prop instancePath ''nickname'') ''#/properties/nickname/type'' v),
      on_prop data ''operationId'' (\<lambda>data9. check_type Return [TString, TNull] (at_prop instancePath ''operationId'') ''#/properties/operationId/type'' data9),
      on_prop data ''result'' (\<lambda>data10. validate226_result data10 (at_prop instancePath ''result'')),
      on_prop data ''timestamp'' (\<lambda>data11. then_valid (check_type Return [TInteger] (at_prop instancePath ''timestamp'') ''#/properties/timestamp/type'' data11) (check_range Return None 0 (at_prop instancePath ''timestamp'') ''#/properties/timestamp'' data11))])))"

definition validate225 :: validator where
  "validate225 data instancePath = run_guard (on_type Return TObject instancePath ''#/type'' data
    (required Return [''messages''] instancePath ''#/required'' data
    (properties [
      on_prop data ''before'' (\<lambda>data0. check_type Return [TString, TNull] (at_prop instancePath ''before'') ''#/properties/before/type'' data0),
      on_prop data ''messages'' (\<lambda>data1. on_type Return TArray (at_prop instancePath ''messages'') ''#/properties/messages/type'' data1
    (items data1 (\<lambda>i0 item. call validate226 item (at_index (at_prop instancePath ''messages'') i0))))])))"

definition validate234_artifacts_item :: "json \<Rightarrow> string \<Rightarrow> step" where
  "validate234_artifacts_item data p = on_type Return TObject p ''#/$defs/Artifact/type'' data
    (required Return [''name'', ''url''] p ''#/$defs/Artifact/required'' data
    (properties [
      on_prop data ''name'' (\<lambda>v. check_type Return [TString] (at_prop p ''name'') ''#/$defs/Artifact/properties/name/type'' v),
      on_prop data ''url'' (\<lambda>v. check_type Return [TString] (at_prop p ''url'') ''#/$defs/Artifact/properties/url/type'' v)]))"

definition validate234 :: validator where
  "validate234 data instancePath = run_guard (on_type Return TObject instancePath ''#/type'' data
    (required Return [''id'', ''state'', ''stderr'', ''details'', ''artifacts''] instancePath ''#/required'' data
    (properties [
      on_prop data ''artifacts'' (\<lambda>data0. on_type Return TArray (at_prop instancePath ''artifacts'') ''#/properties/artifacts/type'' data0
    (items data0 (\<lambda>i0 data1. validate234_artifacts_item data1 (at_index (at_prop instancePath ''artifacts'') i0)))),
      on_prop data ''details'' (\<lambda>data4. on_type Return TArray (at_prop instancePath ''details'') ''#/properties/details/type'' data4
    (items data4 (\<lambda>i1 item. check_type Return [TString] (at_index (at_prop instancePath ''details'') i1) ''#/properties/details/items/type'' item))),
      on_prop data ''id'' (\<lambda>v. check_type Return [TString] (at_prop instancePath ''id'') ''#/properties/id/type'' v),
      on_prop data ''messageId'' (\<lambda>data7. check_type Return [TString, TNull] (at_prop instancePath ''messageId'') ''#/properties/messageId/type'' data7),
      on_prop data ''outputBase64'' (\<lambda>data8. check_type Return [TString, TNull] (at_prop instancePath ''outputBase64'') ''#/properties/outputBase64/type'' data8),
      on_prop data ''state'' (\<lambda>v. check_type Return [TString] (at_prop instancePath ''state'') ''#/properties/state/type'' v),
      on_prop data ''stderr'' (\<lambda>v. check_type Return [TBoolean] (at_prop instancePath ''stderr'') ''#/properties/stderr/type'' v)])))"

definition validate233_delivery :: "json \<Rightarrow> string \<Rightarrow> step" where
  "validate233_delivery data p = any_of Return p ''#/properties/delivery/anyOf'' [
      seq (check_type Collect [TString] p ''#/$defs/Delivery/type'' data) (check_enum Collect [''local_accepted'', ''delivered'', ''service_accepted'', ''failed''] p ''#/$defs/Delivery/enum'' data),
      check_type Collect [TNull] p ''#/properties/delivery/anyOf/1/type'' data]"

definition validate233_messageKind :: "json \<Rightarrow> string \<Rightarrow> step" where
  "validate233_messageKind data p = any_of Return p ''#/properties/messageKind/anyOf'' [
      seq (check_type Collect [TString] p ''#/$defs/MessageKind/type'' data) (check_enum Collect [''text'', ''action'', ''notice''] p ''#/$defs/MessageKind/enum'' data),
      check_type Collect [TNull] p ''#/properties/messageKind/anyOf/1/type'' data]"

definition validate233_result :: "json \<Rightarrow> string \<Rightarrow> step" where
  "validate233_result data p = any_of Return p ''#/properties/result/anyOf'' [
      call validate234 data p,
      check_type Collect [TNull] p ''#/properties/result/anyOf/1/type'' data]"

definition validate233 :: validator where
  "validate233 data instancePath = run_guard (on_type Return TObject instancePath ''#/type'' data
    (required Return [''id'', ''conversationId'', ''nickname'', ''body'', ''timestamp'', ''mine''] instancePath ''#/required'' data
    (properties [
      on_prop data ''body'' (\<lambda>v. check_type Return [TString] (at_prop instancePath ''body'') ''#/properties/body/type'' v),
      on_prop data ''conversationId'' (\<lambda>v. check_type Return [TString] (at_prop instancePath ''conversationId'') ''#/properties/conversationId/type'' v),
      on_prop data ''delivery'' (\<lambda>data2. validate233_delivery data2 (at_prop instancePath ''delivery'')),
      on_prop data ''highlighted'' (\<lambda>data3. check_type Return [TBoolean, TNull] (at_prop instancePath ''highlighted'') ''#/properties/highlighted/type'' data3),
      on_prop data ''id'' (\<lambda>v. check_type Return [TString] (at_prop instancePath ''id'') ''#/properties/id/type'' v),
      on_prop data ''memberId'' (\<lambda>data5. check_type Return [TString, TNull] (at_prop instancePath ''memberId'') ''#/properties/memberId/type'' data5),
      on_prop data ''messageKind'' (\<lambda>data6. validate233_messageKind data6 (at_prop instancePath ''messageKind'')),
      on_prop data ''mine'' (\<lambda>v. check_type Return [TBoolean] (at_prop instancePath ''mine'') ''#/properties/mine/type'' v),
      on_prop data ''nickname'' (\<lambda>v. check_type Return [TString] (at_prop instancePath ''nickname'') ''#/properties/nickname/type'' v),
      on_prop data ''operationId'' (\<lambda>data9. check_type Return [TString, TNull] (at_prop instancePath ''operationId'') ''#/properties/operationId/type'' data9),
      on_prop data ''result'' (\<lambda>data10. validate233_result data10 (at_prop instancePath ''result'')),
      on_prop data ''timestamp'' (\<lambda>data11. then_valid (check_type Return [TInteger] (at_prop instancePath ''timestamp'') ''#/properties/timestamp/type'' data11) (check_range Return None 0 (at_prop instancePath ''timestamp'') ''#/properties/timestamp'' data11))])))"

definition validate232 :: validator where
  "validate232 data instancePath = run_guard (on_type Return TObject instancePath ''#/type'' data
    (required Return [''messages''] instancePath ''#/required'' data
    (properties [
      on_prop data ''before'' (\<lambda>data0. check_type Return [TString, TNull] (at_prop instancePath ''before'') ''#/properties/before/type'' data0),
      on_prop data ''messages'' (\<lambda>data1. on_type Return TArray (at_prop instancePath ''messages'') ''#/properties/messages/type'' data1
    (items data1 (\<lambda>i0 item. call validate233 item (at_index (at_prop instancePath ''messages'') i0))))])))"

section \<open>Each guard implements its schema\<close>

context history_schema
begin

lemma checks_validate30_artifacts_item [guard_parts]: "checks Return p (validate30_artifacts_item data p) (conforms \<rho> schema37 data)"
  unfolding validate30_artifacts_item_def schema37_def by (intro conform_laws guard_parts; simp)

lemma validates_validate30: "validates validate30 (conforms \<rho> schema36) d"
  unfolding schema36_def
  by (rule validates_run[where m = Return], rule validate30_def) (intro conform_laws guard_parts; simp)

lemmas call_validate30 [guard_parts] = checks_call[OF validates_validate30]

lemma checks_validate29_delivery [guard_parts]: "checks Return p (validate29_delivery data p) (conforms \<rho> (SAnyOf [SRef ''Delivery'', SType [TNull]]) data)"
  unfolding validate29_delivery_def by (intro conform_laws guard_parts; simp)

lemma checks_validate29_messageKind [guard_parts]: "checks Return p (validate29_messageKind data p) (conforms \<rho> (SAnyOf [SRef ''MessageKind'', SType [TNull]]) data)"
  unfolding validate29_messageKind_def by (intro conform_laws guard_parts; simp)

lemma checks_validate29_result [guard_parts]: "checks Return p (validate29_result data p) (conforms \<rho> (SAnyOf [SRef ''ActionResult'', SType [TNull]]) data)"
  unfolding validate29_result_def by (intro conform_laws guard_parts; simp)

lemma validates_validate29: "validates validate29 (conforms \<rho> schema33) d"
  unfolding schema33_def
  by (rule validates_run[where m = Return], rule validate29_def) (intro conform_laws guard_parts; simp)

lemmas call_validate29 [guard_parts] = checks_call[OF validates_validate29]

lemma validates_validate28: "validates validate28 (conforms \<rho> schema32) d"
  unfolding schema32_def
  by (rule validates_run[where m = Return], rule validate28_def) (intro conform_laws guard_parts; simp)

lemmas call_validate28 [guard_parts] = checks_call[OF validates_validate28]

end

context history_schema
begin

lemma checks_validate227_artifacts_item [guard_parts]: "checks Return p (validate227_artifacts_item data p) (conforms \<rho> schema37 data)"
  unfolding validate227_artifacts_item_def schema37_def by (intro conform_laws guard_parts; simp)

lemma validates_validate227: "validates validate227 (conforms \<rho> schema36) d"
  unfolding schema36_def
  by (rule validates_run[where m = Return], rule validate227_def) (intro conform_laws guard_parts; simp)

lemmas call_validate227 [guard_parts] = checks_call[OF validates_validate227]

lemma checks_validate226_delivery [guard_parts]: "checks Return p (validate226_delivery data p) (conforms \<rho> (SAnyOf [SRef ''Delivery'', SType [TNull]]) data)"
  unfolding validate226_delivery_def by (intro conform_laws guard_parts; simp)

lemma checks_validate226_messageKind [guard_parts]: "checks Return p (validate226_messageKind data p) (conforms \<rho> (SAnyOf [SRef ''MessageKind'', SType [TNull]]) data)"
  unfolding validate226_messageKind_def by (intro conform_laws guard_parts; simp)

lemma checks_validate226_result [guard_parts]: "checks Return p (validate226_result data p) (conforms \<rho> (SAnyOf [SRef ''ActionResult'', SType [TNull]]) data)"
  unfolding validate226_result_def by (intro conform_laws guard_parts; simp)

lemma validates_validate226: "validates validate226 (conforms \<rho> schema33) d"
  unfolding schema33_def
  by (rule validates_run[where m = Return], rule validate226_def) (intro conform_laws guard_parts; simp)

lemmas call_validate226 [guard_parts] = checks_call[OF validates_validate226]

lemma validates_validate225: "validates validate225 (conforms \<rho> schema32) d"
  unfolding schema32_def
  by (rule validates_run[where m = Return], rule validate225_def) (intro conform_laws guard_parts; simp)

lemmas call_validate225 [guard_parts] = checks_call[OF validates_validate225]

end

context history_schema
begin

lemma checks_validate234_artifacts_item [guard_parts]: "checks Return p (validate234_artifacts_item data p) (conforms \<rho> schema37 data)"
  unfolding validate234_artifacts_item_def schema37_def by (intro conform_laws guard_parts; simp)

lemma validates_validate234: "validates validate234 (conforms \<rho> schema36) d"
  unfolding schema36_def
  by (rule validates_run[where m = Return], rule validate234_def) (intro conform_laws guard_parts; simp)

lemmas call_validate234 [guard_parts] = checks_call[OF validates_validate234]

lemma checks_validate233_delivery [guard_parts]: "checks Return p (validate233_delivery data p) (conforms \<rho> (SAnyOf [SRef ''Delivery'', SType [TNull]]) data)"
  unfolding validate233_delivery_def by (intro conform_laws guard_parts; simp)

lemma checks_validate233_messageKind [guard_parts]: "checks Return p (validate233_messageKind data p) (conforms \<rho> (SAnyOf [SRef ''MessageKind'', SType [TNull]]) data)"
  unfolding validate233_messageKind_def by (intro conform_laws guard_parts; simp)

lemma checks_validate233_result [guard_parts]: "checks Return p (validate233_result data p) (conforms \<rho> (SAnyOf [SRef ''ActionResult'', SType [TNull]]) data)"
  unfolding validate233_result_def by (intro conform_laws guard_parts; simp)

lemma validates_validate233: "validates validate233 (conforms \<rho> schema33) d"
  unfolding schema33_def
  by (rule validates_run[where m = Return], rule validate233_def) (intro conform_laws guard_parts; simp)

lemmas call_validate233 [guard_parts] = checks_call[OF validates_validate233]

lemma validates_validate232: "validates validate232 (conforms \<rho> schema32) d"
  unfolding schema32_def
  by (rule validates_run[where m = Return], rule validate232_def) (intro conform_laws guard_parts; simp)

lemmas call_validate232 [guard_parts] = checks_call[OF validates_validate232]

end

section \<open>The exported guards\<close>

definition search_details_output :: "json \<Rightarrow> bool" where
  "search_details_output value = fst (validate28 value [])"

definition history_output :: "json \<Rightarrow> bool" where
  "history_output value = fst (validate225 value [])"

definition search_output :: "json \<Rightarrow> bool" where
  "search_output value = fst (validate232 value [])"

end
