(* ===== verification/Output_Guards.thy ===== *)
theory Output_Guards
  imports Api_Schemas
begin

text \<open>
  The guards of what a command produces, \<open>enrollment_output\<close> and \<open>submit_output\<close>: a \<open>CommandOutput\<close>
  may list further outputs, so its guard calls itself on the items of a property.
\<close>

section \<open>The guards\<close>

definition validate78_invitation_options :: "json \<Rightarrow> string \<Rightarrow> step" where
  "validate78_invitation_options data p = on_type Collect TObject p ''#/oneOf/0/type'' data
    (required Collect [''kind'', ''channel''] p ''#/oneOf/0/required'' data
    (properties [
      on_prop data ''channel'' (\<lambda>v. check_type Collect [TString] (at_prop p ''channel'') ''#/oneOf/0/properties/channel/type'' v),
      on_prop data ''kind'' (\<lambda>data1. seq (check_type Collect [TString] (at_prop p ''kind'') ''#/oneOf/0/properties/kind/type'' data1) (check_const Collect ''invitation_options'' (at_prop p ''kind'') ''#/oneOf/0/properties/kind/const'' data1))]))"

definition validate78_invitations_records_item :: "json \<Rightarrow> string \<Rightarrow> step" where
  "validate78_invitations_records_item data p = on_type Collect TObject p ''#/$defs/InvitationRecord/type'' data
    (required Collect [''id'', ''admitted'', ''pending'', ''revoked''] p ''#/$defs/InvitationRecord/required'' data
    (properties [
      on_prop data ''admitted'' (\<lambda>data6. then_valid (check_type Collect [TInteger] (at_prop p ''admitted'') ''#/$defs/InvitationRecord/properties/admitted/type'' data6) (check_range Collect None 0 (at_prop p ''admitted'') ''#/$defs/InvitationRecord/properties/admitted'' data6)),
      on_prop data ''expires'' (\<lambda>data7. then_valid (check_type Collect [TInteger, TNull] (at_prop p ''expires'') ''#/$defs/InvitationRecord/properties/expires/type'' data7) (check_range Collect None 0 (at_prop p ''expires'') ''#/$defs/InvitationRecord/properties/expires'' data7)),
      on_prop data ''id'' (\<lambda>v. check_type Collect [TString] (at_prop p ''id'') ''#/$defs/InvitationRecord/properties/id/type'' v),
      on_prop data ''limit'' (\<lambda>data9. then_valid (check_type Collect [TInteger, TNull] (at_prop p ''limit'') ''#/$defs/InvitationRecord/properties/limit/type'' data9) (check_range Collect None 0 (at_prop p ''limit'') ''#/$defs/InvitationRecord/properties/limit'' data9)),
      on_prop data ''pending'' (\<lambda>data10. then_valid (check_type Collect [TInteger] (at_prop p ''pending'') ''#/$defs/InvitationRecord/properties/pending/type'' data10) (check_range Collect None 0 (at_prop p ''pending'') ''#/$defs/InvitationRecord/properties/pending'' data10)),
      on_prop data ''revoked'' (\<lambda>v. check_type Collect [TBoolean] (at_prop p ''revoked'') ''#/$defs/InvitationRecord/properties/revoked/type'' v)]))"

definition validate78_invitations :: "json \<Rightarrow> string \<Rightarrow> step" where
  "validate78_invitations data p = on_type Collect TObject p ''#/oneOf/1/type'' data
    (required Collect [''kind'', ''channel'', ''records''] p ''#/oneOf/1/required'' data
    (properties [
      on_prop data ''channel'' (\<lambda>v. check_type Collect [TString] (at_prop p ''channel'') ''#/oneOf/1/properties/channel/type'' v),
      on_prop data ''kind'' (\<lambda>data3. seq (check_type Collect [TString] (at_prop p ''kind'') ''#/oneOf/1/properties/kind/type'' data3) (check_const Collect ''invitations'' (at_prop p ''kind'') ''#/oneOf/1/properties/kind/const'' data3)),
      on_prop data ''records'' (\<lambda>data4. on_type Collect TArray (at_prop p ''records'') ''#/oneOf/1/properties/records/type'' data4
    (items data4 (\<lambda>i0 data5. validate78_invitations_records_item data5 (at_index (at_prop p ''records'') i0))))]))"

definition validate78_reusable_invitation :: "json \<Rightarrow> string \<Rightarrow> step" where
  "validate78_reusable_invitation data p = on_type Collect TObject p ''#/oneOf/2/type'' data
    (required Collect [''kind'', ''channel'', ''link'', ''id'', ''localOnly''] p ''#/oneOf/2/required'' data
    (properties [
      on_prop data ''channel'' (\<lambda>v. check_type Collect [TString] (at_prop p ''channel'') ''#/oneOf/2/properties/channel/type'' v),
      on_prop data ''expires'' (\<lambda>data13. then_valid (check_type Collect [TInteger, TNull] (at_prop p ''expires'') ''#/oneOf/2/properties/expires/type'' data13) (check_range Collect None 0 (at_prop p ''expires'') ''#/oneOf/2/properties/expires'' data13)),
      on_prop data ''id'' (\<lambda>v. check_type Collect [TString] (at_prop p ''id'') ''#/oneOf/2/properties/id/type'' v),
      on_prop data ''kind'' (\<lambda>data15. seq (check_type Collect [TString] (at_prop p ''kind'') ''#/oneOf/2/properties/kind/type'' data15) (check_const Collect ''reusable_invitation'' (at_prop p ''kind'') ''#/oneOf/2/properties/kind/const'' data15)),
      on_prop data ''limit'' (\<lambda>data16. then_valid (check_type Collect [TInteger, TNull] (at_prop p ''limit'') ''#/oneOf/2/properties/limit/type'' data16) (check_range Collect None 0 (at_prop p ''limit'') ''#/oneOf/2/properties/limit'' data16)),
      on_prop data ''link'' (\<lambda>v. check_type Collect [TString] (at_prop p ''link'') ''#/oneOf/2/properties/link/type'' v),
      on_prop data ''localOnly'' (\<lambda>v. check_type Collect [TBoolean] (at_prop p ''localOnly'') ''#/oneOf/2/properties/localOnly/type'' v)]))"

definition validate78_enrollment :: "json \<Rightarrow> string \<Rightarrow> step" where
  "validate78_enrollment data p = on_type Collect TObject p ''#/oneOf/3/type'' data
    (required Collect [''kind'', ''id'', ''channel'', ''phase'', ''attempts''] p ''#/oneOf/3/required'' data
    (properties [
      on_prop data ''attempts'' (\<lambda>data19. then_valid (check_type Collect [TInteger] (at_prop p ''attempts'') ''#/oneOf/3/properties/attempts/type'' data19) (check_range Collect None 0 (at_prop p ''attempts'') ''#/oneOf/3/properties/attempts'' data19)),
      on_prop data ''channel'' (\<lambda>v. check_type Collect [TString] (at_prop p ''channel'') ''#/oneOf/3/properties/channel/type'' v),
      on_prop data ''id'' (\<lambda>v. check_type Collect [TString] (at_prop p ''id'') ''#/oneOf/3/properties/id/type'' v),
      on_prop data ''kind'' (\<lambda>data22. seq (check_type Collect [TString] (at_prop p ''kind'') ''#/oneOf/3/properties/kind/type'' data22) (check_const Collect ''enrollment'' (at_prop p ''kind'') ''#/oneOf/3/properties/kind/const'' data22)),
      on_prop data ''message'' (\<lambda>data23. check_type Collect [TString, TNull] (at_prop p ''message'') ''#/oneOf/3/properties/message/type'' data23),
      on_prop data ''phase'' (\<lambda>v. check_type Collect [TString] (at_prop p ''phase'') ''#/oneOf/3/properties/phase/type'' v)]))"

definition validate78_enrollments :: "validator \<Rightarrow> json \<Rightarrow> string \<Rightarrow> step" where
  "validate78_enrollments recur data p = on_type Collect TObject p ''#/oneOf/4/type'' data
    (required Collect [''kind'', ''entries''] p ''#/oneOf/4/required'' data
    (properties [
      on_prop data ''entries'' (\<lambda>data25. on_type Collect TArray (at_prop p ''entries'') ''#/oneOf/4/properties/entries/type'' data25
    (items data25 (\<lambda>i1 item. call recur item (at_index (at_prop p ''entries'') i1)))),
      on_prop data ''kind'' (\<lambda>data27. seq (check_type Collect [TString] (at_prop p ''kind'') ''#/oneOf/4/properties/kind/type'' data27) (check_const Collect ''enrollments'' (at_prop p ''kind'') ''#/oneOf/4/properties/kind/const'' data27))]))"

lemma validate78_enrollments_cong [fundef_cong]:
  "data = data' \<Longrightarrow> p = p' \<Longrightarrow> (\<And>x q. size x < size data' \<Longrightarrow> v x q = v' x q) \<Longrightarrow>
   validate78_enrollments v data p = validate78_enrollments v' data' p'"
  by (simp add: validate78_enrollments_def on_prop_items_cong[of data' v v'])

definition validate78_help_commands_item :: "json \<Rightarrow> string \<Rightarrow> step" where
  "validate78_help_commands_item data p = on_type Collect TObject p ''#/$defs/CommandSpec/type'' data
    (required Collect [''name'', ''usage'', ''description'', ''scope'', ''available''] p ''#/$defs/CommandSpec/required'' data
    (properties [
      on_prop data ''available'' (\<lambda>v. check_type Collect [TBoolean] (at_prop p ''available'') ''#/$defs/CommandSpec/properties/available/type'' v),
      on_prop data ''capability'' (\<lambda>data31. check_type Collect [TString, TNull] (at_prop p ''capability'') ''#/$defs/CommandSpec/properties/capability/type'' data31),
      on_prop data ''description'' (\<lambda>v. check_type Collect [TString] (at_prop p ''description'') ''#/$defs/CommandSpec/properties/description/type'' v),
      on_prop data ''name'' (\<lambda>v. check_type Collect [TString] (at_prop p ''name'') ''#/$defs/CommandSpec/properties/name/type'' v),
      on_prop data ''scope'' (\<lambda>v. check_type Collect [TString] (at_prop p ''scope'') ''#/$defs/CommandSpec/properties/scope/type'' v),
      on_prop data ''usage'' (\<lambda>v. check_type Collect [TString] (at_prop p ''usage'') ''#/$defs/CommandSpec/properties/usage/type'' v)]))"

definition validate78_help :: "json \<Rightarrow> string \<Rightarrow> step" where
  "validate78_help data p = on_type Collect TObject p ''#/oneOf/5/type'' data
    (required Collect [''kind'', ''commands''] p ''#/oneOf/5/required'' data
    (properties [
      on_prop data ''commands'' (\<lambda>data28. on_type Collect TArray (at_prop p ''commands'') ''#/oneOf/5/properties/commands/type'' data28
    (items data28 (\<lambda>i2 data29. validate78_help_commands_item data29 (at_index (at_prop p ''commands'') i2)))),
      on_prop data ''kind'' (\<lambda>data36. seq (check_type Collect [TString] (at_prop p ''kind'') ''#/oneOf/5/properties/kind/type'' data36) (check_const Collect ''help'' (at_prop p ''kind'') ''#/oneOf/5/properties/kind/const'' data36))]))"

definition validate78_directory_channels_item :: "json \<Rightarrow> string \<Rightarrow> step" where
  "validate78_directory_channels_item data p = on_type Collect TObject p ''#/$defs/DirectoryEntry/type'' data
    (required Collect [''name'', ''joined''] p ''#/$defs/DirectoryEntry/required'' data
    (properties [
      on_prop data ''conversation'' (\<lambda>data39. check_type Collect [TString, TNull] (at_prop p ''conversation'') ''#/$defs/DirectoryEntry/properties/conversation/type'' data39),
      on_prop data ''joined'' (\<lambda>v. check_type Collect [TBoolean] (at_prop p ''joined'') ''#/$defs/DirectoryEntry/properties/joined/type'' v),
      on_prop data ''name'' (\<lambda>v. check_type Collect [TString] (at_prop p ''name'') ''#/$defs/DirectoryEntry/properties/name/type'' v)]))"

definition validate78_directory :: "json \<Rightarrow> string \<Rightarrow> step" where
  "validate78_directory data p = on_type Collect TObject p ''#/oneOf/6/type'' data
    (required Collect [''kind'', ''channels''] p ''#/oneOf/6/required'' data
    (properties [
      on_prop data ''channels'' (\<lambda>data37. on_type Collect TArray (at_prop p ''channels'') ''#/oneOf/6/properties/channels/type'' data37
    (items data37 (\<lambda>i3 data38. validate78_directory_channels_item data38 (at_index (at_prop p ''channels'') i3)))),
      on_prop data ''kind'' (\<lambda>data42. seq (check_type Collect [TString] (at_prop p ''kind'') ''#/oneOf/6/properties/kind/type'' data42) (check_const Collect ''directory'' (at_prop p ''kind'') ''#/oneOf/6/properties/kind/const'' data42))]))"

definition validate78_invitation :: "json \<Rightarrow> string \<Rightarrow> step" where
  "validate78_invitation data p = on_type Collect TObject p ''#/oneOf/7/type'' data
    (required Collect [''kind'', ''channel'', ''link'', ''expires''] p ''#/oneOf/7/required'' data
    (properties [
      on_prop data ''channel'' (\<lambda>v. check_type Collect [TString] (at_prop p ''channel'') ''#/oneOf/7/properties/channel/type'' v),
      on_prop data ''expires'' (\<lambda>data44. then_valid (check_type Collect [TInteger] (at_prop p ''expires'') ''#/oneOf/7/properties/expires/type'' data44) (check_range Collect None 0 (at_prop p ''expires'') ''#/oneOf/7/properties/expires'' data44)),
      on_prop data ''kind'' (\<lambda>data45. seq (check_type Collect [TString] (at_prop p ''kind'') ''#/oneOf/7/properties/kind/type'' data45) (check_const Collect ''invitation'' (at_prop p ''kind'') ''#/oneOf/7/properties/kind/const'' data45)),
      on_prop data ''link'' (\<lambda>v. check_type Collect [TString] (at_prop p ''link'') ''#/oneOf/7/properties/link/type'' v),
      on_prop data ''localOnly'' (\<lambda>v. check_type Collect [TBoolean] (at_prop p ''localOnly'') ''#/oneOf/7/properties/localOnly/type'' v)]))"

definition validate78_text :: "json \<Rightarrow> string \<Rightarrow> step" where
  "validate78_text data p = on_type Collect TObject p ''#/oneOf/8/type'' data
    (required Collect [''kind'', ''title'', ''text''] p ''#/oneOf/8/required'' data
    (properties [
      on_prop data ''kind'' (\<lambda>data48. seq (check_type Collect [TString] (at_prop p ''kind'') ''#/oneOf/8/properties/kind/type'' data48) (check_const Collect ''text'' (at_prop p ''kind'') ''#/oneOf/8/properties/kind/const'' data48)),
      on_prop data ''text'' (\<lambda>v. check_type Collect [TString] (at_prop p ''text'') ''#/oneOf/8/properties/text/type'' v),
      on_prop data ''title'' (\<lambda>v. check_type Collect [TString] (at_prop p ''title'') ''#/oneOf/8/properties/title/type'' v)]))"

definition validate78_status :: "json \<Rightarrow> string \<Rightarrow> step" where
  "validate78_status data p = on_type Collect TObject p ''#/oneOf/9/type'' data
    (required Collect [''kind'', ''text''] p ''#/oneOf/9/required'' data
    (properties [
      on_prop data ''kind'' (\<lambda>data51. seq (check_type Collect [TString] (at_prop p ''kind'') ''#/oneOf/9/properties/kind/type'' data51) (check_const Collect ''status'' (at_prop p ''kind'') ''#/oneOf/9/properties/kind/const'' data51)),
      on_prop data ''text'' (\<lambda>v. check_type Collect [TString] (at_prop p ''text'') ''#/oneOf/9/properties/text/type'' v)]))"

definition validate78_close :: "json \<Rightarrow> string \<Rightarrow> step" where
  "validate78_close data p = on_type Collect TObject p ''#/oneOf/10/type'' data
    (required Collect [''kind'', ''conversation''] p ''#/oneOf/10/required'' data
    (properties [
      on_prop data ''conversation'' (\<lambda>v. check_type Collect [TString] (at_prop p ''conversation'') ''#/oneOf/10/properties/conversation/type'' v),
      on_prop data ''kind'' (\<lambda>data54. seq (check_type Collect [TString] (at_prop p ''kind'') ''#/oneOf/10/properties/kind/type'' data54) (check_const Collect ''close'' (at_prop p ''kind'') ''#/oneOf/10/properties/kind/const'' data54))]))"

definition validate78_membership_recovery_members_item :: "json \<Rightarrow> string \<Rightarrow> step" where
  "validate78_membership_recovery_members_item data p = on_type Collect TObject p ''#/$defs/RecoveryMember/type'' data
    (required Collect [''id'', ''nickname'', ''isSelf'', ''missingCommit'', ''pendingMessages''] p ''#/$defs/RecoveryMember/required'' data
    (properties [
      on_prop data ''id'' (\<lambda>v. check_type Collect [TString] (at_prop p ''id'') ''#/$defs/RecoveryMember/properties/id/type'' v),
      on_prop data ''isSelf'' (\<lambda>v. check_type Collect [TBoolean] (at_prop p ''isSelf'') ''#/$defs/RecoveryMember/properties/isSelf/type'' v),
      on_prop data ''missingCommit'' (\<lambda>v. check_type Collect [TBoolean] (at_prop p ''missingCommit'') ''#/$defs/RecoveryMember/properties/missingCommit/type'' v),
      on_prop data ''nickname'' (\<lambda>v. check_type Collect [TString] (at_prop p ''nickname'') ''#/$defs/RecoveryMember/properties/nickname/type'' v),
      on_prop data ''pendingMessages'' (\<lambda>data65. then_valid (check_type Collect [TInteger] (at_prop p ''pendingMessages'') ''#/$defs/RecoveryMember/properties/pendingMessages/type'' data65) (check_range Collect None 0 (at_prop p ''pendingMessages'') ''#/$defs/RecoveryMember/properties/pendingMessages'' data65))]))"

definition validate78_membership_recovery :: "json \<Rightarrow> string \<Rightarrow> step" where
  "validate78_membership_recovery data p = on_type Collect TObject p ''#/oneOf/11/type'' data
    (required Collect [''kind'', ''channel'', ''expected'', ''epoch'', ''pending'', ''retained_messages'', ''members''] p ''#/oneOf/11/required'' data
    (properties [
      on_prop data ''channel'' (\<lambda>v. check_type Collect [TString] (at_prop p ''channel'') ''#/oneOf/11/properties/channel/type'' v),
      on_prop data ''epoch'' (\<lambda>v. check_type Collect [TString] (at_prop p ''epoch'') ''#/oneOf/11/properties/epoch/type'' v),
      on_prop data ''expected'' (\<lambda>v. check_type Collect [TString] (at_prop p ''expected'') ''#/oneOf/11/properties/expected/type'' v),
      on_prop data ''kind'' (\<lambda>data58. seq (check_type Collect [TString] (at_prop p ''kind'') ''#/oneOf/11/properties/kind/type'' data58) (check_const Collect ''membership_recovery'' (at_prop p ''kind'') ''#/oneOf/11/properties/kind/const'' data58)),
      on_prop data ''members'' (\<lambda>data59. on_type Collect TArray (at_prop p ''members'') ''#/oneOf/11/properties/members/type'' data59
    (items data59 (\<lambda>i4 data60. validate78_membership_recovery_members_item data60 (at_index (at_prop p ''members'') i4)))),
      on_prop data ''pending'' (\<lambda>v. check_type Collect [TBoolean] (at_prop p ''pending'') ''#/oneOf/11/properties/pending/type'' v),
      on_prop data ''retained_messages'' (\<lambda>data67. then_valid (check_type Collect [TInteger] (at_prop p ''retained_messages'') ''#/oneOf/11/properties/retained_messages/type'' data67) (check_range Collect None 0 (at_prop p ''retained_messages'') ''#/oneOf/11/properties/retained_messages'' data67))]))"

function validate78 :: validator where
  "validate78 data instancePath = run_guard (one_of Return instancePath ''#/oneOf'' [
      validate78_invitation_options data instancePath,
      validate78_invitations data instancePath,
      validate78_reusable_invitation data instancePath,
      validate78_enrollment data instancePath,
      validate78_enrollments (\<lambda>x q. validate78 x q) data instancePath,
      validate78_help data instancePath,
      validate78_directory data instancePath,
      validate78_invitation data instancePath,
      validate78_text data instancePath,
      validate78_status data instancePath,
      validate78_close data instancePath,
      validate78_membership_recovery data instancePath])"
  by pat_completeness auto
termination
  by (relation "measure (size \<circ> fst)") auto

declare validate78.simps [simp del]

definition validate77_applied :: "json \<Rightarrow> string \<Rightarrow> step" where
  "validate77_applied data p = on_type Collect TObject p ''#/oneOf/0/type'' data
    (required Collect [''kind''] p ''#/oneOf/0/required'' data
    (then_valid (no_additional Collect [''conversation'', ''kind'', ''notice''] p ''#/oneOf/0/additionalProperties'' data)
    (properties [
      on_prop data ''conversation'' (\<lambda>data0. check_type Collect [TString, TNull] (at_prop p ''conversation'') ''#/oneOf/0/properties/conversation/type'' data0),
      on_prop data ''kind'' (\<lambda>data1. seq (check_type Collect [TString] (at_prop p ''kind'') ''#/oneOf/0/properties/kind/type'' data1) (check_const Collect ''applied'' (at_prop p ''kind'') ''#/oneOf/0/properties/kind/const'' data1)),
      on_prop data ''notice'' (\<lambda>data2. check_type Collect [TString, TNull] (at_prop p ''notice'') ''#/oneOf/0/properties/notice/type'' data2)])))"

definition validate77_output :: "json \<Rightarrow> string \<Rightarrow> step" where
  "validate77_output data p = on_type Collect TObject p ''#/oneOf/1/type'' data
    (required Collect [''kind'', ''output''] p ''#/oneOf/1/required'' data
    (then_valid (no_additional Collect [''conversation'', ''kind'', ''output''] p ''#/oneOf/1/additionalProperties'' data)
    (properties [
      on_prop data ''conversation'' (\<lambda>data3. check_type Collect [TString, TNull] (at_prop p ''conversation'') ''#/oneOf/1/properties/conversation/type'' data3),
      on_prop data ''kind'' (\<lambda>data4. seq (check_type Collect [TString] (at_prop p ''kind'') ''#/oneOf/1/properties/kind/type'' data4) (check_const Collect ''output'' (at_prop p ''kind'') ''#/oneOf/1/properties/kind/const'' data4)),
      on_prop data ''output'' (\<lambda>v. call validate78 v (at_prop p ''output''))])))"

definition validate77 :: validator where
  "validate77 data instancePath = run_guard (one_of Return instancePath ''#/oneOf'' [
      validate77_applied data instancePath,
      validate77_output data instancePath])"

definition validate240_invitation_options :: "json \<Rightarrow> string \<Rightarrow> step" where
  "validate240_invitation_options data p = on_type Collect TObject p ''#/oneOf/0/type'' data
    (required Collect [''kind'', ''channel''] p ''#/oneOf/0/required'' data
    (properties [
      on_prop data ''channel'' (\<lambda>v. check_type Collect [TString] (at_prop p ''channel'') ''#/oneOf/0/properties/channel/type'' v),
      on_prop data ''kind'' (\<lambda>data1. seq (check_type Collect [TString] (at_prop p ''kind'') ''#/oneOf/0/properties/kind/type'' data1) (check_const Collect ''invitation_options'' (at_prop p ''kind'') ''#/oneOf/0/properties/kind/const'' data1))]))"

definition validate240_invitations_records_item :: "json \<Rightarrow> string \<Rightarrow> step" where
  "validate240_invitations_records_item data p = on_type Collect TObject p ''#/$defs/InvitationRecord/type'' data
    (required Collect [''id'', ''admitted'', ''pending'', ''revoked''] p ''#/$defs/InvitationRecord/required'' data
    (properties [
      on_prop data ''admitted'' (\<lambda>data6. then_valid (check_type Collect [TInteger] (at_prop p ''admitted'') ''#/$defs/InvitationRecord/properties/admitted/type'' data6) (check_range Collect None 0 (at_prop p ''admitted'') ''#/$defs/InvitationRecord/properties/admitted'' data6)),
      on_prop data ''expires'' (\<lambda>data7. then_valid (check_type Collect [TInteger, TNull] (at_prop p ''expires'') ''#/$defs/InvitationRecord/properties/expires/type'' data7) (check_range Collect None 0 (at_prop p ''expires'') ''#/$defs/InvitationRecord/properties/expires'' data7)),
      on_prop data ''id'' (\<lambda>v. check_type Collect [TString] (at_prop p ''id'') ''#/$defs/InvitationRecord/properties/id/type'' v),
      on_prop data ''limit'' (\<lambda>data9. then_valid (check_type Collect [TInteger, TNull] (at_prop p ''limit'') ''#/$defs/InvitationRecord/properties/limit/type'' data9) (check_range Collect None 0 (at_prop p ''limit'') ''#/$defs/InvitationRecord/properties/limit'' data9)),
      on_prop data ''pending'' (\<lambda>data10. then_valid (check_type Collect [TInteger] (at_prop p ''pending'') ''#/$defs/InvitationRecord/properties/pending/type'' data10) (check_range Collect None 0 (at_prop p ''pending'') ''#/$defs/InvitationRecord/properties/pending'' data10)),
      on_prop data ''revoked'' (\<lambda>v. check_type Collect [TBoolean] (at_prop p ''revoked'') ''#/$defs/InvitationRecord/properties/revoked/type'' v)]))"

definition validate240_invitations :: "json \<Rightarrow> string \<Rightarrow> step" where
  "validate240_invitations data p = on_type Collect TObject p ''#/oneOf/1/type'' data
    (required Collect [''kind'', ''channel'', ''records''] p ''#/oneOf/1/required'' data
    (properties [
      on_prop data ''channel'' (\<lambda>v. check_type Collect [TString] (at_prop p ''channel'') ''#/oneOf/1/properties/channel/type'' v),
      on_prop data ''kind'' (\<lambda>data3. seq (check_type Collect [TString] (at_prop p ''kind'') ''#/oneOf/1/properties/kind/type'' data3) (check_const Collect ''invitations'' (at_prop p ''kind'') ''#/oneOf/1/properties/kind/const'' data3)),
      on_prop data ''records'' (\<lambda>data4. on_type Collect TArray (at_prop p ''records'') ''#/oneOf/1/properties/records/type'' data4
    (items data4 (\<lambda>i0 data5. validate240_invitations_records_item data5 (at_index (at_prop p ''records'') i0))))]))"

definition validate240_reusable_invitation :: "json \<Rightarrow> string \<Rightarrow> step" where
  "validate240_reusable_invitation data p = on_type Collect TObject p ''#/oneOf/2/type'' data
    (required Collect [''kind'', ''channel'', ''link'', ''id'', ''localOnly''] p ''#/oneOf/2/required'' data
    (properties [
      on_prop data ''channel'' (\<lambda>v. check_type Collect [TString] (at_prop p ''channel'') ''#/oneOf/2/properties/channel/type'' v),
      on_prop data ''expires'' (\<lambda>data13. then_valid (check_type Collect [TInteger, TNull] (at_prop p ''expires'') ''#/oneOf/2/properties/expires/type'' data13) (check_range Collect None 0 (at_prop p ''expires'') ''#/oneOf/2/properties/expires'' data13)),
      on_prop data ''id'' (\<lambda>v. check_type Collect [TString] (at_prop p ''id'') ''#/oneOf/2/properties/id/type'' v),
      on_prop data ''kind'' (\<lambda>data15. seq (check_type Collect [TString] (at_prop p ''kind'') ''#/oneOf/2/properties/kind/type'' data15) (check_const Collect ''reusable_invitation'' (at_prop p ''kind'') ''#/oneOf/2/properties/kind/const'' data15)),
      on_prop data ''limit'' (\<lambda>data16. then_valid (check_type Collect [TInteger, TNull] (at_prop p ''limit'') ''#/oneOf/2/properties/limit/type'' data16) (check_range Collect None 0 (at_prop p ''limit'') ''#/oneOf/2/properties/limit'' data16)),
      on_prop data ''link'' (\<lambda>v. check_type Collect [TString] (at_prop p ''link'') ''#/oneOf/2/properties/link/type'' v),
      on_prop data ''localOnly'' (\<lambda>v. check_type Collect [TBoolean] (at_prop p ''localOnly'') ''#/oneOf/2/properties/localOnly/type'' v)]))"

definition validate240_enrollment :: "json \<Rightarrow> string \<Rightarrow> step" where
  "validate240_enrollment data p = on_type Collect TObject p ''#/oneOf/3/type'' data
    (required Collect [''kind'', ''id'', ''channel'', ''phase'', ''attempts''] p ''#/oneOf/3/required'' data
    (properties [
      on_prop data ''attempts'' (\<lambda>data19. then_valid (check_type Collect [TInteger] (at_prop p ''attempts'') ''#/oneOf/3/properties/attempts/type'' data19) (check_range Collect None 0 (at_prop p ''attempts'') ''#/oneOf/3/properties/attempts'' data19)),
      on_prop data ''channel'' (\<lambda>v. check_type Collect [TString] (at_prop p ''channel'') ''#/oneOf/3/properties/channel/type'' v),
      on_prop data ''id'' (\<lambda>v. check_type Collect [TString] (at_prop p ''id'') ''#/oneOf/3/properties/id/type'' v),
      on_prop data ''kind'' (\<lambda>data22. seq (check_type Collect [TString] (at_prop p ''kind'') ''#/oneOf/3/properties/kind/type'' data22) (check_const Collect ''enrollment'' (at_prop p ''kind'') ''#/oneOf/3/properties/kind/const'' data22)),
      on_prop data ''message'' (\<lambda>data23. check_type Collect [TString, TNull] (at_prop p ''message'') ''#/oneOf/3/properties/message/type'' data23),
      on_prop data ''phase'' (\<lambda>v. check_type Collect [TString] (at_prop p ''phase'') ''#/oneOf/3/properties/phase/type'' v)]))"

definition validate240_enrollments :: "validator \<Rightarrow> json \<Rightarrow> string \<Rightarrow> step" where
  "validate240_enrollments recur data p = on_type Collect TObject p ''#/oneOf/4/type'' data
    (required Collect [''kind'', ''entries''] p ''#/oneOf/4/required'' data
    (properties [
      on_prop data ''entries'' (\<lambda>data25. on_type Collect TArray (at_prop p ''entries'') ''#/oneOf/4/properties/entries/type'' data25
    (items data25 (\<lambda>i1 item. call recur item (at_index (at_prop p ''entries'') i1)))),
      on_prop data ''kind'' (\<lambda>data27. seq (check_type Collect [TString] (at_prop p ''kind'') ''#/oneOf/4/properties/kind/type'' data27) (check_const Collect ''enrollments'' (at_prop p ''kind'') ''#/oneOf/4/properties/kind/const'' data27))]))"

lemma validate240_enrollments_cong [fundef_cong]:
  "data = data' \<Longrightarrow> p = p' \<Longrightarrow> (\<And>x q. size x < size data' \<Longrightarrow> v x q = v' x q) \<Longrightarrow>
   validate240_enrollments v data p = validate240_enrollments v' data' p'"
  by (simp add: validate240_enrollments_def on_prop_items_cong[of data' v v'])

definition validate240_help_commands_item :: "json \<Rightarrow> string \<Rightarrow> step" where
  "validate240_help_commands_item data p = on_type Collect TObject p ''#/$defs/CommandSpec/type'' data
    (required Collect [''name'', ''usage'', ''description'', ''scope'', ''available''] p ''#/$defs/CommandSpec/required'' data
    (properties [
      on_prop data ''available'' (\<lambda>v. check_type Collect [TBoolean] (at_prop p ''available'') ''#/$defs/CommandSpec/properties/available/type'' v),
      on_prop data ''capability'' (\<lambda>data31. check_type Collect [TString, TNull] (at_prop p ''capability'') ''#/$defs/CommandSpec/properties/capability/type'' data31),
      on_prop data ''description'' (\<lambda>v. check_type Collect [TString] (at_prop p ''description'') ''#/$defs/CommandSpec/properties/description/type'' v),
      on_prop data ''name'' (\<lambda>v. check_type Collect [TString] (at_prop p ''name'') ''#/$defs/CommandSpec/properties/name/type'' v),
      on_prop data ''scope'' (\<lambda>v. check_type Collect [TString] (at_prop p ''scope'') ''#/$defs/CommandSpec/properties/scope/type'' v),
      on_prop data ''usage'' (\<lambda>v. check_type Collect [TString] (at_prop p ''usage'') ''#/$defs/CommandSpec/properties/usage/type'' v)]))"

definition validate240_help :: "json \<Rightarrow> string \<Rightarrow> step" where
  "validate240_help data p = on_type Collect TObject p ''#/oneOf/5/type'' data
    (required Collect [''kind'', ''commands''] p ''#/oneOf/5/required'' data
    (properties [
      on_prop data ''commands'' (\<lambda>data28. on_type Collect TArray (at_prop p ''commands'') ''#/oneOf/5/properties/commands/type'' data28
    (items data28 (\<lambda>i2 data29. validate240_help_commands_item data29 (at_index (at_prop p ''commands'') i2)))),
      on_prop data ''kind'' (\<lambda>data36. seq (check_type Collect [TString] (at_prop p ''kind'') ''#/oneOf/5/properties/kind/type'' data36) (check_const Collect ''help'' (at_prop p ''kind'') ''#/oneOf/5/properties/kind/const'' data36))]))"

definition validate240_directory_channels_item :: "json \<Rightarrow> string \<Rightarrow> step" where
  "validate240_directory_channels_item data p = on_type Collect TObject p ''#/$defs/DirectoryEntry/type'' data
    (required Collect [''name'', ''joined''] p ''#/$defs/DirectoryEntry/required'' data
    (properties [
      on_prop data ''conversation'' (\<lambda>data39. check_type Collect [TString, TNull] (at_prop p ''conversation'') ''#/$defs/DirectoryEntry/properties/conversation/type'' data39),
      on_prop data ''joined'' (\<lambda>v. check_type Collect [TBoolean] (at_prop p ''joined'') ''#/$defs/DirectoryEntry/properties/joined/type'' v),
      on_prop data ''name'' (\<lambda>v. check_type Collect [TString] (at_prop p ''name'') ''#/$defs/DirectoryEntry/properties/name/type'' v)]))"

definition validate240_directory :: "json \<Rightarrow> string \<Rightarrow> step" where
  "validate240_directory data p = on_type Collect TObject p ''#/oneOf/6/type'' data
    (required Collect [''kind'', ''channels''] p ''#/oneOf/6/required'' data
    (properties [
      on_prop data ''channels'' (\<lambda>data37. on_type Collect TArray (at_prop p ''channels'') ''#/oneOf/6/properties/channels/type'' data37
    (items data37 (\<lambda>i3 data38. validate240_directory_channels_item data38 (at_index (at_prop p ''channels'') i3)))),
      on_prop data ''kind'' (\<lambda>data42. seq (check_type Collect [TString] (at_prop p ''kind'') ''#/oneOf/6/properties/kind/type'' data42) (check_const Collect ''directory'' (at_prop p ''kind'') ''#/oneOf/6/properties/kind/const'' data42))]))"

definition validate240_invitation :: "json \<Rightarrow> string \<Rightarrow> step" where
  "validate240_invitation data p = on_type Collect TObject p ''#/oneOf/7/type'' data
    (required Collect [''kind'', ''channel'', ''link'', ''expires''] p ''#/oneOf/7/required'' data
    (properties [
      on_prop data ''channel'' (\<lambda>v. check_type Collect [TString] (at_prop p ''channel'') ''#/oneOf/7/properties/channel/type'' v),
      on_prop data ''expires'' (\<lambda>data44. then_valid (check_type Collect [TInteger] (at_prop p ''expires'') ''#/oneOf/7/properties/expires/type'' data44) (check_range Collect None 0 (at_prop p ''expires'') ''#/oneOf/7/properties/expires'' data44)),
      on_prop data ''kind'' (\<lambda>data45. seq (check_type Collect [TString] (at_prop p ''kind'') ''#/oneOf/7/properties/kind/type'' data45) (check_const Collect ''invitation'' (at_prop p ''kind'') ''#/oneOf/7/properties/kind/const'' data45)),
      on_prop data ''link'' (\<lambda>v. check_type Collect [TString] (at_prop p ''link'') ''#/oneOf/7/properties/link/type'' v),
      on_prop data ''localOnly'' (\<lambda>v. check_type Collect [TBoolean] (at_prop p ''localOnly'') ''#/oneOf/7/properties/localOnly/type'' v)]))"

definition validate240_text :: "json \<Rightarrow> string \<Rightarrow> step" where
  "validate240_text data p = on_type Collect TObject p ''#/oneOf/8/type'' data
    (required Collect [''kind'', ''title'', ''text''] p ''#/oneOf/8/required'' data
    (properties [
      on_prop data ''kind'' (\<lambda>data48. seq (check_type Collect [TString] (at_prop p ''kind'') ''#/oneOf/8/properties/kind/type'' data48) (check_const Collect ''text'' (at_prop p ''kind'') ''#/oneOf/8/properties/kind/const'' data48)),
      on_prop data ''text'' (\<lambda>v. check_type Collect [TString] (at_prop p ''text'') ''#/oneOf/8/properties/text/type'' v),
      on_prop data ''title'' (\<lambda>v. check_type Collect [TString] (at_prop p ''title'') ''#/oneOf/8/properties/title/type'' v)]))"

definition validate240_status :: "json \<Rightarrow> string \<Rightarrow> step" where
  "validate240_status data p = on_type Collect TObject p ''#/oneOf/9/type'' data
    (required Collect [''kind'', ''text''] p ''#/oneOf/9/required'' data
    (properties [
      on_prop data ''kind'' (\<lambda>data51. seq (check_type Collect [TString] (at_prop p ''kind'') ''#/oneOf/9/properties/kind/type'' data51) (check_const Collect ''status'' (at_prop p ''kind'') ''#/oneOf/9/properties/kind/const'' data51)),
      on_prop data ''text'' (\<lambda>v. check_type Collect [TString] (at_prop p ''text'') ''#/oneOf/9/properties/text/type'' v)]))"

definition validate240_close :: "json \<Rightarrow> string \<Rightarrow> step" where
  "validate240_close data p = on_type Collect TObject p ''#/oneOf/10/type'' data
    (required Collect [''kind'', ''conversation''] p ''#/oneOf/10/required'' data
    (properties [
      on_prop data ''conversation'' (\<lambda>v. check_type Collect [TString] (at_prop p ''conversation'') ''#/oneOf/10/properties/conversation/type'' v),
      on_prop data ''kind'' (\<lambda>data54. seq (check_type Collect [TString] (at_prop p ''kind'') ''#/oneOf/10/properties/kind/type'' data54) (check_const Collect ''close'' (at_prop p ''kind'') ''#/oneOf/10/properties/kind/const'' data54))]))"

definition validate240_membership_recovery_members_item :: "json \<Rightarrow> string \<Rightarrow> step" where
  "validate240_membership_recovery_members_item data p = on_type Collect TObject p ''#/$defs/RecoveryMember/type'' data
    (required Collect [''id'', ''nickname'', ''isSelf'', ''missingCommit'', ''pendingMessages''] p ''#/$defs/RecoveryMember/required'' data
    (properties [
      on_prop data ''id'' (\<lambda>v. check_type Collect [TString] (at_prop p ''id'') ''#/$defs/RecoveryMember/properties/id/type'' v),
      on_prop data ''isSelf'' (\<lambda>v. check_type Collect [TBoolean] (at_prop p ''isSelf'') ''#/$defs/RecoveryMember/properties/isSelf/type'' v),
      on_prop data ''missingCommit'' (\<lambda>v. check_type Collect [TBoolean] (at_prop p ''missingCommit'') ''#/$defs/RecoveryMember/properties/missingCommit/type'' v),
      on_prop data ''nickname'' (\<lambda>v. check_type Collect [TString] (at_prop p ''nickname'') ''#/$defs/RecoveryMember/properties/nickname/type'' v),
      on_prop data ''pendingMessages'' (\<lambda>data65. then_valid (check_type Collect [TInteger] (at_prop p ''pendingMessages'') ''#/$defs/RecoveryMember/properties/pendingMessages/type'' data65) (check_range Collect None 0 (at_prop p ''pendingMessages'') ''#/$defs/RecoveryMember/properties/pendingMessages'' data65))]))"

definition validate240_membership_recovery :: "json \<Rightarrow> string \<Rightarrow> step" where
  "validate240_membership_recovery data p = on_type Collect TObject p ''#/oneOf/11/type'' data
    (required Collect [''kind'', ''channel'', ''expected'', ''epoch'', ''pending'', ''retained_messages'', ''members''] p ''#/oneOf/11/required'' data
    (properties [
      on_prop data ''channel'' (\<lambda>v. check_type Collect [TString] (at_prop p ''channel'') ''#/oneOf/11/properties/channel/type'' v),
      on_prop data ''epoch'' (\<lambda>v. check_type Collect [TString] (at_prop p ''epoch'') ''#/oneOf/11/properties/epoch/type'' v),
      on_prop data ''expected'' (\<lambda>v. check_type Collect [TString] (at_prop p ''expected'') ''#/oneOf/11/properties/expected/type'' v),
      on_prop data ''kind'' (\<lambda>data58. seq (check_type Collect [TString] (at_prop p ''kind'') ''#/oneOf/11/properties/kind/type'' data58) (check_const Collect ''membership_recovery'' (at_prop p ''kind'') ''#/oneOf/11/properties/kind/const'' data58)),
      on_prop data ''members'' (\<lambda>data59. on_type Collect TArray (at_prop p ''members'') ''#/oneOf/11/properties/members/type'' data59
    (items data59 (\<lambda>i4 data60. validate240_membership_recovery_members_item data60 (at_index (at_prop p ''members'') i4)))),
      on_prop data ''pending'' (\<lambda>v. check_type Collect [TBoolean] (at_prop p ''pending'') ''#/oneOf/11/properties/pending/type'' v),
      on_prop data ''retained_messages'' (\<lambda>data67. then_valid (check_type Collect [TInteger] (at_prop p ''retained_messages'') ''#/oneOf/11/properties/retained_messages/type'' data67) (check_range Collect None 0 (at_prop p ''retained_messages'') ''#/oneOf/11/properties/retained_messages'' data67))]))"

function validate240 :: validator where
  "validate240 data instancePath = run_guard (one_of Return instancePath ''#/oneOf'' [
      validate240_invitation_options data instancePath,
      validate240_invitations data instancePath,
      validate240_reusable_invitation data instancePath,
      validate240_enrollment data instancePath,
      validate240_enrollments (\<lambda>x q. validate240 x q) data instancePath,
      validate240_help data instancePath,
      validate240_directory data instancePath,
      validate240_invitation data instancePath,
      validate240_text data instancePath,
      validate240_status data instancePath,
      validate240_close data instancePath,
      validate240_membership_recovery data instancePath])"
  by pat_completeness auto
termination
  by (relation "measure (size \<circ> fst)") auto

declare validate240.simps [simp del]

definition validate239_applied :: "json \<Rightarrow> string \<Rightarrow> step" where
  "validate239_applied data p = on_type Collect TObject p ''#/oneOf/0/type'' data
    (required Collect [''kind''] p ''#/oneOf/0/required'' data
    (then_valid (no_additional Collect [''conversation'', ''kind'', ''notice''] p ''#/oneOf/0/additionalProperties'' data)
    (properties [
      on_prop data ''conversation'' (\<lambda>data0. check_type Collect [TString, TNull] (at_prop p ''conversation'') ''#/oneOf/0/properties/conversation/type'' data0),
      on_prop data ''kind'' (\<lambda>data1. seq (check_type Collect [TString] (at_prop p ''kind'') ''#/oneOf/0/properties/kind/type'' data1) (check_const Collect ''applied'' (at_prop p ''kind'') ''#/oneOf/0/properties/kind/const'' data1)),
      on_prop data ''notice'' (\<lambda>data2. check_type Collect [TString, TNull] (at_prop p ''notice'') ''#/oneOf/0/properties/notice/type'' data2)])))"

definition validate239_output :: "json \<Rightarrow> string \<Rightarrow> step" where
  "validate239_output data p = on_type Collect TObject p ''#/oneOf/1/type'' data
    (required Collect [''kind'', ''output''] p ''#/oneOf/1/required'' data
    (then_valid (no_additional Collect [''conversation'', ''kind'', ''output''] p ''#/oneOf/1/additionalProperties'' data)
    (properties [
      on_prop data ''conversation'' (\<lambda>data3. check_type Collect [TString, TNull] (at_prop p ''conversation'') ''#/oneOf/1/properties/conversation/type'' data3),
      on_prop data ''kind'' (\<lambda>data4. seq (check_type Collect [TString] (at_prop p ''kind'') ''#/oneOf/1/properties/kind/type'' data4) (check_const Collect ''output'' (at_prop p ''kind'') ''#/oneOf/1/properties/kind/const'' data4)),
      on_prop data ''output'' (\<lambda>v. call validate240 v (at_prop p ''output''))])))"

definition validate239 :: validator where
  "validate239 data instancePath = run_guard (one_of Return instancePath ''#/oneOf'' [
      validate239_applied data instancePath,
      validate239_output data instancePath])"

section \<open>Each guard implements its schema\<close>

context document_schema92
begin

lemma checks_validate78_invitation_options [guard_parts]: "checks Collect p (validate78_invitation_options data p) (conforms \<rho> schema76_invitation_options data)"
  unfolding validate78_invitation_options_def schema76_invitation_options_def by (intro conform_laws guard_parts; simp)

lemma checks_validate78_invitations_records_item [guard_parts]: "checks Collect p (validate78_invitations_records_item data p) (conforms \<rho> schema77 data)"
  unfolding validate78_invitations_records_item_def schema77_def by (intro conform_laws guard_parts; simp)

lemma checks_validate78_invitations [guard_parts]: "checks Collect p (validate78_invitations data p) (conforms \<rho> schema76_invitations data)"
  unfolding validate78_invitations_def schema76_invitations_def by (intro conform_laws guard_parts; simp)

lemma checks_validate78_reusable_invitation [guard_parts]: "checks Collect p (validate78_reusable_invitation data p) (conforms \<rho> schema76_reusable_invitation data)"
  unfolding validate78_reusable_invitation_def schema76_reusable_invitation_def by (intro conform_laws guard_parts; simp)

lemma checks_validate78_enrollment [guard_parts]: "checks Collect p (validate78_enrollment data p) (conforms \<rho> schema76_enrollment data)"
  unfolding validate78_enrollment_def schema76_enrollment_def by (intro conform_laws guard_parts; simp)

lemma checks_validate78_enrollments:
  assumes "\<And>x. size x < size data \<Longrightarrow> validates v (\<rho> ''CommandOutput'') x"
  shows "checks Collect p (validate78_enrollments v data p) (conforms \<rho> schema76_enrollments data)"
  unfolding validate78_enrollments_def schema76_enrollments_def
  by (intro conform_laws guard_parts checks_call_item[where d = data and v = v and \<rho> = \<rho> and r = "''CommandOutput''", OF assms]; (assumption | simp))

lemma checks_validate78_help_commands_item [guard_parts]: "checks Collect p (validate78_help_commands_item data p) (conforms \<rho> schema69 data)"
  unfolding validate78_help_commands_item_def schema69_def by (intro conform_laws guard_parts; simp)

lemma checks_validate78_help [guard_parts]: "checks Collect p (validate78_help data p) (conforms \<rho> schema76_help data)"
  unfolding validate78_help_def schema76_help_def by (intro conform_laws guard_parts; simp)

lemma checks_validate78_directory_channels_item [guard_parts]: "checks Collect p (validate78_directory_channels_item data p) (conforms \<rho> schema79 data)"
  unfolding validate78_directory_channels_item_def schema79_def by (intro conform_laws guard_parts; simp)

lemma checks_validate78_directory [guard_parts]: "checks Collect p (validate78_directory data p) (conforms \<rho> schema76_directory data)"
  unfolding validate78_directory_def schema76_directory_def by (intro conform_laws guard_parts; simp)

lemma checks_validate78_invitation [guard_parts]: "checks Collect p (validate78_invitation data p) (conforms \<rho> schema76_invitation data)"
  unfolding validate78_invitation_def schema76_invitation_def by (intro conform_laws guard_parts; simp)

lemma checks_validate78_text [guard_parts]: "checks Collect p (validate78_text data p) (conforms \<rho> schema76_text data)"
  unfolding validate78_text_def schema76_text_def by (intro conform_laws guard_parts; simp)

lemma checks_validate78_status [guard_parts]: "checks Collect p (validate78_status data p) (conforms \<rho> schema76_status data)"
  unfolding validate78_status_def schema76_status_def by (intro conform_laws guard_parts; simp)

lemma checks_validate78_close [guard_parts]: "checks Collect p (validate78_close data p) (conforms \<rho> schema76_close data)"
  unfolding validate78_close_def schema76_close_def by (intro conform_laws guard_parts; simp)

lemma checks_validate78_membership_recovery_members_item [guard_parts]: "checks Collect p (validate78_membership_recovery_members_item data p) (conforms \<rho> schema80 data)"
  unfolding validate78_membership_recovery_members_item_def schema80_def by (intro conform_laws guard_parts; simp)

lemma checks_validate78_membership_recovery [guard_parts]: "checks Collect p (validate78_membership_recovery data p) (conforms \<rho> schema76_membership_recovery data)"
  unfolding validate78_membership_recovery_def schema76_membership_recovery_def by (intro conform_laws guard_parts; simp)

lemma validates_validate78_step:
  assumes "\<And>x. size x < size d \<Longrightarrow> validates validate78 (\<rho> ''CommandOutput'') x"
  shows "validates validate78 (conforms \<rho> schema76) d"
  unfolding schema76_def
  by (rule validates_run[where m = Return], rule validate78.simps)
     (intro conform_laws guard_parts checks_validate78_enrollments[OF assms]; (assumption | simp))

lemma validates_validate78: "validates validate78 (conforms \<rho> schema76) d"
proof (induction d rule: measure_induct_rule[where f = size])
  case (less d)
  then show ?case by (simp add: validates_validate78_step def_CommandOutput)
qed

lemmas call_validate78 [guard_parts] = checks_call[OF validates_validate78]

lemma checks_validate77_applied [guard_parts]: "checks Collect p (validate77_applied data p) (conforms \<rho> schema92_applied data)"
  unfolding validate77_applied_def schema92_applied_def by (intro conform_laws guard_parts; simp)

lemma checks_validate77_output [guard_parts]: "checks Collect p (validate77_output data p) (conforms \<rho> schema92_output data)"
  unfolding validate77_output_def schema92_output_def by (intro conform_laws guard_parts; simp)

lemma validates_validate77: "validates validate77 (conforms \<rho> schema92) d"
  unfolding schema92_def
  by (rule validates_run[where m = Return], rule validate77_def) (intro conform_laws guard_parts; simp)

lemmas call_validate77 [guard_parts] = checks_call[OF validates_validate77]

end

context document_schema92
begin

lemma checks_validate240_invitation_options [guard_parts]: "checks Collect p (validate240_invitation_options data p) (conforms \<rho> schema76_invitation_options data)"
  unfolding validate240_invitation_options_def schema76_invitation_options_def by (intro conform_laws guard_parts; simp)

lemma checks_validate240_invitations_records_item [guard_parts]: "checks Collect p (validate240_invitations_records_item data p) (conforms \<rho> schema77 data)"
  unfolding validate240_invitations_records_item_def schema77_def by (intro conform_laws guard_parts; simp)

lemma checks_validate240_invitations [guard_parts]: "checks Collect p (validate240_invitations data p) (conforms \<rho> schema76_invitations data)"
  unfolding validate240_invitations_def schema76_invitations_def by (intro conform_laws guard_parts; simp)

lemma checks_validate240_reusable_invitation [guard_parts]: "checks Collect p (validate240_reusable_invitation data p) (conforms \<rho> schema76_reusable_invitation data)"
  unfolding validate240_reusable_invitation_def schema76_reusable_invitation_def by (intro conform_laws guard_parts; simp)

lemma checks_validate240_enrollment [guard_parts]: "checks Collect p (validate240_enrollment data p) (conforms \<rho> schema76_enrollment data)"
  unfolding validate240_enrollment_def schema76_enrollment_def by (intro conform_laws guard_parts; simp)

lemma checks_validate240_enrollments:
  assumes "\<And>x. size x < size data \<Longrightarrow> validates v (\<rho> ''CommandOutput'') x"
  shows "checks Collect p (validate240_enrollments v data p) (conforms \<rho> schema76_enrollments data)"
  unfolding validate240_enrollments_def schema76_enrollments_def
  by (intro conform_laws guard_parts checks_call_item[where d = data and v = v and \<rho> = \<rho> and r = "''CommandOutput''", OF assms]; (assumption | simp))

lemma checks_validate240_help_commands_item [guard_parts]: "checks Collect p (validate240_help_commands_item data p) (conforms \<rho> schema69 data)"
  unfolding validate240_help_commands_item_def schema69_def by (intro conform_laws guard_parts; simp)

lemma checks_validate240_help [guard_parts]: "checks Collect p (validate240_help data p) (conforms \<rho> schema76_help data)"
  unfolding validate240_help_def schema76_help_def by (intro conform_laws guard_parts; simp)

lemma checks_validate240_directory_channels_item [guard_parts]: "checks Collect p (validate240_directory_channels_item data p) (conforms \<rho> schema79 data)"
  unfolding validate240_directory_channels_item_def schema79_def by (intro conform_laws guard_parts; simp)

lemma checks_validate240_directory [guard_parts]: "checks Collect p (validate240_directory data p) (conforms \<rho> schema76_directory data)"
  unfolding validate240_directory_def schema76_directory_def by (intro conform_laws guard_parts; simp)

lemma checks_validate240_invitation [guard_parts]: "checks Collect p (validate240_invitation data p) (conforms \<rho> schema76_invitation data)"
  unfolding validate240_invitation_def schema76_invitation_def by (intro conform_laws guard_parts; simp)

lemma checks_validate240_text [guard_parts]: "checks Collect p (validate240_text data p) (conforms \<rho> schema76_text data)"
  unfolding validate240_text_def schema76_text_def by (intro conform_laws guard_parts; simp)

lemma checks_validate240_status [guard_parts]: "checks Collect p (validate240_status data p) (conforms \<rho> schema76_status data)"
  unfolding validate240_status_def schema76_status_def by (intro conform_laws guard_parts; simp)

lemma checks_validate240_close [guard_parts]: "checks Collect p (validate240_close data p) (conforms \<rho> schema76_close data)"
  unfolding validate240_close_def schema76_close_def by (intro conform_laws guard_parts; simp)

lemma checks_validate240_membership_recovery_members_item [guard_parts]: "checks Collect p (validate240_membership_recovery_members_item data p) (conforms \<rho> schema80 data)"
  unfolding validate240_membership_recovery_members_item_def schema80_def by (intro conform_laws guard_parts; simp)

lemma checks_validate240_membership_recovery [guard_parts]: "checks Collect p (validate240_membership_recovery data p) (conforms \<rho> schema76_membership_recovery data)"
  unfolding validate240_membership_recovery_def schema76_membership_recovery_def by (intro conform_laws guard_parts; simp)

lemma validates_validate240_step:
  assumes "\<And>x. size x < size d \<Longrightarrow> validates validate240 (\<rho> ''CommandOutput'') x"
  shows "validates validate240 (conforms \<rho> schema76) d"
  unfolding schema76_def
  by (rule validates_run[where m = Return], rule validate240.simps)
     (intro conform_laws guard_parts checks_validate240_enrollments[OF assms]; (assumption | simp))

lemma validates_validate240: "validates validate240 (conforms \<rho> schema76) d"
proof (induction d rule: measure_induct_rule[where f = size])
  case (less d)
  then show ?case by (simp add: validates_validate240_step def_CommandOutput)
qed

lemmas call_validate240 [guard_parts] = checks_call[OF validates_validate240]

lemma checks_validate239_applied [guard_parts]: "checks Collect p (validate239_applied data p) (conforms \<rho> schema92_applied data)"
  unfolding validate239_applied_def schema92_applied_def by (intro conform_laws guard_parts; simp)

lemma checks_validate239_output [guard_parts]: "checks Collect p (validate239_output data p) (conforms \<rho> schema92_output data)"
  unfolding validate239_output_def schema92_output_def by (intro conform_laws guard_parts; simp)

lemma validates_validate239: "validates validate239 (conforms \<rho> schema92) d"
  unfolding schema92_def
  by (rule validates_run[where m = Return], rule validate239_def) (intro conform_laws guard_parts; simp)

lemmas call_validate239 [guard_parts] = checks_call[OF validates_validate239]

end

section \<open>The exported guards\<close>

definition enrollment_output :: "json \<Rightarrow> bool" where
  "enrollment_output value = fst (validate77 value [])"

definition submit_output :: "json \<Rightarrow> bool" where
  "submit_output value = fst (validate239 value [])"

end
