(* ===== verification/Snapshot_Guards.thy ===== *)
theory Snapshot_Guards
  imports Api_Schemas
begin

text \<open>
  The guards of a snapshot, which \<open>unlock\<close>, \<open>disconnect\<close> and \<open>snapshot\<close> return.
\<close>

section \<open>The guards\<close>

definition validate176_presence_any0_available :: "json \<Rightarrow> string \<Rightarrow> step" where
  "validate176_presence_any0_available data p = on_type Collect TObject p ''#/$defs/MemberPresence/oneOf/0/type'' data
    (required Collect [''state''] p ''#/$defs/MemberPresence/oneOf/0/required'' data
    (properties [
      on_prop data ''state'' (\<lambda>data6. seq (check_type Collect [TString] (at_prop p ''state'') ''#/$defs/MemberPresence/oneOf/0/properties/state/type'' data6) (check_const Collect ''available'' (at_prop p ''state'') ''#/$defs/MemberPresence/oneOf/0/properties/state/const'' data6))]))"

definition validate176_presence_any0_away :: "json \<Rightarrow> string \<Rightarrow> step" where
  "validate176_presence_any0_away data p = on_type Collect TObject p ''#/$defs/MemberPresence/oneOf/1/type'' data
    (required Collect [''state'', ''reason''] p ''#/$defs/MemberPresence/oneOf/1/required'' data
    (properties [
      on_prop data ''reason'' (\<lambda>v. check_type Collect [TString] (at_prop p ''reason'') ''#/$defs/MemberPresence/oneOf/1/properties/reason/type'' v),
      on_prop data ''state'' (\<lambda>data8. seq (check_type Collect [TString] (at_prop p ''state'') ''#/$defs/MemberPresence/oneOf/1/properties/state/type'' data8) (check_const Collect ''away'' (at_prop p ''state'') ''#/$defs/MemberPresence/oneOf/1/properties/state/const'' data8))]))"

definition validate176_presence_any0_unknown :: "json \<Rightarrow> string \<Rightarrow> step" where
  "validate176_presence_any0_unknown data p = on_type Collect TObject p ''#/$defs/MemberPresence/oneOf/2/type'' data
    (required Collect [''state''] p ''#/$defs/MemberPresence/oneOf/2/required'' data
    (properties [
      on_prop data ''state'' (\<lambda>data9. seq (check_type Collect [TString] (at_prop p ''state'') ''#/$defs/MemberPresence/oneOf/2/properties/state/type'' data9) (check_const Collect ''unknown'' (at_prop p ''state'') ''#/$defs/MemberPresence/oneOf/2/properties/state/const'' data9))]))"

definition validate176_presence_any0 :: "json \<Rightarrow> string \<Rightarrow> step" where
  "validate176_presence_any0 data p = one_of Collect p ''#/$defs/MemberPresence/oneOf'' [
      validate176_presence_any0_available data p,
      validate176_presence_any0_away data p,
      validate176_presence_any0_unknown data p]"

definition validate176_presence :: "json \<Rightarrow> string \<Rightarrow> step" where
  "validate176_presence data p = any_of Return p ''#/properties/presence/anyOf'' [
      validate176_presence_any0 data p,
      check_type Collect [TNull] p ''#/properties/presence/anyOf/1/type'' data]"

definition validate176 :: validator where
  "validate176 data instancePath = run_guard (on_type Return TObject instancePath ''#/type'' data
    (required Return [''id'', ''nickname'', ''isSelf''] instancePath ''#/required'' data
    (properties [
      on_prop data ''capabilities'' (\<lambda>data0. on_type Return TArray (at_prop instancePath ''capabilities'') ''#/properties/capabilities/type'' data0
    (items data0 (\<lambda>i0 item. check_type Return [TString] (at_index (at_prop instancePath ''capabilities'') i0) ''#/properties/capabilities/items/type'' item))),
      on_prop data ''id'' (\<lambda>v. check_type Return [TString] (at_prop instancePath ''id'') ''#/properties/id/type'' v),
      on_prop data ''isSelf'' (\<lambda>v. check_type Return [TBoolean] (at_prop instancePath ''isSelf'') ''#/properties/isSelf/type'' v),
      on_prop data ''nickname'' (\<lambda>v. check_type Return [TString] (at_prop instancePath ''nickname'') ''#/properties/nickname/type'' v),
      on_prop data ''presence'' (\<lambda>data5. validate176_presence data5 (at_prop instancePath ''presence'')),
      on_prop data ''recentlyActive'' (\<lambda>data10. check_type Return [TBoolean, TNull] (at_prop instancePath ''recentlyActive'') ''#/properties/recentlyActive/type'' data10)])))"

definition validate175_catchUp_any0 :: "json \<Rightarrow> string \<Rightarrow> step" where
  "validate175_catchUp_any0 data p = on_type Collect TObject p ''#/$defs/ChannelCatchUp/type'' data
    (required Collect [''appliedRecords''] p ''#/$defs/ChannelCatchUp/required'' data
    (properties [
      on_prop data ''appliedRecords'' (\<lambda>data2. then_valid (check_type Collect [TInteger] (at_prop p ''appliedRecords'') ''#/$defs/ChannelCatchUp/properties/appliedRecords/type'' data2) (check_range Collect None 0 (at_prop p ''appliedRecords'') ''#/$defs/ChannelCatchUp/properties/appliedRecords'' data2))]))"

definition validate175_catchUp :: "json \<Rightarrow> string \<Rightarrow> step" where
  "validate175_catchUp data p = any_of Return p ''#/properties/catchUp/anyOf'' [
      validate175_catchUp_any0 data p,
      check_type Collect [TNull] p ''#/properties/catchUp/anyOf/1/type'' data]"

definition validate175_commands_item :: "json \<Rightarrow> string \<Rightarrow> step" where
  "validate175_commands_item data p = on_type Return TObject p ''#/$defs/CommandSpec/type'' data
    (required Return [''name'', ''usage'', ''description'', ''scope'', ''available''] p ''#/$defs/CommandSpec/required'' data
    (properties [
      on_prop data ''available'' (\<lambda>v. check_type Return [TBoolean] (at_prop p ''available'') ''#/$defs/CommandSpec/properties/available/type'' v),
      on_prop data ''capability'' (\<lambda>data7. check_type Return [TString, TNull] (at_prop p ''capability'') ''#/$defs/CommandSpec/properties/capability/type'' data7),
      on_prop data ''description'' (\<lambda>v. check_type Return [TString] (at_prop p ''description'') ''#/$defs/CommandSpec/properties/description/type'' v),
      on_prop data ''name'' (\<lambda>v. check_type Return [TString] (at_prop p ''name'') ''#/$defs/CommandSpec/properties/name/type'' v),
      on_prop data ''scope'' (\<lambda>v. check_type Return [TString] (at_prop p ''scope'') ''#/$defs/CommandSpec/properties/scope/type'' v),
      on_prop data ''usage'' (\<lambda>v. check_type Return [TString] (at_prop p ''usage'') ''#/$defs/CommandSpec/properties/usage/type'' v)]))"

definition validate175_policy_any0 :: "json \<Rightarrow> string \<Rightarrow> step" where
  "validate175_policy_any0 data p = on_type Collect TObject p ''#/$defs/ChannelPolicy/type'' data
    (required Collect [''profile'', ''capacity'', ''moderated'', ''inviteOnly'', ''topicOperators'', ''presenceEnabled''] p ''#/$defs/ChannelPolicy/required'' data
    (properties [
      on_prop data ''capacity'' (\<lambda>data23. then_valid (check_type Collect [TInteger] (at_prop p ''capacity'') ''#/$defs/ChannelPolicy/properties/capacity/type'' data23) (check_range Collect None 0 (at_prop p ''capacity'') ''#/$defs/ChannelPolicy/properties/capacity'' data23)),
      on_prop data ''inviteOnly'' (\<lambda>v. check_type Collect [TBoolean] (at_prop p ''inviteOnly'') ''#/$defs/ChannelPolicy/properties/inviteOnly/type'' v),
      on_prop data ''moderated'' (\<lambda>v. check_type Collect [TBoolean] (at_prop p ''moderated'') ''#/$defs/ChannelPolicy/properties/moderated/type'' v),
      on_prop data ''presenceEnabled'' (\<lambda>v. check_type Collect [TBoolean] (at_prop p ''presenceEnabled'') ''#/$defs/ChannelPolicy/properties/presenceEnabled/type'' v),
      on_prop data ''profile'' (\<lambda>v. check_type Collect [TString] (at_prop p ''profile'') ''#/$defs/ChannelPolicy/properties/profile/type'' v),
      on_prop data ''topicOperators'' (\<lambda>v. check_type Collect [TBoolean] (at_prop p ''topicOperators'') ''#/$defs/ChannelPolicy/properties/topicOperators/type'' v)]))"

definition validate175_policy :: "json \<Rightarrow> string \<Rightarrow> step" where
  "validate175_policy data p = any_of Return p ''#/properties/policy/anyOf'' [
      validate175_policy_any0 data p,
      check_type Collect [TNull] p ''#/properties/policy/anyOf/1/type'' data]"

definition validate175 :: validator where
  "validate175 data instancePath = run_guard (on_type Return TObject instancePath ''#/type'' data
    (required Return [''id'', ''channelId'', ''kind'', ''name'', ''topic'', ''active'', ''owner'', ''members'', ''unread''] instancePath ''#/required'' data
    (properties [
      on_prop data ''active'' (\<lambda>v. check_type Return [TBoolean] (at_prop instancePath ''active'') ''#/properties/active/type'' v),
      on_prop data ''catchUp'' (\<lambda>data1. validate175_catchUp data1 (at_prop instancePath ''catchUp'')),
      on_prop data ''channelId'' (\<lambda>v. check_type Return [TString] (at_prop instancePath ''channelId'') ''#/properties/channelId/type'' v),
      on_prop data ''commands'' (\<lambda>data4. on_type Return TArray (at_prop instancePath ''commands'') ''#/properties/commands/type'' data4
    (items data4 (\<lambda>i0 data5. validate175_commands_item data5 (at_index (at_prop instancePath ''commands'') i0)))),
      on_prop data ''directory'' (\<lambda>data12. check_type Return [TString, TNull] (at_prop instancePath ''directory'') ''#/properties/directory/type'' data12),
      on_prop data ''id'' (\<lambda>v. check_type Return [TString] (at_prop instancePath ''id'') ''#/properties/id/type'' v),
      on_prop data ''inputLimitBytes'' (\<lambda>data14. then_valid (check_type Return [TInteger] (at_prop instancePath ''inputLimitBytes'') ''#/properties/inputLimitBytes/type'' data14) (check_range Return None 0 (at_prop instancePath ''inputLimitBytes'') ''#/properties/inputLimitBytes'' data14)),
      on_prop data ''kind'' (\<lambda>data15. seq (check_type Return [TString] (at_prop instancePath ''kind'') ''#/$defs/ConversationKind/type'' data15) (check_enum Return [''channel'', ''query'', ''archive''] (at_prop instancePath ''kind'') ''#/$defs/ConversationKind/enum'' data15)),
      on_prop data ''lastMessageId'' (\<lambda>data16. check_type Return [TString, TNull] (at_prop instancePath ''lastMessageId'') ''#/properties/lastMessageId/type'' data16),
      on_prop data ''members'' (\<lambda>data17. on_type Return TArray (at_prop instancePath ''members'') ''#/properties/members/type'' data17
    (items data17 (\<lambda>i1 item. call validate176 item (at_index (at_prop instancePath ''members'') i1)))),
      on_prop data ''muted'' (\<lambda>data19. check_type Return [TBoolean, TNull] (at_prop instancePath ''muted'') ''#/properties/muted/type'' data19),
      on_prop data ''name'' (\<lambda>v. check_type Return [TString] (at_prop instancePath ''name'') ''#/properties/name/type'' v),
      on_prop data ''owner'' (\<lambda>v. check_type Return [TBoolean] (at_prop instancePath ''owner'') ''#/properties/owner/type'' v),
      on_prop data ''policy'' (\<lambda>data22. validate175_policy data22 (at_prop instancePath ''policy'')),
      on_prop data ''provider'' (\<lambda>data29. check_type Return [TString, TNull] (at_prop instancePath ''provider'') ''#/properties/provider/type'' data29),
      on_prop data ''topic'' (\<lambda>v. check_type Return [TString] (at_prop instancePath ''topic'') ''#/properties/topic/type'' v),
      on_prop data ''unread'' (\<lambda>data31. then_valid (check_type Return [TInteger] (at_prop instancePath ''unread'') ''#/properties/unread/type'' data31) (check_range Return None 0 (at_prop instancePath ''unread'') ''#/properties/unread'' data31)),
      on_prop data ''visibility'' (\<lambda>data32. check_type Return [TString, TNull] (at_prop instancePath ''visibility'') ''#/properties/visibility/type'' data32)])))"

definition validate179_build_any0 :: "json \<Rightarrow> string \<Rightarrow> step" where
  "validate179_build_any0 data p = on_type Collect TObject p ''#/$defs/BuildInfo/type'' data
    (required Collect [''releaseId'', ''gchatCommit'', ''gcomsCommit'', ''version''] p ''#/$defs/BuildInfo/required'' data
    (properties [
      on_prop data ''gchatCommit'' (\<lambda>v. check_type Collect [TString] (at_prop p ''gchatCommit'') ''#/$defs/BuildInfo/properties/gchatCommit/type'' v),
      on_prop data ''gcomsCommit'' (\<lambda>v. check_type Collect [TString] (at_prop p ''gcomsCommit'') ''#/$defs/BuildInfo/properties/gcomsCommit/type'' v),
      on_prop data ''releaseId'' (\<lambda>v. check_type Collect [TString] (at_prop p ''releaseId'') ''#/$defs/BuildInfo/properties/releaseId/type'' v),
      on_prop data ''version'' (\<lambda>v. check_type Collect [TString] (at_prop p ''version'') ''#/$defs/BuildInfo/properties/version/type'' v)]))"

definition validate179_build :: "json \<Rightarrow> string \<Rightarrow> step" where
  "validate179_build data p = any_of Return p ''#/properties/build/anyOf'' [
      validate179_build_any0 data p,
      check_type Collect [TNull] p ''#/properties/build/anyOf/1/type'' data]"

definition validate179 :: validator where
  "validate179 data instancePath = run_guard (on_type Return TObject instancePath ''#/type'' data
    (required Return [''id'', ''label'', ''bootId'', ''locked'', ''protocolLocked'', ''profileExists'', ''archiveExists'', ''safetyNumber'', ''capabilities''] instancePath ''#/required'' data
    (properties [
      on_prop data ''archiveExists'' (\<lambda>v. check_type Return [TBoolean] (at_prop instancePath ''archiveExists'') ''#/properties/archiveExists/type'' v),
      on_prop data ''bootId'' (\<lambda>v. check_type Return [TString] (at_prop instancePath ''bootId'') ''#/properties/bootId/type'' v),
      on_prop data ''build'' (\<lambda>data2. validate179_build data2 (at_prop instancePath ''build'')),
      on_prop data ''capabilities'' (\<lambda>data7. on_type Return TArray (at_prop instancePath ''capabilities'') ''#/properties/capabilities/type'' data7
    (items data7 (\<lambda>i0 item. check_type Return [TString] (at_index (at_prop instancePath ''capabilities'') i0) ''#/properties/capabilities/items/type'' item))),
      on_prop data ''id'' (\<lambda>v. check_type Return [TString] (at_prop instancePath ''id'') ''#/properties/id/type'' v),
      on_prop data ''label'' (\<lambda>v. check_type Return [TString] (at_prop instancePath ''label'') ''#/properties/label/type'' v),
      on_prop data ''locked'' (\<lambda>v. check_type Return [TBoolean] (at_prop instancePath ''locked'') ''#/properties/locked/type'' v),
      on_prop data ''profileExists'' (\<lambda>v. check_type Return [TBoolean] (at_prop instancePath ''profileExists'') ''#/properties/profileExists/type'' v),
      on_prop data ''protocolLocked'' (\<lambda>v. check_type Return [TBoolean] (at_prop instancePath ''protocolLocked'') ''#/properties/protocolLocked/type'' v),
      on_prop data ''safetyNumber'' (\<lambda>v. check_type Return [TString] (at_prop instancePath ''safetyNumber'') ''#/properties/safetyNumber/type'' v)])))"

definition validate182_invitation_options :: "json \<Rightarrow> string \<Rightarrow> step" where
  "validate182_invitation_options data p = on_type Collect TObject p ''#/oneOf/0/type'' data
    (required Collect [''kind'', ''channel''] p ''#/oneOf/0/required'' data
    (properties [
      on_prop data ''channel'' (\<lambda>v. check_type Collect [TString] (at_prop p ''channel'') ''#/oneOf/0/properties/channel/type'' v),
      on_prop data ''kind'' (\<lambda>data1. seq (check_type Collect [TString] (at_prop p ''kind'') ''#/oneOf/0/properties/kind/type'' data1) (check_const Collect ''invitation_options'' (at_prop p ''kind'') ''#/oneOf/0/properties/kind/const'' data1))]))"

definition validate182_invitations_records_item :: "json \<Rightarrow> string \<Rightarrow> step" where
  "validate182_invitations_records_item data p = on_type Collect TObject p ''#/$defs/InvitationRecord/type'' data
    (required Collect [''id'', ''admitted'', ''pending'', ''revoked''] p ''#/$defs/InvitationRecord/required'' data
    (properties [
      on_prop data ''admitted'' (\<lambda>data6. then_valid (check_type Collect [TInteger] (at_prop p ''admitted'') ''#/$defs/InvitationRecord/properties/admitted/type'' data6) (check_range Collect None 0 (at_prop p ''admitted'') ''#/$defs/InvitationRecord/properties/admitted'' data6)),
      on_prop data ''expires'' (\<lambda>data7. then_valid (check_type Collect [TInteger, TNull] (at_prop p ''expires'') ''#/$defs/InvitationRecord/properties/expires/type'' data7) (check_range Collect None 0 (at_prop p ''expires'') ''#/$defs/InvitationRecord/properties/expires'' data7)),
      on_prop data ''id'' (\<lambda>v. check_type Collect [TString] (at_prop p ''id'') ''#/$defs/InvitationRecord/properties/id/type'' v),
      on_prop data ''limit'' (\<lambda>data9. then_valid (check_type Collect [TInteger, TNull] (at_prop p ''limit'') ''#/$defs/InvitationRecord/properties/limit/type'' data9) (check_range Collect None 0 (at_prop p ''limit'') ''#/$defs/InvitationRecord/properties/limit'' data9)),
      on_prop data ''pending'' (\<lambda>data10. then_valid (check_type Collect [TInteger] (at_prop p ''pending'') ''#/$defs/InvitationRecord/properties/pending/type'' data10) (check_range Collect None 0 (at_prop p ''pending'') ''#/$defs/InvitationRecord/properties/pending'' data10)),
      on_prop data ''revoked'' (\<lambda>v. check_type Collect [TBoolean] (at_prop p ''revoked'') ''#/$defs/InvitationRecord/properties/revoked/type'' v)]))"

definition validate182_invitations :: "json \<Rightarrow> string \<Rightarrow> step" where
  "validate182_invitations data p = on_type Collect TObject p ''#/oneOf/1/type'' data
    (required Collect [''kind'', ''channel'', ''records''] p ''#/oneOf/1/required'' data
    (properties [
      on_prop data ''channel'' (\<lambda>v. check_type Collect [TString] (at_prop p ''channel'') ''#/oneOf/1/properties/channel/type'' v),
      on_prop data ''kind'' (\<lambda>data3. seq (check_type Collect [TString] (at_prop p ''kind'') ''#/oneOf/1/properties/kind/type'' data3) (check_const Collect ''invitations'' (at_prop p ''kind'') ''#/oneOf/1/properties/kind/const'' data3)),
      on_prop data ''records'' (\<lambda>data4. on_type Collect TArray (at_prop p ''records'') ''#/oneOf/1/properties/records/type'' data4
    (items data4 (\<lambda>i0 data5. validate182_invitations_records_item data5 (at_index (at_prop p ''records'') i0))))]))"

definition validate182_reusable_invitation :: "json \<Rightarrow> string \<Rightarrow> step" where
  "validate182_reusable_invitation data p = on_type Collect TObject p ''#/oneOf/2/type'' data
    (required Collect [''kind'', ''channel'', ''link'', ''id'', ''localOnly''] p ''#/oneOf/2/required'' data
    (properties [
      on_prop data ''channel'' (\<lambda>v. check_type Collect [TString] (at_prop p ''channel'') ''#/oneOf/2/properties/channel/type'' v),
      on_prop data ''expires'' (\<lambda>data13. then_valid (check_type Collect [TInteger, TNull] (at_prop p ''expires'') ''#/oneOf/2/properties/expires/type'' data13) (check_range Collect None 0 (at_prop p ''expires'') ''#/oneOf/2/properties/expires'' data13)),
      on_prop data ''id'' (\<lambda>v. check_type Collect [TString] (at_prop p ''id'') ''#/oneOf/2/properties/id/type'' v),
      on_prop data ''kind'' (\<lambda>data15. seq (check_type Collect [TString] (at_prop p ''kind'') ''#/oneOf/2/properties/kind/type'' data15) (check_const Collect ''reusable_invitation'' (at_prop p ''kind'') ''#/oneOf/2/properties/kind/const'' data15)),
      on_prop data ''limit'' (\<lambda>data16. then_valid (check_type Collect [TInteger, TNull] (at_prop p ''limit'') ''#/oneOf/2/properties/limit/type'' data16) (check_range Collect None 0 (at_prop p ''limit'') ''#/oneOf/2/properties/limit'' data16)),
      on_prop data ''link'' (\<lambda>v. check_type Collect [TString] (at_prop p ''link'') ''#/oneOf/2/properties/link/type'' v),
      on_prop data ''localOnly'' (\<lambda>v. check_type Collect [TBoolean] (at_prop p ''localOnly'') ''#/oneOf/2/properties/localOnly/type'' v)]))"

definition validate182_enrollment :: "json \<Rightarrow> string \<Rightarrow> step" where
  "validate182_enrollment data p = on_type Collect TObject p ''#/oneOf/3/type'' data
    (required Collect [''kind'', ''id'', ''channel'', ''phase'', ''attempts''] p ''#/oneOf/3/required'' data
    (properties [
      on_prop data ''attempts'' (\<lambda>data19. then_valid (check_type Collect [TInteger] (at_prop p ''attempts'') ''#/oneOf/3/properties/attempts/type'' data19) (check_range Collect None 0 (at_prop p ''attempts'') ''#/oneOf/3/properties/attempts'' data19)),
      on_prop data ''channel'' (\<lambda>v. check_type Collect [TString] (at_prop p ''channel'') ''#/oneOf/3/properties/channel/type'' v),
      on_prop data ''id'' (\<lambda>v. check_type Collect [TString] (at_prop p ''id'') ''#/oneOf/3/properties/id/type'' v),
      on_prop data ''kind'' (\<lambda>data22. seq (check_type Collect [TString] (at_prop p ''kind'') ''#/oneOf/3/properties/kind/type'' data22) (check_const Collect ''enrollment'' (at_prop p ''kind'') ''#/oneOf/3/properties/kind/const'' data22)),
      on_prop data ''message'' (\<lambda>data23. check_type Collect [TString, TNull] (at_prop p ''message'') ''#/oneOf/3/properties/message/type'' data23),
      on_prop data ''phase'' (\<lambda>v. check_type Collect [TString] (at_prop p ''phase'') ''#/oneOf/3/properties/phase/type'' v)]))"

definition validate182_enrollments :: "validator \<Rightarrow> json \<Rightarrow> string \<Rightarrow> step" where
  "validate182_enrollments recur data p = on_type Collect TObject p ''#/oneOf/4/type'' data
    (required Collect [''kind'', ''entries''] p ''#/oneOf/4/required'' data
    (properties [
      on_prop data ''entries'' (\<lambda>data25. on_type Collect TArray (at_prop p ''entries'') ''#/oneOf/4/properties/entries/type'' data25
    (items data25 (\<lambda>i1 item. call recur item (at_index (at_prop p ''entries'') i1)))),
      on_prop data ''kind'' (\<lambda>data27. seq (check_type Collect [TString] (at_prop p ''kind'') ''#/oneOf/4/properties/kind/type'' data27) (check_const Collect ''enrollments'' (at_prop p ''kind'') ''#/oneOf/4/properties/kind/const'' data27))]))"

lemma validate182_enrollments_cong [fundef_cong]:
  "data = data' \<Longrightarrow> p = p' \<Longrightarrow> (\<And>x q. size x < size data' \<Longrightarrow> v x q = v' x q) \<Longrightarrow>
   validate182_enrollments v data p = validate182_enrollments v' data' p'"
  by (simp add: validate182_enrollments_def on_prop_items_cong[of data' v v'])

definition validate182_help_commands_item :: "json \<Rightarrow> string \<Rightarrow> step" where
  "validate182_help_commands_item data p = on_type Collect TObject p ''#/$defs/CommandSpec/type'' data
    (required Collect [''name'', ''usage'', ''description'', ''scope'', ''available''] p ''#/$defs/CommandSpec/required'' data
    (properties [
      on_prop data ''available'' (\<lambda>v. check_type Collect [TBoolean] (at_prop p ''available'') ''#/$defs/CommandSpec/properties/available/type'' v),
      on_prop data ''capability'' (\<lambda>data31. check_type Collect [TString, TNull] (at_prop p ''capability'') ''#/$defs/CommandSpec/properties/capability/type'' data31),
      on_prop data ''description'' (\<lambda>v. check_type Collect [TString] (at_prop p ''description'') ''#/$defs/CommandSpec/properties/description/type'' v),
      on_prop data ''name'' (\<lambda>v. check_type Collect [TString] (at_prop p ''name'') ''#/$defs/CommandSpec/properties/name/type'' v),
      on_prop data ''scope'' (\<lambda>v. check_type Collect [TString] (at_prop p ''scope'') ''#/$defs/CommandSpec/properties/scope/type'' v),
      on_prop data ''usage'' (\<lambda>v. check_type Collect [TString] (at_prop p ''usage'') ''#/$defs/CommandSpec/properties/usage/type'' v)]))"

definition validate182_help :: "json \<Rightarrow> string \<Rightarrow> step" where
  "validate182_help data p = on_type Collect TObject p ''#/oneOf/5/type'' data
    (required Collect [''kind'', ''commands''] p ''#/oneOf/5/required'' data
    (properties [
      on_prop data ''commands'' (\<lambda>data28. on_type Collect TArray (at_prop p ''commands'') ''#/oneOf/5/properties/commands/type'' data28
    (items data28 (\<lambda>i2 data29. validate182_help_commands_item data29 (at_index (at_prop p ''commands'') i2)))),
      on_prop data ''kind'' (\<lambda>data36. seq (check_type Collect [TString] (at_prop p ''kind'') ''#/oneOf/5/properties/kind/type'' data36) (check_const Collect ''help'' (at_prop p ''kind'') ''#/oneOf/5/properties/kind/const'' data36))]))"

definition validate182_directory_channels_item :: "json \<Rightarrow> string \<Rightarrow> step" where
  "validate182_directory_channels_item data p = on_type Collect TObject p ''#/$defs/DirectoryEntry/type'' data
    (required Collect [''name'', ''joined''] p ''#/$defs/DirectoryEntry/required'' data
    (properties [
      on_prop data ''conversation'' (\<lambda>data39. check_type Collect [TString, TNull] (at_prop p ''conversation'') ''#/$defs/DirectoryEntry/properties/conversation/type'' data39),
      on_prop data ''joined'' (\<lambda>v. check_type Collect [TBoolean] (at_prop p ''joined'') ''#/$defs/DirectoryEntry/properties/joined/type'' v),
      on_prop data ''name'' (\<lambda>v. check_type Collect [TString] (at_prop p ''name'') ''#/$defs/DirectoryEntry/properties/name/type'' v)]))"

definition validate182_directory :: "json \<Rightarrow> string \<Rightarrow> step" where
  "validate182_directory data p = on_type Collect TObject p ''#/oneOf/6/type'' data
    (required Collect [''kind'', ''channels''] p ''#/oneOf/6/required'' data
    (properties [
      on_prop data ''channels'' (\<lambda>data37. on_type Collect TArray (at_prop p ''channels'') ''#/oneOf/6/properties/channels/type'' data37
    (items data37 (\<lambda>i3 data38. validate182_directory_channels_item data38 (at_index (at_prop p ''channels'') i3)))),
      on_prop data ''kind'' (\<lambda>data42. seq (check_type Collect [TString] (at_prop p ''kind'') ''#/oneOf/6/properties/kind/type'' data42) (check_const Collect ''directory'' (at_prop p ''kind'') ''#/oneOf/6/properties/kind/const'' data42))]))"

definition validate182_invitation :: "json \<Rightarrow> string \<Rightarrow> step" where
  "validate182_invitation data p = on_type Collect TObject p ''#/oneOf/7/type'' data
    (required Collect [''kind'', ''channel'', ''link'', ''expires''] p ''#/oneOf/7/required'' data
    (properties [
      on_prop data ''channel'' (\<lambda>v. check_type Collect [TString] (at_prop p ''channel'') ''#/oneOf/7/properties/channel/type'' v),
      on_prop data ''expires'' (\<lambda>data44. then_valid (check_type Collect [TInteger] (at_prop p ''expires'') ''#/oneOf/7/properties/expires/type'' data44) (check_range Collect None 0 (at_prop p ''expires'') ''#/oneOf/7/properties/expires'' data44)),
      on_prop data ''kind'' (\<lambda>data45. seq (check_type Collect [TString] (at_prop p ''kind'') ''#/oneOf/7/properties/kind/type'' data45) (check_const Collect ''invitation'' (at_prop p ''kind'') ''#/oneOf/7/properties/kind/const'' data45)),
      on_prop data ''link'' (\<lambda>v. check_type Collect [TString] (at_prop p ''link'') ''#/oneOf/7/properties/link/type'' v),
      on_prop data ''localOnly'' (\<lambda>v. check_type Collect [TBoolean] (at_prop p ''localOnly'') ''#/oneOf/7/properties/localOnly/type'' v)]))"

definition validate182_text :: "json \<Rightarrow> string \<Rightarrow> step" where
  "validate182_text data p = on_type Collect TObject p ''#/oneOf/8/type'' data
    (required Collect [''kind'', ''title'', ''text''] p ''#/oneOf/8/required'' data
    (properties [
      on_prop data ''kind'' (\<lambda>data48. seq (check_type Collect [TString] (at_prop p ''kind'') ''#/oneOf/8/properties/kind/type'' data48) (check_const Collect ''text'' (at_prop p ''kind'') ''#/oneOf/8/properties/kind/const'' data48)),
      on_prop data ''text'' (\<lambda>v. check_type Collect [TString] (at_prop p ''text'') ''#/oneOf/8/properties/text/type'' v),
      on_prop data ''title'' (\<lambda>v. check_type Collect [TString] (at_prop p ''title'') ''#/oneOf/8/properties/title/type'' v)]))"

definition validate182_status :: "json \<Rightarrow> string \<Rightarrow> step" where
  "validate182_status data p = on_type Collect TObject p ''#/oneOf/9/type'' data
    (required Collect [''kind'', ''text''] p ''#/oneOf/9/required'' data
    (properties [
      on_prop data ''kind'' (\<lambda>data51. seq (check_type Collect [TString] (at_prop p ''kind'') ''#/oneOf/9/properties/kind/type'' data51) (check_const Collect ''status'' (at_prop p ''kind'') ''#/oneOf/9/properties/kind/const'' data51)),
      on_prop data ''text'' (\<lambda>v. check_type Collect [TString] (at_prop p ''text'') ''#/oneOf/9/properties/text/type'' v)]))"

definition validate182_close :: "json \<Rightarrow> string \<Rightarrow> step" where
  "validate182_close data p = on_type Collect TObject p ''#/oneOf/10/type'' data
    (required Collect [''kind'', ''conversation''] p ''#/oneOf/10/required'' data
    (properties [
      on_prop data ''conversation'' (\<lambda>v. check_type Collect [TString] (at_prop p ''conversation'') ''#/oneOf/10/properties/conversation/type'' v),
      on_prop data ''kind'' (\<lambda>data54. seq (check_type Collect [TString] (at_prop p ''kind'') ''#/oneOf/10/properties/kind/type'' data54) (check_const Collect ''close'' (at_prop p ''kind'') ''#/oneOf/10/properties/kind/const'' data54))]))"

definition validate182_membership_recovery_members_item :: "json \<Rightarrow> string \<Rightarrow> step" where
  "validate182_membership_recovery_members_item data p = on_type Collect TObject p ''#/$defs/RecoveryMember/type'' data
    (required Collect [''id'', ''nickname'', ''isSelf'', ''missingCommit'', ''pendingMessages''] p ''#/$defs/RecoveryMember/required'' data
    (properties [
      on_prop data ''id'' (\<lambda>v. check_type Collect [TString] (at_prop p ''id'') ''#/$defs/RecoveryMember/properties/id/type'' v),
      on_prop data ''isSelf'' (\<lambda>v. check_type Collect [TBoolean] (at_prop p ''isSelf'') ''#/$defs/RecoveryMember/properties/isSelf/type'' v),
      on_prop data ''missingCommit'' (\<lambda>v. check_type Collect [TBoolean] (at_prop p ''missingCommit'') ''#/$defs/RecoveryMember/properties/missingCommit/type'' v),
      on_prop data ''nickname'' (\<lambda>v. check_type Collect [TString] (at_prop p ''nickname'') ''#/$defs/RecoveryMember/properties/nickname/type'' v),
      on_prop data ''pendingMessages'' (\<lambda>data65. then_valid (check_type Collect [TInteger] (at_prop p ''pendingMessages'') ''#/$defs/RecoveryMember/properties/pendingMessages/type'' data65) (check_range Collect None 0 (at_prop p ''pendingMessages'') ''#/$defs/RecoveryMember/properties/pendingMessages'' data65))]))"

definition validate182_membership_recovery :: "json \<Rightarrow> string \<Rightarrow> step" where
  "validate182_membership_recovery data p = on_type Collect TObject p ''#/oneOf/11/type'' data
    (required Collect [''kind'', ''channel'', ''expected'', ''epoch'', ''pending'', ''retained_messages'', ''members''] p ''#/oneOf/11/required'' data
    (properties [
      on_prop data ''channel'' (\<lambda>v. check_type Collect [TString] (at_prop p ''channel'') ''#/oneOf/11/properties/channel/type'' v),
      on_prop data ''epoch'' (\<lambda>v. check_type Collect [TString] (at_prop p ''epoch'') ''#/oneOf/11/properties/epoch/type'' v),
      on_prop data ''expected'' (\<lambda>v. check_type Collect [TString] (at_prop p ''expected'') ''#/oneOf/11/properties/expected/type'' v),
      on_prop data ''kind'' (\<lambda>data58. seq (check_type Collect [TString] (at_prop p ''kind'') ''#/oneOf/11/properties/kind/type'' data58) (check_const Collect ''membership_recovery'' (at_prop p ''kind'') ''#/oneOf/11/properties/kind/const'' data58)),
      on_prop data ''members'' (\<lambda>data59. on_type Collect TArray (at_prop p ''members'') ''#/oneOf/11/properties/members/type'' data59
    (items data59 (\<lambda>i4 data60. validate182_membership_recovery_members_item data60 (at_index (at_prop p ''members'') i4)))),
      on_prop data ''pending'' (\<lambda>v. check_type Collect [TBoolean] (at_prop p ''pending'') ''#/oneOf/11/properties/pending/type'' v),
      on_prop data ''retained_messages'' (\<lambda>data67. then_valid (check_type Collect [TInteger] (at_prop p ''retained_messages'') ''#/oneOf/11/properties/retained_messages/type'' data67) (check_range Collect None 0 (at_prop p ''retained_messages'') ''#/oneOf/11/properties/retained_messages'' data67))]))"

function validate182 :: validator where
  "validate182 data instancePath = run_guard (one_of Return instancePath ''#/oneOf'' [
      validate182_invitation_options data instancePath,
      validate182_invitations data instancePath,
      validate182_reusable_invitation data instancePath,
      validate182_enrollment data instancePath,
      validate182_enrollments (\<lambda>x q. validate182 x q) data instancePath,
      validate182_help data instancePath,
      validate182_directory data instancePath,
      validate182_invitation data instancePath,
      validate182_text data instancePath,
      validate182_status data instancePath,
      validate182_close data instancePath,
      validate182_membership_recovery data instancePath])"
  by pat_completeness auto
termination
  by (relation "measure (size \<circ> fst)") auto

declare validate182.simps [simp del]

definition validate181_output :: "json \<Rightarrow> string \<Rightarrow> step" where
  "validate181_output data p = any_of Return p ''#/properties/output/anyOf'' [
      call validate182 data p,
      check_type Collect [TNull] p ''#/properties/output/anyOf/1/type'' data]"

definition validate181 :: validator where
  "validate181 data instancePath = run_guard (on_type Return TObject instancePath ''#/type'' data
    (required Return [''id'', ''instance'', ''action'', ''started'', ''state''] instancePath ''#/required'' data
    (properties [
      on_prop data ''action'' (\<lambda>v. check_type Return [TString] (at_prop instancePath ''action'') ''#/properties/action/type'' v),
      on_prop data ''conversation'' (\<lambda>data1. check_type Return [TString, TNull] (at_prop instancePath ''conversation'') ''#/properties/conversation/type'' data1),
      on_prop data ''id'' (\<lambda>v. check_type Return [TString] (at_prop instancePath ''id'') ''#/properties/id/type'' v),
      on_prop data ''instance'' (\<lambda>v. check_type Return [TString] (at_prop instancePath ''instance'') ''#/properties/instance/type'' v),
      on_prop data ''message'' (\<lambda>data4. check_type Return [TString, TNull] (at_prop instancePath ''message'') ''#/properties/message/type'' data4),
      on_prop data ''network'' (\<lambda>data5. check_type Return [TString, TNull] (at_prop instancePath ''network'') ''#/properties/network/type'' data5),
      on_prop data ''output'' (\<lambda>data6. validate181_output data6 (at_prop instancePath ''output'')),
      on_prop data ''started'' (\<lambda>data7. then_valid (check_type Return [TInteger] (at_prop instancePath ''started'') ''#/properties/started/type'' data7) (check_range Return None 0 (at_prop instancePath ''started'') ''#/properties/started'' data7)),
      on_prop data ''state'' (\<lambda>v. check_type Return [TString] (at_prop instancePath ''state'') ''#/properties/state/type'' v)])))"

definition validate174_activity_item :: "json \<Rightarrow> string \<Rightarrow> step" where
  "validate174_activity_item data p = on_type Return TObject p ''#/$defs/Activity/type'' data
    (required Return [''id'', ''conversation'', ''kind'', ''text'', ''timestamp''] p ''#/$defs/Activity/required'' data
    (properties [
      on_prop data ''conversation'' (\<lambda>v. check_type Return [TString] (at_prop p ''conversation'') ''#/$defs/Activity/properties/conversation/type'' v),
      on_prop data ''id'' (\<lambda>v. check_type Return [TString] (at_prop p ''id'') ''#/$defs/Activity/properties/id/type'' v),
      on_prop data ''kind'' (\<lambda>v. check_type Return [TString] (at_prop p ''kind'') ''#/$defs/Activity/properties/kind/type'' v),
      on_prop data ''text'' (\<lambda>v. check_type Return [TString] (at_prop p ''text'') ''#/$defs/Activity/properties/text/type'' v),
      on_prop data ''timestamp'' (\<lambda>data6. then_valid (check_type Return [TInteger] (at_prop p ''timestamp'') ''#/$defs/Activity/properties/timestamp/type'' data6) (check_range Return None 0 (at_prop p ''timestamp'') ''#/$defs/Activity/properties/timestamp'' data6))]))"

definition validate174_inputHistory_item :: "json \<Rightarrow> string \<Rightarrow> step" where
  "validate174_inputHistory_item data p = on_type Return TObject p ''#/$defs/InputHistoryEntry/type'' data
    (required Return [''text''] p ''#/$defs/InputHistoryEntry/required'' data
    (properties [
      on_prop data ''conversation'' (\<lambda>data13. check_type Return [TString, TNull] (at_prop p ''conversation'') ''#/$defs/InputHistoryEntry/properties/conversation/type'' data13),
      on_prop data ''text'' (\<lambda>v. check_type Return [TString] (at_prop p ''text'') ''#/$defs/InputHistoryEntry/properties/text/type'' v)]))"

definition validate174_providerErrors_item :: "json \<Rightarrow> string \<Rightarrow> step" where
  "validate174_providerErrors_item data p = on_type Return TObject p ''#/$defs/ProviderStatus/type'' data
    (required Return [''id'', ''code'', ''message'', ''retryable''] p ''#/$defs/ProviderStatus/required'' data
    (properties [
      on_prop data ''code'' (\<lambda>v. check_type Return [TString] (at_prop p ''code'') ''#/$defs/ProviderStatus/properties/code/type'' v),
      on_prop data ''id'' (\<lambda>v. check_type Return [TString] (at_prop p ''id'') ''#/$defs/ProviderStatus/properties/id/type'' v),
      on_prop data ''message'' (\<lambda>v. check_type Return [TString] (at_prop p ''message'') ''#/$defs/ProviderStatus/properties/message/type'' v),
      on_prop data ''retryable'' (\<lambda>v. check_type Return [TBoolean] (at_prop p ''retryable'') ''#/$defs/ProviderStatus/properties/retryable/type'' v)]))"

definition validate174 :: validator where
  "validate174 data instancePath = run_guard (on_type Return TObject instancePath ''#/type'' data
    (required Return [''instance'', ''revision'', ''conversations'', ''commandHistory'', ''inputHistory''] instancePath ''#/required'' data
    (properties [
      on_prop data ''activity'' (\<lambda>data0. then_valid (check_type Return [TArray, TNull] (at_prop instancePath ''activity'') ''#/properties/activity/type'' data0) (items data0 (\<lambda>i0 data1. validate174_activity_item data1 (at_index (at_prop instancePath ''activity'') i0)))),
      on_prop data ''commandHistory'' (\<lambda>data7. on_type Return TArray (at_prop instancePath ''commandHistory'') ''#/properties/commandHistory/type'' data7
    (items data7 (\<lambda>i1 item. check_type Return [TString] (at_index (at_prop instancePath ''commandHistory'') i1) ''#/properties/commandHistory/items/type'' item))),
      on_prop data ''conversations'' (\<lambda>data9. on_type Return TArray (at_prop instancePath ''conversations'') ''#/properties/conversations/type'' data9
    (items data9 (\<lambda>i2 item. call validate175 item (at_index (at_prop instancePath ''conversations'') i2)))),
      on_prop data ''inputHistory'' (\<lambda>data11. on_type Return TArray (at_prop instancePath ''inputHistory'') ''#/properties/inputHistory/type'' data11
    (items data11 (\<lambda>i3 data12. validate174_inputHistory_item data12 (at_index (at_prop instancePath ''inputHistory'') i3)))),
      on_prop data ''instance'' (\<lambda>v. call validate179 v (at_prop instancePath ''instance'')),
      on_prop data ''operations'' (\<lambda>data16. then_valid (check_type Return [TArray, TNull] (at_prop instancePath ''operations'') ''#/properties/operations/type'' data16) (items data16 (\<lambda>i4 item. call validate181 item (at_index (at_prop instancePath ''operations'') i4)))),
      on_prop data ''presenceEnabled'' (\<lambda>data18. check_type Return [TBoolean, TNull] (at_prop instancePath ''presenceEnabled'') ''#/properties/presenceEnabled/type'' data18),
      on_prop data ''providerErrors'' (\<lambda>data19. on_type Return TArray (at_prop instancePath ''providerErrors'') ''#/properties/providerErrors/type'' data19
    (items data19 (\<lambda>i5 data20. validate174_providerErrors_item data20 (at_index (at_prop instancePath ''providerErrors'') i5)))),
      on_prop data ''revision'' (\<lambda>v. check_type Return [TString] (at_prop instancePath ''revision'') ''#/properties/revision/type'' v)])))"

definition validate192_presence_any0_available :: "json \<Rightarrow> string \<Rightarrow> step" where
  "validate192_presence_any0_available data p = on_type Collect TObject p ''#/$defs/MemberPresence/oneOf/0/type'' data
    (required Collect [''state''] p ''#/$defs/MemberPresence/oneOf/0/required'' data
    (properties [
      on_prop data ''state'' (\<lambda>data6. seq (check_type Collect [TString] (at_prop p ''state'') ''#/$defs/MemberPresence/oneOf/0/properties/state/type'' data6) (check_const Collect ''available'' (at_prop p ''state'') ''#/$defs/MemberPresence/oneOf/0/properties/state/const'' data6))]))"

definition validate192_presence_any0_away :: "json \<Rightarrow> string \<Rightarrow> step" where
  "validate192_presence_any0_away data p = on_type Collect TObject p ''#/$defs/MemberPresence/oneOf/1/type'' data
    (required Collect [''state'', ''reason''] p ''#/$defs/MemberPresence/oneOf/1/required'' data
    (properties [
      on_prop data ''reason'' (\<lambda>v. check_type Collect [TString] (at_prop p ''reason'') ''#/$defs/MemberPresence/oneOf/1/properties/reason/type'' v),
      on_prop data ''state'' (\<lambda>data8. seq (check_type Collect [TString] (at_prop p ''state'') ''#/$defs/MemberPresence/oneOf/1/properties/state/type'' data8) (check_const Collect ''away'' (at_prop p ''state'') ''#/$defs/MemberPresence/oneOf/1/properties/state/const'' data8))]))"

definition validate192_presence_any0_unknown :: "json \<Rightarrow> string \<Rightarrow> step" where
  "validate192_presence_any0_unknown data p = on_type Collect TObject p ''#/$defs/MemberPresence/oneOf/2/type'' data
    (required Collect [''state''] p ''#/$defs/MemberPresence/oneOf/2/required'' data
    (properties [
      on_prop data ''state'' (\<lambda>data9. seq (check_type Collect [TString] (at_prop p ''state'') ''#/$defs/MemberPresence/oneOf/2/properties/state/type'' data9) (check_const Collect ''unknown'' (at_prop p ''state'') ''#/$defs/MemberPresence/oneOf/2/properties/state/const'' data9))]))"

definition validate192_presence_any0 :: "json \<Rightarrow> string \<Rightarrow> step" where
  "validate192_presence_any0 data p = one_of Collect p ''#/$defs/MemberPresence/oneOf'' [
      validate192_presence_any0_available data p,
      validate192_presence_any0_away data p,
      validate192_presence_any0_unknown data p]"

definition validate192_presence :: "json \<Rightarrow> string \<Rightarrow> step" where
  "validate192_presence data p = any_of Return p ''#/properties/presence/anyOf'' [
      validate192_presence_any0 data p,
      check_type Collect [TNull] p ''#/properties/presence/anyOf/1/type'' data]"

definition validate192 :: validator where
  "validate192 data instancePath = run_guard (on_type Return TObject instancePath ''#/type'' data
    (required Return [''id'', ''nickname'', ''isSelf''] instancePath ''#/required'' data
    (properties [
      on_prop data ''capabilities'' (\<lambda>data0. on_type Return TArray (at_prop instancePath ''capabilities'') ''#/properties/capabilities/type'' data0
    (items data0 (\<lambda>i0 item. check_type Return [TString] (at_index (at_prop instancePath ''capabilities'') i0) ''#/properties/capabilities/items/type'' item))),
      on_prop data ''id'' (\<lambda>v. check_type Return [TString] (at_prop instancePath ''id'') ''#/properties/id/type'' v),
      on_prop data ''isSelf'' (\<lambda>v. check_type Return [TBoolean] (at_prop instancePath ''isSelf'') ''#/properties/isSelf/type'' v),
      on_prop data ''nickname'' (\<lambda>v. check_type Return [TString] (at_prop instancePath ''nickname'') ''#/properties/nickname/type'' v),
      on_prop data ''presence'' (\<lambda>data5. validate192_presence data5 (at_prop instancePath ''presence'')),
      on_prop data ''recentlyActive'' (\<lambda>data10. check_type Return [TBoolean, TNull] (at_prop instancePath ''recentlyActive'') ''#/properties/recentlyActive/type'' data10)])))"

definition validate191_catchUp_any0 :: "json \<Rightarrow> string \<Rightarrow> step" where
  "validate191_catchUp_any0 data p = on_type Collect TObject p ''#/$defs/ChannelCatchUp/type'' data
    (required Collect [''appliedRecords''] p ''#/$defs/ChannelCatchUp/required'' data
    (properties [
      on_prop data ''appliedRecords'' (\<lambda>data2. then_valid (check_type Collect [TInteger] (at_prop p ''appliedRecords'') ''#/$defs/ChannelCatchUp/properties/appliedRecords/type'' data2) (check_range Collect None 0 (at_prop p ''appliedRecords'') ''#/$defs/ChannelCatchUp/properties/appliedRecords'' data2))]))"

definition validate191_catchUp :: "json \<Rightarrow> string \<Rightarrow> step" where
  "validate191_catchUp data p = any_of Return p ''#/properties/catchUp/anyOf'' [
      validate191_catchUp_any0 data p,
      check_type Collect [TNull] p ''#/properties/catchUp/anyOf/1/type'' data]"

definition validate191_commands_item :: "json \<Rightarrow> string \<Rightarrow> step" where
  "validate191_commands_item data p = on_type Return TObject p ''#/$defs/CommandSpec/type'' data
    (required Return [''name'', ''usage'', ''description'', ''scope'', ''available''] p ''#/$defs/CommandSpec/required'' data
    (properties [
      on_prop data ''available'' (\<lambda>v. check_type Return [TBoolean] (at_prop p ''available'') ''#/$defs/CommandSpec/properties/available/type'' v),
      on_prop data ''capability'' (\<lambda>data7. check_type Return [TString, TNull] (at_prop p ''capability'') ''#/$defs/CommandSpec/properties/capability/type'' data7),
      on_prop data ''description'' (\<lambda>v. check_type Return [TString] (at_prop p ''description'') ''#/$defs/CommandSpec/properties/description/type'' v),
      on_prop data ''name'' (\<lambda>v. check_type Return [TString] (at_prop p ''name'') ''#/$defs/CommandSpec/properties/name/type'' v),
      on_prop data ''scope'' (\<lambda>v. check_type Return [TString] (at_prop p ''scope'') ''#/$defs/CommandSpec/properties/scope/type'' v),
      on_prop data ''usage'' (\<lambda>v. check_type Return [TString] (at_prop p ''usage'') ''#/$defs/CommandSpec/properties/usage/type'' v)]))"

definition validate191_policy_any0 :: "json \<Rightarrow> string \<Rightarrow> step" where
  "validate191_policy_any0 data p = on_type Collect TObject p ''#/$defs/ChannelPolicy/type'' data
    (required Collect [''profile'', ''capacity'', ''moderated'', ''inviteOnly'', ''topicOperators'', ''presenceEnabled''] p ''#/$defs/ChannelPolicy/required'' data
    (properties [
      on_prop data ''capacity'' (\<lambda>data23. then_valid (check_type Collect [TInteger] (at_prop p ''capacity'') ''#/$defs/ChannelPolicy/properties/capacity/type'' data23) (check_range Collect None 0 (at_prop p ''capacity'') ''#/$defs/ChannelPolicy/properties/capacity'' data23)),
      on_prop data ''inviteOnly'' (\<lambda>v. check_type Collect [TBoolean] (at_prop p ''inviteOnly'') ''#/$defs/ChannelPolicy/properties/inviteOnly/type'' v),
      on_prop data ''moderated'' (\<lambda>v. check_type Collect [TBoolean] (at_prop p ''moderated'') ''#/$defs/ChannelPolicy/properties/moderated/type'' v),
      on_prop data ''presenceEnabled'' (\<lambda>v. check_type Collect [TBoolean] (at_prop p ''presenceEnabled'') ''#/$defs/ChannelPolicy/properties/presenceEnabled/type'' v),
      on_prop data ''profile'' (\<lambda>v. check_type Collect [TString] (at_prop p ''profile'') ''#/$defs/ChannelPolicy/properties/profile/type'' v),
      on_prop data ''topicOperators'' (\<lambda>v. check_type Collect [TBoolean] (at_prop p ''topicOperators'') ''#/$defs/ChannelPolicy/properties/topicOperators/type'' v)]))"

definition validate191_policy :: "json \<Rightarrow> string \<Rightarrow> step" where
  "validate191_policy data p = any_of Return p ''#/properties/policy/anyOf'' [
      validate191_policy_any0 data p,
      check_type Collect [TNull] p ''#/properties/policy/anyOf/1/type'' data]"

definition validate191 :: validator where
  "validate191 data instancePath = run_guard (on_type Return TObject instancePath ''#/type'' data
    (required Return [''id'', ''channelId'', ''kind'', ''name'', ''topic'', ''active'', ''owner'', ''members'', ''unread''] instancePath ''#/required'' data
    (properties [
      on_prop data ''active'' (\<lambda>v. check_type Return [TBoolean] (at_prop instancePath ''active'') ''#/properties/active/type'' v),
      on_prop data ''catchUp'' (\<lambda>data1. validate191_catchUp data1 (at_prop instancePath ''catchUp'')),
      on_prop data ''channelId'' (\<lambda>v. check_type Return [TString] (at_prop instancePath ''channelId'') ''#/properties/channelId/type'' v),
      on_prop data ''commands'' (\<lambda>data4. on_type Return TArray (at_prop instancePath ''commands'') ''#/properties/commands/type'' data4
    (items data4 (\<lambda>i0 data5. validate191_commands_item data5 (at_index (at_prop instancePath ''commands'') i0)))),
      on_prop data ''directory'' (\<lambda>data12. check_type Return [TString, TNull] (at_prop instancePath ''directory'') ''#/properties/directory/type'' data12),
      on_prop data ''id'' (\<lambda>v. check_type Return [TString] (at_prop instancePath ''id'') ''#/properties/id/type'' v),
      on_prop data ''inputLimitBytes'' (\<lambda>data14. then_valid (check_type Return [TInteger] (at_prop instancePath ''inputLimitBytes'') ''#/properties/inputLimitBytes/type'' data14) (check_range Return None 0 (at_prop instancePath ''inputLimitBytes'') ''#/properties/inputLimitBytes'' data14)),
      on_prop data ''kind'' (\<lambda>data15. seq (check_type Return [TString] (at_prop instancePath ''kind'') ''#/$defs/ConversationKind/type'' data15) (check_enum Return [''channel'', ''query'', ''archive''] (at_prop instancePath ''kind'') ''#/$defs/ConversationKind/enum'' data15)),
      on_prop data ''lastMessageId'' (\<lambda>data16. check_type Return [TString, TNull] (at_prop instancePath ''lastMessageId'') ''#/properties/lastMessageId/type'' data16),
      on_prop data ''members'' (\<lambda>data17. on_type Return TArray (at_prop instancePath ''members'') ''#/properties/members/type'' data17
    (items data17 (\<lambda>i1 item. call validate192 item (at_index (at_prop instancePath ''members'') i1)))),
      on_prop data ''muted'' (\<lambda>data19. check_type Return [TBoolean, TNull] (at_prop instancePath ''muted'') ''#/properties/muted/type'' data19),
      on_prop data ''name'' (\<lambda>v. check_type Return [TString] (at_prop instancePath ''name'') ''#/properties/name/type'' v),
      on_prop data ''owner'' (\<lambda>v. check_type Return [TBoolean] (at_prop instancePath ''owner'') ''#/properties/owner/type'' v),
      on_prop data ''policy'' (\<lambda>data22. validate191_policy data22 (at_prop instancePath ''policy'')),
      on_prop data ''provider'' (\<lambda>data29. check_type Return [TString, TNull] (at_prop instancePath ''provider'') ''#/properties/provider/type'' data29),
      on_prop data ''topic'' (\<lambda>v. check_type Return [TString] (at_prop instancePath ''topic'') ''#/properties/topic/type'' v),
      on_prop data ''unread'' (\<lambda>data31. then_valid (check_type Return [TInteger] (at_prop instancePath ''unread'') ''#/properties/unread/type'' data31) (check_range Return None 0 (at_prop instancePath ''unread'') ''#/properties/unread'' data31)),
      on_prop data ''visibility'' (\<lambda>data32. check_type Return [TString, TNull] (at_prop instancePath ''visibility'') ''#/properties/visibility/type'' data32)])))"

definition validate195_build_any0 :: "json \<Rightarrow> string \<Rightarrow> step" where
  "validate195_build_any0 data p = on_type Collect TObject p ''#/$defs/BuildInfo/type'' data
    (required Collect [''releaseId'', ''gchatCommit'', ''gcomsCommit'', ''version''] p ''#/$defs/BuildInfo/required'' data
    (properties [
      on_prop data ''gchatCommit'' (\<lambda>v. check_type Collect [TString] (at_prop p ''gchatCommit'') ''#/$defs/BuildInfo/properties/gchatCommit/type'' v),
      on_prop data ''gcomsCommit'' (\<lambda>v. check_type Collect [TString] (at_prop p ''gcomsCommit'') ''#/$defs/BuildInfo/properties/gcomsCommit/type'' v),
      on_prop data ''releaseId'' (\<lambda>v. check_type Collect [TString] (at_prop p ''releaseId'') ''#/$defs/BuildInfo/properties/releaseId/type'' v),
      on_prop data ''version'' (\<lambda>v. check_type Collect [TString] (at_prop p ''version'') ''#/$defs/BuildInfo/properties/version/type'' v)]))"

definition validate195_build :: "json \<Rightarrow> string \<Rightarrow> step" where
  "validate195_build data p = any_of Return p ''#/properties/build/anyOf'' [
      validate195_build_any0 data p,
      check_type Collect [TNull] p ''#/properties/build/anyOf/1/type'' data]"

definition validate195 :: validator where
  "validate195 data instancePath = run_guard (on_type Return TObject instancePath ''#/type'' data
    (required Return [''id'', ''label'', ''bootId'', ''locked'', ''protocolLocked'', ''profileExists'', ''archiveExists'', ''safetyNumber'', ''capabilities''] instancePath ''#/required'' data
    (properties [
      on_prop data ''archiveExists'' (\<lambda>v. check_type Return [TBoolean] (at_prop instancePath ''archiveExists'') ''#/properties/archiveExists/type'' v),
      on_prop data ''bootId'' (\<lambda>v. check_type Return [TString] (at_prop instancePath ''bootId'') ''#/properties/bootId/type'' v),
      on_prop data ''build'' (\<lambda>data2. validate195_build data2 (at_prop instancePath ''build'')),
      on_prop data ''capabilities'' (\<lambda>data7. on_type Return TArray (at_prop instancePath ''capabilities'') ''#/properties/capabilities/type'' data7
    (items data7 (\<lambda>i0 item. check_type Return [TString] (at_index (at_prop instancePath ''capabilities'') i0) ''#/properties/capabilities/items/type'' item))),
      on_prop data ''id'' (\<lambda>v. check_type Return [TString] (at_prop instancePath ''id'') ''#/properties/id/type'' v),
      on_prop data ''label'' (\<lambda>v. check_type Return [TString] (at_prop instancePath ''label'') ''#/properties/label/type'' v),
      on_prop data ''locked'' (\<lambda>v. check_type Return [TBoolean] (at_prop instancePath ''locked'') ''#/properties/locked/type'' v),
      on_prop data ''profileExists'' (\<lambda>v. check_type Return [TBoolean] (at_prop instancePath ''profileExists'') ''#/properties/profileExists/type'' v),
      on_prop data ''protocolLocked'' (\<lambda>v. check_type Return [TBoolean] (at_prop instancePath ''protocolLocked'') ''#/properties/protocolLocked/type'' v),
      on_prop data ''safetyNumber'' (\<lambda>v. check_type Return [TString] (at_prop instancePath ''safetyNumber'') ''#/properties/safetyNumber/type'' v)])))"

definition validate198_invitation_options :: "json \<Rightarrow> string \<Rightarrow> step" where
  "validate198_invitation_options data p = on_type Collect TObject p ''#/oneOf/0/type'' data
    (required Collect [''kind'', ''channel''] p ''#/oneOf/0/required'' data
    (properties [
      on_prop data ''channel'' (\<lambda>v. check_type Collect [TString] (at_prop p ''channel'') ''#/oneOf/0/properties/channel/type'' v),
      on_prop data ''kind'' (\<lambda>data1. seq (check_type Collect [TString] (at_prop p ''kind'') ''#/oneOf/0/properties/kind/type'' data1) (check_const Collect ''invitation_options'' (at_prop p ''kind'') ''#/oneOf/0/properties/kind/const'' data1))]))"

definition validate198_invitations_records_item :: "json \<Rightarrow> string \<Rightarrow> step" where
  "validate198_invitations_records_item data p = on_type Collect TObject p ''#/$defs/InvitationRecord/type'' data
    (required Collect [''id'', ''admitted'', ''pending'', ''revoked''] p ''#/$defs/InvitationRecord/required'' data
    (properties [
      on_prop data ''admitted'' (\<lambda>data6. then_valid (check_type Collect [TInteger] (at_prop p ''admitted'') ''#/$defs/InvitationRecord/properties/admitted/type'' data6) (check_range Collect None 0 (at_prop p ''admitted'') ''#/$defs/InvitationRecord/properties/admitted'' data6)),
      on_prop data ''expires'' (\<lambda>data7. then_valid (check_type Collect [TInteger, TNull] (at_prop p ''expires'') ''#/$defs/InvitationRecord/properties/expires/type'' data7) (check_range Collect None 0 (at_prop p ''expires'') ''#/$defs/InvitationRecord/properties/expires'' data7)),
      on_prop data ''id'' (\<lambda>v. check_type Collect [TString] (at_prop p ''id'') ''#/$defs/InvitationRecord/properties/id/type'' v),
      on_prop data ''limit'' (\<lambda>data9. then_valid (check_type Collect [TInteger, TNull] (at_prop p ''limit'') ''#/$defs/InvitationRecord/properties/limit/type'' data9) (check_range Collect None 0 (at_prop p ''limit'') ''#/$defs/InvitationRecord/properties/limit'' data9)),
      on_prop data ''pending'' (\<lambda>data10. then_valid (check_type Collect [TInteger] (at_prop p ''pending'') ''#/$defs/InvitationRecord/properties/pending/type'' data10) (check_range Collect None 0 (at_prop p ''pending'') ''#/$defs/InvitationRecord/properties/pending'' data10)),
      on_prop data ''revoked'' (\<lambda>v. check_type Collect [TBoolean] (at_prop p ''revoked'') ''#/$defs/InvitationRecord/properties/revoked/type'' v)]))"

definition validate198_invitations :: "json \<Rightarrow> string \<Rightarrow> step" where
  "validate198_invitations data p = on_type Collect TObject p ''#/oneOf/1/type'' data
    (required Collect [''kind'', ''channel'', ''records''] p ''#/oneOf/1/required'' data
    (properties [
      on_prop data ''channel'' (\<lambda>v. check_type Collect [TString] (at_prop p ''channel'') ''#/oneOf/1/properties/channel/type'' v),
      on_prop data ''kind'' (\<lambda>data3. seq (check_type Collect [TString] (at_prop p ''kind'') ''#/oneOf/1/properties/kind/type'' data3) (check_const Collect ''invitations'' (at_prop p ''kind'') ''#/oneOf/1/properties/kind/const'' data3)),
      on_prop data ''records'' (\<lambda>data4. on_type Collect TArray (at_prop p ''records'') ''#/oneOf/1/properties/records/type'' data4
    (items data4 (\<lambda>i0 data5. validate198_invitations_records_item data5 (at_index (at_prop p ''records'') i0))))]))"

definition validate198_reusable_invitation :: "json \<Rightarrow> string \<Rightarrow> step" where
  "validate198_reusable_invitation data p = on_type Collect TObject p ''#/oneOf/2/type'' data
    (required Collect [''kind'', ''channel'', ''link'', ''id'', ''localOnly''] p ''#/oneOf/2/required'' data
    (properties [
      on_prop data ''channel'' (\<lambda>v. check_type Collect [TString] (at_prop p ''channel'') ''#/oneOf/2/properties/channel/type'' v),
      on_prop data ''expires'' (\<lambda>data13. then_valid (check_type Collect [TInteger, TNull] (at_prop p ''expires'') ''#/oneOf/2/properties/expires/type'' data13) (check_range Collect None 0 (at_prop p ''expires'') ''#/oneOf/2/properties/expires'' data13)),
      on_prop data ''id'' (\<lambda>v. check_type Collect [TString] (at_prop p ''id'') ''#/oneOf/2/properties/id/type'' v),
      on_prop data ''kind'' (\<lambda>data15. seq (check_type Collect [TString] (at_prop p ''kind'') ''#/oneOf/2/properties/kind/type'' data15) (check_const Collect ''reusable_invitation'' (at_prop p ''kind'') ''#/oneOf/2/properties/kind/const'' data15)),
      on_prop data ''limit'' (\<lambda>data16. then_valid (check_type Collect [TInteger, TNull] (at_prop p ''limit'') ''#/oneOf/2/properties/limit/type'' data16) (check_range Collect None 0 (at_prop p ''limit'') ''#/oneOf/2/properties/limit'' data16)),
      on_prop data ''link'' (\<lambda>v. check_type Collect [TString] (at_prop p ''link'') ''#/oneOf/2/properties/link/type'' v),
      on_prop data ''localOnly'' (\<lambda>v. check_type Collect [TBoolean] (at_prop p ''localOnly'') ''#/oneOf/2/properties/localOnly/type'' v)]))"

definition validate198_enrollment :: "json \<Rightarrow> string \<Rightarrow> step" where
  "validate198_enrollment data p = on_type Collect TObject p ''#/oneOf/3/type'' data
    (required Collect [''kind'', ''id'', ''channel'', ''phase'', ''attempts''] p ''#/oneOf/3/required'' data
    (properties [
      on_prop data ''attempts'' (\<lambda>data19. then_valid (check_type Collect [TInteger] (at_prop p ''attempts'') ''#/oneOf/3/properties/attempts/type'' data19) (check_range Collect None 0 (at_prop p ''attempts'') ''#/oneOf/3/properties/attempts'' data19)),
      on_prop data ''channel'' (\<lambda>v. check_type Collect [TString] (at_prop p ''channel'') ''#/oneOf/3/properties/channel/type'' v),
      on_prop data ''id'' (\<lambda>v. check_type Collect [TString] (at_prop p ''id'') ''#/oneOf/3/properties/id/type'' v),
      on_prop data ''kind'' (\<lambda>data22. seq (check_type Collect [TString] (at_prop p ''kind'') ''#/oneOf/3/properties/kind/type'' data22) (check_const Collect ''enrollment'' (at_prop p ''kind'') ''#/oneOf/3/properties/kind/const'' data22)),
      on_prop data ''message'' (\<lambda>data23. check_type Collect [TString, TNull] (at_prop p ''message'') ''#/oneOf/3/properties/message/type'' data23),
      on_prop data ''phase'' (\<lambda>v. check_type Collect [TString] (at_prop p ''phase'') ''#/oneOf/3/properties/phase/type'' v)]))"

definition validate198_enrollments :: "validator \<Rightarrow> json \<Rightarrow> string \<Rightarrow> step" where
  "validate198_enrollments recur data p = on_type Collect TObject p ''#/oneOf/4/type'' data
    (required Collect [''kind'', ''entries''] p ''#/oneOf/4/required'' data
    (properties [
      on_prop data ''entries'' (\<lambda>data25. on_type Collect TArray (at_prop p ''entries'') ''#/oneOf/4/properties/entries/type'' data25
    (items data25 (\<lambda>i1 item. call recur item (at_index (at_prop p ''entries'') i1)))),
      on_prop data ''kind'' (\<lambda>data27. seq (check_type Collect [TString] (at_prop p ''kind'') ''#/oneOf/4/properties/kind/type'' data27) (check_const Collect ''enrollments'' (at_prop p ''kind'') ''#/oneOf/4/properties/kind/const'' data27))]))"

lemma validate198_enrollments_cong [fundef_cong]:
  "data = data' \<Longrightarrow> p = p' \<Longrightarrow> (\<And>x q. size x < size data' \<Longrightarrow> v x q = v' x q) \<Longrightarrow>
   validate198_enrollments v data p = validate198_enrollments v' data' p'"
  by (simp add: validate198_enrollments_def on_prop_items_cong[of data' v v'])

definition validate198_help_commands_item :: "json \<Rightarrow> string \<Rightarrow> step" where
  "validate198_help_commands_item data p = on_type Collect TObject p ''#/$defs/CommandSpec/type'' data
    (required Collect [''name'', ''usage'', ''description'', ''scope'', ''available''] p ''#/$defs/CommandSpec/required'' data
    (properties [
      on_prop data ''available'' (\<lambda>v. check_type Collect [TBoolean] (at_prop p ''available'') ''#/$defs/CommandSpec/properties/available/type'' v),
      on_prop data ''capability'' (\<lambda>data31. check_type Collect [TString, TNull] (at_prop p ''capability'') ''#/$defs/CommandSpec/properties/capability/type'' data31),
      on_prop data ''description'' (\<lambda>v. check_type Collect [TString] (at_prop p ''description'') ''#/$defs/CommandSpec/properties/description/type'' v),
      on_prop data ''name'' (\<lambda>v. check_type Collect [TString] (at_prop p ''name'') ''#/$defs/CommandSpec/properties/name/type'' v),
      on_prop data ''scope'' (\<lambda>v. check_type Collect [TString] (at_prop p ''scope'') ''#/$defs/CommandSpec/properties/scope/type'' v),
      on_prop data ''usage'' (\<lambda>v. check_type Collect [TString] (at_prop p ''usage'') ''#/$defs/CommandSpec/properties/usage/type'' v)]))"

definition validate198_help :: "json \<Rightarrow> string \<Rightarrow> step" where
  "validate198_help data p = on_type Collect TObject p ''#/oneOf/5/type'' data
    (required Collect [''kind'', ''commands''] p ''#/oneOf/5/required'' data
    (properties [
      on_prop data ''commands'' (\<lambda>data28. on_type Collect TArray (at_prop p ''commands'') ''#/oneOf/5/properties/commands/type'' data28
    (items data28 (\<lambda>i2 data29. validate198_help_commands_item data29 (at_index (at_prop p ''commands'') i2)))),
      on_prop data ''kind'' (\<lambda>data36. seq (check_type Collect [TString] (at_prop p ''kind'') ''#/oneOf/5/properties/kind/type'' data36) (check_const Collect ''help'' (at_prop p ''kind'') ''#/oneOf/5/properties/kind/const'' data36))]))"

definition validate198_directory_channels_item :: "json \<Rightarrow> string \<Rightarrow> step" where
  "validate198_directory_channels_item data p = on_type Collect TObject p ''#/$defs/DirectoryEntry/type'' data
    (required Collect [''name'', ''joined''] p ''#/$defs/DirectoryEntry/required'' data
    (properties [
      on_prop data ''conversation'' (\<lambda>data39. check_type Collect [TString, TNull] (at_prop p ''conversation'') ''#/$defs/DirectoryEntry/properties/conversation/type'' data39),
      on_prop data ''joined'' (\<lambda>v. check_type Collect [TBoolean] (at_prop p ''joined'') ''#/$defs/DirectoryEntry/properties/joined/type'' v),
      on_prop data ''name'' (\<lambda>v. check_type Collect [TString] (at_prop p ''name'') ''#/$defs/DirectoryEntry/properties/name/type'' v)]))"

definition validate198_directory :: "json \<Rightarrow> string \<Rightarrow> step" where
  "validate198_directory data p = on_type Collect TObject p ''#/oneOf/6/type'' data
    (required Collect [''kind'', ''channels''] p ''#/oneOf/6/required'' data
    (properties [
      on_prop data ''channels'' (\<lambda>data37. on_type Collect TArray (at_prop p ''channels'') ''#/oneOf/6/properties/channels/type'' data37
    (items data37 (\<lambda>i3 data38. validate198_directory_channels_item data38 (at_index (at_prop p ''channels'') i3)))),
      on_prop data ''kind'' (\<lambda>data42. seq (check_type Collect [TString] (at_prop p ''kind'') ''#/oneOf/6/properties/kind/type'' data42) (check_const Collect ''directory'' (at_prop p ''kind'') ''#/oneOf/6/properties/kind/const'' data42))]))"

definition validate198_invitation :: "json \<Rightarrow> string \<Rightarrow> step" where
  "validate198_invitation data p = on_type Collect TObject p ''#/oneOf/7/type'' data
    (required Collect [''kind'', ''channel'', ''link'', ''expires''] p ''#/oneOf/7/required'' data
    (properties [
      on_prop data ''channel'' (\<lambda>v. check_type Collect [TString] (at_prop p ''channel'') ''#/oneOf/7/properties/channel/type'' v),
      on_prop data ''expires'' (\<lambda>data44. then_valid (check_type Collect [TInteger] (at_prop p ''expires'') ''#/oneOf/7/properties/expires/type'' data44) (check_range Collect None 0 (at_prop p ''expires'') ''#/oneOf/7/properties/expires'' data44)),
      on_prop data ''kind'' (\<lambda>data45. seq (check_type Collect [TString] (at_prop p ''kind'') ''#/oneOf/7/properties/kind/type'' data45) (check_const Collect ''invitation'' (at_prop p ''kind'') ''#/oneOf/7/properties/kind/const'' data45)),
      on_prop data ''link'' (\<lambda>v. check_type Collect [TString] (at_prop p ''link'') ''#/oneOf/7/properties/link/type'' v),
      on_prop data ''localOnly'' (\<lambda>v. check_type Collect [TBoolean] (at_prop p ''localOnly'') ''#/oneOf/7/properties/localOnly/type'' v)]))"

definition validate198_text :: "json \<Rightarrow> string \<Rightarrow> step" where
  "validate198_text data p = on_type Collect TObject p ''#/oneOf/8/type'' data
    (required Collect [''kind'', ''title'', ''text''] p ''#/oneOf/8/required'' data
    (properties [
      on_prop data ''kind'' (\<lambda>data48. seq (check_type Collect [TString] (at_prop p ''kind'') ''#/oneOf/8/properties/kind/type'' data48) (check_const Collect ''text'' (at_prop p ''kind'') ''#/oneOf/8/properties/kind/const'' data48)),
      on_prop data ''text'' (\<lambda>v. check_type Collect [TString] (at_prop p ''text'') ''#/oneOf/8/properties/text/type'' v),
      on_prop data ''title'' (\<lambda>v. check_type Collect [TString] (at_prop p ''title'') ''#/oneOf/8/properties/title/type'' v)]))"

definition validate198_status :: "json \<Rightarrow> string \<Rightarrow> step" where
  "validate198_status data p = on_type Collect TObject p ''#/oneOf/9/type'' data
    (required Collect [''kind'', ''text''] p ''#/oneOf/9/required'' data
    (properties [
      on_prop data ''kind'' (\<lambda>data51. seq (check_type Collect [TString] (at_prop p ''kind'') ''#/oneOf/9/properties/kind/type'' data51) (check_const Collect ''status'' (at_prop p ''kind'') ''#/oneOf/9/properties/kind/const'' data51)),
      on_prop data ''text'' (\<lambda>v. check_type Collect [TString] (at_prop p ''text'') ''#/oneOf/9/properties/text/type'' v)]))"

definition validate198_close :: "json \<Rightarrow> string \<Rightarrow> step" where
  "validate198_close data p = on_type Collect TObject p ''#/oneOf/10/type'' data
    (required Collect [''kind'', ''conversation''] p ''#/oneOf/10/required'' data
    (properties [
      on_prop data ''conversation'' (\<lambda>v. check_type Collect [TString] (at_prop p ''conversation'') ''#/oneOf/10/properties/conversation/type'' v),
      on_prop data ''kind'' (\<lambda>data54. seq (check_type Collect [TString] (at_prop p ''kind'') ''#/oneOf/10/properties/kind/type'' data54) (check_const Collect ''close'' (at_prop p ''kind'') ''#/oneOf/10/properties/kind/const'' data54))]))"

definition validate198_membership_recovery_members_item :: "json \<Rightarrow> string \<Rightarrow> step" where
  "validate198_membership_recovery_members_item data p = on_type Collect TObject p ''#/$defs/RecoveryMember/type'' data
    (required Collect [''id'', ''nickname'', ''isSelf'', ''missingCommit'', ''pendingMessages''] p ''#/$defs/RecoveryMember/required'' data
    (properties [
      on_prop data ''id'' (\<lambda>v. check_type Collect [TString] (at_prop p ''id'') ''#/$defs/RecoveryMember/properties/id/type'' v),
      on_prop data ''isSelf'' (\<lambda>v. check_type Collect [TBoolean] (at_prop p ''isSelf'') ''#/$defs/RecoveryMember/properties/isSelf/type'' v),
      on_prop data ''missingCommit'' (\<lambda>v. check_type Collect [TBoolean] (at_prop p ''missingCommit'') ''#/$defs/RecoveryMember/properties/missingCommit/type'' v),
      on_prop data ''nickname'' (\<lambda>v. check_type Collect [TString] (at_prop p ''nickname'') ''#/$defs/RecoveryMember/properties/nickname/type'' v),
      on_prop data ''pendingMessages'' (\<lambda>data65. then_valid (check_type Collect [TInteger] (at_prop p ''pendingMessages'') ''#/$defs/RecoveryMember/properties/pendingMessages/type'' data65) (check_range Collect None 0 (at_prop p ''pendingMessages'') ''#/$defs/RecoveryMember/properties/pendingMessages'' data65))]))"

definition validate198_membership_recovery :: "json \<Rightarrow> string \<Rightarrow> step" where
  "validate198_membership_recovery data p = on_type Collect TObject p ''#/oneOf/11/type'' data
    (required Collect [''kind'', ''channel'', ''expected'', ''epoch'', ''pending'', ''retained_messages'', ''members''] p ''#/oneOf/11/required'' data
    (properties [
      on_prop data ''channel'' (\<lambda>v. check_type Collect [TString] (at_prop p ''channel'') ''#/oneOf/11/properties/channel/type'' v),
      on_prop data ''epoch'' (\<lambda>v. check_type Collect [TString] (at_prop p ''epoch'') ''#/oneOf/11/properties/epoch/type'' v),
      on_prop data ''expected'' (\<lambda>v. check_type Collect [TString] (at_prop p ''expected'') ''#/oneOf/11/properties/expected/type'' v),
      on_prop data ''kind'' (\<lambda>data58. seq (check_type Collect [TString] (at_prop p ''kind'') ''#/oneOf/11/properties/kind/type'' data58) (check_const Collect ''membership_recovery'' (at_prop p ''kind'') ''#/oneOf/11/properties/kind/const'' data58)),
      on_prop data ''members'' (\<lambda>data59. on_type Collect TArray (at_prop p ''members'') ''#/oneOf/11/properties/members/type'' data59
    (items data59 (\<lambda>i4 data60. validate198_membership_recovery_members_item data60 (at_index (at_prop p ''members'') i4)))),
      on_prop data ''pending'' (\<lambda>v. check_type Collect [TBoolean] (at_prop p ''pending'') ''#/oneOf/11/properties/pending/type'' v),
      on_prop data ''retained_messages'' (\<lambda>data67. then_valid (check_type Collect [TInteger] (at_prop p ''retained_messages'') ''#/oneOf/11/properties/retained_messages/type'' data67) (check_range Collect None 0 (at_prop p ''retained_messages'') ''#/oneOf/11/properties/retained_messages'' data67))]))"

function validate198 :: validator where
  "validate198 data instancePath = run_guard (one_of Return instancePath ''#/oneOf'' [
      validate198_invitation_options data instancePath,
      validate198_invitations data instancePath,
      validate198_reusable_invitation data instancePath,
      validate198_enrollment data instancePath,
      validate198_enrollments (\<lambda>x q. validate198 x q) data instancePath,
      validate198_help data instancePath,
      validate198_directory data instancePath,
      validate198_invitation data instancePath,
      validate198_text data instancePath,
      validate198_status data instancePath,
      validate198_close data instancePath,
      validate198_membership_recovery data instancePath])"
  by pat_completeness auto
termination
  by (relation "measure (size \<circ> fst)") auto

declare validate198.simps [simp del]

definition validate197_output :: "json \<Rightarrow> string \<Rightarrow> step" where
  "validate197_output data p = any_of Return p ''#/properties/output/anyOf'' [
      call validate198 data p,
      check_type Collect [TNull] p ''#/properties/output/anyOf/1/type'' data]"

definition validate197 :: validator where
  "validate197 data instancePath = run_guard (on_type Return TObject instancePath ''#/type'' data
    (required Return [''id'', ''instance'', ''action'', ''started'', ''state''] instancePath ''#/required'' data
    (properties [
      on_prop data ''action'' (\<lambda>v. check_type Return [TString] (at_prop instancePath ''action'') ''#/properties/action/type'' v),
      on_prop data ''conversation'' (\<lambda>data1. check_type Return [TString, TNull] (at_prop instancePath ''conversation'') ''#/properties/conversation/type'' data1),
      on_prop data ''id'' (\<lambda>v. check_type Return [TString] (at_prop instancePath ''id'') ''#/properties/id/type'' v),
      on_prop data ''instance'' (\<lambda>v. check_type Return [TString] (at_prop instancePath ''instance'') ''#/properties/instance/type'' v),
      on_prop data ''message'' (\<lambda>data4. check_type Return [TString, TNull] (at_prop instancePath ''message'') ''#/properties/message/type'' data4),
      on_prop data ''network'' (\<lambda>data5. check_type Return [TString, TNull] (at_prop instancePath ''network'') ''#/properties/network/type'' data5),
      on_prop data ''output'' (\<lambda>data6. validate197_output data6 (at_prop instancePath ''output'')),
      on_prop data ''started'' (\<lambda>data7. then_valid (check_type Return [TInteger] (at_prop instancePath ''started'') ''#/properties/started/type'' data7) (check_range Return None 0 (at_prop instancePath ''started'') ''#/properties/started'' data7)),
      on_prop data ''state'' (\<lambda>v. check_type Return [TString] (at_prop instancePath ''state'') ''#/properties/state/type'' v)])))"

definition validate190_activity_item :: "json \<Rightarrow> string \<Rightarrow> step" where
  "validate190_activity_item data p = on_type Return TObject p ''#/$defs/Activity/type'' data
    (required Return [''id'', ''conversation'', ''kind'', ''text'', ''timestamp''] p ''#/$defs/Activity/required'' data
    (properties [
      on_prop data ''conversation'' (\<lambda>v. check_type Return [TString] (at_prop p ''conversation'') ''#/$defs/Activity/properties/conversation/type'' v),
      on_prop data ''id'' (\<lambda>v. check_type Return [TString] (at_prop p ''id'') ''#/$defs/Activity/properties/id/type'' v),
      on_prop data ''kind'' (\<lambda>v. check_type Return [TString] (at_prop p ''kind'') ''#/$defs/Activity/properties/kind/type'' v),
      on_prop data ''text'' (\<lambda>v. check_type Return [TString] (at_prop p ''text'') ''#/$defs/Activity/properties/text/type'' v),
      on_prop data ''timestamp'' (\<lambda>data6. then_valid (check_type Return [TInteger] (at_prop p ''timestamp'') ''#/$defs/Activity/properties/timestamp/type'' data6) (check_range Return None 0 (at_prop p ''timestamp'') ''#/$defs/Activity/properties/timestamp'' data6))]))"

definition validate190_inputHistory_item :: "json \<Rightarrow> string \<Rightarrow> step" where
  "validate190_inputHistory_item data p = on_type Return TObject p ''#/$defs/InputHistoryEntry/type'' data
    (required Return [''text''] p ''#/$defs/InputHistoryEntry/required'' data
    (properties [
      on_prop data ''conversation'' (\<lambda>data13. check_type Return [TString, TNull] (at_prop p ''conversation'') ''#/$defs/InputHistoryEntry/properties/conversation/type'' data13),
      on_prop data ''text'' (\<lambda>v. check_type Return [TString] (at_prop p ''text'') ''#/$defs/InputHistoryEntry/properties/text/type'' v)]))"

definition validate190_providerErrors_item :: "json \<Rightarrow> string \<Rightarrow> step" where
  "validate190_providerErrors_item data p = on_type Return TObject p ''#/$defs/ProviderStatus/type'' data
    (required Return [''id'', ''code'', ''message'', ''retryable''] p ''#/$defs/ProviderStatus/required'' data
    (properties [
      on_prop data ''code'' (\<lambda>v. check_type Return [TString] (at_prop p ''code'') ''#/$defs/ProviderStatus/properties/code/type'' v),
      on_prop data ''id'' (\<lambda>v. check_type Return [TString] (at_prop p ''id'') ''#/$defs/ProviderStatus/properties/id/type'' v),
      on_prop data ''message'' (\<lambda>v. check_type Return [TString] (at_prop p ''message'') ''#/$defs/ProviderStatus/properties/message/type'' v),
      on_prop data ''retryable'' (\<lambda>v. check_type Return [TBoolean] (at_prop p ''retryable'') ''#/$defs/ProviderStatus/properties/retryable/type'' v)]))"

definition validate190 :: validator where
  "validate190 data instancePath = run_guard (on_type Return TObject instancePath ''#/type'' data
    (required Return [''instance'', ''revision'', ''conversations'', ''commandHistory'', ''inputHistory''] instancePath ''#/required'' data
    (properties [
      on_prop data ''activity'' (\<lambda>data0. then_valid (check_type Return [TArray, TNull] (at_prop instancePath ''activity'') ''#/properties/activity/type'' data0) (items data0 (\<lambda>i0 data1. validate190_activity_item data1 (at_index (at_prop instancePath ''activity'') i0)))),
      on_prop data ''commandHistory'' (\<lambda>data7. on_type Return TArray (at_prop instancePath ''commandHistory'') ''#/properties/commandHistory/type'' data7
    (items data7 (\<lambda>i1 item. check_type Return [TString] (at_index (at_prop instancePath ''commandHistory'') i1) ''#/properties/commandHistory/items/type'' item))),
      on_prop data ''conversations'' (\<lambda>data9. on_type Return TArray (at_prop instancePath ''conversations'') ''#/properties/conversations/type'' data9
    (items data9 (\<lambda>i2 item. call validate191 item (at_index (at_prop instancePath ''conversations'') i2)))),
      on_prop data ''inputHistory'' (\<lambda>data11. on_type Return TArray (at_prop instancePath ''inputHistory'') ''#/properties/inputHistory/type'' data11
    (items data11 (\<lambda>i3 data12. validate190_inputHistory_item data12 (at_index (at_prop instancePath ''inputHistory'') i3)))),
      on_prop data ''instance'' (\<lambda>v. call validate195 v (at_prop instancePath ''instance'')),
      on_prop data ''operations'' (\<lambda>data16. then_valid (check_type Return [TArray, TNull] (at_prop instancePath ''operations'') ''#/properties/operations/type'' data16) (items data16 (\<lambda>i4 item. call validate197 item (at_index (at_prop instancePath ''operations'') i4)))),
      on_prop data ''presenceEnabled'' (\<lambda>data18. check_type Return [TBoolean, TNull] (at_prop instancePath ''presenceEnabled'') ''#/properties/presenceEnabled/type'' data18),
      on_prop data ''providerErrors'' (\<lambda>data19. on_type Return TArray (at_prop instancePath ''providerErrors'') ''#/properties/providerErrors/type'' data19
    (items data19 (\<lambda>i5 data20. validate190_providerErrors_item data20 (at_index (at_prop instancePath ''providerErrors'') i5)))),
      on_prop data ''revision'' (\<lambda>v. check_type Return [TString] (at_prop instancePath ''revision'') ''#/properties/revision/type'' v)])))"

definition validate205_presence_any0_available :: "json \<Rightarrow> string \<Rightarrow> step" where
  "validate205_presence_any0_available data p = on_type Collect TObject p ''#/$defs/MemberPresence/oneOf/0/type'' data
    (required Collect [''state''] p ''#/$defs/MemberPresence/oneOf/0/required'' data
    (properties [
      on_prop data ''state'' (\<lambda>data6. seq (check_type Collect [TString] (at_prop p ''state'') ''#/$defs/MemberPresence/oneOf/0/properties/state/type'' data6) (check_const Collect ''available'' (at_prop p ''state'') ''#/$defs/MemberPresence/oneOf/0/properties/state/const'' data6))]))"

definition validate205_presence_any0_away :: "json \<Rightarrow> string \<Rightarrow> step" where
  "validate205_presence_any0_away data p = on_type Collect TObject p ''#/$defs/MemberPresence/oneOf/1/type'' data
    (required Collect [''state'', ''reason''] p ''#/$defs/MemberPresence/oneOf/1/required'' data
    (properties [
      on_prop data ''reason'' (\<lambda>v. check_type Collect [TString] (at_prop p ''reason'') ''#/$defs/MemberPresence/oneOf/1/properties/reason/type'' v),
      on_prop data ''state'' (\<lambda>data8. seq (check_type Collect [TString] (at_prop p ''state'') ''#/$defs/MemberPresence/oneOf/1/properties/state/type'' data8) (check_const Collect ''away'' (at_prop p ''state'') ''#/$defs/MemberPresence/oneOf/1/properties/state/const'' data8))]))"

definition validate205_presence_any0_unknown :: "json \<Rightarrow> string \<Rightarrow> step" where
  "validate205_presence_any0_unknown data p = on_type Collect TObject p ''#/$defs/MemberPresence/oneOf/2/type'' data
    (required Collect [''state''] p ''#/$defs/MemberPresence/oneOf/2/required'' data
    (properties [
      on_prop data ''state'' (\<lambda>data9. seq (check_type Collect [TString] (at_prop p ''state'') ''#/$defs/MemberPresence/oneOf/2/properties/state/type'' data9) (check_const Collect ''unknown'' (at_prop p ''state'') ''#/$defs/MemberPresence/oneOf/2/properties/state/const'' data9))]))"

definition validate205_presence_any0 :: "json \<Rightarrow> string \<Rightarrow> step" where
  "validate205_presence_any0 data p = one_of Collect p ''#/$defs/MemberPresence/oneOf'' [
      validate205_presence_any0_available data p,
      validate205_presence_any0_away data p,
      validate205_presence_any0_unknown data p]"

definition validate205_presence :: "json \<Rightarrow> string \<Rightarrow> step" where
  "validate205_presence data p = any_of Return p ''#/properties/presence/anyOf'' [
      validate205_presence_any0 data p,
      check_type Collect [TNull] p ''#/properties/presence/anyOf/1/type'' data]"

definition validate205 :: validator where
  "validate205 data instancePath = run_guard (on_type Return TObject instancePath ''#/type'' data
    (required Return [''id'', ''nickname'', ''isSelf''] instancePath ''#/required'' data
    (properties [
      on_prop data ''capabilities'' (\<lambda>data0. on_type Return TArray (at_prop instancePath ''capabilities'') ''#/properties/capabilities/type'' data0
    (items data0 (\<lambda>i0 item. check_type Return [TString] (at_index (at_prop instancePath ''capabilities'') i0) ''#/properties/capabilities/items/type'' item))),
      on_prop data ''id'' (\<lambda>v. check_type Return [TString] (at_prop instancePath ''id'') ''#/properties/id/type'' v),
      on_prop data ''isSelf'' (\<lambda>v. check_type Return [TBoolean] (at_prop instancePath ''isSelf'') ''#/properties/isSelf/type'' v),
      on_prop data ''nickname'' (\<lambda>v. check_type Return [TString] (at_prop instancePath ''nickname'') ''#/properties/nickname/type'' v),
      on_prop data ''presence'' (\<lambda>data5. validate205_presence data5 (at_prop instancePath ''presence'')),
      on_prop data ''recentlyActive'' (\<lambda>data10. check_type Return [TBoolean, TNull] (at_prop instancePath ''recentlyActive'') ''#/properties/recentlyActive/type'' data10)])))"

definition validate204_catchUp_any0 :: "json \<Rightarrow> string \<Rightarrow> step" where
  "validate204_catchUp_any0 data p = on_type Collect TObject p ''#/$defs/ChannelCatchUp/type'' data
    (required Collect [''appliedRecords''] p ''#/$defs/ChannelCatchUp/required'' data
    (properties [
      on_prop data ''appliedRecords'' (\<lambda>data2. then_valid (check_type Collect [TInteger] (at_prop p ''appliedRecords'') ''#/$defs/ChannelCatchUp/properties/appliedRecords/type'' data2) (check_range Collect None 0 (at_prop p ''appliedRecords'') ''#/$defs/ChannelCatchUp/properties/appliedRecords'' data2))]))"

definition validate204_catchUp :: "json \<Rightarrow> string \<Rightarrow> step" where
  "validate204_catchUp data p = any_of Return p ''#/properties/catchUp/anyOf'' [
      validate204_catchUp_any0 data p,
      check_type Collect [TNull] p ''#/properties/catchUp/anyOf/1/type'' data]"

definition validate204_commands_item :: "json \<Rightarrow> string \<Rightarrow> step" where
  "validate204_commands_item data p = on_type Return TObject p ''#/$defs/CommandSpec/type'' data
    (required Return [''name'', ''usage'', ''description'', ''scope'', ''available''] p ''#/$defs/CommandSpec/required'' data
    (properties [
      on_prop data ''available'' (\<lambda>v. check_type Return [TBoolean] (at_prop p ''available'') ''#/$defs/CommandSpec/properties/available/type'' v),
      on_prop data ''capability'' (\<lambda>data7. check_type Return [TString, TNull] (at_prop p ''capability'') ''#/$defs/CommandSpec/properties/capability/type'' data7),
      on_prop data ''description'' (\<lambda>v. check_type Return [TString] (at_prop p ''description'') ''#/$defs/CommandSpec/properties/description/type'' v),
      on_prop data ''name'' (\<lambda>v. check_type Return [TString] (at_prop p ''name'') ''#/$defs/CommandSpec/properties/name/type'' v),
      on_prop data ''scope'' (\<lambda>v. check_type Return [TString] (at_prop p ''scope'') ''#/$defs/CommandSpec/properties/scope/type'' v),
      on_prop data ''usage'' (\<lambda>v. check_type Return [TString] (at_prop p ''usage'') ''#/$defs/CommandSpec/properties/usage/type'' v)]))"

definition validate204_policy_any0 :: "json \<Rightarrow> string \<Rightarrow> step" where
  "validate204_policy_any0 data p = on_type Collect TObject p ''#/$defs/ChannelPolicy/type'' data
    (required Collect [''profile'', ''capacity'', ''moderated'', ''inviteOnly'', ''topicOperators'', ''presenceEnabled''] p ''#/$defs/ChannelPolicy/required'' data
    (properties [
      on_prop data ''capacity'' (\<lambda>data23. then_valid (check_type Collect [TInteger] (at_prop p ''capacity'') ''#/$defs/ChannelPolicy/properties/capacity/type'' data23) (check_range Collect None 0 (at_prop p ''capacity'') ''#/$defs/ChannelPolicy/properties/capacity'' data23)),
      on_prop data ''inviteOnly'' (\<lambda>v. check_type Collect [TBoolean] (at_prop p ''inviteOnly'') ''#/$defs/ChannelPolicy/properties/inviteOnly/type'' v),
      on_prop data ''moderated'' (\<lambda>v. check_type Collect [TBoolean] (at_prop p ''moderated'') ''#/$defs/ChannelPolicy/properties/moderated/type'' v),
      on_prop data ''presenceEnabled'' (\<lambda>v. check_type Collect [TBoolean] (at_prop p ''presenceEnabled'') ''#/$defs/ChannelPolicy/properties/presenceEnabled/type'' v),
      on_prop data ''profile'' (\<lambda>v. check_type Collect [TString] (at_prop p ''profile'') ''#/$defs/ChannelPolicy/properties/profile/type'' v),
      on_prop data ''topicOperators'' (\<lambda>v. check_type Collect [TBoolean] (at_prop p ''topicOperators'') ''#/$defs/ChannelPolicy/properties/topicOperators/type'' v)]))"

definition validate204_policy :: "json \<Rightarrow> string \<Rightarrow> step" where
  "validate204_policy data p = any_of Return p ''#/properties/policy/anyOf'' [
      validate204_policy_any0 data p,
      check_type Collect [TNull] p ''#/properties/policy/anyOf/1/type'' data]"

definition validate204 :: validator where
  "validate204 data instancePath = run_guard (on_type Return TObject instancePath ''#/type'' data
    (required Return [''id'', ''channelId'', ''kind'', ''name'', ''topic'', ''active'', ''owner'', ''members'', ''unread''] instancePath ''#/required'' data
    (properties [
      on_prop data ''active'' (\<lambda>v. check_type Return [TBoolean] (at_prop instancePath ''active'') ''#/properties/active/type'' v),
      on_prop data ''catchUp'' (\<lambda>data1. validate204_catchUp data1 (at_prop instancePath ''catchUp'')),
      on_prop data ''channelId'' (\<lambda>v. check_type Return [TString] (at_prop instancePath ''channelId'') ''#/properties/channelId/type'' v),
      on_prop data ''commands'' (\<lambda>data4. on_type Return TArray (at_prop instancePath ''commands'') ''#/properties/commands/type'' data4
    (items data4 (\<lambda>i0 data5. validate204_commands_item data5 (at_index (at_prop instancePath ''commands'') i0)))),
      on_prop data ''directory'' (\<lambda>data12. check_type Return [TString, TNull] (at_prop instancePath ''directory'') ''#/properties/directory/type'' data12),
      on_prop data ''id'' (\<lambda>v. check_type Return [TString] (at_prop instancePath ''id'') ''#/properties/id/type'' v),
      on_prop data ''inputLimitBytes'' (\<lambda>data14. then_valid (check_type Return [TInteger] (at_prop instancePath ''inputLimitBytes'') ''#/properties/inputLimitBytes/type'' data14) (check_range Return None 0 (at_prop instancePath ''inputLimitBytes'') ''#/properties/inputLimitBytes'' data14)),
      on_prop data ''kind'' (\<lambda>data15. seq (check_type Return [TString] (at_prop instancePath ''kind'') ''#/$defs/ConversationKind/type'' data15) (check_enum Return [''channel'', ''query'', ''archive''] (at_prop instancePath ''kind'') ''#/$defs/ConversationKind/enum'' data15)),
      on_prop data ''lastMessageId'' (\<lambda>data16. check_type Return [TString, TNull] (at_prop instancePath ''lastMessageId'') ''#/properties/lastMessageId/type'' data16),
      on_prop data ''members'' (\<lambda>data17. on_type Return TArray (at_prop instancePath ''members'') ''#/properties/members/type'' data17
    (items data17 (\<lambda>i1 item. call validate205 item (at_index (at_prop instancePath ''members'') i1)))),
      on_prop data ''muted'' (\<lambda>data19. check_type Return [TBoolean, TNull] (at_prop instancePath ''muted'') ''#/properties/muted/type'' data19),
      on_prop data ''name'' (\<lambda>v. check_type Return [TString] (at_prop instancePath ''name'') ''#/properties/name/type'' v),
      on_prop data ''owner'' (\<lambda>v. check_type Return [TBoolean] (at_prop instancePath ''owner'') ''#/properties/owner/type'' v),
      on_prop data ''policy'' (\<lambda>data22. validate204_policy data22 (at_prop instancePath ''policy'')),
      on_prop data ''provider'' (\<lambda>data29. check_type Return [TString, TNull] (at_prop instancePath ''provider'') ''#/properties/provider/type'' data29),
      on_prop data ''topic'' (\<lambda>v. check_type Return [TString] (at_prop instancePath ''topic'') ''#/properties/topic/type'' v),
      on_prop data ''unread'' (\<lambda>data31. then_valid (check_type Return [TInteger] (at_prop instancePath ''unread'') ''#/properties/unread/type'' data31) (check_range Return None 0 (at_prop instancePath ''unread'') ''#/properties/unread'' data31)),
      on_prop data ''visibility'' (\<lambda>data32. check_type Return [TString, TNull] (at_prop instancePath ''visibility'') ''#/properties/visibility/type'' data32)])))"

definition validate208_build_any0 :: "json \<Rightarrow> string \<Rightarrow> step" where
  "validate208_build_any0 data p = on_type Collect TObject p ''#/$defs/BuildInfo/type'' data
    (required Collect [''releaseId'', ''gchatCommit'', ''gcomsCommit'', ''version''] p ''#/$defs/BuildInfo/required'' data
    (properties [
      on_prop data ''gchatCommit'' (\<lambda>v. check_type Collect [TString] (at_prop p ''gchatCommit'') ''#/$defs/BuildInfo/properties/gchatCommit/type'' v),
      on_prop data ''gcomsCommit'' (\<lambda>v. check_type Collect [TString] (at_prop p ''gcomsCommit'') ''#/$defs/BuildInfo/properties/gcomsCommit/type'' v),
      on_prop data ''releaseId'' (\<lambda>v. check_type Collect [TString] (at_prop p ''releaseId'') ''#/$defs/BuildInfo/properties/releaseId/type'' v),
      on_prop data ''version'' (\<lambda>v. check_type Collect [TString] (at_prop p ''version'') ''#/$defs/BuildInfo/properties/version/type'' v)]))"

definition validate208_build :: "json \<Rightarrow> string \<Rightarrow> step" where
  "validate208_build data p = any_of Return p ''#/properties/build/anyOf'' [
      validate208_build_any0 data p,
      check_type Collect [TNull] p ''#/properties/build/anyOf/1/type'' data]"

definition validate208 :: validator where
  "validate208 data instancePath = run_guard (on_type Return TObject instancePath ''#/type'' data
    (required Return [''id'', ''label'', ''bootId'', ''locked'', ''protocolLocked'', ''profileExists'', ''archiveExists'', ''safetyNumber'', ''capabilities''] instancePath ''#/required'' data
    (properties [
      on_prop data ''archiveExists'' (\<lambda>v. check_type Return [TBoolean] (at_prop instancePath ''archiveExists'') ''#/properties/archiveExists/type'' v),
      on_prop data ''bootId'' (\<lambda>v. check_type Return [TString] (at_prop instancePath ''bootId'') ''#/properties/bootId/type'' v),
      on_prop data ''build'' (\<lambda>data2. validate208_build data2 (at_prop instancePath ''build'')),
      on_prop data ''capabilities'' (\<lambda>data7. on_type Return TArray (at_prop instancePath ''capabilities'') ''#/properties/capabilities/type'' data7
    (items data7 (\<lambda>i0 item. check_type Return [TString] (at_index (at_prop instancePath ''capabilities'') i0) ''#/properties/capabilities/items/type'' item))),
      on_prop data ''id'' (\<lambda>v. check_type Return [TString] (at_prop instancePath ''id'') ''#/properties/id/type'' v),
      on_prop data ''label'' (\<lambda>v. check_type Return [TString] (at_prop instancePath ''label'') ''#/properties/label/type'' v),
      on_prop data ''locked'' (\<lambda>v. check_type Return [TBoolean] (at_prop instancePath ''locked'') ''#/properties/locked/type'' v),
      on_prop data ''profileExists'' (\<lambda>v. check_type Return [TBoolean] (at_prop instancePath ''profileExists'') ''#/properties/profileExists/type'' v),
      on_prop data ''protocolLocked'' (\<lambda>v. check_type Return [TBoolean] (at_prop instancePath ''protocolLocked'') ''#/properties/protocolLocked/type'' v),
      on_prop data ''safetyNumber'' (\<lambda>v. check_type Return [TString] (at_prop instancePath ''safetyNumber'') ''#/properties/safetyNumber/type'' v)])))"

definition validate211_invitation_options :: "json \<Rightarrow> string \<Rightarrow> step" where
  "validate211_invitation_options data p = on_type Collect TObject p ''#/oneOf/0/type'' data
    (required Collect [''kind'', ''channel''] p ''#/oneOf/0/required'' data
    (properties [
      on_prop data ''channel'' (\<lambda>v. check_type Collect [TString] (at_prop p ''channel'') ''#/oneOf/0/properties/channel/type'' v),
      on_prop data ''kind'' (\<lambda>data1. seq (check_type Collect [TString] (at_prop p ''kind'') ''#/oneOf/0/properties/kind/type'' data1) (check_const Collect ''invitation_options'' (at_prop p ''kind'') ''#/oneOf/0/properties/kind/const'' data1))]))"

definition validate211_invitations_records_item :: "json \<Rightarrow> string \<Rightarrow> step" where
  "validate211_invitations_records_item data p = on_type Collect TObject p ''#/$defs/InvitationRecord/type'' data
    (required Collect [''id'', ''admitted'', ''pending'', ''revoked''] p ''#/$defs/InvitationRecord/required'' data
    (properties [
      on_prop data ''admitted'' (\<lambda>data6. then_valid (check_type Collect [TInteger] (at_prop p ''admitted'') ''#/$defs/InvitationRecord/properties/admitted/type'' data6) (check_range Collect None 0 (at_prop p ''admitted'') ''#/$defs/InvitationRecord/properties/admitted'' data6)),
      on_prop data ''expires'' (\<lambda>data7. then_valid (check_type Collect [TInteger, TNull] (at_prop p ''expires'') ''#/$defs/InvitationRecord/properties/expires/type'' data7) (check_range Collect None 0 (at_prop p ''expires'') ''#/$defs/InvitationRecord/properties/expires'' data7)),
      on_prop data ''id'' (\<lambda>v. check_type Collect [TString] (at_prop p ''id'') ''#/$defs/InvitationRecord/properties/id/type'' v),
      on_prop data ''limit'' (\<lambda>data9. then_valid (check_type Collect [TInteger, TNull] (at_prop p ''limit'') ''#/$defs/InvitationRecord/properties/limit/type'' data9) (check_range Collect None 0 (at_prop p ''limit'') ''#/$defs/InvitationRecord/properties/limit'' data9)),
      on_prop data ''pending'' (\<lambda>data10. then_valid (check_type Collect [TInteger] (at_prop p ''pending'') ''#/$defs/InvitationRecord/properties/pending/type'' data10) (check_range Collect None 0 (at_prop p ''pending'') ''#/$defs/InvitationRecord/properties/pending'' data10)),
      on_prop data ''revoked'' (\<lambda>v. check_type Collect [TBoolean] (at_prop p ''revoked'') ''#/$defs/InvitationRecord/properties/revoked/type'' v)]))"

definition validate211_invitations :: "json \<Rightarrow> string \<Rightarrow> step" where
  "validate211_invitations data p = on_type Collect TObject p ''#/oneOf/1/type'' data
    (required Collect [''kind'', ''channel'', ''records''] p ''#/oneOf/1/required'' data
    (properties [
      on_prop data ''channel'' (\<lambda>v. check_type Collect [TString] (at_prop p ''channel'') ''#/oneOf/1/properties/channel/type'' v),
      on_prop data ''kind'' (\<lambda>data3. seq (check_type Collect [TString] (at_prop p ''kind'') ''#/oneOf/1/properties/kind/type'' data3) (check_const Collect ''invitations'' (at_prop p ''kind'') ''#/oneOf/1/properties/kind/const'' data3)),
      on_prop data ''records'' (\<lambda>data4. on_type Collect TArray (at_prop p ''records'') ''#/oneOf/1/properties/records/type'' data4
    (items data4 (\<lambda>i0 data5. validate211_invitations_records_item data5 (at_index (at_prop p ''records'') i0))))]))"

definition validate211_reusable_invitation :: "json \<Rightarrow> string \<Rightarrow> step" where
  "validate211_reusable_invitation data p = on_type Collect TObject p ''#/oneOf/2/type'' data
    (required Collect [''kind'', ''channel'', ''link'', ''id'', ''localOnly''] p ''#/oneOf/2/required'' data
    (properties [
      on_prop data ''channel'' (\<lambda>v. check_type Collect [TString] (at_prop p ''channel'') ''#/oneOf/2/properties/channel/type'' v),
      on_prop data ''expires'' (\<lambda>data13. then_valid (check_type Collect [TInteger, TNull] (at_prop p ''expires'') ''#/oneOf/2/properties/expires/type'' data13) (check_range Collect None 0 (at_prop p ''expires'') ''#/oneOf/2/properties/expires'' data13)),
      on_prop data ''id'' (\<lambda>v. check_type Collect [TString] (at_prop p ''id'') ''#/oneOf/2/properties/id/type'' v),
      on_prop data ''kind'' (\<lambda>data15. seq (check_type Collect [TString] (at_prop p ''kind'') ''#/oneOf/2/properties/kind/type'' data15) (check_const Collect ''reusable_invitation'' (at_prop p ''kind'') ''#/oneOf/2/properties/kind/const'' data15)),
      on_prop data ''limit'' (\<lambda>data16. then_valid (check_type Collect [TInteger, TNull] (at_prop p ''limit'') ''#/oneOf/2/properties/limit/type'' data16) (check_range Collect None 0 (at_prop p ''limit'') ''#/oneOf/2/properties/limit'' data16)),
      on_prop data ''link'' (\<lambda>v. check_type Collect [TString] (at_prop p ''link'') ''#/oneOf/2/properties/link/type'' v),
      on_prop data ''localOnly'' (\<lambda>v. check_type Collect [TBoolean] (at_prop p ''localOnly'') ''#/oneOf/2/properties/localOnly/type'' v)]))"

definition validate211_enrollment :: "json \<Rightarrow> string \<Rightarrow> step" where
  "validate211_enrollment data p = on_type Collect TObject p ''#/oneOf/3/type'' data
    (required Collect [''kind'', ''id'', ''channel'', ''phase'', ''attempts''] p ''#/oneOf/3/required'' data
    (properties [
      on_prop data ''attempts'' (\<lambda>data19. then_valid (check_type Collect [TInteger] (at_prop p ''attempts'') ''#/oneOf/3/properties/attempts/type'' data19) (check_range Collect None 0 (at_prop p ''attempts'') ''#/oneOf/3/properties/attempts'' data19)),
      on_prop data ''channel'' (\<lambda>v. check_type Collect [TString] (at_prop p ''channel'') ''#/oneOf/3/properties/channel/type'' v),
      on_prop data ''id'' (\<lambda>v. check_type Collect [TString] (at_prop p ''id'') ''#/oneOf/3/properties/id/type'' v),
      on_prop data ''kind'' (\<lambda>data22. seq (check_type Collect [TString] (at_prop p ''kind'') ''#/oneOf/3/properties/kind/type'' data22) (check_const Collect ''enrollment'' (at_prop p ''kind'') ''#/oneOf/3/properties/kind/const'' data22)),
      on_prop data ''message'' (\<lambda>data23. check_type Collect [TString, TNull] (at_prop p ''message'') ''#/oneOf/3/properties/message/type'' data23),
      on_prop data ''phase'' (\<lambda>v. check_type Collect [TString] (at_prop p ''phase'') ''#/oneOf/3/properties/phase/type'' v)]))"

definition validate211_enrollments :: "validator \<Rightarrow> json \<Rightarrow> string \<Rightarrow> step" where
  "validate211_enrollments recur data p = on_type Collect TObject p ''#/oneOf/4/type'' data
    (required Collect [''kind'', ''entries''] p ''#/oneOf/4/required'' data
    (properties [
      on_prop data ''entries'' (\<lambda>data25. on_type Collect TArray (at_prop p ''entries'') ''#/oneOf/4/properties/entries/type'' data25
    (items data25 (\<lambda>i1 item. call recur item (at_index (at_prop p ''entries'') i1)))),
      on_prop data ''kind'' (\<lambda>data27. seq (check_type Collect [TString] (at_prop p ''kind'') ''#/oneOf/4/properties/kind/type'' data27) (check_const Collect ''enrollments'' (at_prop p ''kind'') ''#/oneOf/4/properties/kind/const'' data27))]))"

lemma validate211_enrollments_cong [fundef_cong]:
  "data = data' \<Longrightarrow> p = p' \<Longrightarrow> (\<And>x q. size x < size data' \<Longrightarrow> v x q = v' x q) \<Longrightarrow>
   validate211_enrollments v data p = validate211_enrollments v' data' p'"
  by (simp add: validate211_enrollments_def on_prop_items_cong[of data' v v'])

definition validate211_help_commands_item :: "json \<Rightarrow> string \<Rightarrow> step" where
  "validate211_help_commands_item data p = on_type Collect TObject p ''#/$defs/CommandSpec/type'' data
    (required Collect [''name'', ''usage'', ''description'', ''scope'', ''available''] p ''#/$defs/CommandSpec/required'' data
    (properties [
      on_prop data ''available'' (\<lambda>v. check_type Collect [TBoolean] (at_prop p ''available'') ''#/$defs/CommandSpec/properties/available/type'' v),
      on_prop data ''capability'' (\<lambda>data31. check_type Collect [TString, TNull] (at_prop p ''capability'') ''#/$defs/CommandSpec/properties/capability/type'' data31),
      on_prop data ''description'' (\<lambda>v. check_type Collect [TString] (at_prop p ''description'') ''#/$defs/CommandSpec/properties/description/type'' v),
      on_prop data ''name'' (\<lambda>v. check_type Collect [TString] (at_prop p ''name'') ''#/$defs/CommandSpec/properties/name/type'' v),
      on_prop data ''scope'' (\<lambda>v. check_type Collect [TString] (at_prop p ''scope'') ''#/$defs/CommandSpec/properties/scope/type'' v),
      on_prop data ''usage'' (\<lambda>v. check_type Collect [TString] (at_prop p ''usage'') ''#/$defs/CommandSpec/properties/usage/type'' v)]))"

definition validate211_help :: "json \<Rightarrow> string \<Rightarrow> step" where
  "validate211_help data p = on_type Collect TObject p ''#/oneOf/5/type'' data
    (required Collect [''kind'', ''commands''] p ''#/oneOf/5/required'' data
    (properties [
      on_prop data ''commands'' (\<lambda>data28. on_type Collect TArray (at_prop p ''commands'') ''#/oneOf/5/properties/commands/type'' data28
    (items data28 (\<lambda>i2 data29. validate211_help_commands_item data29 (at_index (at_prop p ''commands'') i2)))),
      on_prop data ''kind'' (\<lambda>data36. seq (check_type Collect [TString] (at_prop p ''kind'') ''#/oneOf/5/properties/kind/type'' data36) (check_const Collect ''help'' (at_prop p ''kind'') ''#/oneOf/5/properties/kind/const'' data36))]))"

definition validate211_directory_channels_item :: "json \<Rightarrow> string \<Rightarrow> step" where
  "validate211_directory_channels_item data p = on_type Collect TObject p ''#/$defs/DirectoryEntry/type'' data
    (required Collect [''name'', ''joined''] p ''#/$defs/DirectoryEntry/required'' data
    (properties [
      on_prop data ''conversation'' (\<lambda>data39. check_type Collect [TString, TNull] (at_prop p ''conversation'') ''#/$defs/DirectoryEntry/properties/conversation/type'' data39),
      on_prop data ''joined'' (\<lambda>v. check_type Collect [TBoolean] (at_prop p ''joined'') ''#/$defs/DirectoryEntry/properties/joined/type'' v),
      on_prop data ''name'' (\<lambda>v. check_type Collect [TString] (at_prop p ''name'') ''#/$defs/DirectoryEntry/properties/name/type'' v)]))"

definition validate211_directory :: "json \<Rightarrow> string \<Rightarrow> step" where
  "validate211_directory data p = on_type Collect TObject p ''#/oneOf/6/type'' data
    (required Collect [''kind'', ''channels''] p ''#/oneOf/6/required'' data
    (properties [
      on_prop data ''channels'' (\<lambda>data37. on_type Collect TArray (at_prop p ''channels'') ''#/oneOf/6/properties/channels/type'' data37
    (items data37 (\<lambda>i3 data38. validate211_directory_channels_item data38 (at_index (at_prop p ''channels'') i3)))),
      on_prop data ''kind'' (\<lambda>data42. seq (check_type Collect [TString] (at_prop p ''kind'') ''#/oneOf/6/properties/kind/type'' data42) (check_const Collect ''directory'' (at_prop p ''kind'') ''#/oneOf/6/properties/kind/const'' data42))]))"

definition validate211_invitation :: "json \<Rightarrow> string \<Rightarrow> step" where
  "validate211_invitation data p = on_type Collect TObject p ''#/oneOf/7/type'' data
    (required Collect [''kind'', ''channel'', ''link'', ''expires''] p ''#/oneOf/7/required'' data
    (properties [
      on_prop data ''channel'' (\<lambda>v. check_type Collect [TString] (at_prop p ''channel'') ''#/oneOf/7/properties/channel/type'' v),
      on_prop data ''expires'' (\<lambda>data44. then_valid (check_type Collect [TInteger] (at_prop p ''expires'') ''#/oneOf/7/properties/expires/type'' data44) (check_range Collect None 0 (at_prop p ''expires'') ''#/oneOf/7/properties/expires'' data44)),
      on_prop data ''kind'' (\<lambda>data45. seq (check_type Collect [TString] (at_prop p ''kind'') ''#/oneOf/7/properties/kind/type'' data45) (check_const Collect ''invitation'' (at_prop p ''kind'') ''#/oneOf/7/properties/kind/const'' data45)),
      on_prop data ''link'' (\<lambda>v. check_type Collect [TString] (at_prop p ''link'') ''#/oneOf/7/properties/link/type'' v),
      on_prop data ''localOnly'' (\<lambda>v. check_type Collect [TBoolean] (at_prop p ''localOnly'') ''#/oneOf/7/properties/localOnly/type'' v)]))"

definition validate211_text :: "json \<Rightarrow> string \<Rightarrow> step" where
  "validate211_text data p = on_type Collect TObject p ''#/oneOf/8/type'' data
    (required Collect [''kind'', ''title'', ''text''] p ''#/oneOf/8/required'' data
    (properties [
      on_prop data ''kind'' (\<lambda>data48. seq (check_type Collect [TString] (at_prop p ''kind'') ''#/oneOf/8/properties/kind/type'' data48) (check_const Collect ''text'' (at_prop p ''kind'') ''#/oneOf/8/properties/kind/const'' data48)),
      on_prop data ''text'' (\<lambda>v. check_type Collect [TString] (at_prop p ''text'') ''#/oneOf/8/properties/text/type'' v),
      on_prop data ''title'' (\<lambda>v. check_type Collect [TString] (at_prop p ''title'') ''#/oneOf/8/properties/title/type'' v)]))"

definition validate211_status :: "json \<Rightarrow> string \<Rightarrow> step" where
  "validate211_status data p = on_type Collect TObject p ''#/oneOf/9/type'' data
    (required Collect [''kind'', ''text''] p ''#/oneOf/9/required'' data
    (properties [
      on_prop data ''kind'' (\<lambda>data51. seq (check_type Collect [TString] (at_prop p ''kind'') ''#/oneOf/9/properties/kind/type'' data51) (check_const Collect ''status'' (at_prop p ''kind'') ''#/oneOf/9/properties/kind/const'' data51)),
      on_prop data ''text'' (\<lambda>v. check_type Collect [TString] (at_prop p ''text'') ''#/oneOf/9/properties/text/type'' v)]))"

definition validate211_close :: "json \<Rightarrow> string \<Rightarrow> step" where
  "validate211_close data p = on_type Collect TObject p ''#/oneOf/10/type'' data
    (required Collect [''kind'', ''conversation''] p ''#/oneOf/10/required'' data
    (properties [
      on_prop data ''conversation'' (\<lambda>v. check_type Collect [TString] (at_prop p ''conversation'') ''#/oneOf/10/properties/conversation/type'' v),
      on_prop data ''kind'' (\<lambda>data54. seq (check_type Collect [TString] (at_prop p ''kind'') ''#/oneOf/10/properties/kind/type'' data54) (check_const Collect ''close'' (at_prop p ''kind'') ''#/oneOf/10/properties/kind/const'' data54))]))"

definition validate211_membership_recovery_members_item :: "json \<Rightarrow> string \<Rightarrow> step" where
  "validate211_membership_recovery_members_item data p = on_type Collect TObject p ''#/$defs/RecoveryMember/type'' data
    (required Collect [''id'', ''nickname'', ''isSelf'', ''missingCommit'', ''pendingMessages''] p ''#/$defs/RecoveryMember/required'' data
    (properties [
      on_prop data ''id'' (\<lambda>v. check_type Collect [TString] (at_prop p ''id'') ''#/$defs/RecoveryMember/properties/id/type'' v),
      on_prop data ''isSelf'' (\<lambda>v. check_type Collect [TBoolean] (at_prop p ''isSelf'') ''#/$defs/RecoveryMember/properties/isSelf/type'' v),
      on_prop data ''missingCommit'' (\<lambda>v. check_type Collect [TBoolean] (at_prop p ''missingCommit'') ''#/$defs/RecoveryMember/properties/missingCommit/type'' v),
      on_prop data ''nickname'' (\<lambda>v. check_type Collect [TString] (at_prop p ''nickname'') ''#/$defs/RecoveryMember/properties/nickname/type'' v),
      on_prop data ''pendingMessages'' (\<lambda>data65. then_valid (check_type Collect [TInteger] (at_prop p ''pendingMessages'') ''#/$defs/RecoveryMember/properties/pendingMessages/type'' data65) (check_range Collect None 0 (at_prop p ''pendingMessages'') ''#/$defs/RecoveryMember/properties/pendingMessages'' data65))]))"

definition validate211_membership_recovery :: "json \<Rightarrow> string \<Rightarrow> step" where
  "validate211_membership_recovery data p = on_type Collect TObject p ''#/oneOf/11/type'' data
    (required Collect [''kind'', ''channel'', ''expected'', ''epoch'', ''pending'', ''retained_messages'', ''members''] p ''#/oneOf/11/required'' data
    (properties [
      on_prop data ''channel'' (\<lambda>v. check_type Collect [TString] (at_prop p ''channel'') ''#/oneOf/11/properties/channel/type'' v),
      on_prop data ''epoch'' (\<lambda>v. check_type Collect [TString] (at_prop p ''epoch'') ''#/oneOf/11/properties/epoch/type'' v),
      on_prop data ''expected'' (\<lambda>v. check_type Collect [TString] (at_prop p ''expected'') ''#/oneOf/11/properties/expected/type'' v),
      on_prop data ''kind'' (\<lambda>data58. seq (check_type Collect [TString] (at_prop p ''kind'') ''#/oneOf/11/properties/kind/type'' data58) (check_const Collect ''membership_recovery'' (at_prop p ''kind'') ''#/oneOf/11/properties/kind/const'' data58)),
      on_prop data ''members'' (\<lambda>data59. on_type Collect TArray (at_prop p ''members'') ''#/oneOf/11/properties/members/type'' data59
    (items data59 (\<lambda>i4 data60. validate211_membership_recovery_members_item data60 (at_index (at_prop p ''members'') i4)))),
      on_prop data ''pending'' (\<lambda>v. check_type Collect [TBoolean] (at_prop p ''pending'') ''#/oneOf/11/properties/pending/type'' v),
      on_prop data ''retained_messages'' (\<lambda>data67. then_valid (check_type Collect [TInteger] (at_prop p ''retained_messages'') ''#/oneOf/11/properties/retained_messages/type'' data67) (check_range Collect None 0 (at_prop p ''retained_messages'') ''#/oneOf/11/properties/retained_messages'' data67))]))"

function validate211 :: validator where
  "validate211 data instancePath = run_guard (one_of Return instancePath ''#/oneOf'' [
      validate211_invitation_options data instancePath,
      validate211_invitations data instancePath,
      validate211_reusable_invitation data instancePath,
      validate211_enrollment data instancePath,
      validate211_enrollments (\<lambda>x q. validate211 x q) data instancePath,
      validate211_help data instancePath,
      validate211_directory data instancePath,
      validate211_invitation data instancePath,
      validate211_text data instancePath,
      validate211_status data instancePath,
      validate211_close data instancePath,
      validate211_membership_recovery data instancePath])"
  by pat_completeness auto
termination
  by (relation "measure (size \<circ> fst)") auto

declare validate211.simps [simp del]

definition validate210_output :: "json \<Rightarrow> string \<Rightarrow> step" where
  "validate210_output data p = any_of Return p ''#/properties/output/anyOf'' [
      call validate211 data p,
      check_type Collect [TNull] p ''#/properties/output/anyOf/1/type'' data]"

definition validate210 :: validator where
  "validate210 data instancePath = run_guard (on_type Return TObject instancePath ''#/type'' data
    (required Return [''id'', ''instance'', ''action'', ''started'', ''state''] instancePath ''#/required'' data
    (properties [
      on_prop data ''action'' (\<lambda>v. check_type Return [TString] (at_prop instancePath ''action'') ''#/properties/action/type'' v),
      on_prop data ''conversation'' (\<lambda>data1. check_type Return [TString, TNull] (at_prop instancePath ''conversation'') ''#/properties/conversation/type'' data1),
      on_prop data ''id'' (\<lambda>v. check_type Return [TString] (at_prop instancePath ''id'') ''#/properties/id/type'' v),
      on_prop data ''instance'' (\<lambda>v. check_type Return [TString] (at_prop instancePath ''instance'') ''#/properties/instance/type'' v),
      on_prop data ''message'' (\<lambda>data4. check_type Return [TString, TNull] (at_prop instancePath ''message'') ''#/properties/message/type'' data4),
      on_prop data ''network'' (\<lambda>data5. check_type Return [TString, TNull] (at_prop instancePath ''network'') ''#/properties/network/type'' data5),
      on_prop data ''output'' (\<lambda>data6. validate210_output data6 (at_prop instancePath ''output'')),
      on_prop data ''started'' (\<lambda>data7. then_valid (check_type Return [TInteger] (at_prop instancePath ''started'') ''#/properties/started/type'' data7) (check_range Return None 0 (at_prop instancePath ''started'') ''#/properties/started'' data7)),
      on_prop data ''state'' (\<lambda>v. check_type Return [TString] (at_prop instancePath ''state'') ''#/properties/state/type'' v)])))"

definition validate203_activity_item :: "json \<Rightarrow> string \<Rightarrow> step" where
  "validate203_activity_item data p = on_type Return TObject p ''#/$defs/Activity/type'' data
    (required Return [''id'', ''conversation'', ''kind'', ''text'', ''timestamp''] p ''#/$defs/Activity/required'' data
    (properties [
      on_prop data ''conversation'' (\<lambda>v. check_type Return [TString] (at_prop p ''conversation'') ''#/$defs/Activity/properties/conversation/type'' v),
      on_prop data ''id'' (\<lambda>v. check_type Return [TString] (at_prop p ''id'') ''#/$defs/Activity/properties/id/type'' v),
      on_prop data ''kind'' (\<lambda>v. check_type Return [TString] (at_prop p ''kind'') ''#/$defs/Activity/properties/kind/type'' v),
      on_prop data ''text'' (\<lambda>v. check_type Return [TString] (at_prop p ''text'') ''#/$defs/Activity/properties/text/type'' v),
      on_prop data ''timestamp'' (\<lambda>data6. then_valid (check_type Return [TInteger] (at_prop p ''timestamp'') ''#/$defs/Activity/properties/timestamp/type'' data6) (check_range Return None 0 (at_prop p ''timestamp'') ''#/$defs/Activity/properties/timestamp'' data6))]))"

definition validate203_inputHistory_item :: "json \<Rightarrow> string \<Rightarrow> step" where
  "validate203_inputHistory_item data p = on_type Return TObject p ''#/$defs/InputHistoryEntry/type'' data
    (required Return [''text''] p ''#/$defs/InputHistoryEntry/required'' data
    (properties [
      on_prop data ''conversation'' (\<lambda>data13. check_type Return [TString, TNull] (at_prop p ''conversation'') ''#/$defs/InputHistoryEntry/properties/conversation/type'' data13),
      on_prop data ''text'' (\<lambda>v. check_type Return [TString] (at_prop p ''text'') ''#/$defs/InputHistoryEntry/properties/text/type'' v)]))"

definition validate203_providerErrors_item :: "json \<Rightarrow> string \<Rightarrow> step" where
  "validate203_providerErrors_item data p = on_type Return TObject p ''#/$defs/ProviderStatus/type'' data
    (required Return [''id'', ''code'', ''message'', ''retryable''] p ''#/$defs/ProviderStatus/required'' data
    (properties [
      on_prop data ''code'' (\<lambda>v. check_type Return [TString] (at_prop p ''code'') ''#/$defs/ProviderStatus/properties/code/type'' v),
      on_prop data ''id'' (\<lambda>v. check_type Return [TString] (at_prop p ''id'') ''#/$defs/ProviderStatus/properties/id/type'' v),
      on_prop data ''message'' (\<lambda>v. check_type Return [TString] (at_prop p ''message'') ''#/$defs/ProviderStatus/properties/message/type'' v),
      on_prop data ''retryable'' (\<lambda>v. check_type Return [TBoolean] (at_prop p ''retryable'') ''#/$defs/ProviderStatus/properties/retryable/type'' v)]))"

definition validate203 :: validator where
  "validate203 data instancePath = run_guard (on_type Return TObject instancePath ''#/type'' data
    (required Return [''instance'', ''revision'', ''conversations'', ''commandHistory'', ''inputHistory''] instancePath ''#/required'' data
    (properties [
      on_prop data ''activity'' (\<lambda>data0. then_valid (check_type Return [TArray, TNull] (at_prop instancePath ''activity'') ''#/properties/activity/type'' data0) (items data0 (\<lambda>i0 data1. validate203_activity_item data1 (at_index (at_prop instancePath ''activity'') i0)))),
      on_prop data ''commandHistory'' (\<lambda>data7. on_type Return TArray (at_prop instancePath ''commandHistory'') ''#/properties/commandHistory/type'' data7
    (items data7 (\<lambda>i1 item. check_type Return [TString] (at_index (at_prop instancePath ''commandHistory'') i1) ''#/properties/commandHistory/items/type'' item))),
      on_prop data ''conversations'' (\<lambda>data9. on_type Return TArray (at_prop instancePath ''conversations'') ''#/properties/conversations/type'' data9
    (items data9 (\<lambda>i2 item. call validate204 item (at_index (at_prop instancePath ''conversations'') i2)))),
      on_prop data ''inputHistory'' (\<lambda>data11. on_type Return TArray (at_prop instancePath ''inputHistory'') ''#/properties/inputHistory/type'' data11
    (items data11 (\<lambda>i3 data12. validate203_inputHistory_item data12 (at_index (at_prop instancePath ''inputHistory'') i3)))),
      on_prop data ''instance'' (\<lambda>v. call validate208 v (at_prop instancePath ''instance'')),
      on_prop data ''operations'' (\<lambda>data16. then_valid (check_type Return [TArray, TNull] (at_prop instancePath ''operations'') ''#/properties/operations/type'' data16) (items data16 (\<lambda>i4 item. call validate210 item (at_index (at_prop instancePath ''operations'') i4)))),
      on_prop data ''presenceEnabled'' (\<lambda>data18. check_type Return [TBoolean, TNull] (at_prop instancePath ''presenceEnabled'') ''#/properties/presenceEnabled/type'' data18),
      on_prop data ''providerErrors'' (\<lambda>data19. on_type Return TArray (at_prop instancePath ''providerErrors'') ''#/properties/providerErrors/type'' data19
    (items data19 (\<lambda>i5 data20. validate203_providerErrors_item data20 (at_index (at_prop instancePath ''providerErrors'') i5)))),
      on_prop data ''revision'' (\<lambda>v. check_type Return [TString] (at_prop instancePath ''revision'') ''#/properties/revision/type'' v)])))"

section \<open>Each guard implements its schema\<close>

context document_schema65
begin

lemma checks_validate176_presence_any0_available [guard_parts]: "checks Collect p (validate176_presence_any0_available data p) (conforms \<rho> schema72_available data)"
  unfolding validate176_presence_any0_available_def schema72_available_def by (intro conform_laws guard_parts; simp)

lemma checks_validate176_presence_any0_away [guard_parts]: "checks Collect p (validate176_presence_any0_away data p) (conforms \<rho> schema72_away data)"
  unfolding validate176_presence_any0_away_def schema72_away_def by (intro conform_laws guard_parts; simp)

lemma checks_validate176_presence_any0_unknown [guard_parts]: "checks Collect p (validate176_presence_any0_unknown data p) (conforms \<rho> schema72_unknown data)"
  unfolding validate176_presence_any0_unknown_def schema72_unknown_def by (intro conform_laws guard_parts; simp)

lemma checks_validate176_presence_any0 [guard_parts]: "checks Collect p (validate176_presence_any0 data p) (conforms \<rho> schema72 data)"
  unfolding validate176_presence_any0_def schema72_def by (intro conform_laws guard_parts; simp)

lemma checks_validate176_presence [guard_parts]: "checks Return p (validate176_presence data p) (conforms \<rho> (SAnyOf [SRef ''MemberPresence'', SType [TNull]]) data)"
  unfolding validate176_presence_def by (intro conform_laws guard_parts; simp)

lemma validates_validate176: "validates validate176 (conforms \<rho> schema71) d"
  unfolding schema71_def
  by (rule validates_run[where m = Return], rule validate176_def) (intro conform_laws guard_parts; simp)

lemmas call_validate176 [guard_parts] = checks_call[OF validates_validate176]

lemma checks_validate175_catchUp_any0 [guard_parts]: "checks Collect p (validate175_catchUp_any0 data p) (conforms \<rho> schema68 data)"
  unfolding validate175_catchUp_any0_def schema68_def by (intro conform_laws guard_parts; simp)

lemma checks_validate175_catchUp [guard_parts]: "checks Return p (validate175_catchUp data p) (conforms \<rho> (SAnyOf [SRef ''ChannelCatchUp'', SType [TNull]]) data)"
  unfolding validate175_catchUp_def by (intro conform_laws guard_parts; simp)

lemma checks_validate175_commands_item [guard_parts]: "checks Return p (validate175_commands_item data p) (conforms \<rho> schema69 data)"
  unfolding validate175_commands_item_def schema69_def by (intro conform_laws guard_parts; simp)

lemma checks_validate175_policy_any0 [guard_parts]: "checks Collect p (validate175_policy_any0 data p) (conforms \<rho> schema73 data)"
  unfolding validate175_policy_any0_def schema73_def by (intro conform_laws guard_parts; simp)

lemma checks_validate175_policy [guard_parts]: "checks Return p (validate175_policy data p) (conforms \<rho> (SAnyOf [SRef ''ChannelPolicy'', SType [TNull]]) data)"
  unfolding validate175_policy_def by (intro conform_laws guard_parts; simp)

lemma validates_validate175: "validates validate175 (conforms \<rho> schema67) d"
  unfolding schema67_def
  by (rule validates_run[where m = Return], rule validate175_def) (intro conform_laws guard_parts; simp)

lemmas call_validate175 [guard_parts] = checks_call[OF validates_validate175]

lemma checks_validate179_build_any0 [guard_parts]: "checks Collect p (validate179_build_any0 data p) (conforms \<rho> schema64 data)"
  unfolding validate179_build_any0_def schema64_def by (intro conform_laws guard_parts; simp)

lemma checks_validate179_build [guard_parts]: "checks Return p (validate179_build data p) (conforms \<rho> (SAnyOf [SRef ''BuildInfo'', SType [TNull]]) data)"
  unfolding validate179_build_def by (intro conform_laws guard_parts; simp)

lemma validates_validate179: "validates validate179 (conforms \<rho> schema63) d"
  unfolding schema63_def
  by (rule validates_run[where m = Return], rule validate179_def) (intro conform_laws guard_parts; simp)

lemmas call_validate179 [guard_parts] = checks_call[OF validates_validate179]

lemma checks_validate182_invitation_options [guard_parts]: "checks Collect p (validate182_invitation_options data p) (conforms \<rho> schema76_invitation_options data)"
  unfolding validate182_invitation_options_def schema76_invitation_options_def by (intro conform_laws guard_parts; simp)

lemma checks_validate182_invitations_records_item [guard_parts]: "checks Collect p (validate182_invitations_records_item data p) (conforms \<rho> schema77 data)"
  unfolding validate182_invitations_records_item_def schema77_def by (intro conform_laws guard_parts; simp)

lemma checks_validate182_invitations [guard_parts]: "checks Collect p (validate182_invitations data p) (conforms \<rho> schema76_invitations data)"
  unfolding validate182_invitations_def schema76_invitations_def by (intro conform_laws guard_parts; simp)

lemma checks_validate182_reusable_invitation [guard_parts]: "checks Collect p (validate182_reusable_invitation data p) (conforms \<rho> schema76_reusable_invitation data)"
  unfolding validate182_reusable_invitation_def schema76_reusable_invitation_def by (intro conform_laws guard_parts; simp)

lemma checks_validate182_enrollment [guard_parts]: "checks Collect p (validate182_enrollment data p) (conforms \<rho> schema76_enrollment data)"
  unfolding validate182_enrollment_def schema76_enrollment_def by (intro conform_laws guard_parts; simp)

lemma checks_validate182_enrollments:
  assumes "\<And>x. size x < size data \<Longrightarrow> validates v (\<rho> ''CommandOutput'') x"
  shows "checks Collect p (validate182_enrollments v data p) (conforms \<rho> schema76_enrollments data)"
  unfolding validate182_enrollments_def schema76_enrollments_def
  by (intro conform_laws guard_parts checks_call_item[where d = data and v = v and \<rho> = \<rho> and r = "''CommandOutput''", OF assms]; (assumption | simp))

lemma checks_validate182_help_commands_item [guard_parts]: "checks Collect p (validate182_help_commands_item data p) (conforms \<rho> schema69 data)"
  unfolding validate182_help_commands_item_def schema69_def by (intro conform_laws guard_parts; simp)

lemma checks_validate182_help [guard_parts]: "checks Collect p (validate182_help data p) (conforms \<rho> schema76_help data)"
  unfolding validate182_help_def schema76_help_def by (intro conform_laws guard_parts; simp)

lemma checks_validate182_directory_channels_item [guard_parts]: "checks Collect p (validate182_directory_channels_item data p) (conforms \<rho> schema79 data)"
  unfolding validate182_directory_channels_item_def schema79_def by (intro conform_laws guard_parts; simp)

lemma checks_validate182_directory [guard_parts]: "checks Collect p (validate182_directory data p) (conforms \<rho> schema76_directory data)"
  unfolding validate182_directory_def schema76_directory_def by (intro conform_laws guard_parts; simp)

lemma checks_validate182_invitation [guard_parts]: "checks Collect p (validate182_invitation data p) (conforms \<rho> schema76_invitation data)"
  unfolding validate182_invitation_def schema76_invitation_def by (intro conform_laws guard_parts; simp)

lemma checks_validate182_text [guard_parts]: "checks Collect p (validate182_text data p) (conforms \<rho> schema76_text data)"
  unfolding validate182_text_def schema76_text_def by (intro conform_laws guard_parts; simp)

lemma checks_validate182_status [guard_parts]: "checks Collect p (validate182_status data p) (conforms \<rho> schema76_status data)"
  unfolding validate182_status_def schema76_status_def by (intro conform_laws guard_parts; simp)

lemma checks_validate182_close [guard_parts]: "checks Collect p (validate182_close data p) (conforms \<rho> schema76_close data)"
  unfolding validate182_close_def schema76_close_def by (intro conform_laws guard_parts; simp)

lemma checks_validate182_membership_recovery_members_item [guard_parts]: "checks Collect p (validate182_membership_recovery_members_item data p) (conforms \<rho> schema80 data)"
  unfolding validate182_membership_recovery_members_item_def schema80_def by (intro conform_laws guard_parts; simp)

lemma checks_validate182_membership_recovery [guard_parts]: "checks Collect p (validate182_membership_recovery data p) (conforms \<rho> schema76_membership_recovery data)"
  unfolding validate182_membership_recovery_def schema76_membership_recovery_def by (intro conform_laws guard_parts; simp)

lemma validates_validate182_step:
  assumes "\<And>x. size x < size d \<Longrightarrow> validates validate182 (\<rho> ''CommandOutput'') x"
  shows "validates validate182 (conforms \<rho> schema76) d"
  unfolding schema76_def
  by (rule validates_run[where m = Return], rule validate182.simps)
     (intro conform_laws guard_parts checks_validate182_enrollments[OF assms]; (assumption | simp))

lemma validates_validate182: "validates validate182 (conforms \<rho> schema76) d"
proof (induction d rule: measure_induct_rule[where f = size])
  case (less d)
  then show ?case by (simp add: validates_validate182_step def_CommandOutput)
qed

lemmas call_validate182 [guard_parts] = checks_call[OF validates_validate182]

lemma checks_validate181_output [guard_parts]: "checks Return p (validate181_output data p) (conforms \<rho> (SAnyOf [SRef ''CommandOutput'', SType [TNull]]) data)"
  unfolding validate181_output_def by (intro conform_laws guard_parts; simp)

lemma validates_validate181: "validates validate181 (conforms \<rho> schema75) d"
  unfolding schema75_def
  by (rule validates_run[where m = Return], rule validate181_def) (intro conform_laws guard_parts; simp)

lemmas call_validate181 [guard_parts] = checks_call[OF validates_validate181]

lemma checks_validate174_activity_item [guard_parts]: "checks Return p (validate174_activity_item data p) (conforms \<rho> schema66 data)"
  unfolding validate174_activity_item_def schema66_def by (intro conform_laws guard_parts; simp)

lemma checks_validate174_inputHistory_item [guard_parts]: "checks Return p (validate174_inputHistory_item data p) (conforms \<rho> schema74 data)"
  unfolding validate174_inputHistory_item_def schema74_def by (intro conform_laws guard_parts; simp)

lemma checks_validate174_providerErrors_item [guard_parts]: "checks Return p (validate174_providerErrors_item data p) (conforms \<rho> schema81 data)"
  unfolding validate174_providerErrors_item_def schema81_def by (intro conform_laws guard_parts; simp)

lemma validates_validate174: "validates validate174 (conforms \<rho> schema65) d"
  unfolding schema65_def
  by (rule validates_run[where m = Return], rule validate174_def) (intro conform_laws guard_parts; simp)

lemmas call_validate174 [guard_parts] = checks_call[OF validates_validate174]

end

context document_schema65
begin

lemma checks_validate192_presence_any0_available [guard_parts]: "checks Collect p (validate192_presence_any0_available data p) (conforms \<rho> schema72_available data)"
  unfolding validate192_presence_any0_available_def schema72_available_def by (intro conform_laws guard_parts; simp)

lemma checks_validate192_presence_any0_away [guard_parts]: "checks Collect p (validate192_presence_any0_away data p) (conforms \<rho> schema72_away data)"
  unfolding validate192_presence_any0_away_def schema72_away_def by (intro conform_laws guard_parts; simp)

lemma checks_validate192_presence_any0_unknown [guard_parts]: "checks Collect p (validate192_presence_any0_unknown data p) (conforms \<rho> schema72_unknown data)"
  unfolding validate192_presence_any0_unknown_def schema72_unknown_def by (intro conform_laws guard_parts; simp)

lemma checks_validate192_presence_any0 [guard_parts]: "checks Collect p (validate192_presence_any0 data p) (conforms \<rho> schema72 data)"
  unfolding validate192_presence_any0_def schema72_def by (intro conform_laws guard_parts; simp)

lemma checks_validate192_presence [guard_parts]: "checks Return p (validate192_presence data p) (conforms \<rho> (SAnyOf [SRef ''MemberPresence'', SType [TNull]]) data)"
  unfolding validate192_presence_def by (intro conform_laws guard_parts; simp)

lemma validates_validate192: "validates validate192 (conforms \<rho> schema71) d"
  unfolding schema71_def
  by (rule validates_run[where m = Return], rule validate192_def) (intro conform_laws guard_parts; simp)

lemmas call_validate192 [guard_parts] = checks_call[OF validates_validate192]

lemma checks_validate191_catchUp_any0 [guard_parts]: "checks Collect p (validate191_catchUp_any0 data p) (conforms \<rho> schema68 data)"
  unfolding validate191_catchUp_any0_def schema68_def by (intro conform_laws guard_parts; simp)

lemma checks_validate191_catchUp [guard_parts]: "checks Return p (validate191_catchUp data p) (conforms \<rho> (SAnyOf [SRef ''ChannelCatchUp'', SType [TNull]]) data)"
  unfolding validate191_catchUp_def by (intro conform_laws guard_parts; simp)

lemma checks_validate191_commands_item [guard_parts]: "checks Return p (validate191_commands_item data p) (conforms \<rho> schema69 data)"
  unfolding validate191_commands_item_def schema69_def by (intro conform_laws guard_parts; simp)

lemma checks_validate191_policy_any0 [guard_parts]: "checks Collect p (validate191_policy_any0 data p) (conforms \<rho> schema73 data)"
  unfolding validate191_policy_any0_def schema73_def by (intro conform_laws guard_parts; simp)

lemma checks_validate191_policy [guard_parts]: "checks Return p (validate191_policy data p) (conforms \<rho> (SAnyOf [SRef ''ChannelPolicy'', SType [TNull]]) data)"
  unfolding validate191_policy_def by (intro conform_laws guard_parts; simp)

lemma validates_validate191: "validates validate191 (conforms \<rho> schema67) d"
  unfolding schema67_def
  by (rule validates_run[where m = Return], rule validate191_def) (intro conform_laws guard_parts; simp)

lemmas call_validate191 [guard_parts] = checks_call[OF validates_validate191]

lemma checks_validate195_build_any0 [guard_parts]: "checks Collect p (validate195_build_any0 data p) (conforms \<rho> schema64 data)"
  unfolding validate195_build_any0_def schema64_def by (intro conform_laws guard_parts; simp)

lemma checks_validate195_build [guard_parts]: "checks Return p (validate195_build data p) (conforms \<rho> (SAnyOf [SRef ''BuildInfo'', SType [TNull]]) data)"
  unfolding validate195_build_def by (intro conform_laws guard_parts; simp)

lemma validates_validate195: "validates validate195 (conforms \<rho> schema63) d"
  unfolding schema63_def
  by (rule validates_run[where m = Return], rule validate195_def) (intro conform_laws guard_parts; simp)

lemmas call_validate195 [guard_parts] = checks_call[OF validates_validate195]

lemma checks_validate198_invitation_options [guard_parts]: "checks Collect p (validate198_invitation_options data p) (conforms \<rho> schema76_invitation_options data)"
  unfolding validate198_invitation_options_def schema76_invitation_options_def by (intro conform_laws guard_parts; simp)

lemma checks_validate198_invitations_records_item [guard_parts]: "checks Collect p (validate198_invitations_records_item data p) (conforms \<rho> schema77 data)"
  unfolding validate198_invitations_records_item_def schema77_def by (intro conform_laws guard_parts; simp)

lemma checks_validate198_invitations [guard_parts]: "checks Collect p (validate198_invitations data p) (conforms \<rho> schema76_invitations data)"
  unfolding validate198_invitations_def schema76_invitations_def by (intro conform_laws guard_parts; simp)

lemma checks_validate198_reusable_invitation [guard_parts]: "checks Collect p (validate198_reusable_invitation data p) (conforms \<rho> schema76_reusable_invitation data)"
  unfolding validate198_reusable_invitation_def schema76_reusable_invitation_def by (intro conform_laws guard_parts; simp)

lemma checks_validate198_enrollment [guard_parts]: "checks Collect p (validate198_enrollment data p) (conforms \<rho> schema76_enrollment data)"
  unfolding validate198_enrollment_def schema76_enrollment_def by (intro conform_laws guard_parts; simp)

lemma checks_validate198_enrollments:
  assumes "\<And>x. size x < size data \<Longrightarrow> validates v (\<rho> ''CommandOutput'') x"
  shows "checks Collect p (validate198_enrollments v data p) (conforms \<rho> schema76_enrollments data)"
  unfolding validate198_enrollments_def schema76_enrollments_def
  by (intro conform_laws guard_parts checks_call_item[where d = data and v = v and \<rho> = \<rho> and r = "''CommandOutput''", OF assms]; (assumption | simp))

lemma checks_validate198_help_commands_item [guard_parts]: "checks Collect p (validate198_help_commands_item data p) (conforms \<rho> schema69 data)"
  unfolding validate198_help_commands_item_def schema69_def by (intro conform_laws guard_parts; simp)

lemma checks_validate198_help [guard_parts]: "checks Collect p (validate198_help data p) (conforms \<rho> schema76_help data)"
  unfolding validate198_help_def schema76_help_def by (intro conform_laws guard_parts; simp)

lemma checks_validate198_directory_channels_item [guard_parts]: "checks Collect p (validate198_directory_channels_item data p) (conforms \<rho> schema79 data)"
  unfolding validate198_directory_channels_item_def schema79_def by (intro conform_laws guard_parts; simp)

lemma checks_validate198_directory [guard_parts]: "checks Collect p (validate198_directory data p) (conforms \<rho> schema76_directory data)"
  unfolding validate198_directory_def schema76_directory_def by (intro conform_laws guard_parts; simp)

lemma checks_validate198_invitation [guard_parts]: "checks Collect p (validate198_invitation data p) (conforms \<rho> schema76_invitation data)"
  unfolding validate198_invitation_def schema76_invitation_def by (intro conform_laws guard_parts; simp)

lemma checks_validate198_text [guard_parts]: "checks Collect p (validate198_text data p) (conforms \<rho> schema76_text data)"
  unfolding validate198_text_def schema76_text_def by (intro conform_laws guard_parts; simp)

lemma checks_validate198_status [guard_parts]: "checks Collect p (validate198_status data p) (conforms \<rho> schema76_status data)"
  unfolding validate198_status_def schema76_status_def by (intro conform_laws guard_parts; simp)

lemma checks_validate198_close [guard_parts]: "checks Collect p (validate198_close data p) (conforms \<rho> schema76_close data)"
  unfolding validate198_close_def schema76_close_def by (intro conform_laws guard_parts; simp)

lemma checks_validate198_membership_recovery_members_item [guard_parts]: "checks Collect p (validate198_membership_recovery_members_item data p) (conforms \<rho> schema80 data)"
  unfolding validate198_membership_recovery_members_item_def schema80_def by (intro conform_laws guard_parts; simp)

lemma checks_validate198_membership_recovery [guard_parts]: "checks Collect p (validate198_membership_recovery data p) (conforms \<rho> schema76_membership_recovery data)"
  unfolding validate198_membership_recovery_def schema76_membership_recovery_def by (intro conform_laws guard_parts; simp)

lemma validates_validate198_step:
  assumes "\<And>x. size x < size d \<Longrightarrow> validates validate198 (\<rho> ''CommandOutput'') x"
  shows "validates validate198 (conforms \<rho> schema76) d"
  unfolding schema76_def
  by (rule validates_run[where m = Return], rule validate198.simps)
     (intro conform_laws guard_parts checks_validate198_enrollments[OF assms]; (assumption | simp))

lemma validates_validate198: "validates validate198 (conforms \<rho> schema76) d"
proof (induction d rule: measure_induct_rule[where f = size])
  case (less d)
  then show ?case by (simp add: validates_validate198_step def_CommandOutput)
qed

lemmas call_validate198 [guard_parts] = checks_call[OF validates_validate198]

lemma checks_validate197_output [guard_parts]: "checks Return p (validate197_output data p) (conforms \<rho> (SAnyOf [SRef ''CommandOutput'', SType [TNull]]) data)"
  unfolding validate197_output_def by (intro conform_laws guard_parts; simp)

lemma validates_validate197: "validates validate197 (conforms \<rho> schema75) d"
  unfolding schema75_def
  by (rule validates_run[where m = Return], rule validate197_def) (intro conform_laws guard_parts; simp)

lemmas call_validate197 [guard_parts] = checks_call[OF validates_validate197]

lemma checks_validate190_activity_item [guard_parts]: "checks Return p (validate190_activity_item data p) (conforms \<rho> schema66 data)"
  unfolding validate190_activity_item_def schema66_def by (intro conform_laws guard_parts; simp)

lemma checks_validate190_inputHistory_item [guard_parts]: "checks Return p (validate190_inputHistory_item data p) (conforms \<rho> schema74 data)"
  unfolding validate190_inputHistory_item_def schema74_def by (intro conform_laws guard_parts; simp)

lemma checks_validate190_providerErrors_item [guard_parts]: "checks Return p (validate190_providerErrors_item data p) (conforms \<rho> schema81 data)"
  unfolding validate190_providerErrors_item_def schema81_def by (intro conform_laws guard_parts; simp)

lemma validates_validate190: "validates validate190 (conforms \<rho> schema65) d"
  unfolding schema65_def
  by (rule validates_run[where m = Return], rule validate190_def) (intro conform_laws guard_parts; simp)

lemmas call_validate190 [guard_parts] = checks_call[OF validates_validate190]

end

context document_schema65
begin

lemma checks_validate205_presence_any0_available [guard_parts]: "checks Collect p (validate205_presence_any0_available data p) (conforms \<rho> schema72_available data)"
  unfolding validate205_presence_any0_available_def schema72_available_def by (intro conform_laws guard_parts; simp)

lemma checks_validate205_presence_any0_away [guard_parts]: "checks Collect p (validate205_presence_any0_away data p) (conforms \<rho> schema72_away data)"
  unfolding validate205_presence_any0_away_def schema72_away_def by (intro conform_laws guard_parts; simp)

lemma checks_validate205_presence_any0_unknown [guard_parts]: "checks Collect p (validate205_presence_any0_unknown data p) (conforms \<rho> schema72_unknown data)"
  unfolding validate205_presence_any0_unknown_def schema72_unknown_def by (intro conform_laws guard_parts; simp)

lemma checks_validate205_presence_any0 [guard_parts]: "checks Collect p (validate205_presence_any0 data p) (conforms \<rho> schema72 data)"
  unfolding validate205_presence_any0_def schema72_def by (intro conform_laws guard_parts; simp)

lemma checks_validate205_presence [guard_parts]: "checks Return p (validate205_presence data p) (conforms \<rho> (SAnyOf [SRef ''MemberPresence'', SType [TNull]]) data)"
  unfolding validate205_presence_def by (intro conform_laws guard_parts; simp)

lemma validates_validate205: "validates validate205 (conforms \<rho> schema71) d"
  unfolding schema71_def
  by (rule validates_run[where m = Return], rule validate205_def) (intro conform_laws guard_parts; simp)

lemmas call_validate205 [guard_parts] = checks_call[OF validates_validate205]

lemma checks_validate204_catchUp_any0 [guard_parts]: "checks Collect p (validate204_catchUp_any0 data p) (conforms \<rho> schema68 data)"
  unfolding validate204_catchUp_any0_def schema68_def by (intro conform_laws guard_parts; simp)

lemma checks_validate204_catchUp [guard_parts]: "checks Return p (validate204_catchUp data p) (conforms \<rho> (SAnyOf [SRef ''ChannelCatchUp'', SType [TNull]]) data)"
  unfolding validate204_catchUp_def by (intro conform_laws guard_parts; simp)

lemma checks_validate204_commands_item [guard_parts]: "checks Return p (validate204_commands_item data p) (conforms \<rho> schema69 data)"
  unfolding validate204_commands_item_def schema69_def by (intro conform_laws guard_parts; simp)

lemma checks_validate204_policy_any0 [guard_parts]: "checks Collect p (validate204_policy_any0 data p) (conforms \<rho> schema73 data)"
  unfolding validate204_policy_any0_def schema73_def by (intro conform_laws guard_parts; simp)

lemma checks_validate204_policy [guard_parts]: "checks Return p (validate204_policy data p) (conforms \<rho> (SAnyOf [SRef ''ChannelPolicy'', SType [TNull]]) data)"
  unfolding validate204_policy_def by (intro conform_laws guard_parts; simp)

lemma validates_validate204: "validates validate204 (conforms \<rho> schema67) d"
  unfolding schema67_def
  by (rule validates_run[where m = Return], rule validate204_def) (intro conform_laws guard_parts; simp)

lemmas call_validate204 [guard_parts] = checks_call[OF validates_validate204]

lemma checks_validate208_build_any0 [guard_parts]: "checks Collect p (validate208_build_any0 data p) (conforms \<rho> schema64 data)"
  unfolding validate208_build_any0_def schema64_def by (intro conform_laws guard_parts; simp)

lemma checks_validate208_build [guard_parts]: "checks Return p (validate208_build data p) (conforms \<rho> (SAnyOf [SRef ''BuildInfo'', SType [TNull]]) data)"
  unfolding validate208_build_def by (intro conform_laws guard_parts; simp)

lemma validates_validate208: "validates validate208 (conforms \<rho> schema63) d"
  unfolding schema63_def
  by (rule validates_run[where m = Return], rule validate208_def) (intro conform_laws guard_parts; simp)

lemmas call_validate208 [guard_parts] = checks_call[OF validates_validate208]

lemma checks_validate211_invitation_options [guard_parts]: "checks Collect p (validate211_invitation_options data p) (conforms \<rho> schema76_invitation_options data)"
  unfolding validate211_invitation_options_def schema76_invitation_options_def by (intro conform_laws guard_parts; simp)

lemma checks_validate211_invitations_records_item [guard_parts]: "checks Collect p (validate211_invitations_records_item data p) (conforms \<rho> schema77 data)"
  unfolding validate211_invitations_records_item_def schema77_def by (intro conform_laws guard_parts; simp)

lemma checks_validate211_invitations [guard_parts]: "checks Collect p (validate211_invitations data p) (conforms \<rho> schema76_invitations data)"
  unfolding validate211_invitations_def schema76_invitations_def by (intro conform_laws guard_parts; simp)

lemma checks_validate211_reusable_invitation [guard_parts]: "checks Collect p (validate211_reusable_invitation data p) (conforms \<rho> schema76_reusable_invitation data)"
  unfolding validate211_reusable_invitation_def schema76_reusable_invitation_def by (intro conform_laws guard_parts; simp)

lemma checks_validate211_enrollment [guard_parts]: "checks Collect p (validate211_enrollment data p) (conforms \<rho> schema76_enrollment data)"
  unfolding validate211_enrollment_def schema76_enrollment_def by (intro conform_laws guard_parts; simp)

lemma checks_validate211_enrollments:
  assumes "\<And>x. size x < size data \<Longrightarrow> validates v (\<rho> ''CommandOutput'') x"
  shows "checks Collect p (validate211_enrollments v data p) (conforms \<rho> schema76_enrollments data)"
  unfolding validate211_enrollments_def schema76_enrollments_def
  by (intro conform_laws guard_parts checks_call_item[where d = data and v = v and \<rho> = \<rho> and r = "''CommandOutput''", OF assms]; (assumption | simp))

lemma checks_validate211_help_commands_item [guard_parts]: "checks Collect p (validate211_help_commands_item data p) (conforms \<rho> schema69 data)"
  unfolding validate211_help_commands_item_def schema69_def by (intro conform_laws guard_parts; simp)

lemma checks_validate211_help [guard_parts]: "checks Collect p (validate211_help data p) (conforms \<rho> schema76_help data)"
  unfolding validate211_help_def schema76_help_def by (intro conform_laws guard_parts; simp)

lemma checks_validate211_directory_channels_item [guard_parts]: "checks Collect p (validate211_directory_channels_item data p) (conforms \<rho> schema79 data)"
  unfolding validate211_directory_channels_item_def schema79_def by (intro conform_laws guard_parts; simp)

lemma checks_validate211_directory [guard_parts]: "checks Collect p (validate211_directory data p) (conforms \<rho> schema76_directory data)"
  unfolding validate211_directory_def schema76_directory_def by (intro conform_laws guard_parts; simp)

lemma checks_validate211_invitation [guard_parts]: "checks Collect p (validate211_invitation data p) (conforms \<rho> schema76_invitation data)"
  unfolding validate211_invitation_def schema76_invitation_def by (intro conform_laws guard_parts; simp)

lemma checks_validate211_text [guard_parts]: "checks Collect p (validate211_text data p) (conforms \<rho> schema76_text data)"
  unfolding validate211_text_def schema76_text_def by (intro conform_laws guard_parts; simp)

lemma checks_validate211_status [guard_parts]: "checks Collect p (validate211_status data p) (conforms \<rho> schema76_status data)"
  unfolding validate211_status_def schema76_status_def by (intro conform_laws guard_parts; simp)

lemma checks_validate211_close [guard_parts]: "checks Collect p (validate211_close data p) (conforms \<rho> schema76_close data)"
  unfolding validate211_close_def schema76_close_def by (intro conform_laws guard_parts; simp)

lemma checks_validate211_membership_recovery_members_item [guard_parts]: "checks Collect p (validate211_membership_recovery_members_item data p) (conforms \<rho> schema80 data)"
  unfolding validate211_membership_recovery_members_item_def schema80_def by (intro conform_laws guard_parts; simp)

lemma checks_validate211_membership_recovery [guard_parts]: "checks Collect p (validate211_membership_recovery data p) (conforms \<rho> schema76_membership_recovery data)"
  unfolding validate211_membership_recovery_def schema76_membership_recovery_def by (intro conform_laws guard_parts; simp)

lemma validates_validate211_step:
  assumes "\<And>x. size x < size d \<Longrightarrow> validates validate211 (\<rho> ''CommandOutput'') x"
  shows "validates validate211 (conforms \<rho> schema76) d"
  unfolding schema76_def
  by (rule validates_run[where m = Return], rule validate211.simps)
     (intro conform_laws guard_parts checks_validate211_enrollments[OF assms]; (assumption | simp))

lemma validates_validate211: "validates validate211 (conforms \<rho> schema76) d"
proof (induction d rule: measure_induct_rule[where f = size])
  case (less d)
  then show ?case by (simp add: validates_validate211_step def_CommandOutput)
qed

lemmas call_validate211 [guard_parts] = checks_call[OF validates_validate211]

lemma checks_validate210_output [guard_parts]: "checks Return p (validate210_output data p) (conforms \<rho> (SAnyOf [SRef ''CommandOutput'', SType [TNull]]) data)"
  unfolding validate210_output_def by (intro conform_laws guard_parts; simp)

lemma validates_validate210: "validates validate210 (conforms \<rho> schema75) d"
  unfolding schema75_def
  by (rule validates_run[where m = Return], rule validate210_def) (intro conform_laws guard_parts; simp)

lemmas call_validate210 [guard_parts] = checks_call[OF validates_validate210]

lemma checks_validate203_activity_item [guard_parts]: "checks Return p (validate203_activity_item data p) (conforms \<rho> schema66 data)"
  unfolding validate203_activity_item_def schema66_def by (intro conform_laws guard_parts; simp)

lemma checks_validate203_inputHistory_item [guard_parts]: "checks Return p (validate203_inputHistory_item data p) (conforms \<rho> schema74 data)"
  unfolding validate203_inputHistory_item_def schema74_def by (intro conform_laws guard_parts; simp)

lemma checks_validate203_providerErrors_item [guard_parts]: "checks Return p (validate203_providerErrors_item data p) (conforms \<rho> schema81 data)"
  unfolding validate203_providerErrors_item_def schema81_def by (intro conform_laws guard_parts; simp)

lemma validates_validate203: "validates validate203 (conforms \<rho> schema65) d"
  unfolding schema65_def
  by (rule validates_run[where m = Return], rule validate203_def) (intro conform_laws guard_parts; simp)

lemmas call_validate203 [guard_parts] = checks_call[OF validates_validate203]

end

section \<open>The exported guards\<close>

definition unlock_output :: "json \<Rightarrow> bool" where
  "unlock_output value = fst (validate174 value [])"

definition disconnect_output :: "json \<Rightarrow> bool" where
  "disconnect_output value = fst (validate190 value [])"

definition snapshot_output :: "json \<Rightarrow> bool" where
  "snapshot_output value = fst (validate203 value [])"

end
