(* ===== verification/Response_Guards.thy ===== *)
theory Response_Guards
  imports Api_Schemas
begin

text \<open>
  The guard of what \<open>networks_details\<close> returns: a network response may carry any response of the
  service, and a response a network response, so the two guards call each other.
\<close>

section \<open>The guards\<close>

definition validate41 :: validator where
  "validate41 data instancePath = run_guard (on_type Return TObject instancePath ''#/type'' data
    (required Return [''state'', ''message''] instancePath ''#/required'' data
    (properties [
      on_prop data ''message'' (\<lambda>v. check_type Return [TString] (at_prop instancePath ''message'') ''#/properties/message/type'' v),
      on_prop data ''state'' (\<lambda>data1. seq (check_type Return [TString] (at_prop instancePath ''state'') ''#/$defs/NetworkState/type'' data1) (check_enum Return [''locked'', ''local_only'', ''invitation_required'', ''connecting'', ''connected'', ''reconnecting'', ''invitation_expired'', ''unavailable''] (at_prop instancePath ''state'') ''#/$defs/NetworkState/enum'' data1))])))"

definition validate40 :: validator where
  "validate40 data instancePath = run_guard (on_type Return TObject instancePath ''#/type'' data
    (required Return [''id'', ''name'', ''fingerprint'', ''primary'', ''status''] instancePath ''#/required'' data
    (properties [
      on_prop data ''fingerprint'' (\<lambda>v. check_type Return [TString] (at_prop instancePath ''fingerprint'') ''#/properties/fingerprint/type'' v),
      on_prop data ''id'' (\<lambda>v. check_type Return [TString] (at_prop instancePath ''id'') ''#/properties/id/type'' v),
      on_prop data ''name'' (\<lambda>v. check_type Return [TString] (at_prop instancePath ''name'') ''#/properties/name/type'' v),
      on_prop data ''primary'' (\<lambda>v. check_type Return [TBoolean] (at_prop instancePath ''primary'') ''#/properties/primary/type'' v),
      on_prop data ''status'' (\<lambda>v. call validate41 v (at_prop instancePath ''status''))])))"

definition validate44 :: validator where
  "validate44 data instancePath = run_guard (on_type Return TObject instancePath ''#/type'' data
    (required Return [''network'', ''newNetwork''] instancePath ''#/required'' data
    (properties [
      on_prop data ''channel'' (\<lambda>data0. check_type Return [TString, TNull] (at_prop instancePath ''channel'') ''#/properties/channel/type'' data0),
      on_prop data ''expires'' (\<lambda>data1. then_valid (check_type Return [TInteger, TNull] (at_prop instancePath ''expires'') ''#/properties/expires/type'' data1) (check_range Return None 0 (at_prop instancePath ''expires'') ''#/properties/expires'' data1)),
      on_prop data ''network'' (\<lambda>v. call validate40 v (at_prop instancePath ''network'')),
      on_prop data ''newNetwork'' (\<lambda>v. check_type Return [TBoolean] (at_prop instancePath ''newNetwork'') ''#/properties/newNetwork/type'' v)])))"

definition validate49_publication_any0 :: "json \<Rightarrow> string \<Rightarrow> step" where
  "validate49_publication_any0 data p = on_type Collect TObject p ''#/$defs/FilePublication/type'' data
    (required Collect [''name'', ''canonical_id'', ''sha256'', ''publisher_safety_number'', ''sequence'', ''committed_unix''] p ''#/$defs/FilePublication/required'' data
    (then_valid (no_additional Collect [''canonical_id'', ''committed_unix'', ''name'', ''publisher_safety_number'', ''sequence'', ''sha256''] p ''#/$defs/FilePublication/additionalProperties'' data)
    (properties [
      on_prop data ''canonical_id'' (\<lambda>v. check_type Collect [TString] (at_prop p ''canonical_id'') ''#/$defs/FilePublication/properties/canonical_id/type'' v),
      on_prop data ''committed_unix'' (\<lambda>v. check_type Collect [TString] (at_prop p ''committed_unix'') ''#/$defs/FilePublication/properties/committed_unix/type'' v),
      on_prop data ''name'' (\<lambda>v. check_type Collect [TString] (at_prop p ''name'') ''#/$defs/FilePublication/properties/name/type'' v),
      on_prop data ''publisher_safety_number'' (\<lambda>v. check_type Collect [TString] (at_prop p ''publisher_safety_number'') ''#/$defs/FilePublication/properties/publisher_safety_number/type'' v),
      on_prop data ''sequence'' (\<lambda>v. check_type Collect [TString] (at_prop p ''sequence'') ''#/$defs/FilePublication/properties/sequence/type'' v),
      on_prop data ''sha256'' (\<lambda>v. check_type Collect [TString] (at_prop p ''sha256'') ''#/$defs/FilePublication/properties/sha256/type'' v)])))"

definition validate49_publication :: "json \<Rightarrow> string \<Rightarrow> step" where
  "validate49_publication data p = any_of Return p ''#/properties/publication/anyOf'' [
      validate49_publication_any0 data p,
      check_type Collect [TNull] p ''#/properties/publication/anyOf/1/type'' data]"

definition validate49 :: validator where
  "validate49 data instancePath = run_guard (on_type Return TObject instancePath ''#/type'' data
    (required Return [''id'', ''conversation'', ''name'', ''size_bytes'', ''verified_bytes'', ''state'', ''sources'', ''completed_by''] instancePath ''#/required'' data
    (then_valid (no_additional Return [''aliases'', ''completed_by'', ''conversation'', ''error'', ''id'', ''name'', ''publication'', ''size_bytes'', ''sources'', ''state'', ''verified_bytes'', ''verified_sources''] instancePath ''#/additionalProperties'' data)
    (properties [
      on_prop data ''aliases'' (\<lambda>data0. then_valid (check_type Return [TArray, TNull] (at_prop instancePath ''aliases'') ''#/properties/aliases/type'' data0) (items data0 (\<lambda>i0 item. check_type Return [TString] (at_index (at_prop instancePath ''aliases'') i0) ''#/properties/aliases/items/type'' item))),
      on_prop data ''completed_by'' (\<lambda>data2. then_valid (check_type Return [TInteger] (at_prop instancePath ''completed_by'') ''#/properties/completed_by/type'' data2) (check_range Return (Some 65535) 0 (at_prop instancePath ''completed_by'') ''#/properties/completed_by'' data2)),
      on_prop data ''conversation'' (\<lambda>v. check_type Return [TString] (at_prop instancePath ''conversation'') ''#/properties/conversation/type'' v),
      on_prop data ''error'' (\<lambda>data4. check_type Return [TString, TNull] (at_prop instancePath ''error'') ''#/properties/error/type'' data4),
      on_prop data ''id'' (\<lambda>v. check_type Return [TString] (at_prop instancePath ''id'') ''#/properties/id/type'' v),
      on_prop data ''name'' (\<lambda>v. check_type Return [TString] (at_prop instancePath ''name'') ''#/properties/name/type'' v),
      on_prop data ''publication'' (\<lambda>data7. validate49_publication data7 (at_prop instancePath ''publication'')),
      on_prop data ''size_bytes'' (\<lambda>v. check_type Return [TString] (at_prop instancePath ''size_bytes'') ''#/properties/size_bytes/type'' v),
      on_prop data ''sources'' (\<lambda>data15. then_valid (check_type Return [TInteger] (at_prop instancePath ''sources'') ''#/properties/sources/type'' data15) (check_range Return (Some 65535) 0 (at_prop instancePath ''sources'') ''#/properties/sources'' data15)),
      on_prop data ''state'' (\<lambda>data16. seq (check_type Return [TString] (at_prop instancePath ''state'') ''#/$defs/FileState/type'' data16) (check_enum Return [''offered'', ''importing'', ''downloading'', ''waiting_for_peers'', ''paused'', ''complete'', ''failed'', ''cancelled''] (at_prop instancePath ''state'') ''#/$defs/FileState/enum'' data16)),
      on_prop data ''verified_bytes'' (\<lambda>v. check_type Return [TString] (at_prop instancePath ''verified_bytes'') ''#/properties/verified_bytes/type'' v),
      on_prop data ''verified_sources'' (\<lambda>data18. then_valid (check_type Return [TInteger] (at_prop instancePath ''verified_sources'') ''#/properties/verified_sources/type'' data18) (check_range Return (Some 65535) 0 (at_prop instancePath ''verified_sources'') ''#/properties/verified_sources'' data18))]))))"

definition validate48 :: validator where
  "validate48 data instancePath = run_guard (on_type Return TObject instancePath ''#/type'' data
    (required Return [''files'', ''quota_bytes'', ''used_bytes'', ''retention_days''] instancePath ''#/required'' data
    (then_valid (no_additional Return [''files'', ''quota_bytes'', ''retention_days'', ''used_bytes''] instancePath ''#/additionalProperties'' data)
    (properties [
      on_prop data ''files'' (\<lambda>data0. on_type Return TArray (at_prop instancePath ''files'') ''#/properties/files/type'' data0
    (items data0 (\<lambda>i0 item. call validate49 item (at_index (at_prop instancePath ''files'') i0)))),
      on_prop data ''quota_bytes'' (\<lambda>v. check_type Return [TString] (at_prop instancePath ''quota_bytes'') ''#/properties/quota_bytes/type'' v),
      on_prop data ''retention_days'' (\<lambda>data3. then_valid (check_type Return [TInteger] (at_prop instancePath ''retention_days'') ''#/properties/retention_days/type'' data3) (check_range Return (Some 65535) 0 (at_prop instancePath ''retention_days'') ''#/properties/retention_days'' data3)),
      on_prop data ''used_bytes'' (\<lambda>v. check_type Return [TString] (at_prop instancePath ''used_bytes'') ''#/properties/used_bytes/type'' v)]))))"

definition validate53_build_any0 :: "json \<Rightarrow> string \<Rightarrow> step" where
  "validate53_build_any0 data p = on_type Collect TObject p ''#/$defs/BuildInfo/type'' data
    (required Collect [''releaseId'', ''gchatCommit'', ''gcomsCommit'', ''version''] p ''#/$defs/BuildInfo/required'' data
    (properties [
      on_prop data ''gchatCommit'' (\<lambda>v. check_type Collect [TString] (at_prop p ''gchatCommit'') ''#/$defs/BuildInfo/properties/gchatCommit/type'' v),
      on_prop data ''gcomsCommit'' (\<lambda>v. check_type Collect [TString] (at_prop p ''gcomsCommit'') ''#/$defs/BuildInfo/properties/gcomsCommit/type'' v),
      on_prop data ''releaseId'' (\<lambda>v. check_type Collect [TString] (at_prop p ''releaseId'') ''#/$defs/BuildInfo/properties/releaseId/type'' v),
      on_prop data ''version'' (\<lambda>v. check_type Collect [TString] (at_prop p ''version'') ''#/$defs/BuildInfo/properties/version/type'' v)]))"

definition validate53_build :: "json \<Rightarrow> string \<Rightarrow> step" where
  "validate53_build data p = any_of Return p ''#/properties/build/anyOf'' [
      validate53_build_any0 data p,
      check_type Collect [TNull] p ''#/properties/build/anyOf/1/type'' data]"

definition validate53 :: validator where
  "validate53 data instancePath = run_guard (on_type Return TObject instancePath ''#/type'' data
    (required Return [''id'', ''label'', ''bootId'', ''locked'', ''protocolLocked'', ''profileExists'', ''archiveExists'', ''safetyNumber'', ''capabilities''] instancePath ''#/required'' data
    (properties [
      on_prop data ''archiveExists'' (\<lambda>v. check_type Return [TBoolean] (at_prop instancePath ''archiveExists'') ''#/properties/archiveExists/type'' v),
      on_prop data ''bootId'' (\<lambda>v. check_type Return [TString] (at_prop instancePath ''bootId'') ''#/properties/bootId/type'' v),
      on_prop data ''build'' (\<lambda>data2. validate53_build data2 (at_prop instancePath ''build'')),
      on_prop data ''capabilities'' (\<lambda>data7. on_type Return TArray (at_prop instancePath ''capabilities'') ''#/properties/capabilities/type'' data7
    (items data7 (\<lambda>i0 item. check_type Return [TString] (at_index (at_prop instancePath ''capabilities'') i0) ''#/properties/capabilities/items/type'' item))),
      on_prop data ''id'' (\<lambda>v. check_type Return [TString] (at_prop instancePath ''id'') ''#/properties/id/type'' v),
      on_prop data ''label'' (\<lambda>v. check_type Return [TString] (at_prop instancePath ''label'') ''#/properties/label/type'' v),
      on_prop data ''locked'' (\<lambda>v. check_type Return [TBoolean] (at_prop instancePath ''locked'') ''#/properties/locked/type'' v),
      on_prop data ''profileExists'' (\<lambda>v. check_type Return [TBoolean] (at_prop instancePath ''profileExists'') ''#/properties/profileExists/type'' v),
      on_prop data ''protocolLocked'' (\<lambda>v. check_type Return [TBoolean] (at_prop instancePath ''protocolLocked'') ''#/properties/protocolLocked/type'' v),
      on_prop data ''safetyNumber'' (\<lambda>v. check_type Return [TString] (at_prop instancePath ''safetyNumber'') ''#/properties/safetyNumber/type'' v)])))"

definition validate57_presence_any0_available :: "json \<Rightarrow> string \<Rightarrow> step" where
  "validate57_presence_any0_available data p = on_type Collect TObject p ''#/$defs/MemberPresence/oneOf/0/type'' data
    (required Collect [''state''] p ''#/$defs/MemberPresence/oneOf/0/required'' data
    (properties [
      on_prop data ''state'' (\<lambda>data6. seq (check_type Collect [TString] (at_prop p ''state'') ''#/$defs/MemberPresence/oneOf/0/properties/state/type'' data6) (check_const Collect ''available'' (at_prop p ''state'') ''#/$defs/MemberPresence/oneOf/0/properties/state/const'' data6))]))"

definition validate57_presence_any0_away :: "json \<Rightarrow> string \<Rightarrow> step" where
  "validate57_presence_any0_away data p = on_type Collect TObject p ''#/$defs/MemberPresence/oneOf/1/type'' data
    (required Collect [''state'', ''reason''] p ''#/$defs/MemberPresence/oneOf/1/required'' data
    (properties [
      on_prop data ''reason'' (\<lambda>v. check_type Collect [TString] (at_prop p ''reason'') ''#/$defs/MemberPresence/oneOf/1/properties/reason/type'' v),
      on_prop data ''state'' (\<lambda>data8. seq (check_type Collect [TString] (at_prop p ''state'') ''#/$defs/MemberPresence/oneOf/1/properties/state/type'' data8) (check_const Collect ''away'' (at_prop p ''state'') ''#/$defs/MemberPresence/oneOf/1/properties/state/const'' data8))]))"

definition validate57_presence_any0_unknown :: "json \<Rightarrow> string \<Rightarrow> step" where
  "validate57_presence_any0_unknown data p = on_type Collect TObject p ''#/$defs/MemberPresence/oneOf/2/type'' data
    (required Collect [''state''] p ''#/$defs/MemberPresence/oneOf/2/required'' data
    (properties [
      on_prop data ''state'' (\<lambda>data9. seq (check_type Collect [TString] (at_prop p ''state'') ''#/$defs/MemberPresence/oneOf/2/properties/state/type'' data9) (check_const Collect ''unknown'' (at_prop p ''state'') ''#/$defs/MemberPresence/oneOf/2/properties/state/const'' data9))]))"

definition validate57_presence_any0 :: "json \<Rightarrow> string \<Rightarrow> step" where
  "validate57_presence_any0 data p = one_of Collect p ''#/$defs/MemberPresence/oneOf'' [
      validate57_presence_any0_available data p,
      validate57_presence_any0_away data p,
      validate57_presence_any0_unknown data p]"

definition validate57_presence :: "json \<Rightarrow> string \<Rightarrow> step" where
  "validate57_presence data p = any_of Return p ''#/properties/presence/anyOf'' [
      validate57_presence_any0 data p,
      check_type Collect [TNull] p ''#/properties/presence/anyOf/1/type'' data]"

definition validate57 :: validator where
  "validate57 data instancePath = run_guard (on_type Return TObject instancePath ''#/type'' data
    (required Return [''id'', ''nickname'', ''isSelf''] instancePath ''#/required'' data
    (properties [
      on_prop data ''capabilities'' (\<lambda>data0. on_type Return TArray (at_prop instancePath ''capabilities'') ''#/properties/capabilities/type'' data0
    (items data0 (\<lambda>i0 item. check_type Return [TString] (at_index (at_prop instancePath ''capabilities'') i0) ''#/properties/capabilities/items/type'' item))),
      on_prop data ''id'' (\<lambda>v. check_type Return [TString] (at_prop instancePath ''id'') ''#/properties/id/type'' v),
      on_prop data ''isSelf'' (\<lambda>v. check_type Return [TBoolean] (at_prop instancePath ''isSelf'') ''#/properties/isSelf/type'' v),
      on_prop data ''nickname'' (\<lambda>v. check_type Return [TString] (at_prop instancePath ''nickname'') ''#/properties/nickname/type'' v),
      on_prop data ''presence'' (\<lambda>data5. validate57_presence data5 (at_prop instancePath ''presence'')),
      on_prop data ''recentlyActive'' (\<lambda>data10. check_type Return [TBoolean, TNull] (at_prop instancePath ''recentlyActive'') ''#/properties/recentlyActive/type'' data10)])))"

definition validate56_catchUp_any0 :: "json \<Rightarrow> string \<Rightarrow> step" where
  "validate56_catchUp_any0 data p = on_type Collect TObject p ''#/$defs/ChannelCatchUp/type'' data
    (required Collect [''appliedRecords''] p ''#/$defs/ChannelCatchUp/required'' data
    (properties [
      on_prop data ''appliedRecords'' (\<lambda>data2. then_valid (check_type Collect [TInteger] (at_prop p ''appliedRecords'') ''#/$defs/ChannelCatchUp/properties/appliedRecords/type'' data2) (check_range Collect None 0 (at_prop p ''appliedRecords'') ''#/$defs/ChannelCatchUp/properties/appliedRecords'' data2))]))"

definition validate56_catchUp :: "json \<Rightarrow> string \<Rightarrow> step" where
  "validate56_catchUp data p = any_of Return p ''#/properties/catchUp/anyOf'' [
      validate56_catchUp_any0 data p,
      check_type Collect [TNull] p ''#/properties/catchUp/anyOf/1/type'' data]"

definition validate56_commands_item :: "json \<Rightarrow> string \<Rightarrow> step" where
  "validate56_commands_item data p = on_type Return TObject p ''#/$defs/CommandSpec/type'' data
    (required Return [''name'', ''usage'', ''description'', ''scope'', ''available''] p ''#/$defs/CommandSpec/required'' data
    (properties [
      on_prop data ''available'' (\<lambda>v. check_type Return [TBoolean] (at_prop p ''available'') ''#/$defs/CommandSpec/properties/available/type'' v),
      on_prop data ''capability'' (\<lambda>data7. check_type Return [TString, TNull] (at_prop p ''capability'') ''#/$defs/CommandSpec/properties/capability/type'' data7),
      on_prop data ''description'' (\<lambda>v. check_type Return [TString] (at_prop p ''description'') ''#/$defs/CommandSpec/properties/description/type'' v),
      on_prop data ''name'' (\<lambda>v. check_type Return [TString] (at_prop p ''name'') ''#/$defs/CommandSpec/properties/name/type'' v),
      on_prop data ''scope'' (\<lambda>v. check_type Return [TString] (at_prop p ''scope'') ''#/$defs/CommandSpec/properties/scope/type'' v),
      on_prop data ''usage'' (\<lambda>v. check_type Return [TString] (at_prop p ''usage'') ''#/$defs/CommandSpec/properties/usage/type'' v)]))"

definition validate56_policy_any0 :: "json \<Rightarrow> string \<Rightarrow> step" where
  "validate56_policy_any0 data p = on_type Collect TObject p ''#/$defs/ChannelPolicy/type'' data
    (required Collect [''profile'', ''capacity'', ''moderated'', ''inviteOnly'', ''topicOperators'', ''presenceEnabled''] p ''#/$defs/ChannelPolicy/required'' data
    (properties [
      on_prop data ''capacity'' (\<lambda>data23. then_valid (check_type Collect [TInteger] (at_prop p ''capacity'') ''#/$defs/ChannelPolicy/properties/capacity/type'' data23) (check_range Collect None 0 (at_prop p ''capacity'') ''#/$defs/ChannelPolicy/properties/capacity'' data23)),
      on_prop data ''inviteOnly'' (\<lambda>v. check_type Collect [TBoolean] (at_prop p ''inviteOnly'') ''#/$defs/ChannelPolicy/properties/inviteOnly/type'' v),
      on_prop data ''moderated'' (\<lambda>v. check_type Collect [TBoolean] (at_prop p ''moderated'') ''#/$defs/ChannelPolicy/properties/moderated/type'' v),
      on_prop data ''presenceEnabled'' (\<lambda>v. check_type Collect [TBoolean] (at_prop p ''presenceEnabled'') ''#/$defs/ChannelPolicy/properties/presenceEnabled/type'' v),
      on_prop data ''profile'' (\<lambda>v. check_type Collect [TString] (at_prop p ''profile'') ''#/$defs/ChannelPolicy/properties/profile/type'' v),
      on_prop data ''topicOperators'' (\<lambda>v. check_type Collect [TBoolean] (at_prop p ''topicOperators'') ''#/$defs/ChannelPolicy/properties/topicOperators/type'' v)]))"

definition validate56_policy :: "json \<Rightarrow> string \<Rightarrow> step" where
  "validate56_policy data p = any_of Return p ''#/properties/policy/anyOf'' [
      validate56_policy_any0 data p,
      check_type Collect [TNull] p ''#/properties/policy/anyOf/1/type'' data]"

definition validate56 :: validator where
  "validate56 data instancePath = run_guard (on_type Return TObject instancePath ''#/type'' data
    (required Return [''id'', ''channelId'', ''kind'', ''name'', ''topic'', ''active'', ''owner'', ''members'', ''unread''] instancePath ''#/required'' data
    (properties [
      on_prop data ''active'' (\<lambda>v. check_type Return [TBoolean] (at_prop instancePath ''active'') ''#/properties/active/type'' v),
      on_prop data ''catchUp'' (\<lambda>data1. validate56_catchUp data1 (at_prop instancePath ''catchUp'')),
      on_prop data ''channelId'' (\<lambda>v. check_type Return [TString] (at_prop instancePath ''channelId'') ''#/properties/channelId/type'' v),
      on_prop data ''commands'' (\<lambda>data4. on_type Return TArray (at_prop instancePath ''commands'') ''#/properties/commands/type'' data4
    (items data4 (\<lambda>i0 data5. validate56_commands_item data5 (at_index (at_prop instancePath ''commands'') i0)))),
      on_prop data ''directory'' (\<lambda>data12. check_type Return [TString, TNull] (at_prop instancePath ''directory'') ''#/properties/directory/type'' data12),
      on_prop data ''id'' (\<lambda>v. check_type Return [TString] (at_prop instancePath ''id'') ''#/properties/id/type'' v),
      on_prop data ''inputLimitBytes'' (\<lambda>data14. then_valid (check_type Return [TInteger] (at_prop instancePath ''inputLimitBytes'') ''#/properties/inputLimitBytes/type'' data14) (check_range Return None 0 (at_prop instancePath ''inputLimitBytes'') ''#/properties/inputLimitBytes'' data14)),
      on_prop data ''kind'' (\<lambda>data15. seq (check_type Return [TString] (at_prop instancePath ''kind'') ''#/$defs/ConversationKind/type'' data15) (check_enum Return [''channel'', ''query'', ''archive''] (at_prop instancePath ''kind'') ''#/$defs/ConversationKind/enum'' data15)),
      on_prop data ''lastMessageId'' (\<lambda>data16. check_type Return [TString, TNull] (at_prop instancePath ''lastMessageId'') ''#/properties/lastMessageId/type'' data16),
      on_prop data ''members'' (\<lambda>data17. on_type Return TArray (at_prop instancePath ''members'') ''#/properties/members/type'' data17
    (items data17 (\<lambda>i1 item. call validate57 item (at_index (at_prop instancePath ''members'') i1)))),
      on_prop data ''muted'' (\<lambda>data19. check_type Return [TBoolean, TNull] (at_prop instancePath ''muted'') ''#/properties/muted/type'' data19),
      on_prop data ''name'' (\<lambda>v. check_type Return [TString] (at_prop instancePath ''name'') ''#/properties/name/type'' v),
      on_prop data ''owner'' (\<lambda>v. check_type Return [TBoolean] (at_prop instancePath ''owner'') ''#/properties/owner/type'' v),
      on_prop data ''policy'' (\<lambda>data22. validate56_policy data22 (at_prop instancePath ''policy'')),
      on_prop data ''provider'' (\<lambda>data29. check_type Return [TString, TNull] (at_prop instancePath ''provider'') ''#/properties/provider/type'' data29),
      on_prop data ''topic'' (\<lambda>v. check_type Return [TString] (at_prop instancePath ''topic'') ''#/properties/topic/type'' v),
      on_prop data ''unread'' (\<lambda>data31. then_valid (check_type Return [TInteger] (at_prop instancePath ''unread'') ''#/properties/unread/type'' data31) (check_range Return None 0 (at_prop instancePath ''unread'') ''#/properties/unread'' data31)),
      on_prop data ''visibility'' (\<lambda>data32. check_type Return [TString, TNull] (at_prop instancePath ''visibility'') ''#/properties/visibility/type'' data32)])))"

definition validate62_invitation_options :: "json \<Rightarrow> string \<Rightarrow> step" where
  "validate62_invitation_options data p = on_type Collect TObject p ''#/oneOf/0/type'' data
    (required Collect [''kind'', ''channel''] p ''#/oneOf/0/required'' data
    (properties [
      on_prop data ''channel'' (\<lambda>v. check_type Collect [TString] (at_prop p ''channel'') ''#/oneOf/0/properties/channel/type'' v),
      on_prop data ''kind'' (\<lambda>data1. seq (check_type Collect [TString] (at_prop p ''kind'') ''#/oneOf/0/properties/kind/type'' data1) (check_const Collect ''invitation_options'' (at_prop p ''kind'') ''#/oneOf/0/properties/kind/const'' data1))]))"

definition validate62_invitations_records_item :: "json \<Rightarrow> string \<Rightarrow> step" where
  "validate62_invitations_records_item data p = on_type Collect TObject p ''#/$defs/InvitationRecord/type'' data
    (required Collect [''id'', ''admitted'', ''pending'', ''revoked''] p ''#/$defs/InvitationRecord/required'' data
    (properties [
      on_prop data ''admitted'' (\<lambda>data6. then_valid (check_type Collect [TInteger] (at_prop p ''admitted'') ''#/$defs/InvitationRecord/properties/admitted/type'' data6) (check_range Collect None 0 (at_prop p ''admitted'') ''#/$defs/InvitationRecord/properties/admitted'' data6)),
      on_prop data ''expires'' (\<lambda>data7. then_valid (check_type Collect [TInteger, TNull] (at_prop p ''expires'') ''#/$defs/InvitationRecord/properties/expires/type'' data7) (check_range Collect None 0 (at_prop p ''expires'') ''#/$defs/InvitationRecord/properties/expires'' data7)),
      on_prop data ''id'' (\<lambda>v. check_type Collect [TString] (at_prop p ''id'') ''#/$defs/InvitationRecord/properties/id/type'' v),
      on_prop data ''limit'' (\<lambda>data9. then_valid (check_type Collect [TInteger, TNull] (at_prop p ''limit'') ''#/$defs/InvitationRecord/properties/limit/type'' data9) (check_range Collect None 0 (at_prop p ''limit'') ''#/$defs/InvitationRecord/properties/limit'' data9)),
      on_prop data ''pending'' (\<lambda>data10. then_valid (check_type Collect [TInteger] (at_prop p ''pending'') ''#/$defs/InvitationRecord/properties/pending/type'' data10) (check_range Collect None 0 (at_prop p ''pending'') ''#/$defs/InvitationRecord/properties/pending'' data10)),
      on_prop data ''revoked'' (\<lambda>v. check_type Collect [TBoolean] (at_prop p ''revoked'') ''#/$defs/InvitationRecord/properties/revoked/type'' v)]))"

definition validate62_invitations :: "json \<Rightarrow> string \<Rightarrow> step" where
  "validate62_invitations data p = on_type Collect TObject p ''#/oneOf/1/type'' data
    (required Collect [''kind'', ''channel'', ''records''] p ''#/oneOf/1/required'' data
    (properties [
      on_prop data ''channel'' (\<lambda>v. check_type Collect [TString] (at_prop p ''channel'') ''#/oneOf/1/properties/channel/type'' v),
      on_prop data ''kind'' (\<lambda>data3. seq (check_type Collect [TString] (at_prop p ''kind'') ''#/oneOf/1/properties/kind/type'' data3) (check_const Collect ''invitations'' (at_prop p ''kind'') ''#/oneOf/1/properties/kind/const'' data3)),
      on_prop data ''records'' (\<lambda>data4. on_type Collect TArray (at_prop p ''records'') ''#/oneOf/1/properties/records/type'' data4
    (items data4 (\<lambda>i0 data5. validate62_invitations_records_item data5 (at_index (at_prop p ''records'') i0))))]))"

definition validate62_reusable_invitation :: "json \<Rightarrow> string \<Rightarrow> step" where
  "validate62_reusable_invitation data p = on_type Collect TObject p ''#/oneOf/2/type'' data
    (required Collect [''kind'', ''channel'', ''link'', ''id'', ''localOnly''] p ''#/oneOf/2/required'' data
    (properties [
      on_prop data ''channel'' (\<lambda>v. check_type Collect [TString] (at_prop p ''channel'') ''#/oneOf/2/properties/channel/type'' v),
      on_prop data ''expires'' (\<lambda>data13. then_valid (check_type Collect [TInteger, TNull] (at_prop p ''expires'') ''#/oneOf/2/properties/expires/type'' data13) (check_range Collect None 0 (at_prop p ''expires'') ''#/oneOf/2/properties/expires'' data13)),
      on_prop data ''id'' (\<lambda>v. check_type Collect [TString] (at_prop p ''id'') ''#/oneOf/2/properties/id/type'' v),
      on_prop data ''kind'' (\<lambda>data15. seq (check_type Collect [TString] (at_prop p ''kind'') ''#/oneOf/2/properties/kind/type'' data15) (check_const Collect ''reusable_invitation'' (at_prop p ''kind'') ''#/oneOf/2/properties/kind/const'' data15)),
      on_prop data ''limit'' (\<lambda>data16. then_valid (check_type Collect [TInteger, TNull] (at_prop p ''limit'') ''#/oneOf/2/properties/limit/type'' data16) (check_range Collect None 0 (at_prop p ''limit'') ''#/oneOf/2/properties/limit'' data16)),
      on_prop data ''link'' (\<lambda>v. check_type Collect [TString] (at_prop p ''link'') ''#/oneOf/2/properties/link/type'' v),
      on_prop data ''localOnly'' (\<lambda>v. check_type Collect [TBoolean] (at_prop p ''localOnly'') ''#/oneOf/2/properties/localOnly/type'' v)]))"

definition validate62_enrollment :: "json \<Rightarrow> string \<Rightarrow> step" where
  "validate62_enrollment data p = on_type Collect TObject p ''#/oneOf/3/type'' data
    (required Collect [''kind'', ''id'', ''channel'', ''phase'', ''attempts''] p ''#/oneOf/3/required'' data
    (properties [
      on_prop data ''attempts'' (\<lambda>data19. then_valid (check_type Collect [TInteger] (at_prop p ''attempts'') ''#/oneOf/3/properties/attempts/type'' data19) (check_range Collect None 0 (at_prop p ''attempts'') ''#/oneOf/3/properties/attempts'' data19)),
      on_prop data ''channel'' (\<lambda>v. check_type Collect [TString] (at_prop p ''channel'') ''#/oneOf/3/properties/channel/type'' v),
      on_prop data ''id'' (\<lambda>v. check_type Collect [TString] (at_prop p ''id'') ''#/oneOf/3/properties/id/type'' v),
      on_prop data ''kind'' (\<lambda>data22. seq (check_type Collect [TString] (at_prop p ''kind'') ''#/oneOf/3/properties/kind/type'' data22) (check_const Collect ''enrollment'' (at_prop p ''kind'') ''#/oneOf/3/properties/kind/const'' data22)),
      on_prop data ''message'' (\<lambda>data23. check_type Collect [TString, TNull] (at_prop p ''message'') ''#/oneOf/3/properties/message/type'' data23),
      on_prop data ''phase'' (\<lambda>v. check_type Collect [TString] (at_prop p ''phase'') ''#/oneOf/3/properties/phase/type'' v)]))"

definition validate62_enrollments :: "validator \<Rightarrow> json \<Rightarrow> string \<Rightarrow> step" where
  "validate62_enrollments recur data p = on_type Collect TObject p ''#/oneOf/4/type'' data
    (required Collect [''kind'', ''entries''] p ''#/oneOf/4/required'' data
    (properties [
      on_prop data ''entries'' (\<lambda>data25. on_type Collect TArray (at_prop p ''entries'') ''#/oneOf/4/properties/entries/type'' data25
    (items data25 (\<lambda>i1 item. call recur item (at_index (at_prop p ''entries'') i1)))),
      on_prop data ''kind'' (\<lambda>data27. seq (check_type Collect [TString] (at_prop p ''kind'') ''#/oneOf/4/properties/kind/type'' data27) (check_const Collect ''enrollments'' (at_prop p ''kind'') ''#/oneOf/4/properties/kind/const'' data27))]))"

lemma validate62_enrollments_cong [fundef_cong]:
  "data = data' \<Longrightarrow> p = p' \<Longrightarrow> (\<And>x q. size x < size data' \<Longrightarrow> v x q = v' x q) \<Longrightarrow>
   validate62_enrollments v data p = validate62_enrollments v' data' p'"
  by (simp add: validate62_enrollments_def on_prop_items_cong[of data' v v'])

definition validate62_help_commands_item :: "json \<Rightarrow> string \<Rightarrow> step" where
  "validate62_help_commands_item data p = on_type Collect TObject p ''#/$defs/CommandSpec/type'' data
    (required Collect [''name'', ''usage'', ''description'', ''scope'', ''available''] p ''#/$defs/CommandSpec/required'' data
    (properties [
      on_prop data ''available'' (\<lambda>v. check_type Collect [TBoolean] (at_prop p ''available'') ''#/$defs/CommandSpec/properties/available/type'' v),
      on_prop data ''capability'' (\<lambda>data31. check_type Collect [TString, TNull] (at_prop p ''capability'') ''#/$defs/CommandSpec/properties/capability/type'' data31),
      on_prop data ''description'' (\<lambda>v. check_type Collect [TString] (at_prop p ''description'') ''#/$defs/CommandSpec/properties/description/type'' v),
      on_prop data ''name'' (\<lambda>v. check_type Collect [TString] (at_prop p ''name'') ''#/$defs/CommandSpec/properties/name/type'' v),
      on_prop data ''scope'' (\<lambda>v. check_type Collect [TString] (at_prop p ''scope'') ''#/$defs/CommandSpec/properties/scope/type'' v),
      on_prop data ''usage'' (\<lambda>v. check_type Collect [TString] (at_prop p ''usage'') ''#/$defs/CommandSpec/properties/usage/type'' v)]))"

definition validate62_help :: "json \<Rightarrow> string \<Rightarrow> step" where
  "validate62_help data p = on_type Collect TObject p ''#/oneOf/5/type'' data
    (required Collect [''kind'', ''commands''] p ''#/oneOf/5/required'' data
    (properties [
      on_prop data ''commands'' (\<lambda>data28. on_type Collect TArray (at_prop p ''commands'') ''#/oneOf/5/properties/commands/type'' data28
    (items data28 (\<lambda>i2 data29. validate62_help_commands_item data29 (at_index (at_prop p ''commands'') i2)))),
      on_prop data ''kind'' (\<lambda>data36. seq (check_type Collect [TString] (at_prop p ''kind'') ''#/oneOf/5/properties/kind/type'' data36) (check_const Collect ''help'' (at_prop p ''kind'') ''#/oneOf/5/properties/kind/const'' data36))]))"

definition validate62_directory_channels_item :: "json \<Rightarrow> string \<Rightarrow> step" where
  "validate62_directory_channels_item data p = on_type Collect TObject p ''#/$defs/DirectoryEntry/type'' data
    (required Collect [''name'', ''joined''] p ''#/$defs/DirectoryEntry/required'' data
    (properties [
      on_prop data ''conversation'' (\<lambda>data39. check_type Collect [TString, TNull] (at_prop p ''conversation'') ''#/$defs/DirectoryEntry/properties/conversation/type'' data39),
      on_prop data ''joined'' (\<lambda>v. check_type Collect [TBoolean] (at_prop p ''joined'') ''#/$defs/DirectoryEntry/properties/joined/type'' v),
      on_prop data ''name'' (\<lambda>v. check_type Collect [TString] (at_prop p ''name'') ''#/$defs/DirectoryEntry/properties/name/type'' v)]))"

definition validate62_directory :: "json \<Rightarrow> string \<Rightarrow> step" where
  "validate62_directory data p = on_type Collect TObject p ''#/oneOf/6/type'' data
    (required Collect [''kind'', ''channels''] p ''#/oneOf/6/required'' data
    (properties [
      on_prop data ''channels'' (\<lambda>data37. on_type Collect TArray (at_prop p ''channels'') ''#/oneOf/6/properties/channels/type'' data37
    (items data37 (\<lambda>i3 data38. validate62_directory_channels_item data38 (at_index (at_prop p ''channels'') i3)))),
      on_prop data ''kind'' (\<lambda>data42. seq (check_type Collect [TString] (at_prop p ''kind'') ''#/oneOf/6/properties/kind/type'' data42) (check_const Collect ''directory'' (at_prop p ''kind'') ''#/oneOf/6/properties/kind/const'' data42))]))"

definition validate62_invitation :: "json \<Rightarrow> string \<Rightarrow> step" where
  "validate62_invitation data p = on_type Collect TObject p ''#/oneOf/7/type'' data
    (required Collect [''kind'', ''channel'', ''link'', ''expires''] p ''#/oneOf/7/required'' data
    (properties [
      on_prop data ''channel'' (\<lambda>v. check_type Collect [TString] (at_prop p ''channel'') ''#/oneOf/7/properties/channel/type'' v),
      on_prop data ''expires'' (\<lambda>data44. then_valid (check_type Collect [TInteger] (at_prop p ''expires'') ''#/oneOf/7/properties/expires/type'' data44) (check_range Collect None 0 (at_prop p ''expires'') ''#/oneOf/7/properties/expires'' data44)),
      on_prop data ''kind'' (\<lambda>data45. seq (check_type Collect [TString] (at_prop p ''kind'') ''#/oneOf/7/properties/kind/type'' data45) (check_const Collect ''invitation'' (at_prop p ''kind'') ''#/oneOf/7/properties/kind/const'' data45)),
      on_prop data ''link'' (\<lambda>v. check_type Collect [TString] (at_prop p ''link'') ''#/oneOf/7/properties/link/type'' v),
      on_prop data ''localOnly'' (\<lambda>v. check_type Collect [TBoolean] (at_prop p ''localOnly'') ''#/oneOf/7/properties/localOnly/type'' v)]))"

definition validate62_text :: "json \<Rightarrow> string \<Rightarrow> step" where
  "validate62_text data p = on_type Collect TObject p ''#/oneOf/8/type'' data
    (required Collect [''kind'', ''title'', ''text''] p ''#/oneOf/8/required'' data
    (properties [
      on_prop data ''kind'' (\<lambda>data48. seq (check_type Collect [TString] (at_prop p ''kind'') ''#/oneOf/8/properties/kind/type'' data48) (check_const Collect ''text'' (at_prop p ''kind'') ''#/oneOf/8/properties/kind/const'' data48)),
      on_prop data ''text'' (\<lambda>v. check_type Collect [TString] (at_prop p ''text'') ''#/oneOf/8/properties/text/type'' v),
      on_prop data ''title'' (\<lambda>v. check_type Collect [TString] (at_prop p ''title'') ''#/oneOf/8/properties/title/type'' v)]))"

definition validate62_status :: "json \<Rightarrow> string \<Rightarrow> step" where
  "validate62_status data p = on_type Collect TObject p ''#/oneOf/9/type'' data
    (required Collect [''kind'', ''text''] p ''#/oneOf/9/required'' data
    (properties [
      on_prop data ''kind'' (\<lambda>data51. seq (check_type Collect [TString] (at_prop p ''kind'') ''#/oneOf/9/properties/kind/type'' data51) (check_const Collect ''status'' (at_prop p ''kind'') ''#/oneOf/9/properties/kind/const'' data51)),
      on_prop data ''text'' (\<lambda>v. check_type Collect [TString] (at_prop p ''text'') ''#/oneOf/9/properties/text/type'' v)]))"

definition validate62_close :: "json \<Rightarrow> string \<Rightarrow> step" where
  "validate62_close data p = on_type Collect TObject p ''#/oneOf/10/type'' data
    (required Collect [''kind'', ''conversation''] p ''#/oneOf/10/required'' data
    (properties [
      on_prop data ''conversation'' (\<lambda>v. check_type Collect [TString] (at_prop p ''conversation'') ''#/oneOf/10/properties/conversation/type'' v),
      on_prop data ''kind'' (\<lambda>data54. seq (check_type Collect [TString] (at_prop p ''kind'') ''#/oneOf/10/properties/kind/type'' data54) (check_const Collect ''close'' (at_prop p ''kind'') ''#/oneOf/10/properties/kind/const'' data54))]))"

definition validate62_membership_recovery_members_item :: "json \<Rightarrow> string \<Rightarrow> step" where
  "validate62_membership_recovery_members_item data p = on_type Collect TObject p ''#/$defs/RecoveryMember/type'' data
    (required Collect [''id'', ''nickname'', ''isSelf'', ''missingCommit'', ''pendingMessages''] p ''#/$defs/RecoveryMember/required'' data
    (properties [
      on_prop data ''id'' (\<lambda>v. check_type Collect [TString] (at_prop p ''id'') ''#/$defs/RecoveryMember/properties/id/type'' v),
      on_prop data ''isSelf'' (\<lambda>v. check_type Collect [TBoolean] (at_prop p ''isSelf'') ''#/$defs/RecoveryMember/properties/isSelf/type'' v),
      on_prop data ''missingCommit'' (\<lambda>v. check_type Collect [TBoolean] (at_prop p ''missingCommit'') ''#/$defs/RecoveryMember/properties/missingCommit/type'' v),
      on_prop data ''nickname'' (\<lambda>v. check_type Collect [TString] (at_prop p ''nickname'') ''#/$defs/RecoveryMember/properties/nickname/type'' v),
      on_prop data ''pendingMessages'' (\<lambda>data65. then_valid (check_type Collect [TInteger] (at_prop p ''pendingMessages'') ''#/$defs/RecoveryMember/properties/pendingMessages/type'' data65) (check_range Collect None 0 (at_prop p ''pendingMessages'') ''#/$defs/RecoveryMember/properties/pendingMessages'' data65))]))"

definition validate62_membership_recovery :: "json \<Rightarrow> string \<Rightarrow> step" where
  "validate62_membership_recovery data p = on_type Collect TObject p ''#/oneOf/11/type'' data
    (required Collect [''kind'', ''channel'', ''expected'', ''epoch'', ''pending'', ''retained_messages'', ''members''] p ''#/oneOf/11/required'' data
    (properties [
      on_prop data ''channel'' (\<lambda>v. check_type Collect [TString] (at_prop p ''channel'') ''#/oneOf/11/properties/channel/type'' v),
      on_prop data ''epoch'' (\<lambda>v. check_type Collect [TString] (at_prop p ''epoch'') ''#/oneOf/11/properties/epoch/type'' v),
      on_prop data ''expected'' (\<lambda>v. check_type Collect [TString] (at_prop p ''expected'') ''#/oneOf/11/properties/expected/type'' v),
      on_prop data ''kind'' (\<lambda>data58. seq (check_type Collect [TString] (at_prop p ''kind'') ''#/oneOf/11/properties/kind/type'' data58) (check_const Collect ''membership_recovery'' (at_prop p ''kind'') ''#/oneOf/11/properties/kind/const'' data58)),
      on_prop data ''members'' (\<lambda>data59. on_type Collect TArray (at_prop p ''members'') ''#/oneOf/11/properties/members/type'' data59
    (items data59 (\<lambda>i4 data60. validate62_membership_recovery_members_item data60 (at_index (at_prop p ''members'') i4)))),
      on_prop data ''pending'' (\<lambda>v. check_type Collect [TBoolean] (at_prop p ''pending'') ''#/oneOf/11/properties/pending/type'' v),
      on_prop data ''retained_messages'' (\<lambda>data67. then_valid (check_type Collect [TInteger] (at_prop p ''retained_messages'') ''#/oneOf/11/properties/retained_messages/type'' data67) (check_range Collect None 0 (at_prop p ''retained_messages'') ''#/oneOf/11/properties/retained_messages'' data67))]))"

function validate62 :: validator where
  "validate62 data instancePath = run_guard (one_of Return instancePath ''#/oneOf'' [
      validate62_invitation_options data instancePath,
      validate62_invitations data instancePath,
      validate62_reusable_invitation data instancePath,
      validate62_enrollment data instancePath,
      validate62_enrollments (\<lambda>x q. validate62 x q) data instancePath,
      validate62_help data instancePath,
      validate62_directory data instancePath,
      validate62_invitation data instancePath,
      validate62_text data instancePath,
      validate62_status data instancePath,
      validate62_close data instancePath,
      validate62_membership_recovery data instancePath])"
  by pat_completeness auto
termination
  by (relation "measure (size \<circ> fst)") auto

declare validate62.simps [simp del]

definition validate61_output :: "json \<Rightarrow> string \<Rightarrow> step" where
  "validate61_output data p = any_of Return p ''#/properties/output/anyOf'' [
      call validate62 data p,
      check_type Collect [TNull] p ''#/properties/output/anyOf/1/type'' data]"

definition validate61 :: validator where
  "validate61 data instancePath = run_guard (on_type Return TObject instancePath ''#/type'' data
    (required Return [''id'', ''instance'', ''action'', ''started'', ''state''] instancePath ''#/required'' data
    (properties [
      on_prop data ''action'' (\<lambda>v. check_type Return [TString] (at_prop instancePath ''action'') ''#/properties/action/type'' v),
      on_prop data ''conversation'' (\<lambda>data1. check_type Return [TString, TNull] (at_prop instancePath ''conversation'') ''#/properties/conversation/type'' data1),
      on_prop data ''id'' (\<lambda>v. check_type Return [TString] (at_prop instancePath ''id'') ''#/properties/id/type'' v),
      on_prop data ''instance'' (\<lambda>v. check_type Return [TString] (at_prop instancePath ''instance'') ''#/properties/instance/type'' v),
      on_prop data ''message'' (\<lambda>data4. check_type Return [TString, TNull] (at_prop instancePath ''message'') ''#/properties/message/type'' data4),
      on_prop data ''network'' (\<lambda>data5. check_type Return [TString, TNull] (at_prop instancePath ''network'') ''#/properties/network/type'' data5),
      on_prop data ''output'' (\<lambda>data6. validate61_output data6 (at_prop instancePath ''output'')),
      on_prop data ''started'' (\<lambda>data7. then_valid (check_type Return [TInteger] (at_prop instancePath ''started'') ''#/properties/started/type'' data7) (check_range Return None 0 (at_prop instancePath ''started'') ''#/properties/started'' data7)),
      on_prop data ''state'' (\<lambda>v. check_type Return [TString] (at_prop instancePath ''state'') ''#/properties/state/type'' v)])))"

definition validate55_activity_item :: "json \<Rightarrow> string \<Rightarrow> step" where
  "validate55_activity_item data p = on_type Return TObject p ''#/$defs/Activity/type'' data
    (required Return [''id'', ''conversation'', ''kind'', ''text'', ''timestamp''] p ''#/$defs/Activity/required'' data
    (properties [
      on_prop data ''conversation'' (\<lambda>v. check_type Return [TString] (at_prop p ''conversation'') ''#/$defs/Activity/properties/conversation/type'' v),
      on_prop data ''id'' (\<lambda>v. check_type Return [TString] (at_prop p ''id'') ''#/$defs/Activity/properties/id/type'' v),
      on_prop data ''kind'' (\<lambda>v. check_type Return [TString] (at_prop p ''kind'') ''#/$defs/Activity/properties/kind/type'' v),
      on_prop data ''text'' (\<lambda>v. check_type Return [TString] (at_prop p ''text'') ''#/$defs/Activity/properties/text/type'' v),
      on_prop data ''timestamp'' (\<lambda>data6. then_valid (check_type Return [TInteger] (at_prop p ''timestamp'') ''#/$defs/Activity/properties/timestamp/type'' data6) (check_range Return None 0 (at_prop p ''timestamp'') ''#/$defs/Activity/properties/timestamp'' data6))]))"

definition validate55_inputHistory_item :: "json \<Rightarrow> string \<Rightarrow> step" where
  "validate55_inputHistory_item data p = on_type Return TObject p ''#/$defs/InputHistoryEntry/type'' data
    (required Return [''text''] p ''#/$defs/InputHistoryEntry/required'' data
    (properties [
      on_prop data ''conversation'' (\<lambda>data13. check_type Return [TString, TNull] (at_prop p ''conversation'') ''#/$defs/InputHistoryEntry/properties/conversation/type'' data13),
      on_prop data ''text'' (\<lambda>v. check_type Return [TString] (at_prop p ''text'') ''#/$defs/InputHistoryEntry/properties/text/type'' v)]))"

definition validate55_providerErrors_item :: "json \<Rightarrow> string \<Rightarrow> step" where
  "validate55_providerErrors_item data p = on_type Return TObject p ''#/$defs/ProviderStatus/type'' data
    (required Return [''id'', ''code'', ''message'', ''retryable''] p ''#/$defs/ProviderStatus/required'' data
    (properties [
      on_prop data ''code'' (\<lambda>v. check_type Return [TString] (at_prop p ''code'') ''#/$defs/ProviderStatus/properties/code/type'' v),
      on_prop data ''id'' (\<lambda>v. check_type Return [TString] (at_prop p ''id'') ''#/$defs/ProviderStatus/properties/id/type'' v),
      on_prop data ''message'' (\<lambda>v. check_type Return [TString] (at_prop p ''message'') ''#/$defs/ProviderStatus/properties/message/type'' v),
      on_prop data ''retryable'' (\<lambda>v. check_type Return [TBoolean] (at_prop p ''retryable'') ''#/$defs/ProviderStatus/properties/retryable/type'' v)]))"

definition validate55 :: validator where
  "validate55 data instancePath = run_guard (on_type Return TObject instancePath ''#/type'' data
    (required Return [''instance'', ''revision'', ''conversations'', ''commandHistory'', ''inputHistory''] instancePath ''#/required'' data
    (properties [
      on_prop data ''activity'' (\<lambda>data0. then_valid (check_type Return [TArray, TNull] (at_prop instancePath ''activity'') ''#/properties/activity/type'' data0) (items data0 (\<lambda>i0 data1. validate55_activity_item data1 (at_index (at_prop instancePath ''activity'') i0)))),
      on_prop data ''commandHistory'' (\<lambda>data7. on_type Return TArray (at_prop instancePath ''commandHistory'') ''#/properties/commandHistory/type'' data7
    (items data7 (\<lambda>i1 item. check_type Return [TString] (at_index (at_prop instancePath ''commandHistory'') i1) ''#/properties/commandHistory/items/type'' item))),
      on_prop data ''conversations'' (\<lambda>data9. on_type Return TArray (at_prop instancePath ''conversations'') ''#/properties/conversations/type'' data9
    (items data9 (\<lambda>i2 item. call validate56 item (at_index (at_prop instancePath ''conversations'') i2)))),
      on_prop data ''inputHistory'' (\<lambda>data11. on_type Return TArray (at_prop instancePath ''inputHistory'') ''#/properties/inputHistory/type'' data11
    (items data11 (\<lambda>i3 data12. validate55_inputHistory_item data12 (at_index (at_prop instancePath ''inputHistory'') i3)))),
      on_prop data ''instance'' (\<lambda>v. call validate53 v (at_prop instancePath ''instance'')),
      on_prop data ''operations'' (\<lambda>data16. then_valid (check_type Return [TArray, TNull] (at_prop instancePath ''operations'') ''#/properties/operations/type'' data16) (items data16 (\<lambda>i4 item. call validate61 item (at_index (at_prop instancePath ''operations'') i4)))),
      on_prop data ''presenceEnabled'' (\<lambda>data18. check_type Return [TBoolean, TNull] (at_prop instancePath ''presenceEnabled'') ''#/properties/presenceEnabled/type'' data18),
      on_prop data ''providerErrors'' (\<lambda>data19. on_type Return TArray (at_prop instancePath ''providerErrors'') ''#/properties/providerErrors/type'' data19
    (items data19 (\<lambda>i5 data20. validate55_providerErrors_item data20 (at_index (at_prop instancePath ''providerErrors'') i5)))),
      on_prop data ''revision'' (\<lambda>v. check_type Return [TString] (at_prop instancePath ''revision'') ''#/properties/revision/type'' v)])))"

definition validate68_artifacts_item :: "json \<Rightarrow> string \<Rightarrow> step" where
  "validate68_artifacts_item data p = on_type Return TObject p ''#/$defs/Artifact/type'' data
    (required Return [''name'', ''url''] p ''#/$defs/Artifact/required'' data
    (properties [
      on_prop data ''name'' (\<lambda>v. check_type Return [TString] (at_prop p ''name'') ''#/$defs/Artifact/properties/name/type'' v),
      on_prop data ''url'' (\<lambda>v. check_type Return [TString] (at_prop p ''url'') ''#/$defs/Artifact/properties/url/type'' v)]))"

definition validate68 :: validator where
  "validate68 data instancePath = run_guard (on_type Return TObject instancePath ''#/type'' data
    (required Return [''id'', ''state'', ''stderr'', ''details'', ''artifacts''] instancePath ''#/required'' data
    (properties [
      on_prop data ''artifacts'' (\<lambda>data0. on_type Return TArray (at_prop instancePath ''artifacts'') ''#/properties/artifacts/type'' data0
    (items data0 (\<lambda>i0 data1. validate68_artifacts_item data1 (at_index (at_prop instancePath ''artifacts'') i0)))),
      on_prop data ''details'' (\<lambda>data4. on_type Return TArray (at_prop instancePath ''details'') ''#/properties/details/type'' data4
    (items data4 (\<lambda>i1 item. check_type Return [TString] (at_index (at_prop instancePath ''details'') i1) ''#/properties/details/items/type'' item))),
      on_prop data ''id'' (\<lambda>v. check_type Return [TString] (at_prop instancePath ''id'') ''#/properties/id/type'' v),
      on_prop data ''messageId'' (\<lambda>data7. check_type Return [TString, TNull] (at_prop instancePath ''messageId'') ''#/properties/messageId/type'' data7),
      on_prop data ''outputBase64'' (\<lambda>data8. check_type Return [TString, TNull] (at_prop instancePath ''outputBase64'') ''#/properties/outputBase64/type'' data8),
      on_prop data ''state'' (\<lambda>v. check_type Return [TString] (at_prop instancePath ''state'') ''#/properties/state/type'' v),
      on_prop data ''stderr'' (\<lambda>v. check_type Return [TBoolean] (at_prop instancePath ''stderr'') ''#/properties/stderr/type'' v)])))"

definition validate67_delivery :: "json \<Rightarrow> string \<Rightarrow> step" where
  "validate67_delivery data p = any_of Return p ''#/properties/delivery/anyOf'' [
      seq (check_type Collect [TString] p ''#/$defs/Delivery/type'' data) (check_enum Collect [''local_accepted'', ''delivered'', ''service_accepted'', ''failed''] p ''#/$defs/Delivery/enum'' data),
      check_type Collect [TNull] p ''#/properties/delivery/anyOf/1/type'' data]"

definition validate67_messageKind :: "json \<Rightarrow> string \<Rightarrow> step" where
  "validate67_messageKind data p = any_of Return p ''#/properties/messageKind/anyOf'' [
      seq (check_type Collect [TString] p ''#/$defs/MessageKind/type'' data) (check_enum Collect [''text'', ''action'', ''notice''] p ''#/$defs/MessageKind/enum'' data),
      check_type Collect [TNull] p ''#/properties/messageKind/anyOf/1/type'' data]"

definition validate67_result :: "json \<Rightarrow> string \<Rightarrow> step" where
  "validate67_result data p = any_of Return p ''#/properties/result/anyOf'' [
      call validate68 data p,
      check_type Collect [TNull] p ''#/properties/result/anyOf/1/type'' data]"

definition validate67 :: validator where
  "validate67 data instancePath = run_guard (on_type Return TObject instancePath ''#/type'' data
    (required Return [''id'', ''conversationId'', ''nickname'', ''body'', ''timestamp'', ''mine''] instancePath ''#/required'' data
    (properties [
      on_prop data ''body'' (\<lambda>v. check_type Return [TString] (at_prop instancePath ''body'') ''#/properties/body/type'' v),
      on_prop data ''conversationId'' (\<lambda>v. check_type Return [TString] (at_prop instancePath ''conversationId'') ''#/properties/conversationId/type'' v),
      on_prop data ''delivery'' (\<lambda>data2. validate67_delivery data2 (at_prop instancePath ''delivery'')),
      on_prop data ''highlighted'' (\<lambda>data3. check_type Return [TBoolean, TNull] (at_prop instancePath ''highlighted'') ''#/properties/highlighted/type'' data3),
      on_prop data ''id'' (\<lambda>v. check_type Return [TString] (at_prop instancePath ''id'') ''#/properties/id/type'' v),
      on_prop data ''memberId'' (\<lambda>data5. check_type Return [TString, TNull] (at_prop instancePath ''memberId'') ''#/properties/memberId/type'' data5),
      on_prop data ''messageKind'' (\<lambda>data6. validate67_messageKind data6 (at_prop instancePath ''messageKind'')),
      on_prop data ''mine'' (\<lambda>v. check_type Return [TBoolean] (at_prop instancePath ''mine'') ''#/properties/mine/type'' v),
      on_prop data ''nickname'' (\<lambda>v. check_type Return [TString] (at_prop instancePath ''nickname'') ''#/properties/nickname/type'' v),
      on_prop data ''operationId'' (\<lambda>data9. check_type Return [TString, TNull] (at_prop instancePath ''operationId'') ''#/properties/operationId/type'' data9),
      on_prop data ''result'' (\<lambda>data10. validate67_result data10 (at_prop instancePath ''result'')),
      on_prop data ''timestamp'' (\<lambda>data11. then_valid (check_type Return [TInteger] (at_prop instancePath ''timestamp'') ''#/properties/timestamp/type'' data11) (check_range Return None 0 (at_prop instancePath ''timestamp'') ''#/properties/timestamp'' data11))])))"

definition validate66 :: validator where
  "validate66 data instancePath = run_guard (on_type Return TObject instancePath ''#/type'' data
    (required Return [''messages''] instancePath ''#/required'' data
    (properties [
      on_prop data ''before'' (\<lambda>data0. check_type Return [TString, TNull] (at_prop instancePath ''before'') ''#/properties/before/type'' data0),
      on_prop data ''messages'' (\<lambda>data1. on_type Return TArray (at_prop instancePath ''messages'') ''#/properties/messages/type'' data1
    (items data1 (\<lambda>i0 item. call validate67 item (at_index (at_prop instancePath ''messages'') i0))))])))"

definition validate47_update_result_attached :: "json \<Rightarrow> string \<Rightarrow> step" where
  "validate47_update_result_attached data p = on_type Collect TObject p ''#/$defs/PrepareUpdateResult/oneOf/0/type'' data
    (required Collect [''state''] p ''#/$defs/PrepareUpdateResult/oneOf/0/required'' data
    (properties [
      on_prop data ''state'' (\<lambda>data2. seq (check_type Collect [TString] (at_prop p ''state'') ''#/$defs/PrepareUpdateResult/oneOf/0/properties/state/type'' data2) (check_const Collect ''attached'' (at_prop p ''state'') ''#/$defs/PrepareUpdateResult/oneOf/0/properties/state/const'' data2))]))"

definition validate47_update_result_ready :: "json \<Rightarrow> string \<Rightarrow> step" where
  "validate47_update_result_ready data p = on_type Collect TObject p ''#/$defs/PrepareUpdateResult/oneOf/1/type'' data
    (required Collect [''state'', ''process_id'', ''boot_id''] p ''#/$defs/PrepareUpdateResult/oneOf/1/required'' data
    (properties [
      on_prop data ''boot_id'' (\<lambda>v. check_type Collect [TString] (at_prop p ''boot_id'') ''#/$defs/PrepareUpdateResult/oneOf/1/properties/boot_id/type'' v),
      on_prop data ''process_id'' (\<lambda>data4. then_valid (check_type Collect [TInteger] (at_prop p ''process_id'') ''#/$defs/PrepareUpdateResult/oneOf/1/properties/process_id/type'' data4) (check_range Collect None 0 (at_prop p ''process_id'') ''#/$defs/PrepareUpdateResult/oneOf/1/properties/process_id'' data4)),
      on_prop data ''state'' (\<lambda>data5. seq (check_type Collect [TString] (at_prop p ''state'') ''#/$defs/PrepareUpdateResult/oneOf/1/properties/state/type'' data5) (check_const Collect ''ready'' (at_prop p ''state'') ''#/$defs/PrepareUpdateResult/oneOf/1/properties/state/const'' data5))]))"

definition validate47_update_result_busy :: "json \<Rightarrow> string \<Rightarrow> step" where
  "validate47_update_result_busy data p = on_type Collect TObject p ''#/$defs/PrepareUpdateResult/oneOf/2/type'' data
    (required Collect [''state'', ''reason''] p ''#/$defs/PrepareUpdateResult/oneOf/2/required'' data
    (properties [
      on_prop data ''reason'' (\<lambda>v. check_type Collect [TString] (at_prop p ''reason'') ''#/$defs/PrepareUpdateResult/oneOf/2/properties/reason/type'' v),
      on_prop data ''state'' (\<lambda>data7. seq (check_type Collect [TString] (at_prop p ''state'') ''#/$defs/PrepareUpdateResult/oneOf/2/properties/state/type'' data7) (check_const Collect ''busy'' (at_prop p ''state'') ''#/$defs/PrepareUpdateResult/oneOf/2/properties/state/const'' data7))]))"

definition validate47_update_result :: "json \<Rightarrow> string \<Rightarrow> step" where
  "validate47_update_result data p = one_of Collect p ''#/$defs/PrepareUpdateResult/oneOf'' [
      validate47_update_result_attached data p,
      validate47_update_result_ready data p,
      validate47_update_result_busy data p]"

definition validate47_update :: "json \<Rightarrow> string \<Rightarrow> step" where
  "validate47_update data p = on_type Collect TObject p ''#/oneOf/0/type'' data
    (required Collect [''kind'', ''result''] p ''#/oneOf/0/required'' data
    (properties [
      on_prop data ''kind'' (\<lambda>data0. seq (check_type Collect [TString] (at_prop p ''kind'') ''#/oneOf/0/properties/kind/type'' data0) (check_const Collect ''update'' (at_prop p ''kind'') ''#/oneOf/0/properties/kind/const'' data0)),
      on_prop data ''result'' (\<lambda>data1. validate47_update_result data1 (at_prop p ''result''))]))"

definition validate47_networks :: "validator \<Rightarrow> json \<Rightarrow> string \<Rightarrow> step" where
  "validate47_networks recur data p = on_type Collect TObject p ''#/oneOf/1/type'' data
    (required Collect [''kind'', ''response''] p ''#/oneOf/1/required'' data
    (properties [
      on_prop data ''kind'' (\<lambda>data8. seq (check_type Collect [TString] (at_prop p ''kind'') ''#/oneOf/1/properties/kind/type'' data8) (check_const Collect ''networks'' (at_prop p ''kind'') ''#/oneOf/1/properties/kind/const'' data8)),
      on_prop data ''response'' (\<lambda>v. call recur v (at_prop p ''response''))]))"

lemma validate47_networks_cong [fundef_cong]:
  "data = data' \<Longrightarrow> p = p' \<Longrightarrow> (\<And>x q. size x < size data' \<Longrightarrow> v x q = v' x q) \<Longrightarrow>
   validate47_networks v data p = validate47_networks v' data' p'"
  by (simp add: validate47_networks_def on_prop_call_cong[of data' v v'])

definition validate47_files :: "json \<Rightarrow> string \<Rightarrow> step" where
  "validate47_files data p = on_type Collect TObject p ''#/oneOf/2/type'' data
    (required Collect [''kind'', ''snapshot''] p ''#/oneOf/2/required'' data
    (properties [
      on_prop data ''kind'' (\<lambda>data10. seq (check_type Collect [TString] (at_prop p ''kind'') ''#/oneOf/2/properties/kind/type'' data10) (check_const Collect ''files'' (at_prop p ''kind'') ''#/oneOf/2/properties/kind/const'' data10)),
      on_prop data ''snapshot'' (\<lambda>v. call validate48 v (at_prop p ''snapshot''))]))"

definition validate47_network_status :: "json \<Rightarrow> string \<Rightarrow> step" where
  "validate47_network_status data p = on_type Collect TObject p ''#/oneOf/3/type'' data
    (required Collect [''kind'', ''status''] p ''#/oneOf/3/required'' data
    (properties [
      on_prop data ''kind'' (\<lambda>data12. seq (check_type Collect [TString] (at_prop p ''kind'') ''#/oneOf/3/properties/kind/type'' data12) (check_const Collect ''network_status'' (at_prop p ''kind'') ''#/oneOf/3/properties/kind/const'' data12)),
      on_prop data ''status'' (\<lambda>v. call validate41 v (at_prop p ''status''))]))"

definition validate47_instance :: "json \<Rightarrow> string \<Rightarrow> step" where
  "validate47_instance data p = on_type Collect TObject p ''#/oneOf/4/type'' data
    (required Collect [''kind'', ''instance''] p ''#/oneOf/4/required'' data
    (properties [
      on_prop data ''instance'' (\<lambda>v. call validate53 v (at_prop p ''instance'')),
      on_prop data ''kind'' (\<lambda>data15. seq (check_type Collect [TString] (at_prop p ''kind'') ''#/oneOf/4/properties/kind/type'' data15) (check_const Collect ''instance'' (at_prop p ''kind'') ''#/oneOf/4/properties/kind/const'' data15))]))"

definition validate47_snapshot :: "json \<Rightarrow> string \<Rightarrow> step" where
  "validate47_snapshot data p = on_type Collect TObject p ''#/oneOf/5/type'' data
    (required Collect [''kind'', ''snapshot''] p ''#/oneOf/5/required'' data
    (properties [
      on_prop data ''kind'' (\<lambda>data16. seq (check_type Collect [TString] (at_prop p ''kind'') ''#/oneOf/5/properties/kind/type'' data16) (check_const Collect ''snapshot'' (at_prop p ''kind'') ''#/oneOf/5/properties/kind/const'' data16)),
      on_prop data ''snapshot'' (\<lambda>v. call validate55 v (at_prop p ''snapshot''))]))"

definition validate47_history :: "json \<Rightarrow> string \<Rightarrow> step" where
  "validate47_history data p = on_type Collect TObject p ''#/oneOf/6/type'' data
    (required Collect [''kind'', ''page''] p ''#/oneOf/6/required'' data
    (properties [
      on_prop data ''kind'' (\<lambda>data18. seq (check_type Collect [TString] (at_prop p ''kind'') ''#/oneOf/6/properties/kind/type'' data18) (check_const Collect ''history'' (at_prop p ''kind'') ''#/oneOf/6/properties/kind/const'' data18)),
      on_prop data ''page'' (\<lambda>v. call validate66 v (at_prop p ''page''))]))"

definition validate47_completed_items_item :: "json \<Rightarrow> string \<Rightarrow> step" where
  "validate47_completed_items_item data p = on_type Collect TObject p ''#/$defs/Completion/type'' data
    (required Collect [''text'', ''description''] p ''#/$defs/Completion/required'' data
    (properties [
      on_prop data ''description'' (\<lambda>v. check_type Collect [TString] (at_prop p ''description'') ''#/$defs/Completion/properties/description/type'' v),
      on_prop data ''text'' (\<lambda>v. check_type Collect [TString] (at_prop p ''text'') ''#/$defs/Completion/properties/text/type'' v)]))"

definition validate47_completed :: "json \<Rightarrow> string \<Rightarrow> step" where
  "validate47_completed data p = on_type Collect TObject p ''#/oneOf/7/type'' data
    (required Collect [''kind'', ''items''] p ''#/oneOf/7/required'' data
    (properties [
      on_prop data ''items'' (\<lambda>data20. on_type Collect TArray (at_prop p ''items'') ''#/oneOf/7/properties/items/type'' data20
    (items data20 (\<lambda>i0 data21. validate47_completed_items_item data21 (at_index (at_prop p ''items'') i0)))),
      on_prop data ''kind'' (\<lambda>data24. seq (check_type Collect [TString] (at_prop p ''kind'') ''#/oneOf/7/properties/kind/type'' data24) (check_const Collect ''completed'' (at_prop p ''kind'') ''#/oneOf/7/properties/kind/const'' data24))]))"

definition validate47_catalogue_commands_item :: "json \<Rightarrow> string \<Rightarrow> step" where
  "validate47_catalogue_commands_item data p = on_type Collect TObject p ''#/$defs/CommandSpec/type'' data
    (required Collect [''name'', ''usage'', ''description'', ''scope'', ''available''] p ''#/$defs/CommandSpec/required'' data
    (properties [
      on_prop data ''available'' (\<lambda>v. check_type Collect [TBoolean] (at_prop p ''available'') ''#/$defs/CommandSpec/properties/available/type'' v),
      on_prop data ''capability'' (\<lambda>data28. check_type Collect [TString, TNull] (at_prop p ''capability'') ''#/$defs/CommandSpec/properties/capability/type'' data28),
      on_prop data ''description'' (\<lambda>v. check_type Collect [TString] (at_prop p ''description'') ''#/$defs/CommandSpec/properties/description/type'' v),
      on_prop data ''name'' (\<lambda>v. check_type Collect [TString] (at_prop p ''name'') ''#/$defs/CommandSpec/properties/name/type'' v),
      on_prop data ''scope'' (\<lambda>v. check_type Collect [TString] (at_prop p ''scope'') ''#/$defs/CommandSpec/properties/scope/type'' v),
      on_prop data ''usage'' (\<lambda>v. check_type Collect [TString] (at_prop p ''usage'') ''#/$defs/CommandSpec/properties/usage/type'' v)]))"

definition validate47_catalogue :: "json \<Rightarrow> string \<Rightarrow> step" where
  "validate47_catalogue data p = on_type Collect TObject p ''#/oneOf/8/type'' data
    (required Collect [''kind'', ''commands''] p ''#/oneOf/8/required'' data
    (properties [
      on_prop data ''commands'' (\<lambda>data25. on_type Collect TArray (at_prop p ''commands'') ''#/oneOf/8/properties/commands/type'' data25
    (items data25 (\<lambda>i1 data26. validate47_catalogue_commands_item data26 (at_index (at_prop p ''commands'') i1)))),
      on_prop data ''kind'' (\<lambda>data33. seq (check_type Collect [TString] (at_prop p ''kind'') ''#/oneOf/8/properties/kind/type'' data33) (check_const Collect ''catalogue'' (at_prop p ''kind'') ''#/oneOf/8/properties/kind/const'' data33))]))"

definition validate47_projection :: "json \<Rightarrow> string \<Rightarrow> step" where
  "validate47_projection data p = on_type Collect TObject p ''#/oneOf/9/type'' data
    (required Collect [''kind'', ''conversations'', ''revision''] p ''#/oneOf/9/required'' data
    (properties [
      on_prop data ''conversations'' (\<lambda>data34. on_type Collect TArray (at_prop p ''conversations'') ''#/oneOf/9/properties/conversations/type'' data34
    (items data34 (\<lambda>i2 item. call validate56 item (at_index (at_prop p ''conversations'') i2)))),
      on_prop data ''kind'' (\<lambda>data36. seq (check_type Collect [TString] (at_prop p ''kind'') ''#/oneOf/9/properties/kind/type'' data36) (check_const Collect ''projection'' (at_prop p ''kind'') ''#/oneOf/9/properties/kind/const'' data36)),
      on_prop data ''revision'' (\<lambda>v. check_type Collect [TString] (at_prop p ''revision'') ''#/oneOf/9/properties/revision/type'' v)]))"

definition validate47_output :: "json \<Rightarrow> string \<Rightarrow> step" where
  "validate47_output data p = on_type Collect TObject p ''#/oneOf/10/type'' data
    (required Collect [''kind'', ''output''] p ''#/oneOf/10/required'' data
    (properties [
      on_prop data ''conversation'' (\<lambda>data38. check_type Collect [TString, TNull] (at_prop p ''conversation'') ''#/oneOf/10/properties/conversation/type'' data38),
      on_prop data ''kind'' (\<lambda>data39. seq (check_type Collect [TString] (at_prop p ''kind'') ''#/oneOf/10/properties/kind/type'' data39) (check_const Collect ''output'' (at_prop p ''kind'') ''#/oneOf/10/properties/kind/const'' data39)),
      on_prop data ''output'' (\<lambda>v. call validate62 v (at_prop p ''output''))]))"

definition validate47_applied :: "json \<Rightarrow> string \<Rightarrow> step" where
  "validate47_applied data p = on_type Collect TObject p ''#/oneOf/11/type'' data
    (required Collect [''kind''] p ''#/oneOf/11/required'' data
    (properties [
      on_prop data ''conversation'' (\<lambda>data41. check_type Collect [TString, TNull] (at_prop p ''conversation'') ''#/oneOf/11/properties/conversation/type'' data41),
      on_prop data ''kind'' (\<lambda>data42. seq (check_type Collect [TString] (at_prop p ''kind'') ''#/oneOf/11/properties/kind/type'' data42) (check_const Collect ''applied'' (at_prop p ''kind'') ''#/oneOf/11/properties/kind/const'' data42)),
      on_prop data ''notice'' (\<lambda>data43. check_type Collect [TString, TNull] (at_prop p ''notice'') ''#/oneOf/11/properties/notice/type'' data43)]))"

definition validate47_changed :: "json \<Rightarrow> string \<Rightarrow> step" where
  "validate47_changed data p = on_type Collect TObject p ''#/oneOf/12/type'' data
    (required Collect [''kind'', ''revision''] p ''#/oneOf/12/required'' data
    (properties [
      on_prop data ''kind'' (\<lambda>data44. seq (check_type Collect [TString] (at_prop p ''kind'') ''#/oneOf/12/properties/kind/type'' data44) (check_const Collect ''changed'' (at_prop p ''kind'') ''#/oneOf/12/properties/kind/const'' data44)),
      on_prop data ''revision'' (\<lambda>v. check_type Collect [TString] (at_prop p ''revision'') ''#/oneOf/12/properties/revision/type'' v)]))"

definition validate47_error :: "json \<Rightarrow> string \<Rightarrow> step" where
  "validate47_error data p = on_type Collect TObject p ''#/oneOf/13/type'' data
    (required Collect [''kind'', ''code'', ''message''] p ''#/oneOf/13/required'' data
    (properties [
      on_prop data ''code'' (\<lambda>v. check_type Collect [TString] (at_prop p ''code'') ''#/oneOf/13/properties/code/type'' v),
      on_prop data ''kind'' (\<lambda>data47. seq (check_type Collect [TString] (at_prop p ''kind'') ''#/oneOf/13/properties/kind/type'' data47) (check_const Collect ''error'' (at_prop p ''kind'') ''#/oneOf/13/properties/kind/const'' data47)),
      on_prop data ''message'' (\<lambda>v. check_type Collect [TString] (at_prop p ''message'') ''#/oneOf/13/properties/message/type'' v)]))"

definition validate39_list :: "json \<Rightarrow> string \<Rightarrow> step" where
  "validate39_list data p = on_type Collect TObject p ''#/oneOf/0/type'' data
    (required Collect [''kind'', ''networks''] p ''#/oneOf/0/required'' data
    (properties [
      on_prop data ''kind'' (\<lambda>data0. seq (check_type Collect [TString] (at_prop p ''kind'') ''#/oneOf/0/properties/kind/type'' data0) (check_const Collect ''list'' (at_prop p ''kind'') ''#/oneOf/0/properties/kind/const'' data0)),
      on_prop data ''networks'' (\<lambda>data1. on_type Collect TArray (at_prop p ''networks'') ''#/oneOf/0/properties/networks/type'' data1
    (items data1 (\<lambda>i0 item. call validate40 item (at_index (at_prop p ''networks'') i0))))]))"

definition validate39_preview :: "json \<Rightarrow> string \<Rightarrow> step" where
  "validate39_preview data p = on_type Collect TObject p ''#/oneOf/1/type'' data
    (required Collect [''kind'', ''preview''] p ''#/oneOf/1/required'' data
    (properties [
      on_prop data ''kind'' (\<lambda>data3. seq (check_type Collect [TString] (at_prop p ''kind'') ''#/oneOf/1/properties/kind/type'' data3) (check_const Collect ''preview'' (at_prop p ''kind'') ''#/oneOf/1/properties/kind/const'' data3)),
      on_prop data ''preview'' (\<lambda>v. call validate44 v (at_prop p ''preview''))]))"

definition validate39_result :: "validator \<Rightarrow> json \<Rightarrow> string \<Rightarrow> step" where
  "validate39_result recur data p = on_type Collect TObject p ''#/oneOf/2/type'' data
    (required Collect [''kind'', ''network'', ''response''] p ''#/oneOf/2/required'' data
    (properties [
      on_prop data ''kind'' (\<lambda>data5. seq (check_type Collect [TString] (at_prop p ''kind'') ''#/oneOf/2/properties/kind/type'' data5) (check_const Collect ''result'' (at_prop p ''kind'') ''#/oneOf/2/properties/kind/const'' data5)),
      on_prop data ''network'' (\<lambda>v. check_type Collect [TString] (at_prop p ''network'') ''#/oneOf/2/properties/network/type'' v),
      on_prop data ''response'' (\<lambda>v. call recur v (at_prop p ''response''))]))"

lemma validate39_result_cong [fundef_cong]:
  "data = data' \<Longrightarrow> p = p' \<Longrightarrow> (\<And>x q. size x < size data' \<Longrightarrow> v x q = v' x q) \<Longrightarrow>
   validate39_result v data p = validate39_result v' data' p'"
  by (simp add: validate39_result_def on_prop_call_cong[of data' v v'])

function validate47 :: validator and validate39 :: validator where
  "validate47 data instancePath = run_guard (one_of Return instancePath ''#/oneOf'' [
      validate47_update data instancePath,
      validate47_networks (\<lambda>x q. validate39 x q) data instancePath,
      validate47_files data instancePath,
      validate47_network_status data instancePath,
      validate47_instance data instancePath,
      validate47_snapshot data instancePath,
      validate47_history data instancePath,
      validate47_completed data instancePath,
      validate47_catalogue data instancePath,
      validate47_projection data instancePath,
      validate47_output data instancePath,
      validate47_applied data instancePath,
      validate47_changed data instancePath,
      validate47_error data instancePath])"
| "validate39 data instancePath = run_guard (one_of Return instancePath ''#/oneOf'' [
      validate39_list data instancePath,
      validate39_preview data instancePath,
      validate39_result (\<lambda>x q. validate47 x q) data instancePath])"
  by pat_completeness auto
termination
  by (relation "measure (case_sum (size \<circ> fst) (size \<circ> fst))") auto

declare validate47.simps [simp del] validate39.simps [simp del]

section \<open>Each guard implements its schema\<close>

context document_schema52
begin

lemma validates_validate41: "validates validate41 (conforms \<rho> schema54) d"
  unfolding schema54_def
  by (rule validates_run[where m = Return], rule validate41_def) (intro conform_laws guard_parts; simp)

lemmas call_validate41 [guard_parts] = checks_call[OF validates_validate41]

lemma validates_validate40: "validates validate40 (conforms \<rho> schema53) d"
  unfolding schema53_def
  by (rule validates_run[where m = Return], rule validate40_def) (intro conform_laws guard_parts; simp)

lemmas call_validate40 [guard_parts] = checks_call[OF validates_validate40]

lemma validates_validate44: "validates validate44 (conforms \<rho> schema56) d"
  unfolding schema56_def
  by (rule validates_run[where m = Return], rule validate44_def) (intro conform_laws guard_parts; simp)

lemmas call_validate44 [guard_parts] = checks_call[OF validates_validate44]

lemma checks_validate49_publication_any0 [guard_parts]: "checks Collect p (validate49_publication_any0 data p) (conforms \<rho> schema61 data)"
  unfolding validate49_publication_any0_def schema61_def by (intro conform_laws guard_parts; simp)

lemma checks_validate49_publication [guard_parts]: "checks Return p (validate49_publication data p) (conforms \<rho> (SAnyOf [SRef ''FilePublication'', SType [TNull]]) data)"
  unfolding validate49_publication_def by (intro conform_laws guard_parts; simp)

lemma validates_validate49: "validates validate49 (conforms \<rho> schema60) d"
  unfolding schema60_def
  by (rule validates_run[where m = Return], rule validate49_def) (intro conform_laws guard_parts; simp)

lemmas call_validate49 [guard_parts] = checks_call[OF validates_validate49]

lemma validates_validate48: "validates validate48 (conforms \<rho> schema59) d"
  unfolding schema59_def
  by (rule validates_run[where m = Return], rule validate48_def) (intro conform_laws guard_parts; simp)

lemmas call_validate48 [guard_parts] = checks_call[OF validates_validate48]

lemma checks_validate53_build_any0 [guard_parts]: "checks Collect p (validate53_build_any0 data p) (conforms \<rho> schema64 data)"
  unfolding validate53_build_any0_def schema64_def by (intro conform_laws guard_parts; simp)

lemma checks_validate53_build [guard_parts]: "checks Return p (validate53_build data p) (conforms \<rho> (SAnyOf [SRef ''BuildInfo'', SType [TNull]]) data)"
  unfolding validate53_build_def by (intro conform_laws guard_parts; simp)

lemma validates_validate53: "validates validate53 (conforms \<rho> schema63) d"
  unfolding schema63_def
  by (rule validates_run[where m = Return], rule validate53_def) (intro conform_laws guard_parts; simp)

lemmas call_validate53 [guard_parts] = checks_call[OF validates_validate53]

lemma checks_validate57_presence_any0_available [guard_parts]: "checks Collect p (validate57_presence_any0_available data p) (conforms \<rho> schema72_available data)"
  unfolding validate57_presence_any0_available_def schema72_available_def by (intro conform_laws guard_parts; simp)

lemma checks_validate57_presence_any0_away [guard_parts]: "checks Collect p (validate57_presence_any0_away data p) (conforms \<rho> schema72_away data)"
  unfolding validate57_presence_any0_away_def schema72_away_def by (intro conform_laws guard_parts; simp)

lemma checks_validate57_presence_any0_unknown [guard_parts]: "checks Collect p (validate57_presence_any0_unknown data p) (conforms \<rho> schema72_unknown data)"
  unfolding validate57_presence_any0_unknown_def schema72_unknown_def by (intro conform_laws guard_parts; simp)

lemma checks_validate57_presence_any0 [guard_parts]: "checks Collect p (validate57_presence_any0 data p) (conforms \<rho> schema72 data)"
  unfolding validate57_presence_any0_def schema72_def by (intro conform_laws guard_parts; simp)

lemma checks_validate57_presence [guard_parts]: "checks Return p (validate57_presence data p) (conforms \<rho> (SAnyOf [SRef ''MemberPresence'', SType [TNull]]) data)"
  unfolding validate57_presence_def by (intro conform_laws guard_parts; simp)

lemma validates_validate57: "validates validate57 (conforms \<rho> schema71) d"
  unfolding schema71_def
  by (rule validates_run[where m = Return], rule validate57_def) (intro conform_laws guard_parts; simp)

lemmas call_validate57 [guard_parts] = checks_call[OF validates_validate57]

lemma checks_validate56_catchUp_any0 [guard_parts]: "checks Collect p (validate56_catchUp_any0 data p) (conforms \<rho> schema68 data)"
  unfolding validate56_catchUp_any0_def schema68_def by (intro conform_laws guard_parts; simp)

lemma checks_validate56_catchUp [guard_parts]: "checks Return p (validate56_catchUp data p) (conforms \<rho> (SAnyOf [SRef ''ChannelCatchUp'', SType [TNull]]) data)"
  unfolding validate56_catchUp_def by (intro conform_laws guard_parts; simp)

lemma checks_validate56_commands_item [guard_parts]: "checks Return p (validate56_commands_item data p) (conforms \<rho> schema69 data)"
  unfolding validate56_commands_item_def schema69_def by (intro conform_laws guard_parts; simp)

lemma checks_validate56_policy_any0 [guard_parts]: "checks Collect p (validate56_policy_any0 data p) (conforms \<rho> schema73 data)"
  unfolding validate56_policy_any0_def schema73_def by (intro conform_laws guard_parts; simp)

lemma checks_validate56_policy [guard_parts]: "checks Return p (validate56_policy data p) (conforms \<rho> (SAnyOf [SRef ''ChannelPolicy'', SType [TNull]]) data)"
  unfolding validate56_policy_def by (intro conform_laws guard_parts; simp)

lemma validates_validate56: "validates validate56 (conforms \<rho> schema67) d"
  unfolding schema67_def
  by (rule validates_run[where m = Return], rule validate56_def) (intro conform_laws guard_parts; simp)

lemmas call_validate56 [guard_parts] = checks_call[OF validates_validate56]

lemma checks_validate62_invitation_options [guard_parts]: "checks Collect p (validate62_invitation_options data p) (conforms \<rho> schema76_invitation_options data)"
  unfolding validate62_invitation_options_def schema76_invitation_options_def by (intro conform_laws guard_parts; simp)

lemma checks_validate62_invitations_records_item [guard_parts]: "checks Collect p (validate62_invitations_records_item data p) (conforms \<rho> schema77 data)"
  unfolding validate62_invitations_records_item_def schema77_def by (intro conform_laws guard_parts; simp)

lemma checks_validate62_invitations [guard_parts]: "checks Collect p (validate62_invitations data p) (conforms \<rho> schema76_invitations data)"
  unfolding validate62_invitations_def schema76_invitations_def by (intro conform_laws guard_parts; simp)

lemma checks_validate62_reusable_invitation [guard_parts]: "checks Collect p (validate62_reusable_invitation data p) (conforms \<rho> schema76_reusable_invitation data)"
  unfolding validate62_reusable_invitation_def schema76_reusable_invitation_def by (intro conform_laws guard_parts; simp)

lemma checks_validate62_enrollment [guard_parts]: "checks Collect p (validate62_enrollment data p) (conforms \<rho> schema76_enrollment data)"
  unfolding validate62_enrollment_def schema76_enrollment_def by (intro conform_laws guard_parts; simp)

lemma checks_validate62_enrollments:
  assumes "\<And>x. size x < size data \<Longrightarrow> validates v (\<rho> ''CommandOutput'') x"
  shows "checks Collect p (validate62_enrollments v data p) (conforms \<rho> schema76_enrollments data)"
  unfolding validate62_enrollments_def schema76_enrollments_def
  by (intro conform_laws guard_parts checks_call_item[where d = data and v = v and \<rho> = \<rho> and r = "''CommandOutput''", OF assms]; (assumption | simp))

lemma checks_validate62_help_commands_item [guard_parts]: "checks Collect p (validate62_help_commands_item data p) (conforms \<rho> schema69 data)"
  unfolding validate62_help_commands_item_def schema69_def by (intro conform_laws guard_parts; simp)

lemma checks_validate62_help [guard_parts]: "checks Collect p (validate62_help data p) (conforms \<rho> schema76_help data)"
  unfolding validate62_help_def schema76_help_def by (intro conform_laws guard_parts; simp)

lemma checks_validate62_directory_channels_item [guard_parts]: "checks Collect p (validate62_directory_channels_item data p) (conforms \<rho> schema79 data)"
  unfolding validate62_directory_channels_item_def schema79_def by (intro conform_laws guard_parts; simp)

lemma checks_validate62_directory [guard_parts]: "checks Collect p (validate62_directory data p) (conforms \<rho> schema76_directory data)"
  unfolding validate62_directory_def schema76_directory_def by (intro conform_laws guard_parts; simp)

lemma checks_validate62_invitation [guard_parts]: "checks Collect p (validate62_invitation data p) (conforms \<rho> schema76_invitation data)"
  unfolding validate62_invitation_def schema76_invitation_def by (intro conform_laws guard_parts; simp)

lemma checks_validate62_text [guard_parts]: "checks Collect p (validate62_text data p) (conforms \<rho> schema76_text data)"
  unfolding validate62_text_def schema76_text_def by (intro conform_laws guard_parts; simp)

lemma checks_validate62_status [guard_parts]: "checks Collect p (validate62_status data p) (conforms \<rho> schema76_status data)"
  unfolding validate62_status_def schema76_status_def by (intro conform_laws guard_parts; simp)

lemma checks_validate62_close [guard_parts]: "checks Collect p (validate62_close data p) (conforms \<rho> schema76_close data)"
  unfolding validate62_close_def schema76_close_def by (intro conform_laws guard_parts; simp)

lemma checks_validate62_membership_recovery_members_item [guard_parts]: "checks Collect p (validate62_membership_recovery_members_item data p) (conforms \<rho> schema80 data)"
  unfolding validate62_membership_recovery_members_item_def schema80_def by (intro conform_laws guard_parts; simp)

lemma checks_validate62_membership_recovery [guard_parts]: "checks Collect p (validate62_membership_recovery data p) (conforms \<rho> schema76_membership_recovery data)"
  unfolding validate62_membership_recovery_def schema76_membership_recovery_def by (intro conform_laws guard_parts; simp)

lemma validates_validate62_step:
  assumes "\<And>x. size x < size d \<Longrightarrow> validates validate62 (\<rho> ''CommandOutput'') x"
  shows "validates validate62 (conforms \<rho> schema76) d"
  unfolding schema76_def
  by (rule validates_run[where m = Return], rule validate62.simps)
     (intro conform_laws guard_parts checks_validate62_enrollments[OF assms]; (assumption | simp))

lemma validates_validate62: "validates validate62 (conforms \<rho> schema76) d"
proof (induction d rule: measure_induct_rule[where f = size])
  case (less d)
  then show ?case by (simp add: validates_validate62_step def_CommandOutput)
qed

lemmas call_validate62 [guard_parts] = checks_call[OF validates_validate62]

lemma checks_validate61_output [guard_parts]: "checks Return p (validate61_output data p) (conforms \<rho> (SAnyOf [SRef ''CommandOutput'', SType [TNull]]) data)"
  unfolding validate61_output_def by (intro conform_laws guard_parts; simp)

lemma validates_validate61: "validates validate61 (conforms \<rho> schema75) d"
  unfolding schema75_def
  by (rule validates_run[where m = Return], rule validate61_def) (intro conform_laws guard_parts; simp)

lemmas call_validate61 [guard_parts] = checks_call[OF validates_validate61]

lemma checks_validate55_activity_item [guard_parts]: "checks Return p (validate55_activity_item data p) (conforms \<rho> schema66 data)"
  unfolding validate55_activity_item_def schema66_def by (intro conform_laws guard_parts; simp)

lemma checks_validate55_inputHistory_item [guard_parts]: "checks Return p (validate55_inputHistory_item data p) (conforms \<rho> schema74 data)"
  unfolding validate55_inputHistory_item_def schema74_def by (intro conform_laws guard_parts; simp)

lemma checks_validate55_providerErrors_item [guard_parts]: "checks Return p (validate55_providerErrors_item data p) (conforms \<rho> schema81 data)"
  unfolding validate55_providerErrors_item_def schema81_def by (intro conform_laws guard_parts; simp)

lemma validates_validate55: "validates validate55 (conforms \<rho> schema65) d"
  unfolding schema65_def
  by (rule validates_run[where m = Return], rule validate55_def) (intro conform_laws guard_parts; simp)

lemmas call_validate55 [guard_parts] = checks_call[OF validates_validate55]

lemma checks_validate68_artifacts_item [guard_parts]: "checks Return p (validate68_artifacts_item data p) (conforms \<rho> schema37 data)"
  unfolding validate68_artifacts_item_def schema37_def by (intro conform_laws guard_parts; simp)

lemma validates_validate68: "validates validate68 (conforms \<rho> schema36) d"
  unfolding schema36_def
  by (rule validates_run[where m = Return], rule validate68_def) (intro conform_laws guard_parts; simp)

lemmas call_validate68 [guard_parts] = checks_call[OF validates_validate68]

lemma checks_validate67_delivery [guard_parts]: "checks Return p (validate67_delivery data p) (conforms \<rho> (SAnyOf [SRef ''Delivery'', SType [TNull]]) data)"
  unfolding validate67_delivery_def by (intro conform_laws guard_parts; simp)

lemma checks_validate67_messageKind [guard_parts]: "checks Return p (validate67_messageKind data p) (conforms \<rho> (SAnyOf [SRef ''MessageKind'', SType [TNull]]) data)"
  unfolding validate67_messageKind_def by (intro conform_laws guard_parts; simp)

lemma checks_validate67_result [guard_parts]: "checks Return p (validate67_result data p) (conforms \<rho> (SAnyOf [SRef ''ActionResult'', SType [TNull]]) data)"
  unfolding validate67_result_def by (intro conform_laws guard_parts; simp)

lemma validates_validate67: "validates validate67 (conforms \<rho> schema33) d"
  unfolding schema33_def
  by (rule validates_run[where m = Return], rule validate67_def) (intro conform_laws guard_parts; simp)

lemmas call_validate67 [guard_parts] = checks_call[OF validates_validate67]

lemma validates_validate66: "validates validate66 (conforms \<rho> schema32) d"
  unfolding schema32_def
  by (rule validates_run[where m = Return], rule validate66_def) (intro conform_laws guard_parts; simp)

lemmas call_validate66 [guard_parts] = checks_call[OF validates_validate66]

lemma checks_validate47_update_result_attached [guard_parts]: "checks Collect p (validate47_update_result_attached data p) (conforms \<rho> schema58_attached data)"
  unfolding validate47_update_result_attached_def schema58_attached_def by (intro conform_laws guard_parts; simp)

lemma checks_validate47_update_result_ready [guard_parts]: "checks Collect p (validate47_update_result_ready data p) (conforms \<rho> schema58_ready data)"
  unfolding validate47_update_result_ready_def schema58_ready_def by (intro conform_laws guard_parts; simp)

lemma checks_validate47_update_result_busy [guard_parts]: "checks Collect p (validate47_update_result_busy data p) (conforms \<rho> schema58_busy data)"
  unfolding validate47_update_result_busy_def schema58_busy_def by (intro conform_laws guard_parts; simp)

lemma checks_validate47_update_result [guard_parts]: "checks Collect p (validate47_update_result data p) (conforms \<rho> schema58 data)"
  unfolding validate47_update_result_def schema58_def by (intro conform_laws guard_parts; simp)

lemma checks_validate47_update [guard_parts]: "checks Collect p (validate47_update data p) (conforms \<rho> schema57_update data)"
  unfolding validate47_update_def schema57_update_def by (intro conform_laws guard_parts; simp)

lemma checks_validate47_networks:
  assumes "\<And>x. size x < size data \<Longrightarrow> validates v (\<rho> ''#'') x"
  shows "checks Collect p (validate47_networks v data p) (conforms \<rho> schema57_networks data)"
  unfolding validate47_networks_def schema57_networks_def
  by (intro conform_laws guard_parts checks_call_inside[where d = data and v = v and \<rho> = \<rho> and r = "''#''", OF assms]; (assumption | simp))

lemma checks_validate47_files [guard_parts]: "checks Collect p (validate47_files data p) (conforms \<rho> schema57_files data)"
  unfolding validate47_files_def schema57_files_def by (intro conform_laws guard_parts; simp)

lemma checks_validate47_network_status [guard_parts]: "checks Collect p (validate47_network_status data p) (conforms \<rho> schema57_network_status data)"
  unfolding validate47_network_status_def schema57_network_status_def by (intro conform_laws guard_parts; simp)

lemma checks_validate47_instance [guard_parts]: "checks Collect p (validate47_instance data p) (conforms \<rho> schema57_instance data)"
  unfolding validate47_instance_def schema57_instance_def by (intro conform_laws guard_parts; simp)

lemma checks_validate47_snapshot [guard_parts]: "checks Collect p (validate47_snapshot data p) (conforms \<rho> schema57_snapshot data)"
  unfolding validate47_snapshot_def schema57_snapshot_def by (intro conform_laws guard_parts; simp)

lemma checks_validate47_history [guard_parts]: "checks Collect p (validate47_history data p) (conforms \<rho> schema57_history data)"
  unfolding validate47_history_def schema57_history_def by (intro conform_laws guard_parts; simp)

lemma checks_validate47_completed_items_item [guard_parts]: "checks Collect p (validate47_completed_items_item data p) (conforms \<rho> schema88 data)"
  unfolding validate47_completed_items_item_def schema88_def by (intro conform_laws guard_parts; simp)

lemma checks_validate47_completed [guard_parts]: "checks Collect p (validate47_completed data p) (conforms \<rho> schema57_completed data)"
  unfolding validate47_completed_def schema57_completed_def by (intro conform_laws guard_parts; simp)

lemma checks_validate47_catalogue_commands_item [guard_parts]: "checks Collect p (validate47_catalogue_commands_item data p) (conforms \<rho> schema69 data)"
  unfolding validate47_catalogue_commands_item_def schema69_def by (intro conform_laws guard_parts; simp)

lemma checks_validate47_catalogue [guard_parts]: "checks Collect p (validate47_catalogue data p) (conforms \<rho> schema57_catalogue data)"
  unfolding validate47_catalogue_def schema57_catalogue_def by (intro conform_laws guard_parts; simp)

lemma checks_validate47_projection [guard_parts]: "checks Collect p (validate47_projection data p) (conforms \<rho> schema57_projection data)"
  unfolding validate47_projection_def schema57_projection_def by (intro conform_laws guard_parts; simp)

lemma checks_validate47_output [guard_parts]: "checks Collect p (validate47_output data p) (conforms \<rho> schema57_output data)"
  unfolding validate47_output_def schema57_output_def by (intro conform_laws guard_parts; simp)

lemma checks_validate47_applied [guard_parts]: "checks Collect p (validate47_applied data p) (conforms \<rho> schema57_applied data)"
  unfolding validate47_applied_def schema57_applied_def by (intro conform_laws guard_parts; simp)

lemma checks_validate47_changed [guard_parts]: "checks Collect p (validate47_changed data p) (conforms \<rho> schema57_changed data)"
  unfolding validate47_changed_def schema57_changed_def by (intro conform_laws guard_parts; simp)

lemma checks_validate47_error [guard_parts]: "checks Collect p (validate47_error data p) (conforms \<rho> schema57_error data)"
  unfolding validate47_error_def schema57_error_def by (intro conform_laws guard_parts; simp)

lemma checks_validate39_list [guard_parts]: "checks Collect p (validate39_list data p) (conforms \<rho> schema52_list data)"
  unfolding validate39_list_def schema52_list_def by (intro conform_laws guard_parts; simp)

lemma checks_validate39_preview [guard_parts]: "checks Collect p (validate39_preview data p) (conforms \<rho> schema52_preview data)"
  unfolding validate39_preview_def schema52_preview_def by (intro conform_laws guard_parts; simp)

lemma checks_validate39_result:
  assumes "\<And>x. size x < size data \<Longrightarrow> validates v (\<rho> ''Response'') x"
  shows "checks Collect p (validate39_result v data p) (conforms \<rho> schema52_result data)"
  unfolding validate39_result_def schema52_result_def
  by (intro conform_laws guard_parts checks_call_inside[where d = data and v = v and \<rho> = \<rho> and r = "''Response''", OF assms]; (assumption | simp))

lemma validates_validate47_step:
  assumes "\<And>x. size x < size d \<Longrightarrow> validates validate39 (\<rho> ''#'') x"
  shows "validates validate47 (conforms \<rho> schema57) d"
  unfolding schema57_def
  by (rule validates_run[where m = Return], rule validate47.simps)
     (intro conform_laws guard_parts checks_validate47_networks[OF assms]; (assumption | simp))

lemma validates_validate39_step:
  assumes "\<And>x. size x < size d \<Longrightarrow> validates validate47 (\<rho> ''Response'') x"
  shows "validates validate39 (conforms \<rho> schema52) d"
  unfolding schema52_def
  by (rule validates_run[where m = Return], rule validate39.simps)
     (intro conform_laws guard_parts checks_validate39_result[OF assms]; (assumption | simp))

lemma validates_validate47_validate39: "validates validate47 (conforms \<rho> schema57) d \<and> validates validate39 (conforms \<rho> schema52) d"
proof (induction d rule: measure_induct_rule[where f = size])
  case (less d)
  then show ?case by (simp add: validates_validate47_step validates_validate39_step def_Response def_root)
qed

lemmas validates_validate47 = validates_validate47_validate39[THEN conjunct1]

lemmas call_validate47 [guard_parts] = checks_call[OF validates_validate47]

lemmas validates_validate39 = validates_validate47_validate39[THEN conjunct2]

lemmas call_validate39 [guard_parts] = checks_call[OF validates_validate39]

end

section \<open>The exported guards\<close>

definition networks_details_output :: "json \<Rightarrow> bool" where
  "networks_details_output value = fst (validate39 value [])"

end
