(* ===== verification/Networks_Guards.thy ===== *)
theory Networks_Guards
  imports Api_Schemas
begin

text \<open>
  The guards of \<open>networks\<close>, the call for services without details.
\<close>

section \<open>The guards\<close>

definition validate125_enrollment :: "json \<Rightarrow> string \<Rightarrow> step" where
  "validate125_enrollment data p = on_type Collect TObject p ''#/oneOf/0/type'' data
    (required Collect [''kind'', ''id'', ''action''] p ''#/oneOf/0/required'' data
    (then_valid (no_additional Collect [''action'', ''id'', ''kind''] p ''#/oneOf/0/additionalProperties'' data)
    (properties [
      on_prop data ''action'' (\<lambda>v. check_type Collect [TString] (at_prop p ''action'') ''#/oneOf/0/properties/action/type'' v),
      on_prop data ''id'' (\<lambda>v. check_type Collect [TString] (at_prop p ''id'') ''#/oneOf/0/properties/id/type'' v),
      on_prop data ''kind'' (\<lambda>data2. seq (check_type Collect [TString] (at_prop p ''kind'') ''#/oneOf/0/properties/kind/type'' data2) (check_const Collect ''enrollment'' (at_prop p ''kind'') ''#/oneOf/0/properties/kind/const'' data2))])))"

definition validate125_update_request_heartbeat :: "json \<Rightarrow> string \<Rightarrow> step" where
  "validate125_update_request_heartbeat data p = on_type Collect TObject p ''#/$defs/UpdateRequest/oneOf/0/type'' data
    (required Collect [''action'', ''view''] p ''#/$defs/UpdateRequest/oneOf/0/required'' data
    (then_valid (no_additional Collect [''action'', ''view''] p ''#/$defs/UpdateRequest/oneOf/0/additionalProperties'' data)
    (properties [
      on_prop data ''action'' (\<lambda>data5. seq (check_type Collect [TString] (at_prop p ''action'') ''#/$defs/UpdateRequest/oneOf/0/properties/action/type'' data5) (check_const Collect ''heartbeat'' (at_prop p ''action'') ''#/$defs/UpdateRequest/oneOf/0/properties/action/const'' data5)),
      on_prop data ''view'' (\<lambda>v. check_type Collect [TString] (at_prop p ''view'') ''#/$defs/UpdateRequest/oneOf/0/properties/view/type'' v)])))"

definition validate125_update_request_detach :: "json \<Rightarrow> string \<Rightarrow> step" where
  "validate125_update_request_detach data p = on_type Collect TObject p ''#/$defs/UpdateRequest/oneOf/1/type'' data
    (required Collect [''action'', ''view''] p ''#/$defs/UpdateRequest/oneOf/1/required'' data
    (then_valid (no_additional Collect [''action'', ''view''] p ''#/$defs/UpdateRequest/oneOf/1/additionalProperties'' data)
    (properties [
      on_prop data ''action'' (\<lambda>data7. seq (check_type Collect [TString] (at_prop p ''action'') ''#/$defs/UpdateRequest/oneOf/1/properties/action/type'' data7) (check_const Collect ''detach'' (at_prop p ''action'') ''#/$defs/UpdateRequest/oneOf/1/properties/action/const'' data7)),
      on_prop data ''view'' (\<lambda>v. check_type Collect [TString] (at_prop p ''view'') ''#/$defs/UpdateRequest/oneOf/1/properties/view/type'' v)])))"

definition validate125_update_request_prepare :: "json \<Rightarrow> string \<Rightarrow> step" where
  "validate125_update_request_prepare data p = on_type Collect TObject p ''#/$defs/UpdateRequest/oneOf/2/type'' data
    (required Collect [''action'', ''view'', ''release''] p ''#/$defs/UpdateRequest/oneOf/2/required'' data
    (then_valid (no_additional Collect [''action'', ''release'', ''view''] p ''#/$defs/UpdateRequest/oneOf/2/additionalProperties'' data)
    (properties [
      on_prop data ''action'' (\<lambda>data9. seq (check_type Collect [TString] (at_prop p ''action'') ''#/$defs/UpdateRequest/oneOf/2/properties/action/type'' data9) (check_const Collect ''prepare'' (at_prop p ''action'') ''#/$defs/UpdateRequest/oneOf/2/properties/action/const'' data9)),
      on_prop data ''release'' (\<lambda>v. check_type Collect [TString] (at_prop p ''release'') ''#/$defs/UpdateRequest/oneOf/2/properties/release/type'' v),
      on_prop data ''view'' (\<lambda>v. check_type Collect [TString] (at_prop p ''view'') ''#/$defs/UpdateRequest/oneOf/2/properties/view/type'' v)])))"

definition validate125_update_request_abort :: "json \<Rightarrow> string \<Rightarrow> step" where
  "validate125_update_request_abort data p = on_type Collect TObject p ''#/$defs/UpdateRequest/oneOf/3/type'' data
    (required Collect [''action'', ''view'', ''release''] p ''#/$defs/UpdateRequest/oneOf/3/required'' data
    (then_valid (no_additional Collect [''action'', ''release'', ''view''] p ''#/$defs/UpdateRequest/oneOf/3/additionalProperties'' data)
    (properties [
      on_prop data ''action'' (\<lambda>data12. seq (check_type Collect [TString] (at_prop p ''action'') ''#/$defs/UpdateRequest/oneOf/3/properties/action/type'' data12) (check_const Collect ''abort'' (at_prop p ''action'') ''#/$defs/UpdateRequest/oneOf/3/properties/action/const'' data12)),
      on_prop data ''release'' (\<lambda>v. check_type Collect [TString] (at_prop p ''release'') ''#/$defs/UpdateRequest/oneOf/3/properties/release/type'' v),
      on_prop data ''view'' (\<lambda>v. check_type Collect [TString] (at_prop p ''view'') ''#/$defs/UpdateRequest/oneOf/3/properties/view/type'' v)])))"

definition validate125_update_request_exit :: "json \<Rightarrow> string \<Rightarrow> step" where
  "validate125_update_request_exit data p = on_type Collect TObject p ''#/$defs/UpdateRequest/oneOf/4/type'' data
    (required Collect [''action'', ''view'', ''release''] p ''#/$defs/UpdateRequest/oneOf/4/required'' data
    (then_valid (no_additional Collect [''action'', ''release'', ''view''] p ''#/$defs/UpdateRequest/oneOf/4/additionalProperties'' data)
    (properties [
      on_prop data ''action'' (\<lambda>data15. seq (check_type Collect [TString] (at_prop p ''action'') ''#/$defs/UpdateRequest/oneOf/4/properties/action/type'' data15) (check_const Collect ''exit'' (at_prop p ''action'') ''#/$defs/UpdateRequest/oneOf/4/properties/action/const'' data15)),
      on_prop data ''release'' (\<lambda>v. check_type Collect [TString] (at_prop p ''release'') ''#/$defs/UpdateRequest/oneOf/4/properties/release/type'' v),
      on_prop data ''view'' (\<lambda>v. check_type Collect [TString] (at_prop p ''view'') ''#/$defs/UpdateRequest/oneOf/4/properties/view/type'' v)])))"

definition validate125_update_request :: "json \<Rightarrow> string \<Rightarrow> step" where
  "validate125_update_request data p = one_of Collect p ''#/$defs/UpdateRequest/oneOf'' [
      validate125_update_request_heartbeat data p,
      validate125_update_request_detach data p,
      validate125_update_request_prepare data p,
      validate125_update_request_abort data p,
      validate125_update_request_exit data p]"

definition validate125_update :: "json \<Rightarrow> string \<Rightarrow> step" where
  "validate125_update data p = on_type Collect TObject p ''#/oneOf/1/type'' data
    (required Collect [''kind'', ''request''] p ''#/oneOf/1/required'' data
    (then_valid (no_additional Collect [''kind'', ''request''] p ''#/oneOf/1/additionalProperties'' data)
    (properties [
      on_prop data ''kind'' (\<lambda>data3. seq (check_type Collect [TString] (at_prop p ''kind'') ''#/oneOf/1/properties/kind/type'' data3) (check_const Collect ''update'' (at_prop p ''kind'') ''#/oneOf/1/properties/kind/const'' data3)),
      on_prop data ''request'' (\<lambda>data4. validate125_update_request data4 (at_prop p ''request''))])))"

definition validate125_networks :: "validator \<Rightarrow> json \<Rightarrow> string \<Rightarrow> step" where
  "validate125_networks recur data p = on_type Collect TObject p ''#/oneOf/2/type'' data
    (required Collect [''kind'', ''request''] p ''#/oneOf/2/required'' data
    (then_valid (no_additional Collect [''kind'', ''request''] p ''#/oneOf/2/additionalProperties'' data)
    (properties [
      on_prop data ''kind'' (\<lambda>data18. seq (check_type Collect [TString] (at_prop p ''kind'') ''#/oneOf/2/properties/kind/type'' data18) (check_const Collect ''networks'' (at_prop p ''kind'') ''#/oneOf/2/properties/kind/const'' data18)),
      on_prop data ''request'' (\<lambda>v. call recur v (at_prop p ''request''))])))"

lemma validate125_networks_cong [fundef_cong]:
  "data = data' \<Longrightarrow> p = p' \<Longrightarrow> (\<And>x q. size x < size data' \<Longrightarrow> v x q = v' x q) \<Longrightarrow>
   validate125_networks v data p = validate125_networks v' data' p'"
  by (simp add: validate125_networks_def on_prop_call_cong[of data' v v'])

definition validate125_files_request_list :: "json \<Rightarrow> string \<Rightarrow> step" where
  "validate125_files_request_list data p = on_type Collect TObject p ''#/$defs/FileRequest/oneOf/0/type'' data
    (required Collect [''action''] p ''#/$defs/FileRequest/oneOf/0/required'' data
    (then_valid (no_additional Collect [''action'', ''conversation''] p ''#/$defs/FileRequest/oneOf/0/additionalProperties'' data)
    (properties [
      on_prop data ''action'' (\<lambda>data22. seq (check_type Collect [TString] (at_prop p ''action'') ''#/$defs/FileRequest/oneOf/0/properties/action/type'' data22) (check_const Collect ''list'' (at_prop p ''action'') ''#/$defs/FileRequest/oneOf/0/properties/action/const'' data22)),
      on_prop data ''conversation'' (\<lambda>data23. check_type Collect [TString, TNull] (at_prop p ''conversation'') ''#/$defs/FileRequest/oneOf/0/properties/conversation/type'' data23)])))"

definition validate125_files_request_publications :: "json \<Rightarrow> string \<Rightarrow> step" where
  "validate125_files_request_publications data p = on_type Collect TObject p ''#/$defs/FileRequest/oneOf/1/type'' data
    (required Collect [''action''] p ''#/$defs/FileRequest/oneOf/1/required'' data
    (then_valid (no_additional Collect [''action'', ''conversation''] p ''#/$defs/FileRequest/oneOf/1/additionalProperties'' data)
    (properties [
      on_prop data ''action'' (\<lambda>data24. seq (check_type Collect [TString] (at_prop p ''action'') ''#/$defs/FileRequest/oneOf/1/properties/action/type'' data24) (check_const Collect ''publications'' (at_prop p ''action'') ''#/$defs/FileRequest/oneOf/1/properties/action/const'' data24)),
      on_prop data ''conversation'' (\<lambda>data25. check_type Collect [TString, TNull] (at_prop p ''conversation'') ''#/$defs/FileRequest/oneOf/1/properties/conversation/type'' data25)])))"

definition validate125_files_request_prepare :: "json \<Rightarrow> string \<Rightarrow> step" where
  "validate125_files_request_prepare data p = on_type Collect TObject p ''#/$defs/FileRequest/oneOf/2/type'' data
    (required Collect [''action'', ''id'', ''conversation'', ''name'', ''size_bytes''] p ''#/$defs/FileRequest/oneOf/2/required'' data
    (then_valid (no_additional Collect [''action'', ''conversation'', ''id'', ''name'', ''size_bytes''] p ''#/$defs/FileRequest/oneOf/2/additionalProperties'' data)
    (properties [
      on_prop data ''action'' (\<lambda>data26. seq (check_type Collect [TString] (at_prop p ''action'') ''#/$defs/FileRequest/oneOf/2/properties/action/type'' data26) (check_const Collect ''prepare'' (at_prop p ''action'') ''#/$defs/FileRequest/oneOf/2/properties/action/const'' data26)),
      on_prop data ''conversation'' (\<lambda>v. check_type Collect [TString] (at_prop p ''conversation'') ''#/$defs/FileRequest/oneOf/2/properties/conversation/type'' v),
      on_prop data ''id'' (\<lambda>v. check_type Collect [TString] (at_prop p ''id'') ''#/$defs/FileRequest/oneOf/2/properties/id/type'' v),
      on_prop data ''name'' (\<lambda>v. check_type Collect [TString] (at_prop p ''name'') ''#/$defs/FileRequest/oneOf/2/properties/name/type'' v),
      on_prop data ''size_bytes'' (\<lambda>v. check_type Collect [TString] (at_prop p ''size_bytes'') ''#/$defs/FileRequest/oneOf/2/properties/size_bytes/type'' v)])))"

definition validate125_files_request_commit :: "json \<Rightarrow> string \<Rightarrow> step" where
  "validate125_files_request_commit data p = on_type Collect TObject p ''#/$defs/FileRequest/oneOf/3/type'' data
    (required Collect [''action'', ''id''] p ''#/$defs/FileRequest/oneOf/3/required'' data
    (then_valid (no_additional Collect [''action'', ''id''] p ''#/$defs/FileRequest/oneOf/3/additionalProperties'' data)
    (properties [
      on_prop data ''action'' (\<lambda>data31. seq (check_type Collect [TString] (at_prop p ''action'') ''#/$defs/FileRequest/oneOf/3/properties/action/type'' data31) (check_const Collect ''commit'' (at_prop p ''action'') ''#/$defs/FileRequest/oneOf/3/properties/action/const'' data31)),
      on_prop data ''id'' (\<lambda>v. check_type Collect [TString] (at_prop p ''id'') ''#/$defs/FileRequest/oneOf/3/properties/id/type'' v)])))"

definition validate125_files_request_accept :: "json \<Rightarrow> string \<Rightarrow> step" where
  "validate125_files_request_accept data p = on_type Collect TObject p ''#/$defs/FileRequest/oneOf/4/type'' data
    (required Collect [''action'', ''id''] p ''#/$defs/FileRequest/oneOf/4/required'' data
    (then_valid (no_additional Collect [''action'', ''id''] p ''#/$defs/FileRequest/oneOf/4/additionalProperties'' data)
    (properties [
      on_prop data ''action'' (\<lambda>data33. seq (check_type Collect [TString] (at_prop p ''action'') ''#/$defs/FileRequest/oneOf/4/properties/action/type'' data33) (check_const Collect ''accept'' (at_prop p ''action'') ''#/$defs/FileRequest/oneOf/4/properties/action/const'' data33)),
      on_prop data ''id'' (\<lambda>v. check_type Collect [TString] (at_prop p ''id'') ''#/$defs/FileRequest/oneOf/4/properties/id/type'' v)])))"

definition validate125_files_request_pause :: "json \<Rightarrow> string \<Rightarrow> step" where
  "validate125_files_request_pause data p = on_type Collect TObject p ''#/$defs/FileRequest/oneOf/5/type'' data
    (required Collect [''action'', ''id''] p ''#/$defs/FileRequest/oneOf/5/required'' data
    (then_valid (no_additional Collect [''action'', ''id''] p ''#/$defs/FileRequest/oneOf/5/additionalProperties'' data)
    (properties [
      on_prop data ''action'' (\<lambda>data35. seq (check_type Collect [TString] (at_prop p ''action'') ''#/$defs/FileRequest/oneOf/5/properties/action/type'' data35) (check_const Collect ''pause'' (at_prop p ''action'') ''#/$defs/FileRequest/oneOf/5/properties/action/const'' data35)),
      on_prop data ''id'' (\<lambda>v. check_type Collect [TString] (at_prop p ''id'') ''#/$defs/FileRequest/oneOf/5/properties/id/type'' v)])))"

definition validate125_files_request_resume :: "json \<Rightarrow> string \<Rightarrow> step" where
  "validate125_files_request_resume data p = on_type Collect TObject p ''#/$defs/FileRequest/oneOf/6/type'' data
    (required Collect [''action'', ''id''] p ''#/$defs/FileRequest/oneOf/6/required'' data
    (then_valid (no_additional Collect [''action'', ''id''] p ''#/$defs/FileRequest/oneOf/6/additionalProperties'' data)
    (properties [
      on_prop data ''action'' (\<lambda>data37. seq (check_type Collect [TString] (at_prop p ''action'') ''#/$defs/FileRequest/oneOf/6/properties/action/type'' data37) (check_const Collect ''resume'' (at_prop p ''action'') ''#/$defs/FileRequest/oneOf/6/properties/action/const'' data37)),
      on_prop data ''id'' (\<lambda>v. check_type Collect [TString] (at_prop p ''id'') ''#/$defs/FileRequest/oneOf/6/properties/id/type'' v)])))"

definition validate125_files_request_cancel :: "json \<Rightarrow> string \<Rightarrow> step" where
  "validate125_files_request_cancel data p = on_type Collect TObject p ''#/$defs/FileRequest/oneOf/7/type'' data
    (required Collect [''action'', ''id''] p ''#/$defs/FileRequest/oneOf/7/required'' data
    (then_valid (no_additional Collect [''action'', ''id''] p ''#/$defs/FileRequest/oneOf/7/additionalProperties'' data)
    (properties [
      on_prop data ''action'' (\<lambda>data39. seq (check_type Collect [TString] (at_prop p ''action'') ''#/$defs/FileRequest/oneOf/7/properties/action/type'' data39) (check_const Collect ''cancel'' (at_prop p ''action'') ''#/$defs/FileRequest/oneOf/7/properties/action/const'' data39)),
      on_prop data ''id'' (\<lambda>v. check_type Collect [TString] (at_prop p ''id'') ''#/$defs/FileRequest/oneOf/7/properties/id/type'' v)])))"

definition validate125_files_request_configure :: "json \<Rightarrow> string \<Rightarrow> step" where
  "validate125_files_request_configure data p = on_type Collect TObject p ''#/$defs/FileRequest/oneOf/8/type'' data
    (required Collect [''action'', ''quota_bytes'', ''retention_days''] p ''#/$defs/FileRequest/oneOf/8/required'' data
    (then_valid (no_additional Collect [''action'', ''quota_bytes'', ''retention_days''] p ''#/$defs/FileRequest/oneOf/8/additionalProperties'' data)
    (properties [
      on_prop data ''action'' (\<lambda>data41. seq (check_type Collect [TString] (at_prop p ''action'') ''#/$defs/FileRequest/oneOf/8/properties/action/type'' data41) (check_const Collect ''configure'' (at_prop p ''action'') ''#/$defs/FileRequest/oneOf/8/properties/action/const'' data41)),
      on_prop data ''quota_bytes'' (\<lambda>v. check_type Collect [TString] (at_prop p ''quota_bytes'') ''#/$defs/FileRequest/oneOf/8/properties/quota_bytes/type'' v),
      on_prop data ''retention_days'' (\<lambda>data43. then_valid (check_type Collect [TInteger] (at_prop p ''retention_days'') ''#/$defs/FileRequest/oneOf/8/properties/retention_days/type'' data43) (check_range Collect (Some 65535) 0 (at_prop p ''retention_days'') ''#/$defs/FileRequest/oneOf/8/properties/retention_days'' data43))])))"

definition validate125_files_request :: "json \<Rightarrow> string \<Rightarrow> step" where
  "validate125_files_request data p = one_of Collect p ''#/$defs/FileRequest/oneOf'' [
      validate125_files_request_list data p,
      validate125_files_request_publications data p,
      validate125_files_request_prepare data p,
      validate125_files_request_commit data p,
      validate125_files_request_accept data p,
      validate125_files_request_pause data p,
      validate125_files_request_resume data p,
      validate125_files_request_cancel data p,
      validate125_files_request_configure data p]"

definition validate125_files :: "json \<Rightarrow> string \<Rightarrow> step" where
  "validate125_files data p = on_type Collect TObject p ''#/oneOf/3/type'' data
    (required Collect [''kind'', ''request''] p ''#/oneOf/3/required'' data
    (then_valid (no_additional Collect [''kind'', ''request''] p ''#/oneOf/3/additionalProperties'' data)
    (properties [
      on_prop data ''kind'' (\<lambda>data20. seq (check_type Collect [TString] (at_prop p ''kind'') ''#/oneOf/3/properties/kind/type'' data20) (check_const Collect ''files'' (at_prop p ''kind'') ''#/oneOf/3/properties/kind/const'' data20)),
      on_prop data ''request'' (\<lambda>data21. validate125_files_request data21 (at_prop p ''request''))])))"

definition validate125_identify :: "json \<Rightarrow> string \<Rightarrow> step" where
  "validate125_identify data p = on_type Collect TObject p ''#/oneOf/4/type'' data
    (required Collect [''kind''] p ''#/oneOf/4/required'' data
    (then_valid (no_additional Collect [''kind''] p ''#/oneOf/4/additionalProperties'' data)
    (properties [
      on_prop data ''kind'' (\<lambda>data44. seq (check_type Collect [TString] (at_prop p ''kind'') ''#/oneOf/4/properties/kind/type'' data44) (check_const Collect ''identify'' (at_prop p ''kind'') ''#/oneOf/4/properties/kind/const'' data44))])))"

definition validate125_unlock :: "json \<Rightarrow> string \<Rightarrow> step" where
  "validate125_unlock data p = on_type Collect TObject p ''#/oneOf/5/type'' data
    (required Collect [''kind'', ''passphrase'', ''create''] p ''#/oneOf/5/required'' data
    (then_valid (no_additional Collect [''create'', ''kind'', ''passphrase''] p ''#/oneOf/5/additionalProperties'' data)
    (properties [
      on_prop data ''create'' (\<lambda>v. check_type Collect [TBoolean] (at_prop p ''create'') ''#/oneOf/5/properties/create/type'' v),
      on_prop data ''kind'' (\<lambda>data46. seq (check_type Collect [TString] (at_prop p ''kind'') ''#/oneOf/5/properties/kind/type'' data46) (check_const Collect ''unlock'' (at_prop p ''kind'') ''#/oneOf/5/properties/kind/const'' data46)),
      on_prop data ''passphrase'' (\<lambda>v. check_type Collect [TString] (at_prop p ''passphrase'') ''#/oneOf/5/properties/passphrase/type'' v)])))"

definition validate125_lock :: "json \<Rightarrow> string \<Rightarrow> step" where
  "validate125_lock data p = on_type Collect TObject p ''#/oneOf/6/type'' data
    (required Collect [''kind''] p ''#/oneOf/6/required'' data
    (then_valid (no_additional Collect [''kind''] p ''#/oneOf/6/additionalProperties'' data)
    (properties [
      on_prop data ''kind'' (\<lambda>data48. seq (check_type Collect [TString] (at_prop p ''kind'') ''#/oneOf/6/properties/kind/type'' data48) (check_const Collect ''lock'' (at_prop p ''kind'') ''#/oneOf/6/properties/kind/const'' data48))])))"

definition validate125_disconnect :: "json \<Rightarrow> string \<Rightarrow> step" where
  "validate125_disconnect data p = on_type Collect TObject p ''#/oneOf/7/type'' data
    (required Collect [''kind''] p ''#/oneOf/7/required'' data
    (then_valid (no_additional Collect [''kind''] p ''#/oneOf/7/additionalProperties'' data)
    (properties [
      on_prop data ''kind'' (\<lambda>data49. seq (check_type Collect [TString] (at_prop p ''kind'') ''#/oneOf/7/properties/kind/type'' data49) (check_const Collect ''disconnect'' (at_prop p ''kind'') ''#/oneOf/7/properties/kind/const'' data49))])))"

definition validate125_snapshot :: "json \<Rightarrow> string \<Rightarrow> step" where
  "validate125_snapshot data p = on_type Collect TObject p ''#/oneOf/8/type'' data
    (required Collect [''kind''] p ''#/oneOf/8/required'' data
    (then_valid (no_additional Collect [''kind''] p ''#/oneOf/8/additionalProperties'' data)
    (properties [
      on_prop data ''kind'' (\<lambda>data50. seq (check_type Collect [TString] (at_prop p ''kind'') ''#/oneOf/8/properties/kind/type'' data50) (check_const Collect ''snapshot'' (at_prop p ''kind'') ''#/oneOf/8/properties/kind/const'' data50))])))"

definition validate125_network_status :: "json \<Rightarrow> string \<Rightarrow> step" where
  "validate125_network_status data p = on_type Collect TObject p ''#/oneOf/9/type'' data
    (required Collect [''kind''] p ''#/oneOf/9/required'' data
    (then_valid (no_additional Collect [''kind''] p ''#/oneOf/9/additionalProperties'' data)
    (properties [
      on_prop data ''kind'' (\<lambda>data51. seq (check_type Collect [TString] (at_prop p ''kind'') ''#/oneOf/9/properties/kind/type'' data51) (check_const Collect ''network_status'' (at_prop p ''kind'') ''#/oneOf/9/properties/kind/const'' data51))])))"

definition validate125_import_network_invitation :: "json \<Rightarrow> string \<Rightarrow> step" where
  "validate125_import_network_invitation data p = on_type Collect TObject p ''#/oneOf/10/type'' data
    (required Collect [''kind'', ''code''] p ''#/oneOf/10/required'' data
    (then_valid (no_additional Collect [''code'', ''kind''] p ''#/oneOf/10/additionalProperties'' data)
    (properties [
      on_prop data ''code'' (\<lambda>v. check_type Collect [TString] (at_prop p ''code'') ''#/oneOf/10/properties/code/type'' v),
      on_prop data ''kind'' (\<lambda>data53. seq (check_type Collect [TString] (at_prop p ''kind'') ''#/oneOf/10/properties/kind/type'' data53) (check_const Collect ''import_network_invitation'' (at_prop p ''kind'') ''#/oneOf/10/properties/kind/const'' data53))])))"

definition validate125_catalogue :: "json \<Rightarrow> string \<Rightarrow> step" where
  "validate125_catalogue data p = on_type Collect TObject p ''#/oneOf/11/type'' data
    (required Collect [''kind''] p ''#/oneOf/11/required'' data
    (then_valid (no_additional Collect [''conversation'', ''kind''] p ''#/oneOf/11/additionalProperties'' data)
    (properties [
      on_prop data ''conversation'' (\<lambda>data54. check_type Collect [TString, TNull] (at_prop p ''conversation'') ''#/oneOf/11/properties/conversation/type'' data54),
      on_prop data ''kind'' (\<lambda>data55. seq (check_type Collect [TString] (at_prop p ''kind'') ''#/oneOf/11/properties/kind/type'' data55) (check_const Collect ''catalogue'' (at_prop p ''kind'') ''#/oneOf/11/properties/kind/const'' data55))])))"

definition validate125_history :: "json \<Rightarrow> string \<Rightarrow> step" where
  "validate125_history data p = on_type Collect TObject p ''#/oneOf/12/type'' data
    (required Collect [''kind'', ''conversation'', ''limit''] p ''#/oneOf/12/required'' data
    (then_valid (no_additional Collect [''before'', ''conversation'', ''kind'', ''limit''] p ''#/oneOf/12/additionalProperties'' data)
    (properties [
      on_prop data ''before'' (\<lambda>data56. check_type Collect [TString, TNull] (at_prop p ''before'') ''#/oneOf/12/properties/before/type'' data56),
      on_prop data ''conversation'' (\<lambda>v. check_type Collect [TString] (at_prop p ''conversation'') ''#/oneOf/12/properties/conversation/type'' v),
      on_prop data ''kind'' (\<lambda>data58. seq (check_type Collect [TString] (at_prop p ''kind'') ''#/oneOf/12/properties/kind/type'' data58) (check_const Collect ''history'' (at_prop p ''kind'') ''#/oneOf/12/properties/kind/const'' data58)),
      on_prop data ''limit'' (\<lambda>data59. then_valid (check_type Collect [TInteger] (at_prop p ''limit'') ''#/oneOf/12/properties/limit/type'' data59) (check_range Collect (Some 65535) 0 (at_prop p ''limit'') ''#/oneOf/12/properties/limit'' data59))])))"

definition validate125_search :: "json \<Rightarrow> string \<Rightarrow> step" where
  "validate125_search data p = on_type Collect TObject p ''#/oneOf/13/type'' data
    (required Collect [''kind'', ''conversation'', ''text'', ''limit''] p ''#/oneOf/13/required'' data
    (then_valid (no_additional Collect [''before'', ''conversation'', ''kind'', ''limit'', ''text''] p ''#/oneOf/13/additionalProperties'' data)
    (properties [
      on_prop data ''before'' (\<lambda>data60. check_type Collect [TString, TNull] (at_prop p ''before'') ''#/oneOf/13/properties/before/type'' data60),
      on_prop data ''conversation'' (\<lambda>v. check_type Collect [TString] (at_prop p ''conversation'') ''#/oneOf/13/properties/conversation/type'' v),
      on_prop data ''kind'' (\<lambda>data62. seq (check_type Collect [TString] (at_prop p ''kind'') ''#/oneOf/13/properties/kind/type'' data62) (check_const Collect ''search'' (at_prop p ''kind'') ''#/oneOf/13/properties/kind/const'' data62)),
      on_prop data ''limit'' (\<lambda>data63. then_valid (check_type Collect [TInteger] (at_prop p ''limit'') ''#/oneOf/13/properties/limit/type'' data63) (check_range Collect (Some 65535) 0 (at_prop p ''limit'') ''#/oneOf/13/properties/limit'' data63)),
      on_prop data ''text'' (\<lambda>v. check_type Collect [TString] (at_prop p ''text'') ''#/oneOf/13/properties/text/type'' v)])))"

definition validate125_submit :: "json \<Rightarrow> string \<Rightarrow> step" where
  "validate125_submit data p = on_type Collect TObject p ''#/oneOf/14/type'' data
    (required Collect [''kind'', ''operation_id'', ''text''] p ''#/oneOf/14/required'' data
    (then_valid (no_additional Collect [''conversation'', ''kind'', ''operation_id'', ''text''] p ''#/oneOf/14/additionalProperties'' data)
    (properties [
      on_prop data ''conversation'' (\<lambda>data65. check_type Collect [TString, TNull] (at_prop p ''conversation'') ''#/oneOf/14/properties/conversation/type'' data65),
      on_prop data ''kind'' (\<lambda>data66. seq (check_type Collect [TString] (at_prop p ''kind'') ''#/oneOf/14/properties/kind/type'' data66) (check_const Collect ''submit'' (at_prop p ''kind'') ''#/oneOf/14/properties/kind/const'' data66)),
      on_prop data ''operation_id'' (\<lambda>v. check_type Collect [TString] (at_prop p ''operation_id'') ''#/oneOf/14/properties/operation_id/type'' v),
      on_prop data ''text'' (\<lambda>v. check_type Collect [TString] (at_prop p ''text'') ''#/oneOf/14/properties/text/type'' v)])))"

definition validate125_complete :: "json \<Rightarrow> string \<Rightarrow> step" where
  "validate125_complete data p = on_type Collect TObject p ''#/oneOf/15/type'' data
    (required Collect [''kind'', ''text''] p ''#/oneOf/15/required'' data
    (then_valid (no_additional Collect [''conversation'', ''kind'', ''text''] p ''#/oneOf/15/additionalProperties'' data)
    (properties [
      on_prop data ''conversation'' (\<lambda>data69. check_type Collect [TString, TNull] (at_prop p ''conversation'') ''#/oneOf/15/properties/conversation/type'' data69),
      on_prop data ''kind'' (\<lambda>data70. seq (check_type Collect [TString] (at_prop p ''kind'') ''#/oneOf/15/properties/kind/type'' data70) (check_const Collect ''complete'' (at_prop p ''kind'') ''#/oneOf/15/properties/kind/const'' data70)),
      on_prop data ''text'' (\<lambda>v. check_type Collect [TString] (at_prop p ''text'') ''#/oneOf/15/properties/text/type'' v)])))"

definition validate125_mark_read :: "json \<Rightarrow> string \<Rightarrow> step" where
  "validate125_mark_read data p = on_type Collect TObject p ''#/oneOf/16/type'' data
    (required Collect [''kind'', ''conversation'', ''message_id''] p ''#/oneOf/16/required'' data
    (then_valid (no_additional Collect [''conversation'', ''kind'', ''message_id''] p ''#/oneOf/16/additionalProperties'' data)
    (properties [
      on_prop data ''conversation'' (\<lambda>v. check_type Collect [TString] (at_prop p ''conversation'') ''#/oneOf/16/properties/conversation/type'' v),
      on_prop data ''kind'' (\<lambda>data73. seq (check_type Collect [TString] (at_prop p ''kind'') ''#/oneOf/16/properties/kind/type'' data73) (check_const Collect ''mark_read'' (at_prop p ''kind'') ''#/oneOf/16/properties/kind/const'' data73)),
      on_prop data ''message_id'' (\<lambda>v. check_type Collect [TString] (at_prop p ''message_id'') ''#/oneOf/16/properties/message_id/type'' v)])))"

definition validate125_events :: "json \<Rightarrow> string \<Rightarrow> step" where
  "validate125_events data p = on_type Collect TObject p ''#/oneOf/17/type'' data
    (required Collect [''kind'', ''after'', ''wait_ms''] p ''#/oneOf/17/required'' data
    (then_valid (no_additional Collect [''after'', ''kind'', ''wait_ms''] p ''#/oneOf/17/additionalProperties'' data)
    (properties [
      on_prop data ''after'' (\<lambda>v. check_type Collect [TString] (at_prop p ''after'') ''#/oneOf/17/properties/after/type'' v),
      on_prop data ''kind'' (\<lambda>data76. seq (check_type Collect [TString] (at_prop p ''kind'') ''#/oneOf/17/properties/kind/type'' data76) (check_const Collect ''events'' (at_prop p ''kind'') ''#/oneOf/17/properties/kind/const'' data76)),
      on_prop data ''wait_ms'' (\<lambda>data77. then_valid (check_type Collect [TInteger] (at_prop p ''wait_ms'') ''#/oneOf/17/properties/wait_ms/type'' data77) (check_range Collect (Some 65535) 0 (at_prop p ''wait_ms'') ''#/oneOf/17/properties/wait_ms'' data77))])))"

definition validate124_list :: "json \<Rightarrow> string \<Rightarrow> step" where
  "validate124_list data p = on_type Collect TObject p ''#/oneOf/0/type'' data
    (required Collect [''kind''] p ''#/oneOf/0/required'' data
    (then_valid (no_additional Collect [''kind''] p ''#/oneOf/0/additionalProperties'' data)
    (properties [
      on_prop data ''kind'' (\<lambda>data0. seq (check_type Collect [TString] (at_prop p ''kind'') ''#/oneOf/0/properties/kind/type'' data0) (check_const Collect ''list'' (at_prop p ''kind'') ''#/oneOf/0/properties/kind/const'' data0))])))"

definition validate124_inspect :: "json \<Rightarrow> string \<Rightarrow> step" where
  "validate124_inspect data p = on_type Collect TObject p ''#/oneOf/1/type'' data
    (required Collect [''kind'', ''code''] p ''#/oneOf/1/required'' data
    (then_valid (no_additional Collect [''code'', ''kind''] p ''#/oneOf/1/additionalProperties'' data)
    (properties [
      on_prop data ''code'' (\<lambda>v. check_type Collect [TString] (at_prop p ''code'') ''#/oneOf/1/properties/code/type'' v),
      on_prop data ''kind'' (\<lambda>data2. seq (check_type Collect [TString] (at_prop p ''kind'') ''#/oneOf/1/properties/kind/type'' data2) (check_const Collect ''inspect'' (at_prop p ''kind'') ''#/oneOf/1/properties/kind/const'' data2))])))"

definition validate124_join :: "json \<Rightarrow> string \<Rightarrow> step" where
  "validate124_join data p = on_type Collect TObject p ''#/oneOf/2/type'' data
    (required Collect [''kind'', ''code'', ''nickname'', ''accepted_network'', ''operation_id''] p ''#/oneOf/2/required'' data
    (then_valid (no_additional Collect [''accepted_network'', ''code'', ''kind'', ''nickname'', ''operation_id''] p ''#/oneOf/2/additionalProperties'' data)
    (properties [
      on_prop data ''accepted_network'' (\<lambda>v. check_type Collect [TString] (at_prop p ''accepted_network'') ''#/oneOf/2/properties/accepted_network/type'' v),
      on_prop data ''code'' (\<lambda>v. check_type Collect [TString] (at_prop p ''code'') ''#/oneOf/2/properties/code/type'' v),
      on_prop data ''kind'' (\<lambda>data5. seq (check_type Collect [TString] (at_prop p ''kind'') ''#/oneOf/2/properties/kind/type'' data5) (check_const Collect ''join'' (at_prop p ''kind'') ''#/oneOf/2/properties/kind/const'' data5)),
      on_prop data ''nickname'' (\<lambda>v. check_type Collect [TString] (at_prop p ''nickname'') ''#/oneOf/2/properties/nickname/type'' v),
      on_prop data ''operation_id'' (\<lambda>v. check_type Collect [TString] (at_prop p ''operation_id'') ''#/oneOf/2/properties/operation_id/type'' v)])))"

definition validate124_call :: "validator \<Rightarrow> json \<Rightarrow> string \<Rightarrow> step" where
  "validate124_call recur data p = on_type Collect TObject p ''#/oneOf/3/type'' data
    (required Collect [''kind'', ''network'', ''request''] p ''#/oneOf/3/required'' data
    (then_valid (no_additional Collect [''kind'', ''network'', ''request''] p ''#/oneOf/3/additionalProperties'' data)
    (properties [
      on_prop data ''kind'' (\<lambda>data8. seq (check_type Collect [TString] (at_prop p ''kind'') ''#/oneOf/3/properties/kind/type'' data8) (check_const Collect ''call'' (at_prop p ''kind'') ''#/oneOf/3/properties/kind/const'' data8)),
      on_prop data ''network'' (\<lambda>v. check_type Collect [TString] (at_prop p ''network'') ''#/oneOf/3/properties/network/type'' v),
      on_prop data ''request'' (\<lambda>v. call recur v (at_prop p ''request''))])))"

lemma validate124_call_cong [fundef_cong]:
  "data = data' \<Longrightarrow> p = p' \<Longrightarrow> (\<And>x q. size x < size data' \<Longrightarrow> v x q = v' x q) \<Longrightarrow>
   validate124_call v data p = validate124_call v' data' p'"
  by (simp add: validate124_call_def on_prop_call_cong[of data' v v'])

function validate125 :: validator and validate124 :: validator where
  "validate125 data instancePath = run_guard (one_of Return instancePath ''#/oneOf'' [
      validate125_enrollment data instancePath,
      validate125_update data instancePath,
      validate125_networks (\<lambda>x q. validate124 x q) data instancePath,
      validate125_files data instancePath,
      validate125_identify data instancePath,
      validate125_unlock data instancePath,
      validate125_lock data instancePath,
      validate125_disconnect data instancePath,
      validate125_snapshot data instancePath,
      validate125_network_status data instancePath,
      validate125_import_network_invitation data instancePath,
      validate125_catalogue data instancePath,
      validate125_history data instancePath,
      validate125_search data instancePath,
      validate125_submit data instancePath,
      validate125_complete data instancePath,
      validate125_mark_read data instancePath,
      validate125_events data instancePath])"
| "validate124 data instancePath = run_guard (one_of Return instancePath ''#/oneOf'' [
      validate124_list data instancePath,
      validate124_inspect data instancePath,
      validate124_join data instancePath,
      validate124_call (\<lambda>x q. validate125 x q) data instancePath])"
  by pat_completeness auto
termination
  by (relation "measure (case_sum (size \<circ> fst) (size \<circ> fst))") auto

declare validate125.simps [simp del] validate124.simps [simp del]

definition validate123 :: validator where
  "validate123 data instancePath = run_guard (on_type Return TObject instancePath ''#/type'' data
    (required Return [''request''] instancePath ''#/required'' data
    (then_valid (no_additional Return [''request''] instancePath ''#/additionalProperties'' data)
    (properties [
      on_prop data ''request'' (\<lambda>v. call validate124 v (at_prop instancePath ''request''))]))))"

definition validate130 :: validator where
  "validate130 data instancePath = run_guard (on_type Return TObject instancePath ''#/type'' data
    (required Return [''state'', ''message''] instancePath ''#/required'' data
    (properties [
      on_prop data ''message'' (\<lambda>v. check_type Return [TString] (at_prop instancePath ''message'') ''#/properties/message/type'' v),
      on_prop data ''state'' (\<lambda>data1. seq (check_type Return [TString] (at_prop instancePath ''state'') ''#/$defs/NetworkState/type'' data1) (check_enum Return [''locked'', ''local_only'', ''invitation_required'', ''connecting'', ''connected'', ''reconnecting'', ''invitation_expired'', ''unavailable''] (at_prop instancePath ''state'') ''#/$defs/NetworkState/enum'' data1))])))"

definition validate129 :: validator where
  "validate129 data instancePath = run_guard (on_type Return TObject instancePath ''#/type'' data
    (required Return [''id'', ''name'', ''fingerprint'', ''primary'', ''status''] instancePath ''#/required'' data
    (properties [
      on_prop data ''fingerprint'' (\<lambda>v. check_type Return [TString] (at_prop instancePath ''fingerprint'') ''#/properties/fingerprint/type'' v),
      on_prop data ''id'' (\<lambda>v. check_type Return [TString] (at_prop instancePath ''id'') ''#/properties/id/type'' v),
      on_prop data ''name'' (\<lambda>v. check_type Return [TString] (at_prop instancePath ''name'') ''#/properties/name/type'' v),
      on_prop data ''primary'' (\<lambda>v. check_type Return [TBoolean] (at_prop instancePath ''primary'') ''#/properties/primary/type'' v),
      on_prop data ''status'' (\<lambda>v. call validate130 v (at_prop instancePath ''status''))])))"

definition validate133 :: validator where
  "validate133 data instancePath = run_guard (on_type Return TObject instancePath ''#/type'' data
    (required Return [''network'', ''newNetwork''] instancePath ''#/required'' data
    (properties [
      on_prop data ''channel'' (\<lambda>data0. check_type Return [TString, TNull] (at_prop instancePath ''channel'') ''#/properties/channel/type'' data0),
      on_prop data ''expires'' (\<lambda>data1. then_valid (check_type Return [TInteger, TNull] (at_prop instancePath ''expires'') ''#/properties/expires/type'' data1) (check_range Return None 0 (at_prop instancePath ''expires'') ''#/properties/expires'' data1)),
      on_prop data ''network'' (\<lambda>v. call validate129 v (at_prop instancePath ''network'')),
      on_prop data ''newNetwork'' (\<lambda>v. check_type Return [TBoolean] (at_prop instancePath ''newNetwork'') ''#/properties/newNetwork/type'' v)])))"

definition validate138_publication_any0 :: "json \<Rightarrow> string \<Rightarrow> step" where
  "validate138_publication_any0 data p = on_type Collect TObject p ''#/$defs/FilePublication/type'' data
    (required Collect [''name'', ''canonical_id'', ''sha256'', ''publisher_safety_number'', ''sequence'', ''committed_unix''] p ''#/$defs/FilePublication/required'' data
    (then_valid (no_additional Collect [''canonical_id'', ''committed_unix'', ''name'', ''publisher_safety_number'', ''sequence'', ''sha256''] p ''#/$defs/FilePublication/additionalProperties'' data)
    (properties [
      on_prop data ''canonical_id'' (\<lambda>v. check_type Collect [TString] (at_prop p ''canonical_id'') ''#/$defs/FilePublication/properties/canonical_id/type'' v),
      on_prop data ''committed_unix'' (\<lambda>v. check_type Collect [TString] (at_prop p ''committed_unix'') ''#/$defs/FilePublication/properties/committed_unix/type'' v),
      on_prop data ''name'' (\<lambda>v. check_type Collect [TString] (at_prop p ''name'') ''#/$defs/FilePublication/properties/name/type'' v),
      on_prop data ''publisher_safety_number'' (\<lambda>v. check_type Collect [TString] (at_prop p ''publisher_safety_number'') ''#/$defs/FilePublication/properties/publisher_safety_number/type'' v),
      on_prop data ''sequence'' (\<lambda>v. check_type Collect [TString] (at_prop p ''sequence'') ''#/$defs/FilePublication/properties/sequence/type'' v),
      on_prop data ''sha256'' (\<lambda>v. check_type Collect [TString] (at_prop p ''sha256'') ''#/$defs/FilePublication/properties/sha256/type'' v)])))"

definition validate138_publication :: "json \<Rightarrow> string \<Rightarrow> step" where
  "validate138_publication data p = any_of Return p ''#/properties/publication/anyOf'' [
      validate138_publication_any0 data p,
      check_type Collect [TNull] p ''#/properties/publication/anyOf/1/type'' data]"

definition validate138 :: validator where
  "validate138 data instancePath = run_guard (on_type Return TObject instancePath ''#/type'' data
    (required Return [''id'', ''conversation'', ''name'', ''size_bytes'', ''verified_bytes'', ''state'', ''sources'', ''completed_by''] instancePath ''#/required'' data
    (then_valid (no_additional Return [''aliases'', ''completed_by'', ''conversation'', ''error'', ''id'', ''name'', ''publication'', ''size_bytes'', ''sources'', ''state'', ''verified_bytes'', ''verified_sources''] instancePath ''#/additionalProperties'' data)
    (properties [
      on_prop data ''aliases'' (\<lambda>data0. then_valid (check_type Return [TArray, TNull] (at_prop instancePath ''aliases'') ''#/properties/aliases/type'' data0) (items data0 (\<lambda>i0 item. check_type Return [TString] (at_index (at_prop instancePath ''aliases'') i0) ''#/properties/aliases/items/type'' item))),
      on_prop data ''completed_by'' (\<lambda>data2. then_valid (check_type Return [TInteger] (at_prop instancePath ''completed_by'') ''#/properties/completed_by/type'' data2) (check_range Return (Some 65535) 0 (at_prop instancePath ''completed_by'') ''#/properties/completed_by'' data2)),
      on_prop data ''conversation'' (\<lambda>v. check_type Return [TString] (at_prop instancePath ''conversation'') ''#/properties/conversation/type'' v),
      on_prop data ''error'' (\<lambda>data4. check_type Return [TString, TNull] (at_prop instancePath ''error'') ''#/properties/error/type'' data4),
      on_prop data ''id'' (\<lambda>v. check_type Return [TString] (at_prop instancePath ''id'') ''#/properties/id/type'' v),
      on_prop data ''name'' (\<lambda>v. check_type Return [TString] (at_prop instancePath ''name'') ''#/properties/name/type'' v),
      on_prop data ''publication'' (\<lambda>data7. validate138_publication data7 (at_prop instancePath ''publication'')),
      on_prop data ''size_bytes'' (\<lambda>v. check_type Return [TString] (at_prop instancePath ''size_bytes'') ''#/properties/size_bytes/type'' v),
      on_prop data ''sources'' (\<lambda>data15. then_valid (check_type Return [TInteger] (at_prop instancePath ''sources'') ''#/properties/sources/type'' data15) (check_range Return (Some 65535) 0 (at_prop instancePath ''sources'') ''#/properties/sources'' data15)),
      on_prop data ''state'' (\<lambda>data16. seq (check_type Return [TString] (at_prop instancePath ''state'') ''#/$defs/FileState/type'' data16) (check_enum Return [''offered'', ''importing'', ''downloading'', ''waiting_for_peers'', ''paused'', ''complete'', ''failed'', ''cancelled''] (at_prop instancePath ''state'') ''#/$defs/FileState/enum'' data16)),
      on_prop data ''verified_bytes'' (\<lambda>v. check_type Return [TString] (at_prop instancePath ''verified_bytes'') ''#/properties/verified_bytes/type'' v),
      on_prop data ''verified_sources'' (\<lambda>data18. then_valid (check_type Return [TInteger] (at_prop instancePath ''verified_sources'') ''#/properties/verified_sources/type'' data18) (check_range Return (Some 65535) 0 (at_prop instancePath ''verified_sources'') ''#/properties/verified_sources'' data18))]))))"

definition validate137 :: validator where
  "validate137 data instancePath = run_guard (on_type Return TObject instancePath ''#/type'' data
    (required Return [''files'', ''quota_bytes'', ''used_bytes'', ''retention_days''] instancePath ''#/required'' data
    (then_valid (no_additional Return [''files'', ''quota_bytes'', ''retention_days'', ''used_bytes''] instancePath ''#/additionalProperties'' data)
    (properties [
      on_prop data ''files'' (\<lambda>data0. on_type Return TArray (at_prop instancePath ''files'') ''#/properties/files/type'' data0
    (items data0 (\<lambda>i0 item. call validate138 item (at_index (at_prop instancePath ''files'') i0)))),
      on_prop data ''quota_bytes'' (\<lambda>v. check_type Return [TString] (at_prop instancePath ''quota_bytes'') ''#/properties/quota_bytes/type'' v),
      on_prop data ''retention_days'' (\<lambda>data3. then_valid (check_type Return [TInteger] (at_prop instancePath ''retention_days'') ''#/properties/retention_days/type'' data3) (check_range Return (Some 65535) 0 (at_prop instancePath ''retention_days'') ''#/properties/retention_days'' data3)),
      on_prop data ''used_bytes'' (\<lambda>v. check_type Return [TString] (at_prop instancePath ''used_bytes'') ''#/properties/used_bytes/type'' v)]))))"

definition validate142_build_any0 :: "json \<Rightarrow> string \<Rightarrow> step" where
  "validate142_build_any0 data p = on_type Collect TObject p ''#/$defs/BuildInfo/type'' data
    (required Collect [''releaseId'', ''gchatCommit'', ''gcomsCommit'', ''version''] p ''#/$defs/BuildInfo/required'' data
    (properties [
      on_prop data ''gchatCommit'' (\<lambda>v. check_type Collect [TString] (at_prop p ''gchatCommit'') ''#/$defs/BuildInfo/properties/gchatCommit/type'' v),
      on_prop data ''gcomsCommit'' (\<lambda>v. check_type Collect [TString] (at_prop p ''gcomsCommit'') ''#/$defs/BuildInfo/properties/gcomsCommit/type'' v),
      on_prop data ''releaseId'' (\<lambda>v. check_type Collect [TString] (at_prop p ''releaseId'') ''#/$defs/BuildInfo/properties/releaseId/type'' v),
      on_prop data ''version'' (\<lambda>v. check_type Collect [TString] (at_prop p ''version'') ''#/$defs/BuildInfo/properties/version/type'' v)]))"

definition validate142_build :: "json \<Rightarrow> string \<Rightarrow> step" where
  "validate142_build data p = any_of Return p ''#/properties/build/anyOf'' [
      validate142_build_any0 data p,
      check_type Collect [TNull] p ''#/properties/build/anyOf/1/type'' data]"

definition validate142 :: validator where
  "validate142 data instancePath = run_guard (on_type Return TObject instancePath ''#/type'' data
    (required Return [''id'', ''label'', ''bootId'', ''locked'', ''protocolLocked'', ''profileExists'', ''archiveExists'', ''safetyNumber'', ''capabilities''] instancePath ''#/required'' data
    (properties [
      on_prop data ''archiveExists'' (\<lambda>v. check_type Return [TBoolean] (at_prop instancePath ''archiveExists'') ''#/properties/archiveExists/type'' v),
      on_prop data ''bootId'' (\<lambda>v. check_type Return [TString] (at_prop instancePath ''bootId'') ''#/properties/bootId/type'' v),
      on_prop data ''build'' (\<lambda>data2. validate142_build data2 (at_prop instancePath ''build'')),
      on_prop data ''capabilities'' (\<lambda>data7. on_type Return TArray (at_prop instancePath ''capabilities'') ''#/properties/capabilities/type'' data7
    (items data7 (\<lambda>i0 item. check_type Return [TString] (at_index (at_prop instancePath ''capabilities'') i0) ''#/properties/capabilities/items/type'' item))),
      on_prop data ''id'' (\<lambda>v. check_type Return [TString] (at_prop instancePath ''id'') ''#/properties/id/type'' v),
      on_prop data ''label'' (\<lambda>v. check_type Return [TString] (at_prop instancePath ''label'') ''#/properties/label/type'' v),
      on_prop data ''locked'' (\<lambda>v. check_type Return [TBoolean] (at_prop instancePath ''locked'') ''#/properties/locked/type'' v),
      on_prop data ''profileExists'' (\<lambda>v. check_type Return [TBoolean] (at_prop instancePath ''profileExists'') ''#/properties/profileExists/type'' v),
      on_prop data ''protocolLocked'' (\<lambda>v. check_type Return [TBoolean] (at_prop instancePath ''protocolLocked'') ''#/properties/protocolLocked/type'' v),
      on_prop data ''safetyNumber'' (\<lambda>v. check_type Return [TString] (at_prop instancePath ''safetyNumber'') ''#/properties/safetyNumber/type'' v)])))"

definition validate146_presence_any0_available :: "json \<Rightarrow> string \<Rightarrow> step" where
  "validate146_presence_any0_available data p = on_type Collect TObject p ''#/$defs/MemberPresence/oneOf/0/type'' data
    (required Collect [''state''] p ''#/$defs/MemberPresence/oneOf/0/required'' data
    (properties [
      on_prop data ''state'' (\<lambda>data6. seq (check_type Collect [TString] (at_prop p ''state'') ''#/$defs/MemberPresence/oneOf/0/properties/state/type'' data6) (check_const Collect ''available'' (at_prop p ''state'') ''#/$defs/MemberPresence/oneOf/0/properties/state/const'' data6))]))"

definition validate146_presence_any0_away :: "json \<Rightarrow> string \<Rightarrow> step" where
  "validate146_presence_any0_away data p = on_type Collect TObject p ''#/$defs/MemberPresence/oneOf/1/type'' data
    (required Collect [''state'', ''reason''] p ''#/$defs/MemberPresence/oneOf/1/required'' data
    (properties [
      on_prop data ''reason'' (\<lambda>v. check_type Collect [TString] (at_prop p ''reason'') ''#/$defs/MemberPresence/oneOf/1/properties/reason/type'' v),
      on_prop data ''state'' (\<lambda>data8. seq (check_type Collect [TString] (at_prop p ''state'') ''#/$defs/MemberPresence/oneOf/1/properties/state/type'' data8) (check_const Collect ''away'' (at_prop p ''state'') ''#/$defs/MemberPresence/oneOf/1/properties/state/const'' data8))]))"

definition validate146_presence_any0_unknown :: "json \<Rightarrow> string \<Rightarrow> step" where
  "validate146_presence_any0_unknown data p = on_type Collect TObject p ''#/$defs/MemberPresence/oneOf/2/type'' data
    (required Collect [''state''] p ''#/$defs/MemberPresence/oneOf/2/required'' data
    (properties [
      on_prop data ''state'' (\<lambda>data9. seq (check_type Collect [TString] (at_prop p ''state'') ''#/$defs/MemberPresence/oneOf/2/properties/state/type'' data9) (check_const Collect ''unknown'' (at_prop p ''state'') ''#/$defs/MemberPresence/oneOf/2/properties/state/const'' data9))]))"

definition validate146_presence_any0 :: "json \<Rightarrow> string \<Rightarrow> step" where
  "validate146_presence_any0 data p = one_of Collect p ''#/$defs/MemberPresence/oneOf'' [
      validate146_presence_any0_available data p,
      validate146_presence_any0_away data p,
      validate146_presence_any0_unknown data p]"

definition validate146_presence :: "json \<Rightarrow> string \<Rightarrow> step" where
  "validate146_presence data p = any_of Return p ''#/properties/presence/anyOf'' [
      validate146_presence_any0 data p,
      check_type Collect [TNull] p ''#/properties/presence/anyOf/1/type'' data]"

definition validate146 :: validator where
  "validate146 data instancePath = run_guard (on_type Return TObject instancePath ''#/type'' data
    (required Return [''id'', ''nickname'', ''isSelf''] instancePath ''#/required'' data
    (properties [
      on_prop data ''capabilities'' (\<lambda>data0. on_type Return TArray (at_prop instancePath ''capabilities'') ''#/properties/capabilities/type'' data0
    (items data0 (\<lambda>i0 item. check_type Return [TString] (at_index (at_prop instancePath ''capabilities'') i0) ''#/properties/capabilities/items/type'' item))),
      on_prop data ''id'' (\<lambda>v. check_type Return [TString] (at_prop instancePath ''id'') ''#/properties/id/type'' v),
      on_prop data ''isSelf'' (\<lambda>v. check_type Return [TBoolean] (at_prop instancePath ''isSelf'') ''#/properties/isSelf/type'' v),
      on_prop data ''nickname'' (\<lambda>v. check_type Return [TString] (at_prop instancePath ''nickname'') ''#/properties/nickname/type'' v),
      on_prop data ''presence'' (\<lambda>data5. validate146_presence data5 (at_prop instancePath ''presence'')),
      on_prop data ''recentlyActive'' (\<lambda>data10. check_type Return [TBoolean, TNull] (at_prop instancePath ''recentlyActive'') ''#/properties/recentlyActive/type'' data10)])))"

definition validate145_catchUp_any0 :: "json \<Rightarrow> string \<Rightarrow> step" where
  "validate145_catchUp_any0 data p = on_type Collect TObject p ''#/$defs/ChannelCatchUp/type'' data
    (required Collect [''appliedRecords''] p ''#/$defs/ChannelCatchUp/required'' data
    (properties [
      on_prop data ''appliedRecords'' (\<lambda>data2. then_valid (check_type Collect [TInteger] (at_prop p ''appliedRecords'') ''#/$defs/ChannelCatchUp/properties/appliedRecords/type'' data2) (check_range Collect None 0 (at_prop p ''appliedRecords'') ''#/$defs/ChannelCatchUp/properties/appliedRecords'' data2))]))"

definition validate145_catchUp :: "json \<Rightarrow> string \<Rightarrow> step" where
  "validate145_catchUp data p = any_of Return p ''#/properties/catchUp/anyOf'' [
      validate145_catchUp_any0 data p,
      check_type Collect [TNull] p ''#/properties/catchUp/anyOf/1/type'' data]"

definition validate145_commands_item :: "json \<Rightarrow> string \<Rightarrow> step" where
  "validate145_commands_item data p = on_type Return TObject p ''#/$defs/CommandSpec/type'' data
    (required Return [''name'', ''usage'', ''description'', ''scope'', ''available''] p ''#/$defs/CommandSpec/required'' data
    (properties [
      on_prop data ''available'' (\<lambda>v. check_type Return [TBoolean] (at_prop p ''available'') ''#/$defs/CommandSpec/properties/available/type'' v),
      on_prop data ''capability'' (\<lambda>data7. check_type Return [TString, TNull] (at_prop p ''capability'') ''#/$defs/CommandSpec/properties/capability/type'' data7),
      on_prop data ''description'' (\<lambda>v. check_type Return [TString] (at_prop p ''description'') ''#/$defs/CommandSpec/properties/description/type'' v),
      on_prop data ''name'' (\<lambda>v. check_type Return [TString] (at_prop p ''name'') ''#/$defs/CommandSpec/properties/name/type'' v),
      on_prop data ''scope'' (\<lambda>v. check_type Return [TString] (at_prop p ''scope'') ''#/$defs/CommandSpec/properties/scope/type'' v),
      on_prop data ''usage'' (\<lambda>v. check_type Return [TString] (at_prop p ''usage'') ''#/$defs/CommandSpec/properties/usage/type'' v)]))"

definition validate145_policy_any0 :: "json \<Rightarrow> string \<Rightarrow> step" where
  "validate145_policy_any0 data p = on_type Collect TObject p ''#/$defs/ChannelPolicy/type'' data
    (required Collect [''profile'', ''capacity'', ''moderated'', ''inviteOnly'', ''topicOperators'', ''presenceEnabled''] p ''#/$defs/ChannelPolicy/required'' data
    (properties [
      on_prop data ''capacity'' (\<lambda>data23. then_valid (check_type Collect [TInteger] (at_prop p ''capacity'') ''#/$defs/ChannelPolicy/properties/capacity/type'' data23) (check_range Collect None 0 (at_prop p ''capacity'') ''#/$defs/ChannelPolicy/properties/capacity'' data23)),
      on_prop data ''inviteOnly'' (\<lambda>v. check_type Collect [TBoolean] (at_prop p ''inviteOnly'') ''#/$defs/ChannelPolicy/properties/inviteOnly/type'' v),
      on_prop data ''moderated'' (\<lambda>v. check_type Collect [TBoolean] (at_prop p ''moderated'') ''#/$defs/ChannelPolicy/properties/moderated/type'' v),
      on_prop data ''presenceEnabled'' (\<lambda>v. check_type Collect [TBoolean] (at_prop p ''presenceEnabled'') ''#/$defs/ChannelPolicy/properties/presenceEnabled/type'' v),
      on_prop data ''profile'' (\<lambda>v. check_type Collect [TString] (at_prop p ''profile'') ''#/$defs/ChannelPolicy/properties/profile/type'' v),
      on_prop data ''topicOperators'' (\<lambda>v. check_type Collect [TBoolean] (at_prop p ''topicOperators'') ''#/$defs/ChannelPolicy/properties/topicOperators/type'' v)]))"

definition validate145_policy :: "json \<Rightarrow> string \<Rightarrow> step" where
  "validate145_policy data p = any_of Return p ''#/properties/policy/anyOf'' [
      validate145_policy_any0 data p,
      check_type Collect [TNull] p ''#/properties/policy/anyOf/1/type'' data]"

definition validate145 :: validator where
  "validate145 data instancePath = run_guard (on_type Return TObject instancePath ''#/type'' data
    (required Return [''id'', ''channelId'', ''kind'', ''name'', ''topic'', ''active'', ''owner'', ''members'', ''unread''] instancePath ''#/required'' data
    (properties [
      on_prop data ''active'' (\<lambda>v. check_type Return [TBoolean] (at_prop instancePath ''active'') ''#/properties/active/type'' v),
      on_prop data ''catchUp'' (\<lambda>data1. validate145_catchUp data1 (at_prop instancePath ''catchUp'')),
      on_prop data ''channelId'' (\<lambda>v. check_type Return [TString] (at_prop instancePath ''channelId'') ''#/properties/channelId/type'' v),
      on_prop data ''commands'' (\<lambda>data4. on_type Return TArray (at_prop instancePath ''commands'') ''#/properties/commands/type'' data4
    (items data4 (\<lambda>i0 data5. validate145_commands_item data5 (at_index (at_prop instancePath ''commands'') i0)))),
      on_prop data ''directory'' (\<lambda>data12. check_type Return [TString, TNull] (at_prop instancePath ''directory'') ''#/properties/directory/type'' data12),
      on_prop data ''id'' (\<lambda>v. check_type Return [TString] (at_prop instancePath ''id'') ''#/properties/id/type'' v),
      on_prop data ''inputLimitBytes'' (\<lambda>data14. then_valid (check_type Return [TInteger] (at_prop instancePath ''inputLimitBytes'') ''#/properties/inputLimitBytes/type'' data14) (check_range Return None 0 (at_prop instancePath ''inputLimitBytes'') ''#/properties/inputLimitBytes'' data14)),
      on_prop data ''kind'' (\<lambda>data15. seq (check_type Return [TString] (at_prop instancePath ''kind'') ''#/$defs/ConversationKind/type'' data15) (check_enum Return [''channel'', ''query'', ''archive''] (at_prop instancePath ''kind'') ''#/$defs/ConversationKind/enum'' data15)),
      on_prop data ''lastMessageId'' (\<lambda>data16. check_type Return [TString, TNull] (at_prop instancePath ''lastMessageId'') ''#/properties/lastMessageId/type'' data16),
      on_prop data ''members'' (\<lambda>data17. on_type Return TArray (at_prop instancePath ''members'') ''#/properties/members/type'' data17
    (items data17 (\<lambda>i1 item. call validate146 item (at_index (at_prop instancePath ''members'') i1)))),
      on_prop data ''muted'' (\<lambda>data19. check_type Return [TBoolean, TNull] (at_prop instancePath ''muted'') ''#/properties/muted/type'' data19),
      on_prop data ''name'' (\<lambda>v. check_type Return [TString] (at_prop instancePath ''name'') ''#/properties/name/type'' v),
      on_prop data ''owner'' (\<lambda>v. check_type Return [TBoolean] (at_prop instancePath ''owner'') ''#/properties/owner/type'' v),
      on_prop data ''policy'' (\<lambda>data22. validate145_policy data22 (at_prop instancePath ''policy'')),
      on_prop data ''provider'' (\<lambda>data29. check_type Return [TString, TNull] (at_prop instancePath ''provider'') ''#/properties/provider/type'' data29),
      on_prop data ''topic'' (\<lambda>v. check_type Return [TString] (at_prop instancePath ''topic'') ''#/properties/topic/type'' v),
      on_prop data ''unread'' (\<lambda>data31. then_valid (check_type Return [TInteger] (at_prop instancePath ''unread'') ''#/properties/unread/type'' data31) (check_range Return None 0 (at_prop instancePath ''unread'') ''#/properties/unread'' data31)),
      on_prop data ''visibility'' (\<lambda>data32. check_type Return [TString, TNull] (at_prop instancePath ''visibility'') ''#/properties/visibility/type'' data32)])))"

definition validate151_invitation_options :: "json \<Rightarrow> string \<Rightarrow> step" where
  "validate151_invitation_options data p = on_type Collect TObject p ''#/oneOf/0/type'' data
    (required Collect [''kind'', ''channel''] p ''#/oneOf/0/required'' data
    (properties [
      on_prop data ''channel'' (\<lambda>v. check_type Collect [TString] (at_prop p ''channel'') ''#/oneOf/0/properties/channel/type'' v),
      on_prop data ''kind'' (\<lambda>data1. seq (check_type Collect [TString] (at_prop p ''kind'') ''#/oneOf/0/properties/kind/type'' data1) (check_const Collect ''invitation_options'' (at_prop p ''kind'') ''#/oneOf/0/properties/kind/const'' data1))]))"

definition validate151_invitations_records_item :: "json \<Rightarrow> string \<Rightarrow> step" where
  "validate151_invitations_records_item data p = on_type Collect TObject p ''#/$defs/InvitationRecord/type'' data
    (required Collect [''id'', ''admitted'', ''pending'', ''revoked''] p ''#/$defs/InvitationRecord/required'' data
    (properties [
      on_prop data ''admitted'' (\<lambda>data6. then_valid (check_type Collect [TInteger] (at_prop p ''admitted'') ''#/$defs/InvitationRecord/properties/admitted/type'' data6) (check_range Collect None 0 (at_prop p ''admitted'') ''#/$defs/InvitationRecord/properties/admitted'' data6)),
      on_prop data ''expires'' (\<lambda>data7. then_valid (check_type Collect [TInteger, TNull] (at_prop p ''expires'') ''#/$defs/InvitationRecord/properties/expires/type'' data7) (check_range Collect None 0 (at_prop p ''expires'') ''#/$defs/InvitationRecord/properties/expires'' data7)),
      on_prop data ''id'' (\<lambda>v. check_type Collect [TString] (at_prop p ''id'') ''#/$defs/InvitationRecord/properties/id/type'' v),
      on_prop data ''limit'' (\<lambda>data9. then_valid (check_type Collect [TInteger, TNull] (at_prop p ''limit'') ''#/$defs/InvitationRecord/properties/limit/type'' data9) (check_range Collect None 0 (at_prop p ''limit'') ''#/$defs/InvitationRecord/properties/limit'' data9)),
      on_prop data ''pending'' (\<lambda>data10. then_valid (check_type Collect [TInteger] (at_prop p ''pending'') ''#/$defs/InvitationRecord/properties/pending/type'' data10) (check_range Collect None 0 (at_prop p ''pending'') ''#/$defs/InvitationRecord/properties/pending'' data10)),
      on_prop data ''revoked'' (\<lambda>v. check_type Collect [TBoolean] (at_prop p ''revoked'') ''#/$defs/InvitationRecord/properties/revoked/type'' v)]))"

definition validate151_invitations :: "json \<Rightarrow> string \<Rightarrow> step" where
  "validate151_invitations data p = on_type Collect TObject p ''#/oneOf/1/type'' data
    (required Collect [''kind'', ''channel'', ''records''] p ''#/oneOf/1/required'' data
    (properties [
      on_prop data ''channel'' (\<lambda>v. check_type Collect [TString] (at_prop p ''channel'') ''#/oneOf/1/properties/channel/type'' v),
      on_prop data ''kind'' (\<lambda>data3. seq (check_type Collect [TString] (at_prop p ''kind'') ''#/oneOf/1/properties/kind/type'' data3) (check_const Collect ''invitations'' (at_prop p ''kind'') ''#/oneOf/1/properties/kind/const'' data3)),
      on_prop data ''records'' (\<lambda>data4. on_type Collect TArray (at_prop p ''records'') ''#/oneOf/1/properties/records/type'' data4
    (items data4 (\<lambda>i0 data5. validate151_invitations_records_item data5 (at_index (at_prop p ''records'') i0))))]))"

definition validate151_reusable_invitation :: "json \<Rightarrow> string \<Rightarrow> step" where
  "validate151_reusable_invitation data p = on_type Collect TObject p ''#/oneOf/2/type'' data
    (required Collect [''kind'', ''channel'', ''link'', ''id'', ''localOnly''] p ''#/oneOf/2/required'' data
    (properties [
      on_prop data ''channel'' (\<lambda>v. check_type Collect [TString] (at_prop p ''channel'') ''#/oneOf/2/properties/channel/type'' v),
      on_prop data ''expires'' (\<lambda>data13. then_valid (check_type Collect [TInteger, TNull] (at_prop p ''expires'') ''#/oneOf/2/properties/expires/type'' data13) (check_range Collect None 0 (at_prop p ''expires'') ''#/oneOf/2/properties/expires'' data13)),
      on_prop data ''id'' (\<lambda>v. check_type Collect [TString] (at_prop p ''id'') ''#/oneOf/2/properties/id/type'' v),
      on_prop data ''kind'' (\<lambda>data15. seq (check_type Collect [TString] (at_prop p ''kind'') ''#/oneOf/2/properties/kind/type'' data15) (check_const Collect ''reusable_invitation'' (at_prop p ''kind'') ''#/oneOf/2/properties/kind/const'' data15)),
      on_prop data ''limit'' (\<lambda>data16. then_valid (check_type Collect [TInteger, TNull] (at_prop p ''limit'') ''#/oneOf/2/properties/limit/type'' data16) (check_range Collect None 0 (at_prop p ''limit'') ''#/oneOf/2/properties/limit'' data16)),
      on_prop data ''link'' (\<lambda>v. check_type Collect [TString] (at_prop p ''link'') ''#/oneOf/2/properties/link/type'' v),
      on_prop data ''localOnly'' (\<lambda>v. check_type Collect [TBoolean] (at_prop p ''localOnly'') ''#/oneOf/2/properties/localOnly/type'' v)]))"

definition validate151_enrollment :: "json \<Rightarrow> string \<Rightarrow> step" where
  "validate151_enrollment data p = on_type Collect TObject p ''#/oneOf/3/type'' data
    (required Collect [''kind'', ''id'', ''channel'', ''phase'', ''attempts''] p ''#/oneOf/3/required'' data
    (properties [
      on_prop data ''attempts'' (\<lambda>data19. then_valid (check_type Collect [TInteger] (at_prop p ''attempts'') ''#/oneOf/3/properties/attempts/type'' data19) (check_range Collect None 0 (at_prop p ''attempts'') ''#/oneOf/3/properties/attempts'' data19)),
      on_prop data ''channel'' (\<lambda>v. check_type Collect [TString] (at_prop p ''channel'') ''#/oneOf/3/properties/channel/type'' v),
      on_prop data ''id'' (\<lambda>v. check_type Collect [TString] (at_prop p ''id'') ''#/oneOf/3/properties/id/type'' v),
      on_prop data ''kind'' (\<lambda>data22. seq (check_type Collect [TString] (at_prop p ''kind'') ''#/oneOf/3/properties/kind/type'' data22) (check_const Collect ''enrollment'' (at_prop p ''kind'') ''#/oneOf/3/properties/kind/const'' data22)),
      on_prop data ''message'' (\<lambda>data23. check_type Collect [TString, TNull] (at_prop p ''message'') ''#/oneOf/3/properties/message/type'' data23),
      on_prop data ''phase'' (\<lambda>v. check_type Collect [TString] (at_prop p ''phase'') ''#/oneOf/3/properties/phase/type'' v)]))"

definition validate151_enrollments :: "validator \<Rightarrow> json \<Rightarrow> string \<Rightarrow> step" where
  "validate151_enrollments recur data p = on_type Collect TObject p ''#/oneOf/4/type'' data
    (required Collect [''kind'', ''entries''] p ''#/oneOf/4/required'' data
    (properties [
      on_prop data ''entries'' (\<lambda>data25. on_type Collect TArray (at_prop p ''entries'') ''#/oneOf/4/properties/entries/type'' data25
    (items data25 (\<lambda>i1 item. call recur item (at_index (at_prop p ''entries'') i1)))),
      on_prop data ''kind'' (\<lambda>data27. seq (check_type Collect [TString] (at_prop p ''kind'') ''#/oneOf/4/properties/kind/type'' data27) (check_const Collect ''enrollments'' (at_prop p ''kind'') ''#/oneOf/4/properties/kind/const'' data27))]))"

lemma validate151_enrollments_cong [fundef_cong]:
  "data = data' \<Longrightarrow> p = p' \<Longrightarrow> (\<And>x q. size x < size data' \<Longrightarrow> v x q = v' x q) \<Longrightarrow>
   validate151_enrollments v data p = validate151_enrollments v' data' p'"
  by (simp add: validate151_enrollments_def on_prop_items_cong[of data' v v'])

definition validate151_help_commands_item :: "json \<Rightarrow> string \<Rightarrow> step" where
  "validate151_help_commands_item data p = on_type Collect TObject p ''#/$defs/CommandSpec/type'' data
    (required Collect [''name'', ''usage'', ''description'', ''scope'', ''available''] p ''#/$defs/CommandSpec/required'' data
    (properties [
      on_prop data ''available'' (\<lambda>v. check_type Collect [TBoolean] (at_prop p ''available'') ''#/$defs/CommandSpec/properties/available/type'' v),
      on_prop data ''capability'' (\<lambda>data31. check_type Collect [TString, TNull] (at_prop p ''capability'') ''#/$defs/CommandSpec/properties/capability/type'' data31),
      on_prop data ''description'' (\<lambda>v. check_type Collect [TString] (at_prop p ''description'') ''#/$defs/CommandSpec/properties/description/type'' v),
      on_prop data ''name'' (\<lambda>v. check_type Collect [TString] (at_prop p ''name'') ''#/$defs/CommandSpec/properties/name/type'' v),
      on_prop data ''scope'' (\<lambda>v. check_type Collect [TString] (at_prop p ''scope'') ''#/$defs/CommandSpec/properties/scope/type'' v),
      on_prop data ''usage'' (\<lambda>v. check_type Collect [TString] (at_prop p ''usage'') ''#/$defs/CommandSpec/properties/usage/type'' v)]))"

definition validate151_help :: "json \<Rightarrow> string \<Rightarrow> step" where
  "validate151_help data p = on_type Collect TObject p ''#/oneOf/5/type'' data
    (required Collect [''kind'', ''commands''] p ''#/oneOf/5/required'' data
    (properties [
      on_prop data ''commands'' (\<lambda>data28. on_type Collect TArray (at_prop p ''commands'') ''#/oneOf/5/properties/commands/type'' data28
    (items data28 (\<lambda>i2 data29. validate151_help_commands_item data29 (at_index (at_prop p ''commands'') i2)))),
      on_prop data ''kind'' (\<lambda>data36. seq (check_type Collect [TString] (at_prop p ''kind'') ''#/oneOf/5/properties/kind/type'' data36) (check_const Collect ''help'' (at_prop p ''kind'') ''#/oneOf/5/properties/kind/const'' data36))]))"

definition validate151_directory_channels_item :: "json \<Rightarrow> string \<Rightarrow> step" where
  "validate151_directory_channels_item data p = on_type Collect TObject p ''#/$defs/DirectoryEntry/type'' data
    (required Collect [''name'', ''joined''] p ''#/$defs/DirectoryEntry/required'' data
    (properties [
      on_prop data ''conversation'' (\<lambda>data39. check_type Collect [TString, TNull] (at_prop p ''conversation'') ''#/$defs/DirectoryEntry/properties/conversation/type'' data39),
      on_prop data ''joined'' (\<lambda>v. check_type Collect [TBoolean] (at_prop p ''joined'') ''#/$defs/DirectoryEntry/properties/joined/type'' v),
      on_prop data ''name'' (\<lambda>v. check_type Collect [TString] (at_prop p ''name'') ''#/$defs/DirectoryEntry/properties/name/type'' v)]))"

definition validate151_directory :: "json \<Rightarrow> string \<Rightarrow> step" where
  "validate151_directory data p = on_type Collect TObject p ''#/oneOf/6/type'' data
    (required Collect [''kind'', ''channels''] p ''#/oneOf/6/required'' data
    (properties [
      on_prop data ''channels'' (\<lambda>data37. on_type Collect TArray (at_prop p ''channels'') ''#/oneOf/6/properties/channels/type'' data37
    (items data37 (\<lambda>i3 data38. validate151_directory_channels_item data38 (at_index (at_prop p ''channels'') i3)))),
      on_prop data ''kind'' (\<lambda>data42. seq (check_type Collect [TString] (at_prop p ''kind'') ''#/oneOf/6/properties/kind/type'' data42) (check_const Collect ''directory'' (at_prop p ''kind'') ''#/oneOf/6/properties/kind/const'' data42))]))"

definition validate151_invitation :: "json \<Rightarrow> string \<Rightarrow> step" where
  "validate151_invitation data p = on_type Collect TObject p ''#/oneOf/7/type'' data
    (required Collect [''kind'', ''channel'', ''link'', ''expires''] p ''#/oneOf/7/required'' data
    (properties [
      on_prop data ''channel'' (\<lambda>v. check_type Collect [TString] (at_prop p ''channel'') ''#/oneOf/7/properties/channel/type'' v),
      on_prop data ''expires'' (\<lambda>data44. then_valid (check_type Collect [TInteger] (at_prop p ''expires'') ''#/oneOf/7/properties/expires/type'' data44) (check_range Collect None 0 (at_prop p ''expires'') ''#/oneOf/7/properties/expires'' data44)),
      on_prop data ''kind'' (\<lambda>data45. seq (check_type Collect [TString] (at_prop p ''kind'') ''#/oneOf/7/properties/kind/type'' data45) (check_const Collect ''invitation'' (at_prop p ''kind'') ''#/oneOf/7/properties/kind/const'' data45)),
      on_prop data ''link'' (\<lambda>v. check_type Collect [TString] (at_prop p ''link'') ''#/oneOf/7/properties/link/type'' v),
      on_prop data ''localOnly'' (\<lambda>v. check_type Collect [TBoolean] (at_prop p ''localOnly'') ''#/oneOf/7/properties/localOnly/type'' v)]))"

definition validate151_text :: "json \<Rightarrow> string \<Rightarrow> step" where
  "validate151_text data p = on_type Collect TObject p ''#/oneOf/8/type'' data
    (required Collect [''kind'', ''title'', ''text''] p ''#/oneOf/8/required'' data
    (properties [
      on_prop data ''kind'' (\<lambda>data48. seq (check_type Collect [TString] (at_prop p ''kind'') ''#/oneOf/8/properties/kind/type'' data48) (check_const Collect ''text'' (at_prop p ''kind'') ''#/oneOf/8/properties/kind/const'' data48)),
      on_prop data ''text'' (\<lambda>v. check_type Collect [TString] (at_prop p ''text'') ''#/oneOf/8/properties/text/type'' v),
      on_prop data ''title'' (\<lambda>v. check_type Collect [TString] (at_prop p ''title'') ''#/oneOf/8/properties/title/type'' v)]))"

definition validate151_status :: "json \<Rightarrow> string \<Rightarrow> step" where
  "validate151_status data p = on_type Collect TObject p ''#/oneOf/9/type'' data
    (required Collect [''kind'', ''text''] p ''#/oneOf/9/required'' data
    (properties [
      on_prop data ''kind'' (\<lambda>data51. seq (check_type Collect [TString] (at_prop p ''kind'') ''#/oneOf/9/properties/kind/type'' data51) (check_const Collect ''status'' (at_prop p ''kind'') ''#/oneOf/9/properties/kind/const'' data51)),
      on_prop data ''text'' (\<lambda>v. check_type Collect [TString] (at_prop p ''text'') ''#/oneOf/9/properties/text/type'' v)]))"

definition validate151_close :: "json \<Rightarrow> string \<Rightarrow> step" where
  "validate151_close data p = on_type Collect TObject p ''#/oneOf/10/type'' data
    (required Collect [''kind'', ''conversation''] p ''#/oneOf/10/required'' data
    (properties [
      on_prop data ''conversation'' (\<lambda>v. check_type Collect [TString] (at_prop p ''conversation'') ''#/oneOf/10/properties/conversation/type'' v),
      on_prop data ''kind'' (\<lambda>data54. seq (check_type Collect [TString] (at_prop p ''kind'') ''#/oneOf/10/properties/kind/type'' data54) (check_const Collect ''close'' (at_prop p ''kind'') ''#/oneOf/10/properties/kind/const'' data54))]))"

definition validate151_membership_recovery_members_item :: "json \<Rightarrow> string \<Rightarrow> step" where
  "validate151_membership_recovery_members_item data p = on_type Collect TObject p ''#/$defs/RecoveryMember/type'' data
    (required Collect [''id'', ''nickname'', ''isSelf'', ''missingCommit'', ''pendingMessages''] p ''#/$defs/RecoveryMember/required'' data
    (properties [
      on_prop data ''id'' (\<lambda>v. check_type Collect [TString] (at_prop p ''id'') ''#/$defs/RecoveryMember/properties/id/type'' v),
      on_prop data ''isSelf'' (\<lambda>v. check_type Collect [TBoolean] (at_prop p ''isSelf'') ''#/$defs/RecoveryMember/properties/isSelf/type'' v),
      on_prop data ''missingCommit'' (\<lambda>v. check_type Collect [TBoolean] (at_prop p ''missingCommit'') ''#/$defs/RecoveryMember/properties/missingCommit/type'' v),
      on_prop data ''nickname'' (\<lambda>v. check_type Collect [TString] (at_prop p ''nickname'') ''#/$defs/RecoveryMember/properties/nickname/type'' v),
      on_prop data ''pendingMessages'' (\<lambda>data65. then_valid (check_type Collect [TInteger] (at_prop p ''pendingMessages'') ''#/$defs/RecoveryMember/properties/pendingMessages/type'' data65) (check_range Collect None 0 (at_prop p ''pendingMessages'') ''#/$defs/RecoveryMember/properties/pendingMessages'' data65))]))"

definition validate151_membership_recovery :: "json \<Rightarrow> string \<Rightarrow> step" where
  "validate151_membership_recovery data p = on_type Collect TObject p ''#/oneOf/11/type'' data
    (required Collect [''kind'', ''channel'', ''expected'', ''epoch'', ''pending'', ''retained_messages'', ''members''] p ''#/oneOf/11/required'' data
    (properties [
      on_prop data ''channel'' (\<lambda>v. check_type Collect [TString] (at_prop p ''channel'') ''#/oneOf/11/properties/channel/type'' v),
      on_prop data ''epoch'' (\<lambda>v. check_type Collect [TString] (at_prop p ''epoch'') ''#/oneOf/11/properties/epoch/type'' v),
      on_prop data ''expected'' (\<lambda>v. check_type Collect [TString] (at_prop p ''expected'') ''#/oneOf/11/properties/expected/type'' v),
      on_prop data ''kind'' (\<lambda>data58. seq (check_type Collect [TString] (at_prop p ''kind'') ''#/oneOf/11/properties/kind/type'' data58) (check_const Collect ''membership_recovery'' (at_prop p ''kind'') ''#/oneOf/11/properties/kind/const'' data58)),
      on_prop data ''members'' (\<lambda>data59. on_type Collect TArray (at_prop p ''members'') ''#/oneOf/11/properties/members/type'' data59
    (items data59 (\<lambda>i4 data60. validate151_membership_recovery_members_item data60 (at_index (at_prop p ''members'') i4)))),
      on_prop data ''pending'' (\<lambda>v. check_type Collect [TBoolean] (at_prop p ''pending'') ''#/oneOf/11/properties/pending/type'' v),
      on_prop data ''retained_messages'' (\<lambda>data67. then_valid (check_type Collect [TInteger] (at_prop p ''retained_messages'') ''#/oneOf/11/properties/retained_messages/type'' data67) (check_range Collect None 0 (at_prop p ''retained_messages'') ''#/oneOf/11/properties/retained_messages'' data67))]))"

function validate151 :: validator where
  "validate151 data instancePath = run_guard (one_of Return instancePath ''#/oneOf'' [
      validate151_invitation_options data instancePath,
      validate151_invitations data instancePath,
      validate151_reusable_invitation data instancePath,
      validate151_enrollment data instancePath,
      validate151_enrollments (\<lambda>x q. validate151 x q) data instancePath,
      validate151_help data instancePath,
      validate151_directory data instancePath,
      validate151_invitation data instancePath,
      validate151_text data instancePath,
      validate151_status data instancePath,
      validate151_close data instancePath,
      validate151_membership_recovery data instancePath])"
  by pat_completeness auto
termination
  by (relation "measure (size \<circ> fst)") auto

declare validate151.simps [simp del]

definition validate150_output :: "json \<Rightarrow> string \<Rightarrow> step" where
  "validate150_output data p = any_of Return p ''#/properties/output/anyOf'' [
      call validate151 data p,
      check_type Collect [TNull] p ''#/properties/output/anyOf/1/type'' data]"

definition validate150 :: validator where
  "validate150 data instancePath = run_guard (on_type Return TObject instancePath ''#/type'' data
    (required Return [''id'', ''instance'', ''action'', ''started'', ''state''] instancePath ''#/required'' data
    (properties [
      on_prop data ''action'' (\<lambda>v. check_type Return [TString] (at_prop instancePath ''action'') ''#/properties/action/type'' v),
      on_prop data ''conversation'' (\<lambda>data1. check_type Return [TString, TNull] (at_prop instancePath ''conversation'') ''#/properties/conversation/type'' data1),
      on_prop data ''id'' (\<lambda>v. check_type Return [TString] (at_prop instancePath ''id'') ''#/properties/id/type'' v),
      on_prop data ''instance'' (\<lambda>v. check_type Return [TString] (at_prop instancePath ''instance'') ''#/properties/instance/type'' v),
      on_prop data ''message'' (\<lambda>data4. check_type Return [TString, TNull] (at_prop instancePath ''message'') ''#/properties/message/type'' data4),
      on_prop data ''network'' (\<lambda>data5. check_type Return [TString, TNull] (at_prop instancePath ''network'') ''#/properties/network/type'' data5),
      on_prop data ''output'' (\<lambda>data6. validate150_output data6 (at_prop instancePath ''output'')),
      on_prop data ''started'' (\<lambda>data7. then_valid (check_type Return [TInteger] (at_prop instancePath ''started'') ''#/properties/started/type'' data7) (check_range Return None 0 (at_prop instancePath ''started'') ''#/properties/started'' data7)),
      on_prop data ''state'' (\<lambda>v. check_type Return [TString] (at_prop instancePath ''state'') ''#/properties/state/type'' v)])))"

definition validate144_activity_item :: "json \<Rightarrow> string \<Rightarrow> step" where
  "validate144_activity_item data p = on_type Return TObject p ''#/$defs/Activity/type'' data
    (required Return [''id'', ''conversation'', ''kind'', ''text'', ''timestamp''] p ''#/$defs/Activity/required'' data
    (properties [
      on_prop data ''conversation'' (\<lambda>v. check_type Return [TString] (at_prop p ''conversation'') ''#/$defs/Activity/properties/conversation/type'' v),
      on_prop data ''id'' (\<lambda>v. check_type Return [TString] (at_prop p ''id'') ''#/$defs/Activity/properties/id/type'' v),
      on_prop data ''kind'' (\<lambda>v. check_type Return [TString] (at_prop p ''kind'') ''#/$defs/Activity/properties/kind/type'' v),
      on_prop data ''text'' (\<lambda>v. check_type Return [TString] (at_prop p ''text'') ''#/$defs/Activity/properties/text/type'' v),
      on_prop data ''timestamp'' (\<lambda>data6. then_valid (check_type Return [TInteger] (at_prop p ''timestamp'') ''#/$defs/Activity/properties/timestamp/type'' data6) (check_range Return None 0 (at_prop p ''timestamp'') ''#/$defs/Activity/properties/timestamp'' data6))]))"

definition validate144_inputHistory_item :: "json \<Rightarrow> string \<Rightarrow> step" where
  "validate144_inputHistory_item data p = on_type Return TObject p ''#/$defs/InputHistoryEntry/type'' data
    (required Return [''text''] p ''#/$defs/InputHistoryEntry/required'' data
    (properties [
      on_prop data ''conversation'' (\<lambda>data13. check_type Return [TString, TNull] (at_prop p ''conversation'') ''#/$defs/InputHistoryEntry/properties/conversation/type'' data13),
      on_prop data ''text'' (\<lambda>v. check_type Return [TString] (at_prop p ''text'') ''#/$defs/InputHistoryEntry/properties/text/type'' v)]))"

definition validate144_providerErrors_item :: "json \<Rightarrow> string \<Rightarrow> step" where
  "validate144_providerErrors_item data p = on_type Return TObject p ''#/$defs/ProviderStatus/type'' data
    (required Return [''id'', ''code'', ''message'', ''retryable''] p ''#/$defs/ProviderStatus/required'' data
    (properties [
      on_prop data ''code'' (\<lambda>v. check_type Return [TString] (at_prop p ''code'') ''#/$defs/ProviderStatus/properties/code/type'' v),
      on_prop data ''id'' (\<lambda>v. check_type Return [TString] (at_prop p ''id'') ''#/$defs/ProviderStatus/properties/id/type'' v),
      on_prop data ''message'' (\<lambda>v. check_type Return [TString] (at_prop p ''message'') ''#/$defs/ProviderStatus/properties/message/type'' v),
      on_prop data ''retryable'' (\<lambda>v. check_type Return [TBoolean] (at_prop p ''retryable'') ''#/$defs/ProviderStatus/properties/retryable/type'' v)]))"

definition validate144 :: validator where
  "validate144 data instancePath = run_guard (on_type Return TObject instancePath ''#/type'' data
    (required Return [''instance'', ''revision'', ''conversations'', ''commandHistory'', ''inputHistory''] instancePath ''#/required'' data
    (properties [
      on_prop data ''activity'' (\<lambda>data0. then_valid (check_type Return [TArray, TNull] (at_prop instancePath ''activity'') ''#/properties/activity/type'' data0) (items data0 (\<lambda>i0 data1. validate144_activity_item data1 (at_index (at_prop instancePath ''activity'') i0)))),
      on_prop data ''commandHistory'' (\<lambda>data7. on_type Return TArray (at_prop instancePath ''commandHistory'') ''#/properties/commandHistory/type'' data7
    (items data7 (\<lambda>i1 item. check_type Return [TString] (at_index (at_prop instancePath ''commandHistory'') i1) ''#/properties/commandHistory/items/type'' item))),
      on_prop data ''conversations'' (\<lambda>data9. on_type Return TArray (at_prop instancePath ''conversations'') ''#/properties/conversations/type'' data9
    (items data9 (\<lambda>i2 item. call validate145 item (at_index (at_prop instancePath ''conversations'') i2)))),
      on_prop data ''inputHistory'' (\<lambda>data11. on_type Return TArray (at_prop instancePath ''inputHistory'') ''#/properties/inputHistory/type'' data11
    (items data11 (\<lambda>i3 data12. validate144_inputHistory_item data12 (at_index (at_prop instancePath ''inputHistory'') i3)))),
      on_prop data ''instance'' (\<lambda>v. call validate142 v (at_prop instancePath ''instance'')),
      on_prop data ''operations'' (\<lambda>data16. then_valid (check_type Return [TArray, TNull] (at_prop instancePath ''operations'') ''#/properties/operations/type'' data16) (items data16 (\<lambda>i4 item. call validate150 item (at_index (at_prop instancePath ''operations'') i4)))),
      on_prop data ''presenceEnabled'' (\<lambda>data18. check_type Return [TBoolean, TNull] (at_prop instancePath ''presenceEnabled'') ''#/properties/presenceEnabled/type'' data18),
      on_prop data ''providerErrors'' (\<lambda>data19. on_type Return TArray (at_prop instancePath ''providerErrors'') ''#/properties/providerErrors/type'' data19
    (items data19 (\<lambda>i5 data20. validate144_providerErrors_item data20 (at_index (at_prop instancePath ''providerErrors'') i5)))),
      on_prop data ''revision'' (\<lambda>v. check_type Return [TString] (at_prop instancePath ''revision'') ''#/properties/revision/type'' v)])))"

definition validate157_artifacts_item :: "json \<Rightarrow> string \<Rightarrow> step" where
  "validate157_artifacts_item data p = on_type Return TObject p ''#/$defs/Artifact/type'' data
    (required Return [''name'', ''url''] p ''#/$defs/Artifact/required'' data
    (properties [
      on_prop data ''name'' (\<lambda>v. check_type Return [TString] (at_prop p ''name'') ''#/$defs/Artifact/properties/name/type'' v),
      on_prop data ''url'' (\<lambda>v. check_type Return [TString] (at_prop p ''url'') ''#/$defs/Artifact/properties/url/type'' v)]))"

definition validate157 :: validator where
  "validate157 data instancePath = run_guard (on_type Return TObject instancePath ''#/type'' data
    (required Return [''id'', ''state'', ''stderr'', ''details'', ''artifacts''] instancePath ''#/required'' data
    (properties [
      on_prop data ''artifacts'' (\<lambda>data0. on_type Return TArray (at_prop instancePath ''artifacts'') ''#/properties/artifacts/type'' data0
    (items data0 (\<lambda>i0 data1. validate157_artifacts_item data1 (at_index (at_prop instancePath ''artifacts'') i0)))),
      on_prop data ''details'' (\<lambda>data4. on_type Return TArray (at_prop instancePath ''details'') ''#/properties/details/type'' data4
    (items data4 (\<lambda>i1 item. check_type Return [TString] (at_index (at_prop instancePath ''details'') i1) ''#/properties/details/items/type'' item))),
      on_prop data ''id'' (\<lambda>v. check_type Return [TString] (at_prop instancePath ''id'') ''#/properties/id/type'' v),
      on_prop data ''messageId'' (\<lambda>data7. check_type Return [TString, TNull] (at_prop instancePath ''messageId'') ''#/properties/messageId/type'' data7),
      on_prop data ''outputBase64'' (\<lambda>data8. check_type Return [TString, TNull] (at_prop instancePath ''outputBase64'') ''#/properties/outputBase64/type'' data8),
      on_prop data ''state'' (\<lambda>v. check_type Return [TString] (at_prop instancePath ''state'') ''#/properties/state/type'' v),
      on_prop data ''stderr'' (\<lambda>v. check_type Return [TBoolean] (at_prop instancePath ''stderr'') ''#/properties/stderr/type'' v)])))"

definition validate156_delivery :: "json \<Rightarrow> string \<Rightarrow> step" where
  "validate156_delivery data p = any_of Return p ''#/properties/delivery/anyOf'' [
      seq (check_type Collect [TString] p ''#/$defs/Delivery/type'' data) (check_enum Collect [''local_accepted'', ''delivered'', ''service_accepted'', ''failed''] p ''#/$defs/Delivery/enum'' data),
      check_type Collect [TNull] p ''#/properties/delivery/anyOf/1/type'' data]"

definition validate156_messageKind :: "json \<Rightarrow> string \<Rightarrow> step" where
  "validate156_messageKind data p = any_of Return p ''#/properties/messageKind/anyOf'' [
      seq (check_type Collect [TString] p ''#/$defs/MessageKind/type'' data) (check_enum Collect [''text'', ''action'', ''notice''] p ''#/$defs/MessageKind/enum'' data),
      check_type Collect [TNull] p ''#/properties/messageKind/anyOf/1/type'' data]"

definition validate156_result :: "json \<Rightarrow> string \<Rightarrow> step" where
  "validate156_result data p = any_of Return p ''#/properties/result/anyOf'' [
      call validate157 data p,
      check_type Collect [TNull] p ''#/properties/result/anyOf/1/type'' data]"

definition validate156 :: validator where
  "validate156 data instancePath = run_guard (on_type Return TObject instancePath ''#/type'' data
    (required Return [''id'', ''conversationId'', ''nickname'', ''body'', ''timestamp'', ''mine''] instancePath ''#/required'' data
    (properties [
      on_prop data ''body'' (\<lambda>v. check_type Return [TString] (at_prop instancePath ''body'') ''#/properties/body/type'' v),
      on_prop data ''conversationId'' (\<lambda>v. check_type Return [TString] (at_prop instancePath ''conversationId'') ''#/properties/conversationId/type'' v),
      on_prop data ''delivery'' (\<lambda>data2. validate156_delivery data2 (at_prop instancePath ''delivery'')),
      on_prop data ''highlighted'' (\<lambda>data3. check_type Return [TBoolean, TNull] (at_prop instancePath ''highlighted'') ''#/properties/highlighted/type'' data3),
      on_prop data ''id'' (\<lambda>v. check_type Return [TString] (at_prop instancePath ''id'') ''#/properties/id/type'' v),
      on_prop data ''memberId'' (\<lambda>data5. check_type Return [TString, TNull] (at_prop instancePath ''memberId'') ''#/properties/memberId/type'' data5),
      on_prop data ''messageKind'' (\<lambda>data6. validate156_messageKind data6 (at_prop instancePath ''messageKind'')),
      on_prop data ''mine'' (\<lambda>v. check_type Return [TBoolean] (at_prop instancePath ''mine'') ''#/properties/mine/type'' v),
      on_prop data ''nickname'' (\<lambda>v. check_type Return [TString] (at_prop instancePath ''nickname'') ''#/properties/nickname/type'' v),
      on_prop data ''operationId'' (\<lambda>data9. check_type Return [TString, TNull] (at_prop instancePath ''operationId'') ''#/properties/operationId/type'' data9),
      on_prop data ''result'' (\<lambda>data10. validate156_result data10 (at_prop instancePath ''result'')),
      on_prop data ''timestamp'' (\<lambda>data11. then_valid (check_type Return [TInteger] (at_prop instancePath ''timestamp'') ''#/properties/timestamp/type'' data11) (check_range Return None 0 (at_prop instancePath ''timestamp'') ''#/properties/timestamp'' data11))])))"

definition validate155 :: validator where
  "validate155 data instancePath = run_guard (on_type Return TObject instancePath ''#/type'' data
    (required Return [''messages''] instancePath ''#/required'' data
    (properties [
      on_prop data ''before'' (\<lambda>data0. check_type Return [TString, TNull] (at_prop instancePath ''before'') ''#/properties/before/type'' data0),
      on_prop data ''messages'' (\<lambda>data1. on_type Return TArray (at_prop instancePath ''messages'') ''#/properties/messages/type'' data1
    (items data1 (\<lambda>i0 item. call validate156 item (at_index (at_prop instancePath ''messages'') i0))))])))"

definition validate136_update_result_attached :: "json \<Rightarrow> string \<Rightarrow> step" where
  "validate136_update_result_attached data p = on_type Collect TObject p ''#/$defs/PrepareUpdateResult/oneOf/0/type'' data
    (required Collect [''state''] p ''#/$defs/PrepareUpdateResult/oneOf/0/required'' data
    (properties [
      on_prop data ''state'' (\<lambda>data2. seq (check_type Collect [TString] (at_prop p ''state'') ''#/$defs/PrepareUpdateResult/oneOf/0/properties/state/type'' data2) (check_const Collect ''attached'' (at_prop p ''state'') ''#/$defs/PrepareUpdateResult/oneOf/0/properties/state/const'' data2))]))"

definition validate136_update_result_ready :: "json \<Rightarrow> string \<Rightarrow> step" where
  "validate136_update_result_ready data p = on_type Collect TObject p ''#/$defs/PrepareUpdateResult/oneOf/1/type'' data
    (required Collect [''state'', ''process_id'', ''boot_id''] p ''#/$defs/PrepareUpdateResult/oneOf/1/required'' data
    (properties [
      on_prop data ''boot_id'' (\<lambda>v. check_type Collect [TString] (at_prop p ''boot_id'') ''#/$defs/PrepareUpdateResult/oneOf/1/properties/boot_id/type'' v),
      on_prop data ''process_id'' (\<lambda>data4. then_valid (check_type Collect [TInteger] (at_prop p ''process_id'') ''#/$defs/PrepareUpdateResult/oneOf/1/properties/process_id/type'' data4) (check_range Collect None 0 (at_prop p ''process_id'') ''#/$defs/PrepareUpdateResult/oneOf/1/properties/process_id'' data4)),
      on_prop data ''state'' (\<lambda>data5. seq (check_type Collect [TString] (at_prop p ''state'') ''#/$defs/PrepareUpdateResult/oneOf/1/properties/state/type'' data5) (check_const Collect ''ready'' (at_prop p ''state'') ''#/$defs/PrepareUpdateResult/oneOf/1/properties/state/const'' data5))]))"

definition validate136_update_result_busy :: "json \<Rightarrow> string \<Rightarrow> step" where
  "validate136_update_result_busy data p = on_type Collect TObject p ''#/$defs/PrepareUpdateResult/oneOf/2/type'' data
    (required Collect [''state'', ''reason''] p ''#/$defs/PrepareUpdateResult/oneOf/2/required'' data
    (properties [
      on_prop data ''reason'' (\<lambda>v. check_type Collect [TString] (at_prop p ''reason'') ''#/$defs/PrepareUpdateResult/oneOf/2/properties/reason/type'' v),
      on_prop data ''state'' (\<lambda>data7. seq (check_type Collect [TString] (at_prop p ''state'') ''#/$defs/PrepareUpdateResult/oneOf/2/properties/state/type'' data7) (check_const Collect ''busy'' (at_prop p ''state'') ''#/$defs/PrepareUpdateResult/oneOf/2/properties/state/const'' data7))]))"

definition validate136_update_result :: "json \<Rightarrow> string \<Rightarrow> step" where
  "validate136_update_result data p = one_of Collect p ''#/$defs/PrepareUpdateResult/oneOf'' [
      validate136_update_result_attached data p,
      validate136_update_result_ready data p,
      validate136_update_result_busy data p]"

definition validate136_update :: "json \<Rightarrow> string \<Rightarrow> step" where
  "validate136_update data p = on_type Collect TObject p ''#/oneOf/0/type'' data
    (required Collect [''kind'', ''result''] p ''#/oneOf/0/required'' data
    (properties [
      on_prop data ''kind'' (\<lambda>data0. seq (check_type Collect [TString] (at_prop p ''kind'') ''#/oneOf/0/properties/kind/type'' data0) (check_const Collect ''update'' (at_prop p ''kind'') ''#/oneOf/0/properties/kind/const'' data0)),
      on_prop data ''result'' (\<lambda>data1. validate136_update_result data1 (at_prop p ''result''))]))"

definition validate136_networks :: "validator \<Rightarrow> json \<Rightarrow> string \<Rightarrow> step" where
  "validate136_networks recur data p = on_type Collect TObject p ''#/oneOf/1/type'' data
    (required Collect [''kind'', ''response''] p ''#/oneOf/1/required'' data
    (properties [
      on_prop data ''kind'' (\<lambda>data8. seq (check_type Collect [TString] (at_prop p ''kind'') ''#/oneOf/1/properties/kind/type'' data8) (check_const Collect ''networks'' (at_prop p ''kind'') ''#/oneOf/1/properties/kind/const'' data8)),
      on_prop data ''response'' (\<lambda>v. call recur v (at_prop p ''response''))]))"

lemma validate136_networks_cong [fundef_cong]:
  "data = data' \<Longrightarrow> p = p' \<Longrightarrow> (\<And>x q. size x < size data' \<Longrightarrow> v x q = v' x q) \<Longrightarrow>
   validate136_networks v data p = validate136_networks v' data' p'"
  by (simp add: validate136_networks_def on_prop_call_cong[of data' v v'])

definition validate136_files :: "json \<Rightarrow> string \<Rightarrow> step" where
  "validate136_files data p = on_type Collect TObject p ''#/oneOf/2/type'' data
    (required Collect [''kind'', ''snapshot''] p ''#/oneOf/2/required'' data
    (properties [
      on_prop data ''kind'' (\<lambda>data10. seq (check_type Collect [TString] (at_prop p ''kind'') ''#/oneOf/2/properties/kind/type'' data10) (check_const Collect ''files'' (at_prop p ''kind'') ''#/oneOf/2/properties/kind/const'' data10)),
      on_prop data ''snapshot'' (\<lambda>v. call validate137 v (at_prop p ''snapshot''))]))"

definition validate136_network_status :: "json \<Rightarrow> string \<Rightarrow> step" where
  "validate136_network_status data p = on_type Collect TObject p ''#/oneOf/3/type'' data
    (required Collect [''kind'', ''status''] p ''#/oneOf/3/required'' data
    (properties [
      on_prop data ''kind'' (\<lambda>data12. seq (check_type Collect [TString] (at_prop p ''kind'') ''#/oneOf/3/properties/kind/type'' data12) (check_const Collect ''network_status'' (at_prop p ''kind'') ''#/oneOf/3/properties/kind/const'' data12)),
      on_prop data ''status'' (\<lambda>v. call validate130 v (at_prop p ''status''))]))"

definition validate136_instance :: "json \<Rightarrow> string \<Rightarrow> step" where
  "validate136_instance data p = on_type Collect TObject p ''#/oneOf/4/type'' data
    (required Collect [''kind'', ''instance''] p ''#/oneOf/4/required'' data
    (properties [
      on_prop data ''instance'' (\<lambda>v. call validate142 v (at_prop p ''instance'')),
      on_prop data ''kind'' (\<lambda>data15. seq (check_type Collect [TString] (at_prop p ''kind'') ''#/oneOf/4/properties/kind/type'' data15) (check_const Collect ''instance'' (at_prop p ''kind'') ''#/oneOf/4/properties/kind/const'' data15))]))"

definition validate136_snapshot :: "json \<Rightarrow> string \<Rightarrow> step" where
  "validate136_snapshot data p = on_type Collect TObject p ''#/oneOf/5/type'' data
    (required Collect [''kind'', ''snapshot''] p ''#/oneOf/5/required'' data
    (properties [
      on_prop data ''kind'' (\<lambda>data16. seq (check_type Collect [TString] (at_prop p ''kind'') ''#/oneOf/5/properties/kind/type'' data16) (check_const Collect ''snapshot'' (at_prop p ''kind'') ''#/oneOf/5/properties/kind/const'' data16)),
      on_prop data ''snapshot'' (\<lambda>v. call validate144 v (at_prop p ''snapshot''))]))"

definition validate136_history :: "json \<Rightarrow> string \<Rightarrow> step" where
  "validate136_history data p = on_type Collect TObject p ''#/oneOf/6/type'' data
    (required Collect [''kind'', ''page''] p ''#/oneOf/6/required'' data
    (properties [
      on_prop data ''kind'' (\<lambda>data18. seq (check_type Collect [TString] (at_prop p ''kind'') ''#/oneOf/6/properties/kind/type'' data18) (check_const Collect ''history'' (at_prop p ''kind'') ''#/oneOf/6/properties/kind/const'' data18)),
      on_prop data ''page'' (\<lambda>v. call validate155 v (at_prop p ''page''))]))"

definition validate136_completed_items_item :: "json \<Rightarrow> string \<Rightarrow> step" where
  "validate136_completed_items_item data p = on_type Collect TObject p ''#/$defs/Completion/type'' data
    (required Collect [''text'', ''description''] p ''#/$defs/Completion/required'' data
    (properties [
      on_prop data ''description'' (\<lambda>v. check_type Collect [TString] (at_prop p ''description'') ''#/$defs/Completion/properties/description/type'' v),
      on_prop data ''text'' (\<lambda>v. check_type Collect [TString] (at_prop p ''text'') ''#/$defs/Completion/properties/text/type'' v)]))"

definition validate136_completed :: "json \<Rightarrow> string \<Rightarrow> step" where
  "validate136_completed data p = on_type Collect TObject p ''#/oneOf/7/type'' data
    (required Collect [''kind'', ''items''] p ''#/oneOf/7/required'' data
    (properties [
      on_prop data ''items'' (\<lambda>data20. on_type Collect TArray (at_prop p ''items'') ''#/oneOf/7/properties/items/type'' data20
    (items data20 (\<lambda>i0 data21. validate136_completed_items_item data21 (at_index (at_prop p ''items'') i0)))),
      on_prop data ''kind'' (\<lambda>data24. seq (check_type Collect [TString] (at_prop p ''kind'') ''#/oneOf/7/properties/kind/type'' data24) (check_const Collect ''completed'' (at_prop p ''kind'') ''#/oneOf/7/properties/kind/const'' data24))]))"

definition validate136_catalogue_commands_item :: "json \<Rightarrow> string \<Rightarrow> step" where
  "validate136_catalogue_commands_item data p = on_type Collect TObject p ''#/$defs/CommandSpec/type'' data
    (required Collect [''name'', ''usage'', ''description'', ''scope'', ''available''] p ''#/$defs/CommandSpec/required'' data
    (properties [
      on_prop data ''available'' (\<lambda>v. check_type Collect [TBoolean] (at_prop p ''available'') ''#/$defs/CommandSpec/properties/available/type'' v),
      on_prop data ''capability'' (\<lambda>data28. check_type Collect [TString, TNull] (at_prop p ''capability'') ''#/$defs/CommandSpec/properties/capability/type'' data28),
      on_prop data ''description'' (\<lambda>v. check_type Collect [TString] (at_prop p ''description'') ''#/$defs/CommandSpec/properties/description/type'' v),
      on_prop data ''name'' (\<lambda>v. check_type Collect [TString] (at_prop p ''name'') ''#/$defs/CommandSpec/properties/name/type'' v),
      on_prop data ''scope'' (\<lambda>v. check_type Collect [TString] (at_prop p ''scope'') ''#/$defs/CommandSpec/properties/scope/type'' v),
      on_prop data ''usage'' (\<lambda>v. check_type Collect [TString] (at_prop p ''usage'') ''#/$defs/CommandSpec/properties/usage/type'' v)]))"

definition validate136_catalogue :: "json \<Rightarrow> string \<Rightarrow> step" where
  "validate136_catalogue data p = on_type Collect TObject p ''#/oneOf/8/type'' data
    (required Collect [''kind'', ''commands''] p ''#/oneOf/8/required'' data
    (properties [
      on_prop data ''commands'' (\<lambda>data25. on_type Collect TArray (at_prop p ''commands'') ''#/oneOf/8/properties/commands/type'' data25
    (items data25 (\<lambda>i1 data26. validate136_catalogue_commands_item data26 (at_index (at_prop p ''commands'') i1)))),
      on_prop data ''kind'' (\<lambda>data33. seq (check_type Collect [TString] (at_prop p ''kind'') ''#/oneOf/8/properties/kind/type'' data33) (check_const Collect ''catalogue'' (at_prop p ''kind'') ''#/oneOf/8/properties/kind/const'' data33))]))"

definition validate136_projection :: "json \<Rightarrow> string \<Rightarrow> step" where
  "validate136_projection data p = on_type Collect TObject p ''#/oneOf/9/type'' data
    (required Collect [''kind'', ''conversations'', ''revision''] p ''#/oneOf/9/required'' data
    (properties [
      on_prop data ''conversations'' (\<lambda>data34. on_type Collect TArray (at_prop p ''conversations'') ''#/oneOf/9/properties/conversations/type'' data34
    (items data34 (\<lambda>i2 item. call validate145 item (at_index (at_prop p ''conversations'') i2)))),
      on_prop data ''kind'' (\<lambda>data36. seq (check_type Collect [TString] (at_prop p ''kind'') ''#/oneOf/9/properties/kind/type'' data36) (check_const Collect ''projection'' (at_prop p ''kind'') ''#/oneOf/9/properties/kind/const'' data36)),
      on_prop data ''revision'' (\<lambda>v. check_type Collect [TString] (at_prop p ''revision'') ''#/oneOf/9/properties/revision/type'' v)]))"

definition validate136_output :: "json \<Rightarrow> string \<Rightarrow> step" where
  "validate136_output data p = on_type Collect TObject p ''#/oneOf/10/type'' data
    (required Collect [''kind'', ''output''] p ''#/oneOf/10/required'' data
    (properties [
      on_prop data ''conversation'' (\<lambda>data38. check_type Collect [TString, TNull] (at_prop p ''conversation'') ''#/oneOf/10/properties/conversation/type'' data38),
      on_prop data ''kind'' (\<lambda>data39. seq (check_type Collect [TString] (at_prop p ''kind'') ''#/oneOf/10/properties/kind/type'' data39) (check_const Collect ''output'' (at_prop p ''kind'') ''#/oneOf/10/properties/kind/const'' data39)),
      on_prop data ''output'' (\<lambda>v. call validate151 v (at_prop p ''output''))]))"

definition validate136_applied :: "json \<Rightarrow> string \<Rightarrow> step" where
  "validate136_applied data p = on_type Collect TObject p ''#/oneOf/11/type'' data
    (required Collect [''kind''] p ''#/oneOf/11/required'' data
    (properties [
      on_prop data ''conversation'' (\<lambda>data41. check_type Collect [TString, TNull] (at_prop p ''conversation'') ''#/oneOf/11/properties/conversation/type'' data41),
      on_prop data ''kind'' (\<lambda>data42. seq (check_type Collect [TString] (at_prop p ''kind'') ''#/oneOf/11/properties/kind/type'' data42) (check_const Collect ''applied'' (at_prop p ''kind'') ''#/oneOf/11/properties/kind/const'' data42)),
      on_prop data ''notice'' (\<lambda>data43. check_type Collect [TString, TNull] (at_prop p ''notice'') ''#/oneOf/11/properties/notice/type'' data43)]))"

definition validate136_changed :: "json \<Rightarrow> string \<Rightarrow> step" where
  "validate136_changed data p = on_type Collect TObject p ''#/oneOf/12/type'' data
    (required Collect [''kind'', ''revision''] p ''#/oneOf/12/required'' data
    (properties [
      on_prop data ''kind'' (\<lambda>data44. seq (check_type Collect [TString] (at_prop p ''kind'') ''#/oneOf/12/properties/kind/type'' data44) (check_const Collect ''changed'' (at_prop p ''kind'') ''#/oneOf/12/properties/kind/const'' data44)),
      on_prop data ''revision'' (\<lambda>v. check_type Collect [TString] (at_prop p ''revision'') ''#/oneOf/12/properties/revision/type'' v)]))"

definition validate136_error :: "json \<Rightarrow> string \<Rightarrow> step" where
  "validate136_error data p = on_type Collect TObject p ''#/oneOf/13/type'' data
    (required Collect [''kind'', ''code'', ''message''] p ''#/oneOf/13/required'' data
    (properties [
      on_prop data ''code'' (\<lambda>v. check_type Collect [TString] (at_prop p ''code'') ''#/oneOf/13/properties/code/type'' v),
      on_prop data ''kind'' (\<lambda>data47. seq (check_type Collect [TString] (at_prop p ''kind'') ''#/oneOf/13/properties/kind/type'' data47) (check_const Collect ''error'' (at_prop p ''kind'') ''#/oneOf/13/properties/kind/const'' data47)),
      on_prop data ''message'' (\<lambda>v. check_type Collect [TString] (at_prop p ''message'') ''#/oneOf/13/properties/message/type'' v)]))"

definition validate128_list :: "json \<Rightarrow> string \<Rightarrow> step" where
  "validate128_list data p = on_type Collect TObject p ''#/oneOf/0/type'' data
    (required Collect [''kind'', ''networks''] p ''#/oneOf/0/required'' data
    (properties [
      on_prop data ''kind'' (\<lambda>data0. seq (check_type Collect [TString] (at_prop p ''kind'') ''#/oneOf/0/properties/kind/type'' data0) (check_const Collect ''list'' (at_prop p ''kind'') ''#/oneOf/0/properties/kind/const'' data0)),
      on_prop data ''networks'' (\<lambda>data1. on_type Collect TArray (at_prop p ''networks'') ''#/oneOf/0/properties/networks/type'' data1
    (items data1 (\<lambda>i0 item. call validate129 item (at_index (at_prop p ''networks'') i0))))]))"

definition validate128_preview :: "json \<Rightarrow> string \<Rightarrow> step" where
  "validate128_preview data p = on_type Collect TObject p ''#/oneOf/1/type'' data
    (required Collect [''kind'', ''preview''] p ''#/oneOf/1/required'' data
    (properties [
      on_prop data ''kind'' (\<lambda>data3. seq (check_type Collect [TString] (at_prop p ''kind'') ''#/oneOf/1/properties/kind/type'' data3) (check_const Collect ''preview'' (at_prop p ''kind'') ''#/oneOf/1/properties/kind/const'' data3)),
      on_prop data ''preview'' (\<lambda>v. call validate133 v (at_prop p ''preview''))]))"

definition validate128_result :: "validator \<Rightarrow> json \<Rightarrow> string \<Rightarrow> step" where
  "validate128_result recur data p = on_type Collect TObject p ''#/oneOf/2/type'' data
    (required Collect [''kind'', ''network'', ''response''] p ''#/oneOf/2/required'' data
    (properties [
      on_prop data ''kind'' (\<lambda>data5. seq (check_type Collect [TString] (at_prop p ''kind'') ''#/oneOf/2/properties/kind/type'' data5) (check_const Collect ''result'' (at_prop p ''kind'') ''#/oneOf/2/properties/kind/const'' data5)),
      on_prop data ''network'' (\<lambda>v. check_type Collect [TString] (at_prop p ''network'') ''#/oneOf/2/properties/network/type'' v),
      on_prop data ''response'' (\<lambda>v. call recur v (at_prop p ''response''))]))"

lemma validate128_result_cong [fundef_cong]:
  "data = data' \<Longrightarrow> p = p' \<Longrightarrow> (\<And>x q. size x < size data' \<Longrightarrow> v x q = v' x q) \<Longrightarrow>
   validate128_result v data p = validate128_result v' data' p'"
  by (simp add: validate128_result_def on_prop_call_cong[of data' v v'])

function validate136 :: validator and validate128 :: validator where
  "validate136 data instancePath = run_guard (one_of Return instancePath ''#/oneOf'' [
      validate136_update data instancePath,
      validate136_networks (\<lambda>x q. validate128 x q) data instancePath,
      validate136_files data instancePath,
      validate136_network_status data instancePath,
      validate136_instance data instancePath,
      validate136_snapshot data instancePath,
      validate136_history data instancePath,
      validate136_completed data instancePath,
      validate136_catalogue data instancePath,
      validate136_projection data instancePath,
      validate136_output data instancePath,
      validate136_applied data instancePath,
      validate136_changed data instancePath,
      validate136_error data instancePath])"
| "validate128 data instancePath = run_guard (one_of Return instancePath ''#/oneOf'' [
      validate128_list data instancePath,
      validate128_preview data instancePath,
      validate128_result (\<lambda>x q. validate136 x q) data instancePath])"
  by pat_completeness auto
termination
  by (relation "measure (case_sum (size \<circ> fst) (size \<circ> fst))") auto

declare validate136.simps [simp del] validate128.simps [simp del]

section \<open>Each guard implements its schema\<close>

context request_document
begin

lemma checks_validate125_enrollment [guard_parts]: "checks Collect p (validate125_enrollment data p) (conforms \<rho> schema49_enrollment data)"
  unfolding validate125_enrollment_def schema49_enrollment_def by (intro conform_laws guard_parts; simp)

lemma checks_validate125_update_request_heartbeat [guard_parts]: "checks Collect p (validate125_update_request_heartbeat data p) (conforms \<rho> schema50_heartbeat data)"
  unfolding validate125_update_request_heartbeat_def schema50_heartbeat_def by (intro conform_laws guard_parts; simp)

lemma checks_validate125_update_request_detach [guard_parts]: "checks Collect p (validate125_update_request_detach data p) (conforms \<rho> schema50_detach data)"
  unfolding validate125_update_request_detach_def schema50_detach_def by (intro conform_laws guard_parts; simp)

lemma checks_validate125_update_request_prepare [guard_parts]: "checks Collect p (validate125_update_request_prepare data p) (conforms \<rho> schema50_prepare data)"
  unfolding validate125_update_request_prepare_def schema50_prepare_def by (intro conform_laws guard_parts; simp)

lemma checks_validate125_update_request_abort [guard_parts]: "checks Collect p (validate125_update_request_abort data p) (conforms \<rho> schema50_abort data)"
  unfolding validate125_update_request_abort_def schema50_abort_def by (intro conform_laws guard_parts; simp)

lemma checks_validate125_update_request_exit [guard_parts]: "checks Collect p (validate125_update_request_exit data p) (conforms \<rho> schema50_exit data)"
  unfolding validate125_update_request_exit_def schema50_exit_def by (intro conform_laws guard_parts; simp)

lemma checks_validate125_update_request [guard_parts]: "checks Collect p (validate125_update_request data p) (conforms \<rho> schema50 data)"
  unfolding validate125_update_request_def schema50_def by (intro conform_laws guard_parts; simp)

lemma checks_validate125_update [guard_parts]: "checks Collect p (validate125_update data p) (conforms \<rho> schema49_update data)"
  unfolding validate125_update_def schema49_update_def by (intro conform_laws guard_parts; simp)

lemma checks_validate125_networks:
  assumes "\<And>x. size x < size data \<Longrightarrow> validates v (\<rho> ''NetworkRequest'') x"
  shows "checks Collect p (validate125_networks v data p) (conforms \<rho> schema49_networks data)"
  unfolding validate125_networks_def schema49_networks_def
  by (intro conform_laws guard_parts checks_call_inside[where d = data and v = v and \<rho> = \<rho> and r = "''NetworkRequest''", OF assms]; (assumption | simp))

lemma checks_validate125_files_request_list [guard_parts]: "checks Collect p (validate125_files_request_list data p) (conforms \<rho> schema51_list data)"
  unfolding validate125_files_request_list_def schema51_list_def by (intro conform_laws guard_parts; simp)

lemma checks_validate125_files_request_publications [guard_parts]: "checks Collect p (validate125_files_request_publications data p) (conforms \<rho> schema51_publications data)"
  unfolding validate125_files_request_publications_def schema51_publications_def by (intro conform_laws guard_parts; simp)

lemma checks_validate125_files_request_prepare [guard_parts]: "checks Collect p (validate125_files_request_prepare data p) (conforms \<rho> schema51_prepare data)"
  unfolding validate125_files_request_prepare_def schema51_prepare_def by (intro conform_laws guard_parts; simp)

lemma checks_validate125_files_request_commit [guard_parts]: "checks Collect p (validate125_files_request_commit data p) (conforms \<rho> schema51_commit data)"
  unfolding validate125_files_request_commit_def schema51_commit_def by (intro conform_laws guard_parts; simp)

lemma checks_validate125_files_request_accept [guard_parts]: "checks Collect p (validate125_files_request_accept data p) (conforms \<rho> schema51_accept data)"
  unfolding validate125_files_request_accept_def schema51_accept_def by (intro conform_laws guard_parts; simp)

lemma checks_validate125_files_request_pause [guard_parts]: "checks Collect p (validate125_files_request_pause data p) (conforms \<rho> schema51_pause data)"
  unfolding validate125_files_request_pause_def schema51_pause_def by (intro conform_laws guard_parts; simp)

lemma checks_validate125_files_request_resume [guard_parts]: "checks Collect p (validate125_files_request_resume data p) (conforms \<rho> schema51_resume data)"
  unfolding validate125_files_request_resume_def schema51_resume_def by (intro conform_laws guard_parts; simp)

lemma checks_validate125_files_request_cancel [guard_parts]: "checks Collect p (validate125_files_request_cancel data p) (conforms \<rho> schema51_cancel data)"
  unfolding validate125_files_request_cancel_def schema51_cancel_def by (intro conform_laws guard_parts; simp)

lemma checks_validate125_files_request_configure [guard_parts]: "checks Collect p (validate125_files_request_configure data p) (conforms \<rho> schema51_configure data)"
  unfolding validate125_files_request_configure_def schema51_configure_def by (intro conform_laws guard_parts; simp)

lemma checks_validate125_files_request [guard_parts]: "checks Collect p (validate125_files_request data p) (conforms \<rho> schema51 data)"
  unfolding validate125_files_request_def schema51_def by (intro conform_laws guard_parts; simp)

lemma checks_validate125_files [guard_parts]: "checks Collect p (validate125_files data p) (conforms \<rho> schema49_files data)"
  unfolding validate125_files_def schema49_files_def by (intro conform_laws guard_parts; simp)

lemma checks_validate125_identify [guard_parts]: "checks Collect p (validate125_identify data p) (conforms \<rho> schema49_identify data)"
  unfolding validate125_identify_def schema49_identify_def by (intro conform_laws guard_parts; simp)

lemma checks_validate125_unlock [guard_parts]: "checks Collect p (validate125_unlock data p) (conforms \<rho> schema49_unlock data)"
  unfolding validate125_unlock_def schema49_unlock_def by (intro conform_laws guard_parts; simp)

lemma checks_validate125_lock [guard_parts]: "checks Collect p (validate125_lock data p) (conforms \<rho> schema49_lock data)"
  unfolding validate125_lock_def schema49_lock_def by (intro conform_laws guard_parts; simp)

lemma checks_validate125_disconnect [guard_parts]: "checks Collect p (validate125_disconnect data p) (conforms \<rho> schema49_disconnect data)"
  unfolding validate125_disconnect_def schema49_disconnect_def by (intro conform_laws guard_parts; simp)

lemma checks_validate125_snapshot [guard_parts]: "checks Collect p (validate125_snapshot data p) (conforms \<rho> schema49_snapshot data)"
  unfolding validate125_snapshot_def schema49_snapshot_def by (intro conform_laws guard_parts; simp)

lemma checks_validate125_network_status [guard_parts]: "checks Collect p (validate125_network_status data p) (conforms \<rho> schema49_network_status data)"
  unfolding validate125_network_status_def schema49_network_status_def by (intro conform_laws guard_parts; simp)

lemma checks_validate125_import_network_invitation [guard_parts]: "checks Collect p (validate125_import_network_invitation data p) (conforms \<rho> schema49_import_network_invitation data)"
  unfolding validate125_import_network_invitation_def schema49_import_network_invitation_def by (intro conform_laws guard_parts; simp)

lemma checks_validate125_catalogue [guard_parts]: "checks Collect p (validate125_catalogue data p) (conforms \<rho> schema49_catalogue data)"
  unfolding validate125_catalogue_def schema49_catalogue_def by (intro conform_laws guard_parts; simp)

lemma checks_validate125_history [guard_parts]: "checks Collect p (validate125_history data p) (conforms \<rho> schema49_history data)"
  unfolding validate125_history_def schema49_history_def by (intro conform_laws guard_parts; simp)

lemma checks_validate125_search [guard_parts]: "checks Collect p (validate125_search data p) (conforms \<rho> schema49_search data)"
  unfolding validate125_search_def schema49_search_def by (intro conform_laws guard_parts; simp)

lemma checks_validate125_submit [guard_parts]: "checks Collect p (validate125_submit data p) (conforms \<rho> schema49_submit data)"
  unfolding validate125_submit_def schema49_submit_def by (intro conform_laws guard_parts; simp)

lemma checks_validate125_complete [guard_parts]: "checks Collect p (validate125_complete data p) (conforms \<rho> schema49_complete data)"
  unfolding validate125_complete_def schema49_complete_def by (intro conform_laws guard_parts; simp)

lemma checks_validate125_mark_read [guard_parts]: "checks Collect p (validate125_mark_read data p) (conforms \<rho> schema49_mark_read data)"
  unfolding validate125_mark_read_def schema49_mark_read_def by (intro conform_laws guard_parts; simp)

lemma checks_validate125_events [guard_parts]: "checks Collect p (validate125_events data p) (conforms \<rho> schema49_events data)"
  unfolding validate125_events_def schema49_events_def by (intro conform_laws guard_parts; simp)

lemma checks_validate124_list [guard_parts]: "checks Collect p (validate124_list data p) (conforms \<rho> schema48_list data)"
  unfolding validate124_list_def schema48_list_def by (intro conform_laws guard_parts; simp)

lemma checks_validate124_inspect [guard_parts]: "checks Collect p (validate124_inspect data p) (conforms \<rho> schema48_inspect data)"
  unfolding validate124_inspect_def schema48_inspect_def by (intro conform_laws guard_parts; simp)

lemma checks_validate124_join [guard_parts]: "checks Collect p (validate124_join data p) (conforms \<rho> schema48_join data)"
  unfolding validate124_join_def schema48_join_def by (intro conform_laws guard_parts; simp)

lemma checks_validate124_call:
  assumes "\<And>x. size x < size data \<Longrightarrow> validates v (\<rho> ''Request'') x"
  shows "checks Collect p (validate124_call v data p) (conforms \<rho> schema48_call data)"
  unfolding validate124_call_def schema48_call_def
  by (intro conform_laws guard_parts checks_call_inside[where d = data and v = v and \<rho> = \<rho> and r = "''Request''", OF assms]; (assumption | simp))

lemma validates_validate125_step:
  assumes "\<And>x. size x < size d \<Longrightarrow> validates validate124 (\<rho> ''NetworkRequest'') x"
  shows "validates validate125 (conforms \<rho> schema49) d"
  unfolding schema49_def
  by (rule validates_run[where m = Return], rule validate125.simps)
     (intro conform_laws guard_parts checks_validate125_networks[OF assms]; (assumption | simp))

lemma validates_validate124_step:
  assumes "\<And>x. size x < size d \<Longrightarrow> validates validate125 (\<rho> ''Request'') x"
  shows "validates validate124 (conforms \<rho> schema48) d"
  unfolding schema48_def
  by (rule validates_run[where m = Return], rule validate124.simps)
     (intro conform_laws guard_parts checks_validate124_call[OF assms]; (assumption | simp))

lemma validates_validate125_validate124: "validates validate125 (conforms \<rho> schema49) d \<and> validates validate124 (conforms \<rho> schema48) d"
proof (induction d rule: measure_induct_rule[where f = size])
  case (less d)
  then show ?case by (simp add: validates_validate125_step validates_validate124_step def_Request def_NetworkRequest)
qed

lemmas validates_validate125 = validates_validate125_validate124[THEN conjunct1]

lemmas call_validate125 [guard_parts] = checks_call[OF validates_validate125]

lemmas validates_validate124 = validates_validate125_validate124[THEN conjunct2]

lemmas call_validate124 [guard_parts] = checks_call[OF validates_validate124]

lemma validates_validate123: "validates validate123 (conforms \<rho> schema47) d"
  unfolding schema47_def
  by (rule validates_run[where m = Return], rule validate123_def) (intro conform_laws guard_parts; simp)

lemmas call_validate123 [guard_parts] = checks_call[OF validates_validate123]

end

context document_schema52
begin

lemma validates_validate130: "validates validate130 (conforms \<rho> schema54) d"
  unfolding schema54_def
  by (rule validates_run[where m = Return], rule validate130_def) (intro conform_laws guard_parts; simp)

lemmas call_validate130 [guard_parts] = checks_call[OF validates_validate130]

lemma validates_validate129: "validates validate129 (conforms \<rho> schema53) d"
  unfolding schema53_def
  by (rule validates_run[where m = Return], rule validate129_def) (intro conform_laws guard_parts; simp)

lemmas call_validate129 [guard_parts] = checks_call[OF validates_validate129]

lemma validates_validate133: "validates validate133 (conforms \<rho> schema56) d"
  unfolding schema56_def
  by (rule validates_run[where m = Return], rule validate133_def) (intro conform_laws guard_parts; simp)

lemmas call_validate133 [guard_parts] = checks_call[OF validates_validate133]

lemma checks_validate138_publication_any0 [guard_parts]: "checks Collect p (validate138_publication_any0 data p) (conforms \<rho> schema61 data)"
  unfolding validate138_publication_any0_def schema61_def by (intro conform_laws guard_parts; simp)

lemma checks_validate138_publication [guard_parts]: "checks Return p (validate138_publication data p) (conforms \<rho> (SAnyOf [SRef ''FilePublication'', SType [TNull]]) data)"
  unfolding validate138_publication_def by (intro conform_laws guard_parts; simp)

lemma validates_validate138: "validates validate138 (conforms \<rho> schema60) d"
  unfolding schema60_def
  by (rule validates_run[where m = Return], rule validate138_def) (intro conform_laws guard_parts; simp)

lemmas call_validate138 [guard_parts] = checks_call[OF validates_validate138]

lemma validates_validate137: "validates validate137 (conforms \<rho> schema59) d"
  unfolding schema59_def
  by (rule validates_run[where m = Return], rule validate137_def) (intro conform_laws guard_parts; simp)

lemmas call_validate137 [guard_parts] = checks_call[OF validates_validate137]

lemma checks_validate142_build_any0 [guard_parts]: "checks Collect p (validate142_build_any0 data p) (conforms \<rho> schema64 data)"
  unfolding validate142_build_any0_def schema64_def by (intro conform_laws guard_parts; simp)

lemma checks_validate142_build [guard_parts]: "checks Return p (validate142_build data p) (conforms \<rho> (SAnyOf [SRef ''BuildInfo'', SType [TNull]]) data)"
  unfolding validate142_build_def by (intro conform_laws guard_parts; simp)

lemma validates_validate142: "validates validate142 (conforms \<rho> schema63) d"
  unfolding schema63_def
  by (rule validates_run[where m = Return], rule validate142_def) (intro conform_laws guard_parts; simp)

lemmas call_validate142 [guard_parts] = checks_call[OF validates_validate142]

lemma checks_validate146_presence_any0_available [guard_parts]: "checks Collect p (validate146_presence_any0_available data p) (conforms \<rho> schema72_available data)"
  unfolding validate146_presence_any0_available_def schema72_available_def by (intro conform_laws guard_parts; simp)

lemma checks_validate146_presence_any0_away [guard_parts]: "checks Collect p (validate146_presence_any0_away data p) (conforms \<rho> schema72_away data)"
  unfolding validate146_presence_any0_away_def schema72_away_def by (intro conform_laws guard_parts; simp)

lemma checks_validate146_presence_any0_unknown [guard_parts]: "checks Collect p (validate146_presence_any0_unknown data p) (conforms \<rho> schema72_unknown data)"
  unfolding validate146_presence_any0_unknown_def schema72_unknown_def by (intro conform_laws guard_parts; simp)

lemma checks_validate146_presence_any0 [guard_parts]: "checks Collect p (validate146_presence_any0 data p) (conforms \<rho> schema72 data)"
  unfolding validate146_presence_any0_def schema72_def by (intro conform_laws guard_parts; simp)

lemma checks_validate146_presence [guard_parts]: "checks Return p (validate146_presence data p) (conforms \<rho> (SAnyOf [SRef ''MemberPresence'', SType [TNull]]) data)"
  unfolding validate146_presence_def by (intro conform_laws guard_parts; simp)

lemma validates_validate146: "validates validate146 (conforms \<rho> schema71) d"
  unfolding schema71_def
  by (rule validates_run[where m = Return], rule validate146_def) (intro conform_laws guard_parts; simp)

lemmas call_validate146 [guard_parts] = checks_call[OF validates_validate146]

lemma checks_validate145_catchUp_any0 [guard_parts]: "checks Collect p (validate145_catchUp_any0 data p) (conforms \<rho> schema68 data)"
  unfolding validate145_catchUp_any0_def schema68_def by (intro conform_laws guard_parts; simp)

lemma checks_validate145_catchUp [guard_parts]: "checks Return p (validate145_catchUp data p) (conforms \<rho> (SAnyOf [SRef ''ChannelCatchUp'', SType [TNull]]) data)"
  unfolding validate145_catchUp_def by (intro conform_laws guard_parts; simp)

lemma checks_validate145_commands_item [guard_parts]: "checks Return p (validate145_commands_item data p) (conforms \<rho> schema69 data)"
  unfolding validate145_commands_item_def schema69_def by (intro conform_laws guard_parts; simp)

lemma checks_validate145_policy_any0 [guard_parts]: "checks Collect p (validate145_policy_any0 data p) (conforms \<rho> schema73 data)"
  unfolding validate145_policy_any0_def schema73_def by (intro conform_laws guard_parts; simp)

lemma checks_validate145_policy [guard_parts]: "checks Return p (validate145_policy data p) (conforms \<rho> (SAnyOf [SRef ''ChannelPolicy'', SType [TNull]]) data)"
  unfolding validate145_policy_def by (intro conform_laws guard_parts; simp)

lemma validates_validate145: "validates validate145 (conforms \<rho> schema67) d"
  unfolding schema67_def
  by (rule validates_run[where m = Return], rule validate145_def) (intro conform_laws guard_parts; simp)

lemmas call_validate145 [guard_parts] = checks_call[OF validates_validate145]

lemma checks_validate151_invitation_options [guard_parts]: "checks Collect p (validate151_invitation_options data p) (conforms \<rho> schema76_invitation_options data)"
  unfolding validate151_invitation_options_def schema76_invitation_options_def by (intro conform_laws guard_parts; simp)

lemma checks_validate151_invitations_records_item [guard_parts]: "checks Collect p (validate151_invitations_records_item data p) (conforms \<rho> schema77 data)"
  unfolding validate151_invitations_records_item_def schema77_def by (intro conform_laws guard_parts; simp)

lemma checks_validate151_invitations [guard_parts]: "checks Collect p (validate151_invitations data p) (conforms \<rho> schema76_invitations data)"
  unfolding validate151_invitations_def schema76_invitations_def by (intro conform_laws guard_parts; simp)

lemma checks_validate151_reusable_invitation [guard_parts]: "checks Collect p (validate151_reusable_invitation data p) (conforms \<rho> schema76_reusable_invitation data)"
  unfolding validate151_reusable_invitation_def schema76_reusable_invitation_def by (intro conform_laws guard_parts; simp)

lemma checks_validate151_enrollment [guard_parts]: "checks Collect p (validate151_enrollment data p) (conforms \<rho> schema76_enrollment data)"
  unfolding validate151_enrollment_def schema76_enrollment_def by (intro conform_laws guard_parts; simp)

lemma checks_validate151_enrollments:
  assumes "\<And>x. size x < size data \<Longrightarrow> validates v (\<rho> ''CommandOutput'') x"
  shows "checks Collect p (validate151_enrollments v data p) (conforms \<rho> schema76_enrollments data)"
  unfolding validate151_enrollments_def schema76_enrollments_def
  by (intro conform_laws guard_parts checks_call_item[where d = data and v = v and \<rho> = \<rho> and r = "''CommandOutput''", OF assms]; (assumption | simp))

lemma checks_validate151_help_commands_item [guard_parts]: "checks Collect p (validate151_help_commands_item data p) (conforms \<rho> schema69 data)"
  unfolding validate151_help_commands_item_def schema69_def by (intro conform_laws guard_parts; simp)

lemma checks_validate151_help [guard_parts]: "checks Collect p (validate151_help data p) (conforms \<rho> schema76_help data)"
  unfolding validate151_help_def schema76_help_def by (intro conform_laws guard_parts; simp)

lemma checks_validate151_directory_channels_item [guard_parts]: "checks Collect p (validate151_directory_channels_item data p) (conforms \<rho> schema79 data)"
  unfolding validate151_directory_channels_item_def schema79_def by (intro conform_laws guard_parts; simp)

lemma checks_validate151_directory [guard_parts]: "checks Collect p (validate151_directory data p) (conforms \<rho> schema76_directory data)"
  unfolding validate151_directory_def schema76_directory_def by (intro conform_laws guard_parts; simp)

lemma checks_validate151_invitation [guard_parts]: "checks Collect p (validate151_invitation data p) (conforms \<rho> schema76_invitation data)"
  unfolding validate151_invitation_def schema76_invitation_def by (intro conform_laws guard_parts; simp)

lemma checks_validate151_text [guard_parts]: "checks Collect p (validate151_text data p) (conforms \<rho> schema76_text data)"
  unfolding validate151_text_def schema76_text_def by (intro conform_laws guard_parts; simp)

lemma checks_validate151_status [guard_parts]: "checks Collect p (validate151_status data p) (conforms \<rho> schema76_status data)"
  unfolding validate151_status_def schema76_status_def by (intro conform_laws guard_parts; simp)

lemma checks_validate151_close [guard_parts]: "checks Collect p (validate151_close data p) (conforms \<rho> schema76_close data)"
  unfolding validate151_close_def schema76_close_def by (intro conform_laws guard_parts; simp)

lemma checks_validate151_membership_recovery_members_item [guard_parts]: "checks Collect p (validate151_membership_recovery_members_item data p) (conforms \<rho> schema80 data)"
  unfolding validate151_membership_recovery_members_item_def schema80_def by (intro conform_laws guard_parts; simp)

lemma checks_validate151_membership_recovery [guard_parts]: "checks Collect p (validate151_membership_recovery data p) (conforms \<rho> schema76_membership_recovery data)"
  unfolding validate151_membership_recovery_def schema76_membership_recovery_def by (intro conform_laws guard_parts; simp)

lemma validates_validate151_step:
  assumes "\<And>x. size x < size d \<Longrightarrow> validates validate151 (\<rho> ''CommandOutput'') x"
  shows "validates validate151 (conforms \<rho> schema76) d"
  unfolding schema76_def
  by (rule validates_run[where m = Return], rule validate151.simps)
     (intro conform_laws guard_parts checks_validate151_enrollments[OF assms]; (assumption | simp))

lemma validates_validate151: "validates validate151 (conforms \<rho> schema76) d"
proof (induction d rule: measure_induct_rule[where f = size])
  case (less d)
  then show ?case by (simp add: validates_validate151_step def_CommandOutput)
qed

lemmas call_validate151 [guard_parts] = checks_call[OF validates_validate151]

lemma checks_validate150_output [guard_parts]: "checks Return p (validate150_output data p) (conforms \<rho> (SAnyOf [SRef ''CommandOutput'', SType [TNull]]) data)"
  unfolding validate150_output_def by (intro conform_laws guard_parts; simp)

lemma validates_validate150: "validates validate150 (conforms \<rho> schema75) d"
  unfolding schema75_def
  by (rule validates_run[where m = Return], rule validate150_def) (intro conform_laws guard_parts; simp)

lemmas call_validate150 [guard_parts] = checks_call[OF validates_validate150]

lemma checks_validate144_activity_item [guard_parts]: "checks Return p (validate144_activity_item data p) (conforms \<rho> schema66 data)"
  unfolding validate144_activity_item_def schema66_def by (intro conform_laws guard_parts; simp)

lemma checks_validate144_inputHistory_item [guard_parts]: "checks Return p (validate144_inputHistory_item data p) (conforms \<rho> schema74 data)"
  unfolding validate144_inputHistory_item_def schema74_def by (intro conform_laws guard_parts; simp)

lemma checks_validate144_providerErrors_item [guard_parts]: "checks Return p (validate144_providerErrors_item data p) (conforms \<rho> schema81 data)"
  unfolding validate144_providerErrors_item_def schema81_def by (intro conform_laws guard_parts; simp)

lemma validates_validate144: "validates validate144 (conforms \<rho> schema65) d"
  unfolding schema65_def
  by (rule validates_run[where m = Return], rule validate144_def) (intro conform_laws guard_parts; simp)

lemmas call_validate144 [guard_parts] = checks_call[OF validates_validate144]

lemma checks_validate157_artifacts_item [guard_parts]: "checks Return p (validate157_artifacts_item data p) (conforms \<rho> schema37 data)"
  unfolding validate157_artifacts_item_def schema37_def by (intro conform_laws guard_parts; simp)

lemma validates_validate157: "validates validate157 (conforms \<rho> schema36) d"
  unfolding schema36_def
  by (rule validates_run[where m = Return], rule validate157_def) (intro conform_laws guard_parts; simp)

lemmas call_validate157 [guard_parts] = checks_call[OF validates_validate157]

lemma checks_validate156_delivery [guard_parts]: "checks Return p (validate156_delivery data p) (conforms \<rho> (SAnyOf [SRef ''Delivery'', SType [TNull]]) data)"
  unfolding validate156_delivery_def by (intro conform_laws guard_parts; simp)

lemma checks_validate156_messageKind [guard_parts]: "checks Return p (validate156_messageKind data p) (conforms \<rho> (SAnyOf [SRef ''MessageKind'', SType [TNull]]) data)"
  unfolding validate156_messageKind_def by (intro conform_laws guard_parts; simp)

lemma checks_validate156_result [guard_parts]: "checks Return p (validate156_result data p) (conforms \<rho> (SAnyOf [SRef ''ActionResult'', SType [TNull]]) data)"
  unfolding validate156_result_def by (intro conform_laws guard_parts; simp)

lemma validates_validate156: "validates validate156 (conforms \<rho> schema33) d"
  unfolding schema33_def
  by (rule validates_run[where m = Return], rule validate156_def) (intro conform_laws guard_parts; simp)

lemmas call_validate156 [guard_parts] = checks_call[OF validates_validate156]

lemma validates_validate155: "validates validate155 (conforms \<rho> schema32) d"
  unfolding schema32_def
  by (rule validates_run[where m = Return], rule validate155_def) (intro conform_laws guard_parts; simp)

lemmas call_validate155 [guard_parts] = checks_call[OF validates_validate155]

lemma checks_validate136_update_result_attached [guard_parts]: "checks Collect p (validate136_update_result_attached data p) (conforms \<rho> schema58_attached data)"
  unfolding validate136_update_result_attached_def schema58_attached_def by (intro conform_laws guard_parts; simp)

lemma checks_validate136_update_result_ready [guard_parts]: "checks Collect p (validate136_update_result_ready data p) (conforms \<rho> schema58_ready data)"
  unfolding validate136_update_result_ready_def schema58_ready_def by (intro conform_laws guard_parts; simp)

lemma checks_validate136_update_result_busy [guard_parts]: "checks Collect p (validate136_update_result_busy data p) (conforms \<rho> schema58_busy data)"
  unfolding validate136_update_result_busy_def schema58_busy_def by (intro conform_laws guard_parts; simp)

lemma checks_validate136_update_result [guard_parts]: "checks Collect p (validate136_update_result data p) (conforms \<rho> schema58 data)"
  unfolding validate136_update_result_def schema58_def by (intro conform_laws guard_parts; simp)

lemma checks_validate136_update [guard_parts]: "checks Collect p (validate136_update data p) (conforms \<rho> schema57_update data)"
  unfolding validate136_update_def schema57_update_def by (intro conform_laws guard_parts; simp)

lemma checks_validate136_networks:
  assumes "\<And>x. size x < size data \<Longrightarrow> validates v (\<rho> ''#'') x"
  shows "checks Collect p (validate136_networks v data p) (conforms \<rho> schema57_networks data)"
  unfolding validate136_networks_def schema57_networks_def
  by (intro conform_laws guard_parts checks_call_inside[where d = data and v = v and \<rho> = \<rho> and r = "''#''", OF assms]; (assumption | simp))

lemma checks_validate136_files [guard_parts]: "checks Collect p (validate136_files data p) (conforms \<rho> schema57_files data)"
  unfolding validate136_files_def schema57_files_def by (intro conform_laws guard_parts; simp)

lemma checks_validate136_network_status [guard_parts]: "checks Collect p (validate136_network_status data p) (conforms \<rho> schema57_network_status data)"
  unfolding validate136_network_status_def schema57_network_status_def by (intro conform_laws guard_parts; simp)

lemma checks_validate136_instance [guard_parts]: "checks Collect p (validate136_instance data p) (conforms \<rho> schema57_instance data)"
  unfolding validate136_instance_def schema57_instance_def by (intro conform_laws guard_parts; simp)

lemma checks_validate136_snapshot [guard_parts]: "checks Collect p (validate136_snapshot data p) (conforms \<rho> schema57_snapshot data)"
  unfolding validate136_snapshot_def schema57_snapshot_def by (intro conform_laws guard_parts; simp)

lemma checks_validate136_history [guard_parts]: "checks Collect p (validate136_history data p) (conforms \<rho> schema57_history data)"
  unfolding validate136_history_def schema57_history_def by (intro conform_laws guard_parts; simp)

lemma checks_validate136_completed_items_item [guard_parts]: "checks Collect p (validate136_completed_items_item data p) (conforms \<rho> schema88 data)"
  unfolding validate136_completed_items_item_def schema88_def by (intro conform_laws guard_parts; simp)

lemma checks_validate136_completed [guard_parts]: "checks Collect p (validate136_completed data p) (conforms \<rho> schema57_completed data)"
  unfolding validate136_completed_def schema57_completed_def by (intro conform_laws guard_parts; simp)

lemma checks_validate136_catalogue_commands_item [guard_parts]: "checks Collect p (validate136_catalogue_commands_item data p) (conforms \<rho> schema69 data)"
  unfolding validate136_catalogue_commands_item_def schema69_def by (intro conform_laws guard_parts; simp)

lemma checks_validate136_catalogue [guard_parts]: "checks Collect p (validate136_catalogue data p) (conforms \<rho> schema57_catalogue data)"
  unfolding validate136_catalogue_def schema57_catalogue_def by (intro conform_laws guard_parts; simp)

lemma checks_validate136_projection [guard_parts]: "checks Collect p (validate136_projection data p) (conforms \<rho> schema57_projection data)"
  unfolding validate136_projection_def schema57_projection_def by (intro conform_laws guard_parts; simp)

lemma checks_validate136_output [guard_parts]: "checks Collect p (validate136_output data p) (conforms \<rho> schema57_output data)"
  unfolding validate136_output_def schema57_output_def by (intro conform_laws guard_parts; simp)

lemma checks_validate136_applied [guard_parts]: "checks Collect p (validate136_applied data p) (conforms \<rho> schema57_applied data)"
  unfolding validate136_applied_def schema57_applied_def by (intro conform_laws guard_parts; simp)

lemma checks_validate136_changed [guard_parts]: "checks Collect p (validate136_changed data p) (conforms \<rho> schema57_changed data)"
  unfolding validate136_changed_def schema57_changed_def by (intro conform_laws guard_parts; simp)

lemma checks_validate136_error [guard_parts]: "checks Collect p (validate136_error data p) (conforms \<rho> schema57_error data)"
  unfolding validate136_error_def schema57_error_def by (intro conform_laws guard_parts; simp)

lemma checks_validate128_list [guard_parts]: "checks Collect p (validate128_list data p) (conforms \<rho> schema52_list data)"
  unfolding validate128_list_def schema52_list_def by (intro conform_laws guard_parts; simp)

lemma checks_validate128_preview [guard_parts]: "checks Collect p (validate128_preview data p) (conforms \<rho> schema52_preview data)"
  unfolding validate128_preview_def schema52_preview_def by (intro conform_laws guard_parts; simp)

lemma checks_validate128_result:
  assumes "\<And>x. size x < size data \<Longrightarrow> validates v (\<rho> ''Response'') x"
  shows "checks Collect p (validate128_result v data p) (conforms \<rho> schema52_result data)"
  unfolding validate128_result_def schema52_result_def
  by (intro conform_laws guard_parts checks_call_inside[where d = data and v = v and \<rho> = \<rho> and r = "''Response''", OF assms]; (assumption | simp))

lemma validates_validate136_step:
  assumes "\<And>x. size x < size d \<Longrightarrow> validates validate128 (\<rho> ''#'') x"
  shows "validates validate136 (conforms \<rho> schema57) d"
  unfolding schema57_def
  by (rule validates_run[where m = Return], rule validate136.simps)
     (intro conform_laws guard_parts checks_validate136_networks[OF assms]; (assumption | simp))

lemma validates_validate128_step:
  assumes "\<And>x. size x < size d \<Longrightarrow> validates validate136 (\<rho> ''Response'') x"
  shows "validates validate128 (conforms \<rho> schema52) d"
  unfolding schema52_def
  by (rule validates_run[where m = Return], rule validate128.simps)
     (intro conform_laws guard_parts checks_validate128_result[OF assms]; (assumption | simp))

lemma validates_validate136_validate128: "validates validate136 (conforms \<rho> schema57) d \<and> validates validate128 (conforms \<rho> schema52) d"
proof (induction d rule: measure_induct_rule[where f = size])
  case (less d)
  then show ?case by (simp add: validates_validate136_step validates_validate128_step def_Response def_root)
qed

lemmas validates_validate136 = validates_validate136_validate128[THEN conjunct1]

lemmas call_validate136 [guard_parts] = checks_call[OF validates_validate136]

lemmas validates_validate128 = validates_validate136_validate128[THEN conjunct2]

lemmas call_validate128 [guard_parts] = checks_call[OF validates_validate128]

end

section \<open>The exported guards\<close>

definition networks_args :: "json \<Rightarrow> bool" where
  "networks_args value = fst (validate123 value [])"

definition networks_output :: "json \<Rightarrow> bool" where
  "networks_output value = fst (validate128 value [])"

end
