(* ===== verification/Method_Guards.thy ===== *)
theory Method_Guards
  imports Rpc_Guards Api_Documents Call_Guards Page_Guards Output_Guards Snapshot_Guards Response_Guards
    Network_Operation_Guards Networks_Guards
begin

text \<open>
  Every exported guard of \<open>ui/src/rpc-validators.js\<close> accepts exactly what its document means: the
  locales of the documents are interpreted on their meaning, and the guards' contracts carried over.
\<close>

interpretation meaning_schema52_defs: document_schema52 "meaning schema52_defs"
  by unfold_locales (rule meaning_models[OF schema52_defs_well_founded])

lemma networks_details_output_meaning: "networks_details_output d \<longleftrightarrow> accepts schema52 schema52_defs d"
  unfolding networks_details_output_def accepts_def by (rule validates_fst[OF meaning_schema52_defs.validates_validate39])

interpretation meaning_schema65_defs: document_schema65 "meaning schema65_defs"
  by unfold_locales (rule meaning_models[OF schema65_defs_well_founded])

lemma unlock_output_meaning: "unlock_output d \<longleftrightarrow> accepts schema65 schema65_defs d"
  unfolding unlock_output_def accepts_def by (rule validates_fst[OF meaning_schema65_defs.validates_validate174])

lemma disconnect_output_meaning: "disconnect_output d \<longleftrightarrow> accepts schema65 schema65_defs d"
  unfolding disconnect_output_def accepts_def by (rule validates_fst[OF meaning_schema65_defs.validates_validate190])

lemma snapshot_output_meaning: "snapshot_output d \<longleftrightarrow> accepts schema65 schema65_defs d"
  unfolding snapshot_output_def accepts_def by (rule validates_fst[OF meaning_schema65_defs.validates_validate203])

interpretation meaning_schema92_defs: document_schema92 "meaning schema92_defs"
  by unfold_locales (rule meaning_models[OF schema92_defs_well_founded])

lemma enrollment_output_meaning: "enrollment_output d \<longleftrightarrow> accepts schema92 schema92_defs d"
  unfolding enrollment_output_def accepts_def by (rule validates_fst[OF meaning_schema92_defs.validates_validate77])

lemma submit_output_meaning: "submit_output d \<longleftrightarrow> accepts schema92 schema92_defs d"
  unfolding submit_output_def accepts_def by (rule validates_fst[OF meaning_schema92_defs.validates_validate239])

interpretation meaning_schema47_defs: request_document "meaning schema47_defs"
  by unfold_locales (rule meaning_models[OF schema47_defs_well_founded])

lemma network_operation_args_meaning: "network_operation_args d \<longleftrightarrow> accepts schema47 schema47_defs d"
  unfolding network_operation_args_def accepts_def by (rule validates_fst[OF meaning_schema47_defs.validates_validate81])

lemma network_operation_output_meaning: "network_operation_output d \<longleftrightarrow> accepts schema52 schema52_defs d"
  unfolding network_operation_output_def accepts_def by (rule validates_fst[OF meaning_schema52_defs.validates_validate86])

lemma networks_args_meaning: "networks_args d \<longleftrightarrow> accepts schema47 schema47_defs d"
  unfolding networks_args_def accepts_def by (rule validates_fst[OF meaning_schema47_defs.validates_validate123])

lemma networks_output_meaning: "networks_output d \<longleftrightarrow> accepts schema52 schema52_defs d"
  unfolding networks_output_def accepts_def by (rule validates_fst[OF meaning_schema52_defs.validates_validate128])

interpretation meaning_schema32_defs: history_schema "meaning schema32_defs"
  by unfold_locales (rule meaning_models[OF schema32_defs_well_founded])

lemma search_details_output_meaning: "search_details_output d \<longleftrightarrow> accepts schema32 schema32_defs d"
  unfolding search_details_output_def accepts_def by (rule validates_fst[OF meaning_schema32_defs.validates_validate28])

lemma history_output_meaning: "history_output d \<longleftrightarrow> accepts schema32 schema32_defs d"
  unfolding history_output_def accepts_def by (rule validates_fst[OF meaning_schema32_defs.validates_validate225])

lemma search_output_meaning: "search_output d \<longleftrightarrow> accepts schema32 schema32_defs d"
  unfolding search_output_def accepts_def by (rule validates_fst[OF meaning_schema32_defs.validates_validate232])

interpretation meaning_schema187_defs: document_schema187 "meaning schema187_defs"
  by unfold_locales (rule meaning_models[OF schema187_defs_well_founded])

interpretation meaning_schema59_defs: document_schema59 "meaning schema59_defs"
  by unfold_locales (rule meaning_models[OF schema59_defs_well_founded])

interpretation meaning_schema63_defs: document_schema63 "meaning schema63_defs"
  by unfold_locales (rule meaning_models[OF schema63_defs_well_founded])

interpretation meaning_schema54_defs: document_schema54 "meaning schema54_defs"
  by unfold_locales (rule meaning_models[OF schema54_defs_well_founded])

interpretation meaning_schema274_defs: document_schema274 "meaning schema274_defs"
  by unfold_locales (rule meaning_models[OF schema274_defs_well_founded])

interpretation meaning_schema302_defs: document_schema302 "meaning schema302_defs"
  by unfold_locales (rule meaning_models[OF schema302_defs_well_founded])

lemma search_details_args_meaning: "search_details_args d \<longleftrightarrow> accepts schema39 [] d"
  unfolding search_details_args_def accepts_def by (rule validates_fst[OF validates_validate27])

lemma search_details_error_meaning: "search_details_error d \<longleftrightarrow> accepts schema38 [] d"
  unfolding search_details_error_def accepts_def by (rule validates_fst[OF validates_validate33])

lemma networks_details_error_meaning: "networks_details_error d \<longleftrightarrow> accepts schema38 [] d"
  unfolding networks_details_error_def accepts_def by (rule validates_fst[OF validates_validate75])

lemma enrollment_args_meaning: "enrollment_args d \<longleftrightarrow> accepts schema91 [] d"
  unfolding enrollment_args_def accepts_def by (rule validates_fst[OF validates_validate76])

lemma enrollment_error_meaning: "enrollment_error d \<longleftrightarrow> accepts schema38 [] d"
  unfolding enrollment_error_def accepts_def by (rule validates_fst[OF validates_validate80])

lemma network_operation_error_meaning: "network_operation_error d \<longleftrightarrow> accepts schema38 [] d"
  unfolding network_operation_error_def accepts_def by (rule validates_fst[OF validates_validate122])

lemma networks_error_meaning: "networks_error d \<longleftrightarrow> accepts schema38 [] d"
  unfolding networks_error_def accepts_def by (rule validates_fst[OF validates_validate164])

lemma files_args_meaning: "files_args d \<longleftrightarrow> accepts schema187 schema187_defs d"
  unfolding files_args_def accepts_def by (rule validates_fst[OF meaning_schema187_defs.validates_validate165])

lemma files_output_meaning: "files_output d \<longleftrightarrow> accepts schema59 schema59_defs d"
  unfolding files_output_def accepts_def by (rule validates_fst[OF meaning_schema59_defs.validates_validate166])

lemma files_error_meaning: "files_error d \<longleftrightarrow> accepts schema38 [] d"
  unfolding files_error_def accepts_def by (rule validates_fst[OF validates_validate169])

lemma identify_args_meaning: "identify_args d \<longleftrightarrow> accepts schema194 [] d"
  unfolding identify_args_def accepts_def by (rule validates_fst[OF validates_validate170])

lemma identify_output_meaning: "identify_output d \<longleftrightarrow> accepts schema63 schema63_defs d"
  unfolding identify_output_def accepts_def by (rule validates_fst[OF meaning_schema63_defs.validates_validate171])

lemma identify_error_meaning: "identify_error d \<longleftrightarrow> accepts schema38 [] d"
  unfolding identify_error_def accepts_def by (rule validates_fst[OF validates_validate172])

lemma unlock_args_meaning: "unlock_args d \<longleftrightarrow> accepts schema198 [] d"
  unfolding unlock_args_def accepts_def by (rule validates_fst[OF validates_validate173])

lemma unlock_error_meaning: "unlock_error d \<longleftrightarrow> accepts schema38 [] d"
  unfolding unlock_error_def accepts_def by (rule validates_fst[OF validates_validate185])

lemma lock_args_meaning: "lock_args d \<longleftrightarrow> accepts schema194 [] d"
  unfolding lock_args_def accepts_def by (rule validates_fst[OF validates_validate186])

lemma lock_output_meaning: "lock_output d \<longleftrightarrow> accepts schema63 schema63_defs d"
  unfolding lock_output_def accepts_def by (rule validates_fst[OF meaning_schema63_defs.validates_validate187])

lemma lock_error_meaning: "lock_error d \<longleftrightarrow> accepts schema38 [] d"
  unfolding lock_error_def accepts_def by (rule validates_fst[OF validates_validate188])

lemma disconnect_args_meaning: "disconnect_args d \<longleftrightarrow> accepts schema194 [] d"
  unfolding disconnect_args_def accepts_def by (rule validates_fst[OF validates_validate189])

lemma disconnect_error_meaning: "disconnect_error d \<longleftrightarrow> accepts schema38 [] d"
  unfolding disconnect_error_def accepts_def by (rule validates_fst[OF validates_validate201])

lemma snapshot_args_meaning: "snapshot_args d \<longleftrightarrow> accepts schema194 [] d"
  unfolding snapshot_args_def accepts_def by (rule validates_fst[OF validates_validate202])

lemma snapshot_error_meaning: "snapshot_error d \<longleftrightarrow> accepts schema38 [] d"
  unfolding snapshot_error_def accepts_def by (rule validates_fst[OF validates_validate214])

lemma network_status_args_meaning: "network_status_args d \<longleftrightarrow> accepts schema194 [] d"
  unfolding network_status_args_def accepts_def by (rule validates_fst[OF validates_validate215])

lemma network_status_output_meaning: "network_status_output d \<longleftrightarrow> accepts schema54 schema54_defs d"
  unfolding network_status_output_def accepts_def by (rule validates_fst[OF meaning_schema54_defs.validates_validate216])

lemma network_status_error_meaning: "network_status_error d \<longleftrightarrow> accepts schema38 [] d"
  unfolding network_status_error_def accepts_def by (rule validates_fst[OF validates_validate217])

lemma import_network_invitation_args_meaning: "import_network_invitation_args d \<longleftrightarrow> accepts schema269 [] d"
  unfolding import_network_invitation_args_def accepts_def by (rule validates_fst[OF validates_validate218])

lemma import_network_invitation_output_meaning: "import_network_invitation_output d \<longleftrightarrow> accepts schema54 schema54_defs d"
  unfolding import_network_invitation_output_def accepts_def by (rule validates_fst[OF meaning_schema54_defs.validates_validate219])

lemma import_network_invitation_error_meaning: "import_network_invitation_error d \<longleftrightarrow> accepts schema38 [] d"
  unfolding import_network_invitation_error_def accepts_def by (rule validates_fst[OF validates_validate220])

lemma catalogue_args_meaning: "catalogue_args d \<longleftrightarrow> accepts schema273 [] d"
  unfolding catalogue_args_def accepts_def by (rule validates_fst[OF validates_validate221])

lemma catalogue_output_meaning: "catalogue_output d \<longleftrightarrow> accepts schema274 schema274_defs d"
  unfolding catalogue_output_def accepts_def by (rule validates_fst[OF meaning_schema274_defs.validates_validate222])

lemma catalogue_error_meaning: "catalogue_error d \<longleftrightarrow> accepts schema38 [] d"
  unfolding catalogue_error_def accepts_def by (rule validates_fst[OF validates_validate223])

lemma history_args_meaning: "history_args d \<longleftrightarrow> accepts schema31 [] d"
  unfolding history_args_def accepts_def by (rule validates_fst[OF validates_validate224])

lemma history_error_meaning: "history_error d \<longleftrightarrow> accepts schema38 [] d"
  unfolding history_error_def accepts_def by (rule validates_fst[OF validates_validate230])

lemma search_args_meaning: "search_args d \<longleftrightarrow> accepts schema39 [] d"
  unfolding search_args_def accepts_def by (rule validates_fst[OF validates_validate231])

lemma search_error_meaning: "search_error d \<longleftrightarrow> accepts schema38 [] d"
  unfolding search_error_def accepts_def by (rule validates_fst[OF validates_validate237])

lemma submit_args_meaning: "submit_args d \<longleftrightarrow> accepts schema293 [] d"
  unfolding submit_args_def accepts_def by (rule validates_fst[OF validates_validate238])

lemma submit_error_meaning: "submit_error d \<longleftrightarrow> accepts schema38 [] d"
  unfolding submit_error_def accepts_def by (rule validates_fst[OF validates_validate242])

lemma complete_args_meaning: "complete_args d \<longleftrightarrow> accepts schema293 [] d"
  unfolding complete_args_def accepts_def by (rule validates_fst[OF validates_validate243])

lemma complete_output_meaning: "complete_output d \<longleftrightarrow> accepts schema302 schema302_defs d"
  unfolding complete_output_def accepts_def by (rule validates_fst[OF meaning_schema302_defs.validates_validate244])

lemma complete_error_meaning: "complete_error d \<longleftrightarrow> accepts schema38 [] d"
  unfolding complete_error_def accepts_def by (rule validates_fst[OF validates_validate245])

lemma mark_read_args_meaning: "mark_read_args d \<longleftrightarrow> accepts schema305 [] d"
  unfolding mark_read_args_def accepts_def by (rule validates_fst[OF validates_validate246])

lemma mark_read_output_meaning: "mark_read_output d \<longleftrightarrow> accepts schema306 [] d"
  unfolding mark_read_output_def accepts_def by (rule validates_fst[OF validates_validate247])

lemma mark_read_error_meaning: "mark_read_error d \<longleftrightarrow> accepts schema38 [] d"
  unfolding mark_read_error_def accepts_def by (rule validates_fst[OF validates_validate248])

lemma events_args_meaning: "events_args d \<longleftrightarrow> accepts schema308 [] d"
  unfolding events_args_def accepts_def by (rule validates_fst[OF validates_validate249])

lemma events_output_meaning: "events_output d \<longleftrightarrow> accepts schema309 [] d"
  unfolding events_output_def accepts_def by (rule validates_fst[OF validates_validate250])

lemma events_error_meaning: "events_error d \<longleftrightarrow> accepts schema38 [] d"
  unfolding events_error_def accepts_def by (rule validates_fst[OF validates_validate251])

interpretation meaning_networks: network_schema "meaning schema47_defs"
  by unfold_locales (rule meaning_models[OF schema47_defs_well_founded])

lemma history_details_args_meaning: "history_details_args d \<longleftrightarrow> accepts schema31 [] d"
  unfolding history_details_args_def accepts_def validates_fst[OF meaning_schema32_defs.validates_validate20]
  by (rule conforms_flat) (simp add: schema31_def)

lemma history_details_output_meaning: "history_details_output d \<longleftrightarrow> accepts schema32 schema32_defs d"
  unfolding history_details_output_def accepts_def by (rule validates_fst[OF meaning_schema32_defs.validates_validate21])

lemma history_details_error_meaning: "history_details_error d \<longleftrightarrow> accepts schema38 [] d"
  unfolding history_details_error_def accepts_def validates_fst[OF meaning_schema32_defs.validates_validate26]
  by (rule conforms_flat) (simp add: schema38_def)

lemma networks_details_args_meaning: "networks_details_args d \<longleftrightarrow> accepts schema47 schema47_defs d"
  unfolding networks_details_args_def accepts_def by (rule validates_fst[OF meaning_networks.validates_validate34])

lemmas guard_meanings =
  history_details_args_meaning
  history_details_output_meaning
  history_details_error_meaning
  search_details_args_meaning
  search_details_output_meaning
  search_details_error_meaning
  networks_details_args_meaning
  networks_details_output_meaning
  networks_details_error_meaning
  enrollment_args_meaning
  enrollment_output_meaning
  enrollment_error_meaning
  network_operation_args_meaning
  network_operation_output_meaning
  network_operation_error_meaning
  networks_args_meaning
  networks_output_meaning
  networks_error_meaning
  files_args_meaning
  files_output_meaning
  files_error_meaning
  identify_args_meaning
  identify_output_meaning
  identify_error_meaning
  unlock_args_meaning
  unlock_output_meaning
  unlock_error_meaning
  lock_args_meaning
  lock_output_meaning
  lock_error_meaning
  disconnect_args_meaning
  disconnect_output_meaning
  disconnect_error_meaning
  snapshot_args_meaning
  snapshot_output_meaning
  snapshot_error_meaning
  network_status_args_meaning
  network_status_output_meaning
  network_status_error_meaning
  import_network_invitation_args_meaning
  import_network_invitation_output_meaning
  import_network_invitation_error_meaning
  catalogue_args_meaning
  catalogue_output_meaning
  catalogue_error_meaning
  history_args_meaning
  history_output_meaning
  history_error_meaning
  search_args_meaning
  search_output_meaning
  search_error_meaning
  submit_args_meaning
  submit_output_meaning
  submit_error_meaning
  complete_args_meaning
  complete_output_meaning
  complete_error_meaning
  mark_read_args_meaning
  mark_read_output_meaning
  mark_read_error_meaning
  events_args_meaning
  events_output_meaning
  events_error_meaning

end
