(* ===== verification/Api.thy ===== *)
theory Api
  imports Prelude
begin

text \<open>
  The wire vocabulary of \<open>ui/src/api.ts\<close>: one record per object type, one datatype per tagged
  union, with the source's constructors.  A field of type \<open>T | null\<close> or \<open>T?\<close> is an option.
\<close>

definition API_VERSION :: int where "API_VERSION = 3"

section \<open>Networks, files, updates\<close>

datatype network_state = Net_locked | Local_only | Invitation_required | Connecting | Connected
  | Reconnecting | Invitation_expired | Net_unavailable

record network_status =
  net_state :: network_state
  net_message :: string

record joined_network =
  net_id :: string
  net_name :: string
  net_fingerprint :: string
  net_primary :: bool
  net_status :: network_status

record invitation_preview =
  preview_network :: joined_network
  preview_channel :: "string option"
  preview_newNetwork :: bool
  preview_expires :: "int option"

datatype file_state = Offered | Importing | Downloading | Waiting_for_peers | Paused
  | File_complete | File_failed | File_cancelled

record file_publication =
  pub_name :: string
  pub_canonical_id :: string
  pub_sha256 :: string
  pub_publisher_safety_number :: string
  pub_sequence :: string
  pub_committed_unix :: string

record file_info =
  info_id :: string
  info_aliases :: "string list option"
  info_publication :: "file_publication option"
  info_conversation :: string
  info_name :: string
  info_size_bytes :: string
  info_verified_bytes :: string
  info_state :: file_state
  info_sources :: int
  info_verified_sources :: int
  info_completed_by :: int
  info_error :: "string option"

record file_snapshot =
  snap_files :: "file_info list"
  snap_quota_bytes :: string
  snap_used_bytes :: string
  snap_retention_days :: int

datatype file_request =
    File_list "string option"
  | File_publications "string option"
  | File_prepare (fr_id: string) (fr_conversation: string) (fr_name: string) (fr_size: string)
  | File_commit string
  | File_accept string
  | File_pause string
  | File_resume string
  | File_cancel string
  | File_configure string int

datatype update_request =
    Heartbeat string
  | Detach string
  | Prepare string string
  | Abort string string
  | Exit_app string string

datatype prepare_update_result = Attached | Ready int string | Busy string

section \<open>Conversations and messages\<close>

record build_info =
  build_releaseId :: string
  build_gchatCommit :: string
  build_gcomsCommit :: string
  build_version :: string

record instance_info =
  inst_build :: "build_info option"
  inst_id :: string
  inst_label :: string
  inst_bootId :: string
  inst_locked :: bool
  inst_protocolLocked :: bool
  inst_profileExists :: bool
  inst_archiveExists :: bool
  inst_safetyNumber :: string
  inst_capabilities :: "string list"

datatype message_kind = Text_message | Action_message | Notice_message

datatype member_presence = Available | Away string | Unknown_presence

record channel_policy =
  policy_profile :: string
  policy_capacity :: int
  policy_moderated :: bool
  policy_inviteOnly :: bool
  policy_topicOperators :: bool
  policy_presenceEnabled :: bool

record member =
  member_presence :: "member_presence option"
  member_id :: string
  member_nickname :: string
  member_isSelf :: bool
  member_recentlyActive :: "bool option"
  member_capabilities :: "string list"

record command_spec =
  cmd_name :: string
  cmd_usage :: string
  cmd_description :: string
  cmd_scope :: string
  cmd_capability :: "string option"
  cmd_available :: bool

datatype conversation_kind = Channel | Query | Archive

record conversation =
  conv_catchUp :: "int option"
  conv_muted :: "bool option"
  conv_policy :: "channel_policy option"
  conv_provider :: "string option"
  conv_id :: string
  conv_channelId :: string
  conv_kind :: conversation_kind
  conv_name :: string
  conv_topic :: string
  conv_active :: bool
  conv_owner :: bool
  conv_visibility :: "string option"
  conv_directory :: "string option"
  conv_members :: "member list"
  conv_unread :: int
  conv_lastMessageId :: "string option"
  conv_inputLimitBytes :: int
  conv_commands :: "command_spec list"

datatype delivery = Local_accepted | Delivered | Service_accepted | Delivery_failed

record artifact =
  art_name :: string
  art_url :: string

record action_result =
  res_id :: string
  res_messageId :: "string option"
  res_state :: string
  res_outputBase64 :: "string option"
  res_stderr :: bool
  res_details :: "string list"
  res_artifacts :: "artifact list"

record message =
  msg_highlighted :: "bool option"
  msg_messageKind :: "message_kind option"
  msg_id :: string
  msg_conversationId :: string
  msg_memberId :: "string option"
  msg_nickname :: string
  msg_body :: string
  msg_timestamp :: int
  msg_mine :: bool
  msg_operationId :: "string option"
  msg_delivery :: "delivery option"
  msg_result :: "action_result option"

record history_page =
  page_messages :: "message list"
  page_before :: "string option"

section \<open>Command output\<close>

record directory_entry =
  dir_name :: string
  dir_joined :: bool
  dir_conversation :: "string option"

record recovery_member =
  rec_id :: string
  rec_nickname :: string
  rec_isSelf :: bool
  rec_missingCommit :: bool
  rec_pendingMessages :: int

record invitation_record =
  inv_id :: string
  inv_expires :: "int option"
  inv_limit :: "int option"
  inv_admitted :: int
  inv_pending :: int
  inv_revoked :: bool

datatype command_output =
    Invitation_options string
  | Invitations string "invitation_record list"
  | Reusable_invitation string string string "int option" "int option" bool
  | Enrollment_output string string string int "string option"
  | Enrollments "command_output list"
  | Help "command_spec list"
  | Directory "directory_entry list"
  | Invitation string string int bool
  | Text_output string string
  | Status string
  | Close string
  | Membership_recovery string string string bool int "recovery_member list"

section \<open>Snapshots\<close>

record input_history_entry =
  hist_conversation :: "string option"
  hist_text :: string

record provider_status =
  prov_id :: string
  prov_code :: string
  prov_message :: string
  prov_retryable :: bool

record activity =
  act_id :: string
  act_conversation :: string
  act_kind :: string
  act_text :: string
  act_timestamp :: int

record operation_detail =
  op_network :: "string option"
  op_id :: string
  op_instance :: string
  op_conversation :: "string option"
  op_action :: string
  op_started :: int
  op_state :: string
  op_output :: "command_output option"
  op_message :: "string option"

record snapshot =
  sn_instance :: instance_info
  sn_revision :: string
  sn_conversations :: "conversation list"
  sn_commandHistory :: "string list"
  sn_inputHistory :: "input_history_entry list"
  sn_providerErrors :: "provider_status list"
  sn_operations :: "operation_detail list option"
  sn_activity :: "activity list option"
  sn_presenceEnabled :: "bool option"

record completion =
  compl_text :: string
  compl_description :: string

section \<open>Requests and responses\<close>

datatype request =
    Enrollment string string
  | Update update_request
  | Networks network_request
  | Files file_request
  | Identify
  | Unlock string bool
  | Lock
  | Disconnect
  | Snapshot
  | Network_status
  | Import_network_invitation string
  | Catalogue "string option"
  | History string "string option" int
  | Search string string "string option" int
  | Submit string "string option" string
  | Complete "string option" string
  | Mark_read string string
  | Events string int
and network_request =
    Net_list
  | Inspect string
  | Join string string string string
  | Call string request

datatype response =
    R_update prepare_update_result
  | R_networks network_response
  | R_files file_snapshot
  | R_network_status network_status
  | R_instance instance_info
  | R_snapshot snapshot
  | R_history history_page
  | R_completed "completion list"
  | R_catalogue "command_spec list"
  | R_projection "conversation list" string
  | R_output "string option" command_output
  | R_applied "string option" "string option"
  | R_changed string
  | R_error string string
and network_response =
    N_list "joined_network list"
  | N_preview invitation_preview
  | N_result string response

record request_envelope =
  env_version :: int
  env_instance :: "string option"
  env_request :: request

record response_envelope =
  reply_version :: int
  reply_instance :: string
  reply_response :: response

end
