(* ===== verification/Transport.thy ===== *)
theory Transport
  imports Api
begin

text \<open>
  \<open>ui/src/transport.ts\<close>: errors with their recovery action, the HTTP exchange, and the attachment
  that negotiates an API version and pins one instance.  An exchange is a parameter: a function of
  the outside world and the envelope, so every network is covered.  \<open>wire\<close> keeps, beside the
  world, the envelopes sent so far; the negotiation properties speak about that list.
\<close>

section \<open>Errors\<close>

record chat_error =
  err_code :: string
  err_message :: string

text \<open>What JavaScript code may throw: a \<open>ChatError\<close>; another object, with its \<open>code\<close> and
  \<open>message\<close> where they are strings, whether it is an \<open>Error\<close>, and its text; a primitive value.\<close>

datatype thrown =
    Thrown_chat chat_error
  | Thrown_object "string option" "string option" bool string
  | Thrown_value string

type_synonym 'a outcome = "(thrown, 'a) result"

definition ChatError :: "string \<Rightarrow> string \<Rightarrow> chat_error" where
  "ChatError c m = \<lparr>err_code = c, err_message = m\<rparr>"

definition throw_chat :: "string \<Rightarrow> string \<Rightarrow> 'a outcome" where
  "throw_chat c m = Inl (Thrown_chat (ChatError c m))"

definition retryable :: "chat_error \<Rightarrow> bool" where
  "retryable e \<longleftrightarrow> err_code e \<in> {''transport'', ''timeout'', ''unavailable''}"

definition action :: "chat_error \<Rightarrow> string" where
  "action e =
     (if err_code e = ''authentication'' then ''Sign in again''
      else if err_code e = ''version'' then ''Update and reopen''
      else if err_code e = ''instance'' then ''Reopen selected instance''
      else if err_code e = ''locked'' then ''Unlock chat''
      else if err_code e = ''disconnected'' then ''Reconnect this instance''
      else if err_code e = ''host_configuration'' then ''Retry after configuration repair''
      else if err_code e = ''host_mismatch'' then ''Retry after host restart''
      else if err_code e = ''host_unavailable'' then ''Retry host connection''
      else if retryable e then ''Reconnect'' else ''Review request'')"

definition chatError :: "thrown \<Rightarrow> chat_error" where
  "chatError t = (case t of
       Thrown_chat e \<Rightarrow> e
     | Thrown_object (Some c) (Some m) _ _ \<Rightarrow> ChatError c m
     | Thrown_object _ (Some m) True _ \<Rightarrow> ChatError ''transport'' m
     | Thrown_object _ _ _ shown \<Rightarrow> ChatError ''transport'' shown
     | Thrown_value shown \<Rightarrow> ChatError ''transport'' shown)"

section \<open>Attachment\<close>

type_synonym 'w exchange = "'w \<Rightarrow> request_envelope \<Rightarrow> 'w \<times> response_envelope outcome"

record 'w wire =
  world :: 'w
  sent :: "request_envelope list"

definition send :: "'w exchange \<Rightarrow> 'w wire \<Rightarrow> request_envelope \<Rightarrow> 'w wire \<times> response_envelope outcome" where
  "send exchange s e = (case exchange (world s) e of (w, r) \<Rightarrow> (\<lparr>world = w, sent = sent s @ [e]\<rparr>, r))"

record attachment =
  att_version :: int
  att_instance :: string

definition envelope :: "int \<Rightarrow> string option \<Rightarrow> request \<Rightarrow> request_envelope" where
  "envelope version inst r = \<lparr>env_version = version, env_instance = inst, env_request = r\<rparr>"

definition version_refused :: "response \<Rightarrow> bool" where
  "version_refused r = (case r of R_error c _ \<Rightarrow> c = ''version'' | _ \<Rightarrow> False)"

text \<open>The checks on the handshake's last reply; an empty expectation is none.\<close>

definition accept_handshake :: "int \<Rightarrow> string option \<Rightarrow> response_envelope \<Rightarrow> attachment outcome" where
  "accept_handshake version expected first =
     (if reply_version first \<noteq> version
      then throw_chat ''version'' ''Selected instance API version does not match this client''
      else case reply_response first of
          R_error c m \<Rightarrow> throw_chat c m
        | R_instance i \<Rightarrow>
            if reply_instance first \<noteq> inst_id i
              \<or> (expected \<noteq> None \<and> expected \<noteq> Some [] \<and> expected \<noteq> Some (reply_instance first))
            then throw_chat ''instance'' ''Selected instance does not match this attachment''
            else Inr \<lparr>att_version = version, att_instance = reply_instance first\<rparr>
        | _ \<Rightarrow> throw_chat ''instance'' ''Selected instance does not match this attachment'')"

definition attach :: "'w exchange \<Rightarrow> string option \<Rightarrow> 'w wire \<Rightarrow> 'w wire \<times> attachment outcome" where
  "attach exchange expected s =
     (case send exchange s (envelope API_VERSION None Identify) of
        (s1, Inl e) \<Rightarrow> (s1, Inl e)
      | (s1, Inr first) \<Rightarrow>
          if reply_version first = 2 \<and> version_refused (reply_response first) then
            (case send exchange s1 (envelope 2 None Identify) of
               (s2, Inl e) \<Rightarrow> (s2, Inl e)
             | (s2, Inr second) \<Rightarrow>
                 if reply_instance second \<noteq> reply_instance first
                 then (s2, throw_chat ''instance'' ''Selected instance changed during version negotiation'')
                 else (s2, accept_handshake 2 expected second))
          else (s1, accept_handshake API_VERSION expected first))"

definition accept_reply :: "attachment \<Rightarrow> response_envelope \<Rightarrow> response outcome" where
  "accept_reply a result =
     (if reply_version result \<noteq> att_version a
      then throw_chat ''version'' ''Selected instance API version does not match this client''
      else if reply_instance result \<noteq> att_instance a
      then throw_chat ''instance'' ''Selected instance changed; reopen this attachment explicitly''
      else case reply_response result of R_error c m \<Rightarrow> throw_chat c m | r \<Rightarrow> Inr r)"

definition attached_request :: "'w exchange \<Rightarrow> attachment \<Rightarrow> 'w wire \<Rightarrow> request \<Rightarrow> 'w wire \<times> response outcome" where
  "attached_request exchange a s r =
     (case send exchange s (envelope (att_version a) (Some (att_instance a)) r) of
        (s1, Inl e) \<Rightarrow> (s1, Inl e)
      | (s1, Inr result) \<Rightarrow> (s1, accept_reply a result))"

text \<open>A session: attach, then any requests, whatever their outcomes.\<close>

fun requests :: "'w exchange \<Rightarrow> attachment \<Rightarrow> 'w wire \<Rightarrow> request list \<Rightarrow> 'w wire \<times> response outcome list" where
  "requests exchange a s [] = (s, [])"
| "requests exchange a s (r # rs) =
     (case attached_request exchange a s r of (s1, o1) \<Rightarrow>
      case requests exchange a s1 rs of (s2, os) \<Rightarrow> (s2, o1 # os))"

definition session :: "'w exchange \<Rightarrow> string option \<Rightarrow> 'w \<Rightarrow> request list \<Rightarrow> 'w wire \<times> attachment outcome \<times> response outcome list" where
  "session exchange expected w rs =
     (case attach exchange expected \<lparr>world = w, sent = []\<rparr> of
        (s, Inl e) \<Rightarrow> (s, Inl e, [])
      | (s, Inr a) \<Rightarrow> (case requests exchange a s rs of (s', os) \<Rightarrow> (s', Inr a, os)))"

section \<open>HTTP\<close>

text \<open>The browser's \<open>fetch\<close> is a parameter: it fails, or answers with a status and a body that may
  or may not be the JSON of a reply.\<close>

type_synonym 'w fetch = "'w \<Rightarrow> request_envelope \<Rightarrow> 'w \<times> (nat \<times> response_envelope outcome) outcome"

definition http_error :: "nat \<Rightarrow> chat_error" where
  "http_error status =
     ChatError (if status = 401 then ''authentication'' else if status = 403 then ''forbidden''
                else if status \<ge> 500 then ''unavailable'' else ''request'')
       (if status = 401 then ''Your login has expired. Sign in again to reopen this instance.''
        else if status = 403 then ''This attachment no longer has permission to access this instance.''
        else ''Selected instance unavailable ('' @ decimal status @ '')'')"

definition httpExchange :: "'w fetch \<Rightarrow> 'w exchange" where
  "httpExchange fetch w e = (case fetch w e of
       (w', Inl t) \<Rightarrow> (w', Inl t)
     | (w', Inr (status, body)) \<Rightarrow>
         if \<not> (200 \<le> status \<and> status < 300) then (w', Inl (Thrown_chat (http_error status))) else (w', body))"

section \<open>The contract of a transport\<close>

definition is_error :: "response \<Rightarrow> bool" where
  "is_error r = (case r of R_error _ _ \<Rightarrow> True | _ \<Rightarrow> False)"

text \<open>What a client of the \<open>Transport\<close> interface may rely on: an error answer is thrown, never
  returned.\<close>

locale transport =
  fixes request :: "'w \<Rightarrow> request \<Rightarrow> 'w \<times> response outcome"
  assumes no_error: "request w r = (w', Inr x) \<Longrightarrow> \<not> is_error x"
begin

lemma answer_cases:
  assumes "request w r = (w', out)"
  obtains t where "out = Inl t" | x where "out = Inr x" "\<not> is_error x"
  using assms no_error by (cases out) auto

end

lemma accept_reply_Inr:
  "accept_reply a result = Inr r \<longleftrightarrow> reply_version result = att_version a \<and> reply_instance result = att_instance a
     \<and> reply_response result = r \<and> \<not> is_error r"
  by (auto simp: accept_reply_def throw_chat_def is_error_def split: response.splits)

lemma attached_request_no_error: "attached_request exchange a s r = (s', Inr x) \<Longrightarrow> \<not> is_error x"
  by (auto simp: attached_request_def accept_reply_Inr split: prod.splits sum.splits)

interpretation attached: transport "attached_request exchange a" for exchange a
  by unfold_locales (rule attached_request_no_error)

section \<open>What is sent\<close>

lemma send_sent: "send exchange s e = (s', r) \<Longrightarrow> sent s' = sent s @ [e]"
  by (auto simp: send_def split: prod.splits)

lemma attached_request_sent:
  "attached_request exchange a s r = (s', x) \<Longrightarrow>
     sent s' = sent s @ [envelope (att_version a) (Some (att_instance a)) r]"
  by (auto simp: attached_request_def dest: send_sent split: prod.splits sum.splits)

lemma requests_sent:
  "requests exchange a s rs = (s', os) \<Longrightarrow>
     sent s' = sent s @ map (envelope (att_version a) (Some (att_instance a))) rs \<and> length os = length rs"
proof (induction rs arbitrary: s s' os)
  case (Cons r rs)
  obtain s1 o1 where 1: "attached_request exchange a s r = (s1, o1)" by fastforce
  obtain s2 os2 where 2: "requests exchange a s1 rs = (s2, os2)" by fastforce
  show ?case using Cons.prems Cons.IH [OF 2] attached_request_sent [OF 1] by (auto simp: 1 2)
qed simp

lemma accept_handshake_Inr:
  assumes "accept_handshake v expected first = Inr a"
  shows "reply_version first = v" "att_version a = v" "att_instance a = reply_instance first"
    "\<exists>i. reply_response first = R_instance i \<and> inst_id i = att_instance a"
    "expected = None \<or> expected = Some [] \<or> expected = Some (att_instance a)"
  using assms by (auto simp: accept_handshake_def throw_chat_def split: if_splits response.splits)

definition expected_ok :: "string option \<Rightarrow> attachment \<Rightarrow> bool" where
  "expected_ok expected a \<longleftrightarrow> expected = None \<or> expected = Some [] \<or> expected = Some (att_instance a)"

lemma attach_cases:
  assumes "attach exchange expected s = (s', r)"
  obtains
    (direct) "sent s' = sent s @ [envelope API_VERSION None Identify]"
      "\<And>a. r = Inr a \<Longrightarrow> att_version a = API_VERSION \<and> expected_ok expected a"
  | (downgraded) first w1 where
      "sent s' = sent s @ [envelope API_VERSION None Identify, envelope 2 None Identify]"
      "exchange (world s) (envelope API_VERSION None Identify) = (w1, Inr first)"
      "reply_version first = 2" "version_refused (reply_response first)"
      "\<And>a. r = Inr a \<Longrightarrow> att_version a = 2 \<and> expected_ok expected a \<and> att_instance a = reply_instance first"
proof -
  obtain s1 o1 where 1: "send exchange s (envelope API_VERSION None Identify) = (s1, o1)" by fastforce
  have sent1: "sent s1 = sent s @ [envelope API_VERSION None Identify]" by (rule send_sent [OF 1])
  show thesis
  proof (cases o1)
    case (Inl e)
    then show thesis using direct assms sent1 by (auto simp: attach_def 1)
  next
    case (Inr first)
    show thesis
    proof (cases "reply_version first = 2 \<and> version_refused (reply_response first)")
      case False
      then have "s' = s1" "r = accept_handshake API_VERSION expected first"
        using assms Inr by (auto simp: attach_def 1)
      then show thesis using direct sent1 accept_handshake_Inr unfolding expected_ok_def by metis
    next
      case True
      obtain s2 o2 where 2: "send exchange s1 (envelope 2 None Identify) = (s2, o2)" by fastforce
      have sent2: "sent s2 = sent s @ [envelope API_VERSION None Identify, envelope 2 None Identify]"
        using send_sent [OF 2] sent1 by simp
      obtain w1 where w1: "exchange (world s) (envelope API_VERSION None Identify) = (w1, Inr first)"
        using 1 Inr by (auto simp: send_def split: prod.splits)
      have s': "s' = s2" using assms Inr True by (auto simp: attach_def 1 2 split: sum.splits if_splits)
      have "att_version a = 2 \<and> expected_ok expected a \<and> att_instance a = reply_instance first" if ra: "r = Inr a" for a
      proof -
        obtain second where "o2 = Inr second" "reply_instance second = reply_instance first"
            "accept_handshake 2 expected second = Inr a"
          using assms Inr True ra by (auto simp: attach_def 1 2 throw_chat_def split: sum.splits if_splits)
        then show ?thesis using accept_handshake_Inr unfolding expected_ok_def by metis
      qed
      then show thesis using downgraded [of w1 first] sent2 s' w1 True by blast
    qed
  qed
qed

section \<open>Properties\<close>

text \<open>C9: Pinning.  In any session only the read-only handshake is sent before an attachment is
  fixed: one \<open>identify\<close> in the current dialect, at most one more in the retained dialect 2.  Then
  every request is sent exactly once, in order, under the attachment's version and instance,
  whatever the replies are; and an expected instance is the attached one.\<close>

theorem session_pins:
  assumes "session exchange expected w rs = (s, r, os)"
  shows "\<exists>h \<in> {[envelope API_VERSION None Identify], [envelope API_VERSION None Identify, envelope 2 None Identify]}.
    case r of
      Inl t \<Rightarrow> sent s = h \<and> os = []
    | Inr a \<Rightarrow> sent s = h @ map (envelope (att_version a) (Some (att_instance a))) rs
        \<and> att_version a = env_version (last h) \<and> expected_ok expected a \<and> length os = length rs"
proof -
  obtain s1 r1 where a: "attach exchange expected \<lparr>world = w, sent = []\<rparr> = (s1, r1)" by fastforce
  obtain h where h: "h \<in> {[envelope API_VERSION None Identify], [envelope API_VERSION None Identify, envelope 2 None Identify]}"
    "sent s1 = h" "\<And>a. r1 = Inr a \<Longrightarrow> att_version a = env_version (last h) \<and> expected_ok expected a"
    using a by (cases rule: attach_cases) (auto simp: envelope_def)
  show ?thesis
  proof (cases r1)
    case (Inl t)
    then show ?thesis using assms a h by (intro bexI [OF _ h(1)]) (auto simp: session_def)
  next
    case (Inr a')
    obtain s2 os2 where 2: "requests exchange a' s1 rs = (s2, os2)" by fastforce
    then have "s = s2" "r = Inr a'" "os = os2" using assms a Inr by (auto simp: session_def)
    then show ?thesis using requests_sent [OF 2] h Inr by (intro bexI [OF _ h(1)]) auto
  qed
qed

definition old_service :: "unit exchange" where
  "old_service w e = (w, Inr \<lparr>reply_version = 2, reply_instance = ''selected'',
     reply_response = (if env_version e \<noteq> 2 then R_error ''version'' ''Use API 2''
       else case env_request e of
         Identify \<Rightarrow> R_instance \<lparr>inst_build = None, inst_id = ''selected'', inst_label = ''selected'', inst_bootId = ''boot'',
           inst_locked = False, inst_protocolLocked = False, inst_profileExists = True, inst_archiveExists = True,
           inst_safetyNumber = ''safety'', inst_capabilities = []\<rparr>
       | _ \<Rightarrow> R_applied None None)\<rparr>)"

lemma old_service_session:
  "session old_service None () [Submit ''op'' None ''text''] =
     (\<lparr>world = (), sent = [envelope 3 None Identify, envelope 2 None Identify,
         envelope 2 (Some ''selected'') (Submit ''op'' None ''text'')]\<rparr>,
      Inr \<lparr>att_version = 2, att_instance = ''selected''\<rparr>, [Inr (R_applied None None)])"
  by (simp add: session_def attach_def send_def old_service_def envelope_def API_VERSION_def version_refused_def
      accept_handshake_def attached_request_def accept_reply_def)

theorem session_pins_witness:
  "\<exists>s a os. session old_service None () [Submit ''op'' None ''text''] = (s, Inr a, os) \<and> att_version a = 2
     \<and> length os = 1 \<and> length (sent s) \<ge> 2"
proof -
  from session_pins [OF old_service_session]
  show ?thesis unfolding old_service_session by auto
qed

text \<open>C24: Downgrading.  An attachment in the retained dialect 2 exists only when the selected
  service itself refused the current version in that dialect, and it is attached to that very
  instance; otherwise the attachment is in the current dialect.\<close>

theorem downgrade_only_on_refusal:
  assumes "attach exchange expected s = (s', Inr a)"
  shows "att_version a = API_VERSION \<or>
    (att_version a = 2 \<and> (\<exists>w first. exchange (world s) (envelope API_VERSION None Identify) = (w, Inr first)
       \<and> reply_version first = 2 \<and> version_refused (reply_response first) \<and> reply_instance first = att_instance a))"
proof (cases rule: attach_cases [OF assms])
  case (2 first w1)
  from 2(5) [OF refl] show ?thesis using 2(2-4) by auto
qed blast

theorem downgrade_only_on_refusal_witness:
  "\<exists>s a. attach old_service None \<lparr>world = (), sent = []\<rparr> = (s, Inr a) \<and> att_version a = 2
     \<and> (\<exists>w first. old_service () (envelope API_VERSION None Identify) = (w, Inr first) \<and> reply_instance first = att_instance a)"
proof -
  have "attach old_service None \<lparr>world = (), sent = []\<rparr> =
      (\<lparr>world = (), sent = [envelope 3 None Identify, envelope 2 None Identify]\<rparr>,
       Inr \<lparr>att_version = 2, att_instance = ''selected''\<rparr>)"
    by (simp add: attach_def send_def old_service_def envelope_def API_VERSION_def version_refused_def
        accept_handshake_def)
  from this downgrade_only_on_refusal [OF this] show ?thesis by (auto simp: API_VERSION_def)
qed

text \<open>Binding of replies.  A request through an attachment succeeds exactly when the exchange
  answered its one envelope with a reply of the pinned version and instance that is not an error;
  the result is that reply's response.\<close>

theorem attached_request_iff:
  "attached_request exchange a s r = (s', Inr x) \<longleftrightarrow>
     (\<exists>reply. send exchange s (envelope (att_version a) (Some (att_instance a)) r) = (s', Inr reply)
        \<and> reply_version reply = att_version a \<and> reply_instance reply = att_instance a
        \<and> reply_response reply = x \<and> \<not> is_error x)"
  by (auto simp: attached_request_def accept_reply_Inr split: prod.splits sum.splits)

text \<open>Recovery actions.  The action offered for an error is to reconnect exactly when the
  error is retryable; an HTTP refusal of the login is never retried and asks to sign in again, a
  server failure is retryable, and turning an error into a \<open>ChatError\<close> twice changes nothing.\<close>

theorem recovery_actions:
  "(action e = ''Reconnect'' \<longleftrightarrow> retryable e) \<and>
   action (http_error 401) = ''Sign in again'' \<and> \<not> retryable (http_error 401) \<and>
   (\<forall>n. retryable (http_error n) \<longleftrightarrow> n \<ge> 500) \<and>
   chatError (Thrown_chat (chatError t)) = chatError t"
  by (auto simp: action_def retryable_def http_error_def ChatError_def chatError_def)

end
