(* ===== verification/Json_Text.thy ===== *)
theory Json_Text
  imports Prelude
begin

text \<open>
  \<open>JSON.stringify\<close> on strings and on arrays of strings, as the code uses it to build keys, and the
  proof that such keys are unambiguous.
\<close>

definition hex_digit :: "nat \<Rightarrow> char" where
  "hex_digit n = ''0123456789abcdef'' ! (n mod 16)"

text \<open>One character inside a JSON string literal.\<close>

definition escape :: "char \<Rightarrow> string" where
  "escape c = (let n = of_char c :: nat in
     if n = 0x22 then [CHR 0x5C, CHR 0x22]
     else if n = 0x5C then [CHR 0x5C, CHR 0x5C]
     else if n = 8 then [CHR 0x5C, CHR ''b'']
     else if n = 9 then [CHR 0x5C, CHR ''t'']
     else if n = 10 then [CHR 0x5C, CHR ''n'']
     else if n = 12 then [CHR 0x5C, CHR ''f'']
     else if n = 13 then [CHR 0x5C, CHR ''r'']
     else if n < 0x20 then [CHR 0x5C, CHR ''u'', CHR ''0'', CHR ''0'', hex_digit (n div 16), hex_digit n]
     else [c])"

definition quote :: "string \<Rightarrow> string" where
  "quote s = CHR 0x22 # concat (map escape s) @ [CHR 0x22]"

fun comma_separated :: "string list \<Rightarrow> string" where
  "comma_separated [] = []"
| "comma_separated [x] = x"
| "comma_separated (x # xs) = x @ '','' @ comma_separated xs"

definition stringify_strings :: "string list \<Rightarrow> string" where
  "stringify_strings xs = ''['' @ comma_separated (map quote xs) @ '']''"

lemma hex_digit_inject: "m < 16 \<Longrightarrow> n < 16 \<Longrightarrow> hex_digit m = hex_digit n \<longleftrightarrow> m = n"
  unfolding hex_digit_def by (subst nth_eq_iff_index_eq) simp_all

text \<open>The shapes of an escaped character: an escape starts with a backslash and its second character
  tells which it is.\<close>

lemma escape_cases:
  obtains (plain) "escape c = [c]" "c \<noteq> CHR 0x5C" "c \<noteq> CHR 0x22"
  | (short) d where "escape c = [CHR 0x5C, d]" "d \<noteq> CHR ''u''"
      "(of_char c, d) \<in> {(0x22 :: nat, CHR 0x22), (0x5C, CHR 0x5C), (8, CHR ''b''), (9, CHR ''t''), (10, CHR ''n''),
        (12, CHR ''f''), (13, CHR ''r'')}"
  | (long) n where "escape c = [CHR 0x5C, CHR ''u'', CHR ''0'', CHR ''0'', hex_digit (n div 16), hex_digit n]"
      "c = char_of n" "n < 32"
proof -
  define n where "n = (of_char c :: nat)"
  have c: "c = char_of n" by (simp add: n_def)
  consider "n \<in> {0x22, 0x5C, 8, 9, 10, 12, 13}" | "n \<notin> {0x22, 0x5C, 8, 9, 10, 12, 13}" "n < 0x20"
    | "n \<notin> {0x22, 0x5C, 8, 9, 10, 12, 13}" "\<not> n < 0x20" by blast
  then show thesis
  proof cases
    case 1
    then show thesis using short by (auto simp: escape_def n_def [symmetric] Let_def)
  next
    case 2
    then show thesis using long [of n] c by (simp add: escape_def n_def [symmetric] Let_def)
  next
    case 3
    have "c \<noteq> CHR 0x5C" "c \<noteq> CHR 0x22" using 3(1) by (auto simp: n_def)
    then show thesis using plain 3 by (simp add: escape_def n_def [symmetric] Let_def)
  qed
qed

lemma escape_inject: "escape c @ x = escape d @ y \<longleftrightarrow> c = d \<and> x = y"
proof
  assume e: "escape c @ x = escape d @ y"
  show "c = d \<and> x = y"
  proof (cases c rule: escape_cases)
    case plain
    with e show ?thesis by (cases d rule: escape_cases) auto
  next
    case (short k)
    with e show ?thesis
    proof (cases d rule: escape_cases)
      case (short l)
      then have "k = l" "x = y" using e \<open>escape c = _\<close> by auto
      then have "(of_char c :: nat) = of_char d"
        using short(3) \<open>(of_char c, k) \<in> _\<close> by (auto simp del: of_char_eq_iff)
      then have "c = d" by (rule of_char_eqI)
      then show ?thesis using \<open>x = y\<close> by blast
    qed auto
  next
    case (long n)
    with e show ?thesis
    proof (cases d rule: escape_cases)
      case (long m)
      then have "hex_digit (n div 16) = hex_digit (m div 16)" "hex_digit (n mod 16) = hex_digit (m mod 16)" "x = y"
        using e \<open>escape c = _\<close> by (auto simp: hex_digit_def)
      then have "n div 16 = m div 16" "n mod 16 = m mod 16"
        using hex_digit_inject long(3) \<open>n < 32\<close> by simp_all
      then have "n = m" by (metis div_mult_mod_eq)
      then show ?thesis using \<open>x = y\<close> long \<open>c = char_of n\<close> by simp
    qed auto
  qed
qed simp

lemma escape_not_quote: "escape c \<noteq> []" "hd (escape c) \<noteq> CHR 0x22"
  by (cases c rule: escape_cases; simp)+

lemma escaped_inject:
  "concat (map escape s) @ CHR 0x22 # x = concat (map escape t) @ CHR 0x22 # y \<longleftrightarrow> s = t \<and> x = y"
proof (induction s arbitrary: t)
  case Nil
  show ?case
  proof (cases t)
    case (Cons d t')
    have "hd (escape d @ r) \<noteq> CHR 0x22" for r using escape_not_quote [of d] by simp
    then show ?thesis using Cons by simp (metis list.sel(1))
  qed simp
next
  case (Cons c s)
  show ?case
  proof (cases t)
    case Nil
    have "hd (escape c @ r) \<noteq> CHR 0x22" for r using escape_not_quote [of c] by simp
    then show ?thesis using Nil by simp (metis list.sel(1))
  next
    case (Cons d t')
    then show ?thesis using Cons.IH by (simp add: escape_inject)
  qed
qed

lemma quote_inject: "quote s @ x = quote t @ y \<longleftrightarrow> s = t \<and> x = y"
  by (simp add: quote_def escaped_inject)

lemma stringify_three: "stringify_strings [a, b, c] = stringify_strings [a', b', c'] \<longleftrightarrow> a = a' \<and> b = b' \<and> c = c'"
  by (simp add: stringify_strings_def quote_inject quote_inject [of c "[]" c' "[]", simplified])

end
