(* ===== verification/Utf8.thy ===== *)
theory Utf8
  imports Prelude "HOL-Library.Word"
begin

text \<open>
  The text encodings of the JavaScript standard library, as far as the invitation card uses
  them: strings as lists of 16-bit code units, \<open>TextEncoder\<close> (lone surrogates become U+FFFD),
  \<open>TextDecoder('utf-8', fatal)\<close> (every malformed sequence is an error, a leading byte order mark
  is dropped) and \<open>String.prototype.trim\<close>.  The central lemma \<open>utf8_decode_encode\<close> says what
  is left of a string after encoding and decoding it.
\<close>

type_synonym units = "16 word list"
type_synonym bytes = "8 word list"

definition ascii :: "string \<Rightarrow> units" where
  "ascii s = map of_char s"

section \<open>Code units and scalar values\<close>

definition high_surrogate :: "nat \<Rightarrow> bool" where
  "high_surrogate u \<longleftrightarrow> 0xD800 \<le> u \<and> u < 0xDC00"

definition low_surrogate :: "nat \<Rightarrow> bool" where
  "low_surrogate u \<longleftrightarrow> 0xDC00 \<le> u \<and> u < 0xE000"

definition scalar :: "nat \<Rightarrow> bool" where
  "scalar c \<longleftrightarrow> c < 0xD800 \<or> (0xE000 \<le> c \<and> c < 0x110000)"

fun scalars :: "nat list \<Rightarrow> nat list" where
  "scalars [] = []"
| "scalars [u] = [if high_surrogate u \<or> low_surrogate u then 0xFFFD else u]"
| "scalars (u # v # us) =
     (if high_surrogate u \<and> low_surrogate v
      then (0x10000 + (u - 0xD800) * 0x400 + (v - 0xDC00)) # scalars us
      else (if high_surrogate u \<or> low_surrogate u then 0xFFFD else u) # scalars (v # us))"

definition utf16 :: "nat \<Rightarrow> nat list" where
  "utf16 c = (if c < 0x10000 then [c]
     else [0xD800 + (c - 0x10000) div 0x400, 0xDC00 + (c - 0x10000) mod 0x400])"

section \<open>UTF-8\<close>

definition utf8 :: "nat \<Rightarrow> nat list" where
  "utf8 c = (if c < 0x80 then [c]
     else if c < 0x800 then [0xC0 + c div 64, 0x80 + c mod 64]
     else if c < 0x10000 then [0xE0 + c div 4096, 0x80 + c div 64 mod 64, 0x80 + c mod 64]
     else [0xF0 + c div 262144, 0x80 + c div 4096 mod 64, 0x80 + c div 64 mod 64, 0x80 + c mod 64])"

text \<open>A lead byte: the number of bytes that follow, the bounds of the first of them, and the
  lead's own bits.\<close>

definition lead_byte :: "nat \<Rightarrow> (nat \<times> nat \<times> nat \<times> nat) option" where
  "lead_byte b =
     (if 0xC2 \<le> b \<and> b \<le> 0xDF then Some (1, 0x80, 0xBF, b - 0xC0)
      else if 0xE0 \<le> b \<and> b \<le> 0xEF then
        Some (2, if b = 0xE0 then 0xA0 else 0x80, if b = 0xED then 0x9F else 0xBF, b - 0xE0)
      else if 0xF0 \<le> b \<and> b \<le> 0xF4 then
        Some (3, if b = 0xF0 then 0x90 else 0x80, if b = 0xF4 then 0x8F else 0xBF, b - 0xF0)
      else None)"

definition continuation :: "nat \<Rightarrow> nat \<Rightarrow> nat list \<Rightarrow> bool" where
  "continuation lo hi bs = (case bs of [] \<Rightarrow> False
     | b # r \<Rightarrow> lo \<le> b \<and> b \<le> hi \<and> list_all (\<lambda>c. 0x80 \<le> c \<and> c \<le> 0xBF) r)"

fun decode_scalars :: "nat list \<Rightarrow> nat list option" where
  "decode_scalars [] = Some []"
| "decode_scalars (b # bs) =
     (if b < 0x80 then map_option (Cons b) (decode_scalars bs)
      else case lead_byte b of None \<Rightarrow> None
      | Some (n, lo, hi, c) \<Rightarrow>
          if n \<le> length bs \<and> continuation lo hi (take n bs)
          then map_option (Cons (foldl (\<lambda>c b. c * 64 + (b - 0x80)) c (take n bs)))
                 (decode_scalars (drop n bs))
          else None)"

definition drop_mark :: "nat list \<Rightarrow> nat list" where
  "drop_mark cs = (case cs of c # r \<Rightarrow> if c = 0xFEFF then r else cs | [] \<Rightarrow> [])"

definition utf8_encode :: "units \<Rightarrow> bytes" where
  "utf8_encode s = map of_nat (concat (map utf8 (scalars (map unat s))))"

definition utf8_decode :: "bytes \<Rightarrow> units option" where
  "utf8_decode bs = map_option (\<lambda>cs. map of_nat (concat (map utf16 (drop_mark cs))))
     (decode_scalars (map unat bs))"

section \<open>Trimming\<close>

definition white :: "16 word \<Rightarrow> bool" where
  "white u \<longleftrightarrow> u \<in> {9, 10, 11, 12, 13, 32, 0xA0, 0x1680, 0x2028, 0x2029, 0x202F, 0x205F, 0x3000, 0xFEFF}
     \<or> (0x2000 \<le> u \<and> u \<le> 0x200A)"

definition trim :: "units \<Rightarrow> units" where
  "trim s = rev (dropWhile white (rev (dropWhile white s)))"

definition trimmed :: "units \<Rightarrow> bool" where
  "trimmed s \<longleftrightarrow> s = [] \<or> \<not> white (hd s) \<and> \<not> white (last s)"

text \<open>What survives of a string: each lone surrogate is replaced.\<close>

fun mend :: "nat list \<Rightarrow> nat list" where
  "mend [] = []"
| "mend [u] = [if high_surrogate u \<or> low_surrogate u then 0xFFFD else u]"
| "mend (u # v # us) =
     (if high_surrogate u \<and> low_surrogate v then u # v # mend us
      else (if high_surrogate u \<or> low_surrogate u then 0xFFFD else u) # mend (v # us))"

definition well_formed :: "units \<Rightarrow> units" where
  "well_formed s = map of_nat (mend (map unat s))"

section \<open>Round trip of the encodings\<close>

lemma split_4096: "c = 4096 * (c div 4096) + 64 * (c div 64 mod 64) + c mod 64" for c :: nat
proof -
  have "c = 64 * (c div 64) + c mod 64" by simp
  moreover have "c div 64 = 64 * (c div 64 div 64) + c div 64 mod 64" by simp
  moreover have "c div 64 div 64 = c div 4096" by (simp add: div_mult2_eq [symmetric])
  ultimately show ?thesis by linarith
qed

lemma split_262144:
  "c = 262144 * (c div 262144) + 4096 * (c div 4096 mod 64) + 64 * (c div 64 mod 64) + c mod 64"
  for c :: nat
proof -
  have "c div 4096 = 64 * (c div 4096 div 64) + c div 4096 mod 64" by simp
  moreover have "c div 4096 div 64 = c div 262144" by (simp add: div_mult2_eq [symmetric])
  ultimately show ?thesis using split_4096 [of c] by linarith
qed

lemma decode_two:
  assumes "0x80 \<le> c" "c < 0x800"
  shows "decode_scalars (utf8 c @ r) = map_option (Cons c) (decode_scalars r)"
proof -
  have "c = 64 * (c div 64) + c mod 64" "2 \<le> c div 64" "c div 64 < 32" "c mod 64 \<le> 63"
    using assms by auto
  then show ?thesis using assms
    by (simp add: utf8_def lead_byte_def continuation_def)
qed

lemma decode_three:
  assumes "0x800 \<le> c" "c < 0x10000" "scalar c"
  shows "decode_scalars (utf8 c @ r) = map_option (Cons c) (decode_scalars r)"
proof -
  define x y z where "x = c div 4096" and "y = c div 64 mod 64" and "z = c mod 64"
  have c: "c = 4096 * x + 64 * y + z" using split_4096 [of c] by (simp add: x_def y_def z_def)
  have b: "y < 64" "z < 64" by (simp_all add: y_def z_def)
  have x: "x < 16" using assms c by linarith
  have e: "utf8 c = [0xE0 + x, 0x80 + y, 0x80 + z]"
    using assms by (simp add: utf8_def x_def y_def z_def)
  have first: "x = 0 \<Longrightarrow> 32 \<le> y" "x = 13 \<Longrightarrow> y < 32"
    using assms c b by (auto simp: scalar_def)
  have "lead_byte (0xE0 + x) = Some (2, if x = 0 then 0xA0 else 0x80, if x = 13 then 0x9F else 0xBF, x)"
    using x by (auto simp: lead_byte_def)
  moreover have "continuation (if x = 0 then 0xA0 else 0x80) (if x = 13 then 0x9F else 0xBF) [0x80 + y, 0x80 + z]"
    using b first by (auto simp: continuation_def)
  ultimately show ?thesis by (simp add: e) (simp add: c algebra_simps)
qed

lemma decode_four:
  assumes "0x10000 \<le> c" "scalar c"
  shows "decode_scalars (utf8 c @ r) = map_option (Cons c) (decode_scalars r)"
proof -
  define w x y z where "w = c div 262144" and "x = c div 4096 mod 64" and "y = c div 64 mod 64" and "z = c mod 64"
  have c: "c = 262144 * w + 4096 * x + 64 * y + z"
    using split_262144 [of c] by (simp add: w_def x_def y_def z_def)
  have b: "x < 64" "y < 64" "z < 64" by (simp_all add: x_def y_def z_def)
  have top: "c < 0x110000" using assms by (auto simp: scalar_def)
  have w: "w \<le> 4" using top c by linarith
  have e: "utf8 c = [0xF0 + w, 0x80 + x, 0x80 + y, 0x80 + z]"
    using assms by (simp add: utf8_def w_def x_def y_def z_def)
  have first: "w = 0 \<Longrightarrow> 16 \<le> x" "w = 4 \<Longrightarrow> x < 16"
    using assms top c b by auto
  have "lead_byte (0xF0 + w) = Some (3, if w = 0 then 0x90 else 0x80, if w = 4 then 0x8F else 0xBF, w)"
    using w by (auto simp: lead_byte_def)
  moreover have "continuation (if w = 0 then 0x90 else 0x80) (if w = 4 then 0x8F else 0xBF) [0x80 + x, 0x80 + y, 0x80 + z]"
    using b first by (auto simp: continuation_def)
  moreover have "foldl (\<lambda>c b. c * 64 + (b - 0x80)) w [0x80 + x, 0x80 + y, 0x80 + z] = c"
    by (simp add: c algebra_simps)
  ultimately show ?thesis by (simp add: e del: foldl_Cons)
qed

lemma decode_utf8:
  assumes "scalar c"
  shows "decode_scalars (utf8 c @ r) = map_option (Cons c) (decode_scalars r)"
proof -
  consider "c < 0x80" | "0x80 \<le> c" "c < 0x800" | "0x800 \<le> c" "c < 0x10000" | "0x10000 \<le> c"
    by linarith
  then show ?thesis
    using assms decode_two decode_three decode_four by cases (simp_all add: utf8_def)
qed

lemma decode_concat_utf8: "list_all scalar cs \<Longrightarrow> decode_scalars (concat (map utf8 cs)) = Some cs"
  by (induction cs) (simp_all add: decode_utf8)

lemma utf8_bytes: "scalar c \<Longrightarrow> list_all (\<lambda>b. b < 256) (utf8 c)"
proof -
  assume "scalar c"
  then have "c < 0x110000" by (auto simp: scalar_def)
  then have "c div 262144 \<le> 4" by linarith
  then show ?thesis by (auto simp: utf8_def)
qed

lemma scalars_scalar: "list_all (\<lambda>u. u < 0x10000) us \<Longrightarrow> list_all scalar (scalars us)"
  by (induction us rule: scalars.induct)
     (auto simp: scalar_def high_surrogate_def low_surrogate_def)

lemma utf16_pair:
  assumes "high_surrogate u" "low_surrogate v"
  shows "utf16 (0x10000 + (u - 0xD800) * 0x400 + (v - 0xDC00)) = [u, v]"
proof -
  define p q where "p = u - 0xD800" and "q = v - 0xDC00"
  have "u = 0xD800 + p" "v = 0xDC00 + q" "q < 0x400"
    using assms by (auto simp: high_surrogate_def low_surrogate_def p_def q_def)
  then show ?thesis by (simp add: utf16_def)
qed

lemma utf16_scalars: "list_all (\<lambda>u. u < 0x10000) us \<Longrightarrow> concat (map utf16 (scalars us)) = mend us"
proof (induction us rule: scalars.induct)
  case (3 u v us)
  show ?case
  proof (cases "high_surrogate u \<and> low_surrogate v")
    case True
    then show ?thesis using 3 by (simp add: utf16_pair)
  next
    case False
    then show ?thesis using 3 by (auto simp: utf16_def)
  qed
qed (auto simp: utf16_def)

lemma units_bounded: "list_all (\<lambda>u. u < 0x10000) (map unat (s :: units))"
  using unsigned_less [where 'a = nat and 'b = 16] by (auto simp: list_all_iff)

lemma unat_of_nat_list:
  "list_all (\<lambda>n. n < 2 ^ LENGTH('a)) ns \<Longrightarrow> map unat (map of_nat ns :: 'a::len word list) = ns"
  by (induction ns) (simp_all add: unat_of_nat)

lemma utf8_decode_encode_gen:
  "utf8_decode (utf8_encode s) = Some (map of_nat (concat (map utf16 (drop_mark (scalars (map unat s))))))"
proof -
  have sc: "list_all scalar (scalars (map unat s))"
    using scalars_scalar units_bounded by blast
  then have "list_all (\<lambda>b. b < 2 ^ LENGTH(8)) (concat (map utf8 (scalars (map unat s))))"
    using utf8_bytes by (fastforce simp: list_all_iff)
  then show ?thesis
    unfolding utf8_decode_def utf8_encode_def
    by (simp only: unat_of_nat_list decode_concat_utf8 sc option.map)
qed

lemma scalars_mend: "list_all (\<lambda>u. u < 0x10000) us \<Longrightarrow> scalars (mend us) = scalars us"
proof (induction us rule: scalars.induct)
  case (2 u)
  then show ?case by (auto simp: high_surrogate_def low_surrogate_def)
next
  case (3 u v us)
  show ?case
  proof (cases "high_surrogate u \<and> low_surrogate v")
    case False
    define r where "r = (if high_surrogate u \<or> low_surrogate u then 0xFFFD else u)"
    have "\<not> high_surrogate r" by (simp add: r_def high_surrogate_def low_surrogate_def)
    moreover have "\<not> low_surrogate r" by (simp add: r_def high_surrogate_def low_surrogate_def)
    ultimately have "scalars (r # mend (v # us)) = r # scalars (mend (v # us))"
      by (cases "mend (v # us)") auto
    moreover have "mend (u # v # us) = r # mend (v # us)"
      by (simp only: mend.simps if_not_P [OF False] r_def)
    moreover have "scalars (u # v # us) = r # scalars (v # us)"
      by (simp only: scalars.simps if_not_P [OF False] r_def)
    moreover have "scalars (mend (v # us)) = scalars (v # us)" using 3 False by simp
    ultimately show ?thesis by (simp only:)
  qed (use 3 in simp)
qed simp

lemma mend_pointwise: "list_all2 (\<lambda>u w. w = u \<or> w = 0xFFFD) us (mend us)"
  by (induction us rule: mend.induct) auto

lemma mend_bounded: "list_all (\<lambda>u. u < 0x10000) us \<Longrightarrow> list_all (\<lambda>u. u < 0x10000) (mend us)"
  by (induction us rule: mend.induct) auto

lemma unat_well_formed: "map unat (well_formed s) = mend (map unat s)"
proof -
  have "list_all (\<lambda>n. n < 2 ^ LENGTH(16)) (mend (map unat s))"
    using mend_bounded [OF units_bounded [of s]] by simp
  then show ?thesis unfolding well_formed_def by (rule unat_of_nat_list)
qed

lemma encode_well_formed [simp]: "utf8_encode (well_formed s) = utf8_encode s"
  by (simp add: utf8_encode_def unat_well_formed scalars_mend units_bounded)

lemma well_formed_pointwise: "list_all2 (\<lambda>u w. w = u \<or> w = 0xFFFD) s (well_formed s)"
proof -
  have len: "length (well_formed s) = length s"
    using list_all2_lengthD [OF mend_pointwise [of "map unat s"]] by (simp add: well_formed_def)
  have "well_formed s ! i = s ! i \<or> well_formed s ! i = 0xFFFD" if "i < length s" for i
    using list_all2_nthD [OF mend_pointwise [of "map unat s"], of i] that len
    by (auto simp: well_formed_def)
  then show ?thesis by (simp add: list_all2_conv_all_nth len)
qed

lemma well_formed_length [simp]: "length (well_formed s) = length s"
  using list_all2_lengthD [OF well_formed_pointwise [of s]] by simp

lemma well_formed_eq_Nil [simp]: "well_formed s = [] \<longleftrightarrow> s = []"
  using well_formed_length [of s] by (metis length_0_conv)

lemma not_white_replacement [simp]: "\<not> white 0xFFFD"
  by (simp add: white_def word_le_nat_alt)

lemma trimmed_well_formed: "trimmed s \<Longrightarrow> trimmed (well_formed s)"
proof (cases s rule: rev_cases)
  case (snoc us l)
  assume t: "trimmed s"
  have ne: "s \<noteq> []" "well_formed s \<noteq> []" using snoc by auto
  have "hd (well_formed s) = hd s \<or> hd (well_formed s) = 0xFFFD"
    using list_all2_nthD [OF well_formed_pointwise, of 0 s] ne by (simp add: hd_conv_nth)
  moreover have "last (well_formed s) = last s \<or> last (well_formed s) = 0xFFFD"
    using list_all2_nthD [OF well_formed_pointwise, of "length s - 1" s] ne by (simp add: last_conv_nth)
  ultimately show ?thesis using t ne by (auto simp: trimmed_def)
qed (simp add: trimmed_def)

lemma trimmed_trim [simp]: "trimmed (trim s)"
proof (cases "dropWhile white s")
  case Nil
  then show ?thesis unfolding trim_def Nil by (simp add: trimmed_def)
next
  case (Cons u us)
  then have u: "\<not> white u" using hd_dropWhile [of white s] by force
  then have r: "dropWhile white (rev (u # us)) = dropWhile white (rev us) @ [u]"
    by (simp add: dropWhile_append)
  then have "dropWhile white (rev (u # us)) \<noteq> []" by simp
  then have "\<not> white (hd (dropWhile white (rev (u # us))))" by (rule hd_dropWhile)
  moreover have "trim s = rev (dropWhile white (rev (u # us)))"
    by (simp only: trim_def Cons)
  moreover have "last (dropWhile white (rev (u # us))) = u" unfolding r by simp
  ultimately show ?thesis using u by (simp only: trimmed_def hd_rev last_rev) simp
qed

lemma trim_trimmed: "trimmed s \<Longrightarrow> trim s = s"
proof (cases s rule: rev_cases)
  case (snoc us l)
  assume "trimmed s"
  then have "dropWhile white s = s" "dropWhile white (rev s) = rev s"
    using snoc by (auto simp: trimmed_def) (cases us; simp)+
  then show ?thesis by (simp add: trim_def)
qed (simp add: trim_def)

lemma trim_trim [simp]: "trim (trim s) = trim s"
  by (simp add: trim_trimmed)

lemma trim_well_formed_trim [simp]: "trim (well_formed (trim s)) = well_formed (trim s)"
  by (simp add: trim_trimmed trimmed_well_formed)

lemma scalars_no_mark:
  "us \<noteq> [] \<Longrightarrow> hd us \<noteq> 0xFEFF \<Longrightarrow> drop_mark (scalars us) = scalars us"
  by (induction us rule: scalars.induct) (auto simp: drop_mark_def)

lemma decode_encode_trimmed:
  assumes "trimmed s" shows "utf8_decode (utf8_encode s) = Some (well_formed s)"
proof (cases s)
  case (Cons u us)
  then have "u \<noteq> 0xFEFF" using assms by (auto simp: trimmed_def white_def)
  then have "unat u \<noteq> 0xFEFF" by (simp add: word_unat_eq_iff)
  then show ?thesis
    by (simp add: utf8_decode_encode_gen scalars_no_mark Cons well_formed_def
        utf16_scalars [OF units_bounded, of s, unfolded Cons, simplified])
qed (simp add: utf8_decode_def utf8_encode_def drop_mark_def well_formed_def)

section \<open>ASCII\<close>

lemma scalars_length: "length (scalars us) \<le> length us"
  by (induction us rule: scalars.induct) auto

lemma decode_scalars_length:
  "decode_scalars bs = Some cs \<Longrightarrow>
     length (concat (map utf16 cs)) \<le> length bs \<and>
     (length (concat (map utf16 cs)) = length bs \<longrightarrow> cs = bs \<and> list_all (\<lambda>b. b < 0x80) bs)"
proof (induction bs arbitrary: cs rule: decode_scalars.induct)
  case (2 b bs)
  show ?case
  proof (cases "b < 0x80")
    case True
    then obtain r where "decode_scalars bs = Some r" "cs = b # r" using 2 by auto
    then show ?thesis using 2(1) [OF True] True by (auto simp: utf16_def)
  next
    case False
    obtain n lo hi c where l: "lead_byte b = Some (n, lo, hi, c)"
      using False 2(3) by (cases "lead_byte b") auto
    then have ok: "n \<le> length bs \<and> continuation lo hi (take n bs)"
      using False 2(3) by (auto split: if_splits)
    define v where "v = foldl (\<lambda>c b. c * 64 + (b - 0x80)) c (take n bs)"
    obtain r where r: "decode_scalars (drop n bs) = Some r" "cs = v # r"
      using False 2(3) l ok by (auto simp: v_def)
    have "length (concat (map utf16 r)) \<le> length (drop n bs)"
      using 2(2) [OF False l refl refl refl ok r(1)] by simp
    moreover have "length (utf16 v) < 1 + n"
    proof (cases "n = 1")
      case True
      then have "v < 0x10000"
        using l ok by (cases bs) (auto simp: v_def lead_byte_def continuation_def split: if_splits)
      then show ?thesis using True by (simp add: utf16_def)
    next
      case False
      then have "2 \<le> n" using l by (auto simp: lead_byte_def split: if_splits)
      then show ?thesis by (simp add: utf16_def)
    qed
    ultimately show ?thesis using r ok by auto
  qed
qed simp

lemma decode_scalars_ascii: "list_all (\<lambda>b. b < 0x80) bs \<Longrightarrow> decode_scalars bs = Some bs"
  by (induction bs) auto

lemma concat_utf16_ascii: "list_all (\<lambda>b. b < 0x80) bs \<Longrightarrow> concat (map utf16 bs) = bs"
  by (induction bs) (auto simp: utf16_def)

lemma scalars_ascii_append: "list_all (\<lambda>b. b < 0x80) us \<Longrightarrow> scalars (us @ vs) = us @ scalars vs"
proof (induction us)
  case (Cons u us)
  then show ?case
    by (cases "us @ vs") (auto simp: high_surrogate_def low_surrogate_def)
qed simp

lemma concat_utf8_ascii: "list_all (\<lambda>b. b < 0x80) bs \<Longrightarrow> concat (map utf8 bs) = bs"
  by (induction bs) (auto simp: utf8_def)

lemma drop_mark_ascii: "list_all (\<lambda>b. b < 0x80) bs \<Longrightarrow> drop_mark bs = bs"
  by (cases bs) (auto simp: drop_mark_def)

text \<open>A text of ASCII characters is its own encoding; a decoded text as long as its bytes is one.\<close>

abbreviation ascii_bytes :: "bytes \<Rightarrow> bool" where
  "ascii_bytes bs \<equiv> list_all (\<lambda>b. b < 0x80) bs"

lemma ascii_bytes_unat: "ascii_bytes bs \<longleftrightarrow> list_all (\<lambda>b. b < 0x80) (map unat bs)"
  by (simp add: list_all_iff word_less_nat_alt)

lemma decode_ascii: "ascii_bytes bs \<Longrightarrow> utf8_decode bs = Some (map ucast bs)"
  unfolding ascii_bytes_unat utf8_decode_def
  by (simp add: decode_scalars_ascii concat_utf16_ascii drop_mark_ascii del: map_map) (simp add: of_nat_unat)

lemma decode_same_length:
  assumes "utf8_decode bs = Some t" "length t = length bs"
  shows "ascii_bytes bs" "t = map ucast bs"
proof -
  obtain cs where cs: "decode_scalars (map unat bs) = Some cs"
    and t: "t = map of_nat (concat (map utf16 (drop_mark cs)))"
    using assms(1) by (auto simp: utf8_decode_def)
  have "length (concat (map utf16 (drop_mark cs))) \<le> length (concat (map utf16 cs))"
    by (auto simp: drop_mark_def split: list.splits)
  moreover have "length (concat (map utf16 (drop_mark cs))) = length (map unat bs)"
    using assms(2) unfolding t by (simp only: length_map)
  ultimately have "length (concat (map utf16 cs)) = length (map unat bs)"
    using decode_scalars_length [OF cs] by linarith
  then show "ascii_bytes bs"
    using decode_scalars_length [OF cs] by (metis ascii_bytes_unat)
  then show "t = map ucast bs" using decode_ascii assms(1) by simp
qed

lemma encode_ascii_append:
  "list_all (\<lambda>c. c < 0x80) (p :: units) \<Longrightarrow> utf8_encode (p @ s) = map ucast p @ utf8_encode s"
proof -
  assume "list_all (\<lambda>c. c < 0x80) p"
  then have "list_all (\<lambda>b. b < 0x80) (map unat p)"
    by (simp add: list_all_iff word_less_nat_alt)
  then show ?thesis
    by (simp add: utf8_encode_def scalars_ascii_append concat_utf8_ascii del: map_map)
       (simp add: of_nat_unat)
qed

lemma encode_Nil [simp]: "utf8_encode [] = []"
  by (simp add: utf8_encode_def)

lemma encode_ascii: "list_all (\<lambda>c. c < 0x80) (p :: units) \<Longrightarrow> utf8_encode p = map ucast p"
  using encode_ascii_append [of p "[]"] by simp

section \<open>The replacing decoder\<close>

text \<open>\<open>Blob.text\<close> decodes with replacement: a malformed sequence becomes one U+FFFD, and only
  its well-formed beginning is consumed.\<close>

definition accepted_tail :: "nat \<Rightarrow> nat \<Rightarrow> nat \<Rightarrow> nat list \<Rightarrow> nat" where
  "accepted_tail n lo hi bs = (case bs of [] \<Rightarrow> 0
     | b # r \<Rightarrow> if n = 0 \<or> \<not> (lo \<le> b \<and> b \<le> hi) then 0
         else Suc (length (takeWhile (\<lambda>c. 0x80 \<le> c \<and> c \<le> 0xBF) (take (n - 1) r))))"

fun replacing_scalars :: "nat list \<Rightarrow> nat list" where
  "replacing_scalars [] = []"
| "replacing_scalars (b # bs) =
     (if b < 0x80 then b # replacing_scalars bs
      else case lead_byte b of None \<Rightarrow> 0xFFFD # replacing_scalars bs
      | Some (n, lo, hi, c) \<Rightarrow>
          let k = accepted_tail n lo hi bs in
          (if k = n then foldl (\<lambda>c b. c * 64 + (b - 0x80)) c (take n bs) else 0xFFFD)
            # replacing_scalars (drop k bs))"

definition utf8_replacing :: "bytes \<Rightarrow> units" where
  "utf8_replacing bs = map of_nat (concat (map utf16 (drop_mark (replacing_scalars (map unat bs)))))"

lemma accepted_tail_all:
  "n \<le> length bs \<Longrightarrow> continuation lo hi (take n bs) \<Longrightarrow> accepted_tail n lo hi bs = n"
proof (cases bs; cases n)
  fix b r m
  assume "n \<le> length bs" "continuation lo hi (take n bs)" and [simp]: "bs = b # r" "n = Suc m"
  then have b: "lo \<le> b \<and> b \<le> hi" and r: "\<forall>c\<in>set (take m r). 0x80 \<le> c \<and> c \<le> 0xBF" "m \<le> length r"
    by (auto simp: continuation_def list_all_iff)
  have "takeWhile (\<lambda>c. 0x80 \<le> c \<and> c \<le> 0xBF) (take m r) = take m r"
    using r(1) by (simp only: takeWhile_eq_all_conv)
  then have "length (takeWhile (\<lambda>c. 0x80 \<le> c \<and> c \<le> 0xBF) (take m r)) = m"
    using r(2) by (simp only: length_take min_absorb2)
  with b show ?thesis by (simp add: accepted_tail_def)
qed (auto simp: accepted_tail_def)

lemma replacing_decode: "decode_scalars bs = Some cs \<Longrightarrow> replacing_scalars bs = cs"
proof (induction bs arbitrary: cs rule: decode_scalars.induct)
  case (2 b bs)
  show ?case
  proof (cases "b < 0x80")
    case True
    then show ?thesis using 2 by auto
  next
    case False
    obtain n lo hi c where l: "lead_byte b = Some (n, lo, hi, c)"
      using False 2(3) by (cases "lead_byte b") auto
    then have ok: "n \<le> length bs \<and> continuation lo hi (take n bs)"
      using False 2(3) by (auto split: if_splits)
    obtain r where r: "decode_scalars (drop n bs) = Some r"
        "cs = foldl (\<lambda>c b. c * 64 + (b - 0x80)) c (take n bs) # r"
      using False 2(3) l ok by auto
    then show ?thesis using 2(2) [OF False l refl refl refl ok] False l ok
      by (simp add: accepted_tail_all)
  qed
qed simp

lemma utf8_replacing_decode: "utf8_decode bs = Some s \<Longrightarrow> utf8_replacing bs = s"
  by (auto simp: utf8_decode_def utf8_replacing_def replacing_decode)

section \<open>Characters as code units\<close>

lemma unat_up: "unat (ucast b :: 16 word) = unat (b :: 8 word)"
proof -
  have "unat b < 2 ^ 16" using unsigned_less [where 'a = nat, of b] by simp
  then have "take_bit 16 (unat b) = unat b" by (rule take_bit_nat_eq_self)
  then show ?thesis by (simp add: unsigned_ucast_eq)
qed

lemma unat_of_char [simp]:
  "unat (of_char c :: 8 word) = of_char c" "unat (of_char c :: 16 word) = of_char c"
proof -
  have c: "(of_char c :: nat) < 256" by (metis of_char_mod_256 mod_less_divisor zero_less_numeral)
  have eight: "unat (of_nat n :: 8 word) = n" and sixteen: "unat (of_nat n :: 16 word) = n" if "n < 256" for n
    using that by (simp_all add: unat_of_nat)
  show "unat (of_char c :: 8 word) = of_char c"
    using eight [OF c] unfolding of_nat_of_char .
  show "unat (of_char c :: 16 word) = of_char c"
    using sixteen [OF c] unfolding of_nat_of_char .
qed

lemma ucast_of_char [simp]: "(ucast (of_char c :: 8 word) :: 16 word) = of_char c"
  by (simp add: word_unat_eq_iff unat_up)

lemma ucast_down_char [simp]: "(ucast (of_char c :: 16 word) :: 8 word) = of_char c"
  by (simp add: word_unat_eq_iff unsigned_ucast_eq unsigned_take_bit_eq take_bit_eq_mod)

lemma char_of_unat [simp]: "char_of (unat (of_char c :: 8 word)) = c"
  by simp

abbreviation ascii_text :: "string \<Rightarrow> bool" where
  "ascii_text s \<equiv> list_all (\<lambda>c. of_char c < (0x80 :: nat)) s"

lemma ascii_text_bytes: "ascii_text s \<Longrightarrow> ascii_bytes (map of_char s)"
  by (simp add: list_all_iff word_less_nat_alt)

lemma replacing_text: "ascii_text s \<Longrightarrow> utf8_replacing (map of_char s) = map of_char s"
  using utf8_replacing_decode [OF decode_ascii [OF ascii_text_bytes]] by simp

lemma encode_text: "ascii_text s \<Longrightarrow> utf8_encode (map of_char s) = map of_char s"
  using encode_ascii [of "map of_char s"] by (simp add: list_all_iff word_less_nat_alt)

end
