(* ===== verification/Irc_Format.thy ===== *)
theory Irc_Format
  imports Utf8
begin

text \<open>
  \<open>ui/src/irc-format.ts\<close>: classic IRC presentation codes parsed into segments of plain text with a
  bounded style.  The loop over the index is recursion over the remaining code units.
\<close>

section \<open>The code\<close>

record irc_format =
  bold :: bool
  italic :: bool
  underline :: bool
  inverse :: bool
  foreground :: "string option"
  background :: "string option"

record segment =
  seg_text :: units
  seg_format :: irc_format

definition palette :: "string list" where
  "palette = [''#ffffff'', ''#000000'', ''#00007f'', ''#009300'', ''#ff0000'', ''#7f0000'', ''#9c009c'', ''#fc7f00'',
     ''#ffff00'', ''#00fc00'', ''#009393'', ''#00ffff'', ''#0000fc'', ''#ff00ff'', ''#7f7f7f'', ''#d2d2d2'']"

definition plain :: irc_format where
  "plain = \<lparr>bold = False, italic = False, underline = False, inverse = False, foreground = None, background = None\<rparr>"

definition flush :: "irc_format \<Rightarrow> units \<Rightarrow> segment list \<Rightarrow> segment list" where
  "flush f buffer result = (if buffer = [] then result else result @ [\<lparr>seg_text = buffer, seg_format = f\<rparr>])"

definition digit :: "16 word \<Rightarrow> bool" where
  "digit u \<longleftrightarrow> 0x30 \<le> u \<and> u \<le> 0x39"

definition one_or_two :: "units \<Rightarrow> units" where
  "one_or_two us = takeWhile digit (take 2 us)"

text \<open>The match of one or two digits and, after a comma, one or two more, with its length.\<close>

definition colour_match :: "units \<Rightarrow> (units \<times> units option \<times> nat) option" where
  "colour_match us =
     (let a = one_or_two us; r = drop (length a) us in
      if a = [] then None
      else case r of
          u # r' \<Rightarrow> (let b = one_or_two r' in
            if u = 0x2C \<and> b \<noteq> [] then Some (a, Some b, length a + 1 + length b) else Some (a, None, length a))
        | [] \<Rightarrow> Some (a, None, length a))"

definition number :: "units \<Rightarrow> nat" where
  "number ds = foldl (\<lambda>n d. n * 10 + (unat d - 48)) 0 ds"

definition palette_colour :: "units \<Rightarrow> string option" where
  "palette_colour ds = (if number ds < length palette then Some (palette ! number ds) else None)"

definition style_code :: "16 word \<Rightarrow> bool" where
  "style_code u \<longleftrightarrow> u \<in> {2, 3, 15, 22, 29, 31}"

definition toggled :: "16 word \<Rightarrow> irc_format \<Rightarrow> irc_format" where
  "toggled u f =
     (if u = 2 then f\<lparr>bold := \<not> bold f\<rparr>
      else if u = 29 then f\<lparr>italic := \<not> italic f\<rparr>
      else if u = 31 then f\<lparr>underline := \<not> underline f\<rparr>
      else if u = 22 then f\<lparr>inverse := \<not> inverse f\<rparr>
      else plain)"

definition coloured :: "units \<Rightarrow> units option \<Rightarrow> irc_format \<Rightarrow> irc_format" where
  "coloured a b f =
     (let f = f\<lparr>foreground := palette_colour a\<rparr> in
      case b of None \<Rightarrow> f | Some b \<Rightarrow> f\<lparr>background := palette_colour b\<rparr>)"

definition shown :: "16 word \<Rightarrow> bool" where
  "shown u \<longleftrightarrow> (32 \<le> u \<and> (u < 127 \<or> 159 < u)) \<or> u = 9 \<or> u = 10"

function irc_loop :: "units \<Rightarrow> irc_format \<Rightarrow> units \<Rightarrow> segment list \<Rightarrow> segment list" where
  "irc_loop [] f buffer result = flush f buffer result"
| "irc_loop (u # us) f buffer result =
     (if style_code u then
        let result = flush f buffer result in
        if u = 3 then
          (case colour_match us of
             Some (a, b, n) \<Rightarrow> irc_loop (drop n us) (coloured a b f) [] result
           | None \<Rightarrow> irc_loop us (f\<lparr>foreground := None, background := None\<rparr>) [] result)
        else irc_loop us (toggled u f) [] result
      else if shown u then irc_loop us f (buffer @ [u]) result
      else irc_loop us f buffer result)"
  by pat_completeness auto

termination irc_loop
  by (relation "measure (\<lambda>(us, _). length us)") auto

definition ircFormat :: "units \<Rightarrow> segment list" where
  "ircFormat t = irc_loop t plain [] []"

section \<open>The text a reader sees\<close>

text \<open>Independently of styles: colour codes with their digits and every unsupported control unit
  are gone, everything else stays in order.\<close>

function visible :: "units \<Rightarrow> units" where
  "visible [] = []"
| "visible (u # us) =
     (if u = 3 then visible (drop (case colour_match us of Some (_, _, n) \<Rightarrow> n | None \<Rightarrow> 0) us)
      else if shown u then u # visible us else visible us)"
  by pat_completeness auto

termination visible
  by (relation "measure length") (auto split: option.split)

definition visible_text :: "segment list \<Rightarrow> units" where
  "visible_text segs = concat (map seg_text segs)"

definition in_palette :: "string option \<Rightarrow> bool" where
  "in_palette c \<longleftrightarrow> (case c of None \<Rightarrow> True | Some x \<Rightarrow> x \<in> set palette)"

definition format_ok :: "irc_format \<Rightarrow> bool" where
  "format_ok f \<longleftrightarrow> in_palette (foreground f) \<and> in_palette (background f)"

text \<open>A segment a renderer may trust: text without control units, colours from the palette.\<close>

definition segment_ok :: "segment \<Rightarrow> bool" where
  "segment_ok s \<longleftrightarrow> seg_text s \<noteq> [] \<and> list_all shown (seg_text s) \<and> format_ok (seg_format s)"

lemma style_not_shown: "style_code u \<Longrightarrow> \<not> shown u"
  by (auto simp: style_code_def shown_def)

lemma flush_text: "visible_text (flush f buffer result) = visible_text result @ buffer"
  by (simp add: flush_def visible_text_def)

lemma irc_loop_text: "visible_text (irc_loop t f buffer result) = visible_text result @ buffer @ visible t"
proof (induction t f buffer result rule: irc_loop.induct)
  case (2 u us f buffer result)
  show ?case
  proof (cases "style_code u")
    case True
    then show ?thesis using "2.IH"(1-3) style_not_shown [OF True]
      by (auto simp: Let_def flush_text split: option.splits)
  next
    case False
    then have "u \<noteq> 3" by (auto simp: style_code_def)
    then show ?thesis using "2.IH"(4,5) False by auto
  qed
qed (simp add: flush_text)

lemma palette_colour_ok: "in_palette (palette_colour ds)"
  by (simp add: in_palette_def palette_colour_def)

lemma format_ok_simps [simp]:
  "format_ok plain"
  "format_ok f \<Longrightarrow> format_ok (toggled u f)"
  "format_ok f \<Longrightarrow> format_ok (coloured a b f)"
  "format_ok (f\<lparr>foreground := None, background := None\<rparr>)"
  by (auto simp: format_ok_def plain_def toggled_def coloured_def palette_colour_ok in_palette_def [of None] Let_def
      split: option.split)

lemma flush_ok:
  "list_all segment_ok result \<Longrightarrow> format_ok f \<Longrightarrow> list_all shown buffer \<Longrightarrow> list_all segment_ok (flush f buffer result)"
  by (simp add: flush_def segment_ok_def)

lemma irc_loop_ok:
  "list_all segment_ok result \<Longrightarrow> format_ok f \<Longrightarrow> list_all shown buffer \<Longrightarrow>
   list_all segment_ok (irc_loop t f buffer result)"
proof (induction t f buffer result rule: irc_loop.induct)
  case (2 u us f buffer result)
  have f: "list_all segment_ok (flush f buffer result)" using "2.prems" by (rule flush_ok)
  show ?case
  proof (cases "style_code u")
    case True
    then show ?thesis using "2.IH"(1-3) f "2.prems"(2) by (auto simp: Let_def split: option.splits)
  next
    case False
    then show ?thesis using "2.IH"(4,5) "2.prems" by auto
  qed
qed (simp add: flush_ok)

lemma visible_shown: "list_all shown t \<Longrightarrow> visible t = t"
proof (induction t)
  case (Cons u t)
  then have "u \<noteq> 3" by (auto simp: shown_def)
  then show ?case using Cons by simp
qed simp


end
