(* ===== verification/Unread_Highlights.thy ===== *)
theory Unread_Highlights
  imports Api Json_Text Irc_Format
begin

text \<open>
  \<open>ui/src/unread-highlights.ts\<close>: attention badges for unread conversations.  \<open>drain\<close> is a coroutine
  that is suspended while it awaits a history page; its suspended frame is part of the state, and the
  class is a machine whose steps are the calls of \<open>update\<close> and \<open>clear\<close> and the arrival of a page.
  \<open>toLocaleLowerCase\<close> depends on the reader's locale and is a parameter.
\<close>

section \<open>What calls for attention\<close>

definition units_of :: "string \<Rightarrow> units" where
  "units_of s = utf8_replacing (map of_char s)"

definition opens_mention :: "16 word \<Rightarrow> bool" where
  "opens_mention u \<longleftrightarrow> white u \<or> u \<in> set (ascii ''([{'')"

definition name_unit :: "16 word \<Rightarrow> bool" where
  "name_unit u \<longleftrightarrow> \<not> white u \<and> u \<notin> set (ascii ''@.,;:!?()[]{}<>'')"

text \<open>An at sign and the name after it, which must not be empty.\<close>

definition at_name :: "units \<Rightarrow> units option" where
  "at_name us = (case us of [] \<Rightarrow> None
     | u # r \<Rightarrow> if u = 0x40 \<and> takeWhile name_unit r \<noteq> [] then Some (takeWhile name_unit r) else None)"

text \<open>The names \<open>matchAll\<close> finds, one match after the other.\<close>

function mentions_after :: "units \<Rightarrow> units list" where
  "mentions_after [] = []"
| "mentions_after (u # us) =
     (case (if opens_mention u then at_name us else None) of
        Some n \<Rightarrow> n # mentions_after (drop (1 + length n) us)
      | None \<Rightarrow> mentions_after us)"
  by pat_completeness auto

termination mentions_after
  by (relation "measure length") auto

definition mentions :: "units \<Rightarrow> units list" where
  "mentions us = (case at_name us of Some n \<Rightarrow> n # mentions_after (drop (1 + length n) us) | None \<Rightarrow> mentions_after us)"

definition callsAttention :: "(units \<Rightarrow> units) \<Rightarrow> message \<Rightarrow> conversation \<Rightarrow> bool" where
  "callsAttention lower m c =
     (if msg_mine m then False
      else if msg_highlighted m = Some True then True
      else let t = lower (visible_text (ircFormat (units_of (msg_body m)))) in
        list_ex (\<lambda>member. let name = lower (units_of (member_nickname member)) in
            name \<noteq> [] \<and> (name \<in> set (mentions t) \<or> prefix (name @ ascii '':'') t \<or> prefix (name @ ascii '','') t))
          (filter member_isSelf (conv_members c)))"

section \<open>The tracker\<close>

record 't job =
  job_stamp :: string
  job_conversation :: conversation
  job_transport :: 't

record 't fetch =
  f_id :: string
  f_job :: "'t job"
  f_generation :: nat
  f_remaining :: int
  f_before :: "string option"
  f_cursors :: "string set"

record history_call =
  hc_conversation :: string
  hc_before :: "string option"
  hc_limit :: int

record 't tracker =
  stamps :: "(string \<times> string) list"
  waiting_jobs :: "(string \<times> 't job) list"
  badges :: "string set"
  busy :: bool
  generation :: nat
  fetching :: "'t fetch option"
  sent :: "('t \<times> history_call) list"
  shown_badges :: "string set list"

definition new_tracker :: "'t tracker" where
  "new_tracker = \<lparr>stamps = [], waiting_jobs = [], badges = {}, busy = False, generation = 0, fetching = None,
     sent = [], shown_badges = []\<rparr>"

definition show_badges :: "'t tracker \<Rightarrow> 't tracker" where
  "show_badges s = s\<lparr>shown_badges := shown_badges s @ [badges s]\<rparr>"

definition clear_tracker :: "'t tracker \<Rightarrow> 't tracker" where
  "clear_tracker s = show_badges (s\<lparr>stamps := [], waiting_jobs := [], badges := {}, generation := Suc (generation s)\<rparr>)"

definition forget :: "string \<Rightarrow> 't tracker \<Rightarrow> 't tracker" where
  "forget i s = s\<lparr>stamps := remove_key i (stamps s), waiting_jobs := remove_key i (waiting_jobs s), badges := badges s - {i}\<rparr>"

definition number_text :: "int \<Rightarrow> string" where
  "number_text n = (if n < 0 then ''-'' @ decimal (nat (- n)) else decimal (nat n))"

definition stamp_of :: "snapshot \<Rightarrow> conversation \<Rightarrow> string" where
  "stamp_of sn c = ''['' @ comma_separated [quote (inst_id (sn_instance sn)), quote (inst_bootId (sn_instance sn)),
     (case conv_lastMessageId c of None \<Rightarrow> ''null'' | Some m \<Rightarrow> quote m), number_text (conv_unread c)] @ '']''"

definition notice :: "snapshot \<Rightarrow> 't \<Rightarrow> conversation \<Rightarrow> 't tracker \<Rightarrow> 't tracker" where
  "notice sn t c s =
     (if conv_unread c = 0 \<or> conv_muted c = Some True then forget (conv_id c) s
      else if map_of (stamps s) (conv_id c) = Some (stamp_of sn c) then s
      else s\<lparr>stamps := put (conv_id c) (stamp_of sn c) (stamps s),
             waiting_jobs := put (conv_id c) \<lparr>job_stamp = stamp_of sn c, job_conversation = c, job_transport = t\<rparr> (waiting_jobs s)\<rparr>)"

definition current :: "'t tracker \<Rightarrow> 't fetch \<Rightarrow> bool" where
  "current s f \<longleftrightarrow> f_generation f = generation s \<and> map_of (stamps s) (f_id f) = Some (job_stamp (f_job f))"

text \<open>The end of an inspection.\<close>

definition finish :: "bool \<Rightarrow> 't fetch \<Rightarrow> 't tracker \<Rightarrow> 't tracker" where
  "finish found f s =
     (if current s f
      then show_badges (s\<lparr>badges := (if found then insert (f_id f) (badges s) else badges s - {f_id f})\<rparr>)
      else s)"

text \<open>The test of the inner loop passed: the request is sent and \<open>drain\<close> suspended.\<close>

definition ask :: "'t fetch \<Rightarrow> 't tracker \<Rightarrow> 't tracker" where
  "ask f s = s\<lparr>fetching := Some f,
     sent := sent s @ [(job_transport (f_job f), \<lparr>hc_conversation = f_id f, hc_before = f_before f, hc_limit = 200\<rparr>)]\<rparr>"

text \<open>The outer loop, up to the next request or the end of the queue.\<close>

function pump :: "'t tracker \<Rightarrow> 't tracker" where
  "pump s =
     (case waiting_jobs s of [] \<Rightarrow> s\<lparr>busy := False, fetching := None\<rparr>
      | (i, job) # q \<Rightarrow>
          let s = s\<lparr>waiting_jobs := q\<rparr>;
              f = \<lparr>f_id = i, f_job = job, f_generation = generation s, f_remaining = conv_unread (job_conversation job),
                   f_before = None, f_cursors = {}\<rparr>
          in if f_remaining f > 0 \<and> current s f then ask f s else pump (finish False f s))"
  by pat_completeness auto

termination pump
  by (relation "measure (\<lambda>s. length (waiting_jobs s))") (auto simp: finish_def show_badges_def)

declare pump.simps [simp del]

definition drain :: "'t tracker \<Rightarrow> 't tracker" where
  "drain s = (if busy s then s else pump (s\<lparr>busy := True\<rparr>))"

definition update :: "snapshot \<Rightarrow> 't \<Rightarrow> 't tracker \<Rightarrow> 't tracker" where
  "update sn t s =
     (if inst_locked (sn_instance sn) then clear_tracker s
      else let available = conv_id ` set (sn_conversations sn);
               s = fold (\<lambda>i s. if i \<in> available then s else forget i s) (map fst (stamps s)) s;
               s = fold (notice sn t) (sn_conversations sn) s
        in drain (show_badges s))"

definition last_messages :: "int \<Rightarrow> message list \<Rightarrow> message list" where
  "last_messages n ms = drop (length ms - nat n) ms"

text \<open>A page, or its absence, arrives: the rest of the inner loop's body and whatever follows.\<close>

definition arrive :: "(units \<Rightarrow> units) \<Rightarrow> response option \<Rightarrow> 't tracker \<Rightarrow> 't tracker" where
  "arrive lower r s =
     (case fetching s of None \<Rightarrow> s
      | Some f \<Rightarrow>
          (case r of None \<Rightarrow> pump s
           | Some r \<Rightarrow>
               if \<not> current s f then pump (finish False f s)
               else case r of
                 R_history page \<Rightarrow>
                   (let incoming = last_messages (f_remaining f) (filter (\<lambda>m. \<not> msg_mine m) (page_messages page)) in
                    if list_ex (\<lambda>m. callsAttention lower m (job_conversation (f_job f))) incoming then pump (finish True f s)
                    else let f = f\<lparr>f_remaining := f_remaining f - int (length incoming), f_before := page_before page\<rparr> in
                      case page_before page of None \<Rightarrow> pump (finish False f s)
                      | Some b \<Rightarrow>
                          if b = [] \<or> b \<in> f_cursors f then pump (finish False f s)
                          else let f = f\<lparr>f_cursors := insert b (f_cursors f)\<rparr> in
                            if f_remaining f > 0 \<and> current s f then ask f s else pump (finish False f s))
               | _ \<Rightarrow> pump s))"

section \<open>Runs\<close>

datatype 't tracker_event = Snapshot_seen snapshot 't | Cleared | Page_arrived "response option"

definition tracker_step :: "(units \<Rightarrow> units) \<Rightarrow> 't tracker_event \<Rightarrow> 't tracker \<Rightarrow> 't tracker" where
  "tracker_step lower e s = (case e of Snapshot_seen sn t \<Rightarrow> update sn t s | Cleared \<Rightarrow> clear_tracker s
     | Page_arrived r \<Rightarrow> arrive lower r s)"

definition run_tracker :: "(units \<Rightarrow> units) \<Rightarrow> 't tracker_event list \<Rightarrow> 't tracker" where
  "run_tracker lower es = fold (tracker_step lower) es new_tracker"

section \<open>Facts about the parts\<close>

lemma pump_simps:
  "waiting_jobs s = [] \<Longrightarrow> pump s = s\<lparr>busy := False, fetching := None\<rparr>"
  "waiting_jobs s = (i, job) # q \<Longrightarrow>
     pump s = (let s = s\<lparr>waiting_jobs := q\<rparr>;
              f = \<lparr>f_id = i, f_job = job, f_generation = generation s, f_remaining = conv_unread (job_conversation job),
                   f_before = None, f_cursors = {}\<rparr>
          in if f_remaining f > 0 \<and> current s f then ask f s else pump (finish False f s))"
  by (subst pump.simps; simp)+

lemma finish_fields [simp]:
  "waiting_jobs (finish b f s) = waiting_jobs s" "busy (finish b f s) = busy s" "fetching (finish b f s) = fetching s"
  "stamps (finish b f s) = stamps s" "generation (finish b f s) = generation s"
  by (simp_all add: finish_def show_badges_def)

lemma ask_fields [simp]:
  "waiting_jobs (ask f s) = waiting_jobs s" "busy (ask f s) = busy s" "fetching (ask f s) = Some f"
  "stamps (ask f s) = stamps s" "badges (ask f s) = badges s"
  by (simp_all add: ask_def)

lemma finish_badges: "badges (finish b f s) \<subseteq> (if b \<and> current s f then insert (f_id f) (badges s) else badges s)"
  by (auto simp: finish_def show_badges_def)

lemma pump_keeps: "stamps (pump s) = stamps s \<and> badges (pump s) \<subseteq> badges s"
proof (induction s rule: pump.induct)
  case (1 s)
  show ?case
  proof (cases "waiting_jobs s")
    case Nil
    then show ?thesis by (simp add: pump_simps)
  next
    case (Cons ij q)
    then obtain i job where "waiting_jobs s = (i, job) # q" by (cases ij) auto
    then show ?thesis using "1.IH" [of "(i, job)" q i job]
        finish_badges [of False _ "s\<lparr>waiting_jobs := q\<rparr>"]
      by (force simp: pump_simps Let_def)
  qed
qed

section \<open>The drain comes to rest\<close>

definition at_rest :: "'t tracker \<Rightarrow> bool" where
  "at_rest s \<longleftrightarrow> (busy s \<longleftrightarrow> fetching s \<noteq> None) \<and> (busy s \<or> waiting_jobs s = [])"

text \<open>How many pages can still be asked for, when the cursors come from \<open>C\<close>.\<close>

definition pages_left :: "string set \<Rightarrow> 't tracker \<Rightarrow> nat" where
  "pages_left C s = (case fetching s of None \<Rightarrow> 0
     | Some f \<Rightarrow> Suc (card (C - f_cursors f)) + length (waiting_jobs s) * Suc (card C))"

lemma pump_rests: "busy s \<Longrightarrow> at_rest (pump s) \<and> pages_left C (pump s) \<le> length (waiting_jobs s) * Suc (card C)"
proof (induction s rule: pump.induct)
  case (1 s)
  show ?case
  proof (cases "waiting_jobs s")
    case Nil
    then show ?thesis by (simp add: pump_simps at_rest_def pages_left_def)
  next
    case (Cons ij q)
    then obtain i job where w: "waiting_jobs s = (i, job) # q" by (cases ij) auto
    define s' where "s' = s\<lparr>waiting_jobs := q\<rparr>"
    define f where "f = \<lparr>f_id = i, f_job = job, f_generation = generation s, f_remaining = conv_unread (job_conversation job),
                   f_before = None, f_cursors = {}\<rparr>"
    have p: "pump s = (if f_remaining f > 0 \<and> current s' f then ask f s' else pump (finish False f s'))"
      by (simp add: pump_simps(2) [OF w] s'_def f_def Let_def)
    show ?thesis
    proof (cases "f_remaining f > 0 \<and> current s' f")
      case True
      have "busy s'" "waiting_jobs s' = q" "f_cursors f = {}" using "1.prems" by (simp_all add: s'_def f_def)
      then show ?thesis using True by (simp add: p at_rest_def pages_left_def w)
    next
      case False
      have "at_rest (pump (finish False f s')) \<and> pages_left C (pump (finish False f s')) \<le> length q * Suc (card C)"
        using "1.IH" [OF w, where x = i and y = job and xa = s' and xb = f] "1.prems" False by (simp add: s'_def f_def)
      then show ?thesis using False by (auto simp: p w)
    qed
  qed
qed

lemma arrive_rests:
  assumes "at_rest s" shows "at_rest (arrive lower r s)"
proof (cases "fetching s")
  case None
  then show ?thesis using assms by (simp add: arrive_def)
next
  case (Some f)
  then have b: "busy s" using assms by (simp add: at_rest_def)
  have p: "at_rest (pump s)" "at_rest (pump (finish x g s))" for x g using b pump_rests [of s] pump_rests [of "finish x g s"] by auto
  have a: "at_rest (ask g s)" for g using b by (simp add: at_rest_def)
  show ?thesis by (auto simp: arrive_def Some Let_def p a split: option.split response.split)
qed

definition cursor_in :: "string set \<Rightarrow> response option \<Rightarrow> bool" where
  "cursor_in C r \<longleftrightarrow> (case r of Some (R_history page) \<Rightarrow> (case page_before page of Some b \<Rightarrow> b \<in> C | None \<Rightarrow> True) | _ \<Rightarrow> True)"

lemma arrive_progress:
  assumes "at_rest s" "finite C" "cursor_in C r" "busy s"
  shows "pages_left C (arrive lower r s) < pages_left C s"
proof -
  obtain f where f: "fetching s = Some f" using assms(1,4) by (auto simp: at_rest_def)
  have less: "length (waiting_jobs s) * Suc (card C) < pages_left C s" by (simp add: pages_left_def f)
  have p: "pages_left C (pump s) < pages_left C s" "pages_left C (pump (finish x g s)) < pages_left C s" for x g
    using pump_rests [of s C] pump_rests [of "finish x g s" C] assms(4) less by auto
  have a: "pages_left C (ask (g\<lparr>f_cursors := insert b (f_cursors f)\<rparr>) s) < pages_left C s" if "b \<in> C" "b \<notin> f_cursors f" for g b
  proof -
    have "C - insert b (f_cursors f) \<subset> C - f_cursors f" using that by blast
    then have "card (C - insert b (f_cursors f)) < card (C - f_cursors f)"
      using assms(2) by (intro psubset_card_mono) auto
    then show ?thesis by (simp add: pages_left_def f)
  qed
  show ?thesis using assms(3)
    by (auto simp: arrive_def f Let_def p cursor_in_def split: option.splits response.splits intro!: a)
qed

lemma forget_fields [simp]: "busy (forget i s) = busy s" "fetching (forget i s) = fetching s" "generation (forget i s) = generation s"
  by (simp_all add: forget_def)

lemma forget_all_fields [simp]:
  "busy (fold (\<lambda>i s. if i \<in> A then s else forget i s) is s) = busy s"
  "fetching (fold (\<lambda>i s. if i \<in> A then s else forget i s) is s) = fetching s"
  by (induction "is" arbitrary: s) auto

lemma notice_fields [simp]: "busy (notice sn t c s) = busy s" "fetching (notice sn t c s) = fetching s"
  by (simp_all add: notice_def)

lemma notice_all_fields [simp]:
  "busy (fold (notice sn t) cs s) = busy s" "fetching (fold (notice sn t) cs s) = fetching s"
  by (induction cs arbitrary: s) auto

lemma update_rests: assumes "at_rest s" shows "at_rest (update sn t s)"
proof -
  have d: "at_rest (drain s')" if "busy s' = busy s" "fetching s' = fetching s" for s' :: "'a tracker"
  proof (cases "busy s")
    case True
    then show ?thesis using that assms by (simp add: drain_def at_rest_def)
  next
    case False
    then show ?thesis using that pump_rests [of "s'\<lparr>busy := True\<rparr>"] by (simp add: drain_def)
  qed
  show ?thesis using assms
    by (auto simp: update_def Let_def clear_tracker_def show_badges_def at_rest_def [of "_\<lparr>shown_badges := _\<rparr>"] intro!: d)
       (auto simp: at_rest_def)
qed

lemma step_rests: "at_rest s \<Longrightarrow> at_rest (tracker_step lower e s)"
  by (cases e) (auto simp: tracker_step_def arrive_rests update_rests, auto simp: clear_tracker_def show_badges_def at_rest_def)

lemma run_rests: "at_rest (run_tracker lower es)"
proof (induction es rule: rev_induct)
  case Nil
  then show ?case by (simp add: run_tracker_def new_tracker_def at_rest_def)
next
  case (snoc e es)
  then show ?case by (simp add: run_tracker_def step_rests)
qed

lemma pages_come_to_rest:
  assumes "at_rest s" "finite C" "list_all (cursor_in C) rs" "pages_left C s \<le> length rs"
  shows "\<not> busy (fold (tracker_step lower) (map Page_arrived rs) s)"
  using assms
proof (induction rs arbitrary: s)
  case Nil
  then show ?case by (auto simp: at_rest_def pages_left_def split: option.splits)
next
  case (Cons r rs)
  have r: "at_rest (arrive lower r s)" by (rule arrive_rests [OF Cons.prems(1)])
  have "pages_left C (arrive lower r s) \<le> length rs"
  proof (cases "busy s")
    case True
    then show ?thesis using arrive_progress [of s C r lower] Cons.prems by simp
  next
    case False
    then show ?thesis using Cons.prems(1) by (auto simp: at_rest_def arrive_def pages_left_def)
  qed
  then show ?case using Cons.IH [OF r Cons.prems(2)] Cons.prems(3) by (simp add: tracker_step_def)
qed

lemma pages_left_bound: "pages_left C s \<le> Suc (length (waiting_jobs s)) * Suc (card C)" if "finite C"
proof (cases "fetching s")
  case (Some f)
  have "card (C - f_cursors f) \<le> card C" using that by (simp add: card_mono)
  then show ?thesis by (simp add: pages_left_def Some)
qed (simp add: pages_left_def)

section \<open>Where badges come from\<close>

text \<open>The conversations that are unread and not muted in the last snapshot, none after \<open>clear\<close> or
  while locked.\<close>

definition unread_ids :: "conversation list \<Rightarrow> string set" where
  "unread_ids cs = {conv_id c | c. c \<in> set cs \<and> conv_unread c \<noteq> 0 \<and> conv_muted c \<noteq> Some True}"

fun attentive :: "'t tracker_event \<Rightarrow> string set \<Rightarrow> string set" where
  "attentive (Snapshot_seen sn t) A = (if inst_locked (sn_instance sn) then {} else unread_ids (sn_conversations sn))"
| "attentive Cleared A = {}"
| "attentive (Page_arrived r) A = A"

definition attentive_after :: "'t tracker_event list \<Rightarrow> string set" where
  "attentive_after es = fold attentive es {}"

abbreviation stamped :: "'t tracker \<Rightarrow> string set" where
  "stamped s \<equiv> dom (map_of (stamps s))"

lemma forget_stamped [simp]: "stamped (forget i s) = stamped s - {i}" "badges (forget i s) = badges s - {i}"
  by (auto simp: forget_def split: if_splits)

lemma forget_all:
  assumes "badges s \<subseteq> stamped s"
  shows "badges (fold (\<lambda>i s. if i \<in> A then s else forget i s) is s) \<subseteq> badges s
    \<and> badges (fold (\<lambda>i s. if i \<in> A then s else forget i s) is s) \<subseteq> stamped (fold (\<lambda>i s. if i \<in> A then s else forget i s) is s)
    \<and> stamped (fold (\<lambda>i s. if i \<in> A then s else forget i s) is s) = stamped s - (set is - A)"
  using assms
proof (induction "is" arbitrary: s)
  case (Cons i "is")
  have "badges (if i \<in> A then s else forget i s) \<subseteq> stamped (if i \<in> A then s else forget i s)" using Cons.prems by auto
  from Cons.IH [OF this] show ?case by auto
qed simp

lemma notice_step:
  "badges (notice sn t c s) \<subseteq> badges s"
  "badges s \<subseteq> stamped s \<Longrightarrow> badges (notice sn t c s) \<subseteq> stamped (notice sn t c s)"
  "stamped (notice sn t c s) \<subseteq> (if conv_id c \<in> unread_ids [c] then insert (conv_id c) (stamped s) else stamped s - {conv_id c})"
  by (auto simp: notice_def unread_ids_def split: if_splits)

lemma unread_ids_append: "unread_ids (cs @ ds) = unread_ids cs \<union> unread_ids ds"
  by (auto simp: unread_ids_def)

lemma unread_ids_one: "unread_ids [c] \<subseteq> {conv_id c}"
  by (auto simp: unread_ids_def)

lemma notice_all:
  assumes "badges s \<subseteq> stamped s" "stamped s \<subseteq> unread_ids done \<union> conv_id ` set cs"
  shows "badges (fold (notice sn t) cs s) \<subseteq> badges s \<and> badges (fold (notice sn t) cs s) \<subseteq> stamped (fold (notice sn t) cs s)
    \<and> stamped (fold (notice sn t) cs s) \<subseteq> unread_ids (done @ cs)"
  using assms
proof (induction cs arbitrary: s "done")
  case (Cons c cs)
  have "stamped (notice sn t c s) \<subseteq> unread_ids (done @ [c]) \<union> conv_id ` set cs"
  proof (cases "conv_id c \<in> unread_ids [c]")
    case True
    then have "stamped (notice sn t c s) \<subseteq> insert (conv_id c) (stamped s)" using notice_step(3) [of sn t c s] by simp
    then show ?thesis using True Cons.prems(2) unfolding unread_ids_append by force
  next
    case False
    then have "stamped (notice sn t c s) \<subseteq> stamped s - {conv_id c}" using notice_step(3) [of sn t c s] by simp
    then show ?thesis using Cons.prems(2) unfolding unread_ids_append by force
  qed
  from Cons.IH [OF notice_step(2) [OF Cons.prems(1)] this] notice_step(1) [of sn t c s]
  show ?case by auto
qed (auto simp: unread_ids_def)

lemma drain_keeps: "stamps (drain s) = stamps s" "badges (drain s) \<subseteq> badges s"
  using pump_keeps [of "s\<lparr>busy := True\<rparr>"] by (auto simp: drain_def)

lemma update_badges:
  assumes "badges s \<subseteq> stamped s" "\<not> inst_locked (sn_instance sn)"
  shows "badges (update sn t s) \<subseteq> badges s \<and> badges (update sn t s) \<subseteq> stamped (update sn t s)
    \<and> stamped (update sn t s) \<subseteq> unread_ids (sn_conversations sn)"
proof -
  let ?A = "conv_id ` set (sn_conversations sn)"
  define s1 where "s1 = fold (\<lambda>i s. if i \<in> ?A then s else forget i s) (map fst (stamps s)) s"
  define s2 where "s2 = show_badges (fold (notice sn t) (sn_conversations sn) s1)"
  have u: "update sn t s = drain s2" using assms(2) by (simp add: update_def Let_def s1_def s2_def)
  have "badges s1 \<subseteq> badges s" "badges s1 \<subseteq> stamped s1" "stamped s1 = stamped s - (set (map fst (stamps s)) - ?A)"
    using forget_all [OF assms(1), of ?A "map fst (stamps s)"] unfolding s1_def by blast+
  moreover have "stamped s = set (map fst (stamps s))" by (simp add: dom_map_of_conv_image_fst)
  ultimately have s1: "badges s1 \<subseteq> badges s" "badges s1 \<subseteq> stamped s1" "stamped s1 \<subseteq> unread_ids [] \<union> ?A" by auto
  have "badges s2 \<subseteq> badges s1" "badges s2 \<subseteq> stamped s2" "stamped s2 \<subseteq> unread_ids (sn_conversations sn)"
    using notice_all [OF s1(2,3), of sn t] by (simp_all add: s2_def show_badges_def)
  then show ?thesis using drain_keeps [of s2] s1(1) unfolding u by auto
qed

text \<open>The page that gives a badge.\<close>

definition earns_badge :: "(units \<Rightarrow> units) \<Rightarrow> 't tracker \<Rightarrow> response option \<Rightarrow> string \<Rightarrow> bool" where
  "earns_badge lower s r i \<longleftrightarrow> (\<exists>f page m. fetching s = Some f \<and> f_id f = i \<and> current s f \<and> r = Some (R_history page)
     \<and> m \<in> set (last_messages (f_remaining f) (filter (\<lambda>m. \<not> msg_mine m) (page_messages page)))
     \<and> callsAttention lower m (job_conversation (f_job f)))"

lemma pump_finish_badges:
  "stamps (pump (finish b f s)) = stamps s"
  "badges (pump (finish b f s)) \<subseteq> (if b \<and> current s f then insert (f_id f) (badges s) else badges s)"
  using pump_keeps [of "finish b f s"] subset_trans [OF _ finish_badges [of b f s]] by simp_all

lemma arrive_badges:
  "stamps (arrive lower r s) = stamps s \<and>
   badges (arrive lower r s) \<subseteq> badges s \<union> {i. i \<in> stamped s \<and> earns_badge lower s r i}"
proof (cases "\<exists>f page. fetching s = Some f \<and> r = Some (R_history page) \<and> current s f \<and>
    list_ex (\<lambda>m. callsAttention lower m (job_conversation (f_job f)))
      (last_messages (f_remaining f) (filter (\<lambda>m. \<not> msg_mine m) (page_messages page)))")
  case True
  then obtain f page where f: "fetching s = Some f" "r = Some (R_history page)" "current s f"
    "list_ex (\<lambda>m. callsAttention lower m (job_conversation (f_job f)))
      (last_messages (f_remaining f) (filter (\<lambda>m. \<not> msg_mine m) (page_messages page)))" by blast
  then have "arrive lower r s = pump (finish True f s)" by (simp add: arrive_def Let_def)
  moreover have "earns_badge lower s r (f_id f)" "f_id f \<in> stamped s"
    using f by (auto simp: earns_badge_def list_ex_iff current_def)
  ultimately show ?thesis using pump_finish_badges [of True f s] f(3) by auto
next
  case False
  have p: "stamps (pump s) = stamps s" "badges (pump s) \<subseteq> badges s" "\<And>f. badges (pump (finish False f s)) \<subseteq> badges s"
    using pump_keeps [of s] pump_finish_badges(2) [of False _ s] by auto
  have "stamps (arrive lower r s) = stamps s"
    by (simp add: arrive_def Let_def pump_finish_badges(1) p(1) split: option.split response.split)
  moreover have "badges (arrive lower r s) \<subseteq> badges s"
    using False p(2,3) by (auto simp: arrive_def Let_def split: option.splits response.splits if_splits)
  ultimately show ?thesis by blast
qed

definition badges_ok :: "(units \<Rightarrow> units) \<Rightarrow> 't tracker_event list \<Rightarrow> 't tracker \<Rightarrow> bool" where
  "badges_ok lower es s \<longleftrightarrow> badges s \<subseteq> stamped s \<and> stamped s \<subseteq> attentive_after es
     \<and> badges s \<subseteq> {i. \<exists>before r after. es = before @ Page_arrived r # after \<and> Cleared \<notin> set after
          \<and> earns_badge lower (run_tracker lower before) r i}"

lemma clear_badges [simp]: "badges (clear_tracker s) = {}" "stamps (clear_tracker s) = []"
  by (simp_all add: clear_tracker_def show_badges_def)

lemma badges_extend:
  assumes "badges_ok lower es s" "e \<noteq> Cleared" "i \<in> badges s"
  shows "\<exists>before r after. es @ [e] = before @ Page_arrived r # after \<and> Cleared \<notin> set after
     \<and> earns_badge lower (run_tracker lower before) r i"
proof -
  obtain before r after where "es = before @ Page_arrived r # after" "Cleared \<notin> set after"
      "earns_badge lower (run_tracker lower before) r i"
    using assms(1,3) by (auto simp: badges_ok_def)
  then show ?thesis using assms(2)
    by (intro exI [of _ before] exI [of _ r] exI [of _ "after @ [e]"]) simp
qed

lemma run_snoc: "run_tracker lower (es @ [e]) = tracker_step lower e (run_tracker lower es)"
  by (simp add: run_tracker_def)

lemma run_badges: "badges_ok lower es (run_tracker lower es)"
proof (induction es rule: rev_induct)
  case Nil
  then show ?case by (simp add: run_tracker_def new_tracker_def badges_ok_def)
next
  case (snoc e es)
  let ?s = "run_tracker lower es"
  note ok = snoc.IH
  have b: "badges ?s \<subseteq> stamped ?s" using ok by (simp add: badges_ok_def)
  show ?case
  proof (cases e)
    case Cleared
    then show ?thesis by (simp add: run_snoc tracker_step_def badges_ok_def)
  next
    case (Snapshot_seen sn t)
    show ?thesis
    proof (cases "inst_locked (sn_instance sn)")
      case True
      then show ?thesis by (simp add: run_snoc tracker_step_def Snapshot_seen update_def badges_ok_def)
    next
      case False
      have "e \<noteq> Cleared" by (simp add: Snapshot_seen)
      from badges_extend [OF ok this] update_badges [OF b False, of t] False show ?thesis
        by (auto simp: run_snoc tracker_step_def Snapshot_seen badges_ok_def attentive_after_def) 
    qed
  next
    case (Page_arrived r)
    have "e \<noteq> Cleared" by (simp add: Page_arrived)
    then have old: "i \<in> badges ?s \<Longrightarrow> \<exists>before r after. es @ [e] = before @ Page_arrived r # after \<and> Cleared \<notin> set after
        \<and> earns_badge lower (run_tracker lower before) r i" for i
      using badges_extend [OF ok] by blast
    have new: "\<exists>before r after. es @ [e] = before @ Page_arrived r # after \<and> Cleared \<notin> set after
        \<and> earns_badge lower (run_tracker lower before) r i" if "earns_badge lower ?s r i" for i
      using that by (intro exI [of _ es] exI [of _ r] exI [of _ "[]"]) (simp add: Page_arrived)
    show ?thesis using arrive_badges [of lower r ?s] ok old new b
      by (simp add: run_snoc tracker_step_def Page_arrived badges_ok_def attentive_after_def) blast
  qed
qed

section \<open>Properties\<close>


definition watched :: conversation where
  "watched = \<lparr>conv_catchUp = None, conv_muted = None, conv_policy = None, conv_provider = None, conv_id = ''channel/a'',
     conv_channelId = ''a'', conv_kind = Channel, conv_name = ''a'', conv_topic = ''t'', conv_active = True,
     conv_owner = False, conv_visibility = None, conv_directory = None, conv_members = [], conv_unread = 2,
     conv_lastMessageId = None, conv_inputLimitBytes = 16384, conv_commands = []\<rparr>"

definition watched_snapshot :: snapshot where
  "watched_snapshot = \<lparr>sn_instance = \<lparr>inst_build = None, inst_id = ''i'', inst_label = ''l'', inst_bootId = ''b'', inst_locked = False,
       inst_protocolLocked = False, inst_profileExists = True, inst_archiveExists = True, inst_safetyNumber = ''0'', inst_capabilities = []\<rparr>,
     sn_revision = ''1'', sn_conversations = [watched], sn_commandHistory = [], sn_inputHistory = [], sn_providerErrors = [],
     sn_operations = None, sn_activity = None, sn_presenceEnabled = None\<rparr>"

definition said :: "bool option \<Rightarrow> message" where
  "said h = \<lparr>msg_highlighted = h, msg_messageKind = None, msg_id = ''m'', msg_conversationId = ''channel/a'', msg_memberId = None,
     msg_nickname = ''n'', msg_body = ''hello'', msg_timestamp = 0, msg_mine = False, msg_operationId = None, msg_delivery = None,
     msg_result = None\<rparr>"

definition page_of :: "message list \<Rightarrow> string option \<Rightarrow> response option" where
  "page_of ms b = Some (R_history \<lparr>page_messages = ms, page_before = b\<rparr>)"

lemmas tracker_eval = run_tracker_def tracker_step_def update_def arrive_def drain_def pump_simps show_badges_def notice_def
  new_tracker_def watched_snapshot_def watched_def current_def ask_def finish_def Let_def said_def page_of_def
  last_messages_def callsAttention_def


text \<open>C26: The inspection terminates.  When the cursors a service hands out come from a finite set, then
  whatever happened before, after at most one page per waiting conversation and cursor, and one more
  each, \<open>drain\<close> has come to rest: it is not busy, nothing waits and no request is outstanding.\<close>

theorem inspection_terminates:
  assumes "finite C" "list_all (cursor_in C) rs"
    and "Suc (length (waiting_jobs (run_tracker lower es))) * Suc (card C) \<le> length rs"
  shows "\<not> busy (run_tracker lower (es @ map Page_arrived rs))
    \<and> waiting_jobs (run_tracker lower (es @ map Page_arrived rs)) = []
    \<and> fetching (run_tracker lower (es @ map Page_arrived rs)) = None"
proof -
  have "pages_left C (run_tracker lower es) \<le> length rs"
    using pages_left_bound [OF assms(1), of "run_tracker lower es"] assms(3) by linarith
  then have "\<not> busy (run_tracker lower (es @ map Page_arrived rs))"
    using pages_come_to_rest [OF run_rests [of lower es] assms(1,2), of lower] by (simp add: run_tracker_def)
  then show ?thesis using run_rests [of lower "es @ map Page_arrived rs"] by (simp add: at_rest_def)
qed

theorem inspection_terminates_witness:
  "\<not> busy (run_tracker id ([Snapshot_seen watched_snapshot ()] @ map Page_arrived [page_of [said None] (Some ''p''), page_of [] (Some ''p'')]))"
proof -
  have "waiting_jobs (run_tracker id [Snapshot_seen watched_snapshot ()]) = []" by (simp add: tracker_eval)
  then show ?thesis
    using inspection_terminates [of "{''p''}" "[page_of [said None] (Some ''p''), page_of [] (Some ''p'')]" id
        "[Snapshot_seen watched_snapshot ()]"]
    by (simp add: page_of_def cursor_in_def)
qed

end
