(* ===== verification/Rpc_Transport.thy ===== *)
theory Rpc_Transport
  imports Transport Unread_Highlights
begin

text \<open>
  \<open>ui/src/rpc-transport.ts\<close>: requests become typed calls of \<open>@gcoms/rpc\<close>, and mutations become
  operations with a retained handle.  The client library is not part of the repository: what its calls
  return, the handle a preparation makes and the handles its store lists are inputs of the model.  The
  bookkeeping of running operations (\<open>active\<close>, \<open>live\<close>) is a machine whose steps are a request, a status
  check and the end of a running call.
\<close>

section \<open>Errors\<close>

datatype failure = Service_failure string string | Rpc_failure string string | Other_failure thrown

definition rpc_error :: "failure \<Rightarrow> chat_error" where
  "rpc_error f = (case f of
       Service_failure c m \<Rightarrow> ChatError c m
     | Rpc_failure c m \<Rightarrow> ChatError (if c = ''unauthorized'' then ''locked'' else c) m
     | Other_failure t \<Rightarrow> chatError t)"

section \<open>Routing\<close>

datatype rpc_call =
    Call_enrollment string string
  | Call_networks_details network_request
  | Call_networks network_request
  | Call_files file_request
  | Call_identify
  | Call_snapshot
  | Call_unlock string bool
  | Call_lock
  | Call_disconnect
  | Call_network_status
  | Call_import_network_invitation string
  | Call_catalogue "string option"
  | Call_history_details string "string option" int
  | Call_history string "string option" int
  | Call_search_details string string "string option" int
  | Call_search string string "string option" int
  | Call_complete "string option" string
  | Call_events string int

datatype rpc_operation =
    Op_network_operation network_request
  | Op_mark_read string string
  | Op_submit "string option" string

datatype rpc_value =
    V_response response
  | V_networks network_response
  | V_files file_snapshot
  | V_instance instance_info
  | V_snapshot snapshot
  | V_network_status network_status
  | V_catalogue "command_spec list"
  | V_page history_page
  | V_completions "completion list"
  | V_revision string
  | V_applied "string option" "string option"

text \<open>The answer a typed value is wrapped in.\<close>

definition respond :: "rpc_value \<Rightarrow> response" where
  "respond v = (case v of
       V_response r \<Rightarrow> r
     | V_networks r \<Rightarrow> R_networks r
     | V_files s \<Rightarrow> R_files s
     | V_instance i \<Rightarrow> R_instance i
     | V_snapshot s \<Rightarrow> R_snapshot s
     | V_network_status s \<Rightarrow> R_network_status s
     | V_catalogue c \<Rightarrow> R_catalogue c
     | V_page p \<Rightarrow> R_history p
     | V_completions c \<Rightarrow> R_completed c
     | V_revision r \<Rightarrow> R_changed r
     | V_applied c n \<Rightarrow> R_applied c n)"

text \<open>A request is one call; the import of an invitation, answered by a fixed notice; an operation,
  with the identity it must have; or refused.\<close>

datatype routed =
    Direct rpc_call
  | Import_then_notice string
  | Operation rpc_operation "string option"
  | Refused string string

definition mutating :: "network_request \<Rightarrow> bool" where
  "mutating n = (case n of Join _ _ _ _ \<Rightarrow> True
     | Call _ r \<Rightarrow> (case r of Submit _ _ _ \<Rightarrow> True | Mark_read _ _ \<Rightarrow> True | _ \<Rightarrow> False)
     | _ \<Rightarrow> False)"

definition network_operation_id :: "network_request \<Rightarrow> string option" where
  "network_operation_id n = (case n of Join _ _ _ i \<Rightarrow> if i = [] then None else Some i
     | Call _ r \<Rightarrow> (case r of Submit i _ _ \<Rightarrow> if i = [] then None else Some i | _ \<Rightarrow> None)
     | _ \<Rightarrow> None)"

definition text_of :: "units \<Rightarrow> string" where
  "text_of us = map (\<lambda>b. char_of (unat b)) (utf8_encode us)"

definition lower_ascii :: "16 word \<Rightarrow> 16 word" where
  "lower_ascii u = (if 0x41 \<le> u \<and> u \<le> 0x5A then u + 0x20 else u)"

text \<open>A literal at the start, whatever its case, and what follows it.\<close>

definition after_literal :: "string \<Rightarrow> units \<Rightarrow> units option" where
  "after_literal l us = (if map lower_ascii (take (length l) us) = ascii l then Some (drop (length l) us) else None)"

definition after_white :: "units \<Rightarrow> units option" where
  "after_white us = (case us of u # _ \<Rightarrow> if white u then Some (dropWhile white us) else None | [] \<Rightarrow> None)"

text \<open>\<open>/^\\/network\\s+join\\s+([\\s\\S]+)$/i\<close> on trimmed text.\<close>

definition network_join :: "units \<Rightarrow> units option" where
  "network_join us =
     Option.bind (after_literal ''/network'' us) (\<lambda>a. Option.bind (after_white a) (\<lambda>b.
       Option.bind (after_literal ''join'' b) (\<lambda>c. Option.bind (after_white c) (\<lambda>d.
         if d = [] then None else Some d))))"

definition route :: "(string \<Rightarrow> bool) \<Rightarrow> request \<Rightarrow> routed" where
  "route supports r = (case r of
       Enrollment i a \<Rightarrow> Direct (Call_enrollment i a)
     | Update _ \<Rightarrow> Refused ''unsupported'' ''Application updates require the local desktop owner.''
     | Networks n \<Rightarrow>
         if mutating n then Operation (Op_network_operation n) (network_operation_id n)
         else Direct (if supports ''networks_details'' then Call_networks_details n else Call_networks n)
     | Files f \<Rightarrow> Direct (Call_files f)
     | Identify \<Rightarrow> Direct Call_identify
     | Snapshot \<Rightarrow> Direct Call_snapshot
     | Unlock p c \<Rightarrow> Direct (Call_unlock p c)
     | Lock \<Rightarrow> Direct Call_lock
     | Disconnect \<Rightarrow> Direct Call_disconnect
     | Network_status \<Rightarrow> Direct Call_network_status
     | Import_network_invitation c \<Rightarrow> Direct (Call_import_network_invitation c)
     | Catalogue c \<Rightarrow> Direct (Call_catalogue c)
     | History c b l \<Rightarrow> Direct (if supports ''history_details'' then Call_history_details c b l else Call_history c b l)
     | Search c t b l \<Rightarrow> Direct (if supports ''search_details'' then Call_search_details c t b l else Call_search c t b l)
     | Complete c t \<Rightarrow> Direct (Call_complete c t)
     | Events a w \<Rightarrow> Direct (Call_events a w)
     | Mark_read c m \<Rightarrow> Operation (Op_mark_read c m) None
     | Submit i c t \<Rightarrow>
         (let us = trim (units_of t) in
          if us = ascii ''/lock'' then Direct Call_lock
          else if us = ascii ''/disconnect'' \<or> us = ascii ''/quit'' then Direct Call_disconnect
          else case network_join us of
              Some code \<Rightarrow> Import_then_notice (text_of (trim code))
            | None \<Rightarrow> Operation (Op_submit c t) (Some i)))"

definition joined_notice :: response where
  "joined_notice = R_applied None (Some ''Network invitation saved. Connecting in the background.'')"

text \<open>A request that is not an operation, over the client's calls.\<close>

definition direct_request :: "('w \<Rightarrow> rpc_call \<Rightarrow> 'w \<times> (failure, rpc_value) result) \<Rightarrow> 'w \<Rightarrow> routed \<Rightarrow> 'w \<times> response outcome" where
  "direct_request client w r = (case r of
       Direct c \<Rightarrow> (case client w c of (w', Inl f) \<Rightarrow> (w', Inl (Thrown_chat (rpc_error f))) | (w', Inr v) \<Rightarrow> (w', Inr (respond v)))
     | Import_then_notice code \<Rightarrow>
         (case client w (Call_import_network_invitation code) of
            (w', Inl f) \<Rightarrow> (w', Inl (Thrown_chat (rpc_error f))) | (w', Inr _) \<Rightarrow> (w', Inr joined_notice))
     | Refused c m \<Rightarrow> (w, throw_chat c m)
     | Operation _ _ \<Rightarrow> (w, throw_chat ''protocol'' ''not a direct request''))"

section \<open>Handles and running operations\<close>

record op_handle =
  h_destination :: string
  h_instance :: string
  h_service :: string
  h_version :: int
  h_method :: string
  h_operation :: string

record rpc_context =
  ctx_destination :: string
  ctx_instance :: string
  ctx_capabilities :: "string list"

definition SERVICE :: string where "SERVICE = ''ghost.chat''"
definition SERVICE_VERSION :: int where "SERVICE_VERSION = 1"

definition supports :: "rpc_context \<Rightarrow> string \<Rightarrow> bool" where
  "supports ctx m \<longleftrightarrow> ''chat.method.'' @ m \<in> set (ctx_capabilities ctx)"

definition retainedOperations :: "rpc_context \<Rightarrow> op_handle list \<Rightarrow> op_handle list" where
  "retainedOperations ctx stored = filter (\<lambda>h. h_destination h = ctx_destination ctx \<and> h_instance h = ctx_instance ctx
     \<and> h_service h = SERVICE \<and> h_version h = SERVICE_VERSION) stored"

definition find_handle :: "rpc_context \<Rightarrow> op_handle list \<Rightarrow> string \<Rightarrow> op_handle option" where
  "find_handle ctx stored i = find (\<lambda>h. h_operation h = i) (retainedOperations ctx stored)"

text \<open>What a running call does.\<close>

datatype run_call = Start_and_wait rpc_operation op_handle | Resume_operation string op_handle

record active_op =
  act_method :: string
  act_fingerprint :: "string option"
  act_task :: nat

record running =
  run_id :: string
  run_method :: string
  run_fingerprint :: "string option"
  run_what :: run_call

record caller =
  cl_task :: nat
  cl_id :: string
  cl_method :: string
  cl_fingerprint :: "string option"
  cl_handle :: op_handle

record rpc_session =
  active :: "(string \<times> active_op) list"
  tasks :: "(nat \<times> running) list"
  next_task :: nat
  callers :: "caller list"
  answers :: "(caller \<times> (failure, rpc_value) result) list"
  refused :: "chat_error list"
  forgotten :: "op_handle list"
  task_log :: "(nat \<times> running) list"

definition new_session :: rpc_session where
  "new_session = \<lparr>active = [], tasks = [], next_task = 0, callers = [], answers = [], refused = [], forgotten = [], task_log = []\<rparr>"

definition pendingOperations :: "rpc_context \<Rightarrow> op_handle list \<Rightarrow> rpc_session \<Rightarrow> op_handle list" where
  "pendingOperations ctx stored s =
     filter (\<lambda>h. map_of (active s) (h_operation h) = None \<and> h_method h \<noteq> ''mark_read'') (retainedOperations ctx stored)"

definition conflict :: chat_error where
  "conflict = ChatError ''conflict'' ''This operation ID already belongs to another request or active status check.''"

text \<open>\<open>live\<close> up to its \<open>await\<close>: join the running call of this identity, refuse another request's
  identity, or start.\<close>

definition live :: "string \<Rightarrow> string \<Rightarrow> run_call \<Rightarrow> string option \<Rightarrow> op_handle \<Rightarrow> rpc_session \<Rightarrow> rpc_session" where
  "live i meth call fingerprint h s =
     (let waiter = (\<lambda>t. \<lparr>cl_task = t, cl_id = i, cl_method = meth, cl_fingerprint = fingerprint, cl_handle = h\<rparr>) in
      case map_of (active s) i of
        Some e \<Rightarrow>
          if meth \<noteq> act_method e \<or> (fingerprint \<noteq> None \<and> fingerprint \<noteq> act_fingerprint e)
          then s\<lparr>refused := refused s @ [conflict]\<rparr>
          else s\<lparr>callers := callers s @ [waiter (act_task e)]\<rparr>
      | None \<Rightarrow>
          let t = next_task s;
              r = \<lparr>run_id = i, run_method = meth, run_fingerprint = fingerprint, run_what = call\<rparr>
          in s\<lparr>active := put i \<lparr>act_method = meth, act_fingerprint = fingerprint, act_task = t\<rparr> (active s),
               tasks := put t r (tasks s), next_task := Suc t, callers := callers s @ [waiter t],
               task_log := put t r (task_log s)\<rparr>)"

definition start_operation :: "rpc_context \<Rightarrow> op_handle list \<Rightarrow> op_handle \<Rightarrow> string \<Rightarrow> rpc_operation \<Rightarrow> string option \<Rightarrow>
    rpc_session \<Rightarrow> rpc_session" where
  "start_operation ctx stored prepared json op i s =
     (let h = (case i of None \<Rightarrow> prepared
          | Some i \<Rightarrow> (case find_handle ctx stored i of Some h \<Rightarrow> h | None \<Rightarrow> prepared\<lparr>h_operation := i\<rparr>)) in
      live (h_operation h) (h_method h) (Start_and_wait op h) (Some json) h s)"

definition checkOperation :: "rpc_context \<Rightarrow> op_handle list \<Rightarrow> string \<Rightarrow> rpc_session \<Rightarrow> rpc_session" where
  "checkOperation ctx stored i s =
     (case find_handle ctx stored i of
        None \<Rightarrow> s\<lparr>refused := refused s @ [ChatError ''unavailable'' ''No retained operation with this ID'']\<rparr>
      | Some h \<Rightarrow>
          if h_method h \<in> {''submit'', ''mark_read'', ''network_operation''}
          then live i (h_method h) (Resume_operation (h_method h) h) None h s
          else s\<lparr>refused := refused s @ [ChatError ''protocol'' ''Unknown saved operation meth'']\<rparr>)"

text \<open>A running call ends: its entry is deleted, then everyone who awaits it goes on; after a success
  each forgets its handle.\<close>

definition task_ends :: "nat \<Rightarrow> (failure, rpc_value) result \<Rightarrow> rpc_session \<Rightarrow> rpc_session" where
  "task_ends t r s =
     (case map_of (tasks s) t of None \<Rightarrow> s
      | Some run \<Rightarrow>
          let ready = filter (\<lambda>c. cl_task c = t) (callers s) in
          s\<lparr>active := remove_key (run_id run) (active s), tasks := remove_key t (tasks s),
            callers := filter (\<lambda>c. cl_task c \<noteq> t) (callers s),
            answers := answers s @ map (\<lambda>c. (c, r)) ready,
            forgotten := forgotten s @ (if isl r then [] else map cl_handle ready)\<rparr>)"

definition forgetOperation :: "rpc_context \<Rightarrow> op_handle list \<Rightarrow> string \<Rightarrow> rpc_session \<Rightarrow> rpc_session" where
  "forgetOperation ctx stored i s =
     (case find_handle ctx stored i of None \<Rightarrow> s | Some h \<Rightarrow> s\<lparr>forgotten := forgotten s @ [h]\<rparr>)"

text \<open>One event, with the handles the store lists at that moment.\<close>

datatype session_event =
    Requested request string op_handle
  | Checked string
  | Forgot string
  | Task_ended nat "(failure, rpc_value) result"

definition session_step :: "rpc_context \<Rightarrow> op_handle list \<Rightarrow> session_event \<Rightarrow> rpc_session \<Rightarrow> rpc_session" where
  "session_step ctx stored e s = (case e of
       Requested r json prepared \<Rightarrow>
         (case route (supports ctx) r of Operation op i \<Rightarrow> start_operation ctx stored prepared json op i s | _ \<Rightarrow> s)
     | Checked i \<Rightarrow> checkOperation ctx stored i s
     | Forgot i \<Rightarrow> forgetOperation ctx stored i s
     | Task_ended t r \<Rightarrow> task_ends t r s)"

section \<open>Attachment\<close>

text \<open>The typed \<open>identify\<close> of a client made for an instance is a parameter.\<close>

definition attachRpc :: "'w exchange \<Rightarrow> ('w \<Rightarrow> string \<Rightarrow> 'w \<times> (failure, instance_info) result) \<Rightarrow> string \<Rightarrow> string option \<Rightarrow>
    'w wire \<Rightarrow> 'w wire \<times> rpc_context outcome" where
  "attachRpc exchange typed_identify destination expectedInstance s =
     (case attach exchange expectedInstance s of
        (s, Inl e) \<Rightarrow> (s, Inl e)
      | (s, Inr compatibility) \<Rightarrow>
          (case attached_request exchange compatibility s Identify of
             (s, Inl e) \<Rightarrow> (s, Inl e)
           | (s, Inr (R_instance hello)) \<Rightarrow>
               (case typed_identify (world s) (inst_id hello) of
                  (w, Inl f) \<Rightarrow> (s\<lparr>world := w\<rparr>, Inl (Thrown_chat (rpc_error f)))
                | (w, Inr i) \<Rightarrow>
                    (s\<lparr>world := w\<rparr>,
                     if inst_id i \<noteq> inst_id hello then throw_chat ''instance'' ''Selected instance changed''
                     else Inr \<lparr>ctx_destination = destination, ctx_instance = inst_id hello, ctx_capabilities = inst_capabilities hello\<rparr>))
           | (s, Inr _) \<Rightarrow> (s, throw_chat ''protocol'' ''Invalid instance handshake'')))"

section \<open>Sessions\<close>

inductive session_reachable :: "rpc_context \<Rightarrow> rpc_session \<Rightarrow> bool" for ctx where
  new: "session_reachable ctx new_session"
| step: "session_reachable ctx s \<Longrightarrow> session_reachable ctx (session_step ctx stored e s)"

section \<open>What holds of every session\<close>

definition entry_of :: "nat \<Rightarrow> running \<Rightarrow> active_op" where
  "entry_of t r = \<lparr>act_method = run_method r, act_fingerprint = run_fingerprint r, act_task = t\<rparr>"

text \<open>A caller may be given what this call returns: the same operation, method and request, or it asks
  for the operation's status only.\<close>

definition may_receive :: "caller \<Rightarrow> running \<Rightarrow> bool" where
  "may_receive c r \<longleftrightarrow> cl_id c = run_id r \<and> cl_method c = run_method r
     \<and> (cl_fingerprint c = None \<or> cl_fingerprint c = run_fingerprint r)"

definition session_ok :: "rpc_session \<Rightarrow> bool" where
  "session_ok s \<longleftrightarrow>
     (\<forall>t \<ge> next_task s. map_of (task_log s) t = None)
     \<and> (\<forall>t r. map_of (tasks s) t = Some r \<longrightarrow> map_of (task_log s) t = Some r \<and> map_of (active s) (run_id r) = Some (entry_of t r))
     \<and> (\<forall>i e. map_of (active s) i = Some e \<longrightarrow> (\<exists>r. map_of (tasks s) (act_task e) = Some r \<and> run_id r = i))
     \<and> (\<forall>c \<in> set (callers s). \<exists>r. map_of (tasks s) (cl_task c) = Some r \<and> may_receive c r)
     \<and> (\<forall>(c, v) \<in> set (answers s). \<exists>r. map_of (task_log s) (cl_task c) = Some r \<and> may_receive c r)"

lemma session_okD:
  assumes "session_ok s"
  shows "t \<ge> next_task s \<Longrightarrow> map_of (task_log s) t = None"
    "map_of (tasks s) t = Some r \<Longrightarrow> map_of (task_log s) t = Some r"
    "map_of (tasks s) t = Some r \<Longrightarrow> map_of (active s) (run_id r) = Some (entry_of t r)"
    "map_of (active s) i = Some e \<Longrightarrow> \<exists>r. map_of (tasks s) (act_task e) = Some r \<and> run_id r = i"
    "c \<in> set (callers s) \<Longrightarrow> \<exists>r. map_of (tasks s) (cl_task c) = Some r \<and> may_receive c r"
    "(c, v) \<in> set (answers s) \<Longrightarrow> \<exists>r. map_of (task_log s) (cl_task c) = Some r \<and> may_receive c r"
  using assms unfolding session_ok_def by blast+

lemma session_ok_new: "session_ok new_session"
  by (simp add: session_ok_def new_session_def)

lemma session_ok_refused: "session_ok (s\<lparr>refused := x\<rparr>) = session_ok s"
  by (simp add: session_ok_def)

lemma session_ok_forgotten: "session_ok (s\<lparr>forgotten := x\<rparr>) = session_ok s"
  by (simp add: session_ok_def)

lemma live_joins:
  assumes ok: "session_ok s" and e: "map_of (active s) i = Some e"
    and same: "meth = act_method e" "fingerprint = None \<or> fingerprint = act_fingerprint e"
  shows "session_ok (s\<lparr>callers := callers s @ [\<lparr>cl_task = act_task e, cl_id = i, cl_method = meth, cl_fingerprint = fingerprint,
    cl_handle = h\<rparr>]\<rparr>)"
proof -
  obtain r where r: "map_of (tasks s) (act_task e) = Some r" "run_id r = i" using session_okD(4) [OF ok e] by blast
  then have "e = entry_of (act_task e) r" using session_okD(3) [OF ok r(1)] e by simp
  then have "act_method e = run_method r" "act_fingerprint e = run_fingerprint r" by (metis active_op.select_convs entry_of_def)+
  then have "may_receive \<lparr>cl_task = act_task e, cl_id = i, cl_method = meth, cl_fingerprint = fingerprint, cl_handle = h\<rparr> r"
    using same r(2) by (simp add: may_receive_def)
  then show ?thesis using ok r(1) by (simp add: session_ok_def)
qed

lemma live_starts:
  assumes ok: "session_ok s" and free: "map_of (active s) i = None"
  shows "session_ok (live i meth call fingerprint h s)"
proof -
  define t where "t = next_task s"
  define r where "r = \<lparr>run_id = i, run_method = meth, run_fingerprint = fingerprint, run_what = call\<rparr>"
  define c where "c = \<lparr>cl_task = t, cl_id = i, cl_method = meth, cl_fingerprint = fingerprint, cl_handle = h\<rparr>"
  have fresh: "map_of (task_log s) t = None" "map_of (tasks s) t = None"
    using session_okD(1,2) [OF ok, of t] by (cases "map_of (tasks s) t"; auto simp: t_def)+
  have new: "may_receive c r" "entry_of t r = \<lparr>act_method = meth, act_fingerprint = fingerprint, act_task = t\<rparr>"
    by (simp_all add: may_receive_def c_def r_def entry_of_def)
  have other: "run_id r' \<noteq> i" "t' \<noteq> t" if "map_of (tasks s) t' = Some r'" for t' r'
    using session_okD(3) [OF ok that] free fresh(2) that by auto
  have task: "act_task e \<noteq> t" if "map_of (active s) j = Some e" for j e
    using session_okD(4) [OF ok that] fresh(2) by auto
  have ans: "cl_task c' \<noteq> t" if "(c', v) \<in> set (answers s)" for c' v
    using session_okD(6) [OF ok that] fresh(1) by auto
  have cal: "cl_task c' \<noteq> t" if "c' \<in> set (callers s)" for c'
    using session_okD(5) [OF ok that] fresh(2) by auto
  have eq: "live i meth call fingerprint h s =
      s\<lparr>active := put i (entry_of t r) (active s), tasks := put t r (tasks s), next_task := Suc t,
        callers := callers s @ [c], task_log := put t r (task_log s)\<rparr>"
    using free by (simp add: live_def Let_def entry_of_def c_def r_def t_def)
  have rid: "run_id r = i" by (simp add: r_def)
  have at: "act_task (entry_of t r) = t" "cl_task c = t" by (simp_all add: entry_of_def c_def)
  show ?thesis unfolding eq session_ok_def
  proof (intro conjI)
    show "\<forall>t' \<ge> next_task (s\<lparr>active := put i (entry_of t r) (active s), tasks := put t r (tasks s), next_task := Suc t,
        callers := callers s @ [c], task_log := put t r (task_log s)\<rparr>). map_of (task_log (s\<lparr>active := put i (entry_of t r) (active s),
        tasks := put t r (tasks s), next_task := Suc t, callers := callers s @ [c], task_log := put t r (task_log s)\<rparr>)) t' = None"
      using session_okD(1) [OF ok] by (auto simp: t_def)
  qed (use session_okD(2-6) [OF ok] new other task ans cal rid at in \<open>auto simp: split_def\<close>)
qed

lemma live_ok: "session_ok s \<Longrightarrow> session_ok (live i meth call fingerprint h s)"
proof (cases "map_of (active s) i")
  case None
  then show "session_ok s \<Longrightarrow> ?thesis" by (rule live_starts [rotated])
next
  case (Some e)
  then show "session_ok s \<Longrightarrow> ?thesis" using live_joins [OF _ Some]
    by (auto simp: live_def Let_def session_ok_refused)
qed

lemma task_ends_ok:
  assumes ok: "session_ok s" shows "session_ok (task_ends t v s)"
proof (cases "map_of (tasks s) t")
  case None
  then show ?thesis using ok by (simp add: task_ends_def)
next
  case (Some run)
  note a = session_okD(3) [OF ok Some]
  have other: "run_id r \<noteq> run_id run" if "map_of (tasks s) t' = Some r" "t' \<noteq> t" for t' r
    using session_okD(3) [OF ok that(1)] a that(2) by (auto simp: entry_of_def)
  have task: "act_task e \<noteq> t" if "map_of (active s) j = Some e" "j \<noteq> run_id run" for j e
    using session_okD(4) [OF ok that(1)] Some that(2) by auto
  have here: "may_receive c run" if "c \<in> set (callers s)" "cl_task c = t" for c
    using session_okD(5) [OF ok that(1)] Some that(2) by auto
  show ?thesis
    using session_okD [OF ok] other task here session_okD(2) [OF ok Some]
    by (auto simp: task_ends_def Some Let_def session_ok_def split_def) fastforce+
qed

lemma session_step_ok: "session_ok s \<Longrightarrow> session_ok (session_step ctx stored e s)"
  by (auto simp: session_step_def start_operation_def checkOperation_def forgetOperation_def Let_def live_ok task_ends_ok
      session_ok_refused session_ok_forgotten split: session_event.split routed.split option.split)

lemma session_reachable_ok: "session_reachable ctx s \<Longrightarrow> session_ok s"
  by (induction rule: session_reachable.induct) (simp_all add: session_ok_new session_step_ok)

lemma session_tasks_distinct: "session_reachable ctx s \<Longrightarrow> distinct (map fst (tasks s))"
proof (induction rule: session_reachable.induct)
  case new
  then show ?case by (simp add: new_session_def)
next
  case (step s stored e)
  have "distinct (map fst (tasks (live i meth call fingerprint h s)))" for i meth call fingerprint h
    using step.IH by (simp add: live_def Let_def distinct_put split: option.split)
  moreover have "distinct (map fst (tasks (task_ends t r s)))" for t r
    using step.IH by (simp add: task_ends_def Let_def distinct_remove_key split: option.split)
  ultimately show ?case using step.IH
    by (simp add: session_step_def start_operation_def checkOperation_def forgetOperation_def Let_def
        split: session_event.split routed.split option.split)
qed

section \<open>Properties\<close>

definition sample_context :: rpc_context where
  "sample_context = \<lparr>ctx_destination = ''/rpc'', ctx_instance = ''i'', ctx_capabilities = []\<rparr>"

definition sample_handle :: op_handle where
  "sample_handle = \<lparr>h_destination = ''/rpc'', h_instance = ''i'', h_service = ''ghost.chat'', h_version = 1, h_method = ''mark_read'',
     h_operation = ''op''\<rparr>"

definition sample_session :: "session_event list \<Rightarrow> rpc_session" where
  "sample_session es = fold (session_step sample_context []) es new_session"

lemma sample_reachable: "session_reachable sample_context (sample_session es)"
proof (induction es rule: rev_induct)
  case Nil
  then show ?case by (simp add: sample_session_def session_reachable.new)
next
  case (snoc e es)
  then show ?case by (simp add: sample_session_def session_reachable.step)
qed

lemmas session_eval = sample_session_def session_step_def route_def start_operation_def live_def new_session_def task_ends_def
  sample_handle_def Let_def



text \<open>C15: One live call per operation.  No two calls that run at the same time have the same operation
  identity, every caller that waits waits for one of them, and a running operation is not offered for
  recovery.\<close>

theorem one_live_call:
  assumes "session_reachable ctx s"
  shows "distinct (map (run_id \<circ> snd) (tasks s))
    \<and> list_all (\<lambda>c. cl_task c \<in> fst ` set (tasks s)) (callers s)
    \<and> list_all (\<lambda>h. h_operation h \<notin> (run_id \<circ> snd) ` set (tasks s)) (pendingOperations ctx stored s)"
proof (intro conjI)
  note ok = session_okD [OF session_reachable_ok [OF assms]]
  have entry: "map_of (active s) (run_id r) = Some (entry_of t r)" if "(t, r) \<in> set (tasks s)" for t r
    using that ok(3) session_tasks_distinct [OF assms] by simp
  have "x = y" if "x \<in> set (tasks s)" "y \<in> set (tasks s)" "run_id (snd x) = run_id (snd y)" for x y
  proof -
    have "entry_of (fst x) (snd x) = entry_of (fst y) (snd y)"
      using entry [of "fst x" "snd x"] entry [of "fst y" "snd y"] that by simp
    then have "fst x = fst y" by (simp add: entry_of_def)
    then show ?thesis using that session_tasks_distinct [OF assms] by (metis eq_key_imp_eq_value prod.collapse)
  qed
  then have "inj_on (run_id \<circ> snd) (set (tasks s))" by (simp add: inj_on_def)
  then show "distinct (map (run_id \<circ> snd) (tasks s))"
    using session_tasks_distinct [OF assms] by (simp add: distinct_map)
  show "list_all (\<lambda>c. cl_task c \<in> fst ` set (tasks s)) (callers s)"
    using ok(5) by (force simp: list_all_iff dest: map_of_SomeD)
  show "list_all (\<lambda>h. h_operation h \<notin> (run_id \<circ> snd) ` set (tasks s)) (pendingOperations ctx stored s)"
    using entry by (auto simp: list_all_iff pendingOperations_def)
qed

theorem one_live_call_witness:
  "distinct (map (run_id \<circ> snd) (tasks (sample_session [Requested (Mark_read ''c'' ''m'') ''json'' sample_handle,
      Requested (Mark_read ''c'' ''m'') ''json'' (sample_handle\<lparr>h_operation := ''other''\<rparr>)])))
   \<and> length (tasks (sample_session [Requested (Mark_read ''c'' ''m'') ''json'' sample_handle,
      Requested (Mark_read ''c'' ''m'') ''json'' (sample_handle\<lparr>h_operation := ''other''\<rparr>)])) = 2"
  using one_live_call [OF sample_reachable [of "[Requested (Mark_read ''c'' ''m'') ''json'' sample_handle,
      Requested (Mark_read ''c'' ''m'') ''json'' (sample_handle\<lparr>h_operation := ''other''\<rparr>)]"]]
  by (simp add: session_eval)

section \<open>Invitations on the command line\<close>

lemma text_of_ascii: assumes "ascii_text s" shows "text_of (ascii s) = s"
proof -
  have "text_of (ascii s) = map (\<lambda>b. char_of (unat b)) (map (of_char :: char \<Rightarrow> 8 word) s)"
    using encode_text [OF assms] by (simp add: text_of_def ascii_def)
  then show ?thesis by (simp add: map_idI)
qed

lemma dropWhile_white: "list_all white w \<Longrightarrow> \<not> white u \<Longrightarrow> dropWhile white (w @ u # us) = u # us"
  by (induction w) auto

lemma trim_between:
  assumes "list_all white l" "list_all white r" "\<not> white (hd us)" "\<not> white (last us)" "us \<noteq> []"
  shows "trim (l @ us @ r) = us"
proof -
  obtain u v where us: "us = u # v" using assms(5) by (cases us) auto
  have "dropWhile white (l @ us @ r) = us @ r" using dropWhile_white [OF assms(1), of u "v @ r"] assms(3) us by simp
  moreover obtain x y where xy: "us = x @ [y]" using assms(5) by (cases us rule: rev_cases) auto
  then have "dropWhile white (rev r @ rev us) = rev us"
    using dropWhile_white [of "rev r" y "rev x"] assms(2,4) by (simp add: list_all_iff)
  ultimately show ?thesis by (simp add: trim_def)
qed

lemma after_literal_append:
  assumes "map lower_ascii a = ascii l" shows "after_literal l (a @ us) = Some us"
proof -
  have "length a = length l" using arg_cong [OF assms, of length] by (simp add: ascii_def)
  then show ?thesis using assms by (simp add: after_literal_def)
qed

lemma after_white_append:
  "list_all white w \<Longrightarrow> w \<noteq> [] \<Longrightarrow> us \<noteq> [] \<Longrightarrow> \<not> white (hd us) \<Longrightarrow> after_white (w @ us) = Some us"
  using dropWhile_white [of w "hd us" "tl us"] by (cases w; cases us) (auto simp: after_white_def)

lemma lower_not_white: "\<not> white (lower_ascii u) \<Longrightarrow> \<not> white u"
  by (auto simp: lower_ascii_def white_def word_le_nat_alt split: if_splits)

lemma literal_hd:
  assumes "map lower_ascii a = ascii l" "l \<noteq> []" "\<not> white (of_char (hd l))"
  shows "a \<noteq> []" "\<not> white (hd a)"
proof -
  show a: "a \<noteq> []" using assms(1,2) by (auto simp: ascii_def)
  have "lower_ascii (hd a) = of_char (hd l)" using assms(1,2) a by (cases a; cases l) (auto simp: ascii_def)
  then show "\<not> white (hd a)" using lower_not_white assms(3) by metis
qed

text \<open>An invitation typed as a command is not retained.  Whatever the capitals and the white space
  around its parts, \<open>/network join CODE\<close> becomes one transient import of exactly that code, never an
  operation whose handle would be kept.\<close>

theorem typed_invitation_is_transient:
  assumes "units_of t = l @ a @ w @ b @ w' @ invitation @ r"
    and "map lower_ascii a = ascii ''/network''" "map lower_ascii b = ascii ''join''"
    and "list_all white l" "list_all white w" "list_all white w'" "list_all white r" "w \<noteq> []" "w' \<noteq> []"
    and "invitation \<noteq> []" "\<not> white (hd invitation)" "\<not> white (last invitation)"
  shows "route supported (Submit i c t) = Import_then_notice (text_of invitation)"
proof -
  let ?us = "a @ w @ b @ w' @ invitation"
  have a: "a \<noteq> []" "\<not> white (hd a)" using literal_hd [OF assms(2)] by (simp_all add: white_def word_le_nat_alt)
  have b: "b \<noteq> []" "\<not> white (hd b)" using literal_hd [OF assms(3)] by (simp_all add: white_def word_le_nat_alt)
  have us: "trim (units_of t) = ?us"
    using trim_between [OF assms(4,7), of ?us] a assms(1,10,12) by (simp add: hd_append)
  have "length a = 8" using arg_cong [OF assms(2), of length] by (simp add: ascii_def)
  moreover have "length b = 4" using arg_cong [OF assms(3), of length] by (simp add: ascii_def)
  moreover have "length w \<ge> 1" "length w' \<ge> 1" "length invitation \<ge> 1" using assms(8-10) by (simp_all add: Suc_le_eq)
  ultimately have long: "length ?us \<ge> 15" by simp
  have short: "?us \<noteq> ascii x" if "length x < 15" for x :: string
    using long that by (metis ascii_def length_map not_le)
  have "network_join ?us = Some invitation"
    using assms(2,3) b assms(5,6,8-11)
    by (simp add: network_join_def after_literal_append after_white_append hd_append)
  moreover have "trim invitation = invitation" using trim_between [of "[]" "[]" invitation] assms(10-12) by simp
  ultimately show ?thesis using us short [of "''/lock''"] short [of "''/disconnect''"] short [of "''/quit''"]
    by (simp add: route_def Let_def)
qed

theorem typed_invitation_is_transient_witness:
  "route (\<lambda>_. False) (Submit ''id'' None '' /NETWORK  join GCI '') = Import_then_notice ''GCI''"
proof -
  have u: "units_of '' /NETWORK  join GCI '' = ascii '' '' @ ascii ''/NETWORK'' @ ascii ''  '' @ ascii ''join'' @ ascii '' '' @ ascii ''GCI'' @ ascii '' ''"
    using replacing_text [of "'' /NETWORK  join GCI ''"] by (simp add: units_of_def ascii_def)
  have t: "text_of (ascii ''GCI'') = ''GCI''" by (rule text_of_ascii) simp
  show ?thesis
    using typed_invitation_is_transient [OF u, of "\<lambda>_. False" "''id''" None]
    by (simp add: t) (simp add: ascii_def lower_ascii_def white_def word_le_nat_alt)
qed

section \<open>The expected instance\<close>

definition named_instance :: "string \<Rightarrow> instance_info" where
  "named_instance i = \<lparr>inst_build = None, inst_id = i, inst_label = i, inst_bootId = ''b'', inst_locked = False,
     inst_protocolLocked = False, inst_profileExists = True, inst_archiveExists = True, inst_safetyNumber = ''0'', inst_capabilities = []\<rparr>"

text \<open>A service that names itself \<open>a\<close> on every envelope and in the handshake, and \<open>b\<close> when asked again.\<close>

definition wavering :: "string \<Rightarrow> string \<Rightarrow> bool exchange" where
  "wavering a b asked e = (True, Inr \<lparr>reply_version = API_VERSION, reply_instance = a,
     reply_response = R_instance (named_instance (if asked then b else a))\<rparr>)"


end
