(* ===== verification/Request_Json.thy ===== *)
theory Request_Json
  imports Api_Schemas Rpc_Transport
begin

text \<open>
  The requests of \<open>ui/src/api.ts\<close> and the calls of \<open>ui/src/rpc-transport.ts\<close> as the values the guards
  see.  A typed value becomes JSON as \<open>JSON.stringify\<close> writes it: a field that may be \<open>null\<close> is written
  as \<open>null\<close>.
\<close>

section \<open>Requests as values\<close>

definition json_int :: "int \<Rightarrow> json" where
  "json_int n = JNum (Finite (of_int n))"

definition json_nullable :: "string option \<Rightarrow> json" where
  "json_nullable x = (case x of None \<Rightarrow> JNull | Some s \<Rightarrow> JStr s)"

fun json_file_request :: "file_request \<Rightarrow> json" where
  "json_file_request (File_list c) = JObj [(''action'', JStr ''list''), (''conversation'', json_nullable c)]"
| "json_file_request (File_publications c) = JObj [(''action'', JStr ''publications''), (''conversation'', json_nullable c)]"
| "json_file_request (File_prepare i c n s) = JObj [(''action'', JStr ''prepare''), (''id'', JStr i),
     (''conversation'', JStr c), (''name'', JStr n), (''size_bytes'', JStr s)]"
| "json_file_request (File_commit i) = JObj [(''action'', JStr ''commit''), (''id'', JStr i)]"
| "json_file_request (File_accept i) = JObj [(''action'', JStr ''accept''), (''id'', JStr i)]"
| "json_file_request (File_pause i) = JObj [(''action'', JStr ''pause''), (''id'', JStr i)]"
| "json_file_request (File_resume i) = JObj [(''action'', JStr ''resume''), (''id'', JStr i)]"
| "json_file_request (File_cancel i) = JObj [(''action'', JStr ''cancel''), (''id'', JStr i)]"
| "json_file_request (File_configure q d) = JObj [(''action'', JStr ''configure''), (''quota_bytes'', JStr q),
     (''retention_days'', json_int d)]"

fun json_update_request :: "update_request \<Rightarrow> json" where
  "json_update_request (Heartbeat v) = JObj [(''action'', JStr ''heartbeat''), (''view'', JStr v)]"
| "json_update_request (Detach v) = JObj [(''action'', JStr ''detach''), (''view'', JStr v)]"
| "json_update_request (Prepare v r) = JObj [(''action'', JStr ''prepare''), (''view'', JStr v), (''release'', JStr r)]"
| "json_update_request (Abort v r) = JObj [(''action'', JStr ''abort''), (''view'', JStr v), (''release'', JStr r)]"
| "json_update_request (Exit_app v r) = JObj [(''action'', JStr ''exit''), (''view'', JStr v), (''release'', JStr r)]"

fun json_request :: "request \<Rightarrow> json" and json_network_request :: "network_request \<Rightarrow> json" where
  "json_request (Enrollment i a) = JObj [(''kind'', JStr ''enrollment''), (''id'', JStr i), (''action'', JStr a)]"
| "json_request (Update u) = JObj [(''kind'', JStr ''update''), (''request'', json_update_request u)]"
| "json_request (Networks n) = JObj [(''kind'', JStr ''networks''), (''request'', json_network_request n)]"
| "json_request (Files f) = JObj [(''kind'', JStr ''files''), (''request'', json_file_request f)]"
| "json_request Identify = JObj [(''kind'', JStr ''identify'')]"
| "json_request (Unlock p c) = JObj [(''kind'', JStr ''unlock''), (''passphrase'', JStr p), (''create'', JBool c)]"
| "json_request Lock = JObj [(''kind'', JStr ''lock'')]"
| "json_request Disconnect = JObj [(''kind'', JStr ''disconnect'')]"
| "json_request Snapshot = JObj [(''kind'', JStr ''snapshot'')]"
| "json_request Network_status = JObj [(''kind'', JStr ''network_status'')]"
| "json_request (Import_network_invitation c) = JObj [(''kind'', JStr ''import_network_invitation''), (''code'', JStr c)]"
| "json_request (Catalogue c) = JObj [(''kind'', JStr ''catalogue''), (''conversation'', json_nullable c)]"
| "json_request (History c b l) = JObj [(''kind'', JStr ''history''), (''conversation'', JStr c), (''before'', json_nullable b),
     (''limit'', json_int l)]"
| "json_request (Search c t b l) = JObj [(''kind'', JStr ''search''), (''conversation'', JStr c), (''text'', JStr t),
     (''before'', json_nullable b), (''limit'', json_int l)]"
| "json_request (Submit i c t) = JObj [(''kind'', JStr ''submit''), (''operation_id'', JStr i),
     (''conversation'', json_nullable c), (''text'', JStr t)]"
| "json_request (Complete c t) = JObj [(''kind'', JStr ''complete''), (''conversation'', json_nullable c), (''text'', JStr t)]"
| "json_request (Mark_read c m) = JObj [(''kind'', JStr ''mark_read''), (''conversation'', JStr c), (''message_id'', JStr m)]"
| "json_request (Events a w) = JObj [(''kind'', JStr ''events''), (''after'', JStr a), (''wait_ms'', json_int w)]"
| "json_network_request Net_list = JObj [(''kind'', JStr ''list'')]"
| "json_network_request (Inspect c) = JObj [(''kind'', JStr ''inspect''), (''code'', JStr c)]"
| "json_network_request (Join c n a i) = JObj [(''kind'', JStr ''join''), (''code'', JStr c), (''nickname'', JStr n),
     (''accepted_network'', JStr a), (''operation_id'', JStr i)]"
| "json_network_request (Call n r) = JObj [(''kind'', JStr ''call''), (''network'', JStr n), (''request'', json_request r)]"

text \<open>The calls of the typed client: the method and its argument object.\<close>

definition call_args :: "rpc_call \<Rightarrow> string \<times> json" where
  "call_args c = (case c of
       Call_enrollment i a \<Rightarrow> (''enrollment'', JObj [(''id'', JStr i), (''action'', JStr a)])
     | Call_networks_details n \<Rightarrow> (''networks_details'', JObj [(''request'', json_network_request n)])
     | Call_networks n \<Rightarrow> (''networks'', JObj [(''request'', json_network_request n)])
     | Call_files f \<Rightarrow> (''files'', JObj [(''request'', json_file_request f)])
     | Call_identify \<Rightarrow> (''identify'', JObj [])
     | Call_snapshot \<Rightarrow> (''snapshot'', JObj [])
     | Call_unlock p c \<Rightarrow> (''unlock'', JObj [(''passphrase'', JStr p), (''create'', JBool c)])
     | Call_lock \<Rightarrow> (''lock'', JObj [])
     | Call_disconnect \<Rightarrow> (''disconnect'', JObj [])
     | Call_network_status \<Rightarrow> (''network_status'', JObj [])
     | Call_import_network_invitation code \<Rightarrow> (''import_network_invitation'', JObj [(''code'', JStr code)])
     | Call_catalogue c \<Rightarrow> (''catalogue'', JObj [(''conversation'', json_nullable c)])
     | Call_history_details c b l \<Rightarrow> (''history_details'', JObj [(''conversation'', JStr c), (''before'', json_nullable b), (''limit'', json_int l)])
     | Call_history c b l \<Rightarrow> (''history'', JObj [(''conversation'', JStr c), (''before'', json_nullable b), (''limit'', json_int l)])
     | Call_search_details c t b l \<Rightarrow> (''search_details'', JObj [(''conversation'', JStr c), (''text'', JStr t), (''before'', json_nullable b), (''limit'', json_int l)])
     | Call_search c t b l \<Rightarrow> (''search'', JObj [(''conversation'', JStr c), (''text'', JStr t), (''before'', json_nullable b), (''limit'', json_int l)])
     | Call_complete c t \<Rightarrow> (''complete'', JObj [(''conversation'', json_nullable c), (''text'', JStr t)])
     | Call_events a w \<Rightarrow> (''events'', JObj [(''after'', JStr a), (''wait_ms'', json_int w)]))"

definition operation_args :: "rpc_operation \<Rightarrow> string \<times> json" where
  "operation_args op = (case op of
       Op_network_operation n \<Rightarrow> (''network_operation'', JObj [(''request'', json_network_request n)])
     | Op_mark_read c m \<Rightarrow> (''mark_read'', JObj [(''conversation'', JStr c), (''message_id'', JStr m)])
     | Op_submit c t \<Rightarrow> (''submit'', JObj [(''conversation'', json_nullable c), (''text'', JStr t)]))"

definition routed_args :: "routed \<Rightarrow> (string \<times> json) list" where
  "routed_args r = (case r of
       Direct c \<Rightarrow> [call_args c]
     | Import_then_notice code \<Rightarrow> [call_args (Call_import_network_invitation code)]
     | Refused _ _ \<Rightarrow> []
     | Operation op _ \<Rightarrow> [operation_args op])"

section \<open>Every call passes its guard\<close>

text \<open>The numbers of a request are 16-bit, which TypeScript's types do not say.\<close>

definition u16 :: "int \<Rightarrow> bool" where
  "u16 n \<longleftrightarrow> 0 \<le> n \<and> n \<le> 65535"

fun numbers_ok :: "request \<Rightarrow> bool" and network_numbers_ok :: "network_request \<Rightarrow> bool" where
  "numbers_ok (History _ _ l) = u16 l"
| "numbers_ok (Search _ _ _ l) = u16 l"
| "numbers_ok (Events _ w) = u16 w"
| "numbers_ok (Files (File_configure _ d)) = u16 d"
| "numbers_ok (Networks n) = network_numbers_ok n"
| "numbers_ok _ = True"
| "network_numbers_ok (Call _ r) = numbers_ok r"
| "network_numbers_ok _ = True"

lemma conforms_json_int: "u16 n \<Longrightarrow> conforms \<rho> (SInteger (Some 65535) 0) (json_int n)"
  by (simp add: json_int_def u16_def)

lemma conforms_json_nullable: "conforms \<rho> (SType [TString, TNull]) (json_nullable x)"
  by (simp add: json_nullable_def split: option.split)

lemma conforms_values:
  "conforms \<rho> (SType [TString]) (JStr s)" "conforms \<rho> (SType [TBoolean]) (JBool b)"
  "conforms \<rho> (SConst v) (JStr s) \<longleftrightarrow> s = v"
  by auto

lemma file_request_conforms:
  "(case f of File_configure _ d \<Rightarrow> u16 d | _ \<Rightarrow> True) \<Longrightarrow> conforms \<rho> schema51 (json_file_request f)"
  by (cases f)
    (simp_all add: schema51_def schema51_list_def schema51_publications_def schema51_prepare_def schema51_commit_def
      schema51_accept_def schema51_pause_def schema51_resume_def schema51_cancel_def schema51_configure_def
      conforms_json_int conforms_json_nullable conforms_values del: conforms.simps(1,3,4))

context request_document
begin

lemma update_request_conforms: "conforms \<rho> schema50 (json_update_request u)"
  by (cases u)
    (simp_all add: schema50_def schema50_heartbeat_def schema50_detach_def schema50_prepare_def schema50_abort_def
      schema50_exit_def conforms_values del: conforms.simps(1,3,4))

lemmas request_branches = schema49_enrollment_def schema49_update_def
  schema49_networks_def schema49_files_def schema49_identify_def schema49_unlock_def
  schema49_lock_def schema49_disconnect_def schema49_snapshot_def schema49_network_status_def
  schema49_import_network_invitation_def schema49_catalogue_def schema49_history_def
  schema49_search_def schema49_submit_def schema49_complete_def schema49_mark_read_def
  schema49_events_def

lemma requests_conform:
  "numbers_ok r \<Longrightarrow> \<rho> ''Request'' (json_request r)"
  "network_numbers_ok n \<Longrightarrow> \<rho> ''NetworkRequest'' (json_network_request n)"
proof (induction r and n rule: numbers_ok_network_numbers_ok.induct)
qed (simp_all add: def_Request def_NetworkRequest schema49_def schema48_def request_branches schema48_list_def
    schema48_inspect_def schema48_join_def schema48_call_def update_request file_request file_request_conforms
    update_request_conforms conforms_json_int conforms_json_nullable conforms_values del: conforms.simps(1,3,4) json_file_request.simps json_update_request.simps)

end

end
