(* ===== verification/Rpc_Api.thy ===== *)
theory Rpc_Api
  imports Method_Guards Request_Json
begin

text \<open>
  \<open>ui/src/rpc-api.ts\<close>: the table of methods with their guards, and the calls of
  \<open>ui/src/rpc-transport.ts\<close> as the values the guards see.  A typed value becomes JSON as
  \<open>JSON.stringify\<close> writes it: a field that may be \<open>null\<close> is written as \<open>null\<close>.
\<close>

section \<open>The methods\<close>

datatype method_kind = Query_method | Session_method | Operation_method

record rpc_method =
  rpc_id :: string
  rpc_kind :: method_kind
  rpc_args :: "json \<Rightarrow> bool"
  rpc_output :: "json \<Rightarrow> bool"
  rpc_error :: "json \<Rightarrow> bool"

definition methods :: "rpc_method list" where
  "methods =
    [\<lparr>rpc_id = ''history_details'', rpc_kind = Query_method,
       rpc_args = history_details_args, rpc_output = history_details_output, rpc_error = history_details_error\<rparr>,
     \<lparr>rpc_id = ''search_details'', rpc_kind = Query_method,
       rpc_args = search_details_args, rpc_output = search_details_output, rpc_error = search_details_error\<rparr>,
     \<lparr>rpc_id = ''networks_details'', rpc_kind = Session_method,
       rpc_args = networks_details_args, rpc_output = networks_details_output, rpc_error = networks_details_error\<rparr>,
     \<lparr>rpc_id = ''enrollment'', rpc_kind = Session_method,
       rpc_args = enrollment_args, rpc_output = enrollment_output, rpc_error = enrollment_error\<rparr>,
     \<lparr>rpc_id = ''network_operation'', rpc_kind = Operation_method,
       rpc_args = network_operation_args, rpc_output = network_operation_output, rpc_error = network_operation_error\<rparr>,
     \<lparr>rpc_id = ''networks'', rpc_kind = Session_method,
       rpc_args = networks_args, rpc_output = networks_output, rpc_error = networks_error\<rparr>,
     \<lparr>rpc_id = ''files'', rpc_kind = Session_method,
       rpc_args = files_args, rpc_output = files_output, rpc_error = files_error\<rparr>,
     \<lparr>rpc_id = ''identify'', rpc_kind = Query_method,
       rpc_args = identify_args, rpc_output = identify_output, rpc_error = identify_error\<rparr>,
     \<lparr>rpc_id = ''unlock'', rpc_kind = Session_method,
       rpc_args = unlock_args, rpc_output = unlock_output, rpc_error = unlock_error\<rparr>,
     \<lparr>rpc_id = ''lock'', rpc_kind = Session_method,
       rpc_args = lock_args, rpc_output = lock_output, rpc_error = lock_error\<rparr>,
     \<lparr>rpc_id = ''disconnect'', rpc_kind = Session_method,
       rpc_args = disconnect_args, rpc_output = disconnect_output, rpc_error = disconnect_error\<rparr>,
     \<lparr>rpc_id = ''snapshot'', rpc_kind = Query_method,
       rpc_args = snapshot_args, rpc_output = snapshot_output, rpc_error = snapshot_error\<rparr>,
     \<lparr>rpc_id = ''network_status'', rpc_kind = Query_method,
       rpc_args = network_status_args, rpc_output = network_status_output, rpc_error = network_status_error\<rparr>,
     \<lparr>rpc_id = ''import_network_invitation'', rpc_kind = Session_method,
       rpc_args = import_network_invitation_args, rpc_output = import_network_invitation_output, rpc_error = import_network_invitation_error\<rparr>,
     \<lparr>rpc_id = ''catalogue'', rpc_kind = Query_method,
       rpc_args = catalogue_args, rpc_output = catalogue_output, rpc_error = catalogue_error\<rparr>,
     \<lparr>rpc_id = ''history'', rpc_kind = Query_method,
       rpc_args = history_args, rpc_output = history_output, rpc_error = history_error\<rparr>,
     \<lparr>rpc_id = ''search'', rpc_kind = Query_method,
       rpc_args = search_args, rpc_output = search_output, rpc_error = search_error\<rparr>,
     \<lparr>rpc_id = ''submit'', rpc_kind = Operation_method,
       rpc_args = submit_args, rpc_output = submit_output, rpc_error = submit_error\<rparr>,
     \<lparr>rpc_id = ''complete'', rpc_kind = Query_method,
       rpc_args = complete_args, rpc_output = complete_output, rpc_error = complete_error\<rparr>,
     \<lparr>rpc_id = ''mark_read'', rpc_kind = Operation_method,
       rpc_args = mark_read_args, rpc_output = mark_read_output, rpc_error = mark_read_error\<rparr>,
     \<lparr>rpc_id = ''events'', rpc_kind = Query_method,
       rpc_args = events_args, rpc_output = events_output, rpc_error = events_error\<rparr>]"

text \<open>The published documents of each method, for its arguments, its result and its error.\<close>

type_synonym document = "schema \<times> defs"

definition method_documents :: "(string \<times> document \<times> document \<times> document) list" where
  "method_documents =
    [(''history_details'', (schema31, []), (schema32, schema32_defs), (schema38, [])),
     (''search_details'', (schema39, []), (schema32, schema32_defs), (schema38, [])),
     (''networks_details'', (schema47, schema47_defs), (schema52, schema52_defs), (schema38, [])),
     (''enrollment'', (schema91, []), (schema92, schema92_defs), (schema38, [])),
     (''network_operation'', (schema47, schema47_defs), (schema52, schema52_defs), (schema38, [])),
     (''networks'', (schema47, schema47_defs), (schema52, schema52_defs), (schema38, [])),
     (''files'', (schema187, schema187_defs), (schema59, schema59_defs), (schema38, [])),
     (''identify'', (schema194, []), (schema63, schema63_defs), (schema38, [])),
     (''unlock'', (schema198, []), (schema65, schema65_defs), (schema38, [])),
     (''lock'', (schema194, []), (schema63, schema63_defs), (schema38, [])),
     (''disconnect'', (schema194, []), (schema65, schema65_defs), (schema38, [])),
     (''snapshot'', (schema194, []), (schema65, schema65_defs), (schema38, [])),
     (''network_status'', (schema194, []), (schema54, schema54_defs), (schema38, [])),
     (''import_network_invitation'', (schema269, []), (schema54, schema54_defs), (schema38, [])),
     (''catalogue'', (schema273, []), (schema274, schema274_defs), (schema38, [])),
     (''history'', (schema31, []), (schema32, schema32_defs), (schema38, [])),
     (''search'', (schema39, []), (schema32, schema32_defs), (schema38, [])),
     (''submit'', (schema293, []), (schema92, schema92_defs), (schema38, [])),
     (''complete'', (schema293, []), (schema302, schema302_defs), (schema38, [])),
     (''mark_read'', (schema305, []), (schema306, []), (schema38, [])),
     (''events'', (schema308, []), (schema309, []), (schema38, []))]"
text \<open>C6: Every guard of every method, its arguments, its result and its error, accepts exactly the values its
  published JSON Schema document means, with all references resolved, the recursive ones too.\<close>

theorem guards_implement_documents:
  "list_all2 (\<lambda>m (i, args, output, err). rpc_id m = i
      \<and> rpc_args m = accepts (fst args) (snd args) \<and> rpc_output m = accepts (fst output) (snd output)
      \<and> rpc_error m = accepts (fst err) (snd err))
    methods method_documents"
  by (simp add: methods_def method_documents_def fun_eq_iff guard_meanings)

section \<open>Every call passes its guard\<close>

definition passes :: "string \<Rightarrow> json \<Rightarrow> bool" where
  "passes i d \<longleftrightarrow> list_ex (\<lambda>m. rpc_id m = i \<and> rpc_args m d) methods"

lemma passes_simps:
  "passes ''enrollment'' d \<longleftrightarrow> enrollment_args d"
  "passes ''networks_details'' d \<longleftrightarrow> networks_details_args d"
  "passes ''networks'' d \<longleftrightarrow> networks_args d"
  "passes ''network_operation'' d \<longleftrightarrow> network_operation_args d"
  "passes ''files'' d \<longleftrightarrow> files_args d"
  "passes ''identify'' d \<longleftrightarrow> identify_args d"
  "passes ''snapshot'' d \<longleftrightarrow> snapshot_args d"
  "passes ''unlock'' d \<longleftrightarrow> unlock_args d"
  "passes ''lock'' d \<longleftrightarrow> lock_args d"
  "passes ''disconnect'' d \<longleftrightarrow> disconnect_args d"
  "passes ''network_status'' d \<longleftrightarrow> network_status_args d"
  "passes ''import_network_invitation'' d \<longleftrightarrow> import_network_invitation_args d"
  "passes ''catalogue'' d \<longleftrightarrow> catalogue_args d"
  "passes ''history_details'' d \<longleftrightarrow> history_details_args d"
  "passes ''history'' d \<longleftrightarrow> history_args d"
  "passes ''search_details'' d \<longleftrightarrow> search_details_args d"
  "passes ''search'' d \<longleftrightarrow> search_args d"
  "passes ''complete'' d \<longleftrightarrow> complete_args d"
  "passes ''events'' d \<longleftrightarrow> events_args d"
  "passes ''mark_read'' d \<longleftrightarrow> mark_read_args d"
  "passes ''submit'' d \<longleftrightarrow> submit_args d"
  by (simp_all add: passes_def methods_def)

lemmas meaning_requests_conform = request_document.requests_conform
  [OF request_document.intro [OF meaning_models [OF schema47_defs_well_founded]]]

lemma network_request_accepted:
  "network_numbers_ok n \<Longrightarrow> accepts schema47 schema47_defs (JObj [(''request'', json_network_request n)])"
  by (simp add: accepts_def schema47_def meaning_requests_conform(2))

lemma file_request_accepted:
  assumes "case f of File_configure _ d \<Rightarrow> u16 d | _ \<Rightarrow> True"
  shows "accepts schema187 schema187_defs (JObj [(''request'', json_file_request f)])"
proof -
  have "meaning schema187_defs ''FileRequest'' = conforms (meaning schema187_defs) schema51"
    by (rule ext, rule modelsD [OF meaning_models [OF schema187_defs_well_founded]]) (simp add: schema187_defs_def)
  then show ?thesis using file_request_conforms [OF assms] by (simp add: accepts_def schema187_def)
qed

lemmas flat_arguments = accepts_def schema91_def schema194_def schema198_def schema269_def schema273_def schema31_def
  schema39_def schema293_def schema305_def schema308_def conforms_json_int conforms_json_nullable conforms_values

lemma direct_calls_pass:
  "passes ''enrollment'' (JObj [(''id'', JStr i), (''action'', JStr a)])"
  "passes ''identify'' (JObj [])" "passes ''snapshot'' (JObj [])" "passes ''lock'' (JObj [])"
  "passes ''disconnect'' (JObj [])" "passes ''network_status'' (JObj [])"
  "passes ''unlock'' (JObj [(''passphrase'', JStr i), (''create'', JBool b)])"
  "passes ''import_network_invitation'' (JObj [(''code'', JStr i)])"
  "passes ''catalogue'' (JObj [(''conversation'', json_nullable c)])"
  "passes ''complete'' (JObj [(''conversation'', json_nullable c), (''text'', JStr a)])"
  "passes ''submit'' (JObj [(''conversation'', json_nullable c), (''text'', JStr a)])"
  "passes ''mark_read'' (JObj [(''conversation'', JStr i), (''message_id'', JStr a)])"
  "u16 n \<Longrightarrow> passes ''events'' (JObj [(''after'', JStr a), (''wait_ms'', json_int n)])"
  "u16 n \<Longrightarrow> passes ''history'' (JObj [(''conversation'', JStr i), (''before'', json_nullable c), (''limit'', json_int n)])"
  "u16 n \<Longrightarrow> passes ''history_details'' (JObj [(''conversation'', JStr i), (''before'', json_nullable c), (''limit'', json_int n)])"
  "u16 n \<Longrightarrow> passes ''search'' (JObj [(''conversation'', JStr i), (''text'', JStr a), (''before'', json_nullable c), (''limit'', json_int n)])"
  "u16 n \<Longrightarrow> passes ''search_details'' (JObj [(''conversation'', JStr i), (''text'', JStr a), (''before'', json_nullable c), (''limit'', json_int n)])"
  by (simp_all add: passes_simps guard_meanings flat_arguments del: conforms.simps(1,3,4))

lemma network_calls_pass:
  "network_numbers_ok n \<Longrightarrow> passes ''networks'' (JObj [(''request'', json_network_request n)])"
  "network_numbers_ok n \<Longrightarrow> passes ''networks_details'' (JObj [(''request'', json_network_request n)])"
  "network_numbers_ok n \<Longrightarrow> passes ''network_operation'' (JObj [(''request'', json_network_request n)])"
  by (simp_all add: passes_simps guard_meanings network_request_accepted)

lemma file_calls_pass:
  "numbers_ok (Files f) \<Longrightarrow> passes ''files'' (JObj [(''request'', json_file_request f)])"
  by (cases f) (simp_all add: passes_simps guard_meanings file_request_accepted del: json_file_request.simps)

lemmas calls_pass = direct_calls_pass network_calls_pass file_calls_pass

text \<open>C16: Whatever request with 16-bit numbers the transport is given, on whatever service, every typed call it
  makes of it is a call of a method of the table whose argument guard accepts it: the types of \<open>api.ts\<close>,
  the routing and the generated guards agree, through nested network requests of any depth.\<close>

theorem routed_calls_pass_guards:
  assumes "numbers_ok r"
  shows "list_all (\<lambda>(i, d). list_ex (\<lambda>m. rpc_id m = i \<and> rpc_args m d) methods) (routed_args (route offers r))"
proof -
  have "list_all (\<lambda>(i, d). passes i d) (routed_args (route offers r))"
    using assms
    by (cases r) (auto simp: route_def routed_args_def call_args_def operation_args_def calls_pass Let_def
        split: option.split)
  then show ?thesis by (simp add: passes_def)
qed

theorem routed_calls_pass_guards_witness:
  "list_all (\<lambda>(i, d). list_ex (\<lambda>m. rpc_id m = i \<and> rpc_args m d) methods)
     (routed_args (route (\<lambda>_. True) (Networks (Call ''n'' (Networks (Call ''m'' (History ''c'' None 50)))))))"
  by (rule routed_calls_pass_guards) (simp add: u16_def)

text \<open>The type \<open>HistoryPage\<close> of \<open>rpc-api.ts\<close> has \<open>before\<close> as a property that is always there; the guard of
  the answer does not ask for it, so a page without it reaches code that the type says never sees one.\<close>

lemma history_page_without_before: "history_details_output (JObj [(''messages'', JArr [])])"
  by (simp add: history_details_output_meaning accepts_def schema32_def)

end
