(* ===== verification/Bytes.thy ===== *)
theory Bytes
  imports Utf8
begin

text \<open>
  Byte buffers (\<open>Uint8Array\<close>, \<open>DataView\<close>, Node's \<open>Buffer\<close>): slices and big-endian integers,
  which the invitation card, the bridge's frames and the file frames share.
\<close>

definition subarray :: "bytes \<Rightarrow> nat \<Rightarrow> nat \<Rightarrow> bytes" where
  "subarray bs a b = take (b - a) (drop a bs)"

definition getUint32 :: "bytes \<Rightarrow> nat \<Rightarrow> nat" where
  "getUint32 bs offset = foldl (\<lambda>n b. n * 256 + unat b) 0 (subarray bs offset (offset + 4))"

definition setUint32 :: "nat \<Rightarrow> bytes" where
  "setUint32 n = [of_nat (n div 2 ^ 24), of_nat (n div 2 ^ 16), of_nat (n div 2 ^ 8), of_nat n]"

lemma length_setUint32 [simp]: "length (setUint32 n) = 4"
  by (simp add: setUint32_def)

lemma setUint32_split: "n < 2 ^ 32 \<Longrightarrow>
   ((n div 2 ^ 24 mod 256 * 256 + n div 2 ^ 16 mod 256) * 256 + n div 2 ^ 8 mod 256) * 256 + n mod 256 = (n :: nat)"
proof -
  assume n: "n < 2 ^ 32"
  define a b c where "a = n div 2 ^ 24" and "b = n div 2 ^ 16" and "c = n div 2 ^ 8"
  have "a mod 256 = a" using n by (simp add: a_def less_mult_imp_div_less)
  moreover have "c div 256 = b" "b div 256 = a" "n div 256 = c"
    using div_mult2_eq [of n "2 ^ 8" "2 ^ 8"] div_mult2_eq [of n "2 ^ 16" "2 ^ 8"]
    by (simp_all add: a_def b_def c_def)
  then have "a * 256 + b mod 256 = b" "b * 256 + c mod 256 = c" "c * 256 + n mod 256 = n"
    using div_mult_mod_eq [of b 256] div_mult_mod_eq [of c 256] div_mult_mod_eq [of n 256] by simp_all
  ultimately have "((a mod 256 * 256 + b mod 256) * 256 + c mod 256) * 256 + n mod 256 = n"
    by (simp only:)
  then show ?thesis by (simp only: a_def b_def c_def)
qed

lemma getUint32_setUint32: "n < 2 ^ 32 \<Longrightarrow> getUint32 (setUint32 n @ r) 0 = n"
  using setUint32_split [of n]
  by (simp add: getUint32_def setUint32_def subarray_def unat_of_nat)

lemma getUint32_drop: "getUint32 bs offset = getUint32 (drop offset bs) 0"
  by (simp add: getUint32_def subarray_def)

lemma subarray_drop: "subarray bs (offset + a) (offset + b) = subarray (drop offset bs) a b"
  by (simp add: subarray_def add.commute)

lemma four_bytes: "length q = 4 \<Longrightarrow> \<exists>a b c d. q = [a, b, c, d]"
  by (auto simp: eval_nat_numeral length_Suc_conv)

lemma setUint32_getUint32:
  assumes "length q = 4" shows "setUint32 (getUint32 (q @ r) 0) = q" "getUint32 (q @ r) 0 < 2 ^ 32"
proof -
  obtain a b c d where q: "q = [a, b, c, d]" using four_bytes assms by blast
  have l: "unat a < 256" "unat b < 256" "unat c < 256" "unat d < 256"
    using unsigned_less [where 'a = nat and 'b = 8] by simp_all
  define n where "n = ((unat a * 256 + unat b) * 256 + unat c) * 256 + unat d"
  have g: "getUint32 (q @ r) 0 = n" by (simp add: q getUint32_def subarray_def n_def)
  show "getUint32 (q @ r) 0 < 2 ^ 32" using l by (simp add: g n_def)
  have "n div 2 ^ 24 = unat a" "n div 2 ^ 16 = unat a * 256 + unat b"
      "n div 2 ^ 8 = (unat a * 256 + unat b) * 256 + unat c"
    using l by (simp_all add: n_def) 
  moreover have wrap: "(256 :: 8 word) = 0" "(65536 :: 8 word) = 0" "(16777216 :: 8 word) = 0" by simp_all
  ultimately have "of_nat (n div 2 ^ 24) = a" "of_nat (n div 2 ^ 16) = b" "of_nat (n div 2 ^ 8) = c" "of_nat n = d"
    by (simp_all add: n_def of_nat_unat wrap)
  then show "setUint32 (getUint32 (q @ r) 0) = q" by (simp only: g setUint32_def) (simp add: q)
qed

lemma word_field:
  assumes "4 \<le> length D" shows "setUint32 (getUint32 D 0) = take 4 D" "getUint32 D 0 < 2 ^ 32"
  using setUint32_getUint32 [of "take 4 D" "drop 4 D"] assms by (simp_all only: append_take_drop_id) simp_all

end
