(* ===== verification/Invitation_Card.thy ===== *)
theory Invitation_Card
  imports Bytes
begin

text \<open>
  \<open>ui/src/invitation-card.ts\<close>: an invitation travels inside a PNG picture as one \<open>iTXt\<close> chunk.
  The model reads and writes byte lists.  Pictures are described by the grammar \<open>picture\<close> on
  lists of chunks; the parser \<open>chunks\<close> is shown to invert the serialisation of that grammar, and
  the operations on cards are proved on chunk lists from there.
\<close>

unbundle bit_operations_syntax

section \<open>The code\<close>

datatype card_error =
    Wants_complete_invitation | Picture_too_big | Not_a_card | Picture_incomplete
  | Picture_damaged | Invalid_header | Picture_too_large | Duplicate_header | Animated_picture
  | Unsupported_data | Several_invitations | No_invitation | Already_invited | Card_too_big
  | File_too_big | Text_too_large | Malformed_text

definition MAX_CARD_BYTES :: nat where "MAX_CARD_BYTES = 8 * 1024 * 1024"
definition MAX_NETWORK_INVITATION_BYTES :: nat where "MAX_NETWORK_INVITATION_BYTES = 174778"
definition signature :: bytes where "signature = [137, 80, 78, 71, 13, 10, 26, 10]"
definition keyword :: units where "keyword = ascii ''GChat.Invitation''"

text \<open>The chunk names as bytes.\<close>

definition tag :: "string \<Rightarrow> bytes" where "tag s = map of_char s"

definition crc_bit :: "32 word \<Rightarrow> 32 word" where
  "crc_bit crc = drop_bit 1 crc XOR (0xEDB88320 AND - (crc AND 1))"

definition crc_byte :: "32 word \<Rightarrow> 8 word \<Rightarrow> 32 word" where
  "crc_byte crc byte = (crc_bit ^^ 8) (crc XOR ucast byte)"

definition crc32 :: "bytes \<Rightarrow> 32 word" where
  "crc32 bs = foldl crc_byte 0xFFFFFFFF bs XOR 0xFFFFFFFF"

definition code :: "units \<Rightarrow> (card_error, units) result" where
  "code value = (let trimmed = trim value in
     if trimmed = [] \<or> length (utf8_encode trimmed) > MAX_NETWORK_INVITATION_BYTES
     then Inl Wants_complete_invitation else Inr trimmed)"

record chunk =
  chunk_start :: nat
  chunk_end :: nat
  chunk_type :: units
  chunk_data :: bytes

definition letter :: "16 word \<Rightarrow> bool" where
  "letter c \<longleftrightarrow> (0x41 \<le> c \<and> c \<le> 0x5A) \<or> (0x61 \<le> c \<and> c \<le> 0x7A)"

definition four_letters :: "units \<Rightarrow> bool" where
  "four_letters t \<longleftrightarrow> length t = 4 \<and> list_all letter t"

text \<open>One chunk at an offset: its bounds, its type and its checksum.\<close>

definition read_chunk :: "bytes \<Rightarrow> nat \<Rightarrow> (card_error, chunk) result" where
  "read_chunk bs offset =
     (if length bs - offset < 12 then Inl Picture_incomplete
      else let size = getUint32 bs offset in
        if size > length bs - offset - 12 then Inl Picture_incomplete
        else let e = offset + 12 + size in
          case utf8_decode (subarray bs (offset + 4) (offset + 8)) of
            None \<Rightarrow> Inl Malformed_text
          | Some t \<Rightarrow>
              if \<not> four_letters t \<or> unat (crc32 (subarray bs (offset + 4) (e - 4))) \<noteq> getUint32 bs (e - 4)
              then Inl Picture_damaged
              else Inr \<lparr>chunk_start = offset, chunk_end = e, chunk_type = t,
                        chunk_data = subarray bs (offset + 8) (e - 4)\<rparr>)"

definition check_header :: "bytes \<Rightarrow> chunk \<Rightarrow> bool \<Rightarrow> (card_error, unit) result" where
  "check_header bs c first =
     (if first then
        if chunk_type c \<noteq> ascii ''IHDR'' \<or> getUint32 bs (chunk_start c) \<noteq> 13 then Inl Invalid_header
        else let width = getUint32 bs (chunk_start c + 8); height = getUint32 bs (chunk_start c + 12) in
          if width = 0 \<or> height = 0 \<or> width * height > 4 * 1024 * 1024 then Inl Picture_too_large
          else Inr ()
      else if chunk_type c = ascii ''IHDR'' then Inl Duplicate_header else Inr ())"

text \<open>The loop of \<open>chunks\<close>: the chunks so far, whether image data was seen, and whether the
  picture ended with an empty \<open>IEND\<close> at the last byte.\<close>

function walk :: "bytes \<Rightarrow> nat \<Rightarrow> chunk list \<Rightarrow> bool \<Rightarrow> (card_error, chunk list \<times> bool \<times> bool) result" where
  "walk bs offset result img =
     (if offset < length bs then
        case read_chunk bs offset of Inl e \<Rightarrow> Inl e
        | Inr c \<Rightarrow>
            (case check_header bs c (result = []) of Inl e \<Rightarrow> Inl e
             | Inr _ \<Rightarrow>
                 if chunk_type c = ascii ''acTL'' then Inl Animated_picture
                 else let img' = (img \<or> chunk_type c = ascii ''IDAT''); result' = result @ [c] in
                   if chunk_type c = ascii ''IEND''
                   then Inr (result', img', getUint32 bs offset = 0 \<and> chunk_end c = length bs)
                   else walk bs (chunk_end c) result' img')
      else Inr (result, img, False))"
  by pat_completeness auto

lemma read_chunk_end: "read_chunk bs offset = Inr c \<Longrightarrow> offset < chunk_end c \<and> chunk_end c \<le> length bs"
  by (auto simp: read_chunk_def Let_def split: if_splits option.splits)

termination walk
  by (relation "measure (\<lambda>(bs, offset, _). length bs - offset)") (auto dest: read_chunk_end)

declare walk.simps [simp del]

definition chunks :: "bytes \<Rightarrow> (card_error, chunk list) result" where
  "chunks bs =
     (if length bs > MAX_CARD_BYTES then Inl Picture_too_big
      else if take 8 bs \<noteq> signature then Inl Not_a_card
      else case walk bs 8 [] False of Inl e \<Rightarrow> Inl e
        | Inr (result, img, ended) \<Rightarrow>
            if \<not> ended \<or> \<not> img then Inl Picture_incomplete else Inr result)"

definition payload :: "bytes \<Rightarrow> (card_error, units option) result" where
  "payload data =
     (if 0 \<notin> set data then Inr None
      else let separator = length (takeWhile (\<lambda>b. b \<noteq> 0) data) in
        case utf8_decode (subarray data 0 separator) of None \<Rightarrow> Inl Malformed_text
        | Some k \<Rightarrow>
            if k \<noteq> keyword then Inr None
            else if length data < separator + 5
                \<or> list_ex (\<lambda>v. v \<noteq> 0) (subarray data (separator + 1) (separator + 5))
            then Inl Unsupported_data
            else case utf8_decode (drop (separator + 5) data) of None \<Rightarrow> Inl Malformed_text
              | Some t \<Rightarrow> bind_result (code t) (\<lambda>c. Inr (Some c)))"

fun find_invitation :: "chunk list \<Rightarrow> units option \<Rightarrow> (card_error, units option) result" where
  "find_invitation [] invitation = Inr invitation"
| "find_invitation (c # cs) invitation =
     (if chunk_type c \<noteq> ascii ''iTXt'' then find_invitation cs invitation
      else case payload (chunk_data c) of Inl e \<Rightarrow> Inl e
        | Inr None \<Rightarrow> find_invitation cs invitation
        | Inr (Some found) \<Rightarrow>
            if invitation \<noteq> None then Inl Several_invitations else find_invitation cs (Some found))"

definition readInvitationCard :: "bytes \<Rightarrow> (card_error, units) result" where
  "readInvitationCard bs = bind_result (chunks bs) (\<lambda>cs. bind_result (find_invitation cs None)
     (\<lambda>invitation. case invitation of None \<Rightarrow> Inl No_invitation
        | Some i \<Rightarrow> if i = [] then Inl No_invitation else Inr i))"

fun some_invitation :: "chunk list \<Rightarrow> (card_error, bool) result" where
  "some_invitation [] = Inr False"
| "some_invitation (c # cs) =
     (if chunk_type c = ascii ''iTXt'' then
        case payload (chunk_data c) of Inl e \<Rightarrow> Inl e
        | Inr (Some _) \<Rightarrow> Inr True
        | Inr None \<Rightarrow> some_invitation cs
      else some_invitation cs)"

definition invitation_text :: "units \<Rightarrow> bytes" where
  "invitation_text i = utf8_encode (keyword @ [0, 0, 0, 0, 0] @ i)"

definition invitation_chunk :: "bytes \<Rightarrow> bytes" where
  "invitation_chunk text = setUint32 (length text) @ utf8_encode (ascii ''iTXt'') @ text
     @ setUint32 (unat (crc32 (utf8_encode (ascii ''iTXt'') @ text)))"

definition embedInvitationCard :: "bytes \<Rightarrow> units \<Rightarrow> (card_error, bytes) result" where
  "embedInvitationCard png invitation =
     bind_result (chunks png) (\<lambda>parsed.
     bind_result (some_invitation parsed) (\<lambda>present.
     if present then Inl Already_invited
     else bind_result (code invitation) (\<lambda>i.
       let c = invitation_chunk (invitation_text i) in
       if length png + length c > MAX_CARD_BYTES then Inl Card_too_big
       else let e = chunk_start (last parsed) in
         Inr (subarray png 0 e @ c @ drop e png))))"

record picked_file =
  file_name :: units
  file_type :: units
  file_bytes :: bytes

definition lower :: "16 word \<Rightarrow> 16 word" where
  "lower c = (if 0x41 \<le> c \<and> c \<le> 0x5A then c + 0x20 else c)"

definition has_extension :: "string \<Rightarrow> units \<Rightarrow> bool" where
  "has_extension e name \<longleftrightarrow> suffix (ascii e) (map lower name)"

definition readInvitationFile :: "picked_file \<Rightarrow> (card_error, units) result" where
  "readInvitationFile f =
     (let size = length (file_bytes f); picture_type = prefix (ascii ''image/'') (file_type f) in
      if size > MAX_CARD_BYTES then Inl File_too_big
      else if has_extension ''.txt'' (file_name f) \<and> \<not> picture_type then
        if size > MAX_NETWORK_INVITATION_BYTES then Inl Text_too_large
        else code (utf8_replacing (file_bytes f))
      else if take 8 (file_bytes f) = signature then readInvitationCard (file_bytes f)
      else if has_extension ''.png'' (file_name f) \<or> picture_type then Inl No_invitation
      else case utf8_decode (file_bytes f) of None \<Rightarrow> Inl Malformed_text | Some t \<Rightarrow> code t)"

section \<open>The grammar of pictures\<close>

type_synonym piece = "bytes \<times> bytes"

definition piece_bytes :: "piece \<Rightarrow> bytes" where
  "piece_bytes p = setUint32 (length (snd p)) @ fst p @ snd p @ setUint32 (unat (crc32 (fst p @ snd p)))"

definition tag_letters :: "bytes \<Rightarrow> bool" where
  "tag_letters t \<longleftrightarrow> four_letters (map ucast t)"

definition header_fits :: "bytes \<Rightarrow> bool" where
  "header_fits d \<longleftrightarrow> length d = 13 \<and> 0 < getUint32 d 0 \<and> 0 < getUint32 d 4
     \<and> getUint32 d 0 * getUint32 d 4 \<le> 4 * 1024 * 1024"

fun pieces_ok :: "bool \<Rightarrow> piece list \<Rightarrow> bool" where
  "pieces_ok first [] = False"
| "pieces_ok first (p # ps) =
     (tag_letters (fst p)
      \<and> (if first then fst p = tag ''IHDR'' \<and> header_fits (snd p) else fst p \<noteq> tag ''IHDR'')
      \<and> fst p \<noteq> tag ''acTL''
      \<and> (if fst p = tag ''IEND'' then snd p = [] \<and> ps = [] else pieces_ok False ps))"

definition picture :: "piece list \<Rightarrow> bool" where
  "picture ps \<longleftrightarrow> pieces_ok True ps \<and> tag ''IDAT'' \<in> fst ` set ps \<and> list_all (\<lambda>p. length (snd p) < 2 ^ 32) ps"

definition picture_bytes :: "piece list \<Rightarrow> bytes" where
  "picture_bytes ps = signature @ concat (map piece_bytes ps)"

fun placed :: "nat \<Rightarrow> piece list \<Rightarrow> chunk list" where
  "placed offset [] = []"
| "placed offset (p # ps) =
     \<lparr>chunk_start = offset, chunk_end = offset + 12 + length (snd p), chunk_type = map ucast (fst p),
      chunk_data = snd p\<rparr> # placed (offset + 12 + length (snd p)) ps"

section \<open>The parser inverts the grammar\<close>

definition last_piece :: piece where "last_piece = (tag ''IEND'', [])"

definition placed_chunk :: "nat \<Rightarrow> piece \<Rightarrow> chunk" where
  "placed_chunk offset p =
     \<lparr>chunk_start = offset, chunk_end = offset + 12 + length (snd p), chunk_type = map ucast (fst p),
      chunk_data = snd p\<rparr>"

lemma placed_Cons: "placed offset (p # ps) = placed_chunk offset p # placed (offset + 12 + length (snd p)) ps"
  by (simp add: placed_chunk_def)

declare placed.simps(2) [simp del] placed_Cons [simp]

lemma tag_length: "tag_letters t \<Longrightarrow> length t = 4"
  by (simp add: tag_letters_def four_letters_def)

lemma length_piece_bytes: "tag_letters (fst p) \<Longrightarrow> length (piece_bytes p) = 12 + length (snd p)"
  by (simp add: piece_bytes_def tag_length)

lemma letter_ascii: "letter (ucast b) \<Longrightarrow> (b :: 8 word) < 0x80"
  by (auto simp: letter_def word_le_nat_alt word_less_nat_alt unat_up)

lemma tag_letters_ascii: "tag_letters t \<Longrightarrow> ascii_bytes t"
  by (auto simp: tag_letters_def four_letters_def list_all_iff letter_ascii)

lemma decode_tag: "tag_letters t \<Longrightarrow> utf8_decode t = Some (map ucast t)"
  by (simp add: decode_ascii tag_letters_ascii)

lemma decoded_tag:
  assumes "utf8_decode q = Some t" "length q = 4" "four_letters t"
  shows "tag_letters q" "t = map ucast q"
proof -
  have "length t = length q" using assms by (simp add: four_letters_def)
  then show "t = map ucast q" using decode_same_length assms(1) by blast
  then show "tag_letters q" using assms(3) by (simp add: tag_letters_def)
qed

definition raw_chunk :: "piece \<Rightarrow> nat \<Rightarrow> bytes" where
  "raw_chunk p crc = setUint32 (length (snd p)) @ fst p @ snd p @ setUint32 crc"

lemma piece_raw: "piece_bytes p = raw_chunk p (unat (crc32 (fst p @ snd p)))"
  by (simp add: piece_bytes_def raw_chunk_def)

lemma crc_bound: "unat (crc32 bs) < 2 ^ 32"
  using unsigned_less [where 'a = nat and 'b = 32] by simp

lemma read_chunk_raw:
  assumes d: "drop offset bs = raw_chunk p crc @ rest" and t: "tag_letters (fst p)" and n: "length (snd p) < 2 ^ 32"
    and c: "crc < 2 ^ 32"
  shows "read_chunk bs offset =
      (if unat (crc32 (fst p @ snd p)) = crc then Inr (placed_chunk offset p) else Inl Picture_damaged)"
    "getUint32 bs offset = length (snd p)"
proof -
  have t4: "length (fst p) = 4" by (rule tag_length [OF t])
  have len: "length bs - offset = 12 + length (snd p) + length rest"
    using arg_cong [OF d, of length] t4 by (simp add: raw_chunk_def)
  show size: "getUint32 bs offset = length (snd p)"
    using n by (simp add: getUint32_drop [of bs offset] d raw_chunk_def getUint32_setUint32)
  have ty: "subarray bs (offset + 4) (offset + 8) = fst p"
    by (simp add: subarray_drop d) (simp add: subarray_def raw_chunk_def t4)
  have dat: "subarray bs (offset + 8) (offset + (8 + length (snd p))) = snd p"
    by (simp add: subarray_drop d) (simp add: subarray_def raw_chunk_def t4)
  have body: "subarray bs (offset + 4) (offset + (8 + length (snd p))) = fst p @ snd p"
    by (simp add: subarray_drop d) (simp add: subarray_def raw_chunk_def t4)
  have "drop (offset + (8 + length (snd p))) bs = setUint32 crc @ rest"
    by (simp add: drop_drop [symmetric] add.commute [of offset] d del: drop_drop)
       (simp add: raw_chunk_def t4)
  then have crc: "getUint32 bs (offset + (8 + length (snd p))) = crc"
    using c by (simp only: getUint32_drop [of bs "offset + (8 + length (snd p))"] getUint32_setUint32)
  have e: "offset + 12 + length (snd p) - 4 = offset + (8 + length (snd p))" by simp
  show "read_chunk bs offset =
      (if unat (crc32 (fst p @ snd p)) = crc then Inr (placed_chunk offset p) else Inl Picture_damaged)"
    unfolding read_chunk_def Let_def size e ty body crc dat decode_tag [OF t]
    using t by (simp add: len placed_chunk_def tag_letters_def)
qed

lemma read_chunk_piece:
  assumes "drop offset bs = piece_bytes p @ rest" "tag_letters (fst p)" "length (snd p) < 2 ^ 32"
  shows "read_chunk bs offset = Inr (placed_chunk offset p)" "getUint32 bs offset = length (snd p)"
  using read_chunk_raw [OF assms(1) [unfolded piece_raw] assms(2,3) crc_bound] by simp_all

lemma four_fields:
  "D = take a D @ take b (drop a D) @ take c (drop (a + b) D) @ take d (drop (a + b + c) D)
     @ drop (a + b + c + d) D"
  by (metis add.commute append_take_drop_id drop_drop)

lemma read_chunk_sound:
  assumes "read_chunk bs offset = Inr c"
  obtains p where "tag_letters (fst p)" "length (snd p) < 2 ^ 32" "c = placed_chunk offset p"
    "drop offset bs = piece_bytes p @ drop (chunk_end c) bs"
proof -
  define n where "n = getUint32 bs offset"
  define q d where "q = subarray bs (offset + 4) (offset + 8)"
    and "d = subarray bs (offset + 8) (offset + (8 + n))"
  define D where "D = drop offset bs"
  have e: "offset + 12 + n - 4 = offset + (8 + n)" by simp
  obtain t where long: "12 + n \<le> length bs - offset" and t: "utf8_decode q = Some t" "four_letters t"
    and crc: "unat (crc32 (subarray bs (offset + 4) (offset + (8 + n)))) = getUint32 bs (offset + (8 + n))"
    and c: "c = \<lparr>chunk_start = offset, chunk_end = offset + 12 + n, chunk_type = t, chunk_data = d\<rparr>"
    using assms unfolding read_chunk_def Let_def n_def [symmetric] q_def [symmetric] e d_def [symmetric]
    by (auto split: if_splits option.splits)
  have D: "12 + n \<le> length D" using long by (simp add: D_def)
  have q: "q = take 4 (drop 4 D)" and d: "d = take n (drop 8 D)"
    unfolding q_def d_def by (simp_all only: subarray_drop D_def) (simp_all add: subarray_def)
  have b: "subarray bs (offset + 4) (offset + (8 + n)) = q @ d"
    using D unfolding q d by (simp only: subarray_drop D_def [symmetric])
      (simp add: subarray_def take_add add.commute [of n])
  have first: "setUint32 n = take 4 D" "n < 2 ^ 32"
    using word_field [of D] D by (simp_all add: n_def getUint32_drop [of bs offset] D_def)
  have "getUint32 bs (offset + (8 + n)) = getUint32 (drop (8 + n) D) 0"
    by (subst getUint32_drop) (simp add: D_def add.commute)
  then have last: "setUint32 (unat (crc32 (q @ d))) = take 4 (drop (8 + n) D)"
    using word_field(1) [of "drop (8 + n) D"] D crc unfolding b by simp
  have "D = take 4 D @ take 4 (drop 4 D) @ take n (drop 8 D) @ take 4 (drop (8 + n) D) @ drop (12 + n) D"
    using four_fields [of D 4 4 n 4] by (simp add: add.commute)
  then have "D = piece_bytes (q, d) @ drop (12 + n) D"
    using first last D by (simp add: piece_bytes_def q d)
  have "tag_letters q" "t = map ucast q" using decoded_tag t D by (simp_all add: q)
  moreover have "length d = n" using D by (simp add: d)
  moreover have "drop (12 + n) D = drop (chunk_end c) bs" by (simp add: c D_def ac_simps)
  then have "drop offset bs = piece_bytes (q, d) @ drop (chunk_end c) bs"
    using \<open>D = piece_bytes (q, d) @ drop (12 + n) D\<close> by (simp only: D_def)
  ultimately show thesis
    using that [of "(q, d)"] first c by (simp add: placed_chunk_def)
qed

lemma units_of_tag [simp]: "map ucast (tag w) = ascii w"
  by (simp add: tag_def ascii_def)

lemma ucast_inject [simp]: "map (ucast :: 8 word \<Rightarrow> 16 word) xs = map ucast ys \<longleftrightarrow> xs = ys"
proof -
  have "inj (ucast :: 8 word \<Rightarrow> 16 word)"
    by (rule injI) (metis unat_up word_unat_eq_iff)
  then show ?thesis by (simp add: inj_map_eq_map)
qed

lemma type_is_tag [simp]: "map ucast t = ascii w \<longleftrightarrow> t = tag w"
  by (metis ucast_inject units_of_tag)

lemma tag_eq_iff [simp]: "tag v = tag w \<longleftrightarrow> v = w"
proof -
  have "inj (of_char :: char \<Rightarrow> 8 word)"
    by (rule injI) (metis of_char_eqI unat_of_char(1))
  then show ?thesis by (simp add: tag_def inj_map_eq_map)
qed

lemma ascii_eq_iff [simp]: "ascii v = ascii w \<longleftrightarrow> v = w"
  by (metis tag_eq_iff type_is_tag units_of_tag)

lemma header_of_piece:
  assumes "drop offset bs = piece_bytes p @ rest" "tag_letters (fst p)" "length (snd p) < 2 ^ 32"
  shows "check_header bs (placed_chunk offset p) first = Inr () \<longleftrightarrow>
    (if first then fst p = tag ''IHDR'' \<and> header_fits (snd p) else fst p \<noteq> tag ''IHDR'')"
proof -
  have size: "getUint32 bs offset = length (snd p)" by (rule read_chunk_piece(2) [OF assms])
  have "getUint32 bs (offset + 8) = getUint32 (snd p) 0" "getUint32 bs (offset + 12) = getUint32 (snd p) 4"
    if "length (snd p) = 13"
    using that assms(1) tag_length [OF assms(2)]
    by (simp_all add: getUint32_def subarray_drop [of bs offset 8 12, simplified]
        subarray_drop [of bs offset 12 16, simplified] add.assoc)
       (simp_all add: subarray_def piece_bytes_def)
  then show ?thesis
    by (auto simp: check_header_def placed_chunk_def size header_fits_def Let_def)
qed

abbreviation fits :: "piece list \<Rightarrow> bool" where
  "fits ps \<equiv> list_all (\<lambda>p. length (snd p) < 2 ^ 32) ps"

text \<open>The loop passes over pieces that do not end the picture.\<close>

lemma walk_prefix:
  assumes "pieces_ok (result = []) (qs @ rs)" "rs \<noteq> []" "fits qs" "drop offset bs = concat (map piece_bytes qs) @ rest"
  shows "walk bs offset result img =
    walk bs (offset + length (concat (map piece_bytes qs))) (result @ placed offset qs) (img \<or> tag ''IDAT'' \<in> fst ` set qs)"
  using assms
proof (induction qs arbitrary: offset result img)
  case (Cons p ps)
  have t: "tag_letters (fst p)" and n: "length (snd p) < 2 ^ 32"
    and d: "drop offset bs = piece_bytes p @ concat (map piece_bytes ps) @ rest"
    using Cons.prems by auto
  have more: "offset < length bs" using arg_cong [OF d, of length] t by (simp add: length_piece_bytes)
  have end_: "drop (chunk_end (placed_chunk offset p)) bs = concat (map piece_bytes ps) @ rest"
    using arg_cong [OF d, of "drop (12 + length (snd p))"] length_piece_bytes [OF t]
    by (simp add: placed_chunk_def ac_simps)
  have h: "check_header bs (placed_chunk offset p) (result = []) = Inr ()"
    using Cons.prems(1) header_of_piece [OF d t n] by simp
  have ty: "chunk_type (placed_chunk offset p) = ascii w \<longleftrightarrow> fst p = tag w" for w
    by (simp add: placed_chunk_def)
  have not_last: "fst p \<noteq> tag ''IEND''" "fst p \<noteq> tag ''acTL''" using Cons.prems(1,2) by (auto split: if_splits)
  then have "pieces_ok (result @ [placed_chunk offset p] = []) (ps @ rs)" "fits ps"
    using Cons.prems by auto
  from Cons.IH [OF this(1) Cons.prems(2) this(2) end_] show ?case
    using not_last length_piece_bytes [OF t]
    by (simp add: walk.simps [of bs offset] more read_chunk_piece(1) [OF d t n] h ty)
       (simp add: placed_chunk_def ac_simps eq_commute [of "tag ''IDAT''" "fst p"])
qed simp

lemma pieces_end: "pieces_ok first ps \<Longrightarrow> \<exists>qs. ps = qs @ [last_piece] \<and> (first \<longrightarrow> qs \<noteq> [])"
proof (induction ps arbitrary: first)
  case (Cons p ps)
  show ?case
  proof (cases "fst p = tag ''IEND''")
    case True
    then show ?thesis using Cons.prems by (auto simp: last_piece_def prod_eq_iff)
  next
    case False
    then have "pieces_ok False ps" using Cons.prems by simp
    then obtain qs where "ps = qs @ [last_piece]" using Cons.IH by blast
    then show ?thesis by (intro exI [of _ "p # qs"]) simp
  qed
qed simp

lemma pieces_tagged: "pieces_ok first ps \<Longrightarrow> list_all (\<lambda>p. tag_letters (fst p)) ps"
  by (induction ps arbitrary: first) (auto split: if_splits)

lemma placed_append: "list_all (\<lambda>p. tag_letters (fst p)) qs \<Longrightarrow>
    placed offset (qs @ rs) = placed offset qs @ placed (offset + length (concat (map piece_bytes qs))) rs"
  by (induction qs arbitrary: offset) (simp_all add: length_piece_bytes ac_simps)

lemma placed_Nil_iff [simp]: "placed offset ps = [] \<longleftrightarrow> ps = []"
  by (cases ps) simp_all

lemma walk_complete:
  assumes "pieces_ok (result = []) ps" "fits ps" "drop offset bs = concat (map piece_bytes ps)"
  shows "walk bs offset result img = Inr (result @ placed offset ps, img \<or> tag ''IDAT'' \<in> fst ` set ps, True)"
proof -
  obtain qs where qs: "ps = qs @ [last_piece]" "result = [] \<longrightarrow> qs \<noteq> []" using pieces_end assms(1) by blast
  define k where "k = offset + length (concat (map piece_bytes qs))"
  have t: "tag_letters (fst last_piece)" and n: "length (snd last_piece) < 2 ^ 32"
    using pieces_tagged [OF assms(1)] qs by (simp_all add: last_piece_def)
  have d: "drop k bs = piece_bytes last_piece @ []"
    using arg_cong [OF assms(3), of "drop (length (concat (map piece_bytes qs)))"] qs by (simp add: k_def add.commute)
  have more: "k < length bs" "k + 12 = length bs"
    using arg_cong [OF d, of length] t by (simp_all add: length_piece_bytes) (simp add: last_piece_def)
  have "walk bs offset result img = walk bs k (result @ placed offset qs) (img \<or> tag ''IDAT'' \<in> fst ` set qs)"
    using walk_prefix [of result qs "[last_piece]" offset bs "piece_bytes last_piece" img] assms qs
    by (simp add: k_def)
  moreover have "check_header bs (placed_chunk k last_piece) False = Inr ()"
    using header_of_piece [OF d t n] by (simp add: last_piece_def)
  ultimately show ?thesis
    using qs assms(1) pieces_tagged [OF assms(1)] more read_chunk_piece [OF d t n]
    by (simp add: walk.simps [of bs k] placed_append k_def [symmetric])
       (auto simp: placed_chunk_def last_piece_def)
qed

lemma walk_sound:
  "walk bs offset result img = Inr (cs, img', True) \<Longrightarrow>
     \<exists>ps. pieces_ok (result = []) ps \<and> fits ps \<and> drop offset bs = concat (map piece_bytes ps)
        \<and> cs = result @ placed offset ps \<and> img' = (img \<or> tag ''IDAT'' \<in> fst ` set ps)"
proof (induction bs offset result img rule: walk.induct)
  case (1 bs offset result img)
  then obtain c where more: "offset < length bs" and c: "read_chunk bs offset = Inr c"
    and h: "check_header bs c (result = []) = Inr ()" and still: "chunk_type c \<noteq> ascii ''acTL''"
    using 1(2) by (auto simp: walk.simps [of bs offset] split: if_splits sum.splits)
  obtain p where t: "tag_letters (fst p)" and n: "length (snd p) < 2 ^ 32" and p: "c = placed_chunk offset p"
    and d: "drop offset bs = piece_bytes p @ drop (chunk_end c) bs"
    by (rule read_chunk_sound [OF c])
  have size: "getUint32 bs offset = length (snd p)" by (rule read_chunk_piece(2) [OF d t n])
  have ty: "chunk_type c = ascii w \<longleftrightarrow> fst p = tag w" for w by (simp add: p placed_chunk_def)
  have head: "if result = [] then fst p = tag ''IHDR'' \<and> header_fits (snd p) else fst p \<noteq> tag ''IHDR''"
    using h header_of_piece [OF d t n] by (simp add: p)
  have still_tag: "fst p \<noteq> tag ''acTL''" using still ty by simp
  define img2 where "img2 = (img \<or> fst p = tag ''IDAT'')"
  show ?case
  proof (cases "fst p = tag ''IEND''")
    case True
    then have "snd p = []" "chunk_end c = length bs" "cs = result @ [c]" "img' = img2"
      using 1(2) by (simp_all add: walk.simps [of bs offset] more c h ty size img2_def split: if_splits)
    then show ?thesis using True t n d head still_tag
      by (intro exI [of _ "[p]"]) (auto simp: p img2_def ty)
  next
    case False
    then have "walk bs (chunk_end c) (result @ [c]) img2 = Inr (cs, img', True)"
      using 1(2) by (simp add: walk.simps [of bs offset] more c h ty img2_def split: if_splits)
    moreover have "chunk_type c \<noteq> ascii ''IEND''" using False ty by simp
    ultimately obtain ps where ps: "pieces_ok False ps" "fits ps" "drop (chunk_end c) bs = concat (map piece_bytes ps)"
        "cs = (result @ [c]) @ placed (chunk_end c) ps" "img' = (img2 \<or> tag ''IDAT'' \<in> fst ` set ps)"
      using 1(1) [OF more c h still refl refl] by (auto simp: ty img2_def)
    have "placed (chunk_end c) ps = placed (offset + 12 + length (snd p)) ps"
      by (simp add: p placed_chunk_def)
    then show ?thesis using False t n d head still_tag ps
      by (intro exI [of _ "p # ps"]) (auto simp: p img2_def ty)
  qed
qed

text \<open>\<open>chunks\<close> accepts exactly the pictures of the grammar, and returns their chunks in place.\<close>

lemma chunks_iff:
  "chunks bs = Inr cs \<longleftrightarrow>
     length bs \<le> MAX_CARD_BYTES \<and> (\<exists>ps. picture ps \<and> bs = picture_bytes ps \<and> cs = placed 8 ps)"
proof
  assume c: "chunks bs = Inr cs"
  then have sig: "length bs \<le> MAX_CARD_BYTES" "take 8 bs = signature"
    and w: "walk bs 8 [] False = Inr (cs, True, True)"
    by (auto simp: chunks_def split: if_splits sum.splits prod.splits)
  from walk_sound [OF w] obtain ps where
    ps: "pieces_ok True ps" "fits ps" "drop 8 bs = concat (map piece_bytes ps)" "cs = placed 8 ps" "tag ''IDAT'' \<in> fst ` set ps"
    by auto
  then have "bs = picture_bytes ps"
    using sig(2) append_take_drop_id [of 8 bs] by (simp add: picture_bytes_def)
  with sig(1) ps show "length bs \<le> MAX_CARD_BYTES \<and> (\<exists>ps. picture ps \<and> bs = picture_bytes ps \<and> cs = placed 8 ps)"
    unfolding picture_def by blast
next
  assume "length bs \<le> MAX_CARD_BYTES \<and> (\<exists>ps. picture ps \<and> bs = picture_bytes ps \<and> cs = placed 8 ps)"
  then obtain ps where b: "length bs \<le> MAX_CARD_BYTES" "bs = picture_bytes ps" "cs = placed 8 ps"
    and ps: "pieces_ok True ps" "fits ps" "tag ''IDAT'' \<in> fst ` set ps"
    by (auto simp: picture_def)
  have "length signature = 8" by (simp add: signature_def)
  then have "drop 8 bs = concat (map piece_bytes ps)" "take 8 bs = signature"
    using b by (simp_all add: picture_bytes_def)
  then show "chunks bs = Inr cs"
    using walk_complete [of "[]" ps 8 bs False] ps b by (simp add: chunks_def)
qed

section \<open>Invitations among the chunks\<close>

definition invitation_of :: "piece \<Rightarrow> (card_error, units option) result" where
  "invitation_of p = (if fst p = tag ''iTXt'' then payload (snd p) else Inr None)"

definition readable :: "piece list \<Rightarrow> bool" where
  "readable ps \<longleftrightarrow> list_all (\<lambda>p. \<not> isl (invitation_of p)) ps"

definition invitations :: "piece list \<Rightarrow> units list" where
  "invitations ps = List.map_filter (\<lambda>p. case invitation_of p of Inr (Some i) \<Rightarrow> Some i | _ \<Rightarrow> None) ps"

lemma readable_append [simp]: "readable (ps @ qs) \<longleftrightarrow> readable ps \<and> readable qs"
  by (simp add: readable_def)

lemma invitations_append [simp]: "invitations (ps @ qs) = invitations ps @ invitations qs"
  by (simp add: invitations_def List.map_filter_def)

lemma readable_Cons [simp]: "readable (p # ps) \<longleftrightarrow> \<not> isl (invitation_of p) \<and> readable ps"
  by (simp add: readable_def)

lemma invitations_Cons [simp]:
  "invitations (p # ps) = (case invitation_of p of Inr (Some i) \<Rightarrow> i # invitations ps | _ \<Rightarrow> invitations ps)"
  by (auto simp: invitations_def List.map_filter_def split: sum.split option.split)

lemma no_pieces [simp]: "readable []" "invitations [] = []"
  by (simp_all add: readable_def invitations_def List.map_filter_def)

definition as_list :: "'a option \<Rightarrow> 'a list" where
  "as_list x = (case x of None \<Rightarrow> [] | Some a \<Rightarrow> [a])"

lemma as_list_simps [simp]: "as_list None = []" "as_list (Some a) = [a]" "as_list x = [] \<longleftrightarrow> x = None"
  "[] = as_list x \<longleftrightarrow> x = None" "as_list x = [a] \<longleftrightarrow> x = Some a" "[a] = as_list x \<longleftrightarrow> x = Some a"
  "a # b # r \<noteq> as_list x" "length (as_list x) \<le> 1"
  by (auto simp: as_list_def split: option.splits)

lemma find_invitation_iff:
  "find_invitation (placed offset ps) acc = Inr r \<longleftrightarrow>
     readable ps \<and> as_list acc @ invitations ps = as_list r"
proof (induction ps arbitrary: offset acc)
  case Nil
  then show ?case by (cases acc; cases r) auto
next
  case (Cons p ps)
  then show ?case
    by (cases acc) (auto simp: placed_chunk_def invitation_of_def split: sum.split option.split)
qed

lemma some_invitation_iff:
  "some_invitation (placed offset ps) = Inr False \<longleftrightarrow> readable ps \<and> invitations ps = []"
  by (induction ps arbitrary: offset)
     (auto simp: placed_chunk_def invitation_of_def split: sum.split option.split)

lemma code_Inr: "code v = Inr i \<longleftrightarrow> i = trim v \<and> i \<noteq> [] \<and> length (utf8_encode i) \<le> MAX_NETWORK_INVITATION_BYTES"
  by (auto simp: code_def Let_def)

lemma payload_code: "payload d = Inr (Some i) \<Longrightarrow> \<exists>t. code t = Inr i"
  by (auto simp: payload_def Let_def bind_result_eq_Inr split: if_splits option.splits)

lemma invitations_nonempty: "i \<in> set (invitations ps) \<Longrightarrow> \<exists>t. code t = Inr i"
  by (induction ps) (auto simp: invitation_of_def split: sum.splits option.splits if_splits dest: payload_code)

lemma readInvitationCard_iff:
  "readInvitationCard bs = Inr i \<longleftrightarrow> length bs \<le> MAX_CARD_BYTES \<and>
     (\<exists>ps. picture ps \<and> bs = picture_bytes ps \<and> readable ps \<and> invitations ps = [i])"
proof -
  have ne: "i \<noteq> []" if "invitations ps = [i]" for ps
    using invitations_nonempty [of i ps] that by (auto simp: code_Inr)
  have "readInvitationCard bs = Inr i \<longleftrightarrow>
      (\<exists>cs. chunks bs = Inr cs \<and> find_invitation cs None = Inr (Some i) \<and> i \<noteq> [])"
    by (auto simp: readInvitationCard_def bind_result_eq_Inr split: option.splits if_splits)
  also have "\<dots> \<longleftrightarrow> length bs \<le> MAX_CARD_BYTES \<and> (\<exists>ps. picture ps \<and> bs = picture_bytes ps \<and>
      find_invitation (placed 8 ps) None = Inr (Some i) \<and> i \<noteq> [])"
    by (simp only: chunks_iff) blast
  finally show ?thesis using ne by (auto simp: find_invitation_iff)
qed

lemma keyword_units: "list_all (\<lambda>c. c < 0x80) (keyword @ [0, 0, 0, 0, 0])"
  by (simp add: keyword_def ascii_def)

lemma invitation_text_eq:
  "invitation_text i = tag ''GChat.Invitation'' @ [0, 0, 0, 0, 0] @ utf8_encode i"
proof -
  have "map ucast (ascii w) = tag w" for w
    by (simp add: tag_def ascii_def)
  then show ?thesis using encode_ascii_append [OF keyword_units, of i]
    by (simp add: invitation_text_def keyword_def)
qed

lemma payload_invitation_text:
  assumes "code v = Inr i" shows "payload (invitation_text i) = Inr (Some (well_formed i))"
proof -
  define k where "k = tag ''GChat.Invitation''"
  have k: "length k = 16" "0 \<notin> set k" by (simp_all add: k_def tag_def)
  have form: "invitation_text i = k @ 0 # [0, 0, 0, 0] @ utf8_encode i"
    by (simp add: invitation_text_eq k_def)
  have "takeWhile (\<lambda>b. b \<noteq> 0) (invitation_text i) = k"
    using k(2) by (auto simp: form takeWhile_append takeWhile_eq_all_conv)
  moreover have "utf8_decode k = Some keyword"
    using decode_ascii [of k] by (simp add: k_def keyword_def) (simp add: tag_def)
  moreover have "trimmed i" "code (well_formed i) = Inr (well_formed i)"
    using assms by (auto simp: code_Inr)
  ultimately show ?thesis
    using k(1) by (simp add: payload_def form subarray_def decode_encode_trimmed)
qed

section \<open>Embedding an invitation\<close>

definition invitation_piece :: "units \<Rightarrow> piece" where
  "invitation_piece i = (tag ''iTXt'', invitation_text i)"

lemma invitation_tag [simp]: "tag_letters (tag ''iTXt'')"
  by (simp add: tag_letters_def) (simp add: four_letters_def ascii_def letter_def word_le_nat_alt)

lemma pieces_insert:
  assumes "pieces_ok first (qs @ [last_piece])" "first \<longrightarrow> qs \<noteq> []"
  shows "pieces_ok first (qs @ [invitation_piece i, last_piece])"
  using assms
proof (induction qs arbitrary: first)
  case Nil
  then show ?case by (simp add: last_piece_def invitation_piece_def)
next
  case (Cons q qs)
  then show ?case by (auto split: if_splits)
qed

lemma invitation_chunk_piece: "invitation_chunk (invitation_text i) = piece_bytes (invitation_piece i)"
proof -
  have "utf8_encode (ascii ''iTXt'') = tag ''iTXt''"
    by (simp add: encode_ascii ascii_def tag_def)
  then show ?thesis by (simp add: invitation_chunk_def piece_bytes_def invitation_piece_def)
qed

lemma embed_pieces:
  assumes "picture (qs @ [last_piece])" and e: "e = chunk_start (last (placed 8 (qs @ [last_piece])))"
  shows "subarray (picture_bytes (qs @ [last_piece])) 0 e @ piece_bytes p @ drop e (picture_bytes (qs @ [last_piece]))
      = picture_bytes (qs @ [p, last_piece])"
proof -
  have "list_all (\<lambda>p. tag_letters (fst p)) qs"
    using pieces_tagged assms(1) by (fastforce simp: picture_def)
  then have "e = length (signature @ concat (map piece_bytes qs))"
    using e by (simp add: placed_append signature_def) (simp add: placed_chunk_def)
  then show ?thesis by (simp add: subarray_def picture_bytes_def)
qed

text \<open>The whole contract of \<open>embedInvitationCard\<close>: the result is the picture with one more
  chunk, put before the last.\<close>

lemma embedInvitationCard_iff:
  "embedInvitationCard png v = Inr out \<longleftrightarrow>
     (\<exists>qs i. picture (qs @ [last_piece]) \<and> png = picture_bytes (qs @ [last_piece]) \<and> readable qs \<and> invitations qs = []
        \<and> code v = Inr i \<and> out = picture_bytes (qs @ [invitation_piece i, last_piece])
        \<and> length out \<le> MAX_CARD_BYTES)"
proof -
  have last: "invitation_of last_piece = Inr None" by (simp add: invitation_of_def last_piece_def)
  have len: "length (picture_bytes (qs @ [p, last_piece])) = length (picture_bytes (qs @ [last_piece])) + length (piece_bytes p)" for qs p
    by (simp add: picture_bytes_def)
  have "embedInvitationCard png v = Inr out \<longleftrightarrow>
      (\<exists>cs i. chunks png = Inr cs \<and> some_invitation cs = Inr False \<and> code v = Inr i \<and>
        length png + length (piece_bytes (invitation_piece i)) \<le> MAX_CARD_BYTES \<and>
        out = subarray png 0 (chunk_start (last cs)) @ piece_bytes (invitation_piece i) @ drop (chunk_start (last cs)) png)"
    by (cases "chunks png"; cases "code v")
       (auto simp: embedInvitationCard_def bind_result_def Let_def invitation_chunk_piece not_less split: sum.split)
  also have "\<dots> \<longleftrightarrow> (\<exists>ps i. picture ps \<and> png = picture_bytes ps \<and> readable ps \<and> invitations ps = [] \<and> code v = Inr i \<and>
        length png + length (piece_bytes (invitation_piece i)) \<le> MAX_CARD_BYTES \<and>
        out = subarray png 0 (chunk_start (last (placed 8 ps))) @ piece_bytes (invitation_piece i)
          @ drop (chunk_start (last (placed 8 ps))) png)"
    by (simp only: chunks_iff) (auto simp: some_invitation_iff)
  also have "\<dots> \<longleftrightarrow> (\<exists>qs i. picture (qs @ [last_piece]) \<and> png = picture_bytes (qs @ [last_piece]) \<and> readable qs \<and> invitations qs = []
        \<and> code v = Inr i \<and> out = picture_bytes (qs @ [invitation_piece i, last_piece]) \<and> length out \<le> MAX_CARD_BYTES)"
    (is "?l \<longleftrightarrow> ?r")
  proof
    assume ?l
    then obtain ps i where h: "picture ps" "png = picture_bytes ps" "readable ps" "invitations ps = []" "code v = Inr i"
        "length png + length (piece_bytes (invitation_piece i)) \<le> MAX_CARD_BYTES"
        "out = subarray png 0 (chunk_start (last (placed 8 ps))) @ piece_bytes (invitation_piece i)
          @ drop (chunk_start (last (placed 8 ps))) png" by blast
    obtain qs where qs: "ps = qs @ [last_piece]" using pieces_end h(1) by (auto simp: picture_def)
    have "out = picture_bytes (qs @ [invitation_piece i, last_piece])"
      using h embed_pieces [of qs _ "invitation_piece i", OF _ refl] unfolding qs by simp
    then show ?r using h len last unfolding qs by (intro exI [of _ qs] exI [of _ i]) simp
  next
    assume ?r
    then obtain qs i where h: "picture (qs @ [last_piece])" "png = picture_bytes (qs @ [last_piece])" "readable qs" "invitations qs = []"
        "code v = Inr i" "out = picture_bytes (qs @ [invitation_piece i, last_piece])" "length out \<le> MAX_CARD_BYTES" by blast
    then show ?l using embed_pieces [OF h(1) refl] len last
      by (intro exI [of _ "qs @ [last_piece]"] exI [of _ i]) simp
  qed
  finally show ?thesis .
qed

section \<open>Corruption detection\<close>

lemma xor_cancel: "x XOR k = y XOR k \<longleftrightarrow> x = (y :: 'a::len word)"
  by (metis xor.assoc xor.right_neutral xor_self_eq)

lemma crc_bit_cases:
  "crc_bit crc = (if odd crc then drop_bit 1 crc XOR 0xEDB88320 else drop_bit 1 crc)"
proof (cases "odd crc")
  case True
  then have "crc AND 1 = 1" by (simp add: and_one_eq odd_iff_mod_2_eq_one)
  then show ?thesis using True by (simp add: crc_bit_def)
next
  case False
  then have "crc AND 1 = 0" by (simp add: and_one_eq even_iff_mod_2_eq_zero)
  then show ?thesis using False by (simp add: crc_bit_def)
qed

lemma crc_bit_inj: "inj crc_bit"
proof (rule injI)
  fix x y assume e: "crc_bit x = crc_bit y"
  have high: "\<not> bit (drop_bit 1 z) 31" for z :: "32 word"
    using bit_imp_le_length [of z 32] by (auto simp: bit_drop_bit_eq)
  have "bit (0xEDB88320 :: 32 word) 31" by simp
  then have top: "bit (crc_bit z) 31 = odd z" for z
    using high [of z] by (simp add: crc_bit_cases bit_xor_iff)
  have low: "odd x = odd y" using top [of x] top [of y] e by simp
  have "drop_bit 1 x = drop_bit 1 y"
    using e low by (auto simp: crc_bit_cases xor_cancel split: if_splits)
  then have "bit x (Suc n) = bit y (Suc n)" for n
    by (metis bit_drop_bit_eq comp_apply plus_1_eq_Suc)
  with low have "bit x n = bit y n" for n by (cases n) (simp_all add: bit_0)
  then show "x = y" by (simp add: bit_eq_iff)
qed

lemma crc_byte_inj: "crc_byte x a = crc_byte y b \<longleftrightarrow> x XOR ucast a = y XOR ucast b"
  unfolding crc_byte_def by (rule inj_eq [OF inj_fn [OF crc_bit_inj]])

lemma crc_fold_inj: "foldl crc_byte x bs = foldl crc_byte y bs \<longleftrightarrow> x = y"
  by (induction bs arbitrary: x y) (simp_all add: crc_byte_inj xor_cancel)

lemma ucast_32_inject: "(ucast (a :: 8 word) :: 32 word) = ucast b \<longleftrightarrow> a = b"
proof -
  have "unat (ucast a :: 32 word) = unat a" for a :: "8 word"
  proof -
    have "unat a < 2 ^ 32" using unsigned_less [where 'a = nat, of a] by simp
    then have "take_bit 32 (unat a) = unat a" by (rule take_bit_nat_eq_self)
    then show ?thesis by (simp add: unsigned_ucast_eq)
  qed
  then show ?thesis by (metis word_unat_eq_iff)
qed

text \<open>One changed byte always changes the checksum.\<close>

lemma crc32_detects: "crc32 (us @ a # vs) = crc32 (us @ b # vs) \<longleftrightarrow> a = b"
  by (simp add: crc32_def xor_cancel crc_fold_inj crc_byte_inj ucast_32_inject xor.commute [of "foldl crc_byte _ us"])
definition damaged_picture :: "piece list \<Rightarrow> piece \<Rightarrow> bytes \<Rightarrow> piece list \<Rightarrow> bytes" where
  "damaged_picture qs p d rs =
     signature @ concat (map piece_bytes qs) @ raw_chunk (fst p, d) (unat (crc32 (fst p @ snd p)))
       @ concat (map piece_bytes rs)"

lemma chunks_damaged:
  assumes p: "picture (qs @ (t, us @ a # vs) # rs)" and "a \<noteq> b"
    and small: "length (damaged_picture qs (t, us @ a # vs) (us @ b # vs) rs) \<le> MAX_CARD_BYTES"
  shows "chunks (damaged_picture qs (t, us @ a # vs) (us @ b # vs) rs) = Inl Picture_damaged"
proof -
  let ?bs = "damaged_picture qs (t, us @ a # vs) (us @ b # vs) rs"
  define crc where "crc = unat (crc32 (t @ us @ a # vs))"
  define k where "k = 8 + length (concat (map piece_bytes qs))"
  have sig: "length signature = 8" by (simp add: signature_def)
  have ok: "pieces_ok True (qs @ (t, us @ a # vs) # rs)" "fits qs"
    and n: "length (us @ b # vs) < 2 ^ 32" using p by (auto simp: picture_def)
  have t: "tag_letters t" using pieces_tagged [OF ok(1)] by simp
  have d8: "drop 8 ?bs = concat (map piece_bytes qs) @ raw_chunk (t, us @ b # vs) crc @ concat (map piece_bytes rs)"
    using sig by (simp add: damaged_picture_def crc_def)
  have d: "drop k ?bs = raw_chunk (t, us @ b # vs) crc @ concat (map piece_bytes rs)"
    using arg_cong [OF d8, of "drop (length (concat (map piece_bytes qs)))"] by (simp add: k_def add.commute)
  have more: "k < length ?bs" using arg_cong [OF d, of length] by (simp add: raw_chunk_def)
  have "crc32 (t @ us @ b # vs) \<noteq> crc32 (t @ us @ a # vs)"
    using crc32_detects [of "t @ us" b vs a] assms(2) by simp
  then have "read_chunk ?bs k = Inl Picture_damaged"
    using read_chunk_raw(1) [OF d] t n crc_bound [of "t @ us @ a # vs"] by (simp add: crc_def word_unat_eq_iff)
  then have "walk ?bs k res img = Inl Picture_damaged" for res img
    using more by (simp add: walk.simps [of ?bs k])
  then have "walk ?bs 8 [] False = Inl Picture_damaged"
    using walk_prefix [of "[]" qs "(t, us @ a # vs) # rs" 8 ?bs _ False] ok d8 by (simp add: k_def)
  moreover have "take 8 ?bs = signature" using sig by (simp add: damaged_picture_def)
  ultimately show ?thesis using small by (simp add: chunks_def)
qed

lemma picture_insert:
  assumes "picture (qs @ [last_piece])" "code v = Inr i"
  shows "picture (qs @ [invitation_piece i, last_piece])"
proof -
  have "qs \<noteq> []" using assms(1) by (auto simp: picture_def last_piece_def)
  then have "pieces_ok True (qs @ [invitation_piece i, last_piece])"
    using pieces_insert assms(1) by (simp add: picture_def)
  moreover have "length (invitation_text i) < 2 ^ 32"
    using assms(2) by (auto simp: invitation_text_eq code_Inr MAX_NETWORK_INVITATION_BYTES_def tag_def)
  ultimately show ?thesis using assms(1) by (auto simp: picture_def invitation_piece_def)
qed

lemma invitation_of_piece:
  "code v = Inr i \<Longrightarrow> invitation_of (invitation_piece i) = Inr (Some (well_formed i))"
  "invitation_of last_piece = Inr None"
  by (simp_all add: invitation_of_def invitation_piece_def last_piece_def payload_invitation_text)

lemma some_invitation_True: "readable ps \<Longrightarrow> invitations ps \<noteq> [] \<Longrightarrow> some_invitation (placed offset ps) = Inr True"
  by (induction ps arbitrary: offset)
     (auto simp: placed_chunk_def invitation_of_def split: sum.splits option.splits if_splits)

lemma chunks_picture: "picture ps \<Longrightarrow> length (picture_bytes ps) \<le> MAX_CARD_BYTES \<Longrightarrow>
    chunks (picture_bytes ps) = Inr (placed 8 ps)"
  using chunks_iff by blast

lemma embedded_card:
  assumes "embedInvitationCard png v = Inr out"
  obtains qs i where "code v = Inr i" "png = picture_bytes (qs @ [last_piece])" "readable qs" "invitations qs = []"
    "out = picture_bytes (qs @ [invitation_piece i, last_piece])" "length out \<le> MAX_CARD_BYTES"
    "picture (qs @ [invitation_piece i, last_piece])"
  using assms picture_insert unfolding embedInvitationCard_iff by blast

text \<open>A smallest still picture, for the concrete instances.\<close>

definition dot_header :: piece where
  "dot_header = (tag ''IHDR'', [0, 0, 0, 1, 0, 0, 0, 1, 8, 0, 0, 0, 0])"

definition dot_picture :: "piece list" where
  "dot_picture = [dot_header, (tag ''IDAT'', [1, 2, 3]), last_piece]"

lemma dot_tags: "tag_letters (tag ''IHDR'')" "tag_letters (tag ''IDAT'')" "tag_letters (tag ''IEND'')"
  unfolding tag_letters_def units_of_tag
  by (simp_all add: four_letters_def ascii_def letter_def word_le_nat_alt)

lemma dot_ok: "picture dot_picture"
  by (simp add: picture_def dot_picture_def dot_header_def last_piece_def dot_tags header_fits_def
      getUint32_def subarray_def)

lemma dot_embeds: "embedInvitationCard (picture_bytes dot_picture) (ascii '' GCI1-a '')
    = Inr (picture_bytes [dot_header, (tag ''IDAT'', [1, 2, 3]), invitation_piece (ascii ''GCI1-a''), last_piece])"
proof -
  have "code (ascii '' GCI1-a '') = Inr (ascii ''GCI1-a'')"
    by (simp add: code_Inr trim_def ascii_def white_def word_le_nat_alt encode_ascii MAX_NETWORK_INVITATION_BYTES_def)
  moreover have "length (picture_bytes [dot_header, (tag ''IDAT'', [1, 2, 3]), invitation_piece (ascii ''GCI1-a''), last_piece])
      \<le> MAX_CARD_BYTES"
    by (simp add: picture_bytes_def piece_bytes_def dot_header_def last_piece_def invitation_piece_def
        invitation_text_eq encode_ascii ascii_def tag_def signature_def MAX_CARD_BYTES_def)
  ultimately show ?thesis
    using dot_ok unfolding embedInvitationCard_iff dot_picture_def
    by (intro exI [of _ "[dot_header, (tag ''IDAT'', [1, 2, 3])]"] exI [of _ "ascii ''GCI1-a''"])
       (simp add: invitation_of_def dot_header_def)
qed

lemma card_code: "readInvitationCard bs = Inr i \<Longrightarrow> \<exists>t. code t = Inr i"
  unfolding readInvitationCard_iff using invitations_nonempty by (metis list.set_intros(1))

lemma read_text_file:
  assumes "code v = Inr i" "has_extension ''.txt'' (file_name f)" "\<not> prefix (ascii ''image/'') (file_type f)"
    and "file_bytes f = utf8_encode i"
  shows "readInvitationFile f = Inr (well_formed i)"
proof -
  have i: "trimmed i" "i \<noteq> []" "length (utf8_encode i) \<le> MAX_NETWORK_INVITATION_BYTES"
    using assms(1) by (auto simp: code_Inr)
  then have "utf8_replacing (utf8_encode i) = well_formed i" "code (well_formed i) = Inr (well_formed i)"
    by (simp_all add: utf8_replacing_decode decode_encode_trimmed code_Inr trim_trimmed trimmed_well_formed)
  then show ?thesis
    using i assms by (simp add: readInvitationFile_def MAX_NETWORK_INVITATION_BYTES_def MAX_CARD_BYTES_def)
qed

definition text_file :: "units \<Rightarrow> picked_file" where
  "text_file i = \<lparr>file_name = ascii ''invitation.TXT'', file_type = ascii ''text/plain'', file_bytes = utf8_encode i\<rparr>"

lemma dot_code: "code (ascii ''GCI1-a'') = Inr (ascii ''GCI1-a'')"
  by (simp add: code_Inr trim_def ascii_def white_def word_le_nat_alt encode_ascii MAX_NETWORK_INVITATION_BYTES_def)

lemma dot_text_file:
  "has_extension ''.txt'' (file_name (text_file i))" "\<not> prefix (ascii ''image/'') (file_type (text_file i))"
  "file_bytes (text_file i) = utf8_encode i"
  by (simp_all add: text_file_def has_extension_def ascii_def lower_def suffix_def word_le_nat_alt)

section \<open>Properties\<close>

text \<open>C7: Round trip of an invitation card.  Whatever picture and text \<open>embedInvitationCard\<close>
  accepts, reading the produced PNG gives back the trimmed invitation; only lone surrogates, which
  no UTF-8 text can carry, are replaced.\<close>

theorem card_round_trip:
  assumes "embedInvitationCard png v = Inr out"
  shows "readInvitationCard out = Inr (well_formed (trim v))"
proof -
  obtain qs i where i: "code v = Inr i" "readable qs" "invitations qs = []" "length out \<le> MAX_CARD_BYTES"
    "out = picture_bytes (qs @ [invitation_piece i, last_piece])" "picture (qs @ [invitation_piece i, last_piece])"
    using embedded_card [OF assms] by metis
  moreover have "i = trim v" using i(1) by (simp add: code_Inr)
  ultimately show ?thesis
    unfolding readInvitationCard_iff
    by (intro conjI exI [of _ "qs @ [invitation_piece i, last_piece]"]) (simp_all add: invitation_of_piece)
qed

theorem card_round_trip_witness:
  "\<exists>out. embedInvitationCard (picture_bytes dot_picture) (ascii '' GCI1-a '') = Inr out
     \<and> readInvitationCard out = Inr (well_formed (trim (ascii '' GCI1-a '')))"
  using card_round_trip [OF dot_embeds] dot_embeds by blast

text \<open>A card carries one invitation.  The produced file is the original picture with one
  chunk inserted and nothing else changed, within the size limit, and a second invitation is
  refused.\<close>

theorem card_carries_one:
  assumes "embedInvitationCard png v = Inr out"
  shows "(\<exists>before added after. png = before @ after \<and> out = before @ added @ after) \<and>
    length out \<le> MAX_CARD_BYTES \<and> embedInvitationCard out w = Inl Already_invited"
proof -
  obtain qs i where i: "code v = Inr i" "png = picture_bytes (qs @ [last_piece])" "readable qs" "length out \<le> MAX_CARD_BYTES"
    and out: "out = picture_bytes (qs @ [invitation_piece i, last_piece])"
    and p: "picture (qs @ [invitation_piece i, last_piece])"
    using embedded_card [OF assms] by metis
  have "some_invitation (placed 8 (qs @ [invitation_piece i, last_piece])) = Inr True"
    using i by (intro some_invitation_True) (simp_all add: invitation_of_piece)
  then have "embedInvitationCard out w = Inl Already_invited"
    using chunks_picture [OF p] i(4) by (simp add: embedInvitationCard_def out)
  moreover have "png = picture_bytes qs @ piece_bytes last_piece"
      "out = picture_bytes qs @ piece_bytes (invitation_piece i) @ piece_bytes last_piece"
    by (simp_all add: i(2) out picture_bytes_def)
  ultimately show ?thesis using i(4) by blast
qed

theorem card_carries_one_witness:
  "\<exists>out. embedInvitationCard (picture_bytes dot_picture) (ascii '' GCI1-a '') = Inr out
     \<and> embedInvitationCard out (ascii ''GCI1-b'') = Inl Already_invited"
  using card_carries_one [OF dot_embeds] dot_embeds by blast

text \<open>C14: What a card is.  A file is read as the invitation \<open>i\<close> exactly when it is at most 8 MB,
  is the serialisation of a still picture (a first and only \<open>IHDR\<close> of admissible dimensions, image
  data, a final empty \<open>IEND\<close> at the last byte, every checksum right), every text chunk is readable
  and exactly one of them holds an invitation, which is \<open>i\<close>.\<close>

theorem card_accepted_iff:
  "readInvitationCard bs = Inr i \<longleftrightarrow> length bs \<le> MAX_CARD_BYTES \<and>
     (\<exists>ps. picture ps \<and> bs = picture_bytes ps \<and> readable ps \<and> invitations ps = [i])"
  by (rule readInvitationCard_iff)

text \<open>C23: Corruption detection.  If one data byte of one chunk of a valid picture is changed,
  reading the file is the error of a damaged picture, whatever the byte and wherever the chunk.\<close>

theorem damage_detected:
  assumes "picture (qs @ (t, us @ a # vs) # rs)" "a \<noteq> b"
    and "length (damaged_picture qs (t, us @ a # vs) (us @ b # vs) rs) \<le> MAX_CARD_BYTES"
  shows "readInvitationCard (damaged_picture qs (t, us @ a # vs) (us @ b # vs) rs) = Inl Picture_damaged"
  using chunks_damaged [OF assms] by (simp add: readInvitationCard_def)

theorem damage_detected_witness:
  "readInvitationCard (damaged_picture [dot_header] (tag ''IDAT'', [1] @ 2 # [3]) ([1] @ 7 # [3]) [last_piece])
     = Inl Picture_damaged"
proof (rule damage_detected)
  show "picture ([dot_header] @ (tag ''IDAT'', [1] @ 2 # [3]) # [last_piece])"
    using dot_ok by (simp add: dot_picture_def)
  show "length (damaged_picture [dot_header] (tag ''IDAT'', [1] @ 2 # [3]) ([1] @ 7 # [3]) [last_piece]) \<le> MAX_CARD_BYTES"
    by (simp add: damaged_picture_def raw_chunk_def piece_bytes_def dot_header_def last_piece_def tag_def
        signature_def MAX_CARD_BYTES_def)
qed simp

text \<open>Bounds of a picked file.  Whatever kind of file is picked, an invitation that is read
  from it is trimmed, not empty and at most 174,778 bytes of UTF-8, and the file had at most 8 MB.\<close>

theorem file_invitation_bounds:
  assumes "readInvitationFile f = Inr i"
  shows "trimmed i \<and> i \<noteq> [] \<and> length (utf8_encode i) \<le> MAX_NETWORK_INVITATION_BYTES
    \<and> length (file_bytes f) \<le> MAX_CARD_BYTES"
proof -
  have "\<exists>t. code t = Inr i"
    using assms card_code by (auto simp: readInvitationFile_def Let_def split: if_splits option.splits)
  moreover have "length (file_bytes f) \<le> MAX_CARD_BYTES"
    using assms by (auto simp: readInvitationFile_def Let_def split: if_splits)
  ultimately show ?thesis by (auto simp: code_Inr)
qed

theorem file_invitation_bounds_witness:
  "readInvitationFile (text_file (ascii ''GCI1-a'')) = Inr (well_formed (ascii ''GCI1-a''))
     \<and> trimmed (well_formed (ascii ''GCI1-a''))"
  using file_invitation_bounds [OF read_text_file [OF dot_code dot_text_file]]
    read_text_file [OF dot_code dot_text_file] by blast

text \<open>Text invitations: a text file that holds an acceptable invitation as UTF-8 is read as that
  invitation, under any name ending in \<open>.txt\<close> in either case.\<close>

theorem text_file_round_trip:
  assumes "code v = Inr i" "has_extension ''.txt'' (file_name f)" "\<not> prefix (ascii ''image/'') (file_type f)"
    and "file_bytes f = utf8_encode i"
  shows "readInvitationFile f = Inr (well_formed i)"
  using assms by (rule read_text_file)

theorem text_file_round_trip_witness:
  "readInvitationFile (text_file (ascii ''GCI1-a'')) = Inr (well_formed (ascii ''GCI1-a''))"
  by (rule text_file_round_trip [OF dot_code dot_text_file])

end
