(* ===== verification/Invitation_Link.thy ===== *)
theory Invitation_Link
  imports Prelude
begin

text \<open>
  \<open>ui/src/invitation-link.ts\<close>: the join links and the bounded in-memory inbox that the operating
  system's link notifications go through.  The inbox's \<open>Set\<close> is a list in insertion order.
\<close>

section \<open>The code\<close>

definition JOIN_LINK_PREFIX :: string where "JOIN_LINK_PREFIX = ''gcoms://join#''"
definition MAX_JOIN_LINK_BYTES :: nat where "MAX_JOIN_LINK_BYTES = 8192"
definition MAX_COMPACT_LINK_BYTES :: nat where "MAX_COMPACT_LINK_BYTES = 2048"

definition char_in :: "nat \<Rightarrow> nat \<Rightarrow> char \<Rightarrow> bool" where
  "char_in lo hi c \<longleftrightarrow> lo \<le> of_char c \<and> of_char c \<le> hi"

definition token_char :: "char \<Rightarrow> bool" where
  "token_char c \<longleftrightarrow> char_in 0x41 0x5A c \<or> char_in 0x61 0x7A c \<or> char_in 0x30 0x39 c
     \<or> c = CHR ''_'' \<or> c = CHR ''-''"

text \<open>The pattern \<open>(GCI1|GCIR1)-[A-Za-z0-9_-]+\<close>, anchored at both ends.\<close>

definition token :: "string \<Rightarrow> bool" where
  "token s \<longleftrightarrow> s \<noteq> [] \<and> list_all token_char s"

definition compact_code :: "string \<Rightarrow> bool" where
  "compact_code raw \<longleftrightarrow> prefix ''GCIR1-'' raw"

definition invitation_code :: "string \<Rightarrow> bool" where
  "invitation_code raw \<longleftrightarrow>
     prefix ''GCI1-'' raw \<and> token (drop 5 raw) \<or> prefix ''GCIR1-'' raw \<and> token (drop 6 raw)"

definition invitationLink :: "string \<Rightarrow> string option" where
  "invitationLink value =
     (let raw = (if prefix JOIN_LINK_PREFIX value then drop (length JOIN_LINK_PREFIX) value else value);
          link = JOIN_LINK_PREFIX @ raw;
          limit = (if compact_code raw then MAX_COMPACT_LINK_BYTES else MAX_JOIN_LINK_BYTES)
      in if invitation_code raw \<and> length link \<le> limit then Some link else None)"

definition validInvitationLink :: "string \<Rightarrow> bool" where
  "validInvitationLink link =
     (let limit = (if prefix (JOIN_LINK_PREFIX @ ''GCIR1-'') link then MAX_COMPACT_LINK_BYTES else 174800)
      in length link \<le> limit \<and> prefix JOIN_LINK_PREFIX link \<and> invitation_code (drop (length JOIN_LINK_PREFIX) link))"

record inbox =
  seen :: "string list"
  pending :: "string list"

definition empty_inbox :: inbox where
  "empty_inbox = \<lparr>seen = [], pending = []\<rparr>"

definition offer_one :: "string \<Rightarrow> inbox \<Rightarrow> inbox" where
  "offer_one url i =
     (if \<not> validInvitationLink url \<or> url \<in> set (seen i) \<or> length (pending i) \<ge> 4 then i
      else let s = seen i @ [url] in
        i\<lparr>seen := (if length s > 32 then tl s else s), pending := pending i @ [url]\<rparr>)"

definition offer :: "string list \<Rightarrow> inbox \<Rightarrow> inbox" where
  "offer urls i = fold offer_one urls i"

definition peek :: "inbox \<Rightarrow> string option" where
  "peek i = (case pending i of [] \<Rightarrow> None | u # _ \<Rightarrow> Some u)"

definition consume :: "inbox \<Rightarrow> inbox" where
  "consume i = i\<lparr>pending := tl (pending i)\<rparr>"

definition clear_inbox :: "inbox \<Rightarrow> inbox" where
  "clear_inbox i = i\<lparr>pending := []\<rparr>"

section \<open>Histories\<close>

text \<open>The accepted links of a history, oldest first, kept beside the inbox.\<close>

definition takes :: "string \<Rightarrow> inbox \<Rightarrow> bool" where
  "takes url i \<longleftrightarrow> validInvitationLink url \<and> url \<notin> set (seen i) \<and> length (pending i) < 4"

inductive inbox_history :: "string list \<Rightarrow> inbox \<Rightarrow> bool" where
  start: "inbox_history [] empty_inbox"
| offered: "inbox_history log i \<Longrightarrow> inbox_history (if takes url i then log @ [url] else log) (offer_one url i)"
| consumed: "inbox_history log i \<Longrightarrow> inbox_history log (consume i)"
| cleared: "inbox_history log i \<Longrightarrow> inbox_history log (clear_inbox i)"

definition recent :: "string list \<Rightarrow> string list" where
  "recent log = drop (length log - 32) log"

lemma recent_snoc:
  "recent (log @ [u]) = (if length (recent log @ [u]) > 32 then tl (recent log @ [u]) else recent log @ [u])"
proof (cases "length log < 32")
  case False
  then have ne: "recent log \<noteq> []" by (simp add: recent_def)
  have "length log - 31 = Suc (length log - 32)" using False by simp
  then have "drop (length log - 31) log = tl (recent log)"
    by (simp add: recent_def drop_Suc tl_drop)
  then show ?thesis using False ne by (simp add: recent_def)
qed (simp add: recent_def)

lemma suffix_tl_both: "suffix p s \<Longrightarrow> length p < length s \<Longrightarrow> suffix p (tl s)"
  by (cases s) (auto simp: suffix_Cons)

text \<open>Any 33 links accepted one after the other differ from each other.\<close>

definition window_distinct :: "string list \<Rightarrow> bool" where
  "window_distinct log \<longleftrightarrow> (\<forall>i. distinct (take 33 (drop i log)))"

lemma offer_one_accepts:
  "offer_one url i = (if takes url i
     then i\<lparr>seen := (if length (seen i @ [url]) > 32 then tl (seen i @ [url]) else seen i @ [url]),
            pending := pending i @ [url]\<rparr> else i)"
  by (auto simp: offer_one_def takes_def Let_def not_less)

lemma window_snoc:
  assumes "window_distinct log" "u \<notin> set (recent log)"
  shows "window_distinct (log @ [u])"
  unfolding window_distinct_def
proof
  fix i
  show "distinct (take 33 (drop i (log @ [u])))"
  proof (cases "i + 33 \<le> length log")
    case True
    then show ?thesis using assms(1) by (simp add: window_distinct_def)
  next
    case False
    have "u \<notin> set (drop i log)"
    proof
      assume u: "u \<in> set (drop i log)"
      have "length log - 32 \<le> i" using False by simp
      then have "set (drop i log) \<subseteq> set (recent log)"
        unfolding recent_def by (rule set_drop_subset_set_drop)
      then show False using u assms(2) by blast
    qed
    moreover have "distinct (drop i log)"
    proof -
      have "take 33 (drop i log) = drop i log" using False by simp
      then show ?thesis using assms(1) unfolding window_distinct_def by metis
    qed
    ultimately have "distinct (drop i (log @ [u]))"
      by (cases "i - length log") auto
    then show ?thesis by (rule distinct_take)
  qed
qed

definition inbox_ok :: "string list \<Rightarrow> inbox \<Rightarrow> bool" where
  "inbox_ok log i \<longleftrightarrow> seen i = recent log \<and> suffix (pending i) (seen i) \<and> length (pending i) \<le> 4
     \<and> list_all validInvitationLink log \<and> window_distinct log"

lemma history_ok: "inbox_history log i \<Longrightarrow> inbox_ok log i"
proof (induction rule: inbox_history.induct)
  case start
  then show ?case by (simp add: inbox_ok_def empty_inbox_def recent_def window_distinct_def)
next
  case (offered log i url)
  show ?case
  proof (cases "takes url i")
    case True
    have "suffix (pending i @ [url]) (seen i @ [url])" using offered.IH by (auto simp: inbox_ok_def)
    moreover have "length (pending i @ [url]) < length (seen i @ [url])" if "length (seen i @ [url]) > 32"
      using that True by (simp add: takes_def)
    ultimately show ?thesis using offered.IH True window_snoc [of log url]
      by (auto simp: inbox_ok_def offer_one_accepts recent_snoc takes_def suffix_tl_both)
  next
    case False
    then show ?thesis using offered.IH by (simp add: offer_one_accepts)
  qed
next
  case (consumed log i)
  then show ?case by (cases "pending i") (auto simp: inbox_ok_def consume_def dest: suffix_ConsD)
next
  case (cleared log i)
  then show ?case by (simp add: inbox_ok_def clear_inbox_def)
qed

section \<open>Properties\<close>

lemma invitation_link_Some:
  assumes "invitationLink v = Some l"
  obtains raw where "l = JOIN_LINK_PREFIX @ raw" "v = raw \<or> v = l" "invitation_code raw"
    "length l \<le> (if compact_code raw then MAX_COMPACT_LINK_BYTES else MAX_JOIN_LINK_BYTES)"
proof (cases "prefix JOIN_LINK_PREFIX v")
  case True
  then have "v = JOIN_LINK_PREFIX @ drop (length JOIN_LINK_PREFIX) v" by (metis append_eq_conv_conj prefixE)
  then show thesis using that [of "drop (length JOIN_LINK_PREFIX) v"] assms True
    unfolding invitationLink_def Let_def by (simp split: if_splits)
next
  case False
  then show thesis using that [of v] assms unfolding invitationLink_def Let_def by (simp split: if_splits)
qed

lemma invitation_link_again:
  "invitation_code raw \<Longrightarrow>
   length (JOIN_LINK_PREFIX @ raw) \<le> (if compact_code raw then MAX_COMPACT_LINK_BYTES else MAX_JOIN_LINK_BYTES) \<Longrightarrow>
   invitationLink (JOIN_LINK_PREFIX @ raw) = Some (JOIN_LINK_PREFIX @ raw)"
  by (simp add: invitationLink_def)

text \<open>Links made are links accepted.  What \<open>invitationLink\<close> returns is a valid link, unchanged
  when it is passed through again, no longer than its kind allows, and it is the prefix followed by
  the code given, with or without the prefix.\<close>

theorem invitation_link_valid:
  assumes "invitationLink v = Some l"
  shows "validInvitationLink l \<and> invitationLink l = Some l \<and> length l \<le> MAX_JOIN_LINK_BYTES
    \<and> (l = v \<or> l = JOIN_LINK_PREFIX @ v)"
proof -
  obtain raw where r: "l = JOIN_LINK_PREFIX @ raw" "v = raw \<or> v = l" "invitation_code raw"
    "length l \<le> (if compact_code raw then MAX_COMPACT_LINK_BYTES else MAX_JOIN_LINK_BYTES)"
    by (rule invitation_link_Some [OF assms])
  have "validInvitationLink l"
    using r(3,4) by (auto simp: r(1) validInvitationLink_def Let_def compact_code_def
        MAX_COMPACT_LINK_BYTES_def MAX_JOIN_LINK_BYTES_def split: if_splits)
  moreover have "invitationLink l = Some l" using invitation_link_again r(3,4) unfolding r(1) by blast
  moreover have "length l \<le> MAX_JOIN_LINK_BYTES"
    using r(4) by (simp add: MAX_COMPACT_LINK_BYTES_def MAX_JOIN_LINK_BYTES_def split: if_splits)
  ultimately show ?thesis using r by blast
qed

theorem invitation_link_valid_witness:
  "validInvitationLink (JOIN_LINK_PREFIX @ ''GCIR1-a_Z9-'')"
proof -
  have "invitationLink ''GCIR1-a_Z9-'' = Some (JOIN_LINK_PREFIX @ ''GCIR1-a_Z9-'')"
    by (simp add: invitationLink_def JOIN_LINK_PREFIX_def invitation_code_def token_def token_char_def char_in_def
        compact_code_def MAX_COMPACT_LINK_BYTES_def)
  from invitation_link_valid [OF this] show ?thesis by blast
qed

text \<open>C33: The invitation inbox.  After any history of offers, consumptions and clears the inbox
  holds at most four pending links and remembers at most 32; the pending ones are the newest
  remembered ones, so a pending link is never forgotten and never offered twice; and among any 33
  links accepted one after the other no link occurs twice.\<close>

theorem inbox_bounded_and_deduplicated:
  assumes "inbox_history log i"
  shows "length (pending i) \<le> 4 \<and> length (seen i) \<le> 32 \<and> suffix (pending i) (seen i) \<and> suffix (seen i) log
    \<and> list_all validInvitationLink log \<and> (\<forall>k. distinct (take 33 (drop k log)))"
proof -
  have "inbox_ok log i" by (rule history_ok [OF assms])
  moreover have "suffix (recent log) log" "length (recent log) \<le> 32" by (auto simp: recent_def suffix_drop)
  ultimately show ?thesis by (auto simp: inbox_ok_def window_distinct_def)
qed

theorem inbox_bounded_and_deduplicated_witness:
  "let a = JOIN_LINK_PREFIX @ ''GCI1-a''; i = offer_one a (offer_one a empty_inbox)
   in inbox_history [a] i \<and> length (pending i) \<le> 4 \<and> pending i = [a] \<and> suffix (seen i) [a]"
proof -
  define a where "a = JOIN_LINK_PREFIX @ ''GCI1-a''"
  have v: "validInvitationLink a"
    by (simp add: a_def validInvitationLink_def JOIN_LINK_PREFIX_def invitation_code_def token_def token_char_def char_in_def)
  have "inbox_history [a] (offer_one a empty_inbox)"
    using inbox_history.offered [OF inbox_history.start, of a] v by (simp add: takes_def empty_inbox_def)
  from inbox_history.offered [OF this, of a]
  have h: "inbox_history [a] (offer_one a (offer_one a empty_inbox))"
    using v by (simp add: takes_def offer_one_def empty_inbox_def Let_def)
  moreover have "pending (offer_one a (offer_one a empty_inbox)) = [a]"
    using v by (simp add: offer_one_def empty_inbox_def Let_def)
  ultimately show ?thesis
    using inbox_bounded_and_deduplicated [OF h] unfolding a_def Let_def by blast
qed

end
