(* ===== verification/Network_Workspace.thy ===== *)
theory Network_Workspace
  imports Transport Utf8
begin

text \<open>
  \<open>ui/src/network-workspace.ts\<close>: one view over several isolated networks.  The workspace is a
  record passed along; the transport underneath is the parameter \<open>base\<close>, a function of the outside
  world, the workspace and the request.  Since \<open>base\<close> also receives and returns the workspace, what
  other operations do to it while a call is awaited is covered: a theorem for every \<open>base\<close> is a
  theorem for every interleaving at the points where the code awaits.
\<close>

section \<open>Conversation names\<close>

definition network_prefix :: "string \<Rightarrow> string" where
  "network_prefix network = ''network/'' @ network @ ''/''"

definition hex_char :: "char \<Rightarrow> bool" where
  "hex_char c \<longleftrightarrow> c \<in> set ''0123456789abcdef''"

definition network_id :: "string \<Rightarrow> bool" where
  "network_id n \<longleftrightarrow> length n = 64 \<and> list_all hex_char n"

text \<open>The dot of a pattern matches no line terminator: LF, CR, U+2028, U+2029.\<close>

fun one_line :: "string \<Rightarrow> bool" where
  "one_line [] = True"
| "one_line (c # cs) = (of_char c \<noteq> (10 :: nat) \<and> of_char c \<noteq> (13 :: nat)
     \<and> map of_char (take 3 (c # cs)) \<notin> {[0xE2, 0x80, 0xA8], [0xE2, 0x80, 0xA9 :: nat]} \<and> one_line cs)"

definition plain_error :: "string \<Rightarrow> 'a outcome" where
  "plain_error m = Inl (Thrown_object None (Some m) True (''Error: '' @ m))"

definition splitName :: "string \<Rightarrow> (string option \<times> string) outcome" where
  "splitName i =
     (if prefix ''network/'' i then
        let rest = drop 8 i; n = take 64 rest; tail = drop 64 rest in
        if network_id n \<and> prefix ''/'' tail \<and> tl tail \<noteq> [] \<and> one_line (tl tail)
        then Inr (Some n, tl tail) else plain_error ''Invalid network conversation''
      else Inr (None, i))"

definition splitConversation :: "string option \<Rightarrow> (string option \<times> string option) outcome" where
  "splitConversation i = (case i of None \<Rightarrow> Inr (None, None)
     | Some i \<Rightarrow> bind_result (splitName i) (\<lambda>(n, l). Inr (n, Some l)))"

section \<open>The workspace\<close>

record workspace =
  networks :: "joined_network list"
  active :: "string option"
  enabled :: bool
  instances :: "string \<rightharpoonup> string"
  presence :: "string \<rightharpoonup> bool"
  presenceRevision :: nat
  lifecycle :: nat
  changes :: "joined_network list list"

definition new_workspace :: workspace where
  "new_workspace = \<lparr>networks = [], active = None, enabled = False, instances = Map.empty,
     presence = Map.empty, presenceRevision = 0, lifecycle = 0, changes = []\<rparr>"

definition primary :: "workspace \<Rightarrow> string option" where
  "primary w = map_option net_id (find net_primary (networks w))"

definition key_of :: "string option \<Rightarrow> string" where
  "key_of n = (case n of None \<Rightarrow> [] | Some n \<Rightarrow> n)"

definition confirmPresence :: "string option \<Rightarrow> bool \<Rightarrow> workspace \<Rightarrow> workspace" where
  "confirmPresence network on w = w\<lparr>presenceRevision := Suc (presenceRevision w),
     presence := (presence w)(key_of (if network = None then primary w else network) \<mapsto> on)\<rparr>"

definition instanceFor :: "workspace \<Rightarrow> string option \<Rightarrow> string option" where
  "instanceFor w network = instances w (key_of network)"

definition presenceFor :: "workspace \<Rightarrow> string option \<Rightarrow> bool option" where
  "presenceFor w network = presence w (key_of network)"

definition networkFor :: "workspace \<Rightarrow> string option \<Rightarrow> string option outcome" where
  "networkFor w c = bind_result (splitConversation c)
     (\<lambda>(n, _). Inr (if n = None then primary w else n))"

definition qualify :: "workspace \<Rightarrow> string \<Rightarrow> string \<Rightarrow> string" where
  "qualify w network i = (if Some network = primary w then i else network_prefix network @ i)"

definition select_network :: "string option \<Rightarrow> workspace \<Rightarrow> workspace" where
  "select_network network w = w\<lparr>active := network\<rparr>"

definition publish :: "joined_network list \<Rightarrow> workspace \<Rightarrow> workspace" where
  "publish ns w = w\<lparr>networks := ns, changes := changes w @ [ns]\<rparr>"

text \<open>A conversation in a response: null and the empty name are falsy.\<close>

definition qualify_some :: "workspace \<Rightarrow> string \<Rightarrow> string option \<Rightarrow> string option" where
  "qualify_some w network c = (case c of Some i \<Rightarrow> if i = [] then None else Some (qualify w network i) | None \<Rightarrow> None)"

definition map_output :: "workspace \<Rightarrow> string \<Rightarrow> command_output \<Rightarrow> command_output" where
  "map_output w network out = (case out of
       Close c \<Rightarrow> Close (qualify w network c)
     | Directory ds \<Rightarrow> Directory (map (\<lambda>d. d\<lparr>dir_conversation := qualify_some w network (dir_conversation d)\<rparr>) ds)
     | _ \<Rightarrow> out)"

definition mapResponse :: "workspace \<Rightarrow> string \<Rightarrow> response \<Rightarrow> response" where
  "mapResponse w network r =
     (if Some network = primary w then r else case r of
        R_snapshot s \<Rightarrow> R_snapshot (s\<lparr>sn_conversations :=
          map (\<lambda>c. c\<lparr>conv_id := qualify w network (conv_id c)\<rparr>) (sn_conversations s)\<rparr>)
      | R_history p \<Rightarrow> R_history (p\<lparr>page_messages :=
          map (\<lambda>m. m\<lparr>msg_conversationId := qualify w network (msg_conversationId m)\<rparr>) (page_messages p)\<rparr>)
      | R_files f \<Rightarrow> R_files (f\<lparr>snap_files :=
          map (\<lambda>i. i\<lparr>info_conversation := qualify w network (info_conversation i)\<rparr>) (snap_files f)\<rparr>)
      | R_applied c n \<Rightarrow> R_applied (qualify_some w network c) n
      | R_output c out \<Rightarrow> R_output (qualify_some w network c) (map_output w network out)
      | _ \<Rightarrow> r)"

section \<open>Requests\<close>

text \<open>\<open>'conversation' in request\<close>: the field, where the request has it.\<close>

definition request_conversation :: "request \<Rightarrow> string option option" where
  "request_conversation r = (case r of
       Catalogue c \<Rightarrow> Some c | Submit _ c _ \<Rightarrow> Some c | Complete c _ \<Rightarrow> Some c
     | History c _ _ \<Rightarrow> Some (Some c) | Search c _ _ _ \<Rightarrow> Some (Some c) | Mark_read c _ \<Rightarrow> Some (Some c)
     | _ \<Rightarrow> None)"

definition file_conversation :: "file_request \<Rightarrow> string option option" where
  "file_conversation f = (case f of File_list c \<Rightarrow> Some c | File_publications c \<Rightarrow> Some c
     | File_prepare _ c _ _ \<Rightarrow> Some (Some c) | _ \<Rightarrow> None)"

definition any_conversation :: "request \<Rightarrow> string option" where
  "any_conversation r = (case request_conversation r of Some c \<Rightarrow> c
     | None \<Rightarrow> (case r of Files f \<Rightarrow> (case file_conversation f of Some c \<Rightarrow> c | None \<Rightarrow> None) | _ \<Rightarrow> None))"

definition with_local :: "string option \<Rightarrow> (string option \<Rightarrow> 'a) \<Rightarrow> 'a outcome" where
  "with_local c f = bind_result (splitConversation c) (\<lambda>(_, l). Inr (f l))"

definition with_local_name :: "string \<Rightarrow> (string \<Rightarrow> 'a) \<Rightarrow> 'a outcome" where
  "with_local_name c f = bind_result (splitName c) (\<lambda>(_, l). Inr (f l))"

definition localFiles :: "file_request \<Rightarrow> file_request outcome" where
  "localFiles f = (case f of
       File_list c \<Rightarrow> with_local c File_list
     | File_publications c \<Rightarrow> with_local c File_publications
     | File_prepare i c n s \<Rightarrow> with_local_name c (\<lambda>c. File_prepare i c n s)
     | _ \<Rightarrow> Inr f)"

definition localRequest :: "request \<Rightarrow> request outcome" where
  "localRequest r = (case r of
       Catalogue c \<Rightarrow> with_local c Catalogue
     | Submit i c t \<Rightarrow> with_local c (\<lambda>c. Submit i c t)
     | Complete c t \<Rightarrow> with_local c (\<lambda>c. Complete c t)
     | History c b n \<Rightarrow> with_local_name c (\<lambda>c. History c b n)
     | Search c t b n \<Rightarrow> with_local_name c (\<lambda>c. Search c t b n)
     | Mark_read c m \<Rightarrow> with_local_name c (\<lambda>c. Mark_read c m)
     | Files f \<Rightarrow> bind_result (localFiles f) (\<lambda>f. Inr (Files f))
     | _ \<Rightarrow> Inr r)"

type_synonym 'w base = "'w \<times> workspace \<Rightarrow> request \<Rightarrow> ('w \<times> workspace) \<times> response outcome"

text \<open>The reply to a call on another network must name that network.\<close>

definition accept_scoped :: "workspace \<Rightarrow> string \<Rightarrow> response \<Rightarrow> response outcome" where
  "accept_scoped w network result = (case result of
       R_networks (N_result n inner) \<Rightarrow>
         if n \<noteq> network then throw_chat ''protocol'' ''Network response binding changed''
         else (case inner of R_error c m \<Rightarrow> throw_chat c m | _ \<Rightarrow> Inr (mapResponse w network inner))
     | _ \<Rightarrow> throw_chat ''protocol'' ''Network response binding changed'')"

definition scoped :: "'w base \<Rightarrow> string option \<Rightarrow> request \<Rightarrow> 'w \<times> workspace \<Rightarrow> ('w \<times> workspace) \<times> response outcome" where
  "scoped base network r s =
     (case splitConversation (any_conversation r) of Inl e \<Rightarrow> (s, Inl e)
      | Inr (bound, _) \<Rightarrow>
          if bound \<noteq> None \<and> bound \<noteq> network
          then (s, throw_chat ''instance'' ''Conversation belongs to another network'')
          else if network = None \<or> network = Some [] \<or> network = primary (snd s) then
            (case localRequest r of Inl e \<Rightarrow> (s, Inl e) | Inr l \<Rightarrow> base s l)
          else if \<not> enabled (snd s) then (s, throw_chat ''unavailable'' ''Selected network is unavailable'')
          else (case localRequest r of Inl e \<Rightarrow> (s, Inl e)
            | Inr l \<Rightarrow> (case base s (Networks (Call (the network) l)) of
                  (s', Inl e) \<Rightarrow> (s', Inl e)
                | (s', Inr result) \<Rightarrow> (s', accept_scoped (snd s') (the network) result))))"

section \<open>Aggregation\<close>

definition shown :: "thrown \<Rightarrow> string" where
  "shown t = (case t of
       Thrown_chat e \<Rightarrow> if err_message e = [] then ''ChatError'' else ''ChatError: '' @ err_message e
     | Thrown_object _ _ _ text \<Rightarrow> text
     | Thrown_value text \<Rightarrow> text)"

definition or_empty :: "'a list option \<Rightarrow> 'a list" where
  "or_empty xs = (case xs of None \<Rightarrow> [] | Some xs \<Rightarrow> xs)"

definition or_false :: "bool option \<Rightarrow> bool" where
  "or_false b = (case b of None \<Rightarrow> False | Some b \<Rightarrow> b)"

definition child_failed :: "joined_network \<Rightarrow> thrown \<Rightarrow> snapshot \<Rightarrow> snapshot" where
  "child_failed n t next = next\<lparr>sn_providerErrors := sn_providerErrors next @
     [\<lparr>prov_id = net_id n, prov_code = ''unavailable'',
       prov_message = net_name n @ '': '' @ shown t, prov_retryable = True\<rparr>]\<rparr>"

definition merge_child :: "workspace \<Rightarrow> joined_network \<Rightarrow> snapshot \<Rightarrow> snapshot \<Rightarrow> snapshot" where
  "merge_child w n child next = next\<lparr>
     sn_conversations := sn_conversations next @ sn_conversations child,
     sn_providerErrors := sn_providerErrors next @
       map (\<lambda>e. e\<lparr>prov_message := net_name n @ '': '' @ prov_message e\<rparr>) (sn_providerErrors child),
     sn_activity := Some (or_empty (sn_activity next) @
       map (\<lambda>a. a\<lparr>act_conversation := qualify w (net_id n) (act_conversation a)\<rparr>) (or_empty (sn_activity child))),
     sn_operations := Some (or_empty (sn_operations next) @
       map (\<lambda>o1. o1\<lparr>op_network := Some (net_id n), op_conversation := qualify_some w (net_id n) (op_conversation o1)\<rparr>)
         (or_empty (sn_operations child))),
     sn_inputHistory := sn_inputHistory next @
       map (\<lambda>h. h\<lparr>hist_conversation := qualify_some w (net_id n) (hist_conversation h)\<rparr>) (sn_inputHistory child),
     sn_revision := sn_revision next @ '':'' @ net_id n @ '':'' @ sn_revision child\<rparr>"

definition note_child :: "nat \<Rightarrow> string \<Rightarrow> snapshot \<Rightarrow> workspace \<Rightarrow> workspace" where
  "note_child revision n child w =
     w\<lparr>instances := (instances w)(n \<mapsto> inst_id (sn_instance child)),
       presence := (if revision = presenceRevision w then (presence w)(n \<mapsto> or_false (sn_presenceEnabled child))
                    else presence w)\<rparr>"

fun children :: "'w base \<Rightarrow> nat \<Rightarrow> nat \<Rightarrow> joined_network list \<Rightarrow> 'w \<times> workspace \<Rightarrow> snapshot \<Rightarrow> ('w \<times> workspace) \<times> snapshot" where
  "children base life revision [] s next = (s, next)"
| "children base life revision (n # ns) s next =
     (case scoped base (Some (net_id n)) Snapshot s of
        (s', Inl e) \<Rightarrow> children base life revision ns s' (child_failed n e next)
      | (s', Inr response) \<Rightarrow>
          if life \<noteq> lifecycle (snd s')
          then children base life revision ns s'
            (child_failed n (Thrown_chat (ChatError ''locked'' ''Workspace changed during refresh'')) next)
          else (case response of
              R_snapshot child \<Rightarrow>
                let w = note_child revision (net_id n) child (snd s') in
                children base life revision ns (fst s', w) (merge_child w n child next)
            | _ \<Rightarrow> children base life revision ns s'
                (child_failed n (Thrown_object None (Some ''Invalid network snapshot'') True
                   ''Error: Invalid network snapshot'') next)))"

text \<open>Clearing what a locked workspace must not keep.\<close>

definition forget_networks :: "workspace \<Rightarrow> workspace" where
  "forget_networks w = (publish [] w)\<lparr>instances := Map.empty, presence := Map.empty, active := None\<rparr>"

definition accept_list :: "snapshot \<Rightarrow> nat \<Rightarrow> joined_network list \<Rightarrow> workspace \<Rightarrow> workspace" where
  "accept_list sn revision ns w =
     (let w = publish ns w;
          w = w\<lparr>active := (if active w = None then primary w else active w)\<rparr>;
          w = w\<lparr>instances := (instances w)(key_of (primary w) \<mapsto> inst_id (sn_instance sn))\<rparr>
      in if revision = presenceRevision w
         then w\<lparr>presence := (presence w)(key_of (primary w) \<mapsto> or_false (sn_presenceEnabled sn))\<rparr> else w)"

definition aggregate :: "'w base \<Rightarrow> snapshot \<Rightarrow> nat \<Rightarrow> 'w \<times> workspace \<Rightarrow> ('w \<times> workspace) \<times> snapshot outcome" where
  "aggregate base sn revision s =
     (let life = lifecycle (snd s);
          w = (snd s)\<lparr>enabled := ''networks.v1'' \<in> set (inst_capabilities (sn_instance sn))\<rparr>
      in if inst_locked (sn_instance sn) then ((fst s, forget_networks w), Inr sn)
         else if \<not> enabled w then
           ((fst s, if revision = presenceRevision w
                    then w\<lparr>presence := (presence w)([] \<mapsto> or_false (sn_presenceEnabled sn))\<rparr> else w), Inr sn)
         else case base (fst s, w) (Networks Net_list) of
             (s', Inl e) \<Rightarrow> (s', Inl e)
           | (s', Inr result) \<Rightarrow>
               if life \<noteq> lifecycle (snd s')
               then (s', throw_chat ''locked'' ''Workspace changed during refresh'')
               else (case result of
                   R_networks (N_list ns) \<Rightarrow>
                     let w = accept_list sn revision ns (snd s');
                         next = sn\<lparr>sn_operations := Some (or_empty (sn_operations sn)),
                                   sn_activity := Some (or_empty (sn_activity sn))\<rparr>
                     in (case children base life revision (filter (\<lambda>n. \<not> net_primary n) (networks w)) (fst s', w) next of
                           (s'', next') \<Rightarrow> (s'', Inr next'))
                 | _ \<Rightarrow> (s', throw_chat ''protocol'' ''Invalid network list'')))"

section \<open>The transport\<close>

definition exit_text :: "string \<Rightarrow> bool" where
  "exit_text t \<longleftrightarrow> trim (utf8_replacing (map of_char t)) \<in> {ascii ''/lock'', ascii ''/disconnect'', ascii ''/quit''}"

definition leaves :: "request \<Rightarrow> bool" where
  "leaves r = (case r of Lock \<Rightarrow> True | Disconnect \<Rightarrow> True | Submit _ _ t \<Rightarrow> exit_text t | _ \<Rightarrow> False)"

definition leave :: "workspace \<Rightarrow> workspace" where
  "leave w = (forget_networks (w\<lparr>lifecycle := Suc (lifecycle w)\<rparr>))\<lparr>enabled := False\<rparr>"

definition refresh :: "'w base \<Rightarrow> request \<Rightarrow> 'w \<times> workspace \<Rightarrow> ('w \<times> workspace) \<times> response outcome" where
  "refresh base r s =
     (let life = lifecycle (snd s); revision = presenceRevision (snd s) in
      case base s r of
        (s', Inl e) \<Rightarrow> (s', Inl e)
      | (s', Inr response) \<Rightarrow>
          if life \<noteq> lifecycle (snd s') then (s', throw_chat ''locked'' ''Workspace changed during refresh'')
          else (case r of Unlock _ _ \<Rightarrow> (s', Inr response)
            | _ \<Rightarrow> (case response of
                R_snapshot sn \<Rightarrow> (case aggregate base sn revision s' of (s'', out) \<Rightarrow> (s'', bind_result out (\<lambda>sn. Inr (R_snapshot sn))))
              | _ \<Rightarrow> (s', Inr response))))"

definition network_result :: "'w \<times> workspace \<Rightarrow> response \<Rightarrow> ('w \<times> workspace) \<times> response outcome" where
  "network_result s response = (case response of
       R_networks (N_result n inner) \<Rightarrow>
         let w = (snd s)\<lparr>active := Some n\<rparr> in
         ((fst s, w), case inner of R_error c m \<Rightarrow> throw_chat c m | _ \<Rightarrow> Inr (mapResponse w n inner))
     | _ \<Rightarrow> (s, Inr response))"

definition workspace_request :: "'w base \<Rightarrow> 'w \<times> workspace \<Rightarrow> request \<Rightarrow> ('w \<times> workspace) \<times> response outcome" where
  "workspace_request base s r =
     (if leaves r then base (fst s, leave (snd s)) r
      else case r of
        Snapshot \<Rightarrow> refresh base r s
      | Unlock _ _ \<Rightarrow> refresh base r s
      | Networks _ \<Rightarrow> (case base s r of (s', Inl e) \<Rightarrow> (s', Inl e) | (s', Inr response) \<Rightarrow> network_result s' response)
      | Identify \<Rightarrow> base s r
      | _ \<Rightarrow>
          (case r of
             Events after _ \<Rightarrow> if length (networks (snd s)) > 1 then (s, Inr (R_changed after)) else base s r
           | _ \<Rightarrow>
              (case any_conversation r of
                 Some c \<Rightarrow> if c = [] then scoped base (active (snd s)) r s
                   else (case networkFor (snd s) (Some c) of Inl e \<Rightarrow> (s, Inl e) | Inr n \<Rightarrow> scoped base n r s)
               | None \<Rightarrow> scoped base (active (snd s)) r s)))"

definition forNetwork :: "'w base \<Rightarrow> string option \<Rightarrow> 'w \<times> workspace \<Rightarrow> request \<Rightarrow> ('w \<times> workspace) \<times> response outcome" where
  "forNetwork base network s r = scoped base network r s"

definition checkOperation :: "('w \<times> workspace \<Rightarrow> string \<Rightarrow> ('w \<times> workspace) \<times> response outcome) option \<Rightarrow>
    'w \<times> workspace \<Rightarrow> string \<Rightarrow> ('w \<times> workspace) \<times> response outcome" where
  "checkOperation check s i = (case check of None \<Rightarrow> (s, plain_error ''Operation unavailable'')
     | Some f \<Rightarrow> (case f s i of
           (s', Inl e) \<Rightarrow> (s', Inl e)
         | (s', Inr response) \<Rightarrow> (s', Inr (case response of
             R_networks (N_result n inner) \<Rightarrow> mapResponse (snd s') n inner | _ \<Rightarrow> response))))"

section \<open>Names\<close>

lemma split_qualified:
  assumes "network_id n" "l \<noteq> []" "one_line l"
  shows "splitName (network_prefix n @ l) = Inr (Some n, l)"
  using assms by (simp add: splitName_def network_prefix_def network_id_def)

lemma splitName_bound:
  "splitName i = Inr (Some n, l) \<longleftrightarrow> network_id n \<and> l \<noteq> [] \<and> one_line l \<and> i = network_prefix n @ l"
proof
  assume a: "splitName i = Inr (Some n, l)"
  define rest where "rest = drop 8 i"
  have p: "prefix ''network/'' i" and n: "network_id n" "n = take 64 rest" "l = tl (drop 64 rest)" "prefix ''/'' (drop 64 rest)"
    "l \<noteq> []" "one_line l"
    using a by (auto simp: splitName_def Let_def plain_error_def rest_def split: if_splits)
  have "i = ''network/'' @ rest" using p by (auto simp: rest_def prefix_def)
  moreover have "drop 64 rest = ''/'' @ l" using n(3,4) by (auto simp: prefix_def)
  moreover have "rest = n @ drop 64 rest" using n(2) by simp
  ultimately have "i = network_prefix n @ l" unfolding network_prefix_def by simp
  with n show "network_id n \<and> l \<noteq> [] \<and> one_line l \<and> i = network_prefix n @ l" by blast
qed (auto intro: split_qualified)

lemma splitName_free: "splitName i = Inr (None, l) \<longleftrightarrow> l = i \<and> \<not> prefix ''network/'' i"
  by (auto simp: splitName_def Let_def plain_error_def split: if_splits)

lemma network_prefix_inject:
  assumes "network_id m" "network_id n"
  shows "network_prefix m @ x = network_prefix n @ y \<longleftrightarrow> m = n \<and> x = y"
  using assms by (auto simp: network_prefix_def network_id_def)

section \<open>The contract passes through\<close>

lemma throw_chat_Inl [simp]: "throw_chat c m \<noteq> Inr x" "Inr x \<noteq> throw_chat c m" "plain_error m \<noteq> Inr x"
  by (simp_all add: throw_chat_def plain_error_def)

lemma is_error_simps [simp]:
  "is_error (R_error c m)" "\<not> is_error (R_snapshot s)" "\<not> is_error (R_changed x)" "\<not> is_error (R_networks n)"
  by (simp_all add: is_error_def)

lemma mapResponse_error [simp]: "is_error (mapResponse w n r) \<longleftrightarrow> is_error r"
  by (auto simp: mapResponse_def is_error_def split: response.splits)

lemma accept_scoped_no_error: "accept_scoped w n r = Inr x \<Longrightarrow> \<not> is_error x"
  by (auto simp: accept_scoped_def split: response.splits network_response.splits if_splits) (auto simp: is_error_def)

locale workspace_base =
  fixes base :: "'w base"
  assumes base_no_error: "base s r = (s', Inr x) \<Longrightarrow> \<not> is_error x"
begin

lemma scoped_no_error: "scoped base n r s = (s', Inr x) \<Longrightarrow> \<not> is_error x"
  by (auto simp: scoped_def split: sum.splits prod.splits if_splits dest: base_no_error accept_scoped_no_error)

lemma refresh_no_error: "refresh base r s = (s', Inr x) \<Longrightarrow> \<not> is_error x"
  by (auto simp: refresh_def Let_def bind_result_eq_Inr split: sum.splits prod.splits if_splits request.splits response.splits
      dest: base_no_error)

lemma network_result_no_error: "\<not> is_error response \<Longrightarrow> network_result s response = (s', Inr x) \<Longrightarrow> \<not> is_error x"
  by (auto simp: network_result_def Let_def split: response.splits network_response.splits)
     (auto simp: is_error_def)

lemma workspace_request_no_error: "workspace_request base s r = (s', Inr x) \<Longrightarrow> \<not> is_error x"
  unfolding workspace_request_def
  by (auto split: if_splits request.splits sum.splits prod.splits option.splits
      dest: base_no_error scoped_no_error refresh_no_error network_result_no_error)

end

sublocale workspace_base \<subseteq> workspace: transport "workspace_request base"
  by unfold_locales (rule workspace_request_no_error)

text \<open>A transport that knows nothing of the workspace.\<close>

definition over :: "('w \<Rightarrow> request \<Rightarrow> 'w \<times> response outcome) \<Rightarrow> 'w base" where
  "over f s r = (case f (fst s) r of (w, out) \<Rightarrow> ((w, snd s), out))"

interpretation attached_workspace: workspace_base "over (attached_request exchange a)" for exchange a
  by unfold_locales (auto simp: over_def split: prod.splits dest: attached_request_no_error)

section \<open>Locking during a refresh\<close>

definition cleared :: "workspace \<Rightarrow> bool" where
  "cleared w \<longleftrightarrow> networks w = [] \<and> active w = None \<and> \<not> enabled w \<and> instances w = Map.empty \<and> presence w = Map.empty"

text \<open>Since lifecycle \<open>L\<close> was read, either nothing was locked or the workspace is cleared.\<close>

definition kept_clear :: "nat \<Rightarrow> workspace \<Rightarrow> bool" where
  "kept_clear L w \<longleftrightarrow> lifecycle w = L \<or> cleared w"

definition stays_clear :: "nat \<Rightarrow> 'w base \<Rightarrow> bool" where
  "stays_clear L base \<longleftrightarrow> (\<forall>s r. kept_clear L (snd s) \<longrightarrow> kept_clear L (snd (fst (base s r))))"

lemma stays_clearD: "stays_clear L base \<Longrightarrow> base s r = (s', out) \<Longrightarrow> kept_clear L (snd s) \<Longrightarrow> kept_clear L (snd s')"
  unfolding stays_clear_def by (metis fst_conv)

lemma cleared_leave: "cleared (leave w)"
  by (simp add: cleared_def leave_def forget_networks_def publish_def)

lemma scoped_kept_clear:
  "stays_clear L base \<Longrightarrow> scoped base n r s = (s', out) \<Longrightarrow> kept_clear L (snd s) \<Longrightarrow> kept_clear L (snd s')"
  by (auto simp: scoped_def split: sum.splits prod.splits if_splits dest: stays_clearD)

lemma children_kept_clear:
  "stays_clear L base \<Longrightarrow> kept_clear L (snd s) \<Longrightarrow> children base L r ns s next = (s', next') \<Longrightarrow> kept_clear L (snd s')"
proof (induction ns arbitrary: s "next")
  case (Cons n ns)
  obtain s1 out where 1: "scoped base (Some (net_id n)) Snapshot s = (s1, out)" by fastforce
  have k: "kept_clear L (snd s1)" using scoped_kept_clear [OF Cons.prems(1) 1 Cons.prems(2)] .
  have noted: "kept_clear L (note_child r m c (snd s1))" if "L = lifecycle (snd s1)" for m c
    using that by (simp add: kept_clear_def note_child_def)
  have ih: "kept_clear L (snd s')" if "children base L r ns t nx = (s', next')" "kept_clear L (snd t)" for t nx
    using Cons.IH [OF Cons.prems(1) that(2,1)] .
  show ?case
  proof (cases "\<exists>c. out = Inr (R_snapshot c) \<and> L = lifecycle (snd s1)")
    case True
    then obtain c where c: "out = Inr (R_snapshot c)" "L = lifecycle (snd s1)" by blast
    then have "children base L r ns (fst s1, note_child r (net_id n) c (snd s1))
        (merge_child (note_child r (net_id n) c (snd s1)) n c next) = (s', next')"
      using Cons.prems(3) by (simp add: 1 Let_def)
    from ih [OF this] noted [OF c(2)] show ?thesis by simp
  next
    case False
    then obtain nx where "children base L r ns s1 nx = (s', next')"
      using Cons.prems(3) by (auto simp: 1 Let_def split: sum.splits if_splits response.splits)
    from ih [OF this k] show ?thesis .
  qed
qed simp

lemma accept_list_lifecycle [simp]: "lifecycle (accept_list sn r ns w) = lifecycle w"
  by (simp add: accept_list_def Let_def publish_def)

lemma aggregate_kept_clear:
  assumes "stays_clear (lifecycle (snd s)) base" "aggregate base sn r s = (s', out)"
  shows "kept_clear (lifecycle (snd s)) (snd s')"
proof -
  let ?L = "lifecycle (snd s)"
  define w where "w = (snd s)\<lparr>enabled := ''networks.v1'' \<in> set (inst_capabilities (sn_instance sn))\<rparr>"
  have w: "lifecycle w = ?L" by (simp add: w_def)
  show ?thesis
  proof (cases "inst_locked (sn_instance sn) \<or> \<not> enabled w")
    case True
    then show ?thesis using assms(2) w
      by (auto simp: aggregate_def Let_def w_def [symmetric] kept_clear_def forget_networks_def publish_def
          split: if_splits)
  next
    case False
    obtain s1 o1 where 1: "base (fst s, w) (Networks Net_list) = (s1, o1)" by fastforce
    have k: "kept_clear ?L (snd s1)" using stays_clearD [OF assms(1) 1] w by (simp add: kept_clear_def)
    show ?thesis
    proof (cases "\<exists>ns. o1 = Inr (R_networks (N_list ns)) \<and> ?L = lifecycle (snd s1)")
      case True
      then obtain ns where ns: "o1 = Inr (R_networks (N_list ns))" "?L = lifecycle (snd s1)" by blast
      have "kept_clear ?L (accept_list sn r ns (snd s1))" using ns(2) by (simp add: kept_clear_def)
      then show ?thesis using assms(2) False ns
          children_kept_clear [OF assms(1), of "(fst s1, accept_list sn r ns (snd s1))"]
        by (auto simp: aggregate_def Let_def w_def [symmetric] 1 split: prod.splits)
    next
      case no: False
      then show ?thesis using assms(2) False k
        by (auto simp: aggregate_def Let_def w_def [symmetric] 1 split: sum.splits response.splits network_response.splits if_splits)
    qed
  qed
qed

lemma refresh_kept_clear:
  assumes "stays_clear (lifecycle (snd s)) base" "refresh base r s = (s', out)"
  shows "kept_clear (lifecycle (snd s)) (snd s')"
proof -
  obtain s1 o1 where 1: "base s r = (s1, o1)" by fastforce
  have k: "kept_clear (lifecycle (snd s)) (snd s1)"
    using stays_clearD [OF assms(1) 1] by (simp add: kept_clear_def)
  show ?thesis using assms k aggregate_kept_clear [of s1 base]
    by (auto simp: refresh_def Let_def 1 split: sum.splits if_splits request.splits response.splits prod.splits)
qed

section \<open>A concrete service with two networks\<close>

definition net_a :: string where "net_a = replicate 64 CHR ''a''"
definition net_b :: string where "net_b = replicate 64 CHR ''b''"

definition two_networks :: "joined_network list" where
  "two_networks =
     [\<lparr>net_id = net_a, net_name = ''first'', net_fingerprint = net_a, net_primary = True,
       net_status = \<lparr>net_state = Connected, net_message = ''Connected''\<rparr>\<rparr>,
      \<lparr>net_id = net_b, net_name = ''second'', net_fingerprint = net_b, net_primary = False,
       net_status = \<lparr>net_state = Connected, net_message = ''Connected''\<rparr>\<rparr>]"

definition a_conversation :: conversation where
  "a_conversation = \<lparr>conv_catchUp = None, conv_muted = None, conv_policy = None, conv_provider = None,
     conv_id = ''channel/same'', conv_channelId = ''same'', conv_kind = Channel, conv_name = ''same'', conv_topic = [],
     conv_active = True, conv_owner = False, conv_visibility = None, conv_directory = None, conv_members = [],
     conv_unread = 0, conv_lastMessageId = None, conv_inputLimitBytes = 12000, conv_commands = []\<rparr>"

definition a_snapshot :: snapshot where
  "a_snapshot = \<lparr>sn_instance = \<lparr>inst_build = None, inst_id = ''instance'', inst_label = ''test'', inst_bootId = ''boot'',
       inst_locked = False, inst_protocolLocked = False, inst_profileExists = True, inst_archiveExists = True,
       inst_safetyNumber = ''test'', inst_capabilities = [''networks.v1'']\<rparr>,
     sn_revision = ''1'', sn_conversations = [a_conversation], sn_commandHistory = [], sn_inputHistory = [],
     sn_providerErrors = [], sn_operations = None, sn_activity = None, sn_presenceEnabled = Some True\<rparr>"

text \<open>The service answers; while the second network's snapshot is awaited, the workspace is
  locked by another operation (when the flag is set).\<close>

definition two_network_base :: "bool base" where
  "two_network_base s r = (case r of
       Snapshot \<Rightarrow> (s, Inr (R_snapshot a_snapshot))
     | Networks Net_list \<Rightarrow> (s, Inr (R_networks (N_list two_networks)))
     | Networks (Call n _) \<Rightarrow> ((fst s, if fst s then leave (snd s) else snd s),
         Inr (R_networks (N_result n (R_snapshot a_snapshot))))
     | _ \<Rightarrow> (s, Inr (R_applied None None)))"

lemma two_network_ids: "network_id net_a" "network_id net_b" "net_a \<noteq> net_b" "net_a \<noteq> []" "net_b \<noteq> []"
  by (simp_all add: network_id_def net_a_def net_b_def hex_char_def eval_nat_numeral)

lemma two_network_primary: "find net_primary two_networks = Some (hd two_networks)" "net_id (hd two_networks) = net_a"
  "filter (\<lambda>n. \<not> net_primary n) two_networks = tl two_networks"
  by (simp_all add: two_networks_def)

lemma two_network_stays_clear: "stays_clear L two_network_base"
proof -
  have "kept_clear L (leave w)" for w using cleared_leave by (simp add: kept_clear_def)
  then show ?thesis
    by (auto simp: stays_clear_def two_network_base_def split: request.splits network_request.splits)
qed

lemma a_snapshot_fields:
  "\<not> inst_locked (sn_instance a_snapshot)" "inst_capabilities (sn_instance a_snapshot) = [''networks.v1'']"
  "sn_conversations a_snapshot = [a_conversation]"
  by (simp_all add: a_snapshot_def)

lemma fresh_fields: "lifecycle new_workspace = 0" "presenceRevision new_workspace = 0"
  by (simp_all add: new_workspace_def)

definition second_network :: joined_network where "second_network = hd (tl two_networks)"

lemma second_call:
  assumes "primary (snd s) = Some net_a" "enabled (snd s)" "fst s"
  shows "scoped two_network_base (Some net_b) Snapshot s =
    ((fst s, leave (snd s)), Inr (mapResponse (leave (snd s)) net_b (R_snapshot a_snapshot)))"
  using assms two_network_ids
  by (simp add: scoped_def any_conversation_def request_conversation_def splitConversation_def localRequest_def
      two_network_base_def accept_scoped_def)

text \<open>Locking while the last network's snapshot is awaited: the workspace stays cleared, and the
  refresh still returns the conversations of the snapshot that was in flight.\<close>

lemma locked_in_flight:
  "\<exists>w sn. workspace_request two_network_base (True, new_workspace) Snapshot = ((True, w), Inr (R_snapshot sn))
     \<and> lifecycle w = 1 \<and> cleared w \<and> sn_conversations sn = [a_conversation]"
proof -
  define w1 where "w1 = accept_list a_snapshot 0 two_networks (new_workspace\<lparr>enabled := True\<rparr>)"
  have w1: "primary w1 = Some net_a" "enabled w1" "lifecycle w1 = 0" "networks w1 = two_networks"
    using two_network_primary
    by (simp_all add: w1_def accept_list_def Let_def publish_def primary_def new_workspace_def)
  have "tl two_networks = [second_network]" "net_id second_network = net_b"
    by (simp_all add: two_networks_def second_network_def)
  note n = this
  have call: "scoped two_network_base (Some net_b) Snapshot (True, w1) =
      ((True, leave w1), Inr (mapResponse (leave w1) net_b (R_snapshot a_snapshot)))"
    using second_call [of "(True, w1)"] w1 by simp
  have "lifecycle (leave w1) = 1" using w1(3) by (simp add: leave_def forget_networks_def publish_def)
  then show ?thesis
    using cleared_leave [of w1] w1(4) two_network_primary(3) n call
    by (simp add: workspace_request_def leaves_def refresh_def two_network_base_def Let_def aggregate_def
        w1_def [symmetric] child_failed_def a_snapshot_fields fresh_fields)
qed

section \<open>Properties\<close>

text \<open>C34: Qualified names.  A conversation of a network, named for the view by \<open>qualify\<close>, is
  split back into that network and its local name, \<open>networkFor\<close> finds its network, and two
  conversations of different networks, or two of one network, never share a name.\<close>

theorem qualified_names:
  assumes "network_id m" "network_id n" "i \<noteq> []" "j \<noteq> []" "one_line i" "one_line j"
    and "\<not> prefix ''network/'' i" "\<not> prefix ''network/'' j"
  shows "splitConversation (Some (qualify w n i)) = Inr (if primary w = Some n then None else Some n, Some i)
    \<and> networkFor w (Some (qualify w n i)) = Inr (Some n)
    \<and> (qualify w m i = qualify w n j \<longleftrightarrow> m = n \<and> i = j)"
proof -
  have free: "\<not> prefix ''network/'' x \<Longrightarrow> splitName x = Inr (None, x)" for x by (simp add: splitName_free)
  have "qualify w m i = qualify w n j \<longleftrightarrow> m = n \<and> i = j"
    using assms network_prefix_inject [OF assms(1,2)]
    by (cases "primary w") (auto simp: qualify_def network_prefix_def)
  then show ?thesis
    using assms free by (auto simp: splitConversation_def networkFor_def qualify_def split_qualified)
qed

theorem qualified_names_witness:
  "networkFor (new_workspace\<lparr>networks := two_networks\<rparr>) (Some (qualify (new_workspace\<lparr>networks := two_networks\<rparr>) net_b ''channel/same''))
     = Inr (Some net_b)
   \<and> qualify (new_workspace\<lparr>networks := two_networks\<rparr>) net_a ''channel/same'' \<noteq> qualify (new_workspace\<lparr>networks := two_networks\<rparr>) net_b ''channel/same''"
  using qualified_names [OF two_network_ids(1,2), of "''channel/same''" "''channel/same''" "new_workspace\<lparr>networks := two_networks\<rparr>"]
    two_network_ids(3) by simp

text \<open>The calls that name a conversation of another network.\<close>

lemma local_of_bound:
  assumes "request_conversation r = Some (Some (network_prefix n @ x))" "network_id n" "x \<noteq> []" "one_line x"
  shows "\<exists>l. localRequest r = Inr l \<and> request_conversation l = Some (Some x)"
  using assms
  by (auto simp: request_conversation_def localRequest_def with_local_def with_local_name_def splitConversation_def
      split_qualified split: request.splits)

lemma any_of_request: "request_conversation r = Some c \<Longrightarrow> any_conversation r = c"
  by (simp add: any_conversation_def)








text \<open>Errors are thrown.  The workspace over an attachment keeps the transport's contract:
  whatever is requested, an error answer of the service is never returned as a result.\<close>

theorem workspace_throws_errors:
  "case workspace_request (over (attached_request exchange a)) s r of
     (_, Inl _) \<Rightarrow> True | (_, Inr x) \<Rightarrow> \<not> is_error x"
  by (auto split: prod.splits sum.splits dest: attached_workspace.workspace.no_error)

end
