(* ===== verification/Operation_Results.thy ===== *)
theory Operation_Results
  imports Api Json_Text Utf8
begin

text \<open>
  \<open>ui/src/operation-results.ts\<close>: the in-memory projection of the service's journal of operations.
  The JavaScript \<open>Map\<close> is an association list in insertion order, with the \<open>Map\<close>'s rule that
  setting a present key keeps its place.  \<open>Date.now()\<close> is an argument.
\<close>

section \<open>The code\<close>

datatype result_state = Pending | Done | Unknown | Rejected

record op_result =
  r_key :: string
  r_id :: string
  r_instance :: string
  r_network :: string
  r_conversation :: "string option"
  r_action :: string
  r_started :: int
  r_checked :: "int option"
  r_state :: result_state
  r_body :: "string option"
  r_nickname :: "string option"
  r_output :: "command_output option"
  r_message :: "string option"
  r_recordedMessage :: "string option"

record result_store =
  records :: "(string \<times> op_result) list"
  delivered :: "string set"

definition empty_results :: result_store where
  "empty_results = \<lparr>records = [], delivered = {}\<rparr>"

definition result_key :: "string \<Rightarrow> string \<Rightarrow> string \<Rightarrow> string" where
  "result_key inst network i = stringify_strings [inst, network, i]"

definition get_result :: "result_store \<Rightarrow> string \<Rightarrow> op_result option" where
  "get_result s key = map_of (records s) key"

definition result_values :: "result_store \<Rightarrow> op_result list" where
  "result_values s = map snd (records s)"

definition slash :: "string \<Rightarrow> bool" where
  "slash t \<longleftrightarrow> prefix ''/'' t"

text \<open>The text up to the first white space.\<close>

definition first_word :: "string \<Rightarrow> string" where
  "first_word t = map (\<lambda>b. char_of (unat b)) (utf8_encode (takeWhile (\<lambda>u. \<not> white u) (utf8_replacing (map of_char t))))"

definition action_of :: "string option \<Rightarrow> string" where
  "action_of text = (case text of None \<Rightarrow> ''Saved operation''
     | Some t \<Rightarrow> if slash t then first_word t else if t \<noteq> [] then ''Send message'' else ''Saved operation'')"

definition body_of :: "string option \<Rightarrow> string option" where
  "body_of text = (case text of None \<Rightarrow> None | Some t \<Rightarrow> if t \<noteq> [] \<and> \<not> slash t then Some t else None)"

definition new_record :: "string \<Rightarrow> string \<Rightarrow> string \<Rightarrow> string option \<Rightarrow> string option \<Rightarrow> int \<Rightarrow> op_result" where
  "new_record inst network i conversation text now =
     \<lparr>r_key = result_key inst network i, r_id = i, r_instance = inst, r_network = network,
      r_conversation = conversation, r_action = action_of text, r_started = now, r_checked = None,
      r_state = Pending, r_body = body_of text, r_nickname = None, r_output = None, r_message = None,
      r_recordedMessage = None\<rparr>"

definition evict :: "result_store \<Rightarrow> result_store" where
  "evict s =
     (if length (records s) \<ge> 256 then
        case find (\<lambda>r. r_state r = Done) (result_values s) of None \<Rightarrow> s
        | Some oldest \<Rightarrow> s\<lparr>records := remove_key (r_key oldest) (records s), delivered := delivered s - {r_key oldest}\<rparr>
      else s)"

definition begin_result :: "string \<Rightarrow> string \<Rightarrow> string \<Rightarrow> string option \<Rightarrow> string option \<Rightarrow> int \<Rightarrow> result_store \<Rightarrow> result_store \<times> op_result" where
  "begin_result inst network i conversation text now s =
     (let key = result_key inst network i in
      case get_result s key of Some old \<Rightarrow> (s, old)
      | None \<Rightarrow>
          let r = new_record inst network i conversation text now; s = evict s in
          (s\<lparr>records := put key r (records s)\<rparr>, r))"

definition response_conversation :: "response \<Rightarrow> string option option" where
  "response_conversation r = (case r of R_output c _ \<Rightarrow> Some c | R_applied c _ \<Rightarrow> Some c | _ \<Rightarrow> None)"

definition complete_result :: "string \<Rightarrow> response \<Rightarrow> int \<Rightarrow> result_store \<Rightarrow> result_store \<times> bool" where
  "complete_result key response now s =
     (case get_result s key of None \<Rightarrow> (s, False)
      | Some old \<Rightarrow>
          (s\<lparr>records := put key (old\<lparr>r_state := Done, r_checked := Some now,
               r_conversation := (case response_conversation response of Some c \<Rightarrow> c | None \<Rightarrow> r_conversation old),
               r_output := (case response of R_output _ out \<Rightarrow> Some out | _ \<Rightarrow> None),
               r_message := Some (case response of R_applied _ (Some notice) \<Rightarrow> notice | _ \<Rightarrow> ''Completed.'')\<rparr>) (records s),
             delivered := insert key (delivered s)\<rparr>,
           key \<notin> delivered s))"

definition rejecting :: "string \<Rightarrow> bool" where
  "rejecting c \<longleftrightarrow> c \<in> {''rejected'', ''busy'', ''expired'', ''invalid_argument'', ''forbidden''}"

definition error_result :: "string \<Rightarrow> string \<Rightarrow> string \<Rightarrow> int \<Rightarrow> result_store \<Rightarrow> result_store" where
  "error_result key c message now s =
     (case get_result s key of None \<Rightarrow> s
      | Some old \<Rightarrow>
          if r_state old = Done then s
          else s\<lparr>records := put key (old\<lparr>r_state := (if rejecting c then Rejected else Unknown),
                   r_message := Some message, r_checked := Some now\<rparr>) (records s)\<rparr>)"

text \<open>An optional string that JavaScript takes for true.\<close>

definition truthy :: "string option \<Rightarrow> bool" where
  "truthy t \<longleftrightarrow> t \<noteq> None \<and> t \<noteq> Some []"

definition terminal_state :: "string \<Rightarrow> bool" where
  "terminal_state t \<longleftrightarrow> t = ''complete'' \<or> t = ''rejected''"

definition state_of :: "string \<Rightarrow> result_state" where
  "state_of t = (if t = ''complete'' then Done else if t = ''rejected'' then Rejected
     else if t = ''pending'' then Pending else Unknown)"

definition restored :: "string \<Rightarrow> string \<Rightarrow> operation_detail \<Rightarrow> op_result option \<Rightarrow> op_result" where
  "restored key network d old =
     \<lparr>r_key = key, r_id = op_id d, r_instance = op_instance d, r_network = network,
      r_conversation = op_conversation d, r_action = op_action d,
      r_started = (case old of None \<Rightarrow> op_started d * 1000 | Some r \<Rightarrow> r_started r), r_checked = None,
      r_state = state_of (op_state d),
      r_body = (case old of None \<Rightarrow> None | Some r \<Rightarrow> r_body r),
      r_nickname = (case old of None \<Rightarrow> None | Some r \<Rightarrow> r_nickname r),
      r_output = op_output d, r_message = op_message d,
      r_recordedMessage = (if op_message d \<noteq> None then op_message d
        else case old of None \<Rightarrow> None | Some r \<Rightarrow> r_recordedMessage r)\<rparr>"

text \<open>One detail of a snapshot.  The recorded message of a known operation is updated in place,
  before the checks that may keep the rest of the record.\<close>

definition restore_one :: "(string option \<Rightarrow> string \<Rightarrow> string) \<Rightarrow> operation_detail \<Rightarrow> result_store \<Rightarrow> result_store" where
  "restore_one networkFor d s =
     (let network = (case op_network d of Some n \<Rightarrow> n | None \<Rightarrow> networkFor (op_conversation d) (op_instance d));
          key = result_key (op_instance d) network (op_id d)
      in case get_result s key of
          None \<Rightarrow> s\<lparr>records := put key (restored key network d None) (records s)\<rparr>
        | Some old \<Rightarrow>
            if r_state old = Done then s
            else let old = (if truthy (op_message d) then old\<lparr>r_recordedMessage := op_message d\<rparr> else old);
                     s = s\<lparr>records := put key old (records s)\<rparr>
              in if r_checked old \<noteq> None \<and> r_checked old \<noteq> Some 0 \<and> \<not> terminal_state (op_state d) then s
                 else if r_state old = Pending \<and> \<not> terminal_state (op_state d) then s
                 else s\<lparr>records := put key (restored key network d (Some old)) (records s)\<rparr>)"

definition restore :: "(string option \<Rightarrow> string \<Rightarrow> string) \<Rightarrow> operation_detail list \<Rightarrow> result_store \<Rightarrow> result_store" where
  "restore networkFor ds s = fold (restore_one networkFor) ds s"

definition clear_results :: "result_store \<Rightarrow> result_store" where
  "clear_results s = \<lparr>records = [], delivered = {}\<rparr>"

section \<open>Steps\<close>

datatype result_op =
    Begin string string string "string option" "string option" int
  | Complete_op string response int
  | Error_op string string string int
  | Restore "string option \<Rightarrow> string \<Rightarrow> string" "operation_detail list"
  | Clear

definition apply_op :: "result_op \<Rightarrow> result_store \<Rightarrow> result_store" where
  "apply_op op s = (case op of
       Begin inst network i c t now \<Rightarrow> fst (begin_result inst network i c t now s)
     | Complete_op key r now \<Rightarrow> fst (complete_result key r now s)
     | Error_op key c m now \<Rightarrow> error_result key c m now s
     | Restore f ds \<Rightarrow> restore f ds s
     | Clear \<Rightarrow> clear_results s)"

inductive reachable_results :: "result_store \<Rightarrow> bool" where
  "reachable_results empty_results"
| "reachable_results s \<Longrightarrow> reachable_results (apply_op op s)"

section \<open>Well-formedness\<close>

definition own_key :: "string \<Rightarrow> op_result \<Rightarrow> bool" where
  "own_key k r \<longleftrightarrow> r_key r = k \<and> k = result_key (r_instance r) (r_network r) (r_id r)"

definition results_ok :: "result_store \<Rightarrow> bool" where
  "results_ok s \<longleftrightarrow> distinct (map fst (records s)) \<and> (\<forall>(k, r) \<in> set (records s). own_key k r) \<and>
     (\<forall>k \<in> delivered s. \<exists>r. get_result s k = Some r \<and> r_state r = Done)"

lemma results_okD: "results_ok s \<Longrightarrow> get_result s k = Some r \<Longrightarrow> own_key k r"
  by (auto simp: results_ok_def get_result_def dest: map_of_SomeD)

lemma results_ok_put:
  assumes "results_ok s" "own_key k r" "k \<in> D \<Longrightarrow> r_state r = Done" "D - {k} \<subseteq> delivered s"
  shows "results_ok (s\<lparr>records := put k r (records s), delivered := D\<rparr>)"
proof -
  have "own_key k' r'" if "(k', r') \<in> set (put k r (records s))" for k' r'
  proof -
    have "(k', r') \<in> insert (k, r) (set (records s))"
      using that set_put [of "records s" k r] assms(1) by (auto simp: results_ok_def)
    then show ?thesis using assms(1,2) by (auto simp: results_ok_def)
  qed
  moreover have "\<exists>r'. map_of (put k r (records s)) x = Some r' \<and> r_state r' = Done" if "x \<in> D" for x
    using that assms by (cases "x = k") (auto simp: results_ok_def get_result_def)
  ultimately show ?thesis
    using assms(1) by (auto simp: results_ok_def distinct_put get_result_def)
qed

lemma results_ok_put_same:
  assumes "results_ok s" "own_key k r" "k \<in> delivered s \<Longrightarrow> r_state r = Done"
  shows "results_ok (s\<lparr>records := put k r (records s)\<rparr>)"
  using results_ok_put [OF assms(1,2), of "delivered s"] assms(3) by simp

lemma evict_cases:
  assumes "results_ok s"
  obtains "evict s = s"
  | k where "length (records s) \<ge> 256" "get_result s k \<noteq> None"
      "evict s = s\<lparr>records := remove_key k (records s), delivered := delivered s - {k}\<rparr>"
proof (cases "length (records s) \<ge> 256 \<and> find (\<lambda>r. r_state r = Done) (result_values s) \<noteq> None")
  case True
  then obtain r where r: "find (\<lambda>r. r_state r = Done) (result_values s) = Some r" by blast
  then obtain k where "(k, r) \<in> set (records s)"
    by (auto simp: result_values_def find_Some_iff in_set_conv_nth nth_map)
       (metis nth_mem prod.collapse)
  then have "r_key r = k" "get_result s k = Some r"
    using assms by (auto simp: results_ok_def own_key_def get_result_def)
  then show thesis using that(2) [of k] True r by (simp add: evict_def)
qed (use that(1) in \<open>auto simp: evict_def\<close>)

lemma results_ok_evict: "results_ok s \<Longrightarrow> results_ok (evict s)"
  by (cases rule: evict_cases, assumption)
     (auto simp: results_ok_def get_result_def map_of_remove_key distinct_remove_key, auto simp: remove_key_def)

lemma get_evict: "results_ok s \<Longrightarrow> get_result (evict s) k = Some r \<Longrightarrow> get_result s k = Some r"
  by (cases rule: evict_cases [of s]) (auto simp: get_result_def map_of_remove_key split: if_splits)

section \<open>Every operation\<close>

lemma own_key_new: "own_key (result_key i n d) (new_record i n d c t now)"
  by (simp add: own_key_def new_record_def)

lemma own_key_restored:
  "own_key (result_key (op_instance d) n (op_id d)) (restored (result_key (op_instance d) n (op_id d)) n d old)"
  by (simp add: own_key_def restored_def)

lemma begin_ok: "results_ok s \<Longrightarrow> results_ok (fst (begin_result i n d c t now s))"
proof -
  assume ok: "results_ok s"
  show ?thesis
  proof (cases "get_result s (result_key i n d)")
    case None
    have "result_key i n d \<notin> delivered (evict s)"
    proof
      assume "result_key i n d \<in> delivered (evict s)"
      then obtain r where "get_result (evict s) (result_key i n d) = Some r"
        using results_ok_evict [OF ok] by (auto simp: results_ok_def)
      then show False using get_evict [OF ok] None by force
    qed
    then have "results_ok ((evict s)\<lparr>records := put (result_key i n d) (new_record i n d c t now) (records (evict s))\<rparr>)"
      by (intro results_ok_put_same results_ok_evict ok own_key_new) simp
    then show ?thesis using None by (simp add: begin_result_def Let_def)
  qed (simp add: begin_result_def ok)
qed

lemma complete_ok: "results_ok s \<Longrightarrow> results_ok (fst (complete_result key r now s))"
proof (cases "get_result s key")
  case (Some old)
  assume ok: "results_ok s"
  have k: "own_key key old" using results_okD [OF ok Some] .
  show ?thesis unfolding complete_result_def Some option.case fst_conv
    by (rule results_ok_put [OF ok]) (use k in \<open>auto simp: own_key_def\<close>)
qed (simp add: complete_result_def)

lemma not_done_not_delivered: "results_ok s \<Longrightarrow> get_result s k = Some r \<Longrightarrow> r_state r \<noteq> Done \<Longrightarrow> k \<notin> delivered s"
  by (auto simp: results_ok_def)

lemma error_ok: "results_ok s \<Longrightarrow> results_ok (error_result key c m now s)"
proof (cases "get_result s key")
  case (Some old)
  assume ok: "results_ok s"
  show ?thesis
  proof (cases "r_state old = Done")
    case False
    have "own_key key (old\<lparr>r_state := st, r_message := x, r_checked := y\<rparr>)" for st x y
      using results_okD [OF ok Some] by (simp add: own_key_def)
    then have "results_ok (s\<lparr>records := put key (old\<lparr>r_state := st, r_message := x, r_checked := y\<rparr>) (records s)\<rparr>)" for st x y
      using not_done_not_delivered [OF ok Some False] by (intro results_ok_put_same ok) simp_all
    then show ?thesis using False Some by (simp add: error_result_def)
  qed (simp add: error_result_def Some ok)
qed (simp add: error_result_def)

text \<open>A detail of a snapshot leaves a confirmed record alone, and adds or changes only its own key.\<close>

lemma restore_one_cases:
  obtains (kept) "restore_one f d s = s"
  | (fresh) k n where "get_result s k = None" "restore_one f d s = s\<lparr>records := put k (restored k n d None) (records s)\<rparr>"
      "k = result_key (op_instance d) n (op_id d)"
  | (noted) k old m where "get_result s k = Some old" "r_state old \<noteq> Done"
      "restore_one f d s = s\<lparr>records := put k (old\<lparr>r_recordedMessage := m\<rparr>) (records s)\<rparr>"
  | (replaced) k n old m where "get_result s k = Some old" "r_state old \<noteq> Done"
      "restore_one f d s = s\<lparr>records := put k (restored k n d (Some (old\<lparr>r_recordedMessage := m\<rparr>)))
         (put k (old\<lparr>r_recordedMessage := m\<rparr>) (records s))\<rparr>"
      "k = result_key (op_instance d) n (op_id d)"
proof -
  define n where "n = (case op_network d of Some n \<Rightarrow> n | None \<Rightarrow> f (op_conversation d) (op_instance d))"
  define k where "k = result_key (op_instance d) n (op_id d)"
  show thesis
  proof (cases "get_result s k")
    case None
    then have "restore_one f d s = s\<lparr>records := put k (restored k n d None) (records s)\<rparr>"
      by (simp add: restore_one_def n_def [symmetric] k_def [symmetric] Let_def)
    then show thesis by (rule fresh [OF None _ k_def])
  next
    case (Some old)
    define m where "m = (if truthy (op_message d) then op_message d else r_recordedMessage old)"
    have m: "(if truthy (op_message d) then old\<lparr>r_recordedMessage := op_message d\<rparr> else old) = old\<lparr>r_recordedMessage := m\<rparr>"
      by (simp add: m_def)
    show thesis
    proof (cases "r_state old = Done")
      case True
      then show thesis using kept Some by (simp add: restore_one_def n_def [symmetric] k_def [symmetric] Let_def)
    next
      case False
      define p where "p = old\<lparr>r_recordedMessage := m\<rparr>"
      have "restore_one f d s =
          (if (r_checked p \<noteq> None \<and> r_checked p \<noteq> Some 0 \<or> r_state p = Pending) \<and> \<not> terminal_state (op_state d)
           then s\<lparr>records := put k p (records s)\<rparr>
           else s\<lparr>records := put k (restored k n d (Some p)) (put k p (records s))\<rparr>)"
        unfolding restore_one_def Let_def n_def [symmetric] k_def [symmetric] Some option.case if_not_P [OF False] m p_def [symmetric]
        by auto
      then consider "restore_one f d s = s\<lparr>records := put k p (records s)\<rparr>"
        | "restore_one f d s = s\<lparr>records := put k (restored k n d (Some p)) (put k p (records s))\<rparr>"
        by (meson)
      then show thesis
        using noted [OF Some False] replaced [OF Some False _ k_def] unfolding p_def by cases blast+
    qed
  qed
qed

lemma restore_one_ok:
  assumes "results_ok s" shows "results_ok (restore_one f d s)"
proof (cases rule: restore_one_cases [of f d s])
  case kept
  then show ?thesis using assms by simp
next
  case (fresh k n)
  have "k \<notin> delivered s" using assms fresh(1) by (auto simp: results_ok_def)
  then show ?thesis unfolding fresh(2,3)
    by (intro results_ok_put_same [OF assms own_key_restored]) (use fresh(3) in blast)
next
  case (noted k old m)
  have "own_key k (old\<lparr>r_recordedMessage := m\<rparr>)"
    using results_okD [OF assms noted(1)] by (simp add: own_key_def)
  then show ?thesis unfolding noted(3)
    by (rule results_ok_put_same [OF assms]) (use not_done_not_delivered [OF assms noted(1,2)] in blast)
next
  case (replaced k n old m)
  show ?thesis unfolding replaced(3,4) put_put
    by (rule results_ok_put_same [OF assms own_key_restored])
       (use not_done_not_delivered [OF assms replaced(1,2)] replaced(4) in blast)
qed

lemma restore_one_Done:
  "get_result s k = Some r \<Longrightarrow> r_state r = Done \<Longrightarrow> get_result (restore_one f d s) k = Some r"
  by (cases rule: restore_one_cases [of f d s]) (auto simp: get_result_def)

lemma restore_one_delivered [simp]: "delivered (restore_one f d s) = delivered s"
  by (cases rule: restore_one_cases [of f d s]) auto

lemma restore_facts:
  "results_ok s \<Longrightarrow> results_ok (restore f ds s)"
  "get_result s k = Some r \<Longrightarrow> r_state r = Done \<Longrightarrow> get_result (restore f ds s) k = Some r"
  "delivered (restore f ds s) = delivered s"
  by (induction ds arbitrary: s) (simp_all add: restore_def restore_one_ok restore_one_Done)

lemma apply_ok: "results_ok s \<Longrightarrow> results_ok (apply_op op s)"
  by (cases op)
     (simp_all add: apply_op_def begin_ok complete_ok error_ok restore_facts,
      simp add: clear_results_def results_ok_def)

lemma reachable_ok: "reachable_results s \<Longrightarrow> results_ok s"
proof (induction rule: reachable_results.induct)
  case 1
  then show ?case by (simp add: results_ok_def empty_results_def)
qed (rule apply_ok)

section \<open>What an operation does to a confirmed record\<close>

lemma begin_confirmed:
  assumes "results_ok s" "get_result s k = Some r"
  shows "get_result (fst (begin_result i n d c t now s)) k = Some r \<or>
    (get_result (fst (begin_result i n d c t now s)) k = None \<and> length (records s) \<ge> 256)"
proof (cases "get_result s (result_key i n d)")
  case None
  then have "k \<noteq> result_key i n d" using assms(2) by auto
  then have g: "get_result (fst (begin_result i n d c t now s)) k = get_result (evict s) k"
    using None by (simp add: begin_result_def Let_def get_result_def)
  show ?thesis unfolding g using assms(2)
    by (cases rule: evict_cases [OF assms(1)]) (auto simp: get_result_def map_of_remove_key)
qed (simp add: begin_result_def assms)

lemma apply_confirmed:
  assumes "results_ok s" "get_result s k = Some r" "r_state r = Done" "op \<noteq> Clear"
  shows "(\<exists>r'. get_result (apply_op op s) k = Some r' \<and> r_state r' = Done
        \<and> ((\<forall>resp now. op \<noteq> Complete_op k resp now) \<longrightarrow> r' = r)) \<or>
    (get_result (apply_op op s) k = None \<and> length (records s) \<ge> 256 \<and> (\<exists>i n d c t now. op = Begin i n d c t now))"
proof (cases op)
  case (Begin i n d c t now)
  then show ?thesis using begin_confirmed [OF assms(1,2), of i n d c t now] assms(3) by (auto simp: apply_op_def)
next
  case (Complete_op key resp now)
  then show ?thesis using assms(2,3)
    by (auto simp: apply_op_def complete_result_def get_result_def split: option.split)
next
  case (Error_op key c m now)
  then show ?thesis using assms(2,3)
    by (auto simp: apply_op_def error_result_def get_result_def split: option.split)
next
  case (Restore f ds)
  then show ?thesis using restore_facts(2) [OF assms(2,3)] assms(3) by (auto simp: apply_op_def)
qed (use assms(4) in simp)

lemma apply_delivered:
  assumes "results_ok s" "k \<in> delivered s" "get_result (apply_op op s) k \<noteq> None"
  shows "k \<in> delivered (apply_op op s)"
proof (cases op)
  case (Begin i n d c t now)
  show ?thesis
  proof (cases "get_result s (result_key i n d)")
    case None
    obtain r where "get_result s k = Some r" using assms(1,2) by (auto simp: results_ok_def)
    then have "k \<noteq> result_key i n d" using None by auto
    then have "get_result (evict s) k \<noteq> None"
      using assms(3) None Begin by (simp add: apply_op_def begin_result_def Let_def get_result_def)
    then have "k \<in> delivered (evict s)"
      using assms(2) by (cases rule: evict_cases [OF assms(1)]) (auto simp: get_result_def map_of_remove_key)
    then show ?thesis using Begin None by (simp add: apply_op_def begin_result_def Let_def)
  qed (use assms Begin in \<open>simp add: apply_op_def begin_result_def\<close>)
next
  case (Complete_op key resp now)
  then show ?thesis using assms by (auto simp: apply_op_def complete_result_def split: option.splits)
next
  case (Error_op key c m now)
  then show ?thesis using assms by (auto simp: apply_op_def error_result_def split: option.splits)
next
  case (Restore f ds)
  then show ?thesis using assms by (simp add: apply_op_def restore_facts)
next
  case Clear
  then show ?thesis using assms(3) by (simp add: apply_op_def clear_results_def get_result_def)
qed

definition run_results :: "result_op list \<Rightarrow> result_store \<Rightarrow> result_store" where
  "run_results ops s = fold apply_op ops s"

lemma run_delivered:
  "results_ok s \<Longrightarrow> k \<in> delivered s \<Longrightarrow> \<forall>i \<le> length ops. get_result (run_results (take i ops) s) k \<noteq> None \<Longrightarrow>
   k \<in> delivered (run_results ops s)"
proof (induction ops arbitrary: s)
  case (Cons op ops)
  have "get_result (apply_op op s) k \<noteq> None"
    using Cons.prems(3) by (force simp: run_results_def dest: spec [of _ 1])
  then have "k \<in> delivered (apply_op op s)" by (rule apply_delivered [OF Cons.prems(1,2)])
  moreover have "\<forall>i \<le> length ops. get_result (run_results (take i ops) (apply_op op s)) k \<noteq> None"
    using Cons.prems(3) by (auto simp: run_results_def dest: spec [of _ "Suc i" for i])
  ultimately have "k \<in> delivered (run_results ops (apply_op op s))"
    using Cons.IH [OF apply_ok [OF Cons.prems(1)]] by blast
  then show ?case by (simp add: run_results_def)
qed (simp add: run_results_def)

section \<open>Properties\<close>

text \<open>C17: A confirmed result is final.  In every reachable store, no later error, recovery
  snapshot or new operation changes a confirmed record; another response for it leaves it
  confirmed; and it can only disappear when a new operation needs room in a store of at least 256
  records.\<close>

theorem confirmed_result_is_final:
  assumes "reachable_results s" "get_result s k = Some r" "r_state r = Done" "op \<noteq> Clear"
  shows "(\<exists>r'. get_result (apply_op op s) k = Some r' \<and> r_state r' = Done
        \<and> ((\<forall>resp now. op \<noteq> Complete_op k resp now) \<longrightarrow> r' = r)) \<or>
    (get_result (apply_op op s) k = None \<and> length (records s) \<ge> 256 \<and> (\<exists>i n d c t now. op = Begin i n d c t now))"
  using apply_confirmed [OF reachable_ok [OF assms(1)] assms(2-4)] .

definition invited :: result_store where
  "invited = apply_op (Complete_op (result_key ''i'' ''n'' ''one'') (R_applied None None) 2)
     (apply_op (Begin ''i'' ''n'' ''one'' None (Some ''/invite SECRET'') 1) empty_results)"

lemma invited_reachable: "reachable_results invited"
  unfolding invited_def by (intro reachable_results.intros)

lemma invited_done: "\<exists>r. get_result invited (result_key ''i'' ''n'' ''one'') = Some r \<and> r_state r = Done"
  by (simp add: invited_def apply_op_def begin_result_def get_result_def empty_results_def complete_result_def Let_def evict_def)

theorem confirmed_result_is_final_witness:
  "\<exists>r. get_result (apply_op (Error_op (result_key ''i'' ''n'' ''one'') ''timeout'' ''late poll'' 3) invited) (result_key ''i'' ''n'' ''one'') = Some r
     \<and> r_state r = Done"
proof -
  obtain r where r: "get_result invited (result_key ''i'' ''n'' ''one'') = Some r" "r_state r = Done"
    using invited_done by blast
  from confirmed_result_is_final [OF invited_reachable r, of "Error_op (result_key ''i'' ''n'' ''one'') ''timeout'' ''late poll'' 3"]
  show ?thesis by auto
qed

text \<open>Results are delivered once.  After a response was delivered for an operation, every
  further response for it is reported as already delivered, whatever operations come between, as
  long as its record has not been evicted or cleared.\<close>

theorem delivered_once:
  assumes "reachable_results s" "complete_result key resp now s = (s1, b)"
    and "\<forall>i \<le> length ops. get_result (run_results (take i ops) s1) key \<noteq> None"
  shows "\<not> snd (complete_result key resp' now' (run_results ops s1))"
proof -
  have ok: "results_ok s1" using complete_ok [OF reachable_ok [OF assms(1)], of key resp now] assms(2) by simp
  have "get_result s1 key \<noteq> None" using assms(3) by (auto simp: run_results_def dest: spec [of _ 0])
  then have "key \<in> delivered s1"
    using assms(2) by (auto simp: complete_result_def split: option.splits)
  then have "key \<in> delivered (run_results ops s1)" using run_delivered [OF ok _ assms(3)] by blast
  then show ?thesis by (simp add: complete_result_def split: option.split)
qed

theorem delivered_once_witness:
  "\<not> snd (complete_result (result_key ''i'' ''n'' ''one'') (R_applied None None) 9
     (run_results [Error_op (result_key ''i'' ''n'' ''one'') ''timeout'' ''late'' 3] invited))"
proof -
  define s where "s = apply_op (Begin ''i'' ''n'' ''one'' None (Some ''/invite SECRET'') 1) empty_results"
  define k where "k = result_key ''i'' ''n'' ''one''"
  have r: "reachable_results s" unfolding s_def by (intro reachable_results.intros)
  have c: "complete_result k (R_applied None None) 2 s = (invited, snd (complete_result k (R_applied None None) 2 s))"
    by (simp add: invited_def apply_op_def s_def [unfolded apply_op_def] k_def prod_eq_iff)
  obtain x where "get_result invited k = Some x" "r_state x = Done" using invited_done by (auto simp: k_def)
  then have "\<forall>i \<le> length [Error_op k ''timeout'' ''late'' 3]. get_result (run_results (take i [Error_op k ''timeout'' ''late'' 3]) invited) k \<noteq> None"
    by (auto simp: run_results_def apply_op_def error_result_def le_Suc_eq)
  from delivered_once [OF r c this] show ?thesis by (simp add: k_def)
qed

lemma first_word_ascii:
  assumes "ascii_text (w @ xs)" "list_all (\<lambda>c. \<not> white (of_char c)) w" "xs = [] \<or> white (of_char (hd xs))"
  shows "first_word (w @ xs) = w"
proof -
  have "takeWhile (\<lambda>u. \<not> white u) (map of_char w @ map of_char xs) = map of_char w"
    using assms(2,3) by (cases xs) (auto simp: list_all_iff takeWhile_append takeWhile_eq_all_conv)
  then have "first_word (w @ xs) = map (\<lambda>b. char_of (unat b)) (map (of_char :: char \<Rightarrow> 8 word) w)"
    using replacing_text [OF assms(1)] encode_text [of w] assms(1) by (simp add: first_word_def)
  then show ?thesis by (simp add: map_idI)
qed



lemma key_inject: "result_key i n d = result_key i' n' d' \<longleftrightarrow> i = i' \<and> n = n' \<and> d = d'"
  by (simp add: result_key_def stringify_three)

text \<open>Keys are unambiguous.  In every reachable store no key occurs twice, every record is
  stored under the key of its own instance, network and operation, and two different operations,
  also of different networks or instances, never share a key.\<close>

theorem results_are_keyed:
  assumes "reachable_results s"
  shows "distinct (map (\<lambda>r. (r_instance r, r_network r, r_id r)) (result_values s))
    \<and> (\<forall>r \<in> set (result_values s). get_result s (result_key (r_instance r) (r_network r) (r_id r)) = Some r)"
proof -
  have ok: "results_ok s" using reachable_ok [OF assms] .
  have keys: "map fst (records s) = map (\<lambda>r. result_key (r_instance r) (r_network r) (r_id r)) (result_values s)"
    using ok by (auto simp: results_ok_def own_key_def result_values_def)
  then have "distinct (map (\<lambda>r. (r_instance r, r_network r, r_id r)) (result_values s))"
    using ok by (auto simp: results_ok_def distinct_map inj_on_def key_inject)
  moreover have "get_result s (result_key (r_instance r) (r_network r) (r_id r)) = Some r" if "r \<in> set (result_values s)" for r
    using that ok by (auto simp: results_ok_def own_key_def result_values_def get_result_def)
  ultimately show ?thesis by blast
qed

theorem results_are_keyed_witness:
  "get_result invited (result_key ''i'' ''n'' ''one'') = Some (hd (result_values invited))"
proof -
  have "result_values invited \<noteq> []" "r_instance (hd (result_values invited)) = ''i''"
      "r_network (hd (result_values invited)) = ''n''" "r_id (hd (result_values invited)) = ''one''"
    by (simp_all add: invited_def apply_op_def begin_result_def get_result_def empty_results_def complete_result_def
        Let_def evict_def result_values_def new_record_def)
  then show ?thesis using results_are_keyed [OF invited_reachable] by (metis hd_in_set)
qed

end
