(* ===== verification/Pending_Picker.thy ===== *)
theory Pending_Picker
  imports Prelude
begin

text \<open>
  \<open>ui/src/pending-picker.ts\<close>: the one file handle a native picker may leave in memory.  The handle
  is opaque (a type variable).  \<open>Date.now()\<close> is an argument; the timer is the time it is due, and
  \<open>picker_tick\<close> is the event loop giving it a chance to run.  The callback's calls are a list.
\<close>

section \<open>The code\<close>

datatype picker_target =
    Invitation_target string "string option"
  | Outgoing_target string "string option" "string option"

record picker_view =
  view_id :: nat
  view_instance :: string
  view_target :: picker_target
  view_selected :: bool

datatype clear_reason = Cancelled | Expired | Profile_changed | Completed | Discarded

definition PICKER_TTL_MS :: int where "PICKER_TTL_MS = 5 * 60 * 1000"

record 'f picker =
  picker_value :: "picker_view option"
  picker_file :: "'f option"
  picker_timer :: "int option"
  picker_expires :: int
  picker_sequence :: nat
  picker_changed :: "(picker_view option \<times> clear_reason option) list"

definition new_picker :: "'f picker" where
  "new_picker = \<lparr>picker_value = None, picker_file = None, picker_timer = None, picker_expires = 0,
     picker_sequence = 0, picker_changed = []\<rparr>"

definition picker_clear :: "clear_reason \<Rightarrow> 'f picker \<Rightarrow> 'f picker" where
  "picker_clear reason p = p\<lparr>picker_timer := None, picker_value := None, picker_file := None, picker_expires := 0,
     picker_changed := (if picker_value p \<noteq> None then picker_changed p @ [(None, Some reason)] else picker_changed p)\<rparr>"

definition picker_begin :: "string \<Rightarrow> picker_target \<Rightarrow> int \<Rightarrow> 'f picker \<Rightarrow> 'f picker \<times> nat" where
  "picker_begin inst target now p =
     (let p = picker_clear Discarded p; i = Suc (picker_sequence p);
          v = \<lparr>view_id = i, view_instance = inst, view_target = target, view_selected = False\<rparr>
      in (p\<lparr>picker_sequence := i, picker_expires := now + PICKER_TTL_MS, picker_value := Some v,
            picker_timer := Some (now + PICKER_TTL_MS), picker_changed := picker_changed p @ [(Some v, None)]\<rparr>, i))"

definition picker_expire :: "int \<Rightarrow> 'f picker \<Rightarrow> 'f picker" where
  "picker_expire now p = (if picker_value p \<noteq> None \<and> now \<ge> picker_expires p then picker_clear Expired p else p)"

text \<open>\<open>current\<close>: first expire, then the value, if the given identifier is its own.\<close>

definition picker_current :: "nat option \<Rightarrow> int \<Rightarrow> 'f picker \<Rightarrow> 'f picker \<times> picker_view option" where
  "picker_current i now p =
     (let p = picker_expire now p in
      (p, if i = None \<or> i = map_option view_id (picker_value p) then picker_value p else None))"

definition picker_receive :: "nat \<Rightarrow> 'f option \<Rightarrow> int \<Rightarrow> 'f picker \<Rightarrow> 'f picker" where
  "picker_receive i f now p =
     (case picker_current (Some i) now p of
        (p, None) \<Rightarrow> p
      | (p, Some v) \<Rightarrow>
          (case f of None \<Rightarrow> picker_clear Cancelled p
           | Some f \<Rightarrow>
               let v = v\<lparr>view_selected := True\<rparr> in
               p\<lparr>picker_file := Some f, picker_value := Some v, picker_changed := picker_changed p @ [(Some v, None)]\<rparr>))"

definition picker_profile :: "string \<Rightarrow> int \<Rightarrow> 'f picker \<Rightarrow> 'f picker" where
  "picker_profile inst now p =
     (case picker_current None now p of
        (p, None) \<Rightarrow> p
      | (p, Some v) \<Rightarrow> if view_instance v \<noteq> inst then picker_clear Profile_changed p else p)"

definition picker_read :: "string \<Rightarrow> bool \<Rightarrow> int \<Rightarrow> 'f picker \<Rightarrow> 'f picker \<times> (picker_view \<times> 'f) option" where
  "picker_read inst unlocked now p =
     (case picker_current None now (picker_profile inst now p) of
        (p, v) \<Rightarrow> (p, case (unlocked, v, picker_file p) of (True, Some v, Some f) \<Rightarrow> Some (v, f) | _ \<Rightarrow> None))"

definition picker_complete :: "nat \<Rightarrow> int \<Rightarrow> 'f picker \<Rightarrow> 'f picker" where
  "picker_complete i now p =
     (case picker_current (Some i) now p of (p, None) \<Rightarrow> p | (p, Some _) \<Rightarrow> picker_clear Completed p)"

definition picker_tick :: "int \<Rightarrow> 'f picker \<Rightarrow> 'f picker" where
  "picker_tick now p = (case picker_timer p of Some due \<Rightarrow> if now \<ge> due then picker_clear Expired p else p | None \<Rightarrow> p)"

section \<open>Histories\<close>

datatype 'f picker_event =
    Begin_pick string picker_target int
  | Receive_pick nat "'f option" int
  | Profile_pick string int
  | Read_pick string bool int
  | Complete_pick nat int
  | Clear_pick clear_reason
  | Tick_pick int

definition picker_step :: "'f picker_event \<Rightarrow> 'f picker \<Rightarrow> 'f picker" where
  "picker_step e p = (case e of
       Begin_pick inst t now \<Rightarrow> fst (picker_begin inst t now p)
     | Receive_pick i f now \<Rightarrow> picker_receive i f now p
     | Profile_pick inst now \<Rightarrow> picker_profile inst now p
     | Read_pick inst u now \<Rightarrow> fst (picker_read inst u now p)
     | Complete_pick i now \<Rightarrow> picker_complete i now p
     | Clear_pick r \<Rightarrow> picker_clear r p
     | Tick_pick now \<Rightarrow> picker_tick now p)"

inductive picker_history :: "'f picker_event list \<Rightarrow> 'f picker \<Rightarrow> bool" where
  new: "picker_history [] new_picker"
| step: "picker_history es p \<Longrightarrow> picker_history (es @ [e]) (picker_step e p)"

definition begins :: "'f picker_event list \<Rightarrow> nat" where
  "begins es = length (filter (\<lambda>e. case e of Begin_pick _ _ _ \<Rightarrow> True | _ \<Rightarrow> False) es)"

text \<open>What a history says about a selection that is still held: the last picker that was begun is
  this one, it was begun that long before the expiry, nothing discarded, cancelled or completed it
  since, no other profile was seen since, and the file came from it.\<close>

definition holds_since :: "'f picker_event list \<Rightarrow> picker_view \<Rightarrow> int \<Rightarrow> 'f option \<Rightarrow> bool" where
  "holds_since es v expires f \<longleftrightarrow> (\<exists>before after begun.
     es = before @ Begin_pick (view_instance v) (view_target v) begun # after \<and> begins after = 0
     \<and> view_id v = Suc (begins before) \<and> expires = begun + PICKER_TTL_MS
     \<and> (\<forall>r. Clear_pick r \<notin> set after) \<and> (\<forall>now. Receive_pick (view_id v) None now \<notin> set after)
     \<and> (\<forall>now. Complete_pick (view_id v) now \<notin> set after)
     \<and> (\<forall>inst now. Profile_pick inst now \<in> set after \<longrightarrow> inst = view_instance v)
     \<and> (\<forall>inst u now. Read_pick inst u now \<in> set after \<longrightarrow> inst = view_instance v)
     \<and> (\<forall>x. f = Some x \<longrightarrow> (\<exists>now. Receive_pick (view_id v) (Some x) now \<in> set after)))"

definition picker_ok :: "'f picker_event list \<Rightarrow> 'f picker \<Rightarrow> bool" where
  "picker_ok es p \<longleftrightarrow> picker_sequence p = begins es \<and>
     (case picker_value p of
        None \<Rightarrow> picker_file p = None \<and> picker_timer p = None
      | Some v \<Rightarrow> picker_timer p = Some (picker_expires p) \<and> (view_selected v \<longleftrightarrow> picker_file p \<noteq> None)
          \<and> holds_since es v (picker_expires p) (picker_file p))"

lemma begins_snoc: "begins (es @ [e]) = begins es + (case e of Begin_pick _ _ _ \<Rightarrow> 1 | _ \<Rightarrow> 0)"
  by (simp add: begins_def split: picker_event.split)

lemma clear_fields [simp]:
  "picker_value (picker_clear r p) = None" "picker_file (picker_clear r p) = None" "picker_timer (picker_clear r p) = None"
  "picker_sequence (picker_clear r p) = picker_sequence p" "picker_expires (picker_clear r p) = 0"
  by (simp_all add: picker_clear_def)

lemma picker_cleared_ok: "picker_ok es (picker_clear r p) \<longleftrightarrow> picker_sequence p = begins es"
  by (simp add: picker_ok_def picker_clear_def)

text \<open>Events that leave a held selection alone.\<close>

definition harmless :: "picker_view \<Rightarrow> 'f picker_event \<Rightarrow> bool" where
  "harmless v e \<longleftrightarrow> (case e of Begin_pick _ _ _ \<Rightarrow> False | Clear_pick _ \<Rightarrow> False
     | Receive_pick i f _ \<Rightarrow> i \<noteq> view_id v \<or> f \<noteq> None | Complete_pick i _ \<Rightarrow> i \<noteq> view_id v
     | Profile_pick inst _ \<Rightarrow> inst = view_instance v | Read_pick inst _ _ \<Rightarrow> inst = view_instance v | Tick_pick _ \<Rightarrow> True)"

lemma holds_since_snoc:
  assumes "holds_since es v x f" "harmless v e" "view_id w = view_id v" "view_instance w = view_instance v"
    "view_target w = view_target v" "g = f \<or> (\<exists>y now. g = Some y \<and> e = Receive_pick (view_id v) (Some y) now)"
  shows "holds_since (es @ [e]) w x g"
proof -
  obtain before after begun where h:
    "es = before @ Begin_pick (view_instance v) (view_target v) begun # after" "begins after = 0"
    "view_id v = Suc (begins before)" "x = begun + PICKER_TTL_MS"
    "\<forall>r. Clear_pick r \<notin> set after" "\<forall>now. Receive_pick (view_id v) None now \<notin> set after"
    "\<forall>now. Complete_pick (view_id v) now \<notin> set after"
    "\<forall>inst now. Profile_pick inst now \<in> set after \<longrightarrow> inst = view_instance v"
    "\<forall>inst u now. Read_pick inst u now \<in> set after \<longrightarrow> inst = view_instance v"
    "\<forall>y. f = Some y \<longrightarrow> (\<exists>now. Receive_pick (view_id v) (Some y) now \<in> set after)"
    using assms(1) unfolding holds_since_def by blast
  have "begins (after @ [e]) = 0" using h(2) assms(2) by (auto simp: begins_snoc harmless_def split: picker_event.splits)
  then show ?thesis unfolding holds_since_def assms(3-5)
    using h assms(2,6)
    by - (rule exI [of _ before], rule exI [of _ "after @ [e]"], rule exI [of _ begun],
      cases e, auto simp: harmless_def)
qed

lemma picker_same_ok:
  assumes "picker_ok es p" "\<And>v. picker_value p = Some v \<Longrightarrow> harmless v e" "\<And>i t now. e \<noteq> Begin_pick i t now"
  shows "picker_ok (es @ [e]) p"
  using assms holds_since_snoc [of es _ "picker_expires p" "picker_file p" e]
  by (auto simp: picker_ok_def begins_snoc split: option.splits picker_event.splits)

lemma picker_clear_step_ok:
  "picker_ok es p \<Longrightarrow> (\<And>i t now. e \<noteq> Begin_pick i t now) \<Longrightarrow> picker_ok (es @ [e]) (picker_clear r p)"
  by (auto simp: picker_cleared_ok begins_snoc picker_ok_def split: picker_event.split)

text \<open>After \<open>current\<close> has looked at the clock, the picker is as it was or cleared.\<close>

lemma picker_current_cases:
  obtains (expired) "picker_current i now p = (picker_clear Expired p, None)"
  | (same) "picker_current i now p = (p, if i = None \<or> i = map_option view_id (picker_value p) then picker_value p else None)"
      "picker_value p \<noteq> None \<Longrightarrow> now < picker_expires p"
proof (cases "picker_value p \<noteq> None \<and> now \<ge> picker_expires p")
  case True
  then have "picker_current i now p = (picker_clear Expired p, None)"
    by (simp add: picker_current_def picker_expire_def Let_def)
  then show thesis by (rule expired)
next
  case False
  then show thesis by (intro same) (auto simp: picker_current_def picker_expire_def Let_def)
qed

lemma picker_begin_ok:
  assumes "picker_ok es p" shows "picker_ok (es @ [Begin_pick inst t now]) (fst (picker_begin inst t now p))"
proof -
  let ?v = "\<lparr>view_id = Suc (begins es), view_instance = inst, view_target = t, view_selected = False\<rparr>"
  have "picker_sequence p = begins es" using assms by (simp add: picker_ok_def)
  moreover have "holds_since (es @ [Begin_pick inst t now]) ?v (now + PICKER_TTL_MS) None"
    unfolding holds_since_def
    by (rule exI [of _ es], rule exI [of _ "[]"], rule exI [of _ now]) (simp add: begins_def)
  ultimately show ?thesis by (simp add: picker_begin_def Let_def picker_ok_def picker_clear_def begins_snoc)
qed

lemma picker_receive_ok:
  assumes ok: "picker_ok es p" shows "picker_ok (es @ [Receive_pick i f now]) (picker_receive i f now p)"
proof (cases rule: picker_current_cases [of "Some i" now p])
  case expired
  then show ?thesis by (simp add: picker_receive_def picker_clear_step_ok ok)
next
  case same
  show ?thesis
  proof (cases "\<exists>v. picker_value p = Some v \<and> view_id v = i")
    case False
    then have "picker_current (Some i) now p = (p, None)" using same(1) by (cases "picker_value p") auto
    then have "picker_receive i f now p = p" by (simp add: picker_receive_def)
    moreover have "harmless v (Receive_pick i f now)" if "picker_value p = Some v" for v
      using that False by (auto simp: harmless_def)
    ultimately show ?thesis by (simp only:) (rule picker_same_ok [OF ok]; simp)
  next
    case True
    then obtain v where v: "picker_value p = Some v" "view_id v = i" by blast
    show ?thesis
    proof (cases f)
      case None
      then show ?thesis using same v by (simp add: picker_receive_def picker_clear_step_ok ok)
    next
      case (Some x)
      have "holds_since es v (picker_expires p) (picker_file p)" using ok v(1) by (simp add: picker_ok_def)
      then have "holds_since (es @ [Receive_pick i f now]) (v\<lparr>view_selected := True\<rparr>) (picker_expires p) (Some x)"
        by (rule holds_since_snoc) (use v Some in \<open>auto simp: harmless_def\<close>)
      then show ?thesis using same v Some ok
        by (simp add: picker_receive_def picker_ok_def begins_snoc Let_def)
    qed
  qed
qed

lemma picker_profile_cases:
  obtains (cleared) r where "picker_profile inst now p = picker_clear r p"
  | (same) "picker_profile inst now p = p"
      "\<And>v. picker_value p = Some v \<Longrightarrow> view_instance v = inst \<and> now < picker_expires p"
proof (cases rule: picker_current_cases [of None now p])
  case expired
  then show thesis using cleared by (simp add: picker_profile_def)
next
  case s: same
  show thesis
  proof (cases "picker_value p")
    case None
    then show thesis using s same by (simp add: picker_profile_def)
  next
    case (Some v)
    then show thesis using s same cleared by (cases "view_instance v = inst") (auto simp: picker_profile_def)
  qed
qed

lemma picker_profile_event_ok:
  assumes "picker_ok es p" "e = Profile_pick inst now \<or> e = Read_pick inst u now"
  shows "picker_ok (es @ [e]) (picker_profile inst now p)"
proof (cases rule: picker_profile_cases [of inst now p])
  case (cleared r)
  then show ?thesis using assms by (auto simp: picker_clear_step_ok)
next
  case same
  then show ?thesis using picker_same_ok [OF assms(1), of e] assms(2) by (auto simp: harmless_def)
qed

lemma picker_read_ok:
  assumes "picker_ok es p" shows "picker_ok (es @ [Read_pick inst u now]) (fst (picker_read inst u now p))"
proof -
  have p1: "picker_ok (es @ [Read_pick inst u now]) (picker_profile inst now p)"
    by (rule picker_profile_event_ok [OF assms]) simp
  have "picker_ok es q \<Longrightarrow> picker_ok es (fst (picker_current None now q))" for es and q :: "'a picker"
    by (cases rule: picker_current_cases [of None now q]) (simp_all add: picker_cleared_ok picker_ok_def)
  from this [OF p1] show ?thesis
    by (cases "picker_current None now (picker_profile inst now p)") (simp add: picker_read_def)
qed

lemma picker_complete_ok:
  assumes ok: "picker_ok es p" shows "picker_ok (es @ [Complete_pick i now]) (picker_complete i now p)"
proof (cases rule: picker_current_cases [of "Some i" now p])
  case expired
  then show ?thesis by (simp add: picker_complete_def picker_clear_step_ok ok)
next
  case same
  show ?thesis
  proof (cases "\<exists>v. picker_value p = Some v \<and> view_id v = i")
    case True
    then obtain v where "picker_current (Some i) now p = (p, Some v)" using same(1) by auto
    then show ?thesis by (simp add: picker_complete_def picker_clear_step_ok ok)
  next
    case False
    then have "picker_current (Some i) now p = (p, None)" using same(1) by (cases "picker_value p") auto
    then have "picker_complete i now p = p" by (simp add: picker_complete_def)
    moreover have "harmless v (Complete_pick i now)" if "picker_value p = Some v" for v
      using that False by (auto simp: harmless_def)
    ultimately show ?thesis by (simp only:) (rule picker_same_ok [OF ok]; simp)
  qed
qed

lemma picker_tick_ok:
  assumes "picker_ok es p" shows "picker_ok (es @ [Tick_pick now]) (picker_tick now p)"
  using picker_clear_step_ok [OF assms] picker_same_ok [OF assms, of "Tick_pick now"]
  by (auto simp: picker_tick_def harmless_def split: option.split)

lemma picker_step_ok: "picker_ok es p \<Longrightarrow> picker_ok (es @ [e]) (picker_step e p)"
  by (cases e) (simp_all add: picker_step_def picker_begin_ok picker_receive_ok picker_profile_event_ok picker_read_ok picker_complete_ok picker_tick_ok picker_clear_step_ok)

lemma history_picker_ok: "picker_history es p \<Longrightarrow> picker_ok es p"
proof (induction rule: picker_history.induct)
  case new
  then show ?case by (simp add: picker_ok_def new_picker_def begins_def)
qed (rule picker_step_ok)

section \<open>Properties\<close>

text \<open>C19: A file is handed out only for its own selection.  Whatever the history, \<open>read\<close> returns a
  view and a file only with the profile unlocked, for the profile that began the last picker, before
  its five minutes are over; the file was received from that very picker, and since it was begun
  nothing cleared, cancelled or completed it and no other profile was seen.\<close>

theorem read_returns_own_selection:
  assumes "picker_history es p" "picker_read inst unlocked now p = (q, Some (v, f))"
  shows "unlocked \<and> view_instance v = inst \<and> view_selected v \<and> now < picker_expires p
    \<and> holds_since es v (picker_expires p) (Some f)"
proof -
  have ok: "picker_ok es p" by (rule history_picker_ok [OF assms(1)])
  show ?thesis
  proof (cases rule: picker_profile_cases [of inst now p])
    case (cleared r)
    then show ?thesis using assms(2)
      by (auto simp: picker_read_def picker_current_def picker_expire_def Let_def split: bool.splits)
  next
    case same
    show ?thesis
    proof (cases "picker_value p")
      case None
      then show ?thesis using assms(2) same
        by (auto simp: picker_read_def picker_current_def picker_expire_def Let_def split: bool.splits option.splits)
    next
      case (Some w)
      then show ?thesis using assms(2) same ok
        by (auto simp: picker_read_def picker_current_def picker_expire_def Let_def picker_ok_def split: bool.splits option.splits)
    qed
  qed
qed

definition sharing :: "nat picker_event list" where
  "sharing = [Begin_pick ''profile'' (Outgoing_target ''channel/a'' None None) 1000, Receive_pick 1 (Some 7) 2000]"

lemma sharing_history: "picker_history sharing (picker_step (Receive_pick 1 (Some 7) 2000)
    (picker_step (Begin_pick ''profile'' (Outgoing_target ''channel/a'' None None) 1000) new_picker))"
  using picker_history.step [OF picker_history.step [OF picker_history.new]] by (force simp: sharing_def)

theorem read_returns_own_selection_witness:
  "\<exists>q v. picker_read ''profile'' True 3000 (picker_step (Receive_pick 1 (Some 7) 2000)
      (picker_step (Begin_pick ''profile'' (Outgoing_target ''channel/a'' None None) 1000) new_picker)) = (q, Some (v, 7 :: nat))
    \<and> view_instance v = ''profile''"
proof -
  let ?p = "picker_step (Receive_pick 1 (Some (7 :: nat)) 2000)
      (picker_step (Begin_pick ''profile'' (Outgoing_target ''channel/a'' None None) 1000) new_picker)"
  obtain q v where r: "picker_read ''profile'' True 3000 ?p = (q, Some (v, 7))"
    by (simp add: picker_step_def picker_begin_def picker_receive_def picker_read_def Let_def picker_profile_def picker_current_def
        picker_expire_def picker_clear_def Let_def new_picker_def PICKER_TTL_MS_def)
  from read_returns_own_selection [OF sharing_history r] r show ?thesis by blast
qed

text \<open>The handle is released.  Whenever a file handle is held, a timer is armed for the end of
  the five minutes its picker was given, and once the clock has reached it the timer's callback
  leaves neither file nor selection, whatever else happened.\<close>

theorem handle_is_released:
  assumes "picker_history es p" "picker_file p = Some f"
  shows "\<exists>begun. picker_timer p = Some (begun + PICKER_TTL_MS)
    \<and> (\<exists>inst t. Begin_pick inst t begun \<in> set es)
    \<and> (\<forall>now. begun + PICKER_TTL_MS \<le> now \<longrightarrow>
         picker_file (picker_tick now p) = None \<and> picker_value (picker_tick now p) = None)"
proof -
  have ok: "picker_ok es p" by (rule history_picker_ok [OF assms(1)])
  then obtain v where v: "picker_value p = Some v" "picker_timer p = Some (picker_expires p)"
      "holds_since es v (picker_expires p) (picker_file p)"
    using assms(2) by (auto simp: picker_ok_def split: option.splits)
  then obtain before after begun where
    b: "es = before @ Begin_pick (view_instance v) (view_target v) begun # after" "picker_expires p = begun + PICKER_TTL_MS"
    unfolding holds_since_def by blast
  have "Begin_pick (view_instance v) (view_target v) begun \<in> set es" by (simp add: b(1))
  then show ?thesis using v(2) b(2)
    by (intro exI [of _ begun]) (auto simp: picker_tick_def picker_clear_def)
qed

theorem handle_is_released_witness:
  "picker_file (picker_tick 301000 (picker_step (Receive_pick 1 (Some (7 :: nat)) 2000)
      (picker_step (Begin_pick ''profile'' (Outgoing_target ''channel/a'' None None) 1000) new_picker))) = None"
proof -
  have f: "picker_file (picker_step (Receive_pick 1 (Some (7 :: nat)) 2000)
      (picker_step (Begin_pick ''profile'' (Outgoing_target ''channel/a'' None None) 1000) new_picker)) = Some 7"
    by (simp add: picker_step_def picker_begin_def picker_receive_def picker_current_def
        picker_expire_def picker_clear_def Let_def new_picker_def PICKER_TTL_MS_def)
  from handle_is_released [OF sharing_history f] show ?thesis
    by (auto simp: sharing_def PICKER_TTL_MS_def)
qed

end
