(* ===== verification/Local_Bridge.thy ===== *)
theory Local_Bridge
  imports Json Bytes
begin

text \<open>
  \<open>ui/server/local.ts\<close>: the bridge between the browser gateway and the service's private Unix
  socket.  The socket's handlers are steps on the state the promise's executor closes over; any
  sequence of events may occur, also after the socket was destroyed.  \<open>JSON.parse\<close>,
  \<open>JSON.stringify\<close>, \<open>dirname\<close>, the file system and \<open>@gcoms/rpc\<close> are parameters.
\<close>

unbundle bit_operations_syntax

section \<open>The code\<close>

definition MAX_FRAME :: nat where "MAX_FRAME = 16 * 1024 * 1024"

datatype bridge_error =
    No_unix | No_endpoint | Not_owner_only | Request_exceeds | Timed_out | Socket_failed
  | Closed_incomplete | Response_exceeds | Invalid_frame | Invalid_response
  | Invalid_rpc_request | Invalid_binding | Instance_mismatch

record 'v frame_state =
  frame_data :: bytes
  expected :: "nat option"
  settled :: bool
  promise :: "(bridge_error, 'v) result option"
  written :: bytes
  destroyed :: bool

datatype socket_event = Connected | Data bytes | Ended | Failed | Timeout

definition fresh_frame :: "'v frame_state" where
  "fresh_frame = \<lparr>frame_data = [], expected = None, settled = False, promise = None, written = [], destroyed = False\<rparr>"

text \<open>A promise keeps the first result it is given.\<close>

definition settle :: "(bridge_error, 'v) result \<Rightarrow> 'v frame_state \<Rightarrow> 'v frame_state" where
  "settle r s = s\<lparr>promise := (case promise s of None \<Rightarrow> Some r | Some q \<Rightarrow> Some q)\<rparr>"

definition fail :: "bridge_error \<Rightarrow> 'v frame_state \<Rightarrow> 'v frame_state" where
  "fail e s = (if settled s then s else settle (Inl e) (s\<lparr>settled := True\<rparr>))\<lparr>destroyed := True\<rparr>"

text \<open>\<open>Buffer.toString('utf8')\<close>: malformed sequences are replaced, a byte order mark is kept.\<close>

definition buffer_string :: "bytes \<Rightarrow> units" where
  "buffer_string bs = map of_nat (concat (map utf16 (replacing_scalars (map unat bs))))"

definition on_body :: "(units \<Rightarrow> 'v option) \<Rightarrow> 'v frame_state \<Rightarrow> 'v frame_state" where
  "on_body parse s =
     (case expected s of None \<Rightarrow> s
      | Some n \<Rightarrow>
          if length (frame_data s) \<ge> n + 4
          then case parse (buffer_string (subarray (frame_data s) 4 (n + 4))) of
              Some v \<Rightarrow> settle (Inr v) (s\<lparr>settled := True\<rparr>)\<lparr>destroyed := True\<rparr>
            | None \<Rightarrow> fail Invalid_response s
          else s)"

definition on_data :: "(units \<Rightarrow> 'v option) \<Rightarrow> bytes \<Rightarrow> 'v frame_state \<Rightarrow> 'v frame_state" where
  "on_data parse chunk s =
     (if length (frame_data s) + length chunk > MAX_FRAME + 4 then fail Response_exceeds s
      else let s = s\<lparr>frame_data := frame_data s @ chunk\<rparr> in
        if expected s = None \<and> length (frame_data s) \<ge> 4
        then let n = getUint32 (frame_data s) 0; s = s\<lparr>expected := Some n\<rparr> in
          if n > MAX_FRAME \<or> n = 0 then fail Invalid_frame s else on_body parse s
        else on_body parse s)"

definition socket_step :: "(units \<Rightarrow> 'v option) \<Rightarrow> bytes \<Rightarrow> socket_event \<Rightarrow> 'v frame_state \<Rightarrow> 'v frame_state" where
  "socket_step parse body e s =
     (case e of
        Connected \<Rightarrow> s\<lparr>written := written s @ setUint32 (length body) @ body\<rparr>
      | Data chunk \<Rightarrow> on_data parse chunk s
      | Ended \<Rightarrow> if settled s then s else fail Closed_incomplete s
      | Failed \<Rightarrow> fail Socket_failed s
      | Timeout \<Rightarrow> fail Timed_out s)"

definition run_socket :: "(units \<Rightarrow> 'v option) \<Rightarrow> bytes \<Rightarrow> socket_event list \<Rightarrow> 'v frame_state" where
  "run_socket parse body es = fold (socket_step parse body) es fresh_frame"

text \<open>The file system as far as the bridge looks at it.\<close>

datatype node_kind = Socket | Directory | Other

record stat =
  st_kind :: node_kind
  st_uid :: nat
  st_mode :: "32 word"

record host =
  getuid :: "nat option"
  lstat :: "string \<Rightarrow> stat option"
  dirname :: "string \<Rightarrow> string"

definition owner_only :: "nat \<Rightarrow> stat \<Rightarrow> stat \<Rightarrow> bool" where
  "owner_only uid socketFile parent \<longleftrightarrow>
     st_kind socketFile = Socket \<and> st_kind parent = Directory \<and> st_uid socketFile = uid \<and> st_uid parent = uid
     \<and> st_mode socketFile AND 63 = 0 \<and> st_mode parent AND 63 = 0"

text \<open>\<open>exchangeFrame\<close> after the given events: what its promise holds, and the socket once there is
  one.\<close>

definition exchangeFrame :: "(units \<Rightarrow> 'v option) \<Rightarrow> host \<Rightarrow> string \<Rightarrow> units \<Rightarrow> socket_event list \<Rightarrow>
    (bridge_error, 'v) result option \<times> 'v frame_state option" where
  "exchangeFrame parse h endpoint request es =
     (case getuid h of None \<Rightarrow> (Some (Inl No_unix), None)
      | Some uid \<Rightarrow>
          (case (lstat h endpoint, lstat h (dirname h endpoint)) of
             (Some socketFile, Some parent) \<Rightarrow>
               if \<not> owner_only uid socketFile parent then (Some (Inl Not_owner_only), None)
               else let body = utf8_encode request in
                 if length body > MAX_FRAME then (Some (Inl Request_exceeds), None)
                 else let s = run_socket parse body es in (promise s, Some s)
           | _ \<Rightarrow> (Some (Inl No_endpoint), None)))"

text \<open>\<open>===\<close> between a value that was parsed from the reply and one from the request: primitives are
  equal by value, two objects never are.\<close>

fun strict_equal :: "json option \<Rightarrow> json option \<Rightarrow> bool" where
  "strict_equal None None = True"
| "strict_equal (Some JNull) (Some JNull) = True"
| "strict_equal (Some (JBool a)) (Some (JBool b)) = (a = b)"
| "strict_equal (Some (JNum a)) (Some (JNum b)) = (a = b \<and> a \<noteq> NaN)"
| "strict_equal (Some (JStr a)) (Some (JStr b)) = (a = b)"
| "strict_equal _ _ = False"

record rpc_library =
  isRequest :: "json \<Rightarrow> bool"
  isReply :: "json \<Rightarrow> bool"
  parse_json :: "units \<Rightarrow> json option"
  stringify_json :: "json \<Rightarrow> units"

definition json_one :: "json option" where "json_one = Some (JNum (Finite 1))"

definition same_field :: "json \<Rightarrow> json \<Rightarrow> string \<Rightarrow> bool" where
  "same_field reply request k = strict_equal (get_prop reply k) (get_prop request k)"

definition answers :: "json \<Rightarrow> json \<Rightarrow> bool" where
  "answers reply request \<longleftrightarrow>
     strict_equal (get_prop reply ''rpc'') json_one \<and> same_field reply request ''id'' \<and> same_field reply request ''instance''
     \<and> same_field reply request ''service'' \<and> same_field reply request ''version'' \<and> same_field reply request ''method''"

definition exchangeLocal :: "rpc_library \<Rightarrow> host \<Rightarrow> string \<Rightarrow> json \<Rightarrow> socket_event list \<Rightarrow>
    (bridge_error, json) result option \<times> json frame_state option" where
  "exchangeLocal lib h endpoint request es = exchangeFrame (parse_json lib) h endpoint (stringify_json lib request) es"

definition exchangeLocalRpc :: "rpc_library \<Rightarrow> host \<Rightarrow> string \<Rightarrow> json \<Rightarrow> socket_event list \<Rightarrow>
    (bridge_error, json) result option \<times> json frame_state option" where
  "exchangeLocalRpc lib h endpoint request es =
     (if \<not> isRequest lib request then (Some (Inl Invalid_rpc_request), None)
      else case exchangeFrame (parse_json lib) h (endpoint @ ''.rpc'') (stringify_json lib request) es of
          (Some (Inr reply), s) \<Rightarrow>
            (if isReply lib reply \<and> answers reply request then (Some (Inr reply), s) else (Some (Inl Invalid_binding), s))
        | r \<Rightarrow> r)"

record binding =
  endpoint :: string
  binding_id :: string

definition exchangeBoundRpc :: "rpc_library \<Rightarrow> host \<Rightarrow> binding \<Rightarrow> json \<Rightarrow> socket_event list \<Rightarrow>
    (bridge_error, json) result option \<times> json frame_state option" where
  "exchangeBoundRpc lib h b v es =
     (if \<not> isRequest lib v \<or> \<not> strict_equal (get_prop v ''rpc'') json_one
        \<or> \<not> strict_equal (get_prop v ''instance'') (Some (JStr (binding_id b)))
        \<or> \<not> strict_equal (get_prop v ''service'') (Some (JStr ''ghost.chat''))
        \<or> \<not> strict_equal (get_prop v ''version'') json_one
      then (Some (Inl Instance_mismatch), None)
      else exchangeLocalRpc lib h (endpoint b) v es)"

section \<open>What the handlers amount to\<close>

text \<open>The verdict on the bytes received so far: none yet, a failure, or the parsed body.\<close>

definition verdict :: "(units \<Rightarrow> 'v option) \<Rightarrow> bytes \<Rightarrow> (bridge_error, 'v) result option" where
  "verdict parse r =
     (if length r > MAX_FRAME + 4 then Some (Inl Response_exceeds)
      else if length r < 4 then None
      else let n = getUint32 r 0 in
        if n > MAX_FRAME \<or> n = 0 then Some (Inl Invalid_frame)
        else if length r < n + 4 then None
        else Some (case parse (buffer_string (subarray r 4 (n + 4))) of Some v \<Rightarrow> Inr v | None \<Rightarrow> Inl Invalid_response))"

text \<open>The first event that decides.\<close>

fun decide :: "(units \<Rightarrow> 'v option) \<Rightarrow> bytes \<Rightarrow> socket_event list \<Rightarrow> (bridge_error, 'v) result option" where
  "decide parse r [] = None"
| "decide parse r (Data c # es) = (case verdict parse (r @ c) of None \<Rightarrow> decide parse (r @ c) es | d \<Rightarrow> d)"
| "decide parse r (Connected # es) = decide parse r es"
| "decide parse r (Ended # es) = Some (Inl Closed_incomplete)"
| "decide parse r (Failed # es) = Some (Inl Socket_failed)"
| "decide parse r (Timeout # es) = Some (Inl Timed_out)"

lemmas handler_defs = settle_def fail_def on_body_def on_data_def socket_step_def

lemma settled_step: "settled s \<Longrightarrow> promise s = Some q \<Longrightarrow>
    settled (socket_step parse body e s) \<and> promise (socket_step parse body e s) = Some q"
  by (cases e) (auto simp: handler_defs Let_def split: option.splits)

lemma settled_run: "settled s \<Longrightarrow> promise s = Some q \<Longrightarrow> promise (fold (socket_step parse body) es s) = Some q"
  by (induction es arbitrary: s) (auto dest: settled_step)

text \<open>A socket that still waits.\<close>

definition waiting :: "(units \<Rightarrow> 'v option) \<Rightarrow> 'v frame_state \<Rightarrow> bool" where
  "waiting parse s \<longleftrightarrow> \<not> settled s \<and> promise s = None \<and> verdict parse (frame_data s) = None
     \<and> expected s = (if length (frame_data s) < 4 then None else Some (getUint32 (frame_data s) 0))"

lemma waiting_fresh: "waiting parse fresh_frame"
  by (simp add: waiting_def fresh_frame_def verdict_def)

lemma getUint32_append: "4 \<le> length r \<Longrightarrow> getUint32 (r @ c) 0 = getUint32 r 0"
  by (simp add: getUint32_def subarray_def)

lemma waiting_data:
  assumes "waiting parse s"
  shows "case verdict parse (frame_data s @ c) of
      None \<Rightarrow> waiting parse (on_data parse c s) \<and> frame_data (on_data parse c s) = frame_data s @ c
    | Some q \<Rightarrow> settled (on_data parse c s) \<and> promise (on_data parse c s) = Some q"
proof (cases "length (frame_data s) < 4")
  case True
  then show ?thesis using assms
    by (auto simp: waiting_def verdict_def on_data_def on_body_def settle_def fail_def Let_def split: option.splits)
next
  case False
  then have "getUint32 (frame_data s @ c) 0 = getUint32 (frame_data s) 0" by (simp add: getUint32_append)
  then show ?thesis using assms False
    by (auto simp: waiting_def verdict_def on_data_def on_body_def settle_def fail_def Let_def split: option.splits if_splits)
qed

lemma waiting_stop:
  assumes "waiting parse s" "e \<in> {Ended, Failed, Timeout}"
  shows "promise (fold (socket_step parse body) es (socket_step parse body e s)) = decide parse r (e # es)"
proof -
  obtain q where "decide parse r (e # es) = Some q" "settled (socket_step parse body e s)"
      "promise (socket_step parse body e s) = Some q"
    using assms by (auto simp: waiting_def socket_step_def fail_def settle_def)
  then show ?thesis by (simp add: settled_run)
qed

lemma waiting_run: "waiting parse s \<Longrightarrow> promise (fold (socket_step parse body) es s) = decide parse (frame_data s) es"
proof (induction es arbitrary: s)
  case Nil
  then show ?case by (simp add: waiting_def)
next
  case (Cons e es)
  show ?case
  proof (cases e)
    case Connected
    have "waiting parse (socket_step parse body e s)" "frame_data (socket_step parse body e s) = frame_data s"
      using Cons.prems by (simp_all add: waiting_def socket_step_def Connected)
    then show ?thesis using Cons.IH Connected by simp
  next
    case (Data c)
    have step: "socket_step parse body e s = on_data parse c s" by (simp add: socket_step_def Data)
    show ?thesis
    proof (cases "verdict parse (frame_data s @ c)")
      case None
      then show ?thesis using waiting_data [OF Cons.prems, of c] Cons.IH [of "on_data parse c s"] step Data by simp
    next
      case (Some q)
      then show ?thesis using waiting_data [OF Cons.prems, of c] settled_run [of "on_data parse c s" q parse body es] step Data
        by simp
    qed
  next
    case Ended
    then show ?thesis using waiting_stop [OF Cons.prems, of Ended body es "frame_data s"] by simp
  next
    case Failed
    then show ?thesis using waiting_stop [OF Cons.prems, of Failed body es "frame_data s"] by simp
  next
    case Timeout
    then show ?thesis using waiting_stop [OF Cons.prems, of Timeout body es "frame_data s"] by simp
  qed
qed

lemma run_decides: "promise (run_socket parse body es) = decide parse [] es"
  using waiting_run [OF waiting_fresh] by (simp add: run_socket_def fresh_frame_def)

section \<open>Chunking\<close>

fun received :: "socket_event list \<Rightarrow> bytes" where
  "received [] = []"
| "received (Data c # es) = c @ received es"
| "received (_ # es) = received es"

definition flowing :: "socket_event list \<Rightarrow> bool" where
  "flowing es \<longleftrightarrow> Ended \<notin> set es \<and> Failed \<notin> set es \<and> Timeout \<notin> set es"

lemma decide_undecided:
  "flowing es \<Longrightarrow> (\<And>k. k \<le> length (received es) \<Longrightarrow> verdict parse (r @ take k (received es)) = None)
   \<Longrightarrow> decide parse r (es @ rest) = decide parse (r @ received es) rest"
proof (induction parse r es rule: decide.induct)
  case (2 parse r c es)
  have "verdict parse (r @ c) = None" using "2.prems"(2) [of "length c"] by simp
  moreover have "verdict parse ((r @ c) @ take k (received es)) = None" if "k \<le> length (received es)" for k
    using "2.prems"(2) [of "length c + k"] that by simp
  ultimately show ?case using "2.IH" "2.prems"(1) by (simp add: flowing_def)
qed (auto simp: flowing_def)

definition frame_of :: "bytes \<Rightarrow> bytes" where
  "frame_of body = setUint32 (length body) @ body"

lemma frame_prefix:
  assumes "0 < length body" "length body \<le> MAX_FRAME" "k \<le> length (frame_of body)"
  shows "verdict parse (take k (frame_of body)) =
    (if k < length (frame_of body) then None
     else Some (case parse (buffer_string body) of Some v \<Rightarrow> Inr v | None \<Rightarrow> Inl Invalid_response))"
proof (cases "k < 4")
  case True
  then show ?thesis by (simp add: verdict_def frame_of_def)
next
  case False
  have "getUint32 (take k (frame_of body)) 0 = length body"
    using False assms(2) by (simp add: frame_of_def getUint32_setUint32 MAX_FRAME_def take_Cons')
  then show ?thesis using assms False
    by (auto simp: verdict_def frame_of_def subarray_def Let_def)
qed

lemma decide_frame:
  assumes "flowing es" "r @ received es = frame_of body" "r \<noteq> frame_of body" "0 < length body" "length body \<le> MAX_FRAME"
  shows "decide parse r (es @ rest) =
    Some (case parse (buffer_string body) of Some v \<Rightarrow> Inr v | None \<Rightarrow> Inl Invalid_response)"
  using assms
proof (induction parse r es rule: decide.induct)
  case (2 parse r c es)
  have v: "verdict parse (r @ c) = (if length (r @ c) < length (frame_of body) then None
      else Some (case parse (buffer_string body) of Some v \<Rightarrow> Inr v | None \<Rightarrow> Inl Invalid_response))"
    using frame_prefix [OF "2.prems"(4,5), of "length (r @ c)" parse] "2.prems"(2)
    by (metis append.assoc append_eq_conv_conj length_append le_add1 received.simps(2) take_append)
  show ?case
  proof (cases "length (r @ c) < length (frame_of body)")
    case True
    then have "verdict parse (r @ c) = None" "r @ c \<noteq> frame_of body" "flowing es" using v "2.prems"(1) by (auto simp: flowing_def simp del: length_append)
    then show ?thesis using "2.IH" "2.prems" by simp
  next
    case False
    then show ?thesis using v by simp
  qed
qed (auto simp: flowing_def)

section \<open>Properties\<close>

lemma run_step: "run_socket parse body (es @ [e]) = socket_step parse body e (run_socket parse body es)"
  by (simp add: run_socket_def)

definition frame_ok :: "'v frame_state \<Rightarrow> bool" where
  "frame_ok s \<longleftrightarrow> length (frame_data s) \<le> MAX_FRAME + 4 \<and> (settled s \<longleftrightarrow> promise s \<noteq> None) \<and> (destroyed s \<longleftrightarrow> settled s)"

lemma step_frame_ok: "frame_ok s \<Longrightarrow> frame_ok (socket_step parse body e s)"
  by (cases e) (auto simp: handler_defs frame_ok_def Let_def split: option.splits)

lemma run_frame_ok: "frame_ok (run_socket parse body es)"
proof (induction es rule: rev_induct)
  case Nil
  then show ?case by (simp add: run_socket_def fresh_frame_def frame_ok_def)
next
  case (snoc e es)
  then show ?case by (simp add: run_step step_frame_ok)
qed

lemma strict_equal_constants [simp]:
  "strict_equal a (Some (JStr x)) \<longleftrightarrow> a = Some (JStr x)"
  "strict_equal a json_one \<longleftrightarrow> a = json_one"
  by (cases "(a, Some (JStr x))" rule: strict_equal.cases; simp) (cases "(a, json_one)" rule: strict_equal.cases; auto simp: json_one_def)

definition owned_endpoint :: "host \<Rightarrow> string \<Rightarrow> bool" where
  "owned_endpoint h path \<longleftrightarrow> (case (getuid h, lstat h path, lstat h (dirname h path)) of
     (Some uid, Some a, Some p) \<Rightarrow> owner_only uid a p | _ \<Rightarrow> False)"

lemma exchangeFrame_owned:
  "fst (exchangeFrame parse h path t es) = Some (Inr x) \<or> snd (exchangeFrame parse h path t es) = Some s \<Longrightarrow>
   owned_endpoint h path"
  by (auto simp: exchangeFrame_def owned_endpoint_def split: option.splits if_splits)

lemma decide_stops: "\<not> flowing es \<Longrightarrow> decide parse r es \<noteq> None"
  by (induction parse r es rule: decide.induct) (auto simp: flowing_def split: option.splits)

text \<open>C11: The handlers implement the frame protocol.  Whatever events the socket reports and in
  whatever pieces the bytes arrive, the promise holds what the first decisive event says: the verdict
  on the bytes received up to it, or the failure it stands for; and nothing before that.\<close>

theorem handlers_implement_frames: "promise (run_socket parse body es) = decide parse [] es"
  by (rule run_decides)

text \<open>A complete frame is delivered, however it is cut.  If the bytes received are the frame of a
  body of 1 to 16 MiB, in any chunks and with any other events after the last of them, the promise
  holds the parsed body, or the failure to parse it.\<close>

theorem chunked_frame_delivered:
  assumes "flowing es" "received es = frame_of body" "0 < length body" "length body \<le> MAX_FRAME"
  shows "promise (run_socket parse request (es @ rest)) =
    Some (case parse (buffer_string body) of Some v \<Rightarrow> Inr v | None \<Rightarrow> Inl Invalid_response)"
proof -
  have "([] :: bytes) \<noteq> frame_of body" by (auto simp: frame_of_def setUint32_def)
  then show ?thesis using assms decide_frame [of es "[]" body parse rest] by (simp add: run_decides)
qed

theorem chunked_frame_delivered_witness:
  "promise (run_socket (\<lambda>t. Some (length t)) [1] ([Connected, Data [0, 0], Data [0, 2, 0x7B], Data [0x7D]] @ [Ended])) = Some (Inr 2)"
proof -
  have "flowing [Connected, Data [0, 0], Data [0, 2, 0x7B], Data [0x7D]]"
      "received [Connected, Data [0, 0], Data [0, 2, 0x7B], Data [0x7D]] = frame_of [0x7B, 0x7D]"
    by (simp_all add: flowing_def frame_of_def setUint32_def)
  from chunked_frame_delivered [OF this, of "\<lambda>t. Some (length t)" "[1]" "[Ended]"] show ?thesis
    by (simp add: MAX_FRAME_def buffer_string_def utf16_def)
qed

text \<open>C37: Bounded and always settled.  At every moment at most 16 MiB and four bytes are buffered, the
  promise is settled exactly when the code thinks so and the socket is then destroyed, and after the
  socket ended, failed or timed out the promise is settled.\<close>

theorem bridge_bounded_and_settles:
  "length (frame_data (run_socket parse body es)) \<le> MAX_FRAME + 4
   \<and> (settled (run_socket parse body es) \<longleftrightarrow> promise (run_socket parse body es) \<noteq> None)
   \<and> (destroyed (run_socket parse body es) \<longleftrightarrow> settled (run_socket parse body es))
   \<and> promise (run_socket parse body (es @ Ended # rest)) \<noteq> None
   \<and> promise (run_socket parse body (es @ Failed # rest)) \<noteq> None
   \<and> promise (run_socket parse body (es @ Timeout # rest)) \<noteq> None"
  using run_frame_ok [of parse body es] decide_stops [of _ parse "[]"]
  by (simp add: frame_ok_def run_decides flowing_def)

text \<open>C18: The gateway forwards only its own instance.  Whatever an authenticated client passes, a reply
  comes back only for a valid request for the configured instance and chat version 1, over a socket
  that is owner-only in an owner-only directory, and it answers that very request; for anything else
  the bridge opens no socket.\<close>

theorem gateway_forwards_only_its_instance:
  assumes "exchangeBoundRpc lib h b v es = (r, opened)" "opened = Some s \<or> r = Some (Inr reply)"
  shows "isRequest lib v \<and> get_prop v ''instance'' = Some (JStr (binding_id b))
    \<and> get_prop v ''service'' = Some (JStr ''ghost.chat'') \<and> get_prop v ''version'' = json_one
    \<and> owned_endpoint h (endpoint b @ ''.rpc'')
    \<and> (r = Some (Inr reply) \<longrightarrow> isReply lib reply \<and> answers reply v \<and> get_prop reply ''instance'' = Some (JStr (binding_id b)))"
proof -
  have bound: "isRequest lib v" "get_prop v ''instance'' = Some (JStr (binding_id b))"
      "get_prop v ''service'' = Some (JStr ''ghost.chat'')" "get_prop v ''version'' = json_one"
    and rpc: "exchangeLocalRpc lib h (endpoint b) v es = (r, opened)"
    using assms by (auto simp: exchangeBoundRpc_def split: if_splits)
  have accepted: "isReply lib reply \<and> answers reply v" if "r = Some (Inr reply)"
    using rpc that by (auto simp: exchangeLocalRpc_def split: prod.splits option.splits sum.splits if_splits)
  moreover have "get_prop reply ''instance'' = Some (JStr (binding_id b))" if "r = Some (Inr reply)"
    using accepted [OF that] bound(2) by (simp add: answers_def same_field_def)
  moreover have "owned_endpoint h (endpoint b @ ''.rpc'')"
  proof (rule exchangeFrame_owned)
    show "fst (exchangeFrame (parse_json lib) h (endpoint b @ ''.rpc'') (stringify_json lib v) es) = Some (Inr reply)
      \<or> snd (exchangeFrame (parse_json lib) h (endpoint b @ ''.rpc'') (stringify_json lib v) es) = Some s"
      using rpc assms(2) bound(1)
      by (auto simp: exchangeLocalRpc_def split: prod.splits option.splits sum.splits if_splits)
  qed
  ultimately show ?thesis using bound by blast
qed

definition sample_call :: json where
  "sample_call = JObj [(''rpc'', JNum (Finite 1)), (''id'', JStr ''a''), (''instance'', JStr ''i''), (''service'', JStr ''ghost.chat''),
     (''version'', JNum (Finite 1)), (''method'', JStr ''snapshot'')]"

definition sample_library :: rpc_library where
  "sample_library = \<lparr>isRequest = is_object, isReply = is_object, parse_json = (\<lambda>t. if t = [0x7B] then Some sample_call else None),
     stringify_json = (\<lambda>_. [0x7B])\<rparr>"

definition sample_host :: host where
  "sample_host = \<lparr>getuid = Some 1000,
     lstat = (\<lambda>p. if p = ''/run/chat.rpc'' then Some \<lparr>st_kind = Socket, st_uid = 1000, st_mode = 0xC180\<rparr>
       else if p = ''/run'' then Some \<lparr>st_kind = Directory, st_uid = 1000, st_mode = 0x41C0\<rparr> else None),
     dirname = (\<lambda>_. ''/run'')\<rparr>"

theorem gateway_forwards_only_its_instance_witness:
  "fst (exchangeBoundRpc sample_library sample_host \<lparr>endpoint = ''/run/chat'', binding_id = ''i''\<rparr> sample_call
      [Connected, Data [0, 0, 0], Data [1, 0x7B]]) = Some (Inr sample_call)
   \<and> answers sample_call sample_call"
proof -
  let ?b = "\<lparr>endpoint = ''/run/chat'', binding_id = ''i''\<rparr>"
  let ?es = "[Connected, Data [0, 0, 0], Data [1, 0x7B]]"
  have run: "promise (run_socket (parse_json sample_library) (utf8_encode [0x7B]) ?es) = Some (Inr sample_call)"
    by (simp add: run_decides verdict_def MAX_FRAME_def getUint32_def subarray_def sample_library_def buffer_string_def utf16_def)
  have fields: "get_prop sample_call ''rpc'' = json_one" "get_prop sample_call ''version'' = json_one"
      "get_prop sample_call ''instance'' = Some (JStr ''i'')" "get_prop sample_call ''service'' = Some (JStr ''ghost.chat'')"
      "get_prop sample_call ''id'' = Some (JStr ''a'')" "get_prop sample_call ''method'' = Some (JStr ''snapshot'')" "is_object sample_call"
    by (simp_all add: sample_call_def json_one_def)
  have "strict_equal json_one json_one" by simp
  then have self: "answers sample_call sample_call"
    unfolding answers_def same_field_def fields by simp
  have "fst (exchangeFrame (parse_json sample_library) sample_host ''/run/chat.rpc'' (stringify_json sample_library sample_call) ?es)
      = Some (Inr sample_call)"
    using run by (simp add: exchangeFrame_def sample_host_def owner_only_def Let_def MAX_FRAME_def utf8_encode_def utf8_def
        sample_library_def)
  then have r: "fst (exchangeBoundRpc sample_library sample_host ?b sample_call ?es) = Some (Inr sample_call)"
    using fields self by (auto simp: exchangeBoundRpc_def exchangeLocalRpc_def sample_library_def split: prod.split)
  obtain opened where "exchangeBoundRpc sample_library sample_host ?b sample_call ?es = (Some (Inr sample_call), opened)"
    using r by (metis prod.collapse)
  from gateway_forwards_only_its_instance [OF this] r show ?thesis by blast
qed

end
