(* ===== verification/Files.thy ===== *)
theory Files
  imports Json Network_Workspace Bytes
begin

text \<open>
  \<open>ui/src/files.ts\<close> and the workspace's \<open>fileAccess\<close> (\<open>ui/src/network-workspace.ts\<close>): the binary
  frames that carry one piece of a file beside a JSON header, and the re-addressing of a frame to a
  secondary network.  \<open>JSON.stringify\<close>, \<open>JSON.parse\<close> and the text of a value in a template literal are
  parameters; a header is a JSON object.
\<close>

section \<open>The code\<close>

definition MAX_HEADER :: nat where "MAX_HEADER = 512"
definition MAX_PIECE :: nat where "MAX_PIECE = 262144"

definition setUint16 :: "nat \<Rightarrow> bytes" where
  "setUint16 n = [of_nat (n div 256), of_nat n]"

definition getUint16 :: "bytes \<Rightarrow> nat \<Rightarrow> nat option" where
  "getUint16 bs offset = (if length bs < offset + 2 then None else Some (unat (bs ! offset) * 256 + unat (bs ! (offset + 1))))"

definition frame_magic :: bytes where "frame_magic = map of_char ''GCFIO1''"

text \<open>\<open>Number.isInteger\<close> and the range of a piece index.\<close>

definition piece_index :: "json option \<Rightarrow> bool" where
  "piece_index v = (case v of Some (JNum (Finite q)) \<Rightarrow> of_int \<lfloor>q\<rfloor> = q \<and> 0 \<le> q \<and> q \<le> 0xFFFFFFFF | _ \<Rightarrow> False)"

definition encodeFileIo :: "(json \<Rightarrow> units) \<Rightarrow> json \<Rightarrow> bytes \<Rightarrow> bytes outcome" where
  "encodeFileIo stringify header bs =
     (let encoded = utf8_encode (stringify header) in
      if length encoded > MAX_HEADER \<or> length bs > MAX_PIECE \<or> \<not> piece_index (get_prop header ''piece'')
      then plain_error ''File frame exceeds bounds''
      else Inr (frame_magic @ setUint16 (length encoded) @ encoded @ bs))"

record file_access_library =
  stringify :: "json \<Rightarrow> units"
  parse :: "units \<Rightarrow> json option"
  template :: "json option \<Rightarrow> string"

definition id_text :: "file_access_library \<Rightarrow> json \<Rightarrow> string" where
  "id_text lib header = (case get_prop header ''id'' of Some (JStr s) \<Rightarrow> s | v \<Rightarrow> template lib v)"

text \<open>\<open>{ ...header, id }\<close>: only an object has properties to spread.\<close>

definition with_id :: "string \<Rightarrow> json \<Rightarrow> json" where
  "with_id i header = JObj (put ''id'' (JStr i) (case header of JObj kvs \<Rightarrow> kvs | _ \<Rightarrow> []))"

definition malformed :: "'a outcome" where
  "malformed = Inl (Thrown_object None None True ''RangeError or SyntaxError'')"

definition scoped_id :: "string \<Rightarrow> string \<Rightarrow> string" where
  "scoped_id network i = network @ '':'' @ i"

text \<open>The frame a secondary network's access forwards.\<close>

definition forwarded :: "file_access_library \<Rightarrow> string \<Rightarrow> bytes \<Rightarrow> bytes outcome" where
  "forwarded lib network frame =
     (case getUint16 frame 6 of None \<Rightarrow> malformed
      | Some n \<Rightarrow>
          (case parse lib (utf8_replacing (subarray frame 8 (8 + n))) of None \<Rightarrow> malformed
           | Some JNull \<Rightarrow> malformed
           | Some header \<Rightarrow>
               encodeFileIo (stringify lib) (with_id (scoped_id network (id_text lib header)) header) (drop (8 + n) frame)))"

datatype file_access = Direct_access | Scoped_access string

definition fileAccess :: "workspace \<Rightarrow> string option \<Rightarrow> file_access" where
  "fileAccess w network = (case network of None \<Rightarrow> Direct_access
     | Some n \<Rightarrow> if n = [] \<or> Some n = primary w then Direct_access else Scoped_access n)"

definition access_exchange :: "file_access_library \<Rightarrow> ('w \<Rightarrow> bytes \<Rightarrow> 'w \<times> bytes outcome) \<Rightarrow> file_access \<Rightarrow> 'w \<Rightarrow> bytes \<Rightarrow>
    'w \<times> bytes outcome" where
  "access_exchange lib exchange a w frame = (case a of Direct_access \<Rightarrow> exchange w frame
     | Scoped_access n \<Rightarrow> (case forwarded lib n frame of Inl e \<Rightarrow> (w, Inl e) | Inr f \<Rightarrow> exchange w f))"

definition access_save :: "('w \<Rightarrow> string \<Rightarrow> 'w \<times> string outcome) \<Rightarrow> file_access \<Rightarrow> 'w \<Rightarrow> string \<Rightarrow> 'w \<times> string outcome" where
  "access_save save a w i = (case a of Direct_access \<Rightarrow> save w i | Scoped_access n \<Rightarrow> save w (scoped_id n i))"

section \<open>The layout of a frame\<close>

lemma length_magic [simp]: "length frame_magic = 6"
  by (simp add: frame_magic_def)

lemma getUint16_setUint16:
  assumes "n < 2 ^ 16" shows "unat ((of_nat (n div 256)) :: 8 word) * 256 + unat ((of_nat n) :: 8 word) = n"
  using assms by (simp add: unat_of_nat less_mult_imp_div_less)

lemma encodeFileIo_Inr:
  "encodeFileIo str header bs = Inr frame \<longleftrightarrow>
     length (utf8_encode (str header)) \<le> MAX_HEADER \<and> length bs \<le> MAX_PIECE \<and> piece_index (get_prop header ''piece'')
     \<and> frame = frame_magic @ setUint16 (length (utf8_encode (str header))) @ utf8_encode (str header) @ bs"
  by (auto simp: encodeFileIo_def Let_def plain_error_def not_le)

lemma frame_parts:
  assumes "encodeFileIo str header bs = Inr frame"
  defines "n \<equiv> length (utf8_encode (str header))"
  shows "getUint16 frame 6 = Some n" "subarray frame 8 (8 + n) = utf8_encode (str header)" "drop (8 + n) frame = bs"
    "take 6 frame = frame_magic"
proof -
  have f: "frame = frame_magic @ setUint16 n @ utf8_encode (str header) @ bs" and l: "n \<le> MAX_HEADER"
    using assms by (simp_all add: encodeFileIo_Inr)
  have "n < 2 ^ 16" using l by (simp add: MAX_HEADER_def)
  then show "getUint16 frame 6 = Some n"
    by (simp add: f getUint16_def setUint16_def nth_append getUint16_setUint16)
  have eight: "length (frame_magic @ setUint16 n) = 8" by (simp add: setUint16_def)
  have g: "frame = (frame_magic @ setUint16 n) @ utf8_encode (str header) @ bs" by (simp add: f)
  show "subarray frame 8 (8 + n) = utf8_encode (str header)"
    unfolding g subarray_def by (simp add: setUint16_def n_def)
  show "drop (8 + n) frame = bs" unfolding g using eight by (simp add: n_def)
  show "take 6 frame = frame_magic" by (simp add: f)
qed

lemma get_with_id: "get_prop (with_id i (JObj kvs)) k = (if k = ''id'' then Some (JStr i) else get_prop (JObj kvs) k)"
  by (simp add: with_id_def)

text \<open>C25: A frame keeps its meaning on its way to a network.  An accepted frame holds the magic, the
  header and the bytes it was made from; the access of a secondary network forwards exactly the frame
  of the same bytes whose header differs in the identity only, which it prefixes with the network; the
  access of the primary network forwards the frame itself.  Here \<open>JSON.parse\<close> has to read what
  \<open>JSON.stringify\<close> wrote, and that text has to start and end in a brace.\<close>

theorem frame_forwarded:
  assumes "encodeFileIo (stringify lib) (JObj kvs) bs = Inr frame" "trimmed (stringify lib (JObj kvs))"
    and "parse lib (well_formed (stringify lib (JObj kvs))) = Some (JObj kvs)"
    and "network \<noteq> []" "Some network \<noteq> primary w"
  shows "access_exchange lib exchange (fileAccess w (Some network)) s frame =
      (case encodeFileIo (stringify lib) (with_id (scoped_id network (id_text lib (JObj kvs))) (JObj kvs)) bs of
         Inl e \<Rightarrow> (s, Inl e) | Inr frame' \<Rightarrow> exchange s frame')
    \<and> access_exchange lib exchange (fileAccess w (primary w)) s frame = exchange s frame
    \<and> get_prop (with_id (scoped_id network (id_text lib (JObj kvs))) (JObj kvs)) k =
        (if k = ''id'' then Some (JStr (scoped_id network (id_text lib (JObj kvs)))) else get_prop (JObj kvs) k)
    \<and> length bs \<le> MAX_PIECE \<and> length frame \<le> 8 + MAX_HEADER + MAX_PIECE
    \<and> take 6 frame = frame_magic \<and> drop (8 + length (utf8_encode (stringify lib (JObj kvs)))) frame = bs"
proof -
  note parts = frame_parts [OF assms(1)]
  have "utf8_replacing (utf8_encode (stringify lib (JObj kvs))) = well_formed (stringify lib (JObj kvs))"
    by (rule utf8_replacing_decode [OF decode_encode_trimmed [OF assms(2)]])
  then have f: "forwarded lib network frame =
      encodeFileIo (stringify lib) (with_id (scoped_id network (id_text lib (JObj kvs))) (JObj kvs)) bs"
    by (simp add: forwarded_def parts assms(3))
  have "fileAccess w (Some network) = Scoped_access network" using assms(4,5) by (simp add: fileAccess_def)
  moreover have "fileAccess w (primary w) = Direct_access" by (simp add: fileAccess_def split: option.split)
  moreover have "length bs \<le> MAX_PIECE" "length frame \<le> 8 + MAX_HEADER + MAX_PIECE"
    using assms(1) by (auto simp: encodeFileIo_Inr setUint16_def)
  ultimately show ?thesis using parts(3,4) by (simp add: access_exchange_def f get_with_id)
qed

definition sample_header :: "(string \<times> json) list" where
  "sample_header = [(''instance'', JStr ''i''), (''id'', JStr ''f''), (''piece'', JNum (Finite 7)), (''upload'', JBool True)]"

definition sample_files :: file_access_library where
  "sample_files = \<lparr>stringify = (\<lambda>h. if h = JObj sample_header then [0x7B, 0x7D] else [0x7B, 0x20, 0x7D]),
     parse = (\<lambda>t. if t = [0x7B, 0x7D] then Some (JObj sample_header) else None), template = (\<lambda>_. ''undefined'')\<rparr>"

theorem frame_forwarded_witness:
  "access_exchange sample_files (\<lambda>s f. (s @ [f], Inr [])) (fileAccess new_workspace (Some ''n'')) [] (frame_magic @ [0, 2, 0x7B, 0x7D, 1, 0, 255])
     = ([frame_magic @ [0, 3, 0x7B, 0x20, 0x7D, 1, 0, 255]], Inr [])"
proof -
  have enc: "utf8_encode [0x7B, 0x7D] = [0x7B, 0x7D]" "utf8_encode [0x7B, 0x20, 0x7D] = [0x7B, 0x20, 0x7D]"
    by (simp_all add: utf8_encode_def utf8_def high_surrogate_def low_surrogate_def)
  have frame: "encodeFileIo (stringify sample_files) (JObj sample_header) [1, 0, 255] = Inr (frame_magic @ [0, 2, 0x7B, 0x7D, 1, 0, 255])"
    by (simp add: encodeFileIo_Inr sample_files_def enc MAX_HEADER_def MAX_PIECE_def setUint16_def)
       (simp add: sample_header_def piece_index_def)
  have t: "trimmed (stringify sample_files (JObj sample_header))"
    by (simp add: sample_files_def trimmed_def white_def word_le_nat_alt)
  have p: "parse sample_files (well_formed (stringify sample_files (JObj sample_header))) = Some (JObj sample_header)"
    by (simp add: sample_files_def well_formed_def high_surrogate_def low_surrogate_def)
  have other: "encodeFileIo (stringify sample_files) (with_id (scoped_id ''n'' (id_text sample_files (JObj sample_header))) (JObj sample_header)) [1, 0, 255]
      = Inr (frame_magic @ [0, 3, 0x7B, 0x20, 0x7D, 1, 0, 255])"
    by (simp add: encodeFileIo_Inr sample_files_def enc MAX_HEADER_def MAX_PIECE_def setUint16_def with_id_def sample_header_def
        piece_index_def scoped_id_def id_text_def)
  have "Some ''n'' \<noteq> primary new_workspace" by (simp add: primary_def new_workspace_def)
  from frame_forwarded [OF frame t p _ this, of "\<lambda>s f. (s @ [f], Inr [])" "[]" "''id''"] other show ?thesis by simp
qed

end
