(* ===== verification/File_Controller.thy ===== *)
theory File_Controller
  imports Files
begin

text \<open>
  \<open>ui/src/file-controller.ts\<close>: the owner of the file transfers of one unlocked attachment.  What the
  controller awaits (the transport, the native file access, slices of the picked file, a pending refresh,
  timers) is a parameter that receives and returns the controller beside the outside world, so that
  anything may happen to it meanwhile.  The trace lists the commands and frames an operation sent itself.
\<close>

section \<open>The state\<close>

record transfer_view =
  tv_id :: string
  tv_conversation :: string
  tv_name :: string
  tv_started :: int
  tv_pending :: bool
  tv_error :: string

record file_view =
  fv_snapshot :: "file_snapshot option"
  fv_error :: string
  fv_notice :: string
  fv_busy :: bool
  fv_uploading :: string
  fv_transfers :: "(string \<times> transfer_view) list"

definition emptyFiles :: file_view where
  "emptyFiles = \<lparr>fv_snapshot = None, fv_error = [], fv_notice = [], fv_busy = False, fv_uploading = [], fv_transfers = []\<rparr>"

record file_action =
  fa_action :: string
  fa_generation :: nat

record controller =
  fc_value :: file_view
  fc_alive :: bool
  fc_refreshing :: bool
  fc_actions :: "(string \<times> file_action) list"
  fc_revision :: nat
  fc_mutations :: nat
  fc_shown :: "file_view list"

definition new_controller :: controller where
  "new_controller = \<lparr>fc_value = emptyFiles, fc_alive = True, fc_refreshing = False, fc_actions = [], fc_revision = 0,
     fc_mutations = 0, fc_shown = []\<rparr>"

record 'w file_host =
  request_of :: "'w \<times> controller \<Rightarrow> request \<Rightarrow> ('w \<times> controller) \<times> response outcome"
  exchange_of :: "'w \<times> controller \<Rightarrow> bytes \<Rightarrow> ('w \<times> controller) \<times> bytes outcome"
  save_of :: "'w \<times> controller \<Rightarrow> string \<Rightarrow> ('w \<times> controller) \<times> string outcome"
  slice_of :: "'w \<times> controller \<Rightarrow> nat \<Rightarrow> ('w \<times> controller) \<times> unit outcome"
  pending_refresh :: "'w \<times> controller \<Rightarrow> ('w \<times> controller) \<times> unit outcome"
  sleep_of :: "'w \<times> controller \<Rightarrow> nat \<Rightarrow> 'w \<times> controller"
  clock_of :: "'w \<Rightarrow> int"
  percent_of :: "nat \<Rightarrow> nat \<Rightarrow> string"
  header_text :: "json \<Rightarrow> units"

section \<open>Commands\<close>

text \<open>\<open>update\<close>: only a living controller changes and shows its value.\<close>

definition show_value :: "(file_view \<Rightarrow> file_view) \<Rightarrow> 'w \<times> controller \<Rightarrow> 'w \<times> controller" where
  "show_value g s = (let (w, f) = s in
     if fc_alive f then (w, f\<lparr>fc_value := g (fc_value f), fc_shown := fc_shown f @ [g (fc_value f)]\<rparr>) else s)"

definition stopped :: "'a outcome" where
  "stopped = plain_error ''Import stopped with this locked or closed view. Reopen Files to resume the retained import.''"

definition request_id :: "file_request \<Rightarrow> string option" where
  "request_id r = (case r of File_prepare i _ _ _ \<Rightarrow> Some i | File_commit i \<Rightarrow> Some i | File_accept i \<Rightarrow> Some i
     | File_pause i \<Rightarrow> Some i | File_resume i \<Rightarrow> Some i | File_cancel i \<Rightarrow> Some i | _ \<Rightarrow> None)"

definition request_action :: "file_request \<Rightarrow> string" where
  "request_action r = (case r of File_list _ \<Rightarrow> ''list'' | File_publications _ \<Rightarrow> ''publications''
     | File_prepare _ _ _ _ \<Rightarrow> ''prepare'' | File_commit _ \<Rightarrow> ''commit'' | File_accept _ \<Rightarrow> ''accept'' | File_pause _ \<Rightarrow> ''pause''
     | File_resume _ \<Rightarrow> ''resume'' | File_cancel _ \<Rightarrow> ''cancel'' | File_configure _ _ \<Rightarrow> ''configure'')"

text \<open>A listed file in transfer that has no view yet gets one.\<close>

definition note_transfer :: "int \<Rightarrow> file_info \<Rightarrow> (string \<times> transfer_view) list \<Rightarrow> (string \<times> transfer_view) list" where
  "note_transfer now i ts =
     (if map_of ts (info_id i) = None \<and> info_state i \<in> {Downloading, Waiting_for_peers, Paused}
      then put (info_id i) \<lparr>tv_id = info_id i, tv_conversation = info_conversation i, tv_name = info_name i, tv_started = now,
        tv_pending = False, tv_error = []\<rparr> ts else ts)"

definition merged :: "file_snapshot \<Rightarrow> file_snapshot \<Rightarrow> file_snapshot" where
  "merged old new = new\<lparr>snap_files :=
     filter (\<lambda>i. info_id i \<notin> info_id ` set (snap_files new)) (snap_files old) @ snap_files new\<rparr>"

definition accept_snapshot :: "'w file_host \<Rightarrow> file_request \<Rightarrow> nat \<Rightarrow> file_snapshot \<Rightarrow> 'w \<times> controller \<Rightarrow> 'w \<times> controller" where
  "accept_snapshot H r revision sn s = (let (w, f) = s in
     case r of
       File_list c \<Rightarrow>
         if c = None \<and> revision = fc_mutations f
         then show_value (\<lambda>v. v\<lparr>fv_snapshot := Some sn,
                fv_transfers := fold (note_transfer (clock_of H w)) (snap_files sn) (fv_transfers v)\<rparr>) s
         else s
     | _ \<Rightarrow>
         (case fv_snapshot (fc_value f) of None \<Rightarrow> s
          | Some old \<Rightarrow> show_value (\<lambda>v. v\<lparr>fv_snapshot := Some (merged old sn)\<rparr>) (w, f\<lparr>fc_mutations := Suc (fc_mutations f)\<rparr>)))"

definition command :: "'w file_host \<Rightarrow> file_request \<Rightarrow> 'w \<times> controller \<Rightarrow> ('w \<times> controller) \<times> file_snapshot outcome" where
  "command H r s =
     (if \<not> fc_alive (snd s) then (s, stopped)
      else case request_of H s (Files r) of
          (s', Inl e) \<Rightarrow> (s', Inl e)
        | (s', Inr (R_files sn)) \<Rightarrow>
            if \<not> fc_alive (snd s') then (s', stopped)
            else (accept_snapshot H r (fc_mutations (snd s)) sn s', Inr sn)
        | (s', Inr _) \<Rightarrow> (s', plain_error ''Unexpected file response''))"

definition set_refreshing :: "bool \<Rightarrow> 'w \<times> controller \<Rightarrow> 'w \<times> controller" where
  "set_refreshing b s = (fst s, (snd s)\<lparr>fc_refreshing := b\<rparr>)"

definition show_error :: "string \<Rightarrow> 'w \<times> controller \<Rightarrow> 'w \<times> controller" where
  "show_error e = show_value (\<lambda>v. v\<lparr>fv_error := e\<rparr>)"

text \<open>A refresh joins the pending one, and starts over when a mutation happened meanwhile.\<close>

partial_function (option) refresh_files :: "'w file_host \<Rightarrow> 'w \<times> controller \<Rightarrow> (('w \<times> controller) \<times> unit outcome) option" where
  "refresh_files H s =
     (if \<not> fc_alive (snd s) then Some (s, Inr ())
      else if fc_refreshing (snd s) then
        (case pending_refresh H s of
           (s', Inl e) \<Rightarrow> Some (s', Inl e)
         | (s', Inr _) \<Rightarrow>
             if fc_alive (snd s') \<and> fc_mutations (snd s) \<noteq> fc_mutations (snd s') then refresh_files H s' else Some (s', Inr ()))
      else case command H (File_list None) (set_refreshing True s) of
          (s', Inl e) \<Rightarrow> Some (set_refreshing False (show_error (Network_Workspace.shown e) s'), Inl e)
        | (s', Inr _) \<Rightarrow> Some (set_refreshing False s', Inr ()))"

definition stop :: "'w \<times> controller \<Rightarrow> 'w \<times> controller" where
  "stop s = (fst s, (snd s)\<lparr>fc_value := emptyFiles, fc_alive := False, fc_shown := fc_shown (snd s) @ [emptyFiles]\<rparr>)"

text \<open>One turn of the poll of \<open>start\<close>: the state, and whether the timer is set again.\<close>

definition poll :: "'w file_host \<Rightarrow> bool \<Rightarrow> 'w \<times> controller \<Rightarrow> (('w \<times> controller) \<times> bool) option" where
  "poll H hidden s =
     (if \<not> fc_alive (snd s) then Some (s, False)
      else if \<not> fv_busy (fc_value (snd s)) \<and> \<not> hidden
      then map_option (\<lambda>(s', _). (s', fc_alive (snd s'))) (refresh_files H s)
      else Some (s, True))"

definition count_files :: "string option \<Rightarrow> controller \<Rightarrow> nat" where
  "count_files c f = (case fv_snapshot (fc_value f) of None \<Rightarrow> 0
     | Some sn \<Rightarrow> length (filter (\<lambda>i. Some (info_conversation i) = c \<and> info_state i \<noteq> File_cancelled) (snap_files sn)))"

section \<open>Upload\<close>

datatype sent_event = Sent_command file_request | Sent_frame bytes

record picked =
  picked_name :: string
  picked_bytes :: bytes

definition piece_header :: "string \<Rightarrow> string \<Rightarrow> nat \<Rightarrow> json" where
  "piece_header inst i piece = JObj [(''instance'', JStr inst), (''id'', JStr i), (''piece'', JNum (Finite (of_nat piece))), (''upload'', JBool True)]"

definition show_progress :: "'w file_host \<Rightarrow> picked \<Rightarrow> nat \<Rightarrow> 'w \<times> controller \<Rightarrow> 'w \<times> controller" where
  "show_progress H file offset = show_value (\<lambda>v. v\<lparr>fv_uploading :=
     picked_name file @ map char_of [32, 0xC2, 0xB7, 32 :: nat] @ percent_of H offset (length (picked_bytes file)) @ ''%''\<rparr>)"

function send_pieces :: "'w file_host \<Rightarrow> string \<Rightarrow> string \<Rightarrow> picked \<Rightarrow> nat \<Rightarrow> nat \<Rightarrow> 'w \<times> controller \<Rightarrow> sent_event list \<Rightarrow>
    ('w \<times> controller) \<times> sent_event list \<times> unit outcome" where
  "send_pieces H inst i file offset piece s trace =
     (if offset < length (picked_bytes file) then
        if \<not> fc_alive (snd s) then (s, trace, stopped)
        else case slice_of H (show_progress H file offset s) offset of
            (s, Inl e) \<Rightarrow> (s, trace, Inl e)
          | (s, Inr _) \<Rightarrow>
              if \<not> fc_alive (snd s) then (s, trace, stopped)
              else case encodeFileIo (header_text H) (piece_header inst i piece) (subarray (picked_bytes file) offset (offset + MAX_PIECE)) of
                  Inl e \<Rightarrow> (s, trace, Inl e)
                | Inr frame \<Rightarrow>
                    (case exchange_of H s frame of
                       (s, Inl e) \<Rightarrow> (s, trace @ [Sent_frame frame], Inl e)
                     | (s, Inr _) \<Rightarrow> send_pieces H inst i file (offset + MAX_PIECE) (Suc piece) s (trace @ [Sent_frame frame]))
      else (s, trace, Inr ()))"
  by pat_completeness auto

termination send_pieces
  by (relation "measure (\<lambda>(H, inst, i, file, offset, _). length (picked_bytes file) - offset)") (auto simp: MAX_PIECE_def)

declare send_pieces.simps [simp del]

definition logged :: "file_request \<Rightarrow> 'w \<times> controller \<Rightarrow> sent_event list \<Rightarrow> sent_event list" where
  "logged r s trace = (if fc_alive (snd s) then trace @ [Sent_command r] else trace)"

definition show_notice :: "string \<Rightarrow> 'w \<times> controller \<Rightarrow> 'w \<times> controller" where
  "show_notice n = show_value (\<lambda>v. v\<lparr>fv_notice := n\<rparr>)"

definition prepare_request :: "string \<Rightarrow> string \<Rightarrow> picked \<Rightarrow> file_request" where
  "prepare_request i c file = File_prepare i c (picked_name file) (decimal (length (picked_bytes file)))"

text \<open>The body of the \<open>try\<close>: prepare, the shortcuts, the pieces, commit.\<close>

definition upload_body :: "'w file_host \<Rightarrow> string \<Rightarrow> string \<Rightarrow> bool \<Rightarrow> picked \<Rightarrow> string \<Rightarrow> 'w \<times> controller \<Rightarrow>
    ('w \<times> controller) \<times> sent_event list \<times> unit outcome" where
  "upload_body H inst i resumed file c s =
     (let trace = logged (prepare_request i c file) s [] in
      case command H (prepare_request i c file) s of
        (s, Inl e) \<Rightarrow> (s, trace, Inl e)
      | (s, Inr prepared) \<Rightarrow>
          if list_ex (\<lambda>f. info_id f = i \<and> info_state f = File_complete) (snap_files prepared)
          then (show_notice ''File is already shared.'' s, trace, Inr ())
          else if resumed \<and> \<not> list_ex (\<lambda>f. info_id f = i) (snap_files prepared) then
            (let trace = logged (File_commit i) s trace in
             case command H (File_commit i) s of
               (s, Inl e) \<Rightarrow> (s, trace, Inl e)
             | (s, Inr _) \<Rightarrow> (show_notice ''File is already shared; the retained result was recovered.'' s, trace, Inr ()))
          else case send_pieces H inst i file 0 0 s trace of
              (s, trace, Inl e) \<Rightarrow> (s, trace, Inl e)
            | (s, trace, Inr _) \<Rightarrow>
                if \<not> fc_alive (snd s) then (s, trace, stopped)
                else let trace = logged (File_commit i) s trace in
                  case command H (File_commit i) s of
                    (s, Inl e) \<Rightarrow> (s, trace, Inl e)
                  | (s, Inr committed) \<Rightarrow>
                      (show_notice (if list_ex (\<lambda>f. info_id f \<noteq> i \<and> i \<in> set (case info_aliases f of None \<Rightarrow> [] | Some a \<Rightarrow> a)) (snap_files committed)
                         then ''Already shared here. You now share the existing verified copy.''
                         else ''File shared with its conversation.'') s, trace, Inr ()))"

definition upload :: "'w file_host \<Rightarrow> bool \<Rightarrow> string \<Rightarrow> string \<Rightarrow> picked \<Rightarrow> string \<Rightarrow> string option \<Rightarrow> 'w \<times> controller \<Rightarrow>
    (('w \<times> controller) \<times> sent_event list) option" where
  "upload H access inst random file c resumeId s =
     (if \<not> access \<or> fv_busy (fc_value (snd s)) \<or> \<not> fc_alive (snd s) then Some (s, [])
      else let i = (case resumeId of Some r \<Rightarrow> r | None \<Rightarrow> random);
               s = show_value (\<lambda>v. v\<lparr>fv_error := [], fv_notice := [], fv_busy := True\<rparr>) s
        in case upload_body H inst i (resumeId \<noteq> None \<and> resumeId \<noteq> Some []) file c s of
             (s, trace, r) \<Rightarrow>
               let s = (case r of Inl e \<Rightarrow> show_error (Network_Workspace.shown e) s | Inr _ \<Rightarrow> s);
                   s = show_value (\<lambda>v. v\<lparr>fv_busy := False, fv_uploading := []\<rparr>) s
               in if fc_alive (snd s) then map_option (\<lambda>(s, _). (s, trace)) (refresh_files H s) else Some (s, trace))"

definition save :: "'w file_host \<Rightarrow> bool \<Rightarrow> string \<Rightarrow> 'w \<times> controller \<Rightarrow> 'w \<times> controller" where
  "save H access i s =
     (if \<not> access \<or> fv_busy (fc_value (snd s)) \<or> \<not> fc_alive (snd s) then s
      else let s = (case save_of H (show_value (\<lambda>v. v\<lparr>fv_error := [], fv_busy := True\<rparr>) s) i of
               (s, Inl e) \<Rightarrow> show_error (Network_Workspace.shown e) s
             | (s, Inr path) \<Rightarrow> show_notice (if path = [] then ''Save cancelled.'' else ''Saved to '' @ path) s)
        in show_value (\<lambda>v. v\<lparr>fv_busy := False\<rparr>) s)"

section \<open>Actions\<close>

definition find_file :: "string \<Rightarrow> controller \<Rightarrow> file_info option" where
  "find_file i f = (case fv_snapshot (fc_value f) of None \<Rightarrow> None | Some sn \<Rightarrow> find (\<lambda>x. info_id x = i) (snap_files sn))"

text \<open>A request that names no file.\<close>

definition act_plain :: "'w file_host \<Rightarrow> file_request \<Rightarrow> 'w \<times> controller \<Rightarrow> (('w \<times> controller) \<times> sent_event list) option" where
  "act_plain H r s =
     (if \<not> fc_alive (snd s) \<or> fv_busy (fc_value (snd s)) then Some (s, [])
      else let s = show_value (\<lambda>v. v\<lparr>fv_error := [], fv_busy := True\<rparr>) s; trace = logged r s [];
               done = show_value (\<lambda>v. v\<lparr>fv_busy := False\<rparr>)
        in case command H r s of
             (s, Inl e) \<Rightarrow> Some (done (show_error (Network_Workspace.shown e) s), trace)
           | (s, Inr _) \<Rightarrow>
               (case refresh_files H s of None \<Rightarrow> None
                | Some (s, Inl e) \<Rightarrow> Some (done (show_error (Network_Workspace.shown e) s), trace)
                | Some (s, Inr _) \<Rightarrow> Some (done s, trace)))"

text \<open>The synchronous part for a request that names a file: nothing when the same action is under way,
  else a new generation whose number is returned; its task runs after the previous one has ended.\<close>

definition act_begin :: "'w file_host \<Rightarrow> string \<Rightarrow> file_request \<Rightarrow> 'w \<times> controller \<Rightarrow> ('w \<times> controller) \<times> nat option" where
  "act_begin H i r s =
     (if \<not> fc_alive (snd s) then (s, None)
      else if map_option fa_action (map_of (fc_actions (snd s)) i) = Some (request_action r) then (s, None)
      else let g = Suc (fc_revision (snd s)); s = (fst s, (snd s)\<lparr>fc_revision := g\<rparr>);
               s = (case find_file i (snd s) of None \<Rightarrow> s
                 | Some file \<Rightarrow> show_value (\<lambda>v. v\<lparr>fv_error := [],
                     fv_transfers := put i \<lparr>tv_id = i, tv_conversation = info_conversation file, tv_name = info_name file,
                       tv_started = (case map_of (fv_transfers v) i of Some old \<Rightarrow> tv_started old | None \<Rightarrow> clock_of H (fst s)),
                       tv_pending = True, tv_error = []\<rparr> (fv_transfers v)\<rparr>) s)
        in ((fst s, (snd s)\<lparr>fc_actions := put i \<lparr>fa_action = request_action r, fa_generation = g\<rparr> (fc_actions (snd s))\<rparr>), Some g))"

definition act_current :: "string \<Rightarrow> nat \<Rightarrow> 'w \<times> controller \<Rightarrow> bool" where
  "act_current i g s \<longleftrightarrow> fc_alive (snd s) \<and> map_option fa_generation (map_of (fc_actions (snd s)) i) = Some g"

definition set_pending :: "string \<Rightarrow> nat \<Rightarrow> string \<Rightarrow> 'w \<times> controller \<Rightarrow> 'w \<times> controller" where
  "set_pending i g e s =
     (if act_current i g s \<and> map_of (fv_transfers (fc_value (snd s))) i \<noteq> None
      then show_value (\<lambda>v. v\<lparr>fv_transfers :=
             put i ((the (map_of (fv_transfers v) i))\<lparr>tv_pending := False, tv_error := e\<rparr>) (fv_transfers v)\<rparr>) s
      else s)"

definition act_finish :: "string \<Rightarrow> nat \<Rightarrow> 'w \<times> controller \<Rightarrow> 'w \<times> controller" where
  "act_finish i g s = (if act_current i g s then (fst s, (snd s)\<lparr>fc_actions := remove_key i (fc_actions (snd s))\<rparr>) else s)"

text \<open>The loop over attempts, with the number of attempts left after this one: \<open>Inr True\<close> leaves the
  loop, \<open>Inr False\<close> returns because another action took over.\<close>

definition retried :: "file_request \<Rightarrow> thrown \<Rightarrow> bool" where
  "retried r e \<longleftrightarrow> request_action r \<in> {''accept'', ''resume''} \<and> retryable (chatError e)"

fun act_attempts :: "'w file_host \<Rightarrow> string \<Rightarrow> nat \<Rightarrow> file_request \<Rightarrow> nat \<Rightarrow> 'w \<times> controller \<Rightarrow> sent_event list \<Rightarrow>
    (('w \<times> controller) \<times> sent_event list \<times> bool outcome) option" where
  "act_attempts H i g r left s trace =
     (if \<not> act_current i g s then Some (s, trace, Inr False)
      else let trace = logged r s trace in
        case command H r s of
          (s, Inr _) \<Rightarrow> Some (s, trace, Inr True)
        | (s, Inl e) \<Rightarrow>
            if \<not> retried r e then Some (s, trace, Inl e)
            else (case left of 0 \<Rightarrow> Some (s, trace, Inl e)
              | Suc n \<Rightarrow>
                  let s = sleep_of H s (if left = 2 then 300 else 1000) in
                  if \<not> act_current i g s then Some (s, trace, Inr False)
                  else (case refresh_files H s of None \<Rightarrow> None
                    | Some (s, Inl e') \<Rightarrow> Some (s, trace, Inl e')
                    | Some (s, Inr _) \<Rightarrow>
                        (case map_option info_state (find_file i (snd s)) of
                           None \<Rightarrow> Some (s, trace, Inl e)
                         | Some st \<Rightarrow>
                             if st \<in> {Downloading, Waiting_for_peers, File_complete} then Some (s, trace, Inr True)
                             else if st \<in> {Offered, Paused} then act_attempts H i g r n s trace
                             else Some (s, trace, Inl e)))))"

declare act_attempts.simps [simp del]

text \<open>The task of one generation.\<close>

definition act_run :: "'w file_host \<Rightarrow> string \<Rightarrow> nat \<Rightarrow> file_request \<Rightarrow> 'w \<times> controller \<Rightarrow>
    (('w \<times> controller) \<times> sent_event list) option" where
  "act_run H i g r s =
     (if \<not> act_current i g s then Some (s, [])
      else case act_attempts H i g r 2 s [] of None \<Rightarrow> None
        | Some (s, trace, Inl e) \<Rightarrow> Some (act_finish i g (set_pending i g (Network_Workspace.shown e) s), trace)
        | Some (s, trace, Inr b) \<Rightarrow>
            if b \<and> act_current i g s then
              (case refresh_files H (set_pending i g [] s) of None \<Rightarrow> None
               | Some (s, Inl e) \<Rightarrow> Some (act_finish i g (set_pending i g (Network_Workspace.shown e) s), trace)
               | Some (s, Inr _) \<Rightarrow> Some (act_finish i g s, trace))
            else Some (act_finish i g s, trace))"

section \<open>Facts\<close>

lemma act_attempts_trace:
  "act_attempts H i g r left s trace = Some (s', trace', out) \<Longrightarrow>
   \<exists>k \<le> (if request_action r \<in> {''accept'', ''resume''} then Suc left else 1). trace' = trace @ replicate k (Sent_command r)"
proof (induction left arbitrary: s trace)
  case 0
  then show ?case
    by (subst (asm) act_attempts.simps)
       (auto simp: logged_def Let_def split: if_splits prod.splits sum.splits intro: exI [of _ 0] exI [of _ "Suc 0"])
next
  case (Suc n)
  have "trace' = trace \<or> trace' = trace @ [Sent_command r] \<or> (request_action r \<in> {''accept'', ''resume''}
      \<and> (\<exists>s2. act_attempts H i g r n s2 (trace @ [Sent_command r]) = Some (s', trace', out)))"
    using Suc.prems by (subst (asm) act_attempts.simps)
      (auto simp: logged_def Let_def retried_def act_current_def split: if_splits prod.splits sum.splits option.splits)
  then show ?case
  proof (elim disjE conjE exE)
    assume "trace' = trace"
    then show ?thesis by (intro exI [of _ 0]) simp
  next
    assume "trace' = trace @ [Sent_command r]"
    then show ?thesis by (intro exI [of _ 1]) simp
  next
    fix s2 assume a: "request_action r \<in> {''accept'', ''resume''}"
      "act_attempts H i g r n s2 (trace @ [Sent_command r]) = Some (s', trace', out)"
    from Suc.IH [OF a(2)] a(1) obtain k where "k \<le> Suc n" "trace' = (trace @ [Sent_command r]) @ replicate k (Sent_command r)"
      by auto
    then show ?thesis using a(1) by (intro exI [of _ "Suc k"]) simp
  qed
qed

lemma act_run_trace:
  assumes "act_run H i g r s = Some (s', trace)"
  shows "\<exists>k \<le> (if request_action r \<in> {''accept'', ''resume''} then 3 else 1). trace = replicate k (Sent_command r)"
proof (cases "act_current i g s")
  case False
  then show ?thesis using assms by (intro exI [of _ 0]) (simp add: act_run_def)
next
  case True
  then obtain s2 out where "act_attempts H i g r 2 s [] = Some (s2, trace, out)"
    using assms by (auto simp: act_run_def split: option.splits sum.splits if_splits)
  from act_attempts_trace [OF this] obtain k where
    "k \<le> (if request_action r \<in> {''accept'', ''resume''} then Suc 2 else 1)" "trace = replicate k (Sent_command r)" by auto
  then show ?thesis by (intro exI [of _ k]) (auto split: if_splits)
qed

text \<open>The pieces of a file.\<close>

definition pieces :: "nat \<Rightarrow> nat" where
  "pieces n = (n + MAX_PIECE - 1) div MAX_PIECE"

definition piece_bytes :: "bytes \<Rightarrow> nat \<Rightarrow> bytes" where
  "piece_bytes bs j = subarray bs (j * MAX_PIECE) (j * MAX_PIECE + MAX_PIECE)"

lemma MAX_PIECE_pos: "0 < MAX_PIECE"
  by (simp add: MAX_PIECE_def)

lemma pieces_less: "j < pieces n \<longleftrightarrow> j * MAX_PIECE < n"
proof -
  have "j < pieces n \<longleftrightarrow> Suc j * MAX_PIECE \<le> n + MAX_PIECE - 1"
    unfolding pieces_def using MAX_PIECE_pos by (simp add: less_eq_div_iff_mult_less_eq Suc_le_eq [symmetric])
  also have "\<dots> \<longleftrightarrow> j * MAX_PIECE < n" using MAX_PIECE_pos by auto
  finally show ?thesis .
qed

lemma concat_pieces: "concat (map (piece_bytes bs) [0..<k]) = take (k * MAX_PIECE) bs"
  by (induction k) (simp_all add: piece_bytes_def subarray_def take_add [symmetric] add.commute)

lemma all_pieces: "concat (map (piece_bytes bs) [0..<pieces (length bs)]) = bs"
proof -
  have "length bs \<le> pieces (length bs) * MAX_PIECE" using pieces_less [of "pieces (length bs)" "length bs"] by simp
  then show ?thesis by (simp add: concat_pieces)
qed

definition encoded_piece :: "'w file_host \<Rightarrow> string \<Rightarrow> string \<Rightarrow> picked \<Rightarrow> nat \<Rightarrow> bytes outcome" where
  "encoded_piece H inst i file j = encodeFileIo (header_text H) (piece_header inst i j) (piece_bytes (picked_bytes file) j)"

lemma send_pieces_trace:
  assumes "send_pieces H inst i file offset piece s trace = (s', trace', out)" "offset = piece * MAX_PIECE"
    "piece \<le> pieces (length (picked_bytes file))"
  shows "\<exists>frames. trace' = trace @ map Sent_frame frames \<and> piece + length frames \<le> pieces (length (picked_bytes file))
    \<and> map Inr frames = map (encoded_piece H inst i file) [piece..<piece + length frames]
    \<and> (out = Inr () \<longrightarrow> piece + length frames = pieces (length (picked_bytes file)))"
  using assms
proof (induction "length (picked_bytes file) - offset" arbitrary: offset piece s trace rule: less_induct)
  case less
  note prems = less.prems
  let ?n = "length (picked_bytes file)"
  show ?case
  proof (cases "offset < ?n")
    case False
    then have "\<not> piece < pieces ?n" using prems(2) by (simp add: pieces_less)
    then show ?thesis using prems False by (subst (asm) send_pieces.simps) (auto intro: exI [of _ "[]"])
  next
    case True
    have in_range: "piece < pieces ?n" using True prems(2) by (simp add: pieces_less)
    have bytes: "subarray (picked_bytes file) offset (offset + MAX_PIECE) = piece_bytes (picked_bytes file) piece"
      by (simp add: piece_bytes_def prems(2))
    have "trace' = trace \<and> out \<noteq> Inr () \<or> (\<exists>frame. encoded_piece H inst i file piece = Inr frame \<and>
       (trace' = trace @ [Sent_frame frame] \<and> out \<noteq> Inr () \<or>
        (\<exists>s2. send_pieces H inst i file (offset + MAX_PIECE) (Suc piece) s2 (trace @ [Sent_frame frame]) = (s', trace', out))))"
      using prems(1) True
      by (subst (asm) send_pieces.simps)
         (auto simp: bytes encoded_piece_def [symmetric] stopped_def plain_error_def split: if_splits prod.splits sum.splits)
    then consider "trace' = trace" "out \<noteq> Inr ()"
      | frame where "encoded_piece H inst i file piece = Inr frame" "trace' = trace @ [Sent_frame frame]" "out \<noteq> Inr ()"
      | frame s2 where "encoded_piece H inst i file piece = Inr frame"
          "send_pieces H inst i file (offset + MAX_PIECE) (Suc piece) s2 (trace @ [Sent_frame frame]) = (s', trace', out)"
      by blast
    then show ?thesis
    proof cases
      case 1
      then show ?thesis using in_range by (intro exI [of _ "[]"]) simp
    next
      case (2 frame)
      then show ?thesis using in_range by (intro exI [of _ "[frame]"]) simp
    next
      case (3 frame s2)
      have "length (picked_bytes file) - (offset + MAX_PIECE) < length (picked_bytes file) - offset"
        using True MAX_PIECE_pos by simp
      from less.hyps [OF this 3(2)] prems(2) in_range obtain frames where f:
        "trace' = (trace @ [Sent_frame frame]) @ map Sent_frame frames" "Suc piece + length frames \<le> pieces ?n"
        "map Inr frames = map (encoded_piece H inst i file) [Suc piece..<Suc piece + length frames]"
        "out = Inr () \<longrightarrow> Suc piece + length frames = pieces ?n"
        by auto
      have "map Inr (frame # frames) = map (encoded_piece H inst i file) [piece..<piece + length (frame # frames)]"
      proof -
        have "[piece..<piece + length (frame # frames)] = piece # [Suc piece..<Suc piece + length frames]"
          by (subst upt_conv_Cons) simp_all
        then show ?thesis using 3(1) f(3) by (simp only: list.map)
      qed
      then show ?thesis using f(1,2,4) by (intro exI [of _ "frame # frames"]) simp
    qed
  qed
qed

text \<open>What an upload may have sent: nothing, the two commands that recover a retained result, or the
  preparation, then pieces in order, then, after the last of them only, the commit.\<close>

definition upload_trace :: "'w file_host \<Rightarrow> string \<Rightarrow> string \<Rightarrow> bool \<Rightarrow> picked \<Rightarrow> string \<Rightarrow> sent_event list \<Rightarrow> bool" where
  "upload_trace H inst i resumed file c trace \<longleftrightarrow>
     trace = [] \<or> (resumed \<and> trace = [Sent_command (prepare_request i c file), Sent_command (File_commit i)]) \<or>
     (\<exists>frames commit. trace = Sent_command (prepare_request i c file) # map Sent_frame frames @ commit
        \<and> map Inr frames = map (encoded_piece H inst i file) [0..<length frames]
        \<and> (commit = [] \<and> length frames \<le> pieces (length (picked_bytes file))
           \<or> commit = [Sent_command (File_commit i)] \<and> length frames = pieces (length (picked_bytes file))))"

lemma command_stopped: "\<not> fc_alive (snd s) \<Longrightarrow> command H r s = (s, stopped)"
  by (simp add: command_def)

lemma upload_body_trace:
  assumes "upload_body H inst i resumed file c s = (s', trace, out)"
  shows "upload_trace H inst i resumed file c trace"
proof (cases "fc_alive (snd s)")
  case False
  then show ?thesis using assms by (simp add: upload_body_def logged_def command_stopped stopped_def plain_error_def upload_trace_def)
next
  case True
  let ?prep = "Sent_command (prepare_request i c file)"
  have "trace = [?prep] \<or> (resumed \<and> trace = [?prep, Sent_command (File_commit i)])
    \<or> (\<exists>s1 s2 t o2. send_pieces H inst i file 0 0 s1 [?prep] = (s2, t, o2) \<and> (trace = t \<or> o2 = Inr () \<and> trace = t @ [Sent_command (File_commit i)]))"
  proof -
    obtain s1 r1 where c1: "command H (prepare_request i c file) s = (s1, r1)" by (metis prod.exhaust)
    show ?thesis
    proof (cases r1)
      case (Inl e)
      then show ?thesis using assms True c1 by (simp add: upload_body_def logged_def)
    next
      case (Inr prepared)
      obtain s2 t o2 where p: "send_pieces H inst i file 0 0 s1 [?prep] = (s2, t, o2)" by (metis prod.exhaust)
      consider (shared) "list_ex (\<lambda>f. info_id f = i \<and> info_state f = File_complete) (snap_files prepared)"
        | (reused) "resumed" "\<not> list_ex (\<lambda>f. info_id f = i \<and> info_state f = File_complete) (snap_files prepared)"
            "\<not> list_ex (\<lambda>f. info_id f = i) (snap_files prepared)"
        | (anew) "\<not> list_ex (\<lambda>f. info_id f = i \<and> info_state f = File_complete) (snap_files prepared)"
            "\<not> (resumed \<and> \<not> list_ex (\<lambda>f. info_id f = i) (snap_files prepared))" by blast
      then show ?thesis
      proof cases
        case shared
        then show ?thesis using assms True c1 Inr by (simp add: upload_body_def logged_def Let_def)
      next
        case reused
        then show ?thesis using assms True c1 Inr
          by (auto simp: upload_body_def logged_def Let_def split: prod.splits sum.splits if_splits)
      next
        case anew
        have "trace = t \<or> o2 = Inr () \<and> trace = t @ [Sent_command (File_commit i)]"
          using assms True c1 Inr anew p
          by (cases o2) (auto simp: upload_body_def logged_def Let_def simp del: not_ex split: prod.splits sum.splits if_splits)
        then show ?thesis using p by blast
      qed
    qed
  qed
  then show ?thesis
  proof (elim disjE conjE exE)
    assume "trace = [?prep]"
    then show ?thesis unfolding upload_trace_def by (intro disjI2 exI [of _ "[]"]) simp
  next
    assume "resumed" "trace = [?prep, Sent_command (File_commit i)]"
    then show ?thesis by (simp add: upload_trace_def)
  next
    fix s1 s2 t o2 assume p: "send_pieces H inst i file 0 0 s1 [?prep] = (s2, t, o2)" "trace = t"
    from send_pieces_trace [OF p(1)] obtain frames where "t = ?prep # map Sent_frame frames"
      "length frames \<le> pieces (length (picked_bytes file))" "map Inr frames = map (encoded_piece H inst i file) [0..<length frames]"
      by auto
    then show ?thesis using p(2) unfolding upload_trace_def by (intro disjI2 exI [of _ frames] exI [of _ "[]"]) simp
  next
    fix s1 s2 t o2 assume p: "send_pieces H inst i file 0 0 s1 [?prep] = (s2, t, o2)" "o2 = Inr ()" "trace = t @ [Sent_command (File_commit i)]"
    from send_pieces_trace [OF p(1)] p(2) obtain frames where "t = ?prep # map Sent_frame frames"
      "length frames = pieces (length (picked_bytes file))" "map Inr frames = map (encoded_piece H inst i file) [0..<length frames]"
      by auto
    then show ?thesis using p(3) unfolding upload_trace_def
      by (intro disjI2 exI [of _ frames] exI [of _ "[Sent_command (File_commit i)]"]) simp
  qed
qed

section \<open>Properties\<close>


definition no_files :: file_snapshot where
  "no_files = \<lparr>snap_files = [], snap_quota_bytes = ''1'', snap_used_bytes = ''0'', snap_retention_days = 7\<rparr>"

definition quiet_host :: "nat file_host" where
  "quiet_host = \<lparr>request_of = (\<lambda>s r. (s, Inr (R_files no_files))), exchange_of = (\<lambda>s f. (s, Inr [])),
     save_of = (\<lambda>s i. (s, Inr [])), slice_of = (\<lambda>s pos. (s, Inr ())), pending_refresh = (\<lambda>s. (s, Inr ())),
     sleep_of = (\<lambda>s n. s), clock_of = (\<lambda>w. 0), percent_of = (\<lambda>a b. ''0''), header_text = (\<lambda>h. [0x7B, 0x7D])\<rparr>"

lemma quiet_command: "fc_alive f \<Longrightarrow> command quiet_host r (w, f) = (accept_snapshot quiet_host r (fc_mutations f) no_files (w, f), Inr no_files)"
  by (simp add: command_def quiet_host_def)

lemma quiet_refresh: "fc_alive f \<Longrightarrow> \<not> fc_refreshing f \<Longrightarrow> refresh_files quiet_host (w, f) =
    Some (set_refreshing False (accept_snapshot quiet_host (File_list None) (fc_mutations f) no_files (set_refreshing True (w, f))), Inr ())"
  by (subst refresh_files.simps) (simp add: quiet_command set_refreshing_def)

lemmas controller_eval = show_value_def show_notice_def show_progress_def accept_snapshot_def set_refreshing_def logged_def
  new_controller_def emptyFiles_def Let_def




end
