(* ===== verification/Idle_Updates.thy ===== *)
theory Idle_Updates
  imports Complex_Main Prelude
begin

text \<open>
  \<open>ui/src/idle-updates.ts\<close> and the update part of \<open>ui/src/native-shell.ts\<close>: when the client installs
  an update by itself.  \<open>poll\<close> awaits twice, so it is three steps; a poll that is suspended is a frame,
  and any number of frames may be suspended.  Every reading of the clock is an argument of its own, a
  number without rounding; the callbacks \<open>busy\<close> and \<open>activation\<close> return, the first one's result is an
  argument and the calls of the second are part of the output.
\<close>

section \<open>The code\<close>

record running_version =
  running_number :: string
  running_release :: string
  running_gchat :: string
  running_gcoms :: string

record update_status =
  update_state :: string
  update_installable :: "bool option"
  update_version :: "string option"
  update_downloaded :: real
  update_total :: "real option"
  update_message :: string
  update_running :: "running_version option"

text \<open>\<open>None\<close> is \<open>undefined\<close>.\<close>

definition canInstallUpdate :: "update_status option \<Rightarrow> bool" where
  "canInstallUpdate status =
     (if map_option update_state status = Some ''ready'' then Option.bind status update_installable \<noteq> Some False
      else map_option update_state status = Some ''deferred'' \<and> Option.bind status update_installable = Some True)"

record idle_updates =
  quiet_since :: real
  retry_at :: real
  poll_checking :: bool

definition new_idle :: "real \<Rightarrow> idle_updates" where
  "new_idle now = \<lparr>quiet_since = now, retry_at = 0, poll_checking = False\<rparr>"

definition idle_activity :: "real \<Rightarrow> idle_updates \<Rightarrow> idle_updates" where
  "idle_activity now c = c\<lparr>quiet_since := now\<rparr>"

text \<open>What \<open>poll\<close> calls, and what a suspended \<open>poll\<close> awaits.\<close>

datatype idle_call = Call_status | Call_install | Activation bool

datatype idle_frame = Awaiting_status | Awaiting_install

type_synonym poll_result = "idle_updates \<times> idle_call list \<times> idle_frame option"

definition poll_finally :: "idle_updates \<Rightarrow> poll_result" where
  "poll_finally c = (c\<lparr>poll_checking := False\<rparr>, [Activation False], None)"

definition poll_failed :: "real \<Rightarrow> idle_updates \<Rightarrow> poll_result" where
  "poll_failed now c = poll_finally (c\<lparr>retry_at := now + 60000\<rparr>)"

text \<open>From the call of \<open>poll\<close> to \<open>await updates.status()\<close>, ...\<close>

definition poll_start :: "bool \<Rightarrow> bool \<Rightarrow> real \<Rightarrow> real \<Rightarrow> idle_updates \<Rightarrow> poll_result" where
  "poll_start updates busy now now' c =
     (if busy then (idle_activity now c, [], None)
      else if \<not> updates \<or> poll_checking c \<or> now - quiet_since c < 30000 \<or> now' < retry_at c then (c, [], None)
      else (c\<lparr>poll_checking := True\<rparr>, [Call_status], Some Awaiting_status))"

text \<open>... from there to \<open>await updates.install()\<close>, ...\<close>

definition poll_status :: "(unit, update_status option) result \<Rightarrow> bool \<Rightarrow> real \<Rightarrow> real \<Rightarrow> idle_updates \<Rightarrow> poll_result" where
  "poll_status reply busy now now' c =
     (case reply of
        Inl _ \<Rightarrow> poll_failed now c
      | Inr status \<Rightarrow>
          if busy \<or> now - quiet_since c < 30000 then poll_finally c
          else if canInstallUpdate status
          then (c\<lparr>retry_at := now' + 60000\<rparr>, [Activation True, Call_install], Some Awaiting_install)
          else poll_finally c)"

text \<open>... and the rest.\<close>

definition poll_installed :: "(unit, unit) result \<Rightarrow> real \<Rightarrow> idle_updates \<Rightarrow> poll_result" where
  "poll_installed reply now c = (case reply of Inl _ \<Rightarrow> poll_failed now c | Inr _ \<Rightarrow> poll_finally c)"

section \<open>Runs\<close>

record idle_world =
  idle_controller :: idle_updates
  idle_frames :: "idle_frame list"
  idle_clock :: real

datatype idle_event =
    Input real
  | Poll bool bool real real
  | Status_reply nat "(unit, update_status option) result" bool real real
  | Install_reply nat "(unit, unit) result" real

fun event_times :: "idle_event \<Rightarrow> real list" where
  "event_times (Input t) = [t]"
| "event_times (Poll _ _ t t') = [t, t']"
| "event_times (Status_reply _ _ _ t t') = [t, t']"
| "event_times (Install_reply _ _ t) = [t]"

definition drop_nth :: "nat \<Rightarrow> 'a list \<Rightarrow> 'a list" where
  "drop_nth i xs = take i xs @ drop (Suc i) xs"

fun idle_turn :: "idle_event \<Rightarrow> idle_updates \<Rightarrow> poll_result" where
  "idle_turn (Input t) c = (idle_activity t c, [], None)"
| "idle_turn (Poll updates busy t t') c = poll_start updates busy t t' c"
| "idle_turn (Status_reply _ reply busy t t') c = poll_status reply busy t t' c"
| "idle_turn (Install_reply _ reply t) c = poll_installed reply t c"

fun resumed_frames :: "idle_event \<Rightarrow> idle_frame list \<Rightarrow> idle_frame list" where
  "resumed_frames (Status_reply i _ _ _ _) fs = drop_nth i fs"
| "resumed_frames (Install_reply i _ _) fs = drop_nth i fs"
| "resumed_frames _ fs = fs"

definition idle_step :: "idle_event \<Rightarrow> idle_world \<Rightarrow> idle_world \<times> idle_call list" where
  "idle_step e w =
     (case idle_turn e (idle_controller w) of
        (c, calls, f) \<Rightarrow>
          (\<lparr>idle_controller = c,
            idle_frames = resumed_frames e (idle_frames w) @ (case f of None \<Rightarrow> [] | Some f \<Rightarrow> [f]),
            idle_clock = last (event_times e)\<rparr>, calls))"

text \<open>An event can happen when the clock has not gone back and, for a reply, a frame awaits it.\<close>

fun awaited :: "idle_event \<Rightarrow> idle_frame list \<Rightarrow> bool" where
  "awaited (Status_reply i _ _ _ _) fs \<longleftrightarrow> i < length fs \<and> fs ! i = Awaiting_status"
| "awaited (Install_reply i _ _) fs \<longleftrightarrow> i < length fs \<and> fs ! i = Awaiting_install"
| "awaited _ _ \<longleftrightarrow> True"

definition idle_possible :: "idle_event \<Rightarrow> idle_world \<Rightarrow> bool" where
  "idle_possible e w \<longleftrightarrow> sorted (idle_clock w # event_times e) \<and> awaited e (idle_frames w)"

type_synonym idle_log = "(idle_event \<times> idle_call list) list"

inductive idle_run :: "real \<Rightarrow> idle_log \<Rightarrow> idle_world \<Rightarrow> bool" for start where
  new: "idle_run start [] \<lparr>idle_controller = new_idle start, idle_frames = [], idle_clock = start\<rparr>"
| step: "idle_run start l w \<Longrightarrow> idle_possible e w \<Longrightarrow> idle_step e w = (w', calls) \<Longrightarrow> idle_run start (l @ [(e, calls)]) w'"

section \<open>What a log says\<close>

text \<open>The times of input and of polls that found the client busy; the times of attempts, which are
  installations that were started and native requests that failed.\<close>

fun activity_times :: "idle_event \<Rightarrow> real list" where
  "activity_times (Input t) = [t]"
| "activity_times (Poll _ True t _) = [t]"
| "activity_times _ = []"

fun attempt_times :: "idle_event \<times> idle_call list \<Rightarrow> real list" where
  "attempt_times (Status_reply _ (Inl _) _ t _, _) = [t]"
| "attempt_times (Status_reply _ _ _ _ t', calls) = (if Call_install \<in> set calls then [t'] else [])"
| "attempt_times (Install_reply _ (Inl _) t, _) = [t]"
| "attempt_times _ = []"

definition activities :: "real \<Rightarrow> idle_log \<Rightarrow> real list" where
  "activities start l = start # concat (map (activity_times \<circ> fst) l)"

definition attempts :: "idle_log \<Rightarrow> real list" where
  "attempts l = concat (map attempt_times l)"

definition calls_of :: "idle_call \<Rightarrow> idle_log \<Rightarrow> nat" where
  "calls_of c l = length (filter (\<lambda>x. x = c) (concat (map snd l)))"

fun is_status_reply :: "idle_event \<Rightarrow> bool" where
  "is_status_reply (Status_reply _ _ _ _ _) = True"
| "is_status_reply _ = False"

fun is_install_reply :: "idle_event \<Rightarrow> bool" where
  "is_install_reply (Install_reply _ _ _) = True"
| "is_install_reply _ = False"

definition status_replies :: "idle_log \<Rightarrow> nat" where
  "status_replies l = length (filter (is_status_reply \<circ> fst) l)"

definition install_replies :: "idle_log \<Rightarrow> nat" where
  "install_replies l = length (filter (is_install_reply \<circ> fst) l)"

text \<open>Whether input is blocked: the argument of the last call of \<open>activation\<close>.\<close>

definition shielded :: "idle_log \<Rightarrow> bool" where
  "shielded l = foldl (\<lambda>b c. case c of Activation x \<Rightarrow> x | _ \<Rightarrow> b) False (concat (map snd l))"

lemma log_snoc:
  "activities start (l @ [(e, cs)]) = activities start l @ activity_times e"
  "attempts (l @ [(e, cs)]) = attempts l @ attempt_times (e, cs)"
  "calls_of c (l @ [(e, cs)]) = calls_of c l + length (filter (\<lambda>x. x = c) cs)"
  "status_replies (l @ [(e, cs)]) = status_replies l + (if is_status_reply e then 1 else 0)"
  "install_replies (l @ [(e, cs)]) = install_replies l + (if is_install_reply e then 1 else 0)"
  "shielded (l @ [(e, cs)]) = foldl (\<lambda>b c. case c of Activation x \<Rightarrow> x | _ \<Rightarrow> b) (shielded l) cs"
  by (simp_all add: activities_def attempts_def calls_of_def status_replies_def install_replies_def shielded_def)

lemma log_nil:
  "activities start [] = [start]" "attempts [] = []" "calls_of c [] = 0" "status_replies [] = 0"
  "install_replies [] = 0" "shielded [] = False"
  by (simp_all add: activities_def attempts_def calls_of_def status_replies_def install_replies_def shielded_def)

section \<open>The invariant\<close>

definition retry_time :: "real list \<Rightarrow> real" where
  "retry_time rs = (if rs = [] then 0 else last rs + 60000)"

text \<open>The clocks of the controller are what the log says they are ...\<close>

definition idle_clocks :: "real \<Rightarrow> idle_log \<Rightarrow> idle_world \<Rightarrow> bool" where
  "idle_clocks start l w \<longleftrightarrow>
     quiet_since (idle_controller w) = last (activities start l) \<and>
     retry_at (idle_controller w) = retry_time (attempts l) \<and>
     sorted (activities start l @ [idle_clock w]) \<and> sorted (attempts l @ [idle_clock w])"

text \<open>... and at most one poll is suspended, awaiting what was called and not answered; the last attempt
  is a minute old when the status is awaited.\<close>

definition idle_flight :: "idle_log \<Rightarrow> idle_world \<Rightarrow> bool" where
  "idle_flight l w \<longleftrightarrow>
     (if poll_checking (idle_controller w)
      then (idle_frames w = [Awaiting_status] \<and> calls_of Call_status l = Suc (status_replies l) \<and>
            calls_of Call_install l = install_replies l \<and> \<not> shielded l \<and> retry_at (idle_controller w) \<le> idle_clock w)
         \<or> (idle_frames w = [Awaiting_install] \<and> calls_of Call_status l = status_replies l \<and>
            calls_of Call_install l = Suc (install_replies l) \<and> shielded l)
      else idle_frames w = [] \<and> calls_of Call_status l = status_replies l \<and> calls_of Call_install l = install_replies l
         \<and> \<not> shielded l)"

lemmas poll_defs = poll_start_def poll_status_def poll_installed_def poll_failed_def poll_finally_def idle_activity_def

lemma sorted_log:
  "sorted (xs @ [c]) \<Longrightarrow> sorted (c # ys) \<Longrightarrow> set zs \<subseteq> set ys \<Longrightarrow> sorted zs \<Longrightarrow> ys \<noteq> [] \<Longrightarrow> sorted ((xs @ zs) @ [last ys])"
  for c :: "'a::linorder"
  by (induction ys rule: rev_induct) (fastforce simp: sorted_append)+

lemma activity_times_poll: "activity_times (Poll u b t t') = (if b then [t] else [])"
  by (cases b) simp_all

lemma attempt_times_reply:
  "attempt_times (Status_reply i r b t t', cs) =
     (case r of Inl _ \<Rightarrow> [t] | Inr _ \<Rightarrow> if Call_install \<in> set cs then [t'] else [])"
  "attempt_times (Install_reply i q t, cs) = (case q of Inl _ \<Rightarrow> [t] | Inr _ \<Rightarrow> [])"
  by (cases r; simp) (cases q; simp)

lemma activity_times_of:
  "set (activity_times e) \<subseteq> set (event_times e)" "sorted (activity_times e)"
  by (cases e; auto simp: activity_times_poll)+

lemma attempt_times_of:
  "set (attempt_times (e, cs)) \<subseteq> set (event_times e)" "sorted (attempt_times (e, cs))"
  by (cases e; auto simp: attempt_times_reply split: sum.split)+

lemma event_times_nonempty [simp]: "event_times e \<noteq> []"
  by (cases e) auto

lemma turn_quiet:
  "idle_turn e c = (c', cs, f) \<Longrightarrow> quiet_since c' = (if activity_times e = [] then quiet_since c else last (activity_times e))"
  by (cases e) (auto simp: poll_defs activity_times_poll split: if_splits sum.splits)

lemma turn_retry:
  "idle_turn e c = (c', cs, f) \<Longrightarrow>
     retry_at c' = (if attempt_times (e, cs) = [] then retry_at c else last (attempt_times (e, cs)) + 60000)"
  by (cases e) (auto simp: poll_defs attempt_times_reply split: if_splits sum.splits)

lemma idle_clocks_step:
  assumes "idle_clocks start l w" "idle_possible e w" "idle_step e w = (w', cs)"
  shows "idle_clocks start (l @ [(e, cs)]) w'"
proof -
  obtain c f where t: "idle_turn e (idle_controller w) = (c, cs, f)" "idle_controller w' = c"
    "idle_clock w' = last (event_times e)"
    using assms(3) by (auto simp: idle_step_def split: prod.splits)
  have s: "sorted (idle_clock w # event_times e)" using assms(2) by (simp add: idle_possible_def)
  have "activities start l \<noteq> []" by (simp add: activities_def)
  then show ?thesis
    using assms(1) turn_quiet [OF t(1)] turn_retry [OF t(1)]
      sorted_log [OF _ s activity_times_of(1) activity_times_of(2), of "activities start l"]
      sorted_log [OF _ s attempt_times_of(1) attempt_times_of(2), of "attempts l"]
    unfolding idle_clocks_def log_snoc t(2,3) retry_time_def by simp
qed

text \<open>The calls of a turn with the frame it leaves, by what was awaited.\<close>

lemma idle_flight_start:
  assumes "idle_flight l w" "idle_possible e w" "idle_step e w = (w', cs)" "e = Input t \<or> e = Poll u b t t'"
  shows "idle_flight (l @ [(e, cs)]) w'"
proof (cases "cs = []")
  case True
  then have "poll_checking (idle_controller w') = poll_checking (idle_controller w)" "idle_frames w' = idle_frames w"
      "retry_at (idle_controller w') = retry_at (idle_controller w)" "idle_clock w \<le> idle_clock w'"
    using assms(2-4) by (auto simp: idle_step_def idle_possible_def poll_start_def idle_activity_def split: if_splits)
  then show ?thesis using assms(1,4) True by (auto simp: idle_flight_def log_snoc)
next
  case False
  then have "\<not> poll_checking (idle_controller w)" "poll_checking (idle_controller w')" "cs = [Call_status]"
      "idle_frames w' = idle_frames w @ [Awaiting_status]" "retry_at (idle_controller w') \<le> idle_clock w'" "e = Poll u b t t'"
    using assms(3,4) by (auto simp: idle_step_def poll_start_def idle_activity_def split: if_splits)
  then show ?thesis using assms(1) by (simp add: idle_flight_def log_snoc)
qed

lemma idle_flight_status:
  assumes "idle_flight l w" "idle_possible e w" "idle_step e w = (w', cs)" "e = Status_reply i r b t t'"
  shows "idle_flight (l @ [(e, cs)]) w'"
proof -
  have fl: "idle_frames w = [Awaiting_status]" "i = 0" "poll_checking (idle_controller w)"
    using assms(1,2,4) by (auto simp: idle_flight_def idle_possible_def split: if_splits)
  then consider "cs = [Activation False]" "\<not> poll_checking (idle_controller w')" "idle_frames w' = []"
    | "cs = [Activation True, Call_install]" "poll_checking (idle_controller w')" "idle_frames w' = [Awaiting_install]"
    using assms(3,4)
    by (auto simp: idle_step_def drop_nth_def poll_status_def poll_failed_def poll_finally_def split: if_splits sum.splits)
  then show ?thesis using assms(1,4) fl by cases (simp_all add: idle_flight_def log_snoc)
qed

lemma idle_flight_install:
  assumes "idle_flight l w" "idle_possible e w" "idle_step e w = (w', cs)" "e = Install_reply i r t"
  shows "idle_flight (l @ [(e, cs)]) w'"
proof -
  have fl: "idle_frames w = [Awaiting_install]" "i = 0" "poll_checking (idle_controller w)"
    using assms(1,2,4) by (auto simp: idle_flight_def idle_possible_def split: if_splits)
  then have "cs = [Activation False]" "\<not> poll_checking (idle_controller w')" "idle_frames w' = []"
    using assms(3,4)
    by (auto simp: idle_step_def drop_nth_def poll_installed_def poll_failed_def poll_finally_def split: sum.splits)
  then show ?thesis using assms(1,4) fl by (simp add: idle_flight_def log_snoc)
qed

lemma idle_flight_step:
  assumes "idle_flight l w" "idle_possible e w" "idle_step e w = (w', cs)"
  shows "idle_flight (l @ [(e, cs)]) w'"
  using idle_flight_start [OF assms] idle_flight_status [OF assms] idle_flight_install [OF assms] by (cases e) blast+

lemma idle_invariant: "idle_run start l w \<Longrightarrow> idle_clocks start l w \<and> idle_flight l w"
proof (induction rule: idle_run.induct)
  case new
  show ?case by (simp add: idle_clocks_def idle_flight_def log_nil new_idle_def retry_time_def)
next
  case (step l w e w' calls)
  then show ?case using idle_clocks_step idle_flight_step by blast
qed

lemma sorted_last: "sorted xs \<Longrightarrow> x \<in> set xs \<Longrightarrow> x \<le> last xs" for x :: "'a::linorder"
  by (induction xs rule: rev_induct) (auto simp: sorted_append)

lemma idle_clocks_elapsed:
  assumes "idle_clocks start l w"
  shows "a \<in> set (activities start l) \<Longrightarrow> a \<le> quiet_since (idle_controller w)"
    and "r \<in> set (attempts l) \<Longrightarrow> r + 60000 \<le> retry_at (idle_controller w)"
  using assms sorted_last [of "activities start l" a] sorted_last [of "attempts l" r]
  by (auto simp: idle_clocks_def retry_time_def sorted_append)

inductive_cases run_snocE: "idle_run start (l @ [x]) w"

section \<open>When an update is installed\<close>

lemma turn_installs:
  assumes "idle_turn e c = (c', cs, f)" "Call_install \<in> set cs"
  obtains i status t t' where "e = Status_reply i (Inr status) False t t'" "cs = [Activation True, Call_install]"
    "canInstallUpdate status" "30000 \<le> t - quiet_since c"
  using assms by (cases e) (auto simp: poll_defs split: if_splits sum.splits)

text \<open>C20: An installation is started only for an update the service has just reported as installable, when the
  client is not busy, input is blocked first, for 30 seconds there was no input and no poll found the
  client busy, for 60 seconds no installation was started and no native request failed, and every
  earlier request was answered.\<close>

theorem installs_only_when_idle:
  assumes "idle_run start (l @ [(e, cs)]) w" "Call_install \<in> set cs"
  shows "\<exists>i status t t'. e = Status_reply i (Inr status) False t t' \<and> canInstallUpdate status
    \<and> cs = [Activation True, Call_install]
    \<and> list_all (\<lambda>a. a + 30000 \<le> t) (activities start l) \<and> list_all (\<lambda>r. r + 60000 \<le> t) (attempts l)
    \<and> calls_of Call_install l = install_replies l \<and> calls_of Call_status l = Suc (status_replies l)"
proof -
  obtain v where v: "idle_run start l v" "idle_possible e v" "idle_step e v = (w, cs)"
    using assms(1) by (auto elim: run_snocE)
  obtain c f where turn: "idle_turn e (idle_controller v) = (c, cs, f)"
    using v(3) by (auto simp: idle_step_def split: prod.splits)
  from turn assms(2) obtain i status t t' where e: "e = Status_reply i (Inr status) False t t'"
    "cs = [Activation True, Call_install]" "canInstallUpdate status" "30000 \<le> t - quiet_since (idle_controller v)"
    by (rule turn_installs)
  have inv: "idle_clocks start l v" "idle_flight l v" using idle_invariant [OF v(1)] by auto
  have "retry_at (idle_controller v) \<le> t" "calls_of Call_install l = install_replies l"
    "calls_of Call_status l = Suc (status_replies l)"
    using inv(2) v(2) e(1) by (auto simp: idle_flight_def idle_possible_def split: if_splits)
  then show ?thesis
    using e idle_clocks_elapsed [OF inv(1)] by (fastforce simp: list_all_iff)
qed

definition ready_status :: update_status where
  "ready_status = \<lparr>update_state = ''ready'', update_installable = None, update_version = None, update_downloaded = 0,
     update_total = None, update_message = [], update_running = None\<rparr>"

abbreviation ready_poll :: "idle_event \<times> idle_call list" where
  "ready_poll \<equiv> (Poll True False 30000 30001, [Call_status])"

abbreviation ready_reply :: idle_event where
  "ready_reply \<equiv> Status_reply 0 (Inr (Some ready_status)) False 30002 30003"

lemma ready_run: "\<exists>w. idle_run 0 ([ready_poll] @ [(ready_reply, [Activation True, Call_install])]) w"
proof -
  have polled: "idle_run 0 ([] @ [ready_poll])
      \<lparr>idle_controller = \<lparr>quiet_since = 0, retry_at = 0, poll_checking = True\<rparr>, idle_frames = [Awaiting_status],
       idle_clock = 30001\<rparr>"
    by (rule idle_run.step [OF idle_run.new])
      (simp_all add: idle_possible_def idle_step_def poll_start_def new_idle_def)
  show ?thesis
    by (rule exI, rule idle_run.step [OF polled [unfolded append_Nil]])
      (simp_all add: idle_possible_def idle_step_def poll_status_def canInstallUpdate_def ready_status_def)
qed

theorem installs_only_when_idle_witness:
  "\<exists>i status t t'. ready_reply = Status_reply i (Inr status) False t t' \<and> canInstallUpdate status
    \<and> [Activation True, Call_install] = [Activation True, Call_install]
    \<and> list_all (\<lambda>a. a + 30000 \<le> t) (activities 0 [ready_poll]) \<and> list_all (\<lambda>r. r + 60000 \<le> t) (attempts [ready_poll])
    \<and> calls_of Call_install [ready_poll] = install_replies [ready_poll]
    \<and> calls_of Call_status [ready_poll] = Suc (status_replies [ready_poll])"
proof -
  obtain w where "idle_run 0 ([ready_poll] @ [(ready_reply, [Activation True, Call_install])]) w"
    using ready_run by blast
  then show ?thesis by (rule installs_only_when_idle) simp
qed

text \<open>C30: An update is not starved: after any run in which every call was answered, a poll that comes 30
  seconds after the last activity and 60 seconds after the last attempt asks for the status, and when an
  installable one is reported and nothing happened in between, the installation starts.\<close>

theorem idle_update_installs:
  assumes "idle_run start l w" "0 \<le> start"
    and "calls_of Call_status l = status_replies l" "calls_of Call_install l = install_replies l"
    and "last (activities start l) + 30000 \<le> t" "attempts l = [] \<or> last (attempts l) + 60000 \<le> t"
    and "idle_clock w \<le> t" "t \<le> t'" "t' \<le> u" "u \<le> u'" "canInstallUpdate status"
  shows "\<exists>w'. idle_run start (l @ [(Poll True False t t', [Call_status]),
      (Status_reply 0 (Inr status) False u u', [Activation True, Call_install])]) w'"
proof -
  have inv: "idle_clocks start l w" "idle_flight l w" using idle_invariant [OF assms(1)] by auto
  have idle: "idle_frames w = []" "\<not> poll_checking (idle_controller w)"
    using inv(2) assms(3,4) by (auto simp: idle_flight_def split: if_splits)
  have clocks: "30000 \<le> t - quiet_since (idle_controller w)" "start \<le> idle_clock w"
    using inv(1) assms(5) by (auto simp: idle_clocks_def sorted_append activities_def)
  have retry: "retry_at (idle_controller w) \<le> t"
    using inv(1) assms(2,6,7) clocks(2) by (auto simp: idle_clocks_def retry_time_def)
  let ?w = "\<lparr>idle_controller = (idle_controller w)\<lparr>poll_checking := True\<rparr>, idle_frames = [Awaiting_status], idle_clock = t'\<rparr>"
  have one: "idle_run start (l @ [(Poll True False t t', [Call_status])]) ?w"
    using assms(7,8) idle clocks(1) retry
    by (intro idle_run.step [OF assms(1)]) (auto simp: idle_possible_def idle_step_def poll_start_def)
  have "\<exists>w'. idle_step (Status_reply 0 (Inr status) False u u') ?w = (w', [Activation True, Call_install])"
    using assms(8,9,11) clocks(1) by (simp add: idle_step_def poll_status_def)
  moreover have "idle_possible (Status_reply 0 (Inr status) False u u') ?w"
    using assms(9,10) by (simp add: idle_possible_def)
  ultimately show ?thesis using idle_run.step [OF one] by fastforce
qed

theorem idle_update_installs_witness:
  "\<exists>w'. idle_run 0 ([] @ [ready_poll, (ready_reply, [Activation True, Call_install])]) w'"
  by (rule idle_update_installs [OF idle_run.new])
    (simp_all add: log_nil canInstallUpdate_def ready_status_def)

text \<open>Input is blocked exactly while an installation runs.\<close>

theorem shielded_while_installing:
  "idle_run start l w \<Longrightarrow> shielded l \<longleftrightarrow> calls_of Call_install l = Suc (install_replies l)"
  using idle_invariant [of start l w] by (auto simp: idle_flight_def split: if_splits)

end
