(* ===== verification/Mentions.thy ===== *)
theory Mentions
  imports Utf8
begin

text \<open>
  \<open>ui/src/mentions.ts\<close>: completing a mention from the roster.  The texts are code units; the regular
  expressions match by code point, but every class excludes or holds whole characters below the
  surrogates only, so matching by unit is the same.  The caret is the composer's, a position of the
  text, and \<open>toLocaleLowerCase\<close> is a parameter.
\<close>

section \<open>The code\<close>

abbreviation at_sign :: "16 word" where "at_sign \<equiv> 0x40"

text \<open>The characters \<open>. , ; : ! ? ( ) [ ] { } < >\<close> and white space.\<close>

definition mark :: "16 word \<Rightarrow> bool" where
  "mark u \<longleftrightarrow> white u \<or> u \<in> {0x2E, 0x2C, 0x3B, 0x3A, 0x21, 0x3F, 0x28, 0x29, 0x5B, 0x5D, 0x7B, 0x7D, 0x3C, 0x3E}"

definition mention_unit :: "16 word \<Rightarrow> bool" where
  "mention_unit u \<longleftrightarrow> \<not> mark u \<and> u \<noteq> at_sign"

definition opener :: "16 word \<Rightarrow> bool" where
  "opener u \<longleftrightarrow> white u \<or> u \<in> {0x28, 0x5B, 0x7B}"

text \<open>The first regular expression, its captured group: at every position from the left, the two
  alternatives before the sign and the rest of the text after it.\<close>

fun mention_tail :: "units \<Rightarrow> units option" where
  "mention_tail (u # us) = (if u = at_sign \<and> list_all mention_unit us then Some us else None)"
| "mention_tail [] = None"

fun mention_search :: "bool \<Rightarrow> units \<Rightarrow> units option" where
  "mention_search beginning us =
     (case if beginning then mention_tail us else None of
        Some q \<Rightarrow> Some q
      | None \<Rightarrow>
          (case us of
             [] \<Rightarrow> None
           | u # us' \<Rightarrow> (case if opener u then mention_tail us' else None of
               Some q \<Rightarrow> Some q
             | None \<Rightarrow> mention_search False us')))"

declare mention_search.simps [simp del]

record mention_context =
  mention_start :: nat
  mention_end :: nat
  mention_items :: "units list"

text \<open>\<open>[...new Set(names)]\<close> keeps the first of equal names.\<close>

definition first_occurrences :: "'a list \<Rightarrow> 'a list" where
  "first_occurrences xs = rev (remdups (rev xs))"

definition mentionSuggestions :: "(units \<Rightarrow> units) \<Rightarrow> units \<Rightarrow> nat \<Rightarrow> units list \<Rightarrow> mention_context option" where
  "mentionSuggestions lower draft caret names =
     (case mention_search True (take caret draft) of
        None \<Rightarrow> None
      | Some m \<Rightarrow>
          let start = caret - length m - 1;
              tail = takeWhile mention_unit (drop caret draft);
              query = lower m;
              items = take 12 (filter (\<lambda>name. name \<noteq> [] \<and> list_all mention_unit name \<and> prefix query (lower name))
                        (first_occurrences names))
          in if items \<noteq> []
             then Some \<lparr>mention_start = start, mention_end = caret + length tail, mention_items = items\<rparr>
             else None)"

definition insertMention :: "units \<Rightarrow> nat \<Rightarrow> nat \<Rightarrow> units \<Rightarrow> units \<times> nat" where
  "insertMention draft start stop name =
     (let suffix = drop stop draft;
          insertion = [at_sign] @ name @ (if suffix = [] \<or> \<not> mark (hd suffix) then [32] else [])
      in (take start draft @ insertion @ suffix, start + length insertion))"

section \<open>What the search finds\<close>

text \<open>Independently of the search: a sign at the beginning or after an opening character, and only
  name characters after it.\<close>

definition mention_before :: "units \<Rightarrow> units \<Rightarrow> units \<Rightarrow> bool" where
  "mention_before us before q \<longleftrightarrow>
     us = before @ at_sign # q \<and> list_all mention_unit q \<and> (before = [] \<or> opener (last before))"

lemma not_name_at [simp]: "\<not> mention_unit at_sign"
  by (simp add: mention_unit_def)

lemma opener_mark: "opener u \<Longrightarrow> mark u"
  by (auto simp: opener_def mark_def)

lemma not_opener_at [simp]: "\<not> opener at_sign"
  by (simp add: opener_def white_def word_le_nat_alt)

lemma mention_tail_eq: "mention_tail us = Some q \<longleftrightarrow> us = at_sign # q \<and> list_all mention_unit q"
  by (cases us) auto

lemma mention_search_step:
  "mention_search b us = Some q \<Longrightarrow>
     b \<and> mention_tail us = Some q \<or>
     (\<exists>u us'. us = u # us' \<and> (opener u \<and> mention_tail us' = Some q \<or> mention_search False us' = Some q))"
  by (subst (asm) mention_search.simps) (auto split: option.splits if_splits list.splits)

lemma mention_search_sound:
  "mention_search b us = Some q \<Longrightarrow>
     \<exists>before. us = before @ at_sign # q \<and> list_all mention_unit q \<and> (if before = [] then b else opener (last before))"
proof (induction us arbitrary: b)
  case Nil
  then show ?case using mention_search_step by fastforce
next
  case (Cons u us)
  from mention_search_step [OF Cons.prems] consider
    "b" "u # us = at_sign # q" "list_all mention_unit q" | "opener u" "us = at_sign # q" "list_all mention_unit q"
    | "mention_search False us = Some q"
    by (auto simp: mention_tail_eq simp del: mention_tail.simps)
  then show ?case
  proof cases
    case 1
    then show ?thesis by (intro exI [of _ "[]"]) simp
  next
    case 2
    then show ?thesis by (intro exI [of _ "[u]"]) simp
  next
    case 3
    from Cons.IH [OF this] obtain before where "us = before @ at_sign # q" "list_all mention_unit q" "before \<noteq> []"
      "opener (last before)" by (auto split: if_splits)
    then show ?thesis by (intro exI [of _ "u # before"]) simp
  qed
qed

text \<open>The sign is the last one, so there is only one match.\<close>

lemma last_sign_unique:
  assumes "before @ at_sign # q = before' @ at_sign # q'" "list_all mention_unit q" "list_all mention_unit q'"
  shows "before = before' \<and> q = q'"
proof -
  have "takeWhile mention_unit (rev (p @ at_sign # r)) = rev r" if "list_all mention_unit r" for p r
    using that by (auto simp: takeWhile_append list_all_iff)
  then have "rev q = rev q'" using assms by metis
  then show ?thesis using assms(1) by simp
qed

lemma mention_search_complete:
  "us = before @ at_sign # q \<Longrightarrow> list_all mention_unit q \<Longrightarrow> (if before = [] then b else opener (last before)) \<Longrightarrow>
     mention_search b us = Some q"
proof (induction before arbitrary: us b)
  case Nil
  then show ?case by (subst mention_search.simps) simp
next
  case (Cons u before)
  have us: "us = u # (before @ at_sign # q)" using Cons.prems(1) by simp
  have no: "mention_tail us = None"
    using us Cons.prems(2) by (cases "mention_tail us") (auto simp: mention_tail_eq)
  show ?case
  proof (cases "before = []")
    case True
    then show ?thesis using us no Cons.prems by (subst mention_search.simps) simp
  next
    case False
    then have "mention_tail (before @ at_sign # q) = None"
      by (cases before) (auto simp: list_all_iff)
    moreover have "mention_search False (before @ at_sign # q) = Some q"
      using Cons.IH [OF refl Cons.prems(2), of False] Cons.prems(3) False by simp
    ultimately show ?thesis using us no by (subst mention_search.simps) simp
  qed
qed

lemma mention_search_iff: "mention_search True us = Some q \<longleftrightarrow> (\<exists>before. mention_before us before q)"
proof
  assume "mention_search True us = Some q"
  then show "\<exists>before. mention_before us before q"
    using mention_search_sound [of True us q] by (auto simp: mention_before_def split: if_splits)
next
  assume "\<exists>before. mention_before us before q"
  then show "mention_search True us = Some q"
    using mention_search_complete [of us _ q True] by (auto simp: mention_before_def)
qed

section \<open>Completing a mention\<close>

lemma set_first_occurrences [simp]: "set (first_occurrences xs) = set xs"
  by (simp add: first_occurrences_def)

lemma distinct_first_occurrences [simp]: "distinct (first_occurrences xs)"
  by (simp add: first_occurrences_def)

lemma mention_unit_no_mark: "mark u \<longleftrightarrow> \<not> mention_unit u \<and> u \<noteq> at_sign"
  by (auto simp: mention_unit_def mark_def white_def word_le_nat_alt)

lemma takeWhile_split:
  "\<exists>rest. xs = takeWhile P xs @ rest \<and> (rest = [] \<or> \<not> P (hd rest))"
  by (rule exI [of _ "dropWhile P xs"]) (use hd_dropWhile [of P xs] in auto)

lemma mentionSuggestions_SomeD:
  assumes "mentionSuggestions lower draft caret names = Some m"
  obtains query where "mention_search True (take caret draft) = Some query" "mention_items m \<noteq> []"
    "mention_items m = take 12 (filter (\<lambda>name. name \<noteq> [] \<and> list_all mention_unit name \<and> prefix (lower query) (lower name))
       (first_occurrences names))"
    "mention_start m = caret - length query - 1"
    "mention_end m = caret + length (takeWhile mention_unit (drop caret draft))"
  using assms by (auto simp: mentionSuggestions_def Let_def split: option.splits if_splits)

text \<open>C28: Each of the at most twelve distinct suggestions is a name of the roster that can stand in a mention
  and begins, whatever the capitals, with what is typed between the sign and the caret.  Inserting it
  replaces exactly the mention the caret stands in: what was before the sign and after the mention
  stays, the name is followed by a delimiter or a space, the caret comes after it, and the result is
  again a mention, of that name.\<close>

theorem mention_completes:
  assumes "mentionSuggestions lower draft caret names = Some m" "caret \<le> length draft" "name \<in> set (mention_items m)"
  shows "name \<in> set names \<and> name \<noteq> [] \<and> list_all mention_unit name \<and> distinct (mention_items m)
    \<and> length (mention_items m) \<le> 12
    \<and> (\<exists>before query rest suffix gap.
        draft = before @ [at_sign] @ query @ rest @ suffix \<and> caret = length (before @ [at_sign] @ query)
        \<and> (before = [] \<or> opener (last before)) \<and> list_all mention_unit (query @ rest)
        \<and> (suffix = [] \<or> \<not> mention_unit (hd suffix)) \<and> prefix (lower query) (lower name)
        \<and> gap = (if suffix = [] \<or> hd suffix = at_sign then [32] else [])
        \<and> insertMention draft (mention_start m) (mention_end m) name
            = (before @ [at_sign] @ name @ gap @ suffix, length (before @ [at_sign] @ name @ gap))
        \<and> mention_search True (before @ [at_sign] @ name) = Some name)"
proof -
  obtain query where q: "mention_search True (take caret draft) = Some query"
    "mention_items m = take 12 (filter (\<lambda>name. name \<noteq> [] \<and> list_all mention_unit name \<and> prefix (lower query) (lower name))
       (first_occurrences names))"
    "mention_start m = caret - length query - 1"
    "mention_end m = caret + length (takeWhile mention_unit (drop caret draft))"
    using assms(1) by (rule mentionSuggestions_SomeD)
  obtain before where b: "take caret draft = before @ at_sign # query" "list_all mention_unit query"
    "before = [] \<or> opener (last before)"
    using q(1) by (auto simp: mention_search_iff mention_before_def)
  obtain rest suffix where r: "drop caret draft = rest @ suffix" "rest = takeWhile mention_unit (drop caret draft)"
    "suffix = [] \<or> \<not> mention_unit (hd suffix)"
    using takeWhile_split [of "drop caret draft" mention_unit] by metis
  have n: "name \<in> set names" "name \<noteq> []" "list_all mention_unit name" "prefix (lower query) (lower name)"
    using assms(3) unfolding q(2) by (auto dest: in_set_takeD)
  have caret: "caret = length (before @ [at_sign] @ query)"
    using arg_cong [OF b(1), of length] assms(2) by simp
  have draft: "draft = before @ [at_sign] @ query @ rest @ suffix"
    using append_take_drop_id [of caret draft] b(1) r(1) by simp
  have ends: "mention_start m = length before" "mention_end m = length (before @ [at_sign] @ query @ rest)"
    using q(3,4) caret r(2) by simp_all
  have names: "list_all mention_unit rest" using r(2) by (auto simp: list_all_iff dest: set_takeWhileD)
  have gap: "suffix = [] \<or> \<not> mark (hd suffix) \<longleftrightarrow> suffix = [] \<or> hd suffix = at_sign"
    using r(3) by (auto simp: mention_unit_no_mark)
  have "insertMention draft (mention_start m) (mention_end m) name
      = (before @ [at_sign] @ name @ (if suffix = [] \<or> hd suffix = at_sign then [32] else []) @ suffix,
         length (before @ [at_sign] @ name @ (if suffix = [] \<or> hd suffix = at_sign then [32] else [])))"
    unfolding insertMention_def ends draft by (simp add: Let_def gap)
  moreover have "mention_search True (before @ [at_sign] @ name) = Some name"
    using b(3) n(3) by (auto simp: mention_search_iff mention_before_def)
  moreover have "distinct (mention_items m)" "length (mention_items m) \<le> 12"
    unfolding q(2) by (auto intro: distinct_take)
  ultimately show ?thesis using n b(2,3) r(3) names caret draft
    by (intro conjI exI [of _ before] exI [of _ query] exI [of _ rest] exI [of _ suffix]
      exI [of _ "if suffix = [] \<or> hd suffix = at_sign then [32] else []"]) (assumption | simp)+
qed


text \<open>The roster of the witness: \<open>Ada\<close> and \<open>Iggy\<close>, and the draft \<open>Hi @ad, later\<close> with the caret before the d.\<close>

definition ascii_lower :: "units \<Rightarrow> units" where
  "ascii_lower = map (\<lambda>u. if 0x41 \<le> u \<and> u \<le> 0x5A then u + 32 else u)"

theorem mention_completes_witness:
  "ascii ''Ada'' \<in> set [ascii ''Iggy'', ascii ''Ada''] \<and> ascii ''Ada'' \<noteq> [] \<and> list_all mention_unit (ascii ''Ada'')
    \<and> distinct [ascii ''Ada''] \<and> length [ascii ''Ada''] \<le> 12
    \<and> (\<exists>before query rest suffix gap.
        ascii ''Hi @ad, later'' = before @ [at_sign] @ query @ rest @ suffix \<and> 5 = length (before @ [at_sign] @ query)
        \<and> (before = [] \<or> opener (last before)) \<and> list_all mention_unit (query @ rest)
        \<and> (suffix = [] \<or> \<not> mention_unit (hd suffix)) \<and> prefix (ascii_lower query) (ascii_lower (ascii ''Ada''))
        \<and> gap = (if suffix = [] \<or> hd suffix = at_sign then [32] else [])
        \<and> insertMention (ascii ''Hi @ad, later'') 3 6 (ascii ''Ada'')
            = (before @ [at_sign] @ ascii ''Ada'' @ gap @ suffix, length (before @ [at_sign] @ ascii ''Ada'' @ gap))
        \<and> mention_search True (before @ [at_sign] @ ascii ''Ada'') = Some (ascii ''Ada''))"
proof -
  have m: "mentionSuggestions ascii_lower (ascii ''Hi @ad, later'') 5 [ascii ''Iggy'', ascii ''Ada'']
     = Some \<lparr>mention_start = 3, mention_end = 6, mention_items = [ascii ''Ada'']\<rparr>"
    by code_simp
  show ?thesis
    using mention_completes [OF m, of "ascii ''Ada''"] by (simp add: ascii_def)
qed

end
