(* ===== verification/Timeline.thy ===== *)
theory Timeline
  imports Complex_Main Operation_Results Unread_Highlights
begin

text \<open>
  \<open>ui/src/timeline.ts\<close>: grouping of routine activity, the shortened event text and the label of an
  operation.  The day of a time in the reader's time zone, \<open>new Date(t * 1000).toDateString()\<close>, is a
  parameter; times are numbers without rounding.
\<close>

section \<open>The code\<close>

text \<open>An item, with whatever else the caller puts in it as \<open>'r\<close>.\<close>

record 'r timeline_item =
  item_id :: string
  item_timestamp :: real
  item_activity :: "activity option"
  item_rest :: 'r

record 'r timeline_row =
  row_item :: "'r timeline_item"
  row_activities :: "activity list option"

definition routine :: "string set" where
  "routine = {''join'', ''part'', ''nickname'', ''topic''}"

text \<open>The condition of the loop, and what it does to an item: it joins the last row or begins a new one.\<close>

definition joins_row :: "(real \<Rightarrow> string) \<Rightarrow> 'r timeline_item \<Rightarrow> activity option \<Rightarrow> bool" where
  "joins_row day i prev =
     (case (item_activity i, prev) of
        (Some a, Some b) \<Rightarrow> act_kind a \<in> routine \<and> act_kind b \<in> routine
          \<and> item_timestamp i - real_of_int (act_timestamp b) \<le> 120
          \<and> day (item_timestamp i) = day (real_of_int (act_timestamp b))
      | _ \<Rightarrow> False)"

definition last_activity :: "'r timeline_row list \<Rightarrow> activity option" where
  "last_activity rows =
     (if rows = [] then None
      else case row_activities (last rows) of
          Some (a # as) \<Rightarrow> Some (last (a # as))
        | _ \<Rightarrow> None)"

definition group_item :: "(real \<Rightarrow> string) \<Rightarrow> 'r timeline_row list \<Rightarrow> 'r timeline_item \<Rightarrow> 'r timeline_row list" where
  "group_item day rows i =
     (if joins_row day i (last_activity rows)
      then butlast rows @
        [(last rows)\<lparr>row_activities := Some (the (row_activities (last rows)) @ [the (item_activity i)])\<rparr>]
      else rows @ [\<lparr>row_item = i, row_activities = map_option (\<lambda>a. [a]) (item_activity i)\<rparr>])"

definition groupActivity :: "(real \<Rightarrow> string) \<Rightarrow> 'r timeline_item list \<Rightarrow> 'r timeline_row list" where
  "groupActivity day items = foldl (group_item day) [] items"

text \<open>The identity suffix of an event: a space and 64 hexadecimal digits in parentheses, before a
  space; the replacement goes on after what it removed.\<close>

definition identity_digit :: "char \<Rightarrow> bool" where
  "identity_digit c \<longleftrightarrow> c \<in> set ''0123456789abcdefABCDEF''"

definition identity_suffix :: "string \<Rightarrow> bool" where
  "identity_suffix s \<longleftrightarrow> take 2 s = '' ('' \<and> length (takeWhile identity_digit (take 64 (drop 2 s))) = 64 \<and> take 2 (drop 66 s) = '') ''"

function strip_identities :: "string \<Rightarrow> string" where
  "strip_identities [] = []"
| "strip_identities (c # s) = (if identity_suffix (c # s) then strip_identities (drop 66 s) else c # strip_identities s)"
  by pat_completeness auto

termination strip_identities
  by (relation "measure length") auto

definition activitySummary :: "activity \<Rightarrow> string" where
  "activitySummary a = (if act_kind a \<notin> {''join'', ''policy''} then act_text a else strip_identities (act_text a))"

definition ellipsis :: "16 word" where "ellipsis = 0x2026"

definition output_label :: "command_output \<Rightarrow> units" where
  "output_label out = (case out of
       Invitation _ _ _ _ \<Rightarrow> ascii ''Invitation created''
     | Reusable_invitation _ _ _ _ _ _ \<Rightarrow> ascii ''Invitation created''
     | Invitation_options _ \<Rightarrow> ascii ''Invitation options''
     | Text_output title _ \<Rightarrow> units_of title
     | Directory channels \<Rightarrow> ascii (decimal (length channels)) @ ascii '' channels found''
     | Status _ \<Rightarrow> ascii ''Connection status''
     | Enrollment_output _ _ phase _ _ \<Rightarrow> if phase = ''joined'' then ascii ''Joined channel'' else ascii ''Join saved''
     | Enrollments _ \<Rightarrow> ascii ''Saved joins''
     | Membership_recovery _ _ _ _ _ _ \<Rightarrow> ascii ''Membership recovery''
     | Invitations _ _ \<Rightarrow> ascii ''Saved invitations''
     | Help _ \<Rightarrow> ascii ''Done''
     | Close _ \<Rightarrow> ascii ''Done'')"

definition message_label :: "string option \<Rightarrow> units" where
  "message_label m =
     (let summary = (case m of
          None \<Rightarrow> ascii ''Done''
        | Some t \<Rightarrow> if t \<noteq> [] \<and> t \<noteq> ''Completed.'' then takeWhile (\<lambda>u. u \<noteq> 10) (units_of t) else ascii ''Done'')
      in if length summary > 120 then take 117 summary @ [ellipsis] else summary)"

definition operationLabel :: "op_result \<Rightarrow> bool \<Rightarrow> units" where
  "operationLabel r is_checking =
     (if is_checking then ascii ''Checking'' @ [ellipsis]
      else case r_state r of
        Pending \<Rightarrow> (if r_action r = ''/join'' then ascii ''Waiting for channel confirmation'' else ascii ''Working'') @ [ellipsis]
      | Unknown \<Rightarrow> ascii ''Outcome unconfirmed''
      | Rejected \<Rightarrow> ascii ''Not completed''
      | Done \<Rightarrow> (case r_output r of None \<Rightarrow> message_label (r_message r) | Some out \<Rightarrow> output_label out))"

section \<open>Grouping is the partition into maximal runs\<close>

text \<open>Two adjacent items belong together; the row of a run of items.\<close>

definition linked :: "(real \<Rightarrow> string) \<Rightarrow> 'r timeline_item \<Rightarrow> 'r timeline_item \<Rightarrow> bool" where
  "linked day i j \<longleftrightarrow> (\<exists>a b. item_activity i = Some a \<and> item_activity j = Some b
     \<and> act_kind a \<in> routine \<and> act_kind b \<in> routine \<and> item_timestamp j - real_of_int (act_timestamp a) \<le> 120
     \<and> day (item_timestamp j) = day (real_of_int (act_timestamp a)))"

definition row_of :: "'r timeline_item list \<Rightarrow> 'r timeline_row" where
  "row_of run = \<lparr>row_item = hd run,
     row_activities = (if item_activity (hd run) = None then None else Some (map (the \<circ> item_activity) run))\<rparr>"

definition runs_ok :: "(real \<Rightarrow> string) \<Rightarrow> 'r timeline_item list list \<Rightarrow> bool" where
  "runs_ok day runs \<longleftrightarrow> list_all (\<lambda>run. run \<noteq> [] \<and> successively (linked day) run) runs
     \<and> successively (\<lambda>run run'. \<not> linked day (last run) (hd run')) runs"

lemma run_activities:
  "successively (linked day) run \<Longrightarrow> run \<noteq> [] \<Longrightarrow> item_activity (hd run) = None \<Longrightarrow> tl run = []"
  by (cases run; cases "tl run") (auto simp: linked_def)

lemma last_activity_runs:
  assumes "runs_ok day runs"
  shows "last_activity (map row_of runs) = (if runs = [] then None else item_activity (last (last runs)))"
proof (cases runs rule: rev_cases)
  case (snoc rs run)
  then have run: "run \<noteq> []" "successively (linked day) run" using assms by (auto simp: runs_ok_def)
  show ?thesis
  proof (cases "item_activity (hd run)")
    case None
    then have "last run = hd run" using run_activities [OF run(2,1)] run(1) by (cases run) auto
    then show ?thesis using snoc None by (simp add: last_activity_def row_of_def)
  next
    case (Some a)
    have "item_activity (last run) \<noteq> None"
      using run Some by (cases run rule: rev_cases; cases "butlast run" rule: rev_cases)
        (auto simp: successively_append_iff linked_def)
    moreover have "last_activity (map row_of runs) = Some (last (map (the \<circ> item_activity) run))"
      using snoc Some run(1) by (cases run) (simp_all add: last_activity_def row_of_def)
    ultimately show ?thesis using snoc run(1) by (simp add: last_map)
  qed
qed (simp add: last_activity_def)

lemma joins_row_linked: "joins_row day i (item_activity j) \<longleftrightarrow> linked day j i"
  by (auto simp: joins_row_def linked_def split: option.splits)

lemma joins_no_row [simp]: "\<not> joins_row day i None"
  by (simp add: joins_row_def split: option.split)

lemma group_item_run:
  assumes "runs_ok day runs"
  shows "\<exists>runs'. runs_ok day runs' \<and> concat runs' = concat runs @ [i] \<and> group_item day (map row_of runs) i = map row_of runs'"
proof (cases "runs \<noteq> [] \<and> linked day (last (last runs)) i")
  case True
  then obtain rs run where r: "runs = rs @ [run]" by (cases runs rule: rev_cases) auto
  have run: "run \<noteq> []" "linked day (last run) i" "successively (linked day) run"
    using assms True by (auto simp: r runs_ok_def)
  have ok: "runs_ok day (rs @ [run @ [i]])"
    using assms run by (auto simp: r runs_ok_def successively_append_iff)
  have "item_activity (hd run) \<noteq> None"
    using run_activities [OF run(3,1)] run(1,2) by (cases run; cases "tl run = []") (auto simp: linked_def)
  moreover have "joins_row day i (last_activity (map row_of runs))"
    using True by (simp add: last_activity_runs [OF assms] joins_row_linked)
  ultimately have "group_item day (map row_of runs) i = map row_of (rs @ [run @ [i]])"
    using run(1) by (auto simp: group_item_def r row_of_def)
  then show ?thesis using ok by (intro exI [of _ "rs @ [run @ [i]]"]) (simp add: r)
next
  case False
  have ok: "runs_ok day (runs @ [[i]])"
    using assms False by (auto simp: runs_ok_def successively_append_iff)
  have "\<not> joins_row day i (last_activity (map row_of runs))"
    using False by (auto simp: last_activity_runs [OF assms] joins_row_linked)
  then have "group_item day (map row_of runs) i = map row_of (runs @ [[i]])"
    by (auto simp: group_item_def row_of_def split: option.split)
  then show ?thesis using ok by (intro exI [of _ "runs @ [[i]]"]) simp
qed

text \<open>C29: The rows are the items cut into maximal runs: every item is in exactly one row, in its place; a row
  of several holds only routine events, each at most two minutes after the previous and on the same
  day, and shows the first item with all their activities; and two adjacent rows could not be joined.\<close>

theorem groups_are_maximal_runs:
  "\<exists>runs. concat runs = items \<and> groupActivity day items = map row_of runs
     \<and> list_all (\<lambda>run. run \<noteq> [] \<and> successively (linked day) run) runs
     \<and> successively (\<lambda>run run'. \<not> linked day (last run) (hd run')) runs"
proof -
  have "\<exists>runs. runs_ok day runs \<and> concat runs = items \<and> groupActivity day items = map row_of runs"
  proof (induction items rule: rev_induct)
    case Nil
    show ?case by (rule exI [of _ "[]"]) (simp add: runs_ok_def groupActivity_def)
  next
    case (snoc i items)
    then obtain runs where r: "runs_ok day runs" "concat runs = items" "groupActivity day items = map row_of runs"
      by blast
    from group_item_run [OF r(1), of i] r(2,3) show ?case by (auto simp: groupActivity_def)
  qed
  then show ?thesis by (auto simp: runs_ok_def)
qed

section \<open>Labels\<close>

theorem summary_only_removes: "subseq (activitySummary a) (act_text a)"
proof -
  have "subseq (strip_identities s) s" for s
  proof (induction s rule: strip_identities.induct)
    case (2 c s)
    show ?case
    proof (cases "identity_suffix (c # s)")
      case True
      then have "subseq (strip_identities (drop 66 s)) (drop 66 s)" using 2(1) by blast
      then have "subseq (strip_identities (drop 66 s)) (take 66 s @ drop 66 s)" by (rule subseq_drop_many)
      then show ?thesis using True by auto
    next
      case False
      then show ?thesis using 2(2) by simp
    qed
  qed simp
  then show ?thesis by (simp add: activitySummary_def)
qed

theorem message_label_short: "length (message_label m) \<le> 120"
  by (auto simp: message_label_def Let_def ascii_def split: option.split)

end
