(* ===== verification/View_State.thy ===== *)
theory View_State
  imports Json Rpc_Transport
begin

text \<open>
  \<open>ui/src/view-state.ts\<close>: the drafts and pages of the conversations one window shows, its navigation
  memory, and the checks of the composer; \<open>ui/src/workspace-state.ts\<close>: labels, local commands and the
  font.  Browser storage may throw: what reading it gives is an argument, and whether writing fails is.
\<close>

section \<open>The composer\<close>

definition MAX_INPUT_BYTES :: nat where "MAX_INPUT_BYTES = 12000"
definition MAX_CONTACT_INPUT_BYTES :: nat where "MAX_CONTACT_INPUT_BYTES = 196608"

definition ends_word :: "units \<Rightarrow> bool" where
  "ends_word us \<longleftrightarrow> us = [] \<or> white (hd us)"

text \<open>\<open>/^\\/contact\\s+(add|update)(?:\\s|$)/i\<close> after \<open>trimStart\<close>.\<close>

definition contact_command :: "units \<Rightarrow> bool" where
  "contact_command us =
     (case Option.bind (after_literal ''/contact'' (dropWhile white us)) after_white of
        None \<Rightarrow> False
      | Some r \<Rightarrow> list_ex (\<lambda>w. case after_literal w r of None \<Rightarrow> False | Some r' \<Rightarrow> ends_word r') [''add'', ''update''])"

definition commandInputLimit :: "units \<Rightarrow> nat" where
  "commandInputLimit us = (if contact_command us then MAX_CONTACT_INPUT_BYTES else MAX_INPUT_BYTES)"

text \<open>\<open>toLocaleString\<close> of a number is a parameter.\<close>

definition inputError :: "(nat \<Rightarrow> units) \<Rightarrow> units \<Rightarrow> nat \<Rightarrow> units" where
  "inputError shows us limit =
     (let n = length (utf8_encode us) in
      if n > limit
      then ascii ''This input is '' @ shows n @ ascii '' UTF-8 bytes; the limit is '' @ shows limit
        @ ascii ''. Shorten it before sending. Nothing has been truncated.''
      else [])"

record key_event =
  event_key :: string
  shiftKey :: bool
  ctrlKey :: bool
  altKey :: bool

definition shouldComplete :: "key_event \<Rightarrow> units \<Rightarrow> bool \<Rightarrow> bool" where
  "shouldComplete e us is_open \<longleftrightarrow>
     event_key e = ''Tab'' \<and> \<not> shiftKey e \<and> \<not> ctrlKey e \<and> \<not> altKey e \<and> trim us \<noteq> [] \<and> \<not> is_open"

section \<open>The conversations of a window\<close>

record conversation_view =
  view_draft :: string
  view_messages :: "message list"
  view_before :: "string option"
  view_scrollTop :: rat
  view_atBottom :: bool

type_synonym conversation_views = "(string option \<times> conversation_view) list"

definition fresh_view :: conversation_view where
  "fresh_view = \<lparr>view_draft = [], view_messages = [], view_before = None, view_scrollTop = 0, view_atBottom = True\<rparr>"

definition save_view :: "string option \<Rightarrow> conversation_view \<Rightarrow> conversation_views \<Rightarrow> conversation_views" where
  "save_view i v vs = put i v vs"

definition restore_view :: "string option \<Rightarrow> conversation_views \<Rightarrow> conversation_view" where
  "restore_view i vs = (case map_of vs i of Some v \<Rightarrow> v | None \<Rightarrow> fresh_view)"

definition hasDraftsExcept :: "string option \<Rightarrow> conversation_views \<Rightarrow> bool" where
  "hasDraftsExcept visible_id vs = list_ex (\<lambda>(i, v). i \<noteq> visible_id \<and> view_draft v \<noteq> []) vs"

definition clear_views :: "conversation_views \<Rightarrow> conversation_views" where
  "clear_views vs = []"

text \<open>The window without a conversation, and an empty identifier, are always kept.\<close>

definition dropped_by :: "string list \<Rightarrow> string option \<Rightarrow> bool" where
  "dropped_by ids i \<longleftrightarrow> i \<noteq> None \<and> i \<noteq> Some [] \<and> the i \<notin> set ids"

definition retain_views :: "string list \<Rightarrow> conversation_views \<Rightarrow> conversation_views" where
  "retain_views ids vs = foldl (\<lambda>vs i. if dropped_by ids i then remove_key i vs else vs) vs (map fst vs)"

definition has_view :: "string option \<Rightarrow> conversation_views \<Rightarrow> bool" where
  "has_view i vs \<longleftrightarrow> i \<in> fst ` set vs"

section \<open>Navigation memory\<close>

text \<open>A position is the JSON object as it is stored.\<close>

record navigation_memory =
  nav_selected :: "string option"
  nav_positions :: "(string \<times> json) list"

definition navigation_key :: "string \<Rightarrow> string" where
  "navigation_key inst = ''gchat.navigation.'' @ inst"

definition valid_position :: "json \<Rightarrow> bool" where
  "valid_position p \<longleftrightarrow>
     (case get_prop p ''top'' of Some (JNum (Finite q)) \<Rightarrow> q \<ge> 0 | _ \<Rightarrow> False)
     \<and> (case get_prop p ''atBottom'' of Some (JBool _) \<Rightarrow> True | _ \<Rightarrow> False)
     \<and> (case get_prop p ''oldest'' of Some JNull \<Rightarrow> True | Some (JStr _) \<Rightarrow> True | _ \<Rightarrow> False)"

text \<open>Assigning the key \<open>__proto__\<close> of an object does not make an entry of it.\<close>

definition positions_of :: "(string \<times> json) list \<Rightarrow> (string \<times> json) list" where
  "positions_of kvs = foldl (\<lambda>ps (k, p). if valid_position p \<and> k \<noteq> ''__proto__'' then put k p ps else ps) [] kvs"

definition navigation_of :: "json \<Rightarrow> navigation_memory option" where
  "navigation_of v =
     (case (get_prop v ''selected'', get_prop v ''positions'') of
        (Some (JStr s), Some (JObj kvs)) \<Rightarrow> Some \<lparr>nav_selected = Some s, nav_positions = positions_of kvs\<rparr>
      | (Some JNull, Some (JObj kvs)) \<Rightarrow> Some \<lparr>nav_selected = None, nav_positions = positions_of kvs\<rparr>
      | _ \<Rightarrow> None)"

text \<open>\<open>JSON.parse\<close> is a parameter, \<open>None\<close> when it throws; so is what \<open>getItem\<close> does.\<close>

definition readNavigation :: "(string \<Rightarrow> json option) \<Rightarrow> (string \<Rightarrow> (unit, string option) result) \<Rightarrow> string \<Rightarrow> navigation_memory option" where
  "readNavigation parse getItem inst =
     (case getItem (navigation_key inst) of
        Inl _ \<Rightarrow> None
      | Inr item \<Rightarrow> Option.bind (parse (case item of Some t \<Rightarrow> t | None \<Rightarrow> ''null'')) navigation_of)"

definition navigation_json :: "navigation_memory \<Rightarrow> json" where
  "navigation_json m = JObj [(''selected'', case nav_selected m of Some s \<Rightarrow> JStr s | None \<Rightarrow> JNull),
     (''positions'', JObj (nav_positions m))]"

definition writeNavigation :: "(json \<Rightarrow> string) \<Rightarrow> bool \<Rightarrow> string \<Rightarrow> navigation_memory \<Rightarrow> (string \<rightharpoonup> string) \<Rightarrow> (string \<rightharpoonup> string)" where
  "writeNavigation stringify fails inst m items =
     (if fails then items else items(navigation_key inst \<mapsto> stringify (navigation_json m)))"

section \<open>Labels and local commands\<close>

definition hasNetworkSetup :: "network_status option \<Rightarrow> bool" where
  "hasNetworkSetup s = (case s of None \<Rightarrow> False
     | Some s \<Rightarrow> net_state s \<in> {Local_only, Connecting, Connected, Reconnecting, Invitation_expired})"

definition networkLabel :: "network_status option \<Rightarrow> bool \<Rightarrow> bool \<Rightarrow> string" where
  "networkLabel s offline locked =
     (if offline then ''Service unavailable'' else if locked then ''Locked''
      else case s of None \<Rightarrow> ''Checking network''
        | Some s \<Rightarrow> (case net_state s of Net_locked \<Rightarrow> ''Locked'' | Local_only \<Rightarrow> ''Local network''
            | Invitation_required \<Rightarrow> ''Setup needed'' | Connecting \<Rightarrow> ''Connecting'' | Connected \<Rightarrow> ''Connected''
            | Reconnecting \<Rightarrow> ''Reconnecting'' | Invitation_expired \<Rightarrow> ''Invitation expired''
            | Net_unavailable \<Rightarrow> ''Unavailable''))"

datatype local_name = Local_font | Local_find | Local_help | Local_update

definition local_names :: "(string \<times> local_name) list" where
  "local_names = [(''/font'', Local_font), (''/find'', Local_find), (''/help'', Local_help), (''/update'', Local_update)]"

text \<open>\<open>/^\\/(font|find|help|update)(?:\\s+([\\s\\S]*))?$/i\<close> on trimmed text: the name and the arguments.\<close>

definition localCommand :: "units \<Rightarrow> (local_name \<times> units) option" where
  "localCommand us =
     Option.bind (find (\<lambda>(l, _). case after_literal l (trim us) of None \<Rightarrow> False | Some r \<Rightarrow> ends_word r) local_names)
       (\<lambda>(l, n). map_option (\<lambda>r. (n, trim (dropWhile white r))) (after_literal l (trim us)))"

definition viewCommands :: "bool \<Rightarrow> command_spec list" where
  "viewCommands hasConversation =
     [\<lparr>cmd_name = ''/update'', cmd_usage = ''/update'',
       cmd_description = ''Check this device'' @ [CHR 0xE2, CHR 0x80, CHR 0x99] @ ''s application update'',
       cmd_scope = ''view'', cmd_capability = None, cmd_available = True\<rparr>,
      \<lparr>cmd_name = ''/font'', cmd_usage = ''/font [fixedsys|readable]'',
       cmd_description = ''Choose the chat font for this device'',
       cmd_scope = ''view'', cmd_capability = None, cmd_available = True\<rparr>,
      \<lparr>cmd_name = ''/find'', cmd_usage = ''/find [text]'',
       cmd_description = ''Search this conversation '' @ [CHR 0xC2, CHR 0xB7] @ '' Ctrl/Cmd+F'',
       cmd_scope = ''view'', cmd_capability = None, cmd_available = hasConversation\<rparr>]"

definition mergeViewCommands :: "command_spec list \<Rightarrow> bool \<Rightarrow> command_spec list" where
  "mergeViewCommands commands hasConversation =
     (let own = viewCommands hasConversation in
      filter (\<lambda>c. \<not> list_ex (\<lambda>l. cmd_name l = cmd_name c) own) commands @ own)"

datatype chat_font = Fixedsys | Readable

definition readFont :: "(string \<Rightarrow> (unit, string option) result) \<Rightarrow> chat_font" where
  "readFont getItem = (case getItem ''gchat.display.font'' of
       Inl _ \<Rightarrow> Fixedsys | Inr v \<Rightarrow> if v = Some ''readable'' then Readable else Fixedsys)"

definition writeFont :: "bool \<Rightarrow> chat_font \<Rightarrow> (string \<rightharpoonup> string) \<Rightarrow> (string \<rightharpoonup> string)" where
  "writeFont fails font items = (if fails then items
     else items(''gchat.display.font'' \<mapsto> (case font of Fixedsys \<Rightarrow> ''fixedsys'' | Readable \<Rightarrow> ''readable'')))"

section \<open>What a window remembers\<close>

datatype view_event = Save_view "string option" conversation_view | Retain_views "string list" | Clear_views

fun view_step :: "view_event \<Rightarrow> conversation_views \<Rightarrow> conversation_views" where
  "view_step (Save_view i v) vs = save_view i v vs"
| "view_step (Retain_views ids) vs = retain_views ids vs"
| "view_step Clear_views vs = clear_views vs"

text \<open>The specification looks back through the events, newest first, for the view of one conversation.\<close>

fun remembered :: "view_event list \<Rightarrow> string option \<Rightarrow> conversation_view option" where
  "remembered [] i = None"
| "remembered (Save_view j v # es) i = (if j = i then Some v else remembered es i)"
| "remembered (Retain_views ids # es) i = (if dropped_by ids i then None else remembered es i)"
| "remembered (Clear_views # es) i = None"

lemma retain_views_eq: "retain_views ids vs = filter (\<lambda>kv. \<not> dropped_by ids (fst kv)) vs"
proof -
  have "foldl (\<lambda>vs i. if dropped_by ids i then remove_key i vs else vs) ws ks
      = filter (\<lambda>kv. \<not> (fst kv \<in> set ks \<and> dropped_by ids (fst kv))) ws" for ks :: "string option list" and ws :: conversation_views
    by (induction ks arbitrary: ws) (auto simp: remove_key_def intro!: filter_cong)
  then show ?thesis unfolding retain_views_def by (auto intro!: filter_cong)
qed

lemma map_of_retain_views: "map_of (retain_views ids vs) i = (if dropped_by ids i then None else map_of vs i)"
  unfolding retain_views_eq by (induction vs) auto

lemma views_refine:
  "map_of (foldr view_step es []) i = remembered es i" "distinct (map fst (foldr view_step es []))"
proof (induction es)
  case (Cons e es)
  { case 1 show ?case using Cons.IH(1)
      by (cases e) (simp_all add: save_view_def clear_views_def map_of_retain_views) }
  { case 2 show ?case using Cons.IH(2)
      by (cases e) (simp_all add: save_view_def clear_views_def retain_views_eq distinct_put distinct_map_filter) }
qed simp_all

text \<open>C31: Whatever a window saved, retained and cleared, it restores for a conversation exactly the view last
  saved for it since everything was cleared and since the conversation was last missing from a snapshot,
  or a fresh one; and it reports unsent drafts exactly when such a view of another conversation has one.\<close>

theorem views_remember_last_saved:
  "restore_view i (foldr view_step es []) = (case remembered es i of Some v \<Rightarrow> v | None \<Rightarrow> fresh_view)
   \<and> has_view i (foldr view_step es []) = (remembered es i \<noteq> None)
   \<and> hasDraftsExcept j (foldr view_step es []) = (\<exists>k v. k \<noteq> j \<and> remembered es k = Some v \<and> view_draft v \<noteq> [])"
proof (intro conjI)
  let ?vs = "foldr view_step es []"
  show "restore_view i ?vs = (case remembered es i of Some v \<Rightarrow> v | None \<Rightarrow> fresh_view)"
    by (simp add: restore_view_def views_refine(1))
  show "has_view i ?vs = (remembered es i \<noteq> None)"
    by (simp add: has_view_def map_of_eq_None_iff flip: views_refine(1))
  have "(k, v) \<in> set ?vs \<longleftrightarrow> remembered es k = Some v" for k v
    using views_refine [of es] by (metis map_of_eq_Some_iff)
  then show "hasDraftsExcept j ?vs = (\<exists>k v. k \<noteq> j \<and> remembered es k = Some v \<and> view_draft v \<noteq> [])"
    by (auto simp: hasDraftsExcept_def list_ex_iff)
qed

section \<open>Navigation memory survives\<close>

lemma positions_of_eq:
  assumes "distinct (map fst kvs)"
  shows "positions_of kvs = filter (\<lambda>(k, p). valid_position p \<and> k \<noteq> ''__proto__'') kvs"
proof -
  have fresh: "put k p ps = ps @ [(k, p)]" if "k \<notin> fst ` set ps" for k p and ps :: "(string \<times> json) list"
    using that by (induction ps) auto
  have "foldl (\<lambda>ps (k, p). if valid_position p \<and> k \<noteq> ''__proto__'' then put k p ps else ps) ps kvs
      = ps @ filter (\<lambda>(k, p). valid_position p \<and> k \<noteq> ''__proto__'') kvs"
    if "fst ` set ps \<inter> fst ` set kvs = {}" for ps
    using assms that by (induction kvs arbitrary: ps) (auto simp: fresh)
  then show ?thesis by (simp add: positions_of_def)
qed

text \<open>What is written is read back without the entries that are not positions, and nothing else; a value
  that is not a navigation memory, an unparsable one or a failing storage gives none.\<close>

theorem navigation_round_trip:
  assumes "distinct (map fst (nav_positions m))" "parse (stringify (navigation_json m)) = Some (navigation_json m)"
  shows "readNavigation parse (\<lambda>k. Inr (writeNavigation stringify False inst m items k)) inst
    = Some (m\<lparr>nav_positions := filter (\<lambda>(k, p). valid_position p \<and> k \<noteq> ''__proto__'') (nav_positions m)\<rparr>)"
  using assms by (simp add: readNavigation_def writeNavigation_def navigation_of_def navigation_json_def
      positions_of_eq split: option.split)

lemma list_all_put: "P v \<Longrightarrow> list_all (P \<circ> snd) kvs \<Longrightarrow> list_all (P \<circ> snd) (put k v kvs)"
  by (induction kvs) auto

lemma positions_valid:
  "list_all (valid_position \<circ> snd) ps \<Longrightarrow>
     list_all (valid_position \<circ> snd) (foldl (\<lambda>ps (k, p). if valid_position p \<and> k \<noteq> ''__proto__'' then put k p ps else ps) ps kvs)"
  by (induction kvs arbitrary: ps) (auto simp: list_all_put [where P = valid_position])

lemma navigation_of_positions: "navigation_of v = Some m \<Longrightarrow> \<exists>kvs. nav_positions m = positions_of kvs"
  unfolding navigation_of_def
  by (cases "get_prop v ''selected''"; cases "get_prop v ''positions''") (auto split: json.splits)

theorem navigation_positions_valid:
  "readNavigation parse getItem inst = Some m \<Longrightarrow> list_all (valid_position \<circ> snd) (nav_positions m)"
proof -
  assume "readNavigation parse getItem inst = Some m"
  then obtain v where "navigation_of v = Some m"
    by (auto simp: readNavigation_def bind_eq_Some_conv split: sum.splits)
  then obtain kvs where "nav_positions m = positions_of kvs" using navigation_of_positions by blast
  then show ?thesis using positions_valid [of "[]"] by (simp add: positions_of_def)
qed

section \<open>Local commands\<close>

lemma view_names: "map cmd_name (viewCommands b) = [''/update'', ''/font'', ''/find'']"
  by (simp add: viewCommands_def)

text \<open>A provider cannot shadow or duplicate a command of the view.\<close>

theorem view_commands_not_shadowed:
  "c \<in> set (mergeViewCommands commands b) \<Longrightarrow> cmd_name c \<in> {''/update'', ''/font'', ''/find''} \<Longrightarrow> c \<in> set (viewCommands b)"
  by (auto simp: mergeViewCommands_def viewCommands_def)

end
