(* ===== verification/Transcript.thy ===== *)
theory Transcript
  imports Api
begin

text \<open>
  How \<open>ui/src/Workspace.svelte\<close> puts the pages of a conversation's history together, against the
  service that cuts them (\<open>crates/core/src/chat_service/mod.rs\<close>): a page ends before its cursor or at
  the end of the log, and its own cursor is its first message unless the log starts there.
\<close>

section \<open>Merging pages\<close>

definition ids_of :: "message list \<Rightarrow> string list" where
  "ids_of ms = map msg_id ms"

definition merge_older :: "message list \<Rightarrow> message list \<Rightarrow> message list" where
  "merge_older page ms = filter (\<lambda>m. msg_id m \<notin> set (ids_of ms)) page @ ms"

text \<open>The first loaded message the page has as well.\<close>

definition overlap :: "message list \<Rightarrow> message list \<Rightarrow> nat option" where
  "overlap page ms =
     (let n = length (takeWhile (\<lambda>m. msg_id m \<notin> set (ids_of page)) ms) in if n < length ms then Some n else None)"

definition merge_page :: "bool \<Rightarrow> history_page \<Rightarrow> message list \<Rightarrow> string option \<Rightarrow> message list \<times> string option" where
  "merge_page older p ms b =
     (if older then (merge_older (page_messages p) ms, page_before p)
      else case overlap (page_messages p) ms of
        Some n \<Rightarrow> (take n ms @ page_messages p, b)
      | None \<Rightarrow> (page_messages p, page_before p))"

definition first_unread :: "int \<Rightarrow> message list \<Rightarrow> string option" where
  "first_unread unread page =
     (let incoming = filter (\<lambda>m. \<not> msg_mine m) page;
          n = nat (max 0 (int (length incoming) - unread))
      in if unread \<noteq> 0 \<and> n < length incoming then Some (msg_id (incoming ! n)) else None)"

section \<open>The service\<close>

definition position :: "string \<Rightarrow> string list \<Rightarrow> nat option" where
  "position i log = (if i \<in> set log then Some (length (takeWhile (\<lambda>j. j \<noteq> i) log)) else None)"

definition service_page :: "string list \<Rightarrow> string option \<Rightarrow> int \<Rightarrow> (string list \<times> string option) option" where
  "service_page log b limit =
     (case (case b of Some i \<Rightarrow> position i log | None \<Rightarrow> Some (length log)) of
        None \<Rightarrow> None
      | Some stop \<Rightarrow>
          let start = stop - nat (min 200 (max 1 limit)); page = take (stop - start) (drop start log)
          in Some (page, if start > 0 then (case page of [] \<Rightarrow> None | i # _ \<Rightarrow> Some i) else None))"

text \<open>A page is the service's answer for the log of identifiers; what else a message holds may change.\<close>

definition answers_with :: "string list \<Rightarrow> string option \<Rightarrow> int \<Rightarrow> history_page \<Rightarrow> bool" where
  "answers_with log b limit p \<longleftrightarrow> service_page log b limit = Some (ids_of (page_messages p), page_before p)"

section \<open>Pieces of a list\<close>

definition stretch :: "nat \<Rightarrow> nat \<Rightarrow> 'a list \<Rightarrow> 'a list" where
  "stretch a b xs = take (b - a) (drop a xs)"

lemma length_stretch [simp]: "b \<le> length xs \<Longrightarrow> length (stretch a b xs) = b - a"
  by (simp add: stretch_def)

lemma nth_stretch [simp]: "a + i < b \<Longrightarrow> b \<le> length xs \<Longrightarrow> stretch a b xs ! i = xs ! (a + i)"
  by (simp add: stretch_def)

lemma stretch_empty [simp]: "b \<le> a \<Longrightarrow> stretch a b xs = []"
  by (simp add: stretch_def)

lemma stretch_append: "a \<le> b \<Longrightarrow> b \<le> c \<Longrightarrow> c \<le> length xs \<Longrightarrow> stretch a b xs @ stretch b c xs = stretch a c xs"
  by (rule nth_equalityI) (auto simp: nth_append add.commute)

lemma stretch_prefix: "b \<le> length xs \<Longrightarrow> stretch a b (xs @ ys) = stretch a b xs"
  by (rule nth_equalityI) (auto simp: nth_append)

lemma take_stretch: "n \<le> b - a \<Longrightarrow> b \<le> length xs \<Longrightarrow> take n (stretch a b xs) = stretch a (a + n) xs"
  by (cases "n = 0") (auto simp: stretch_def min_def)

lemma set_stretch: "b \<le> length xs \<Longrightarrow> set (stretch a b xs) = (!) xs ` {a..<b}"
proof -
  assume b: "b \<le> length xs"
  then have "stretch a b xs = map ((!) xs) [a..<b]"
    by (intro nth_equalityI) auto
  then show ?thesis by simp
qed

lemma mem_stretch: "distinct xs \<Longrightarrow> b \<le> length xs \<Longrightarrow> j < length xs \<Longrightarrow> xs ! j \<in> set (stretch a b xs) \<longleftrightarrow> a \<le> j \<and> j < b"
  by (auto simp: set_stretch image_iff nth_eq_iff_index_eq)

section \<open>What is loaded is one stretch of the log\<close>

text \<open>The loaded messages are a contiguous stretch of the log; the cursor is inside or at the end of it,
  and without a cursor the stretch starts where the log does.\<close>

definition loaded :: "string list \<Rightarrow> message list \<Rightarrow> string option \<Rightarrow> bool" where
  "loaded log ms b \<longleftrightarrow>
     (\<exists>first til. first \<le> til \<and> til \<le> length log \<and> ids_of ms = stretch first til log
        \<and> (case b of None \<Rightarrow> ms = [] \<or> first = 0
           | Some i \<Rightarrow> \<exists>p. first \<le> p \<and> p \<le> til \<and> p < length log \<and> log ! p = i))"

lemma loaded_nothing: "loaded log [] None"
  unfolding loaded_def by (intro exI [of _ 0]) (simp add: ids_of_def)

lemma loaded_append: "loaded log ms b \<Longrightarrow> loaded (log @ new) ms b"
  unfolding loaded_def
  by (elim exE, rule_tac x = first in exI, rule_tac x = til in exI)
     (fastforce simp: nth_append stretch_prefix split: option.splits)

lemma loaded_contiguous: "loaded log ms b \<Longrightarrow> sublist (ids_of ms) log"
proof -
  assume "loaded log ms b"
  then obtain first til where "ids_of ms = take (til - first) (drop first log)"
    by (auto simp: loaded_def stretch_def)
  then show ?thesis by (metis append_take_drop_id sublist_appendI)
qed

section \<open>Pages extend what is loaded\<close>

lemma position_nth: "distinct log \<Longrightarrow> p < length log \<Longrightarrow> position (log ! p) log = Some p"
proof -
  assume "distinct log" "p < length log"
  then have "takeWhile (\<lambda>j. j \<noteq> log ! p) log = take p log"
    by (intro takeWhile_eq_take_P_nth) (auto simp: nth_eq_iff_index_eq)
  then show ?thesis using \<open>p < length log\<close> by (simp add: position_def)
qed

lemma answered_page:
  assumes "distinct log" "answers_with log b limit page"
    and "stop \<le> length log" "b = None \<Longrightarrow> stop = length log" "\<And>i. b = Some i \<Longrightarrow> stop < length log \<and> log ! stop = i"
  obtains start where "start \<le> stop" "ids_of (page_messages page) = stretch start stop log" "start = stop \<Longrightarrow> stop = 0"
    "page_before page = (if start = 0 then None else Some (log ! start))"
proof -
  define start where "start = stop - nat (min 200 (max 1 limit))"
  have start: "start \<le> stop" "start = stop \<Longrightarrow> stop = 0" unfolding start_def by linarith+
  have stop: "(case b of Some i \<Rightarrow> position i log | None \<Rightarrow> Some (length log)) = Some stop"
  proof (cases b)
    case (Some i)
    then have "stop < length log" "log ! stop = i" using assms(5) by blast+
    then show ?thesis using Some position_nth [OF assms(1), of stop] by simp
  qed (simp add: assms(4))
  have "service_page log b limit = Some (stretch start stop log,
      if start > 0 then (case stretch start stop log of [] \<Rightarrow> None | i # _ \<Rightarrow> Some i) else None)"
    unfolding service_page_def Let_def stop option.case start_def [symmetric] stretch_def [symmetric] ..
  then have page: "ids_of (page_messages page) = stretch start stop log"
      "page_before page = (if start > 0 then (case stretch start stop log of [] \<Rightarrow> None | i # _ \<Rightarrow> Some i) else None)"
    using assms(2) unfolding answers_with_def by (simp_all only: option.inject prod.inject)
  have "stretch start stop log = log ! start # stretch (Suc start) stop log" if "0 < start"
  proof -
    have "start < stop" using start that by (cases "start = stop") auto
    then show ?thesis
      using stretch_append [of start "Suc start" stop log] assms(3) by (simp add: stretch_def take_Suc_conv_app_nth hd_drop_conv_nth take_Suc)
  qed
  then have "page_before page = (if start = 0 then None else Some (log ! start))" using page(2) by simp
  with start page(1) that show thesis by blast
qed

lemma older_ids:
  "ids_of (merge_older page ms) = filter (\<lambda>i. i \<notin> set (ids_of ms)) (ids_of page) @ ids_of ms"
  by (simp add: merge_older_def ids_of_def filter_map o_def)

lemma filter_stretch:
  assumes "distinct log" "first \<le> stop" "stop \<le> til" "til \<le> length log" "start \<le> stop"
  shows "filter (\<lambda>i. i \<notin> set (stretch first til log)) (stretch start stop log) = stretch start first log"
proof (cases "start \<le> first")
  case True
  then have "stretch start stop log = stretch start first log @ stretch first stop log"
    using assms by (simp add: stretch_append)
  moreover have "filter (\<lambda>i. i \<notin> set (stretch first til log)) (stretch start first log) = stretch start first log"
    using assms by (intro filter_True) (auto simp: set_stretch nth_eq_iff_index_eq image_iff)
  moreover have "filter (\<lambda>i. i \<notin> set (stretch first til log)) (stretch first stop log) = []"
    using assms by (intro filter_False) (auto simp: set_stretch)
  ultimately show ?thesis by simp
next
  case False
  then have "filter (\<lambda>i. i \<notin> set (stretch first til log)) (stretch start stop log) = []"
    using assms by (intro filter_False) (auto simp: set_stretch)
  then show ?thesis using False by simp
qed

lemma loaded_older:
  assumes "distinct log" "loaded log ms (Some i)" "answers_with log (Some i) limit page"
  shows "loaded log (merge_older (page_messages page) ms) (page_before page)"
proof -
  obtain first til p where ms: "first \<le> til" "til \<le> length log" "ids_of ms = stretch first til log"
    and p: "first \<le> p" "p \<le> til" "p < length log" "log ! p = i"
    using assms(2) by (auto simp: loaded_def)
  obtain start where start: "start \<le> p" "ids_of (page_messages page) = stretch start p log"
    "page_before page = (if start = 0 then None else Some (log ! start))"
    using answered_page [OF assms(1,3), of p] p by auto
  have "ids_of (merge_older (page_messages page) ms) = stretch start first log @ stretch first til log"
    using filter_stretch [OF assms(1) p(1,2) ms(2) start(1)] by (simp add: older_ids ms(3) start(2))
  also have "\<dots> = stretch (min start first) til log"
    using ms by (cases "start \<le> first") (simp_all add: stretch_append min_def)
  finally have "ids_of (merge_older (page_messages page) ms) = stretch (min start first) til log" .
  then show ?thesis unfolding loaded_def
    using ms p start by (intro exI [of _ "min start first"] exI [of _ til]) (auto intro!: exI [of _ start])
qed

lemma overlap_Some:
  "overlap page ms = Some n \<Longrightarrow> n < length ms \<and> msg_id (ms ! n) \<in> set (ids_of page) \<and> set (ids_of (take n ms)) \<inter> set (ids_of page) = {}"
  unfolding overlap_def Let_def
  by (auto split: if_splits dest: nth_length_takeWhile simp: takeWhile_eq_take [symmetric] ids_of_def dest!: set_takeWhileD)

lemma loaded_tail:
  assumes "distinct log" "loaded log ms b" "answers_with log None limit page"
  shows "case merge_page False page ms b of (ms', b') \<Rightarrow> loaded log ms' b'"
proof -
  let ?n = "length log"
  obtain start where start: "start \<le> ?n" "ids_of (page_messages page) = stretch start ?n log" "start = ?n \<Longrightarrow> ?n = 0"
    "page_before page = (if start = 0 then None else Some (log ! start))"
    using answered_page [OF assms(1,3), of ?n] by auto
  show ?thesis
  proof (cases "overlap (page_messages page) ms")
    case None
    have "loaded log (page_messages page) (page_before page)"
      unfolding loaded_def using start(1-3)
      by (intro exI [of _ start] exI [of _ ?n]) (cases "start = 0"; fastforce simp: start(4))
    then show ?thesis by (simp add: merge_page_def None)
  next
    case (Some k)
    obtain first til where ms: "first \<le> til" "til \<le> ?n" "ids_of ms = stretch first til log"
      and b: "case b of None \<Rightarrow> ms = [] \<or> first = 0
           | Some i \<Rightarrow> \<exists>p. first \<le> p \<and> p \<le> til \<and> p < ?n \<and> log ! p = i"
      using assms(2) by (auto simp: loaded_def)
    have len: "length ms = til - first" using ms by (metis ids_of_def length_map length_stretch)
    note k = overlap_Some [OF Some]
    have "ids_of ms ! k = log ! (first + k)" using ms(2) k len unfolding ms(3) by (intro nth_stretch) auto
    then have "log ! (first + k) \<in> set (stretch start ?n log)"
      using k unfolding start(2) by (simp add: ids_of_def)
    then have ge: "start \<le> first + k" using mem_stretch [OF assms(1), of ?n "first + k" start] ms k len by auto
    have prefix: "ids_of (take k ms) = stretch first (first + k) log"
      using ms k len by (simp add: ids_of_def take_map [symmetric] take_stretch)
    have "first + k \<le> start \<or> k = 0"
    proof (rule ccontr)
      assume "\<not> ?thesis"
      then have "log ! (first + k - 1) \<in> set (stretch first (first + k) log) \<inter> set (stretch start ?n log)"
        using ms k len ge by (auto simp: mem_stretch [OF assms(1)])
      then show False using k prefix start(2) by auto
    qed
    then have "ids_of (take k ms @ page_messages page) = stretch (min first start) ?n log"
      using ge ms start(1) prefix start(2) by (auto simp: ids_of_def stretch_append min_def)
    moreover have "case b of None \<Rightarrow> take k ms @ page_messages page = [] \<or> min first start = 0
        | Some i \<Rightarrow> \<exists>p. min first start \<le> p \<and> p \<le> ?n \<and> p < ?n \<and> log ! p = i"
      using b k by (fastforce split: option.splits)
    moreover have "min first start \<le> ?n" using start(1) by simp
    ultimately have "loaded log (take k ms @ page_messages page) b" unfolding loaded_def by blast
    then show ?thesis by (simp add: merge_page_def Some)
  qed
qed

end
