(* ===== verification/Chat_View.thy ===== *)
theory Chat_View
  imports Transcript Network_Workspace Operation_Results View_State
begin

text \<open>
  The conversation side of \<open>ui/src/Workspace.svelte\<close>: the snapshot, the selected conversation with its
  history and draft, search, the join dialog, and what is sent.  Every handler is a function from the
  view to the view and the calls it leaves running; what it does after an \<open>await\<close> is a step of its own,
  named by a frame of the datatypes below, so that anything may happen at an \<open>await\<close>.

  Left out are layout and focus (drawers, settings screens, the scroll offset of the transcript but for
  saving it), the file pickers, the network status and its polling, presence, notifications, and
  the completion lists of the composer.  What the surroundings answer at once is the argument \<open>env\<close>.
\<close>

section \<open>The surroundings\<close>

record scroll_position =
  pos_top :: rat
  pos_atBottom :: bool
  pos_oldest :: "string option"

text \<open>The workspace of networks, the clock, a fresh identifier, the window, the navigation memory of the
  profile (\<open>readNavigation\<close>), the handles of saved operations, and how numbers are shown.\<close>

record env =
  e_network :: "string option \<Rightarrow> string option"
  e_active :: "string option"
  e_instance :: "string option \<Rightarrow> string option"
  e_primary :: "string option"
  e_joined :: "string list"
  e_now :: int
  e_uuid :: string
  e_scrollTop :: rat
  e_focused :: bool
  e_uncovered :: bool
  e_navigation :: "(string option \<times> (string \<Rightarrow> scroll_position option)) option"
  e_handles :: "string list outcome option"
  e_checks :: bool
  e_warning :: "string option"
  e_shows :: "nat \<Rightarrow> units"

section \<open>The view\<close>

record failed_operation =
  fail_request :: request
  fail_code :: string
  fail_message :: string

datatype dialog = Choose_dialog | Join_dialog | Create_dialog

record search_state =
  se_open :: bool
  se_text :: string
  se_results :: "message list"
  se_before :: "string option"
  se_busy :: bool
  se_error :: string
  se_generation :: nat

record prompt_state =
  pr_dialog :: "dialog option"
  pr_joiningPublic :: bool
  pr_draft :: string
  pr_incoming :: string
  pr_destination :: string
  pr_nickname :: string
  pr_visibility :: string
  pr_error :: string
  pr_busy :: bool
  pr_request :: "request option"
  pr_browse :: bool
  pr_directory :: "command_output option"

record chat_view =
  running :: bool
  v_snapshot :: "snapshot option"
  v_accepted :: bool
  v_selected :: "string option"
  v_messages :: "message list"
  v_before :: "string option"
  v_markers :: "string \<Rightarrow> string option"
  v_mentioned :: "string set"
  v_focused :: "string option"
  v_jumping :: bool
  v_draft :: string
  v_savedDraft :: string
  v_views :: conversation_views
  v_atBottom :: bool
  v_loading :: bool
  v_stale :: bool
  v_restored :: bool
  v_generation :: nat
  v_snapshotGeneration :: nat
  v_hidden :: "string list"
  v_pending :: "(string \<times> string) list"
  v_failures :: "failed_operation list"
  v_busy :: bool
  v_notice :: string
  v_results :: result_store
  v_resultKey :: "string option"
  v_saved :: "string list"
  v_checked :: "string set"
  v_checking :: "string set"
  v_recovery :: "string \<Rightarrow> string option"
  v_offline :: bool
  v_error :: "chat_error option"
  v_password :: string
  v_search :: search_state
  v_prompt :: prompt_state

definition no_search :: search_state where
  "no_search = \<lparr>se_open = False, se_text = [], se_results = [], se_before = None, se_busy = False, se_error = [],
     se_generation = 0\<rparr>"

definition no_prompt :: prompt_state where
  "no_prompt = \<lparr>pr_dialog = None, pr_joiningPublic = False, pr_draft = [], pr_incoming = [], pr_destination = [],
     pr_nickname = [], pr_visibility = ''private'', pr_error = [], pr_busy = False, pr_request = None,
     pr_browse = False, pr_directory = None\<rparr>"

definition new_view :: chat_view where
  "new_view = \<lparr>running = True, v_snapshot = None, v_accepted = False, v_selected = None, v_messages = [],
     v_before = None, v_markers = (\<lambda>_. None), v_mentioned = {}, v_focused = None, v_jumping = False,
     v_draft = [], v_savedDraft = [], v_views = [], v_atBottom = True, v_loading = False, v_stale = False,
     v_restored = False, v_generation = 0, v_snapshotGeneration = 0, v_hidden = [], v_pending = [],
     v_failures = [], v_busy = False, v_notice = [], v_results = empty_results, v_resultKey = None,
     v_saved = [], v_checked = {}, v_checking = {}, v_recovery = (\<lambda>_. None), v_offline = False, v_error = None,
     v_password = [], v_search = no_search, v_prompt = no_prompt\<rparr>"

definition locked :: "chat_view \<Rightarrow> bool" where
  "locked v = (case v_snapshot v of None \<Rightarrow> True | Some s \<Rightarrow> inst_locked (sn_instance s))"

text \<open>\<open>workspaceReady\<close>\<close>

definition ready :: "chat_view \<Rightarrow> bool" where
  "ready v \<longleftrightarrow> \<not> locked v \<and> v_accepted v"

definition conversations :: "chat_view \<Rightarrow> conversation list" where
  "conversations v = (case v_snapshot v of None \<Rightarrow> [] | Some s \<Rightarrow> sn_conversations s)"

definition conversation_named :: "string option \<Rightarrow> chat_view \<Rightarrow> conversation option" where
  "conversation_named i v = find (\<lambda>c. Some (conv_id c) = i) (conversations v)"

definition active_conversation :: "chat_view \<Rightarrow> conversation option" where
  "active_conversation v = conversation_named (v_selected v) v"

text \<open>\<open>sendingFull\<close>\<close>

definition sending_full :: "chat_view \<Rightarrow> bool" where
  "sending_full v \<longleftrightarrow> length (v_pending v) \<ge> 32"

definition first_unhidden :: "conversation list \<Rightarrow> chat_view \<Rightarrow> string option" where
  "first_unhidden cs v = map_option conv_id (find (\<lambda>c. conv_id c \<notin> set (v_hidden v)) cs)"

section \<open>Frames\<close>

text \<open>What a call does when the call it awaits has finished: with nothing or with an error.\<close>

datatype cont =
    Nobody
  | After_background cont
  | Refresh_restored snapshot bool cont
  | Refresh_reselected snapshot bool cont
  | Refresh_loaded cont
  | Watch_refreshed
  | Watch_slept
  | Select_shown "string option" bool "scroll_position option" cont
  | Select_loaded "string option" bool "scroll_position option" cont
  | Select_older "string option" scroll_position cont
  | History_shown nat cont
  | Find_shown string
  | Reveal_older message "string option" nat "string list"
  | Reveal_shown
  | Applied_selected response cont
  | Operation_applied request "string option" cont
  | Send_done string request
  | Edit_selected request
  | Join_applied request string
  | Check_applied string string
  | Invitation_refreshed string string "string option" response
  | Invitation_applied string string "string option" response
  | Invitation_elsewhere string

text \<open>... and when the service has answered.\<close>

datatype waiter =
    History_arrived bool bool nat string cont
  | Snapshot_arrived nat cont
  | Events_arrived
  | Read_marked string
  | Search_arrived bool string nat
  | Operation_answered request "string option" "string option" cont
  | Join_answered request "string option" string
  | Check_answered string string "string option"
  | Invitation_answered string string "string option" "string option"
  | Directory_refreshed
  | Directory_listed

datatype chat_call = Ask request | Check_operation string

datatype task =
    Await chat_call waiter
  | Answered "response outcome" waiter
  | Continue "bool outcome" cont

type_synonym stepped = "chat_view \<times> task list"

definition returns :: "cont \<Rightarrow> chat_view \<Rightarrow> stepped" where
  "returns k v = (v, [Continue (Inr True) k])"

definition throws :: "thrown \<Rightarrow> cont \<Rightarrow> chat_view \<Rightarrow> stepped" where
  "throws e k v = (v, [Continue (Inl e) k])"

definition and_then :: "stepped \<Rightarrow> (chat_view \<Rightarrow> stepped) \<Rightarrow> stepped" where
  "and_then r f = (case r of (v, ts) \<Rightarrow> case f v of (v', ts') \<Rightarrow> (v', ts @ ts'))"

section \<open>Small steps of the page\<close>

definition cancel_prompt :: "chat_view \<Rightarrow> chat_view" where
  "cancel_prompt v = (let p = v_prompt v in
     v\<lparr>v_draft := (if pr_dialog p \<noteq> None then pr_draft p else v_draft v),
       v_prompt := p\<lparr>pr_dialog := None, pr_joiningPublic := False, pr_draft := [], pr_incoming := [], pr_error := []\<rparr>\<rparr>)"

definition open_dialog :: "dialog \<Rightarrow> chat_view \<Rightarrow> chat_view" where
  "open_dialog d v =
     (if \<not> ready v \<or> pr_busy (v_prompt v) then v
      else let p = v_prompt v; s = the (v_snapshot v) in
        v\<lparr>v_resultKey := None, v_search := (v_search v)\<lparr>se_open := False\<rparr>,
          v_prompt := p\<lparr>pr_draft := (if pr_dialog p = None then v_draft v else pr_draft p), pr_error := [],
            pr_dialog := Some d,
            pr_joiningPublic := (d = Join_dialog \<and> ''networks.v1'' \<notin> set (inst_capabilities (sn_instance s))),
            pr_browse := False,
            pr_visibility := (if d = Create_dialog then ''private'' else pr_visibility p),
            pr_destination := (if d = Create_dialog then [] else pr_destination p),
            pr_nickname := (if d = Create_dialog then [] else pr_nickname p)\<rparr>\<rparr>)"

text \<open>Opening a settings screen closes the details, the search and the prompt.\<close>

definition open_utility :: "chat_view \<Rightarrow> chat_view" where
  "open_utility v = cancel_prompt (v\<lparr>v_resultKey := None, v_search := (v_search v)\<lparr>se_open := False\<rparr>\<rparr>)"

definition close_search :: "chat_view \<Rightarrow> chat_view" where
  "close_search v = (let q = v_search v in
     v\<lparr>v_search := q\<lparr>se_open := False, se_generation := se_generation q + 1, se_busy := False\<rparr>\<rparr>)"

definition dismiss_failure :: "string \<Rightarrow> chat_view \<Rightarrow> chat_view" where
  "dismiss_failure i v = v\<lparr>v_failures := filter (\<lambda>f. case fail_request f of Submit j _ _ \<Rightarrow> j \<noteq> i | _ \<Rightarrow> True) (v_failures v)\<rparr>"

definition connection_failed :: "thrown \<Rightarrow> chat_view \<Rightarrow> chat_view" where
  "connection_failed e v = v\<lparr>v_offline := True, v_error := Some (chatError e)\<rparr>"

definition clear_private :: "chat_view \<Rightarrow> chat_view" where
  "clear_private v =
     (let q = v_search v; p = v_prompt v in
      v\<lparr>v_mentioned := {}, v_focused := None, v_generation := v_generation v + 1, v_views := clear_views (v_views v),
        v_results := clear_results (v_results v), v_checked := {}, v_resultKey := None, v_markers := (\<lambda>_. None),
        v_messages := [], v_before := None, v_password := [], v_draft := [], v_savedDraft := [], v_notice := [],
        v_failures := [], v_pending := [], v_hidden := [], v_restored := False, v_accepted := False,
        v_search := q\<lparr>se_generation := se_generation q + 1, se_open := False, se_text := [], se_results := [],
          se_before := None\<rparr>,
        v_prompt := p\<lparr>pr_draft := [], pr_incoming := [], pr_directory := None, pr_destination := [],
          pr_nickname := [], pr_request := None, pr_error := [], pr_dialog := None\<rparr>\<rparr>)"

text \<open>\<open>beginResult\<close>: the record of an operation, under the instance and the network it goes to.\<close>

definition result_network :: "env \<Rightarrow> string option \<Rightarrow> string option" where
  "result_network env conversation = (if truthy conversation then e_network env conversation else e_active env)"

definition own_nickname :: "string option \<Rightarrow> chat_view \<Rightarrow> string" where
  "own_nickname conversation v =
     (case Option.bind (conversation_named conversation v) (\<lambda>c. find member_isSelf (conv_members c)) of
        Some m \<Rightarrow> member_nickname m | None \<Rightarrow> ''You'')"

definition begin_in_view :: "env \<Rightarrow> string \<Rightarrow> string option \<Rightarrow> string option \<Rightarrow> chat_view \<Rightarrow> chat_view \<times> string" where
  "begin_in_view env i conversation text v =
     (let network = result_network env conversation;
          named = (case network of Some n \<Rightarrow> n | None \<Rightarrow> []);
          inst = (case find (\<lambda>r. r_id r = i \<and> r_network r = named) (result_values (v_results v)) of
              Some r \<Rightarrow> r_instance r
            | None \<Rightarrow> (case e_instance env network of Some n \<Rightarrow> n
                | None \<Rightarrow> (case v_snapshot v of Some s \<Rightarrow> inst_id (sn_instance s) | None \<Rightarrow> [])))
      in case begin_result inst named i conversation text (e_now env) (v_results v) of (store, r) \<Rightarrow>
         let r' = (if truthy (r_body r) \<and> \<not> truthy (r_nickname r) then r\<lparr>r_nickname := Some (own_nickname conversation v)\<rparr> else r)
         in (v\<lparr>v_results := store\<lparr>records := put (r_key r) r' (records store)\<rparr>\<rparr>, r_key r))"

section \<open>History\<close>

definition load_history :: "bool \<Rightarrow> bool \<Rightarrow> cont \<Rightarrow> chat_view \<Rightarrow> stepped" where
  "load_history older bg k v =
     (if \<not> truthy (v_selected v) \<or> \<not> ready v \<or> (older \<and> \<not> truthy (v_before v)) then returns k v
      else let conversation = the (v_selected v); revision = v_generation v + 1 in
        (v\<lparr>v_generation := revision, v_loading := True\<rparr>,
         [Await (Ask (History conversation (if older then v_before v else None) 200))
            (History_arrived older bg revision conversation k)]))"

definition mark_read :: "env \<Rightarrow> chat_view \<Rightarrow> stepped" where
  "mark_read env v =
     (if \<not> truthy (v_selected v) \<or> \<not> v_atBottom v \<or> \<not> e_focused env
         \<or> \<not> (ready v \<and> e_uncovered env \<and> pr_dialog (v_prompt v) = None \<and> \<not> se_open (v_search v) \<and> v_resultKey v = None)
         \<or> v_jumping v \<or> v_messages v = [] then (v, [])
      else (v, [Await (Ask (Mark_read (the (v_selected v)) (msg_id (last (v_messages v))))) (Read_marked (the (v_selected v)))]))"

definition history_over :: "nat \<Rightarrow> chat_view \<Rightarrow> chat_view" where
  "history_over revision v = (if revision = v_generation v then v\<lparr>v_loading := False\<rparr> else v)"

definition history_failed :: "bool \<Rightarrow> nat \<Rightarrow> thrown \<Rightarrow> cont \<Rightarrow> chat_view \<Rightarrow> stepped" where
  "history_failed bg revision e k v =
     (if revision \<noteq> v_generation v then returns k v
      else let provider = (case active_conversation v of Some c \<Rightarrow> truthy (conv_provider c) | None \<Rightarrow> False);
               v = history_over revision (v\<lparr>v_stale := True\<rparr>) in
        if bg \<and> \<not> provider then throws e k v
        else if bg then returns k v
        else returns k (v\<lparr>v_notice := Network_Workspace.shown e\<rparr>))"

definition mark_unread :: "string \<Rightarrow> history_page \<Rightarrow> chat_view \<Rightarrow> chat_view" where
  "mark_unread conversation page v =
     (if truthy (v_markers v conversation) then v
      else let unread = (case conversation_named (Some conversation) v of Some c \<Rightarrow> conv_unread c | None \<Rightarrow> 0) in
        case first_unread unread (page_messages page) of
          Some i \<Rightarrow> v\<lparr>v_markers := (v_markers v)(conversation := Some i)\<rparr>
        | None \<Rightarrow> v)"

definition show_page :: "bool \<Rightarrow> string \<Rightarrow> history_page \<Rightarrow> chat_view \<Rightarrow> chat_view" where
  "show_page older conversation page v =
     (let v = (if older then v else mark_unread conversation page v) in
      case merge_page older page (v_messages v) (v_before v) of (ms, b) \<Rightarrow>
        v\<lparr>v_messages := ms, v_before := b, v_stale := False\<rparr>)"

definition history_arrived :: "bool \<Rightarrow> bool \<Rightarrow> nat \<Rightarrow> string \<Rightarrow> cont \<Rightarrow> response outcome \<Rightarrow> chat_view \<Rightarrow> stepped" where
  "history_arrived older bg revision conversation k reply v =
     (case reply of
        Inl e \<Rightarrow> history_failed bg revision e k v
      | Inr response \<Rightarrow>
          if \<not> running v \<or> revision \<noteq> v_generation v \<or> v_selected v \<noteq> Some conversation \<or> locked v then returns k (history_over revision v)
          else case response of
              R_history page \<Rightarrow> (show_page older conversation page v, [Continue (Inr True) (History_shown revision k)])
            | _ \<Rightarrow> returns k (history_over revision v))"

definition history_shown :: "env \<Rightarrow> nat \<Rightarrow> cont \<Rightarrow> chat_view \<Rightarrow> stepped" where
  "history_shown env revision k v = and_then (mark_read env v) (\<lambda>v. returns k (history_over revision v))"

section \<open>Selecting a conversation\<close>

text \<open>\<open>select\<close> up to its first \<open>await\<close>.  The position the profile remembers is read before anything changes.\<close>

definition remembered_position :: "env \<Rightarrow> string option \<Rightarrow> chat_view \<Rightarrow> scroll_position option" where
  "remembered_position env i v =
     (if truthy i \<and> v_snapshot v \<noteq> None then Option.bind (e_navigation env) (\<lambda>(_, positions). positions (the i)) else None)"

definition leave_conversation :: "env \<Rightarrow> chat_view \<Rightarrow> chat_view" where
  "leave_conversation env v =
     v\<lparr>v_markers := (if truthy (v_selected v) \<and> v_atBottom v then (v_markers v)(the (v_selected v) := None) else v_markers v),
       v_views := save_view (v_selected v)
         \<lparr>view_draft = v_draft v, view_messages = v_messages v, view_before = v_before v,
          view_scrollTop = e_scrollTop env, view_atBottom = v_atBottom v\<rparr> (v_views v)\<rparr>"

definition enter_conversation :: "string option \<Rightarrow> scroll_position option \<Rightarrow> chat_view \<Rightarrow> chat_view" where
  "enter_conversation i pos v =
     (let w = restore_view i (v_views v);
          w = (case pos of Some q \<Rightarrow> if has_view i (v_views v) then w else w\<lparr>view_atBottom := pos_atBottom q, view_scrollTop := pos_top q\<rparr>
            | None \<Rightarrow> w)
      in v\<lparr>v_selected := i, v_generation := v_generation v + 1, v_draft := view_draft w, v_messages := view_messages w,
           v_before := view_before w, v_atBottom := view_atBottom w, v_savedDraft := []\<rparr>)"

definition select :: "env \<Rightarrow> string option \<Rightarrow> cont \<Rightarrow> chat_view \<Rightarrow> stepped" where
  "select env i k v =
     (let changing = (i \<noteq> v_selected v); pos = remembered_position env i v;
          v = (if changing then (if pr_dialog (v_prompt v) \<noteq> None then cancel_prompt v else v)\<lparr>v_resultKey := None, v_focused := None\<rparr> else v);
          v = (if truthy i then v\<lparr>v_hidden := filter (\<lambda>j. Some j \<noteq> i) (v_hidden v)\<rparr> else v);
          v = (if changing then enter_conversation i pos (leave_conversation env
                 (v\<lparr>v_search := \<lparr>se_open = False, se_text = [], se_results = [], se_before = None, se_busy = False, se_error = [],
                      se_generation = se_generation (v_search v) + 1\<rparr>\<rparr>)) else v)
      in (v, [Continue (Inr True) (Select_shown i changing pos k)]))"

definition select_shown :: "string option \<Rightarrow> bool \<Rightarrow> scroll_position option \<Rightarrow> cont \<Rightarrow> chat_view \<Rightarrow> stepped" where
  "select_shown i changing pos k v =
     (if truthy i \<and> ready v then load_history False False (Select_loaded i changing pos k) v
      else returns (Select_loaded i changing pos k) v)"

text \<open>Pages that were loaded before are loaded again before a scrolled-back view is restored.\<close>

definition select_older :: "string option \<Rightarrow> scroll_position \<Rightarrow> cont \<Rightarrow> chat_view \<Rightarrow> stepped" where
  "select_older i pos k v =
     (if v_selected v = i \<and> truthy (v_before v) \<and> truthy (pos_oldest pos)
         \<and> list_all (\<lambda>m. Some (msg_id m) \<noteq> pos_oldest pos) (v_messages v) \<and> \<not> v_stale v
      then load_history True False (Select_older i pos k) v
      else returns k (if v_selected v = i then v\<lparr>v_atBottom := False\<rparr> else v))"

definition select_loaded :: "string option \<Rightarrow> bool \<Rightarrow> scroll_position option \<Rightarrow> cont \<Rightarrow> chat_view \<Rightarrow> stepped" where
  "select_loaded i changing pos k v =
     (case pos of
        Some q \<Rightarrow> if changing \<and> truthy i \<and> v_snapshot v \<noteq> None \<and> \<not> has_view i (v_views v) \<and> \<not> pos_atBottom q
          then select_older i q k v else returns k v
      | None \<Rightarrow> returns k v)"

section \<open>Snapshots\<close>

definition refresh_view :: "cont \<Rightarrow> chat_view \<Rightarrow> stepped" where
  "refresh_view k v =
     (let revision = v_snapshotGeneration v + 1 in
      (v\<lparr>v_snapshotGeneration := revision\<rparr>, [Await (Ask Snapshot) (Snapshot_arrived revision k)]))"

definition refresh_in_background :: "cont \<Rightarrow> chat_view \<Rightarrow> stepped" where
  "refresh_in_background k v = refresh_view (After_background k) v"

definition after_background :: "bool outcome \<Rightarrow> cont \<Rightarrow> chat_view \<Rightarrow> stepped" where
  "after_background r k v =
     (case r of Inl e \<Rightarrow> returns k (if running v then connection_failed e v else v) | Inr _ \<Rightarrow> returns k v)"

text \<open>\<open>checkSaved\<close>: the record it is for is looked up before the await.\<close>

definition saved_result :: "env \<Rightarrow> string \<Rightarrow> string option \<Rightarrow> chat_view \<Rightarrow> op_result option" where
  "saved_result env i key v =
     (if truthy key then get_result (v_results v) (the key)
      else let network = e_network env (v_selected v); named = (case network of Some n \<Rightarrow> n | None \<Rightarrow> []);
             inst = (case e_instance env network of Some n \<Rightarrow> Some n | None \<Rightarrow> map_option (inst_id \<circ> sn_instance) (v_snapshot v))
        in find (\<lambda>r. r_id r = i \<and> Some (r_instance r) = inst \<and> r_network r = named) (result_values (v_results v)))"

definition check_saved :: "env \<Rightarrow> string \<Rightarrow> string option \<Rightarrow> chat_view \<Rightarrow> stepped" where
  "check_saved env i key v =
     (if \<not> e_checks env \<or> i \<in> v_checking v then (v, [])
      else let existing = saved_result env i key v in
        case (case existing of Some r \<Rightarrow> (v, r_key r) | None \<Rightarrow> begin_in_view env i (v_selected v) None v) of (v, key) \<Rightarrow>
          (v\<lparr>v_checking := insert i (v_checking v)\<rparr>,
           [Await (Check_operation i) (Check_answered i key (Option.bind existing r_conversation))]))"

fun check_all :: "env \<Rightarrow> string list \<Rightarrow> chat_view \<Rightarrow> stepped" where
  "check_all env [] v = (v, [])"
| "check_all env (i # is) v =
     (if i \<in> v_checked v then check_all env is v
      else and_then (check_saved env i None (v\<lparr>v_checked := insert i (v_checked v)\<rparr>)) (check_all env is))"

definition recover_operations :: "env \<Rightarrow> chat_view \<Rightarrow> stepped" where
  "recover_operations env v =
     (case e_handles env of
        Some (Inr handles) \<Rightarrow>
          if ready v then
            let saved = filter (\<lambda>i. \<not> truthy (map_of (v_pending v) i)) handles in check_all env saved (v\<lparr>v_saved := saved\<rparr>)
          else (v\<lparr>v_saved := []\<rparr>, [])
      | Some (Inl e) \<Rightarrow> (if ready v then v\<lparr>v_notice := err_message (chatError e)\<rparr> else v\<lparr>v_saved := []\<rparr>, [])
      | None \<Rightarrow> (v\<lparr>v_saved := []\<rparr>, []))"

definition result_names :: "env \<Rightarrow> string option \<Rightarrow> string \<Rightarrow> string" where
  "result_names env conversation inst =
     (if truthy conversation then (case e_network env conversation of Some n \<Rightarrow> n | None \<Rightarrow> [])
      else if inst \<in> set (e_joined env) then inst
      else (case e_primary env of Some n \<Rightarrow> n | None \<Rightarrow> []))"

definition take_snapshot :: "env \<Rightarrow> snapshot \<Rightarrow> chat_view \<Rightarrow> chat_view" where
  "take_snapshot env s v =
     (let before = map_option sn_instance (v_snapshot v); inst = sn_instance s;
          other = (case before of None \<Rightarrow> False | Some b \<Rightarrow> inst_bootId b \<noteq> inst_bootId inst \<or> inst_id b \<noteq> inst_id inst);
          v = (if (inst_locked inst \<and> \<not> (case before of None \<Rightarrow> False | Some b \<Rightarrow> inst_locked b)) \<or> other then clear_private v else v);
          v = v\<lparr>v_snapshot := Some s\<rparr>
      in if inst_locked inst then v
         else v\<lparr>v_results := restore (result_names env) (case sn_operations s of Some ds \<Rightarrow> ds | None \<Rightarrow> []) (v_results v)\<rparr>)"

text \<open>The rest of \<open>refresh\<close>, from its first, second and third \<open>await\<close> on.\<close>

definition refresh_loaded :: "cont \<Rightarrow> chat_view \<Rightarrow> stepped" where
  "refresh_loaded k v = returns k (v\<lparr>v_offline := False, v_error := None\<rparr>)"

definition refresh_reselected :: "snapshot \<Rightarrow> bool \<Rightarrow> cont \<Rightarrow> chat_view \<Rightarrow> stepped" where
  "refresh_reselected s changed k v =
     (let v = v\<lparr>v_views := retain_views (map conv_id (sn_conversations s)) (v_views v)\<rparr> in
      if (changed \<or> v_stale v \<or> v_offline v) \<and> truthy (v_selected v) \<and> ready v
      then load_history False True (Refresh_loaded k) v
      else refresh_loaded k v)"

definition refresh_restored :: "env \<Rightarrow> snapshot \<Rightarrow> bool \<Rightarrow> cont \<Rightarrow> chat_view \<Rightarrow> stepped" where
  "refresh_restored env s changed k v =
     (if truthy (v_selected v) \<and> the (v_selected v) \<notin> conv_id ` set (sn_conversations s)
      then select env (first_unhidden (sn_conversations s) v) (Refresh_reselected s changed k) v
      else refresh_reselected s changed k v)"

definition first_selection :: "env \<Rightarrow> snapshot \<Rightarrow> string option" where
  "first_selection env s =
     (case e_navigation env of
        Some (Some i, _) \<Rightarrow> if i \<in> conv_id ` set (sn_conversations s) then Some i else map_option conv_id (List.find (\<lambda>_. True) (sn_conversations s))
      | _ \<Rightarrow> map_option conv_id (List.find (\<lambda>_. True) (sn_conversations s)))"

definition snapshot_arrived :: "env \<Rightarrow> nat \<Rightarrow> cont \<Rightarrow> response outcome \<Rightarrow> chat_view \<Rightarrow> stepped" where
  "snapshot_arrived env revision k reply v =
     (case reply of
        Inl e \<Rightarrow> throws e k v
      | Inr (R_snapshot s) \<Rightarrow>
          if revision \<noteq> v_snapshotGeneration v \<or> \<not> running v then returns k v
          else let changed = (map_option sn_revision (v_snapshot v) \<noteq> Some (sn_revision s)) in
            and_then (recover_operations env (take_snapshot env s v)) (\<lambda>v.
              if ready v \<and> \<not> v_restored v
              then select env (first_selection env s) (Refresh_restored s changed k) (v\<lparr>v_restored := True\<rparr>)
              else refresh_restored env s changed k v)
      | Inr _ \<Rightarrow> returns k v)"

text \<open>\<open>watch\<close>: refresh, wait for an event, and after a failure for a moment.\<close>

definition watch :: "chat_view \<Rightarrow> stepped" where
  "watch v =
     (if \<not> running v then (v, [])
      else if (case v_error v of Some e \<Rightarrow> \<not> retryable e | None \<Rightarrow> False) then (v, [Continue (Inr True) Watch_slept])
      else refresh_view Watch_refreshed v)"

definition watch_failed :: "thrown \<Rightarrow> chat_view \<Rightarrow> stepped" where
  "watch_failed e v = (if \<not> running v then (v, []) else (connection_failed e v, [Continue (Inr True) Watch_slept]))"

definition watch_refreshed :: "bool outcome \<Rightarrow> chat_view \<Rightarrow> stepped" where
  "watch_refreshed r v =
     (case r of
        Inl e \<Rightarrow> watch_failed e v
      | Inr _ \<Rightarrow> if \<not> running v then (v, [])
          else (v, [Await (Ask (Events (case v_snapshot v of Some s \<Rightarrow> sn_revision s | None \<Rightarrow> []) 20000)) Events_arrived]))"

definition events_arrived :: "response outcome \<Rightarrow> chat_view \<Rightarrow> stepped" where
  "events_arrived reply v = (case reply of Inl e \<Rightarrow> watch_failed e v | Inr _ \<Rightarrow> watch v)"

section \<open>Replies of commands\<close>

definition opens_details :: "command_output \<Rightarrow> bool" where
  "opens_details out = (case out of
       Invitation _ _ _ _ \<Rightarrow> True
     | Invitation_options _ \<Rightarrow> True
     | Invitations _ _ \<Rightarrow> True
     | Reusable_invitation _ _ _ _ _ _ \<Rightarrow> True
     | Enrollment_output _ _ _ _ _ \<Rightarrow> True
     | Enrollments _ \<Rightarrow> True
     | Membership_recovery _ _ _ _ _ _ \<Rightarrow> True
     | Text_output title _ \<Rightarrow> title = ''Reconnect this channel''
     | _ \<Rightarrow> False)"

text \<open>\<open>apply\<close> after the selection it may wait for.\<close>

definition apply_instance :: "response \<Rightarrow> cont \<Rightarrow> chat_view \<Rightarrow> stepped" where
  "apply_instance response k v =
     (let v = (case response of
          R_instance inst \<Rightarrow>
            if inst_locked inst then
              (let v = clear_private (v\<lparr>v_snapshotGeneration := v_snapshotGeneration v + 1\<rparr>) in
               v\<lparr>v_snapshot := map_option (\<lambda>s. s\<lparr>sn_instance := inst, sn_conversations := [], sn_operations := Some [], sn_activity := Some []\<rparr>) (v_snapshot v)\<rparr>)
            else v
        | R_snapshot s \<Rightarrow>
            (let v = v\<lparr>v_snapshotGeneration := v_snapshotGeneration v + 1\<rparr> in
             (if inst_locked (sn_instance s) then clear_private v else v)\<lparr>v_snapshot := Some s\<rparr>)
        | _ \<Rightarrow> v)
      in and_then (refresh_in_background Nobody v) (returns k))"

definition apply_response :: "env \<Rightarrow> response \<Rightarrow> string option \<Rightarrow> string option \<Rightarrow> cont \<Rightarrow> chat_view \<Rightarrow> stepped" where
  "apply_response env response origin result k v =
     (case response of
        R_error c m \<Rightarrow> throws (Thrown_chat (ChatError c m)) k v
      | _ \<Rightarrow>
        (case (case result of Some key \<Rightarrow> complete_result key response (e_now env) (v_results v) | None \<Rightarrow> (v_results v, True)) of
           (store, first) \<Rightarrow>
             let v = v\<lparr>v_results := store\<rparr> in
             if \<not> first then refresh_in_background k v
             else if locked v then apply_instance response k v
             else (case response of
                 R_output _ (Close c) \<Rightarrow>
                   (let v = v\<lparr>v_hidden := v_hidden v @ [c]\<rparr> in
                    if v_selected v = Some c then select env (first_unhidden (conversations v) v) (Applied_selected response k) v
                    else apply_instance response k v)
               | R_output _ out \<Rightarrow>
                   apply_instance response k (if result \<noteq> None \<and> opens_details out then v\<lparr>v_resultKey := result\<rparr> else v)
               | R_applied c note \<Rightarrow>
                   (let v = (if truthy note \<and> result = None then v\<lparr>v_notice := the note\<rparr> else v) in
                    if truthy c \<and> v_selected v = origin then select env c (Applied_selected response k) v
                    else apply_instance response k v)
               | _ \<Rightarrow> apply_instance response k v)))"

section \<open>Operations\<close>

text \<open>The identity, the conversation and the text of a submission; other operations exclude each other.\<close>

definition submission :: "request \<Rightarrow> (string \<times> string option \<times> string) option" where
  "submission q = (case q of Submit i c t \<Rightarrow> Some (i, c, t) | _ \<Rightarrow> None)"

definition scope_of :: "string option \<Rightarrow> string" where
  "scope_of c = (case c of Some i \<Rightarrow> i | None \<Rightarrow> [])"

definition operation_over :: "request \<Rightarrow> chat_view \<Rightarrow> chat_view" where
  "operation_over q v =
     (case submission q of None \<Rightarrow> v\<lparr>v_busy := False\<rparr> | Some (i, _, _) \<Rightarrow> v\<lparr>v_pending := remove_key i (v_pending v)\<rparr>)"

definition trim_text :: "string \<Rightarrow> string" where
  "trim_text t = text_of (trim (units_of t))"

definition operation :: "env \<Rightarrow> request \<Rightarrow> cont \<Rightarrow> chat_view \<Rightarrow> stepped" where
  "operation env q k v =
     (if v_busy v \<or> (case submission q of Some (i, _, _) \<Rightarrow> truthy (map_of (v_pending v) i) \<or> sending_full v | None \<Rightarrow> False)
      then (v, [Continue (Inr False) k])
      else let origin = v_selected v in
        case submission q of
          None \<Rightarrow> (v\<lparr>v_busy := True, v_notice := []\<rparr>, [Await (Ask q) (Operation_answered q origin None k)])
        | Some (i, c, t) \<Rightarrow>
            (case begin_in_view env i c (Some t) v of (v, key) \<Rightarrow>
               let v = (if trim_text t = ''/invite'' then v\<lparr>v_resultKey := Some key, v_search := (v_search v)\<lparr>se_open := False\<rparr>\<rparr> else v);
                   v = dismiss_failure i (v\<lparr>v_pending := put i (scope_of c) (v_pending v)\<rparr>)
               in (v\<lparr>v_notice := []\<rparr>, [Await (Ask q) (Operation_answered q origin (Some key) k)])))"

definition operation_failed :: "env \<Rightarrow> request \<Rightarrow> string option \<Rightarrow> thrown \<Rightarrow> cont \<Rightarrow> chat_view \<Rightarrow> stepped" where
  "operation_failed env q result e k v =
     (let failure = chatError e;
          v = (if \<not> running v \<or> (locked v \<and> submission q \<noteq> None) then v
               else let v = (case result of
                          Some key \<Rightarrow> v\<lparr>v_results := error_result key (err_code failure) (err_message failure) (e_now env) (v_results v)\<rparr>
                        | None \<Rightarrow> v)
                 in if submission q \<noteq> None \<and> \<not> locked v
                    then v\<lparr>v_failures := v_failures v @ [\<lparr>fail_request = q, fail_code = err_code failure, fail_message = err_message failure\<rparr>]\<rparr>
                    else v\<lparr>v_notice := err_message failure\<rparr>)
      in (operation_over q v, [Continue (Inr False) k]))"

text \<open>The device may unlock by itself; its warning is shown.\<close>

definition operation_answered :: "env \<Rightarrow> request \<Rightarrow> string option \<Rightarrow> string option \<Rightarrow> cont \<Rightarrow> response outcome \<Rightarrow> chat_view \<Rightarrow> stepped" where
  "operation_answered env q origin result k reply v =
     (case reply of
        Inl e \<Rightarrow> operation_failed env q result e k v
      | Inr response \<Rightarrow> apply_response env response origin result (Operation_applied q result k) v)"

definition operation_applied :: "env \<Rightarrow> request \<Rightarrow> string option \<Rightarrow> cont \<Rightarrow> bool outcome \<Rightarrow> chat_view \<Rightarrow> stepped" where
  "operation_applied env q result k r v =
     (case r of
        Inl e \<Rightarrow> operation_failed env q result e k v
      | Inr _ \<Rightarrow> returns k (operation_over q (case q of
            Unlock _ _ \<Rightarrow> if truthy (e_warning env) then v\<lparr>v_notice := the (e_warning env)\<rparr> else v
          | _ \<Rightarrow> v)))"

section \<open>Search\<close>

definition search :: "env \<Rightarrow> bool \<Rightarrow> chat_view \<Rightarrow> stepped" where
  "search env older v =
     (let q = v_search v; t = trim_text (se_text q); revision = se_generation q + 1;
          v = v\<lparr>v_search := q\<lparr>se_generation := revision\<rparr>\<rparr>
      in if \<not> truthy (v_selected v) \<or> t = [] \<or> locked v then (v, [])
         else let err = text_of (inputError (e_shows env) (units_of t) 256);
                  v = v\<lparr>v_search := (v_search v)\<lparr>se_error := err\<rparr>\<rparr> in
           if err \<noteq> [] then (v, [])
           else (v\<lparr>v_search := (v_search v)\<lparr>se_busy := True\<rparr>\<rparr>,
             [Await (Ask (Search (the (v_selected v)) t (if older then se_before q else None) 200))
                (Search_arrived older (the (v_selected v)) revision)]))"

definition search_over :: "nat \<Rightarrow> chat_view \<Rightarrow> chat_view" where
  "search_over revision v =
     (if revision = se_generation (v_search v) then v\<lparr>v_search := (v_search v)\<lparr>se_busy := False\<rparr>\<rparr> else v)"

definition search_arrived :: "bool \<Rightarrow> string \<Rightarrow> nat \<Rightarrow> response outcome \<Rightarrow> chat_view \<Rightarrow> stepped" where
  "search_arrived older conversation revision reply v =
     (let q = v_search v; v = (case reply of
          Inl e \<Rightarrow> if revision = se_generation q then v\<lparr>v_search := q\<lparr>se_error := err_message (chatError e)\<rparr>\<rparr> else v
        | Inr (R_history page) \<Rightarrow>
            if revision \<noteq> se_generation q \<or> v_selected v \<noteq> Some conversation \<or> locked v then v
            else v\<lparr>v_search := q\<lparr>se_results := (if older then page_messages page @ se_results q else page_messages page),
                   se_before := page_before page\<rparr>\<rparr>
        | Inr _ \<Rightarrow> v)
      in (search_over revision v, []))"

definition find_text :: "string \<Rightarrow> chat_view \<Rightarrow> stepped" where
  "find_text t v =
     (if \<not> truthy (v_selected v) \<or> \<not> ready v then (v\<lparr>v_notice := ''Choose a conversation before using /find.''\<rparr>, [])
      else let v = cancel_prompt (v\<lparr>v_resultKey := None\<rparr>) in
        (v\<lparr>v_search := (v_search v)\<lparr>se_open := True, se_text := t, se_results := [], se_before := None, se_error := []\<rparr>\<rparr>,
         [Continue (Inr True) (Find_shown t)]))"

text \<open>\<open>revealMessage\<close>: earlier pages are loaded until the message is there or a cursor comes back.\<close>

definition reveal_search :: "string option \<Rightarrow> nat \<Rightarrow> chat_view \<Rightarrow> bool" where
  "reveal_search conversation revision v \<longleftrightarrow>
     se_open (v_search v) \<and> se_generation (v_search v) = revision \<and> v_selected v = conversation"

definition reveal_loop :: "message \<Rightarrow> string option \<Rightarrow> nat \<Rightarrow> string list \<Rightarrow> chat_view \<Rightarrow> stepped" where
  "reveal_loop m conversation revision cursors v =
     (let here = list_ex (\<lambda>n. msg_id n = msg_id m) (v_messages v); over = (\<lambda>v. (v\<lparr>v_jumping := False\<rparr>, [])) in
      if reveal_search conversation revision v \<and> \<not> here \<and> truthy (v_before v) \<and> \<not> v_stale v then
        if the (v_before v) \<in> set cursors
        then over (v\<lparr>v_search := (v_search v)\<lparr>se_error := ''Earlier history did not advance. Try the search again.''\<rparr>\<rparr>)
        else load_history True False (Reveal_older m conversation revision (the (v_before v) # cursors)) v
      else if \<not> reveal_search conversation revision v \<or> locked v then over v
      else if \<not> here
      then over (v\<lparr>v_search := (v_search v)\<lparr>se_error := ''This message is no longer available in the loaded history.''\<rparr>\<rparr>)
      else (close_search (v\<lparr>v_focused := Some (msg_id m)\<rparr>), [Continue (Inr True) Reveal_shown]))"

definition reveal_message :: "message \<Rightarrow> chat_view \<Rightarrow> stepped" where
  "reveal_message m v =
     (if v_jumping v then (v, [])
      else reveal_loop m (v_selected v) (se_generation (v_search v)) []
        (v\<lparr>v_jumping := True, v_search := (v_search v)\<lparr>se_error := []\<rparr>, v_atBottom := False\<rparr>))"

section \<open>Sending\<close>

text \<open>\<open>/^\\/join\\s+gcoms:/\<close>: what follows \<open>/join\<close>.\<close>

definition join_invitation :: "units \<Rightarrow> units option" where
  "join_invitation us =
     (if take 5 us = ascii ''/join'' \<and> drop 5 us \<noteq> [] \<and> white (hd (drop 5 us))
         \<and> take 6 (dropWhile white (drop 5 us)) = ascii ''gcoms:''
      then Some (trim (drop 6 us)) else None)"

definition input_limit :: "string \<Rightarrow> chat_view \<Rightarrow> nat" where
  "input_limit t v =
     (if slash t then commandInputLimit (units_of t)
      else case active_conversation v of Some c \<Rightarrow> nat (conv_inputLimitBytes c) | None \<Rightarrow> MAX_INPUT_BYTES)"

definition taken_from_draft :: "string \<Rightarrow> chat_view \<Rightarrow> chat_view" where
  "taken_from_draft t v = (if t = v_draft v then v\<lparr>v_draft := []\<rparr> else v)"

definition open_invitation :: "string \<Rightarrow> string \<Rightarrow> chat_view \<Rightarrow> chat_view" where
  "open_invitation code t v =
     open_dialog Join_dialog (taken_from_draft t (v\<lparr>v_prompt := (v_prompt v)\<lparr>pr_incoming := code\<rparr>\<rparr>))"

definition run_local :: "local_name \<Rightarrow> string \<Rightarrow> chat_view \<Rightarrow> stepped" where
  "run_local name args v =
     (case name of
        Local_update \<Rightarrow> (open_utility v, [])
      | Local_help \<Rightarrow> (open_utility v, [])
      | Local_find \<Rightarrow> find_text args v
      | Local_font \<Rightarrow> if args = [] then (open_utility v, [])
          else if args = ''fixedsys'' \<or> args = ''readable'' then (v, [])
          else (v\<lparr>v_notice := ''Use /font, /font fixedsys or /font readable.''\<rparr>, []))"

definition send_text :: "env \<Rightarrow> string \<Rightarrow> chat_view \<Rightarrow> stepped" where
  "send_text env t v =
     (let archive = (case active_conversation v of Some c \<Rightarrow> conv_kind c = Archive | None \<Rightarrow> False); short = trim_text t in
      if t = [] \<or> \<not> ready v then (v, [])
      else if short = ''/cancel'' then (cancel_prompt v, [])
      else if pr_dialog (v_prompt v) \<noteq> None then (v, [])
      else if \<not> slash t \<and> archive
      then (v\<lparr>v_notice := ''This archive is read only. Choose an active conversation to send a message.''\<rparr>, [])
      else if short = ''/join'' then (open_dialog Join_dialog (taken_from_draft t v), [])
      else if short = ''/create'' then (open_dialog Create_dialog (taken_from_draft t v), [])
      else (case join_invitation (units_of short) of
          Some code \<Rightarrow> (open_invitation (text_of code) t v, [])
        | None \<Rightarrow>
            if take 6 short = ''gcoms:'' then (open_invitation short t v, [])
            else (case localCommand (units_of t) of
                Some (name, args) \<Rightarrow> run_local name (text_of args) (taken_from_draft t v)
              | None \<Rightarrow>
                  if v_busy v \<or> sending_full v
                  then (v\<lparr>v_notice := ''The outgoing queue is full. Your draft is kept; send it when capacity becomes available.''\<rparr>, [])
                  else if v_offline v then (v\<lparr>v_notice := ''Reconnecting. Your draft is kept.''\<rparr>, [])
                  else let err = text_of (inputError (e_shows env) (units_of t) (input_limit t v)) in
                    if err \<noteq> [] then (v\<lparr>v_notice := err\<rparr>, [])
                    else let q = Submit (e_uuid env) (v_selected v) t in
                      operation env q (Send_done t q) (taken_from_draft t (if slash t then v else v\<lparr>v_atBottom := True\<rparr>)))))"

definition send_done :: "string \<Rightarrow> request \<Rightarrow> bool outcome \<Rightarrow> chat_view \<Rightarrow> stepped" where
  "send_done t q r v =
     ((case submission q of
         Some (i, c, _) \<Rightarrow>
           if r = Inr False \<and> v_draft v = [] \<and> v_selected v = c
              \<and> list_ex (\<lambda>f. map_option fst (submission (fail_request f)) = Some i
                    \<and> fail_code f \<in> {''busy'', ''rejected'', ''invalid_argument''}) (v_failures v)
           then v\<lparr>v_draft := t\<rparr> else v
       | None \<Rightarrow> v), [])"

definition edit_failed :: "env \<Rightarrow> request \<Rightarrow> chat_view \<Rightarrow> stepped" where
  "edit_failed env q v = (case submission q of Some (_, c, _) \<Rightarrow> select env c (Edit_selected q) v | None \<Rightarrow> (v, []))"

definition edit_selected :: "request \<Rightarrow> chat_view \<Rightarrow> stepped" where
  "edit_selected q v =
     (case submission q of Some (i, _, t) \<Rightarrow> (dismiss_failure i (v\<lparr>v_draft := t\<rparr>), []) | None \<Rightarrow> (v, []))"

definition forget_saved :: "string \<Rightarrow> chat_view \<Rightarrow> chat_view" where
  "forget_saved i v = dismiss_failure i (v\<lparr>v_saved := filter (\<lambda>j. j \<noteq> i) (v_saved v)\<rparr>)"

definition check_over :: "string \<Rightarrow> chat_view \<Rightarrow> chat_view" where
  "check_over i v = v\<lparr>v_checking := v_checking v - {i}\<rparr>"

definition check_failed :: "env \<Rightarrow> string \<Rightarrow> string \<Rightarrow> thrown \<Rightarrow> chat_view \<Rightarrow> stepped" where
  "check_failed env i key e v =
     (let failure = chatError e;
          v = (if \<not> running v \<or> locked v then v
            else v\<lparr>v_results := error_result key (err_code failure) (err_message failure) (e_now env) (v_results v),
                   v_recovery := (v_recovery v)(i := Some (err_message failure)),
                   v_failures := map (\<lambda>f. if map_option fst (submission (fail_request f)) = Some i
                     then f\<lparr>fail_code := err_code failure, fail_message := err_message failure\<rparr> else f) (v_failures v)\<rparr>)
      in (check_over i v, []))"

definition check_answered :: "env \<Rightarrow> string \<Rightarrow> string \<Rightarrow> string option \<Rightarrow> response outcome \<Rightarrow> chat_view \<Rightarrow> stepped" where
  "check_answered env i key conversation reply v =
     (case reply of
        Inl e \<Rightarrow> check_failed env i key e v
      | Inr response \<Rightarrow>
          if \<not> running v \<or> locked v then (check_over i v, [])
          else apply_response env response (if conversation \<noteq> None then conversation else v_selected v) (Some key)
                 (Check_applied i key) (forget_saved i v))"

definition check_applied :: "env \<Rightarrow> string \<Rightarrow> string \<Rightarrow> bool outcome \<Rightarrow> chat_view \<Rightarrow> stepped" where
  "check_applied env i key r v = (case r of Inl e \<Rightarrow> check_failed env i key e v | Inr _ \<Rightarrow> (check_over i v, []))"

section \<open>Joining and creating channels\<close>

definition one_word :: "units \<Rightarrow> bool" where
  "one_word us \<longleftrightarrow> list_all (\<lambda>u. \<not> white u) us"

definition join_text :: "prompt_state \<Rightarrow> string" where
  "join_text p =
     (case pr_dialog p of
        Some Create_dialog \<Rightarrow> ''/create --'' @ pr_visibility p @ '' ''
      | Some Join_dialog \<Rightarrow> ''/join ''
      | Some Choose_dialog \<Rightarrow> ''/choose ''
      | None \<Rightarrow> ''/null '') @ trim_text (pr_destination p) @ '' '' @ trim_text (pr_nickname p)"

definition join_channel :: "env \<Rightarrow> chat_view \<Rightarrow> stepped" where
  "join_channel env v =
     (let p = v_prompt v; target = trim_text (pr_destination p); nick = trim_text (pr_nickname p);
          refuse = (\<lambda>m. (v\<lparr>v_prompt := p\<lparr>pr_error := m\<rparr>\<rparr>, []))
      in if pr_destination p = [] \<or> pr_nickname p = [] \<or> pr_busy p then (v, [])
         else if \<not> one_word (units_of target) then refuse ''Use one invitation or channel name, without spaces.''
         else if nick = [] \<or> list_ex (\<lambda>c. c \<in> {CHR 0x0D, CHR 0x0A, CHR 0x09}) nick then refuse ''Enter a nickname on one line.''
         else let err = text_of (inputError (e_shows env) (units_of (join_text p)) MAX_INPUT_BYTES) in
           if err \<noteq> [] then refuse err
           else let q = (case Option.bind (pr_request p) submission of
                    Some (_, _, t) \<Rightarrow> if t = join_text p then the (pr_request p) else Submit (e_uuid env) (v_selected v) (join_text p)
                  | None \<Rightarrow> Submit (e_uuid env) (v_selected v) (join_text p));
                  v = v\<lparr>v_prompt := p\<lparr>pr_error := [], pr_busy := True, pr_request := Some q\<rparr>\<rparr>
             in case submission q of
                  None \<Rightarrow> (v, [])
                | Some (i, _, t) \<Rightarrow> (case begin_in_view env i (v_selected v) (Some t) v of (v, key) \<Rightarrow>
                    (v, [Await (Ask q) (Join_answered q (v_selected v) key)])))"

definition join_over :: "chat_view \<Rightarrow> chat_view" where
  "join_over v = v\<lparr>v_prompt := (v_prompt v)\<lparr>pr_busy := False\<rparr>\<rparr>"

definition join_failed :: "request \<Rightarrow> thrown \<Rightarrow> chat_view \<Rightarrow> stepped" where
  "join_failed q e v =
     (let failure = chatError e; p = v_prompt v in
      (join_over (if \<not> running v \<or> locked v \<or> pr_request p \<noteq> Some q then v
         else v\<lparr>v_prompt := p\<lparr>pr_error := err_message failure,
                pr_request := (if err_code failure = ''rejected'' then None else pr_request p)\<rparr>\<rparr>), []))"

definition join_answered :: "env \<Rightarrow> request \<Rightarrow> string option \<Rightarrow> string \<Rightarrow> response outcome \<Rightarrow> chat_view \<Rightarrow> stepped" where
  "join_answered env q origin key reply v =
     (case reply of
        Inl e \<Rightarrow> join_failed q e v
      | Inr response \<Rightarrow>
          if \<not> running v \<or> locked v \<or> pr_request (v_prompt v) \<noteq> Some q then (join_over v, [])
          else apply_response env response origin (Some key) (Join_applied q key) (cancel_prompt v))"

definition join_applied :: "request \<Rightarrow> bool outcome \<Rightarrow> chat_view \<Rightarrow> stepped" where
  "join_applied q r v =
     (case r of
        Inl e \<Rightarrow> join_failed q e v
      | Inr _ \<Rightarrow> (join_over (v\<lparr>v_prompt := (v_prompt v)\<lparr>pr_destination := [], pr_request := None\<rparr>\<rparr>), []))"

text \<open>\<open>performJoin\<close>: joining by an invitation, from the forms that take one.  What is done with the reply
  depends on whether the profile is the one that asked, and on the conversation selected then.\<close>

definition instance_of :: "chat_view \<Rightarrow> string option" where
  "instance_of v = map_option (inst_id \<circ> sn_instance) (v_snapshot v)"

definition still_on :: "string option \<Rightarrow> chat_view \<Rightarrow> bool" where
  "still_on inst v \<longleftrightarrow> running v \<and> \<not> locked v \<and> instance_of v = inst"

definition perform_join :: "env \<Rightarrow> network_request \<Rightarrow> chat_view \<Rightarrow> stepped" where
  "perform_join env q v =
     (let i = (case q of Join _ _ _ j \<Rightarrow> j | _ \<Rightarrow> e_uuid env) in
      case begin_in_view env i (v_selected v) (Some ''/join'') v of (v, key) \<Rightarrow>
        (v\<lparr>v_pending := put i (scope_of (v_selected v)) (v_pending v)\<rparr>,
         [Await (Ask (Networks q)) (Invitation_answered i key (v_selected v) (instance_of v))]))"

definition invitation_over :: "string \<Rightarrow> chat_view \<Rightarrow> chat_view" where
  "invitation_over i v = v\<lparr>v_pending := remove_key i (v_pending v)\<rparr>"

definition invitation_failed :: "env \<Rightarrow> string \<Rightarrow> string \<Rightarrow> string option \<Rightarrow> thrown \<Rightarrow> chat_view \<Rightarrow> stepped" where
  "invitation_failed env i key inst e v =
     (let failure = chatError e in
      (invitation_over i (if still_on inst v
         then v\<lparr>v_results := error_result key (err_code failure) (err_message failure) (e_now env) (v_results v)\<rparr> else v), []))"

definition invitation_answered ::
  "env \<Rightarrow> string \<Rightarrow> string \<Rightarrow> string option \<Rightarrow> string option \<Rightarrow> response outcome \<Rightarrow> chat_view \<Rightarrow> stepped" where
  "invitation_answered env i key origin inst reply v =
     (case reply of
        Inl e \<Rightarrow> invitation_failed env i key inst e v
      | Inr response \<Rightarrow>
          if \<not> still_on inst v then (invitation_over i v, [])
          else case response of
              R_error c m \<Rightarrow> invitation_failed env i key inst (Thrown_chat (ChatError c m)) v
            | _ \<Rightarrow>
                let v = v\<lparr>v_results := fst (complete_result key response (e_now env) (v_results v))\<rparr> in
                if v_selected v = origin
                then refresh_in_background (Invitation_refreshed i key inst response) (cancel_prompt (v\<lparr>v_accepted := True\<rparr>))
                else refresh_in_background (Invitation_elsewhere i) v)"

definition invitation_refreshed :: "env \<Rightarrow> string \<Rightarrow> string \<Rightarrow> string option \<Rightarrow> response \<Rightarrow> chat_view \<Rightarrow> stepped" where
  "invitation_refreshed env i key inst response v =
     apply_response env response (v_selected v) None (Invitation_applied i key inst response) v"

definition inner_response :: "response \<Rightarrow> response" where
  "inner_response r = (case r of R_networks (N_result _ inner) \<Rightarrow> inner | _ \<Rightarrow> r)"

definition invitation_applied ::
  "env \<Rightarrow> string \<Rightarrow> string \<Rightarrow> string option \<Rightarrow> response \<Rightarrow> bool outcome \<Rightarrow> chat_view \<Rightarrow> stepped" where
  "invitation_applied env i key inst response r v =
     (case r of
        Inl e \<Rightarrow> invitation_failed env i key inst e v
      | Inr _ \<Rightarrow> (invitation_over i (case inner_response response of
            R_output _ (Enrollment_output _ _ _ _ _) \<Rightarrow> v\<lparr>v_resultKey := Some key\<rparr>
          | _ \<Rightarrow> v), []))"

definition invitation_elsewhere :: "string \<Rightarrow> chat_view \<Rightarrow> stepped" where
  "invitation_elsewhere i v =
     (invitation_over i (v\<lparr>v_notice := ''Invitation completed. The channel is available in Channels.''\<rparr>), [])"

definition list_directory :: "env \<Rightarrow> chat_view \<Rightarrow> stepped" where
  "list_directory env v = (v, [Await (Ask (Submit (e_uuid env) None ''/list'')) Directory_listed])"

definition load_directory :: "env \<Rightarrow> bool \<Rightarrow> chat_view \<Rightarrow> stepped" where
  "load_directory env again v =
     (let v = v\<lparr>v_prompt := (v_prompt v)\<lparr>pr_error := [], pr_browse := True\<rparr>\<rparr> in
      if again then (v, [Await (Ask (Submit (e_uuid env) None ''/refresh'')) Directory_refreshed]) else list_directory env v)"

definition directory_failed :: "thrown \<Rightarrow> chat_view \<Rightarrow> stepped" where
  "directory_failed e v = (v\<lparr>v_prompt := (v_prompt v)\<lparr>pr_error := err_message (chatError e)\<rparr>\<rparr>, [])"

definition directory_refreshed :: "env \<Rightarrow> response outcome \<Rightarrow> chat_view \<Rightarrow> stepped" where
  "directory_refreshed env reply v = (case reply of Inl e \<Rightarrow> directory_failed e v | Inr _ \<Rightarrow> list_directory env v)"

definition directory_listed :: "response outcome \<Rightarrow> chat_view \<Rightarrow> stepped" where
  "directory_listed reply v =
     (case reply of
        Inl e \<Rightarrow> directory_failed e v
      | Inr (R_output _ out) \<Rightarrow> (v\<lparr>v_prompt := (v_prompt v)\<lparr>pr_directory := Some out\<rparr>\<rparr>, [])
      | Inr _ \<Rightarrow> (v, []))"

definition choose_channel :: "env \<Rightarrow> directory_entry \<Rightarrow> chat_view \<Rightarrow> stepped" where
  "choose_channel env entry v =
     (if truthy (dir_conversation entry) \<and> dir_joined entry
      then select env (dir_conversation entry) Nobody (v\<lparr>v_prompt := (v_prompt v)\<lparr>pr_dialog := None\<rparr>\<rparr>)
      else let v = open_dialog Join_dialog v in
        (v\<lparr>v_prompt := (v_prompt v)\<lparr>
           pr_destination := (case dir_conversation entry of Some c \<Rightarrow> c | None \<Rightarrow> dir_name entry),
           pr_joiningPublic := True, pr_browse := False\<rparr>\<rparr>, []))"

section \<open>The machine\<close>

definition read_marked :: "string \<Rightarrow> response outcome \<Rightarrow> chat_view \<Rightarrow> stepped" where
  "read_marked conversation reply v =
     (case reply of Inl _ \<Rightarrow> (v, []) | Inr _ \<Rightarrow> (v\<lparr>v_mentioned := v_mentioned v - {conversation}\<rparr>, []))"

fun answered :: "env \<Rightarrow> response outcome \<Rightarrow> waiter \<Rightarrow> chat_view \<Rightarrow> stepped" where
  "answered env r (History_arrived older bg revision conversation k) = history_arrived older bg revision conversation k r"
| "answered env r (Snapshot_arrived revision k) = snapshot_arrived env revision k r"
| "answered env r Events_arrived = events_arrived r"
| "answered env r (Read_marked conversation) = read_marked conversation r"
| "answered env r (Search_arrived older conversation revision) = search_arrived older conversation revision r"
| "answered env r (Operation_answered q origin result k) = operation_answered env q origin result k r"
| "answered env r (Join_answered q origin key) = join_answered env q origin key r"
| "answered env r (Check_answered i key conversation) = check_answered env i key conversation r"
| "answered env r (Invitation_answered i key origin inst) = invitation_answered env i key origin inst r"
| "answered env r Directory_refreshed = directory_refreshed env r"
| "answered env r Directory_listed = directory_listed r"

text \<open>Only calls that may throw look at how the awaited call ended.\<close>

fun continued :: "env \<Rightarrow> bool outcome \<Rightarrow> cont \<Rightarrow> chat_view \<Rightarrow> stepped" where
  "continued env r Nobody v = (v, [])"
| "continued env r (After_background k) v = after_background r k v"
| "continued env r (Refresh_restored s changed k) v = refresh_restored env s changed k v"
| "continued env r (Refresh_reselected s changed k) v = refresh_reselected s changed k v"
| "continued env r (Refresh_loaded k) v = (case r of Inl e \<Rightarrow> throws e k v | Inr _ \<Rightarrow> refresh_loaded k v)"
| "continued env r Watch_refreshed v = watch_refreshed r v"
| "continued env r Watch_slept v = watch v"
| "continued env r (Select_shown i changing pos k) v = select_shown i changing pos k v"
| "continued env r (Select_loaded i changing pos k) v = select_loaded i changing pos k v"
| "continued env r (Select_older i pos k) v = select_older i pos k v"
| "continued env r (History_shown revision k) v = history_shown env revision k v"
| "continued env r (Find_shown t) v = (if t \<noteq> [] then search env False v else (v, []))"
| "continued env r (Reveal_older m conversation revision cursors) v = reveal_loop m conversation revision cursors v"
| "continued env r Reveal_shown v = (v\<lparr>v_jumping := False\<rparr>, [])"
| "continued env r (Applied_selected response k) v = apply_instance response k v"
| "continued env r (Operation_applied q result k) v = operation_applied env q result k r v"
| "continued env r (Send_done t q) v = send_done t q r v"
| "continued env r (Edit_selected q) v = edit_selected q v"
| "continued env r (Join_applied q key) v = join_applied q r v"
| "continued env r (Check_applied i key) v = check_applied env i key r v"
| "continued env r (Invitation_refreshed i key inst response) v = invitation_refreshed env i key inst response v"
| "continued env r (Invitation_applied i key inst response) v = invitation_applied env i key inst response r v"
| "continued env r (Invitation_elsewhere i) v = invitation_elsewhere i v"

text \<open>What the user and the window do.  The markup shows the composer when the view is ready, the search,
  the dialog and the details when it is unlocked; the network status may accept an unlocked profile.\<close>

datatype ui_event =
    Mounted
  | Unmounted
  | Became_visible
  | Went_offline
  | Network_accepted
  | Badges "string set"
  | Typed string
  | Typed_password string
  | Typed_search string
  | Typed_destination string
  | Typed_nickname string
  | Chose_visibility string
  | Scrolled bool
  | Focused_window
  | Conversation_chosen "string option"
  | Older_wanted
  | Send_wanted
  | Send_command string
  | Operation_wanted request
  | Unlock_wanted bool
  | Dialog_wanted dialog
  | Prompt_cancelled
  | Join_wanted
  | Invitation_wanted network_request
  | Directory_wanted bool
  | Entry_chosen directory_entry
  | Utility_wanted
  | Find_wanted string
  | Search_wanted bool
  | Search_closed
  | Reveal_wanted message
  | Check_wanted string "string option"
  | Forget_wanted string
  | Failure_dismissed string
  | Edit_wanted request
  | Details_wanted string "string option"
  | Details_closed

definition unmounted :: "chat_view \<Rightarrow> chat_view" where
  "unmounted v = v\<lparr>running := False, v_mentioned := {}, v_generation := v_generation v + 1, v_password := [],
     v_views := clear_views (v_views v)\<rparr>"

definition show_result :: "env \<Rightarrow> string \<Rightarrow> string option \<Rightarrow> chat_view \<Rightarrow> chat_view" where
  "show_result env i conversation v =
     (case begin_in_view env i conversation None (cancel_prompt (v\<lparr>v_search := (v_search v)\<lparr>se_open := False\<rparr>\<rparr>)) of
        (v, key) \<Rightarrow> v\<lparr>v_resultKey := Some key\<rparr>)"

definition set_prompt :: "(prompt_state \<Rightarrow> prompt_state) \<Rightarrow> chat_view \<Rightarrow> stepped" where
  "set_prompt f v = (if locked v \<or> pr_dialog (v_prompt v) = None then (v, []) else (v\<lparr>v_prompt := f (v_prompt v)\<rparr>, []))"

definition unlocked :: "stepped \<Rightarrow> chat_view \<Rightarrow> stepped" where
  "unlocked r v = (if locked v then (v, []) else r)"

fun happened :: "env \<Rightarrow> ui_event \<Rightarrow> chat_view \<Rightarrow> stepped" where
  "happened env Mounted v = watch v"
| "happened env Unmounted v = (unmounted v, [])"
| "happened env Became_visible v =
     (if (case v_error v of Some e \<Rightarrow> retryable e | None \<Rightarrow> True) then refresh_in_background Nobody v else (v, []))"
| "happened env Went_offline v =
     (connection_failed (Thrown_object None (Some ''Network unavailable. Drafts and loaded history remain available.'') True []) v, [])"
| "happened env Network_accepted v = (if running v \<and> \<not> locked v then v\<lparr>v_accepted := True\<rparr> else v, [])"
| "happened env (Badges ids) v = (if ready v then v\<lparr>v_mentioned := ids\<rparr> else v, [])"
| "happened env (Typed t) v = (if ready v then v\<lparr>v_draft := t\<rparr> else v, [])"
| "happened env (Typed_password t) v = (v\<lparr>v_password := t\<rparr>, [])"
| "happened env (Typed_search t) v = unlocked (v\<lparr>v_search := (v_search v)\<lparr>se_text := t\<rparr>\<rparr>, []) v"
| "happened env (Typed_destination t) v = set_prompt (\<lambda>p. p\<lparr>pr_destination := t\<rparr>) v"
| "happened env (Typed_nickname t) v = set_prompt (\<lambda>p. p\<lparr>pr_nickname := t\<rparr>) v"
| "happened env (Chose_visibility t) v = set_prompt (\<lambda>p. p\<lparr>pr_visibility := t\<rparr>) v"
| "happened env (Scrolled b) v = (let v = v\<lparr>v_atBottom := b\<rparr> in if b then mark_read env v else (v, []))"
| "happened env Focused_window v = mark_read env v"
| "happened env (Conversation_chosen i) v = unlocked (select env i Nobody v) v"
| "happened env Older_wanted v = load_history True False Nobody v"
| "happened env Send_wanted v = send_text env (v_draft v) v"
| "happened env (Send_command t) v = send_text env t v"
| "happened env (Operation_wanted q) v = (if submission q \<noteq> None \<and> locked v then (v, []) else operation env q Nobody v)"
| "happened env (Unlock_wanted create) v =
     operation env (Unlock (v_password v) create) Nobody (v\<lparr>v_password := []\<rparr>)"
| "happened env (Dialog_wanted d) v = (open_dialog d v, [])"
| "happened env Prompt_cancelled v = (cancel_prompt v, [])"
| "happened env Join_wanted v = unlocked (join_channel env v) v"
| "happened env (Invitation_wanted q) v = unlocked (perform_join env q v) v"
| "happened env (Directory_wanted again) v = unlocked (load_directory env again v) v"
| "happened env (Entry_chosen e) v = unlocked (choose_channel env e v) v"
| "happened env Utility_wanted v = (open_utility v, [])"
| "happened env (Find_wanted t) v = find_text t v"
| "happened env (Search_wanted older) v = unlocked (search env older v) v"
| "happened env Search_closed v = (close_search v, [])"
| "happened env (Reveal_wanted m) v = unlocked (reveal_message m v) v"
| "happened env (Check_wanted i key) v = unlocked (check_saved env i key v) v"
| "happened env (Forget_wanted i) v = (forget_saved i v, [])"
| "happened env (Failure_dismissed i) v = (dismiss_failure i v, [])"
| "happened env (Edit_wanted q) v = unlocked (if q \<in> fail_request ` set (v_failures v) then edit_failed env q v else (v, [])) v"
| "happened env (Details_wanted i c) v = unlocked (show_result env i c v, []) v"
| "happened env Details_closed v = (v\<lparr>v_resultKey := None\<rparr>, [])"

text \<open>The service answers a request at some moment of its own, a page of history from the log the
  conversation has then; the answer is taken up later.  Logs only grow.  Any task may go first.\<close>

type_synonym logs = "string \<Rightarrow> string list"

definition honest :: "logs \<Rightarrow> chat_call \<Rightarrow> response outcome \<Rightarrow> bool" where
  "honest logs c r = (case (c, r) of
       (Ask (History i b limit), Inr (R_history page)) \<Rightarrow> answers_with (logs i) b limit page
     | _ \<Rightarrow> True)"

inductive chat :: "logs \<Rightarrow> chat_view \<Rightarrow> task list \<Rightarrow> bool" where
  opened: "(\<And>i. distinct (logs i)) \<Longrightarrow> chat logs new_view []"
| event: "chat logs v ts \<Longrightarrow> happened env e v = (v', new) \<Longrightarrow> chat logs v' (ts @ new)"
| answer: "chat logs v (ts @ Await c w # us) \<Longrightarrow> honest logs c r \<Longrightarrow> chat logs v (ts @ Answered r w # us)"
| arrived: "chat logs v (ts @ Answered r w # us) \<Longrightarrow> answered env r w v = (v', new) \<Longrightarrow> chat logs v' (ts @ us @ new)"
| resumed: "chat logs v (ts @ Continue r k # us) \<Longrightarrow> continued env r k v = (v', new) \<Longrightarrow> chat logs v' (ts @ us @ new)"
| grown: "chat logs v ts \<Longrightarrow> distinct (logs i @ ids) \<Longrightarrow> chat (logs(i := logs i @ ids)) v ts"

end
