(* ===== verification/Chat_History.thy ===== *)
theory Chat_History
  imports Chat_View
begin

text \<open>
  What the conversation view shows of a conversation's history, whatever happens between a request and
  its answer: a contiguous piece of the log of that conversation.  The invariant ranges over the
  answers still in flight, which are told apart by the revision they carry.
\<close>

section \<open>What a step may do to the history shown\<close>

text \<open>\<open>core\<close> is the part of the view the history depends on.\<close>

definition core :: "chat_view \<Rightarrow> nat \<times> string option \<times> message list \<times> string option \<times> conversation_views" where
  "core v = (v_generation v, v_selected v, v_messages v, v_before v, v_views v)"

definition view_ok :: "logs \<Rightarrow> string option \<Rightarrow> message list \<Rightarrow> string option \<Rightarrow> bool" where
  "view_ok logs i ms b = (case i of None \<Rightarrow> ms = [] \<and> b = None | Some c \<Rightarrow> loaded (logs c) ms b)"

definition views_ok :: "logs \<Rightarrow> chat_view \<Rightarrow> bool" where
  "views_ok logs v \<longleftrightarrow> view_ok logs (v_selected v) (v_messages v) (v_before v)
     \<and> list_all (\<lambda>(i, w). view_ok logs i (view_messages w) (view_before w)) (v_views v)"

text \<open>Without a new generation nothing that is shown changes.\<close>

definition moved :: "chat_view \<Rightarrow> chat_view \<Rightarrow> bool" where
  "moved v v' \<longleftrightarrow> v_generation v \<le> v_generation v'
     \<and> (v_generation v' = v_generation v \<longrightarrow> v_selected v' = v_selected v \<and> v_messages v' = v_messages v \<and> v_before v' = v_before v)
     \<and> (\<forall>logs. views_ok logs v \<longrightarrow> views_ok logs v')"

fun revision_of :: "task \<Rightarrow> nat option" where
  "revision_of (Await _ (History_arrived _ _ r _ _)) = Some r"
| "revision_of (Answered _ (History_arrived _ _ r _ _)) = Some r"
| "revision_of _ = None"

definition revisions :: "task list \<Rightarrow> nat list" where
  "revisions ts = List.map_filter revision_of ts"

fun asks :: "chat_view \<Rightarrow> task \<Rightarrow> bool" where
  "asks v (Await c (History_arrived older _ r i _)) \<longleftrightarrow> r = v_generation v \<and> v_selected v = Some i
     \<and> c = Ask (History i (if older then v_before v else None) 200) \<and> (older \<longrightarrow> v_before v \<noteq> None)"
| "asks v (Answered _ (History_arrived _ _ _ _ _)) \<longleftrightarrow> False"
| "asks v _ \<longleftrightarrow> True"

definition safe :: "chat_view \<Rightarrow> stepped \<Rightarrow> bool" where
  "safe v r = (case r of (v', new) \<Rightarrow> moved v v' \<and> list_all (asks v') new
     \<and> (revisions new = [] \<or> revisions new = [v_generation v'] \<and> v_generation v < v_generation v'))"

lemma revisions_simps [simp]:
  "revisions [] = []" "revisions (ts @ us) = revisions ts @ revisions us"
  "revisions (Await c (History_arrived older bg r i k) # ts) = r # revisions ts"
  "revisions (Answered a (History_arrived older bg r i k) # ts) = r # revisions ts"
  "revisions (Continue x j # ts) = revisions ts"
  by (simp_all add: revisions_def List.map_filter_def)

lemma revisions_other: "revision_of t = None \<Longrightarrow> revisions (t # ts) = revisions ts"
  by (simp add: revisions_def List.map_filter_def)

lemma moved_refl [simp]: "moved v v"
  by (simp add: moved_def)

lemma moved_trans: "moved v v' \<Longrightarrow> moved v' v'' \<Longrightarrow> moved v v''"
  unfolding moved_def by (metis le_trans le_antisym)

lemma core_moved: "core v' = core v \<Longrightarrow> moved v v'"
  by (auto simp: moved_def core_def views_ok_def)

lemma safe_moved: "moved v v' \<Longrightarrow> safe v' r \<Longrightarrow> safe v r"
  unfolding safe_def by (auto dest: moved_trans simp: moved_def)

lemma safe_core: "core v' = core v \<Longrightarrow> safe v' r \<Longrightarrow> safe v r"
  by (rule safe_moved [OF core_moved])

lemma safe_and_then:
  assumes "safe v r" "revisions (snd r) = []" "\<And>v' new. r = (v', new) \<Longrightarrow> safe v' (f v')"
  shows "safe v (and_then r f)"
proof -
  obtain v' new where r: "r = (v', new)" by (cases r)
  obtain v'' new' where f: "f v' = (v'', new')" by (cases "f v'")
  have safe: "safe v (v', new)" "safe v' (v'', new')" using assms(1) assms(3) [OF r] f r by simp_all
  have "asks v'' t" if "asks v' t" "t \<in> set new" for t
  proof -
    have "revision_of t = None"
      using assms(2) that(2) r by (auto simp: revisions_def List.map_filter_def filter_empty_conv)
    then show ?thesis by (cases t rule: revision_of.cases) auto
  qed
  then have "list_all (asks v'') new" using safe(1) by (auto simp: safe_def list_all_iff)
  then show ?thesis using safe assms(2) moved_trans
    by (auto simp: and_then_def r f safe_def moved_def)
qed

text \<open>Tasks that are no history requests ask for nothing.\<close>

lemma safe_same: "core v' = core v \<Longrightarrow> list_all (\<lambda>t. revision_of t = None) new \<Longrightarrow> safe v (v', new)"
proof -
  assume v: "core v' = core v" and new: "list_all (\<lambda>t. revision_of t = None) new"
  have "asks v' t" if "revision_of t = None" for t using that by (cases t rule: revision_of.cases) auto
  moreover have "revisions new = []" using new by (auto simp: revisions_def List.map_filter_def filter_empty_conv list_all_iff)
  ultimately show ?thesis using new core_moved [OF v] by (auto simp: safe_def list_all_iff)
qed

lemma safe_moved_same: "moved v v' \<Longrightarrow> list_all (\<lambda>t. revision_of t = None) new \<Longrightarrow> safe v (v', new)"
  by (rule safe_moved [OF _ safe_same]) simp_all

section \<open>The handlers\<close>

lemma core_steps [simp]:
  "core (cancel_prompt v) = core v" "core (open_dialog d v) = core v" "core (open_utility v) = core v"
  "core (close_search v) = core v" "core (dismiss_failure i v) = core v" "core (connection_failed e v) = core v"
  "core (history_over r v) = core v" "core (mark_unread i page v) = core v" "core (operation_over q v) = core v"
  "core (taken_from_draft t v) = core v" "core (open_invitation c t v) = core v" "core (forget_saved i v) = core v"
  "core (check_over i v) = core v" "core (join_over v) = core v" "core (search_over r v) = core v"
  by (simp_all add: core_def cancel_prompt_def open_dialog_def open_utility_def close_search_def dismiss_failure_def
      connection_failed_def history_over_def mark_unread_def operation_over_def taken_from_draft_def open_invitation_def
      forget_saved_def check_over_def join_over_def search_over_def Let_def split: option.split prod.split)

lemma core_begin: "begin_in_view env i c t v = (v', key) \<Longrightarrow> core v' = core v"
  by (auto simp: begin_in_view_def core_def Let_def split: prod.splits)

lemma core_updates [simp]:
  "core (v\<lparr>v_draft := a1\<rparr>) = core v" "core (v\<lparr>v_notice := a1\<rparr>) = core v" "core (v\<lparr>v_results := a2\<rparr>) = core v"
  "core (v\<lparr>v_resultKey := a3\<rparr>) = core v" "core (v\<lparr>v_hidden := a4\<rparr>) = core v" "core (v\<lparr>v_search := a5\<rparr>) = core v"
  "core (v\<lparr>v_prompt := a6\<rparr>) = core v" "core (v\<lparr>v_pending := a7\<rparr>) = core v" "core (v\<lparr>v_busy := a8\<rparr>) = core v"
  "core (v\<lparr>v_failures := a9\<rparr>) = core v" "core (v\<lparr>v_snapshot := b1\<rparr>) = core v" "core (v\<lparr>v_accepted := b2\<rparr>) = core v"
  "core (v\<lparr>v_atBottom := b3\<rparr>) = core v" "core (v\<lparr>v_jumping := b4\<rparr>) = core v" "core (v\<lparr>v_saved := b5\<rparr>) = core v"
  "core (v\<lparr>v_checked := b6\<rparr>) = core v" "core (v\<lparr>v_checking := b7\<rparr>) = core v" "core (v\<lparr>v_mentioned := b8\<rparr>) = core v"
  "core (v\<lparr>v_stale := b9\<rparr>) = core v" "core (v\<lparr>v_offline := c1\<rparr>) = core v" "core (v\<lparr>v_error := c2\<rparr>) = core v"
  "core (v\<lparr>v_password := c3\<rparr>) = core v" "core (v\<lparr>v_restored := c4\<rparr>) = core v" "core (v\<lparr>v_loading := c5\<rparr>) = core v"
  "core (v\<lparr>v_focused := c6\<rparr>) = core v" "core (v\<lparr>v_snapshotGeneration := c7\<rparr>) = core v" "core (v\<lparr>v_recovery := c8\<rparr>) = core v"
  "core (v\<lparr>v_markers := c9\<rparr>) = core v" "core (v\<lparr>running := d1\<rparr>) = core v"
  by (simp_all add: core_def)

text \<open>Handlers that leave the history alone and ask for none of it.\<close>

lemma safe_returns [intro, simp]: "safe v (returns k v)"
  unfolding returns_def by (auto intro!: safe_same split: if_splits dest: core_begin)

lemma safe_throws [intro, simp]: "safe v (throws e k v)"
  unfolding throws_def by (auto intro!: safe_same split: if_splits dest: core_begin)

lemma safe_refresh_view [intro, simp]: "safe v (refresh_view k v)"
  unfolding refresh_view_def Let_def by (auto intro!: safe_same split: if_splits dest: core_begin)

lemma safe_refresh_in_background [intro, simp]: "safe v (refresh_in_background k v)"
  unfolding refresh_in_background_def by (auto intro!: safe_same split: if_splits dest: core_begin)

lemma safe_mark_read [intro, simp]: "safe v (mark_read env v)"
  unfolding mark_read_def by (auto intro!: safe_same split: if_splits dest: core_begin)

lemma safe_after_background [intro, simp]: "safe v (after_background r k v)"
  unfolding after_background_def returns_def by (auto intro!: safe_same split: sum.splits dest: core_begin)

lemma safe_check_saved [intro, simp]: "safe v (check_saved env i key v)"
  unfolding check_saved_def Let_def by (auto intro!: safe_same split: option.splits prod.splits sum.splits response.splits if_splits dest: core_begin)

lemma safe_refresh_loaded [intro, simp]: "safe v (refresh_loaded k v)"
  unfolding refresh_loaded_def returns_def by (auto intro!: safe_same split: if_splits dest: core_begin)

lemma safe_watch [intro, simp]: "safe v (watch v)"
  unfolding watch_def refresh_view_def Let_def by (auto intro!: safe_same split: option.splits prod.splits sum.splits response.splits if_splits dest: core_begin)

lemma safe_watch_failed [intro, simp]: "safe v (watch_failed e v)"
  unfolding watch_failed_def by (auto intro!: safe_same split: if_splits dest: core_begin)

lemma safe_watch_refreshed [intro, simp]: "safe v (watch_refreshed r v)"
  unfolding watch_refreshed_def by (auto intro!: safe_same split: option.splits prod.splits sum.splits response.splits if_splits dest: core_begin)

lemma safe_events_arrived [intro, simp]: "safe v (events_arrived a v)"
  unfolding events_arrived_def by (auto intro!: safe_same split: option.splits prod.splits sum.splits response.splits if_splits dest: core_begin)

lemma safe_search [intro, simp]: "safe v (search env older v)"
  unfolding search_def Let_def by (auto intro!: safe_same split: if_splits dest: core_begin)

lemma safe_search_arrived [intro, simp]: "safe v (search_arrived older i n a v)"
  unfolding search_arrived_def Let_def by (auto intro!: safe_same split: option.splits prod.splits sum.splits response.splits if_splits dest: core_begin)

lemma safe_find_text [intro, simp]: "safe v (find_text t v)"
  unfolding find_text_def Let_def by (auto intro!: safe_same split: if_splits dest: core_begin)

lemma safe_read_marked [intro, simp]: "safe v (read_marked i a v)"
  unfolding read_marked_def by (auto intro!: safe_same split: option.splits prod.splits sum.splits response.splits if_splits dest: core_begin)

lemma safe_operation [intro, simp]: "safe v (operation env q k v)"
  unfolding operation_def Let_def by (auto intro!: safe_same split: option.splits prod.splits sum.splits response.splits if_splits dest: core_begin)

lemma safe_operation_failed [intro, simp]: "safe v (operation_failed env q result e k v)"
  unfolding operation_failed_def Let_def by (auto intro!: safe_same split: option.splits prod.splits sum.splits response.splits if_splits dest: core_begin)

lemma safe_check_failed [intro, simp]: "safe v (check_failed env i key e v)"
  unfolding check_failed_def Let_def by (auto intro!: safe_same split: option.splits prod.splits sum.splits response.splits if_splits dest: core_begin)

lemma safe_join_failed [intro, simp]: "safe v (join_failed q e v)"
  unfolding join_failed_def Let_def by (auto intro!: safe_same split: option.splits prod.splits sum.splits response.splits if_splits dest: core_begin)

lemma safe_directory_failed [intro, simp]: "safe v (directory_failed e v)"
  unfolding directory_failed_def by (auto intro!: safe_same split: if_splits dest: core_begin)

lemma safe_list_directory [intro, simp]: "safe v (list_directory env v)"
  unfolding list_directory_def by (auto intro!: safe_same split: if_splits dest: core_begin)

lemma safe_load_directory [intro, simp]: "safe v (load_directory env again v)"
  unfolding load_directory_def list_directory_def Let_def by (auto intro!: safe_same split: if_splits dest: core_begin)

lemma safe_directory_refreshed [intro, simp]: "safe v (directory_refreshed env a v)"
  unfolding directory_refreshed_def by (auto intro!: safe_same split: option.splits prod.splits sum.splits response.splits if_splits dest: core_begin)

lemma safe_directory_listed [intro, simp]: "safe v (directory_listed a v)"
  unfolding directory_listed_def by (auto intro!: safe_same split: option.splits prod.splits sum.splits response.splits if_splits dest: core_begin)

lemma safe_join_applied [intro, simp]: "safe v (join_applied q r v)"
  unfolding join_applied_def by (auto intro!: safe_same split: option.splits prod.splits sum.splits response.splits if_splits dest: core_begin)

lemma safe_check_applied [intro, simp]: "safe v (check_applied env i key r v)"
  unfolding check_applied_def by (auto intro!: safe_same split: option.splits prod.splits sum.splits response.splits if_splits dest: core_begin)

lemma safe_send_done [intro, simp]: "safe v (send_done t q r v)"
  unfolding send_done_def by (auto intro!: safe_same split: option.splits prod.splits sum.splits response.splits if_splits dest: core_begin)

lemma safe_edit_selected [intro, simp]: "safe v (edit_selected q v)"
  unfolding edit_selected_def by (auto intro!: safe_same split: option.splits prod.splits sum.splits response.splits if_splits dest: core_begin)

lemma safe_operation_applied [intro, simp]: "safe v (operation_applied env q result k r v)"
  unfolding operation_applied_def returns_def by (auto intro!: safe_same split: option.splits prod.splits sum.splits response.splits if_splits request.splits dest: core_begin)

lemma safe_history_failed [intro, simp]: "safe v (history_failed bg n e k v)"
  unfolding history_failed_def Let_def returns_def throws_def by (auto intro!: safe_same split: option.splits prod.splits sum.splits response.splits if_splits dest: core_begin)

lemma safe_join_channel [intro, simp]: "safe v (join_channel env v)"
  unfolding join_channel_def Let_def by (auto intro!: safe_same split: option.splits prod.splits sum.splits response.splits if_splits dest: core_begin)

lemma safe_run_local [intro, simp]: "safe v (run_local name args v)"
  unfolding run_local_def by (auto intro!: safe_same split: local_name.splits if_splits dest: core_begin)

text \<open>Asking for a page starts a new generation.\<close>

lemma safe_load_history [intro, simp]: "safe v (load_history older bg k v)"
  by (auto simp: load_history_def safe_def Let_def moved_def views_ok_def truthy_def returns_def)

lemma safe_history_shown [intro, simp]: "safe v (history_shown env n k v)"
  unfolding history_shown_def
  by (rule safe_and_then) (auto simp: mark_read_def returns_def revisions_def List.map_filter_def intro!: safe_same)

lemma moved_clear_private [simp]: "moved v (clear_private v)"
  by (auto simp: moved_def clear_private_def Let_def views_ok_def view_ok_def clear_views_def loaded_nothing split: option.split)

lemma quiet_refresh_view: "revisions (snd (refresh_in_background k v)) = []"
  by (simp add: refresh_in_background_def refresh_view_def Let_def revisions_def List.map_filter_def)

lemma safe_apply_instance [intro, simp]: "safe v (apply_instance response k v)"
proof -
  have refreshed: "safe v (and_then (refresh_in_background Nobody w) (returns k))" if "moved v w" for w
    by (rule safe_moved [OF that safe_and_then [OF safe_refresh_in_background quiet_refresh_view safe_returns]])
  have clears: "moved v (w\<lparr>v_snapshot := s\<rparr>)" if "moved v w" for w s
    by (rule moved_trans [OF that core_moved]) simp
  have bumps: "moved v (clear_private (v\<lparr>v_snapshotGeneration := n\<rparr>))" for n
    by (rule moved_trans [OF core_moved moved_clear_private]) simp
  show ?thesis
    unfolding apply_instance_def Let_def
    by (auto intro!: refreshed clears bumps intro: core_moved split: response.split)
qed

subsection \<open>Selecting\<close>

lemma views_ok_put:
  "list_all (\<lambda>(i, w). view_ok logs i (view_messages w) (view_before w)) vs \<Longrightarrow> view_ok logs i (view_messages w) (view_before w)
    \<Longrightarrow> list_all (\<lambda>(i, w). view_ok logs i (view_messages w) (view_before w)) (save_view i w vs)"
  unfolding save_view_def by (induction vs) auto

lemma views_ok_restore:
  "list_all (\<lambda>(i, w). view_ok logs i (view_messages w) (view_before w)) vs
    \<Longrightarrow> view_ok logs i (view_messages (restore_view i vs)) (view_before (restore_view i vs))"
  by (auto simp: restore_view_def fresh_view_def view_ok_def loaded_nothing list_all_iff dest!: map_of_SomeD
      split: option.splits)

lemma views_ok_enter:
  assumes "views_ok logs v"
  shows "views_ok logs (enter_conversation i pos (leave_conversation env v))"
proof -
  let ?w = "\<lparr>view_draft = v_draft v, view_messages = v_messages v, view_before = v_before v,
          view_scrollTop = e_scrollTop env, view_atBottom = v_atBottom v\<rparr>"
  have saved: "list_all (\<lambda>(i, w). view_ok logs i (view_messages w) (view_before w)) (save_view (v_selected v) ?w (v_views v))"
    using assms by (intro views_ok_put) (simp_all add: views_ok_def)
  then show ?thesis using views_ok_restore [OF saved, of i]
    by (auto simp: views_ok_def enter_conversation_def leave_conversation_def Let_def split: option.split)
qed

lemma moved_enter: "moved v (enter_conversation i pos (leave_conversation env v))"
  using views_ok_enter by (auto simp: moved_def enter_conversation_def leave_conversation_def Let_def)

lemma safe_select [intro, simp]: "safe v (select env i k v)"
proof -
  have "moved v (enter_conversation i pos (leave_conversation env w))" if "core w = core v" for w pos
    by (rule moved_trans [OF core_moved [OF that] moved_enter])
  note entered = this
  show ?thesis
    unfolding select_def Let_def
    by (rule safe_moved_same, cases "i = v_selected v") (auto intro: entered core_moved)
qed

lemma safe_select_shown [intro, simp]: "safe v (select_shown i changing pos k v)"
  by (simp add: select_shown_def)

lemma safe_select_older [intro, simp]: "safe v (select_older i pos k v)"
  by (auto simp: select_older_def returns_def intro!: safe_same)

lemma safe_select_loaded [intro, simp]: "safe v (select_loaded i changing pos k v)"
  by (auto simp: select_loaded_def split: option.split)

subsection \<open>Snapshots\<close>

lemma moved_take_snapshot: "moved v (take_snapshot env s v)"
proof -
  have "moved v (w\<lparr>v_snapshot := x\<rparr>)" "moved v (w\<lparr>v_snapshot := x, v_results := y\<rparr>)" if "moved v w" for w x y
    by (rule moved_trans [OF that core_moved], simp)+
  then show ?thesis unfolding take_snapshot_def Let_def by auto
qed

lemma quiet_check_saved: "revisions (snd (check_saved env i key v)) = []"
  by (auto simp: check_saved_def Let_def revisions_def List.map_filter_def split: option.split prod.split)

lemma safe_check_all: "safe v (check_all env is v)" "revisions (snd (check_all env is v)) = []"
proof (induction env "is" v rule: check_all.induct)
  case (2 env i "is" v)
  { case 1 show ?case
    proof (cases "i \<in> v_checked v")
      case False
      have "safe v (and_then (check_saved env i None (v\<lparr>v_checked := insert i (v_checked v)\<rparr>)) (check_all env is))"
        using 2(3) [OF False] by (intro safe_and_then safe_core [OF _ safe_check_saved]) (auto simp: quiet_check_saved)
      then show ?thesis using False by simp
    qed (use 2(1) in simp) }
  { case 2 show ?case
      using "2.IH"(2,4) quiet_check_saved [of env i None "v\<lparr>v_checked := insert i (v_checked v)\<rparr>"]
      by (auto simp: and_then_def split: prod.split) (metis snd_conv) }
qed (auto intro!: safe_same)

lemma safe_recover: "safe v (recover_operations env v)" "revisions (snd (recover_operations env v)) = []"
  unfolding recover_operations_def Let_def
  by (auto intro!: safe_same safe_core [OF _ safe_check_all(1)] simp: safe_check_all(2) split: option.split sum.split)

lemma moved_retain: "moved v (v\<lparr>v_views := retain_views ids (v_views v)\<rparr>)"
  by (auto simp: moved_def views_ok_def retain_views_eq list_all_iff)

lemma safe_refresh_reselected [intro, simp]: "safe v (refresh_reselected s changed k v)"
  unfolding refresh_reselected_def Let_def by (rule safe_moved [OF moved_retain]) auto

lemma safe_refresh_restored [intro, simp]: "safe v (refresh_restored env s changed k v)"
  by (auto simp: refresh_restored_def)

lemma safe_snapshot_arrived [intro, simp]: "safe v (snapshot_arrived env n k a v)"
proof -
  have "safe v (and_then (recover_operations env (take_snapshot env s v)) (\<lambda>v.
              if ready v \<and> \<not> v_restored v
              then select env (first_selection env s) (Refresh_restored s c k) (v\<lparr>v_restored := True\<rparr>)
              else refresh_restored env s c k v))" for s c
    by (rule safe_moved [OF moved_take_snapshot], rule safe_and_then [OF safe_recover])
       (auto intro: safe_core [OF _ safe_select])
  then show ?thesis unfolding snapshot_arrived_def Let_def by (auto split: sum.split response.split)
qed

subsection \<open>Replies and events\<close>

lemma safe_via:
  assumes "core w = core v"
  shows "safe v (apply_instance response k w)" "safe v (select env i k w)" "safe v (refresh_in_background k w)"
    "safe v (operation env q k w)" "safe v (mark_read env w)" "safe v (run_local name args w)"
  by (rule safe_core [OF assms], simp)+

lemma safe_apply_response [intro, simp]: "safe v (apply_response env response origin result k v)"
  unfolding apply_response_def Let_def
  by (auto intro!: safe_via split: response.split command_output.split prod.split)

lemma safe_reveal_loop [intro, simp]: "safe v (reveal_loop m i n cursors v)"
  unfolding reveal_loop_def Let_def by (auto intro!: safe_same)

lemma safe_via_replies:
  assumes "core w = core v"
  shows "safe v (apply_response env response origin result k w)" "safe v (reveal_loop m i n cursors w)"
  by (rule safe_core [OF assms], simp)+

lemma safe_operation_answered [intro, simp]: "safe v (operation_answered env q origin result k a v)"
  by (auto simp: operation_answered_def split: sum.split)

lemma safe_check_answered [intro, simp]: "safe v (check_answered env i key c a v)"
  by (auto simp: check_answered_def intro!: safe_via_replies safe_same split: sum.split)

lemma safe_join_answered [intro, simp]: "safe v (join_answered env q origin key a v)"
  by (auto simp: join_answered_def intro!: safe_via_replies safe_same split: sum.split)

lemma core_invitation_over [simp]: "core (invitation_over i v) = core v"
  by (simp add: invitation_over_def)

lemma safe_perform_join [intro, simp]: "safe v (perform_join env q v)"
  unfolding perform_join_def Let_def by (auto intro!: safe_same split: prod.split dest: core_begin)

lemma safe_invitation_failed [intro, simp]: "safe v (invitation_failed env i key inst e v)"
  unfolding invitation_failed_def Let_def by (auto intro!: safe_same)

lemma safe_invitation_answered [intro, simp]: "safe v (invitation_answered env i key origin inst a v)"
  unfolding invitation_answered_def Let_def refresh_in_background_def refresh_view_def
  by (auto intro!: safe_same split: sum.split response.split)

lemma safe_invitation_refreshed [intro, simp]: "safe v (invitation_refreshed env i key inst response v)"
  by (simp add: invitation_refreshed_def)

lemma safe_invitation_applied [intro, simp]: "safe v (invitation_applied env i key inst response r v)"
  unfolding invitation_applied_def by (auto intro!: safe_same split: sum.split response.split command_output.split)

lemma safe_invitation_elsewhere [intro, simp]: "safe v (invitation_elsewhere i v)"
  unfolding invitation_elsewhere_def by (auto intro!: safe_same)

lemma safe_reveal_message [intro, simp]: "safe v (reveal_message m v)"
  unfolding reveal_message_def by (auto intro!: safe_via_replies safe_same)

lemma safe_cases:
  "(c \<Longrightarrow> safe v r) \<Longrightarrow> (\<not> c \<Longrightarrow> safe v r') \<Longrightarrow> safe v (if c then r else r')"
  "(x = None \<Longrightarrow> safe v r) \<Longrightarrow> (\<And>y. x = Some y \<Longrightarrow> safe v (f y)) \<Longrightarrow> safe v (case x of None \<Rightarrow> r | Some y \<Rightarrow> f y)"
  "(\<And>y z. p = (y, z) \<Longrightarrow> safe v (g y z)) \<Longrightarrow> safe v (case p of (y, z) \<Rightarrow> g y z)"
  by (auto split: option.split prod.split)

lemma safe_send_text [intro, simp]: "safe v (send_text env t v)"
  unfolding send_text_def Let_def
  by (intro safe_cases safe_same safe_via) (simp_all cong: if_cong)

lemma safe_edit_failed [intro, simp]: "safe v (edit_failed env q v)"
  by (auto simp: edit_failed_def intro: safe_same split: option.split)

lemma safe_choose_channel [intro, simp]: "safe v (choose_channel env e v)"
  unfolding choose_channel_def Let_def by (auto intro!: safe_via safe_same)

lemma safe_continued: "safe v (continued env r k v)"
  by (cases k) (auto intro!: safe_same simp: returns_def throws_def split: sum.split)

lemma moved_unmounted: "moved v (unmounted v)"
  by (auto simp: moved_def unmounted_def views_ok_def clear_views_def)

lemma safe_unlocked [intro]: "safe v r \<Longrightarrow> safe v (unlocked r v)"
  by (auto simp: unlocked_def intro: safe_same)

lemma core_show_result [simp]: "core (show_result env i c v) = core v"
  by (auto simp: show_result_def dest!: core_begin split: prod.split)

lemma safe_unmounted [intro]: "safe v (unmounted v, [])"
  by (rule safe_moved_same [OF moved_unmounted]) simp

lemma safe_happened: "safe v (happened env e v)"
proof (cases "e = Unmounted")
  case False
  then show ?thesis
    by (cases e) (auto intro!: safe_same safe_via simp: set_prompt_def Let_def split: option.split)
qed (simp add: safe_unmounted)

lemma safe_answered:
  "revision_of (Answered r w) = None \<Longrightarrow> safe v (answered env r w v)"
  by (cases w) auto

section \<open>The invariant\<close>

text \<open>A history task of the current generation asked for the page that is missing, and its answer, once
  it is there, extends what is shown.  Tasks of earlier generations are never taken up.\<close>

fun task_ok :: "logs \<Rightarrow> chat_view \<Rightarrow> task \<Rightarrow> bool" where
  "task_ok logs v (Await c (History_arrived older bg r i k)) \<longleftrightarrow>
     r \<le> v_generation v \<and> (r = v_generation v \<longrightarrow> asks v (Await c (History_arrived older bg r i k)))"
| "task_ok logs v (Answered a (History_arrived older bg r i k)) \<longleftrightarrow>
     r \<le> v_generation v \<and> (r = v_generation v \<longrightarrow> v_selected v = Some i
       \<and> (case a of Inr (R_history page) \<Rightarrow> (case merge_page older page (v_messages v) (v_before v) of (ms, b) \<Rightarrow> loaded (logs i) ms b)
          | _ \<Rightarrow> True))"
| "task_ok logs v _ \<longleftrightarrow> True"

definition chat_ok :: "logs \<Rightarrow> chat_view \<Rightarrow> task list \<Rightarrow> bool" where
  "chat_ok logs v ts \<longleftrightarrow> (\<forall>i. distinct (logs i)) \<and> views_ok logs v \<and> distinct (revisions ts) \<and> list_all (task_ok logs v) ts"

lemma task_ok_other: "revision_of t = None \<Longrightarrow> task_ok logs v t"
  by (cases t rule: revision_of.cases) auto

lemma task_ok_revision: "task_ok logs v t \<Longrightarrow> revision_of t = Some r \<Longrightarrow> r \<le> v_generation v"
  by (cases t rule: revision_of.cases) auto

lemma task_ok_asks: "asks v t \<Longrightarrow> task_ok logs v t"
  by (cases t rule: revision_of.cases) auto

lemma task_ok_older: "task_ok logs v t \<Longrightarrow> v_generation v < v_generation v' \<Longrightarrow> task_ok logs v' t"
  by (cases t rule: revision_of.cases) auto

lemma task_ok_moved:
  assumes "moved v v'" "task_ok logs v t"
  shows "task_ok logs v' t"
proof (cases "v_generation v' = v_generation v")
  case True
  then have "v_selected v' = v_selected v" "v_messages v' = v_messages v" "v_before v' = v_before v"
    using assms(1) by (simp_all add: moved_def)
  then show ?thesis using assms(2) True
    by (cases t rule: revision_of.cases) (auto split: sum.splits response.splits)
next
  case False
  then show ?thesis using assms task_ok_older by (simp add: moved_def)
qed

lemma revisions_bounded: "list_all (task_ok logs v) ts \<Longrightarrow> r \<in> set (revisions ts) \<Longrightarrow> r \<le> v_generation v"
  by (auto simp: revisions_def List.map_filter_def list_all_iff intro: task_ok_revision)

lemma chat_ok_safe:
  assumes "chat_ok logs v ts" "safe v (v', new)"
  shows "chat_ok logs v' (ts @ new)"
proof -
  have "moved v v'" "list_all (asks v') new" using assms(2) by (auto simp: safe_def)
  then have "list_all (task_ok logs v') (ts @ new)"
    using assms(1) by (auto simp: chat_ok_def list_all_iff intro: task_ok_moved task_ok_asks)
  moreover have "distinct (revisions (ts @ new))"
    using assms revisions_bounded [of logs v ts] by (fastforce simp: chat_ok_def safe_def)
  ultimately show ?thesis using assms(1) \<open>moved v v'\<close> by (simp add: chat_ok_def moved_def)
qed

lemma chat_ok_remove: "chat_ok logs v (ts @ t # us) \<Longrightarrow> chat_ok logs v (ts @ us)"
  by (cases "revision_of t") (auto simp: chat_ok_def revisions_def List.map_filter_def)

lemma chat_ok_permute: "chat_ok logs v ((ts @ us) @ new) \<Longrightarrow> chat_ok logs v (ts @ us @ new)"
  by simp

lemma chat_ok_answer:
  assumes "chat_ok logs v (ts @ Await c w # us)" "honest logs c r"
  shows "chat_ok logs v (ts @ Answered r w # us)"
proof (cases w)
  case (History_arrived older bg n i k)
  have ok: "task_ok logs v (Await c w)" "\<And>i. distinct (logs i)" "views_ok logs v"
    using assms(1) by (simp_all add: chat_ok_def)
  have "task_ok logs v (Answered r w)"
  proof (cases "n = v_generation v \<and> (\<exists>page. r = Inr (R_history page))")
    case True
    then obtain page where r: "r = Inr (R_history page)" and n: "n = v_generation v" by blast
    have asks: "v_selected v = Some i" "c = Ask (History i (if older then v_before v else None) 200)" "older \<longrightarrow> v_before v \<noteq> None"
      using ok(1) n by (simp_all add: History_arrived)
    then have page: "answers_with (logs i) (if older then v_before v else None) 200 page"
      using assms(2) r by (simp add: honest_def)
    have here: "loaded (logs i) (v_messages v) (v_before v)"
      using ok(3) asks(1) by (simp add: views_ok_def view_ok_def)
    have "case merge_page older page (v_messages v) (v_before v) of (ms, b) \<Rightarrow> loaded (logs i) ms b"
    proof (cases older)
      case True
      then show ?thesis using loaded_older [OF ok(2)] here page asks(3) by (auto simp: merge_page_def)
    next
      case False
      then show ?thesis using loaded_tail [OF ok(2) here] page by simp
    qed
    then show ?thesis using asks(1) r by (simp add: History_arrived n)
  qed (use ok(1) in \<open>auto simp: History_arrived split: sum.split response.split\<close>)
  then show ?thesis using assms(1) by (simp add: chat_ok_def History_arrived)
qed (use assms(1) in \<open>simp_all add: chat_ok_def revisions_other\<close>)

lemma core_show_page:
  "merge_page older page (v_messages v) (v_before v) = (ms, b) \<Longrightarrow>
     core (show_page older i page v) = (v_generation v, v_selected v, ms, b, v_views v)"
  using core_steps(8) [of i page v] by (auto simp: show_page_def core_def Let_def)

lemma chat_ok_history:
  assumes "chat_ok logs v (ts @ Answered a (History_arrived older bg n i k) # us)"
    and "history_arrived older bg n i k a v = (v', new)"
  shows "chat_ok logs v' (ts @ us @ new)"
proof -
  let ?t = "Answered a (History_arrived older bg n i k)"
  have rest: "chat_ok logs v (ts @ us)" using assms(1) by (rule chat_ok_remove)
  show ?thesis
  proof (cases "running v \<and> n = v_generation v \<and> v_selected v = Some i \<and> \<not> locked v \<and> (\<exists>page. a = Inr (R_history page))")
    case True
    then obtain page where a: "a = Inr (R_history page)" by blast
    obtain ms b where merged: "merge_page older page (v_messages v) (v_before v) = (ms, b)" by fastforce
    have v': "v' = show_page older i page v" and new: "new = [Continue (Inr True) (History_shown n k)]"
      using assms(2) True a by (auto simp: history_arrived_def)
    note core = core_show_page [OF merged, of i, folded v']
    have "task_ok logs v ?t" using assms(1) by (simp add: chat_ok_def)
    then have "loaded (logs i) ms b" using True a merged by simp
    then have "views_ok logs v'"
      using rest core True by (simp add: chat_ok_def views_ok_def view_ok_def core_def)
    moreover have "task_ok logs v' t" if t: "t \<in> set (ts @ us)" for t
    proof (cases "revision_of t")
      case (Some r)
      have "r \<in> set (revisions (ts @ us))"
        using t Some by (force simp: revisions_def List.map_filter_def)
      moreover have "n \<notin> set (revisions (ts @ us))" using assms(1) by (simp add: chat_ok_def)
      moreover have ok: "task_ok logs v t" using rest t by (auto simp: chat_ok_def list_all_iff)
      ultimately have "r < v_generation v" using True Some by (metis le_neq_implies_less task_ok_revision)
      then show ?thesis using ok Some core by (cases t rule: revision_of.cases) (auto simp: core_def)
    qed (rule task_ok_other)
    ultimately show ?thesis using rest new by (auto simp: chat_ok_def list_all_iff)
  next
    case False
    have "safe v (history_arrived older bg n i k a v)"
      using False by (auto simp: history_arrived_def returns_def intro!: safe_same split: sum.split response.split)
    then show ?thesis using chat_ok_safe [OF rest] assms(2) by simp
  qed
qed

lemma chat_invariant: "chat logs v ts \<Longrightarrow> chat_ok logs v ts"
proof (induction rule: chat.induct)
  case (opened logs)
  then show ?case by (simp add: chat_ok_def new_view_def views_ok_def view_ok_def)
next
  case (event logs v ts env e v' new)
  then show ?case using safe_happened [of v env e] by (intro chat_ok_safe) auto
next
  case (answer logs v ts c w us r)
  then show ?case by (intro chat_ok_answer)
next
  case (arrived logs v ts r w us env v' new)
  show ?case
  proof (cases "revision_of (Answered r w)")
    case None
    then show ?thesis using arrived chat_ok_safe [OF chat_ok_remove] safe_answered [of r w v env] by fastforce
  next
    case (Some n)
    then obtain older bg i k where "w = History_arrived older bg n i k" by (cases w) auto
    then show ?thesis using arrived chat_ok_history by auto
  qed
next
  case (resumed logs v ts r k us env v' new)
  then show ?case using chat_ok_safe [OF chat_ok_remove] safe_continued [of v env r k] by fastforce
next
  case (grown logs v ts i ids)
  define logs' where "logs' = logs(i := logs i @ ids)"
  have more: "loaded (logs' j) ms b" if "loaded (logs j) ms b" for j ms b
    using that by (cases "j = i") (simp_all add: logs'_def loaded_append)
  then have view: "view_ok logs' j ms b" if "view_ok logs j ms b" for j ms b
    using that by (auto simp: view_ok_def split: option.splits)
  have "task_ok logs' v t" if "task_ok logs v t" for t
    using that by (cases t rule: revision_of.cases) (auto split: sum.splits response.splits prod.splits intro: more)
  moreover have "distinct (logs' j)" for j using grown by (auto simp: logs'_def chat_ok_def)
  ultimately show ?case using grown.IH view unfolding logs'_def [symmetric]
    by (auto simp: chat_ok_def views_ok_def list_all_iff)
qed

text \<open>C3: Whatever the user does, however answers are delayed and reordered while logs grow, the messages
  shown for the selected conversation are a contiguous piece, without repetition, of that conversation's
  log, and of the whole log's beginning when no earlier page is offered; the same holds for the
  messages kept for every other conversation.\<close>

theorem shown_history_contiguous:
  assumes "chat logs v ts"
  shows "(\<forall>c. v_selected v = Some c \<longrightarrow> sublist (ids_of (v_messages v)) (logs c) \<and> distinct (ids_of (v_messages v))
       \<and> (v_before v = None \<longrightarrow> prefix (ids_of (v_messages v)) (logs c)))
     \<and> (\<forall>c w. (Some c, w) \<in> set (v_views v) \<longrightarrow> sublist (ids_of (view_messages w)) (logs c))
     \<and> (v_selected v = None \<longrightarrow> v_messages v = [])"
proof -
  have ok: "\<And>i. distinct (logs i)" "views_ok logs v" using chat_invariant [OF assms] by (simp_all add: chat_ok_def)
  have "prefix (ids_of ms) log" if l: "loaded log ms None" for ms log
  proof -
    obtain first til where "ids_of ms = stretch first til log" "ms = [] \<or> first = 0"
      using l unfolding loaded_def option.case by blast
    then show ?thesis by (auto simp: stretch_def ids_of_def take_is_prefix)
  qed
  moreover have "distinct xs" if "sublist xs ys" "distinct ys" for xs ys :: "string list"
    using that by (auto simp: sublist_def)
  moreover have "sublist (ids_of (view_messages w)) (logs c)" if "(Some c, w) \<in> set (v_views v)" for c w
    by (rule loaded_contiguous [of _ _ "view_before w"])
       (use ok(2) that in \<open>force simp: views_ok_def view_ok_def list_all_iff\<close>)
  moreover have "case v_selected v of None \<Rightarrow> v_messages v = [] | Some c \<Rightarrow> loaded (logs c) (v_messages v) (v_before v)"
    using ok(2) by (auto simp: views_ok_def view_ok_def split: option.split)
  ultimately show ?thesis
    using ok(1) by (cases "v_selected v") (auto dest: loaded_contiguous)
qed

section \<open>A run\<close>

text \<open>Moves pick what happens next; \<open>play\<close> makes them one after the other.\<close>

datatype move = User ui_event | Reply nat "response outcome" | Take nat

fun make :: "env \<Rightarrow> logs \<Rightarrow> move \<Rightarrow> stepped \<Rightarrow> stepped option" where
  "make env logs (User e) (v, ts) = (case happened env e v of (v', new) \<Rightarrow> Some (v', ts @ new))"
| "make env logs (Reply n r) (v, ts) =
     (if n < length ts then (case ts ! n of Await c w \<Rightarrow> if honest logs c r then Some (v, ts[n := Answered r w]) else None | _ \<Rightarrow> None)
      else None)"
| "make env logs (Take n) (v, ts) =
     (if n < length ts then
        (case ts ! n of
           Await _ _ \<Rightarrow> None
         | Answered r w \<Rightarrow> (case answered env r w v of (v', new) \<Rightarrow> Some (v', take n ts @ drop (Suc n) ts @ new))
         | Continue r k \<Rightarrow> (case continued env r k v of (v', new) \<Rightarrow> Some (v', take n ts @ drop (Suc n) ts @ new)))
      else None)"

fun play :: "env \<Rightarrow> logs \<Rightarrow> move list \<Rightarrow> stepped \<Rightarrow> stepped option" where
  "play env logs [] r = Some r"
| "play env logs (m # ms) r = Option.bind (make env logs m r) (play env logs ms)"

lemma make_chat: "chat logs v ts \<Longrightarrow> make env logs m (v, ts) = Some (v', ts') \<Longrightarrow> chat logs v' ts'"
proof (cases m)
  case (Reply n r)
  assume c: "chat logs v ts" "make env logs m (v, ts) = Some (v', ts')"
  then have n: "n < length ts" using Reply by (auto split: if_splits)
  then have "chat logs v (take n ts @ ts ! n # drop (Suc n) ts)" using c(1) by (simp add: id_take_nth_drop [symmetric])
  then show ?thesis using c(2) n Reply
    by (auto simp: upd_conv_take_nth_drop split: task.splits if_splits intro: chat.answer)
next
  case (Take n)
  assume c: "chat logs v ts" "make env logs m (v, ts) = Some (v', ts')"
  then have n: "n < length ts" using Take by (auto split: if_splits)
  then have "chat logs v (take n ts @ ts ! n # drop (Suc n) ts)" using c(1) by (simp add: id_take_nth_drop [symmetric])
  then show ?thesis using c(2) n Take
    by (auto split: task.splits prod.splits intro: chat.arrived chat.resumed)
qed (auto split: prod.splits intro: chat.event)

lemma play_chat: "chat logs v ts \<Longrightarrow> play env logs ms (v, ts) = Some (v', ts') \<Longrightarrow> chat logs v' ts'"
proof (induction ms arbitrary: v ts)
  case (Cons m ms)
  then show ?case by (auto simp: bind_eq_Some_conv dest: make_chat)
qed simp

text \<open>A service with one conversation and two messages: the view opens, the network is accepted, the
  conversation is chosen, and the page arrives.\<close>

definition calm :: env where
  "calm = \<lparr>e_network = (\<lambda>_. None), e_active = None, e_instance = (\<lambda>_. None), e_primary = None, e_joined = [], e_now = 0,
     e_uuid = ''u'', e_scrollTop = 0, e_focused = True, e_uncovered = True, e_navigation = None, e_handles = None,
     e_checks = False, e_warning = None, e_shows = (\<lambda>_. [])\<rparr>"

definition message_named :: "string \<Rightarrow> message" where
  "message_named i = \<lparr>msg_highlighted = None, msg_messageKind = None, msg_id = i, msg_conversationId = ''channel/same'',
     msg_memberId = None, msg_nickname = ''ada'', msg_body = ''hello'', msg_timestamp = 1, msg_mine = False,
     msg_operationId = None, msg_delivery = None, msg_result = None\<rparr>"

definition small_log :: logs where
  "small_log = (\<lambda>_. [])(''channel/same'' := [''m1'', ''m2''])"

definition small_page :: history_page where
  "small_page = \<lparr>page_messages = [message_named ''m1'', message_named ''m2''], page_before = None\<rparr>"

definition opening_moves :: "move list" where
  "opening_moves = [User Mounted, Reply 0 (Inr (R_snapshot a_snapshot)), Take 0, User Network_accepted,
     User (Conversation_chosen (Some ''channel/same'')), Take 1, Reply 1 (Inr (R_history small_page)), Take 1]"

lemma small_page_honest: "answers_with (small_log ''channel/same'') None 200 small_page"
  by (simp add: answers_with_def service_page_def small_log_def small_page_def ids_of_def message_named_def)

lemmas run_defs = watch_def refresh_view_def snapshot_arrived_def take_snapshot_def recover_operations_def
  refresh_restored_def refresh_reselected_def refresh_loaded_def returns_def and_then_def unlocked_def select_def
  enter_conversation_def leave_conversation_def remembered_position_def select_shown_def load_history_def
  history_arrived_def show_page_def mark_unread_def merge_page_def overlap_def clear_private_def locked_def ready_def
  restore_def restore_view_def save_view_def retain_views_eq fresh_view_def truthy_def honest_def
  first_unread_def conversation_named_def conversations_def

lemma a_snapshot_more: "sn_operations a_snapshot = None" "sn_revision a_snapshot = ''1''"
    "conv_id a_conversation = ''channel/same''" "conv_unread a_conversation = 0" "inst_id (sn_instance a_snapshot) = ''instance''"
    "inst_bootId (sn_instance a_snapshot) = ''boot''"
  by (simp_all add: a_snapshot_def a_conversation_def)

lemmas run_simps = new_view_def no_search_def no_prompt_def calm_def Let_def a_snapshot_fields a_snapshot_more small_page_honest

lemma opening_run:
  "\<exists>v ts. play calm small_log opening_moves (new_view, []) = Some (v, ts) \<and> v_selected v = Some ''channel/same''
     \<and> v_messages v = page_messages small_page"
  by (simp add: opening_moves_def run_defs run_simps)

lemma small_chat: "play calm small_log ms (new_view, []) = Some (v, ts) \<Longrightarrow> chat small_log v ts"
  by (rule play_chat [OF chat.opened]) (auto simp: small_log_def)

theorem shown_history_contiguous_witness:
  "\<exists>v :: chat_view. ids_of (v_messages v) = [''m1'', ''m2''] \<and> v_selected v = Some ''channel/same''
     \<and> sublist (ids_of (v_messages v)) (small_log ''channel/same'')"
proof -
  obtain v ts where run: "play calm small_log opening_moves (new_view, []) = Some (v, ts)"
    and v: "v_selected v = Some ''channel/same''" "v_messages v = page_messages small_page"
    using opening_run by blast
  have "sublist (ids_of (v_messages v)) (small_log ''channel/same'')"
    using shown_history_contiguous [OF small_chat [OF run]] v(1) by simp
  moreover have "ids_of (v_messages v) = [''m1'', ''m2'']"
    using v(2) by (simp add: small_page_def ids_of_def message_named_def)
  ultimately show ?thesis using v(1) by blast
qed

end
