(* ===== verification/Chat_Privacy.thy ===== *)
theory Chat_Privacy
  imports Chat_History
begin

text \<open>
  A locked view shows nothing of the profile: whatever is in flight when the profile is locked, and
  whatever is answered later, the pages, searches, results and forms stay empty until it is unlocked.
\<close>

section \<open>Blank views\<close>

definition blank :: "chat_view \<Rightarrow> bool" where
  "blank v \<longleftrightarrow> v_messages v = [] \<and> v_before v = None \<and> list_all (\<lambda>(_, w). view_messages w = [] \<and> view_before w = None) (v_views v)
     \<and> \<not> v_accepted v \<and> v_markers v = (\<lambda>_. None) \<and> v_mentioned v = {} \<and> v_hidden v = [] \<and> v_savedDraft v = []
     \<and> v_pending v = [] \<and> v_failures v = [] \<and> records (v_results v) = []
     \<and> \<not> se_open (v_search v) \<and> se_text (v_search v) = [] \<and> se_results (v_search v) = []
     \<and> pr_dialog (v_prompt v) = None \<and> pr_draft (v_prompt v) = [] \<and> pr_destination (v_prompt v) = []
     \<and> pr_nickname (v_prompt v) = [] \<and> pr_request (v_prompt v) = None"

text \<open>\<open>discreet v v'\<close>: a step from one to the other keeps locked views blank.\<close>

definition discreet :: "chat_view \<Rightarrow> chat_view \<Rightarrow> bool" where
  "discreet v v' \<longleftrightarrow> (locked v \<longrightarrow> blank v) \<longrightarrow> (locked v' \<longrightarrow> blank v')"

lemma discreet_refl [simp]: "discreet v v"
  by (simp add: discreet_def)

lemma discreet_trans: "discreet v v' \<Longrightarrow> discreet v' v'' \<Longrightarrow> discreet v v''"
  by (simp add: discreet_def)

text \<open>While the snapshot stays, an unlocked view may change as it likes.\<close>

lemma discreet_unlocked: "v_snapshot v' = v_snapshot v \<Longrightarrow> (locked v \<Longrightarrow> blank v \<Longrightarrow> blank v') \<Longrightarrow> discreet v v'"
  by (auto simp: discreet_def locked_def)

lemma discreet_and_then: "discreet v (fst r) \<Longrightarrow> (\<And>w. discreet w (fst (f w))) \<Longrightarrow> discreet v (fst (and_then r f))"
  by (auto simp: and_then_def intro: discreet_trans split: prod.split) (metis discreet_trans fst_conv)

lemma blank_cleared: "blank (clear_private v)"
  by (simp add: blank_def clear_private_def Let_def clear_views_def clear_results_def)

lemma blank_updates [simp]:
  "blank (v\<lparr>v_draft := a1\<rparr>) = blank v" "blank (v\<lparr>v_notice := a1\<rparr>) = blank v"
  "blank (v\<lparr>v_busy := a8\<rparr>) = blank v" "blank (v\<lparr>v_snapshot := b1\<rparr>) = blank v"
  "blank (v\<lparr>v_atBottom := b3\<rparr>) = blank v" "blank (v\<lparr>v_jumping := b4\<rparr>) = blank v" "blank (v\<lparr>v_saved := b5\<rparr>) = blank v"
  "blank (v\<lparr>v_checked := b6\<rparr>) = blank v" "blank (v\<lparr>v_checking := b7\<rparr>) = blank v"
  "blank (v\<lparr>v_stale := b9\<rparr>) = blank v" "blank (v\<lparr>v_offline := c1\<rparr>) = blank v" "blank (v\<lparr>v_error := c2\<rparr>) = blank v"
  "blank (v\<lparr>v_password := c3\<rparr>) = blank v" "blank (v\<lparr>v_restored := c4\<rparr>) = blank v" "blank (v\<lparr>v_loading := c5\<rparr>) = blank v"
  "blank (v\<lparr>v_focused := c6\<rparr>) = blank v" "blank (v\<lparr>v_snapshotGeneration := c7\<rparr>) = blank v"
  "blank (v\<lparr>v_recovery := c8\<rparr>) = blank v" "blank (v\<lparr>running := d1\<rparr>) = blank v" "blank (v\<lparr>v_generation := d2\<rparr>) = blank v"
  by (simp_all add: blank_def)

lemma same_lock:
  "v_snapshot v' = v_snapshot v \<Longrightarrow> locked v' = locked v"
  by (simp add: locked_def)

section \<open>The handlers\<close>

lemma snapshot_steps [simp]:
  "v_snapshot (cancel_prompt v) = v_snapshot v" "v_snapshot (open_dialog d v) = v_snapshot v" "v_snapshot (open_utility v) = v_snapshot v"
  "v_snapshot (close_search v) = v_snapshot v" "v_snapshot (dismiss_failure i v) = v_snapshot v"
  "v_snapshot (connection_failed e v) = v_snapshot v" "v_snapshot (history_over r v) = v_snapshot v"
  "v_snapshot (mark_unread i page v) = v_snapshot v" "v_snapshot (operation_over q v) = v_snapshot v"
  "v_snapshot (taken_from_draft t v) = v_snapshot v" "v_snapshot (open_invitation c t v) = v_snapshot v"
  "v_snapshot (forget_saved i v) = v_snapshot v" "v_snapshot (check_over i v) = v_snapshot v"
  "v_snapshot (join_over v) = v_snapshot v" "v_snapshot (search_over r v) = v_snapshot v"
  "v_snapshot (clear_private v) = v_snapshot v" "v_snapshot (leave_conversation env v) = v_snapshot v"
  "v_snapshot (enter_conversation j pos v) = v_snapshot v"
  by (simp_all add: cancel_prompt_def open_dialog_def open_utility_def close_search_def dismiss_failure_def
      connection_failed_def history_over_def mark_unread_def operation_over_def taken_from_draft_def open_invitation_def
      forget_saved_def check_over_def join_over_def search_over_def clear_private_def leave_conversation_def
      enter_conversation_def Let_def split: option.split prod.split)

lemma snapshot_begin: "begin_in_view env i c t v = (v', key) \<Longrightarrow> v_snapshot v' = v_snapshot v"
  by (auto simp: begin_in_view_def Let_def split: prod.splits)

lemma blank_steps [simp]:
  "blank v \<Longrightarrow> blank (cancel_prompt v)" "blank v \<Longrightarrow> blank (open_utility v)"
  "blank v \<Longrightarrow> blank (close_search v)" "blank v \<Longrightarrow> blank (dismiss_failure i v)" "blank (connection_failed e v) = blank v"
  "blank (history_over r v) = blank v" "blank v \<Longrightarrow> blank (operation_over q v)"
  "blank (taken_from_draft t v) = blank v" "blank v \<Longrightarrow> blank (forget_saved i v)" "blank (check_over i v) = blank v"
  "blank (join_over v) = blank v" "blank (search_over r v) = blank v"
  by (simp_all add: blank_def cancel_prompt_def open_utility_def close_search_def dismiss_failure_def
      connection_failed_def history_over_def operation_over_def taken_from_draft_def
      forget_saved_def check_over_def join_over_def search_over_def remove_key_def Let_def split: option.split prod.split)

lemma list_all_save: "list_all P vs \<Longrightarrow> P (i, w) \<Longrightarrow> list_all P (save_view i w vs)"
  unfolding save_view_def by (induction vs) auto

lemma restore_blank:
  "list_all (\<lambda>(_, w). view_messages w = [] \<and> view_before w = None) vs
    \<Longrightarrow> view_messages (restore_view i vs) = [] \<and> view_before (restore_view i vs) = None"
  by (auto simp: restore_view_def fresh_view_def list_all_iff dest!: map_of_SomeD split: option.split)

lemma blank_enter [simp]:
  assumes "blank v"
  shows "blank (enter_conversation j pos (leave_conversation env v))"
proof -
  let ?vs = "v_views (leave_conversation env v)"
  have "list_all (\<lambda>(_, w). view_messages w = [] \<and> view_before w = None) ?vs"
    using assms by (auto simp: blank_def leave_conversation_def intro!: list_all_save)
  note this restore_blank [OF this, of j]
  then show ?thesis using assms
    by (auto simp: blank_def enter_conversation_def leave_conversation_def Let_def split: option.split)
qed

lemma blank_select: "blank v \<Longrightarrow> blank (fst (select env i k v))"
  unfolding select_def Let_def
  by (auto intro!: blank_enter) (auto simp: blank_def cancel_prompt_def Let_def)

lemma snapshot_select [simp]: "v_snapshot (fst (select env i k v)) = v_snapshot v"
  by (simp add: select_def Let_def)

lemma discreet_select [simp]: "discreet v (fst (select env i k v))"
  by (rule discreet_unlocked) (simp_all add: blank_select)

lemma discreet_returns [simp]: "discreet v (fst (returns k v))"
  by (rule discreet_unlocked) (auto simp: returns_def Let_def  split: option.splits prod.splits sum.splits response.splits if_splits dest: snapshot_begin)

lemma discreet_throws [simp]: "discreet v (fst (throws e k v))"
  by (rule discreet_unlocked) (auto simp: throws_def Let_def  split: option.splits prod.splits sum.splits response.splits if_splits dest: snapshot_begin)

lemma discreet_refresh_view [simp]: "discreet v (fst (refresh_view k v))"
  by (rule discreet_unlocked) (auto simp: refresh_view_def Let_def  split: option.splits prod.splits sum.splits response.splits if_splits dest: snapshot_begin)

lemma discreet_refresh_in_background [simp]: "discreet v (fst (refresh_in_background k v))"
  by (simp add: refresh_in_background_def)

lemma discreet_mark_read [simp]: "discreet v (fst (mark_read env v))"
  by (rule discreet_unlocked) (auto simp: mark_read_def Let_def  split: option.splits prod.splits sum.splits response.splits if_splits dest: snapshot_begin)

lemma discreet_after_background [simp]: "discreet v (fst (after_background r k v))"
  by (rule discreet_unlocked) (auto simp: after_background_def returns_def Let_def  split: option.splits prod.splits sum.splits response.splits if_splits dest: snapshot_begin)

lemma discreet_load_history [simp]: "discreet v (fst (load_history older bg k v))"
  by (rule discreet_unlocked) (auto simp: load_history_def returns_def Let_def  split: option.splits prod.splits sum.splits response.splits if_splits dest: snapshot_begin)

lemma discreet_history_failed [simp]: "discreet v (fst (history_failed bg n e k v))"
  by (rule discreet_unlocked) (auto simp: history_failed_def returns_def throws_def Let_def  split: option.splits prod.splits sum.splits response.splits if_splits dest: snapshot_begin)

lemma discreet_history_arrived [simp]: "discreet v (fst (history_arrived older bg n i k a v))"
  by (rule discreet_unlocked) (auto simp: history_arrived_def returns_def show_page_def Let_def history_failed_def throws_def split: option.splits prod.splits sum.splits response.splits if_splits dest: snapshot_begin)

lemma discreet_refresh_loaded [simp]: "discreet v (fst (refresh_loaded k v))"
  by (rule discreet_unlocked) (auto simp: refresh_loaded_def returns_def Let_def  split: option.splits prod.splits sum.splits response.splits if_splits dest: snapshot_begin)

lemma discreet_watch [simp]: "discreet v (fst (watch v))"
  by (rule discreet_unlocked) (auto simp: watch_def refresh_view_def Let_def  split: option.splits prod.splits sum.splits response.splits if_splits dest: snapshot_begin)

lemma discreet_watch_failed [simp]: "discreet v (fst (watch_failed e v))"
  by (rule discreet_unlocked) (auto simp: watch_failed_def Let_def  split: option.splits prod.splits sum.splits response.splits if_splits dest: snapshot_begin)

lemma discreet_watch_refreshed [simp]: "discreet v (fst (watch_refreshed r v))"
  by (rule discreet_unlocked) (auto simp: watch_refreshed_def watch_failed_def Let_def  split: option.splits prod.splits sum.splits response.splits if_splits dest: snapshot_begin)

lemma discreet_events_arrived [simp]: "discreet v (fst (events_arrived a v))"
  by (rule discreet_unlocked) (auto simp: events_arrived_def watch_failed_def watch_def refresh_view_def Let_def  split: option.splits prod.splits sum.splits response.splits if_splits dest: snapshot_begin)

lemma discreet_search [simp]: "discreet v (fst (search env older v))"
  by (rule discreet_unlocked) (auto simp: search_def Let_def blank_def split: option.splits prod.splits sum.splits response.splits if_splits dest: snapshot_begin)

lemma discreet_search_arrived [simp]: "discreet v (fst (search_arrived older i n a v))"
proof (rule discreet_unlocked)
  show "v_snapshot (fst (search_arrived older i n a v)) = v_snapshot v"
    by (simp add: search_arrived_def Let_def split: sum.split response.split)
  show "blank (fst (search_arrived older i n a v))" if "locked v" "blank v"
    using that by (cases a) (auto simp: search_arrived_def Let_def blank_def search_over_def split: response.split)
qed

lemma discreet_find_text [simp]: "discreet v (fst (find_text t v))"
  by (rule discreet_unlocked) (auto simp: find_text_def ready_def Let_def  split: option.splits prod.splits sum.splits response.splits if_splits dest: snapshot_begin)

lemma discreet_read_marked [simp]: "discreet v (fst (read_marked i a v))"
  by (rule discreet_unlocked) (auto simp: read_marked_def Let_def blank_def split: option.splits prod.splits sum.splits response.splits if_splits dest: snapshot_begin)

lemma discreet_check_failed [simp]: "discreet v (fst (check_failed env i key e v))"
  by (rule discreet_unlocked) (auto simp: check_failed_def Let_def  split: option.splits prod.splits sum.splits response.splits if_splits dest: snapshot_begin)

lemma discreet_join_failed [simp]: "discreet v (fst (join_failed q e v))"
  by (rule discreet_unlocked) (auto simp: join_failed_def Let_def  split: option.splits prod.splits sum.splits response.splits if_splits dest: snapshot_begin)

lemma discreet_operation_failed [simp]: "discreet v (fst (operation_failed env q result e k v))"
  by (rule discreet_unlocked) (auto simp: operation_failed_def Let_def error_result_def get_result_def blank_def operation_over_def remove_key_def split: option.splits prod.splits sum.splits response.splits if_splits dest: snapshot_begin)

lemma discreet_directory_failed [simp]: "discreet v (fst (directory_failed e v))"
  by (rule discreet_unlocked) (auto simp: directory_failed_def Let_def blank_def split: option.splits prod.splits sum.splits response.splits if_splits dest: snapshot_begin)

lemma discreet_list_directory [simp]: "discreet v (fst (list_directory env v))"
  by (rule discreet_unlocked) (auto simp: list_directory_def Let_def  split: option.splits prod.splits sum.splits response.splits if_splits dest: snapshot_begin)

lemma discreet_load_directory [simp]: "discreet v (fst (load_directory env again v))"
  by (rule discreet_unlocked) (auto simp: load_directory_def list_directory_def Let_def blank_def split: option.splits prod.splits sum.splits response.splits if_splits dest: snapshot_begin)

lemma discreet_directory_refreshed [simp]: "discreet v (fst (directory_refreshed env a v))"
  by (rule discreet_unlocked) (auto simp: directory_refreshed_def directory_failed_def list_directory_def Let_def blank_def split: option.splits prod.splits sum.splits response.splits if_splits dest: snapshot_begin)

lemma discreet_directory_listed [simp]: "discreet v (fst (directory_listed a v))"
  by (rule discreet_unlocked) (auto simp: directory_listed_def directory_failed_def Let_def blank_def split: option.splits prod.splits sum.splits response.splits if_splits dest: snapshot_begin)

lemma discreet_join_applied [simp]: "discreet v (fst (join_applied q r v))"
  by (rule discreet_unlocked) (auto simp: join_applied_def join_failed_def Let_def blank_def join_over_def split: option.splits prod.splits sum.splits response.splits if_splits dest: snapshot_begin)

lemma discreet_send_done [simp]: "discreet v (fst (send_done t q r v))"
  by (rule discreet_unlocked) (auto simp: send_done_def Let_def  split: option.splits prod.splits sum.splits response.splits if_splits dest: snapshot_begin)

lemma discreet_edit_selected [simp]: "discreet v (fst (edit_selected q v))"
  by (rule discreet_unlocked) (auto simp: edit_selected_def Let_def  split: option.splits prod.splits sum.splits response.splits if_splits dest: snapshot_begin)

section \<open>Steps that look at the lock\<close>

lemma discreet_check_saved: "\<not> locked v \<Longrightarrow> discreet v (fst (check_saved env i key v))"
  by (rule discreet_unlocked) (auto simp: check_saved_def Let_def split: option.split prod.split dest: snapshot_begin)

lemma snapshot_check_saved: "v_snapshot (fst (check_saved env i key v)) = v_snapshot v"
  by (auto simp: check_saved_def Let_def split: option.split prod.split dest: snapshot_begin)

lemma snapshot_check_all: "v_snapshot (fst (check_all env is v)) = v_snapshot v"
proof (induction "is" arbitrary: v)
  case (Cons i "is")
  then show ?case
    using snapshot_check_saved [of env i None "v\<lparr>v_checked := insert i (v_checked v)\<rparr>"]
    by (auto simp: and_then_def split: prod.split) (metis fst_conv)
qed simp

lemma snapshot_recover: "v_snapshot (fst (recover_operations env v)) = v_snapshot v"
  by (simp add: recover_operations_def snapshot_check_all Let_def split: option.split sum.split)

lemma discreet_recover [simp]: "discreet v (fst (recover_operations env v))"
  by (rule discreet_unlocked [OF snapshot_recover])
    (simp add: recover_operations_def ready_def split: option.split sum.split)

lemma blank_accept: "(locked v \<Longrightarrow> blank v) \<Longrightarrow> inst_locked (sn_instance s) \<Longrightarrow> blank (take_snapshot env s v)"
  by (auto simp: take_snapshot_def Let_def locked_def blank_cleared split: option.splits)

lemma discreet_accept: "discreet v (take_snapshot env s v)"
proof -
  have "v_snapshot (take_snapshot env s v) = Some s" by (simp add: take_snapshot_def Let_def)
  then show ?thesis using blank_accept [of v s env] by (auto simp: discreet_def locked_def)
qed

lemma discreet_history_shown [simp]: "discreet v (fst (history_shown env n k v))"
  unfolding history_shown_def
  by (rule discreet_and_then) (simp_all, rule discreet_unlocked, simp_all add: returns_def)

lemma discreet_select_shown [simp]: "discreet v (fst (select_shown i changing pos k v))"
  by (simp add: select_shown_def)

lemma discreet_select_older [simp]: "discreet v (fst (select_older i pos k v))"
  by (auto simp: select_older_def intro!: discreet_unlocked) (simp_all add: returns_def)

lemma discreet_select_loaded [simp]: "discreet v (fst (select_loaded i changing pos k v))"
  by (simp add: select_loaded_def split: option.split)

text \<open>Views that are kept for conversations still there are kept blank.\<close>

lemma blank_retain: "blank v \<Longrightarrow> blank (v\<lparr>v_views := retain_views ids (v_views v)\<rparr>)"
  by (auto simp: blank_def retain_views_eq list_all_iff)

lemma discreet_retain: "discreet v (v\<lparr>v_views := retain_views ids (v_views v)\<rparr>)"
  by (rule discreet_unlocked) (simp_all add: blank_retain)

lemma discreet_refresh_reselected [simp]: "discreet v (fst (refresh_reselected s changed k v))"
  unfolding refresh_reselected_def Let_def
  by (rule discreet_trans [OF discreet_retain [of v "map conv_id (sn_conversations s)"]]) simp

lemma discreet_refresh_restored [simp]: "discreet v (fst (refresh_restored env s changed k v))"
  by (simp add: refresh_restored_def)

lemma discreet_restored: "discreet v (v\<lparr>v_restored := x\<rparr>)"
  by (rule discreet_unlocked) simp_all

lemma discreet_snapshot_arrived [simp]: "discreet v (fst (snapshot_arrived env n k a v))"
proof -
  have "discreet v (fst (and_then (recover_operations env (take_snapshot env s v)) (\<lambda>v.
      if ready v \<and> \<not> v_restored v
      then select env (first_selection env s) (Refresh_restored s changed k) (v\<lparr>v_restored := True\<rparr>)
      else refresh_restored env s changed k v)))" for s changed
    by (rule discreet_trans [OF discreet_accept [of v env s]], rule discreet_and_then)
      (auto intro: discreet_trans [OF discreet_restored discreet_select])
  then show ?thesis by (simp add: snapshot_arrived_def Let_def split: sum.split response.split)
qed

text \<open>Replies of commands: a reply that locks the profile clears the view.\<close>

lemma discreet_apply_instance [simp]: "discreet v (fst (apply_instance response k v))"
proof -
  let ?v = "case response of
      R_instance inst \<Rightarrow>
        if inst_locked inst then
          (let v = clear_private (v\<lparr>v_snapshotGeneration := v_snapshotGeneration v + 1\<rparr>) in
           v\<lparr>v_snapshot := map_option (\<lambda>s. s\<lparr>sn_instance := inst, sn_conversations := [], sn_operations := Some [], sn_activity := Some []\<rparr>) (v_snapshot v)\<rparr>)
        else v
    | R_snapshot s \<Rightarrow>
        (let v = v\<lparr>v_snapshotGeneration := v_snapshotGeneration v + 1\<rparr> in
         (if inst_locked (sn_instance s) then clear_private v else v)\<lparr>v_snapshot := Some s\<rparr>)
    | _ \<Rightarrow> v"
  have "discreet v ?v"
    by (cases response) (auto simp: discreet_def blank_cleared locked_def Let_def)
  moreover have "discreet ?v (fst (and_then (refresh_in_background Nobody ?v) (returns k)))"
    by (rule discreet_and_then) simp_all
  ultimately show ?thesis unfolding apply_instance_def Let_def by (rule discreet_trans)
qed

lemma blank_complete: "blank v \<Longrightarrow> blank (v\<lparr>v_results := fst (complete_result key r now (v_results v))\<rparr>)"
  by (simp add: blank_def complete_result_def get_result_def)

lemma discreet_completed:
  "discreet v (v\<lparr>v_results := fst (case result of Some key \<Rightarrow> complete_result key r now (v_results v) | None \<Rightarrow> (v_results v, True))\<rparr>)"
  by (rule discreet_unlocked) (simp_all add: blank_complete split: option.split)

text \<open>An unlocked view may get any contents while the profile stays unlocked.\<close>

lemma discreet_free: "discreet w (fst r) \<Longrightarrow> v_snapshot w = v_snapshot v \<Longrightarrow> \<not> locked v \<Longrightarrow> discreet v (fst r)"
  by (rule discreet_trans [of v w]) (auto intro: discreet_unlocked)

lemmas free_steps = discreet_free [OF discreet_apply_instance] discreet_free [OF discreet_select]

lemma discreet_apply_response [simp]: "discreet v (fst (apply_response env response origin result k v))"
proof (cases "\<exists>c m. response = R_error c m")
  case False
  let ?r = "case result of Some key \<Rightarrow> complete_result key response (e_now env) (v_results v) | None \<Rightarrow> (v_results v, True)"
  let ?v = "v\<lparr>v_results := fst ?r\<rparr>"
  have "discreet ?v (fst (apply_response env response origin result k v))"
    using False
    by (cases response) (auto simp: apply_response_def Let_def split: prod.split command_output.split intro: free_steps)
  then show ?thesis by (rule discreet_trans [OF discreet_completed])
qed (auto simp: apply_response_def)

section \<open>Operations and forms\<close>

lemma discreet_same: "\<not> locked v \<Longrightarrow> v_snapshot v' = v_snapshot v \<Longrightarrow> discreet v v'"
  by (rule discreet_unlocked) simp_all

lemma discreet_operation: "submission q = None \<or> \<not> locked v \<Longrightarrow> discreet v (fst (operation env q k v))"
  unfolding operation_def Let_def
  by (rule discreet_unlocked) (auto split: option.split prod.split dest: snapshot_begin)

lemma discreet_operation_over: "v_snapshot w = v_snapshot v \<Longrightarrow> blank w = blank v \<Longrightarrow> discreet v (operation_over q w)"
  by (rule discreet_unlocked) simp_all

lemma discreet_operation_applied [simp]: "discreet v (fst (operation_applied env q result k r v))"
  by (auto simp: operation_applied_def returns_def intro!: discreet_operation_over split: sum.split request.split)

lemma discreet_operation_answered [simp]: "discreet v (fst (operation_answered env q origin result k r v))"
  by (simp add: operation_answered_def split: sum.split)

lemma discreet_check_applied [simp]: "discreet v (fst (check_applied env i key r v))"
  by (auto simp: check_applied_def split: sum.split intro: discreet_unlocked)

lemma discreet_check_answered [simp]: "discreet v (fst (check_answered env i key c r v))"
  by (auto simp: check_answered_def split: sum.split intro: discreet_unlocked discreet_free [OF discreet_apply_response])

lemma discreet_join_channel: "\<not> locked v \<Longrightarrow> discreet v (fst (join_channel env v))"
  unfolding join_channel_def Let_def
  by (rule discreet_same) (auto split: option.split prod.split dest: snapshot_begin)

lemma discreet_join_answered [simp]: "discreet v (fst (join_answered env q origin key r v))"
  by (auto simp: join_answered_def split: sum.split intro: discreet_unlocked discreet_free [OF discreet_apply_response])

text \<open>Joining by an invitation.\<close>

lemma over_steps [simp]:
  "v_snapshot (invitation_over i v) = v_snapshot v" "blank v \<Longrightarrow> blank (invitation_over i v)"
  by (simp_all add: invitation_over_def blank_def remove_key_def)

lemma discreet_perform_join: "\<not> locked v \<Longrightarrow> discreet v (fst (perform_join env q v))"
  unfolding perform_join_def Let_def by (rule discreet_same) (auto split: prod.split dest: snapshot_begin)

lemma discreet_invitation_failed [simp]: "discreet v (fst (invitation_failed env i key inst e v))"
  by (rule discreet_unlocked) (simp_all add: invitation_failed_def still_on_def Let_def)

lemma discreet_invitation_answered [simp]: "discreet v (fst (invitation_answered env i key origin inst a v))"
proof (cases "still_on inst v")
  case True
  then have "\<not> locked v" by (simp add: still_on_def)
  then show ?thesis
    by (auto simp: invitation_answered_def refresh_in_background_def refresh_view_def Let_def intro!: discreet_same
        split: sum.split response.split)
qed (auto simp: invitation_answered_def intro: discreet_unlocked split: sum.split)

lemma discreet_invitation_refreshed [simp]: "discreet v (fst (invitation_refreshed env i key inst response v))"
  by (simp add: invitation_refreshed_def)

lemma blank_result_key [simp]: "blank (v\<lparr>v_resultKey := x\<rparr>) = blank v"
  by (simp add: blank_def)

lemma discreet_invitation_applied [simp]: "discreet v (fst (invitation_applied env i key inst response r v))"
  by (auto simp: invitation_applied_def intro!: discreet_unlocked split: sum.split response.split command_output.split)

lemma discreet_invitation_elsewhere [simp]: "discreet v (fst (invitation_elsewhere i v))"
  by (rule discreet_unlocked) (simp_all add: invitation_elsewhere_def)

lemma discreet_reveal_loop [simp]: "discreet v (fst (reveal_loop m i n cursors v))"
proof (cases "locked v")
  case True
  have "blank (fst (reveal_loop m i n cursors v))" if "blank v"
  proof -
    have "\<not> reveal_search i n v" using that by (simp add: blank_def reveal_search_def)
    then show ?thesis using that by (simp add: reveal_loop_def Let_def)
  qed
  then show ?thesis using True by (auto simp: discreet_def)
next
  case False
  then show ?thesis
    by (auto simp: reveal_loop_def Let_def intro: discreet_same)
qed

lemma discreet_reveal_message: "\<not> locked v \<Longrightarrow> discreet v (fst (reveal_message m v))"
  by (auto simp: reveal_message_def intro: discreet_free [OF discreet_reveal_loop])

lemma snapshot_find [simp]: "v_snapshot (fst (find_text t v)) = v_snapshot v"
  by (simp add: find_text_def Let_def)

lemma snapshot_run_local [simp]: "v_snapshot (fst (run_local name args v)) = v_snapshot v"
  by (simp add: run_local_def split: local_name.split)

lemma discreet_cases:
  "(b \<Longrightarrow> discreet v (fst r)) \<Longrightarrow> (\<not> b \<Longrightarrow> discreet v (fst s)) \<Longrightarrow> discreet v (fst (if b then r else s))"
  "(x = None \<Longrightarrow> discreet v (fst r)) \<Longrightarrow> (\<And>a. x = Some a \<Longrightarrow> discreet v (fst (f a))) \<Longrightarrow> discreet v (fst (case x of None \<Rightarrow> r | Some a \<Rightarrow> f a))"
  "(\<And>a b. p = (a, b) \<Longrightarrow> discreet v (fst (g a b))) \<Longrightarrow> discreet v (fst (case p of (a, b) \<Rightarrow> g a b))"
  by (simp_all split: option.split prod.split)

lemma discreet_send_text [simp]: "discreet v (fst (send_text env t v))"
proof (cases "ready v")
  case True
  then have "\<not> locked v" by (simp add: ready_def)
  then have same: "discreet v v'" if "v_snapshot v' = v_snapshot v" for v' using that by (rule discreet_same)
  have operated: "discreet v (fst (operation env q k w))" if w: "v_snapshot w = v_snapshot v" for q k w
    by (rule discreet_free [OF discreet_operation]) (use w same_lock [OF w] \<open>\<not> locked v\<close> in simp_all)
  show ?thesis
    unfolding send_text_def Let_def
    by (intro discreet_cases same operated) simp_all
qed (simp add: send_text_def Let_def)

lemma discreet_edit_failed: "discreet v (fst (edit_failed env q v))"
  by (simp add: edit_failed_def split: option.split prod.split)

lemma discreet_choose_channel: "\<not> locked v \<Longrightarrow> discreet v (fst (choose_channel env e v))"
  by (auto simp: choose_channel_def Let_def intro: discreet_same free_steps)

lemma discreet_unlock: "(\<not> locked v \<Longrightarrow> discreet v (fst r)) \<Longrightarrow> discreet v (fst (unlocked r v))"
  by (simp add: unlocked_def)

lemma discreet_set_prompt [simp]: "discreet v (fst (set_prompt f v))"
  by (auto simp: set_prompt_def intro: discreet_same)

lemma blank_clear_views: "blank v \<Longrightarrow> blank (v\<lparr>v_mentioned := {}, v_views := clear_views vs\<rparr>)"
  by (simp add: blank_def clear_views_def)

lemma discreet_unmounted [simp]: "discreet v (unmounted v)"
  by (rule discreet_unlocked) (auto simp: unmounted_def blank_def clear_views_def)

lemma discreet_show_result: "\<not> locked v \<Longrightarrow> discreet v (show_result env i c v)"
  by (rule discreet_same) (auto simp: show_result_def split: prod.split dest: snapshot_begin)

lemma discreet_open_dialog [simp]: "discreet v (open_dialog d v)"
  by (rule discreet_unlocked) (simp_all add: open_dialog_def ready_def Let_def)

section \<open>Every step\<close>

lemma discreet_answered: "discreet v (fst (answered env r w v))"
  by (cases w) simp_all

lemma discreet_continued: "discreet v (fst (continued env r k v))"
  by (cases k) (auto split: sum.split intro: discreet_unlocked)

lemma discreet_happened: "discreet v (fst (happened env e v))"
proof (cases e)
  case (Operation_wanted q)
  then show ?thesis by (auto intro: discreet_operation)
next
  case (Unlock_wanted create)
  then show ?thesis
    by (auto intro!: discreet_trans [OF _ discreet_operation] intro: discreet_unlocked simp: submission_def)
next
  case (Scrolled b)
  have "discreet v (v\<lparr>v_atBottom := b\<rparr>)" by (rule discreet_unlocked) simp_all
  then show ?thesis using Scrolled by (auto simp: Let_def intro: discreet_trans [OF _ discreet_mark_read])
next
  case (Typed_search t)
  then show ?thesis by (auto intro!: discreet_unlock discreet_same)
next
  case (Details_wanted i c)
  then show ?thesis by (auto intro!: discreet_unlock discreet_show_result)
next
  case (Details_closed)
  then show ?thesis by (auto intro: discreet_unlocked simp: blank_def)
qed (auto intro: discreet_unlocked discreet_unlock discreet_same discreet_join_channel discreet_perform_join discreet_reveal_message
      discreet_choose_channel discreet_check_saved discreet_edit_failed discreet_show_result discreet_unlock discreet_refl
      simp: ready_def split: option.split)

section \<open>Runs\<close>

lemma chat_discreet: "chat logs v ts \<Longrightarrow> locked v \<longrightarrow> blank v"
proof (induction rule: chat.induct)
  case (opened logs)
  then show ?case by (simp add: blank_def new_view_def no_search_def no_prompt_def empty_results_def)
next
  case (event logs v ts env e v' new)
  then show ?case using discreet_happened [of v env e] by (simp add: discreet_def)
next
  case (arrived logs v ts r w us env v' new)
  then show ?case using discreet_answered [of v env r w] by (simp add: discreet_def)
next
  case (resumed logs v ts r k us env v' new)
  then show ?case using discreet_continued [of v env r k] by (simp add: discreet_def)
qed simp_all

text \<open>C4: A locked view is blank.  However events, answers and the continuations of calls follow each
  other, a view whose profile is locked, or not known yet, holds no messages, no cursor and no marker, and
  neither do the views kept for other conversations; it holds no pending or failed submission, no result,
  no search text or hit, and no open form, whatever was in flight when the lock arrived.\<close>

theorem locked_view_is_blank:
  assumes "chat logs v ts" "locked v"
  shows "blank v"
  using chat_discreet assms by blast

text \<open>The view of the other run, with two messages on it, is locked.\<close>

definition locking_moves :: "move list" where
  "locking_moves = opening_moves @ [User (Operation_wanted Lock),
     Reply 2 (Inr (R_instance ((sn_instance a_snapshot)\<lparr>inst_locked := True\<rparr>))), Take 2]"

lemma locking_run:
  "\<exists>v ts. play calm small_log locking_moves (new_view, []) = Some (v, ts) \<and> v_snapshot v \<noteq> None \<and> locked v"
  by (simp add: locking_moves_def opening_moves_def run_defs run_simps operation_def submission_def operation_answered_def
      apply_response_def apply_instance_def refresh_in_background_def)

theorem locked_view_is_blank_witness:
  "\<exists>v :: chat_view. v_snapshot v \<noteq> None \<and> locked v \<and> blank v"
proof -
  obtain v ts where run: "play calm small_log locking_moves (new_view, []) = Some (v, ts)"
    and v: "v_snapshot v \<noteq> None" "locked v"
    using locking_run by blast
  show ?thesis using locked_view_is_blank [OF small_chat [OF run] v(2)] v by blast
qed

end
