(* ===== verification/Chat_Duties.thy ===== *)
theory Chat_Duties
  imports Chat_History
begin

text \<open>
  What the view waits for.  While an operation, a submission, a check, a join or a jump shows as going
  on, a task is there that ends it: no order of events, answers and locks leaves a flag set for good.
\<close>

section \<open>Flags and the tasks that clear them\<close>

datatype duty = Lifecycle | Submitting string | Checking string | Joining | Jumping

definition duty_of :: "request \<Rightarrow> duty" where
  "duty_of q = (case submission q of None \<Rightarrow> Lifecycle | Some (i, _, _) \<Rightarrow> Submitting i)"

definition flags :: "chat_view \<Rightarrow> duty set" where
  "flags v = (if v_busy v then {Lifecycle} else {}) \<union> Submitting ` set (map fst (v_pending v)) \<union> Checking ` v_checking v
     \<union> (if pr_busy (v_prompt v) then {Joining} else {}) \<union> (if v_jumping v then {Jumping} else {})"

fun cont_duties :: "cont \<Rightarrow> duty set" where
  "cont_duties (After_background k) = cont_duties k"
| "cont_duties (Refresh_restored _ _ k) = cont_duties k"
| "cont_duties (Refresh_reselected _ _ k) = cont_duties k"
| "cont_duties (Refresh_loaded k) = cont_duties k"
| "cont_duties (Select_shown _ _ _ k) = cont_duties k"
| "cont_duties (Select_loaded _ _ _ k) = cont_duties k"
| "cont_duties (Select_older _ _ k) = cont_duties k"
| "cont_duties (History_shown _ k) = cont_duties k"
| "cont_duties (Applied_selected _ k) = cont_duties k"
| "cont_duties (Operation_applied q _ k) = insert (duty_of q) (cont_duties k)"
| "cont_duties (Reveal_older _ _ _ _) = {Jumping}"
| "cont_duties Reveal_shown = {Jumping}"
| "cont_duties (Join_applied _ _) = {Joining}"
| "cont_duties (Check_applied i _) = {Checking i}"
| "cont_duties (Invitation_refreshed i _ _ _) = {Submitting i}"
| "cont_duties (Invitation_applied i _ _ _) = {Submitting i}"
| "cont_duties (Invitation_elsewhere i) = {Submitting i}"
| "cont_duties _ = {}"

fun waiter_duties :: "waiter \<Rightarrow> duty set" where
  "waiter_duties (History_arrived _ _ _ _ k) = cont_duties k"
| "waiter_duties (Snapshot_arrived _ k) = cont_duties k"
| "waiter_duties (Operation_answered q _ _ k) = insert (duty_of q) (cont_duties k)"
| "waiter_duties (Join_answered _ _ _) = {Joining}"
| "waiter_duties (Check_answered i _ _) = {Checking i}"
| "waiter_duties (Invitation_answered i _ _ _) = {Submitting i}"
| "waiter_duties _ = {}"

fun task_duties :: "task \<Rightarrow> duty set" where
  "task_duties (Await _ w) = waiter_duties w"
| "task_duties (Answered _ w) = waiter_duties w"
| "task_duties (Continue _ k) = cont_duties k"

definition duties :: "task list \<Rightarrow> duty set" where
  "duties ts = \<Union> (task_duties ` set ts)"

lemma duties_simps [simp]:
  "duties [] = {}" "duties (t # ts) = task_duties t \<union> duties ts" "duties (ts @ us) = duties ts \<union> duties us"
  by (auto simp: duties_def)

text \<open>\<open>keeps D v r\<close>: the step from \<open>v\<close> that ends what \<open>D\<close> was to clear has cleared it or passes it on.\<close>

definition keeps :: "duty set \<Rightarrow> chat_view \<Rightarrow> stepped \<Rightarrow> bool" where
  "keeps D v r \<longleftrightarrow> flags (fst r) \<subseteq> flags v - D \<union> duties (snd r)"

lemma keeps_and_then:
  assumes "keeps D v r" "\<And>w. keeps D' w (f w)"
  shows "keeps (D \<union> D') v (and_then r f)"
proof -
  obtain w new where r: "r = (w, new)" by (cases r)
  obtain w' new' where f: "f w = (w', new')" by (cases "f w")
  show ?thesis using assms(1) assms(2) [of w] by (auto simp: keeps_def and_then_def r f)
qed

lemma keeps_before: "keeps {} v r \<Longrightarrow> (\<And>w. keeps D w (f w)) \<Longrightarrow> keeps D v (and_then r f)"
  using keeps_and_then [of "{}" v r D f] by simp

lemma keeps_via: "flags w = flags v \<Longrightarrow> keeps D w r \<Longrightarrow> keeps D v r"
  by (simp add: keeps_def)

lemma keeps_same: "flags w \<subseteq> flags v \<Longrightarrow> D \<subseteq> duties new \<Longrightarrow> keeps D v (w, new)"
  by (auto simp: keeps_def)

lemma keeps_cases:
  "(b \<Longrightarrow> keeps D v r) \<Longrightarrow> (\<not> b \<Longrightarrow> keeps D v r') \<Longrightarrow> keeps D v (if b then r else r')"
  "(x = None \<Longrightarrow> keeps D v r) \<Longrightarrow> (\<And>y. x = Some y \<Longrightarrow> keeps D v (f y)) \<Longrightarrow> keeps D v (case x of None \<Rightarrow> r | Some y \<Rightarrow> f y)"
  "(\<And>y z. p = (y, z) \<Longrightarrow> keeps D v (g y z)) \<Longrightarrow> keeps D v (case p of (y, z) \<Rightarrow> g y z)"
  by (auto split: option.split prod.split)

section \<open>Small steps\<close>

lemma flags_updates [simp]:
  "flags (v\<lparr>v_draft := a0\<rparr>) = flags v" "flags (v\<lparr>v_notice := a1\<rparr>) = flags v"
  "flags (v\<lparr>v_results := a2\<rparr>) = flags v" "flags (v\<lparr>v_resultKey := a3\<rparr>) = flags v"
  "flags (v\<lparr>v_hidden := a4\<rparr>) = flags v" "flags (v\<lparr>v_search := a5\<rparr>) = flags v"
  "flags (v\<lparr>v_failures := a6\<rparr>) = flags v" "flags (v\<lparr>v_snapshot := a7\<rparr>) = flags v"
  "flags (v\<lparr>v_accepted := a8\<rparr>) = flags v" "flags (v\<lparr>v_atBottom := a9\<rparr>) = flags v"
  "flags (v\<lparr>v_saved := a10\<rparr>) = flags v" "flags (v\<lparr>v_checked := a11\<rparr>) = flags v"
  "flags (v\<lparr>v_mentioned := a12\<rparr>) = flags v" "flags (v\<lparr>v_stale := a13\<rparr>) = flags v"
  "flags (v\<lparr>v_offline := a14\<rparr>) = flags v" "flags (v\<lparr>v_error := a15\<rparr>) = flags v"
  "flags (v\<lparr>v_password := a16\<rparr>) = flags v" "flags (v\<lparr>v_restored := a17\<rparr>) = flags v"
  "flags (v\<lparr>v_loading := a18\<rparr>) = flags v" "flags (v\<lparr>v_focused := a19\<rparr>) = flags v"
  "flags (v\<lparr>v_snapshotGeneration := a20\<rparr>) = flags v" "flags (v\<lparr>v_recovery := a21\<rparr>) = flags v"
  "flags (v\<lparr>v_markers := a22\<rparr>) = flags v" "flags (v\<lparr>v_generation := a23\<rparr>) = flags v"
  "flags (v\<lparr>v_views := a24\<rparr>) = flags v" "flags (v\<lparr>v_messages := a25\<rparr>) = flags v"
  "flags (v\<lparr>v_before := a26\<rparr>) = flags v" "flags (v\<lparr>v_selected := a27\<rparr>) = flags v"
  "flags (v\<lparr>v_savedDraft := a28\<rparr>) = flags v" "flags (v\<lparr>running := b1\<rparr>) = flags v"
  by (simp_all add: flags_def)

lemma flags_prompt [simp]: "pr_busy p = pr_busy (v_prompt v) \<Longrightarrow> flags (v\<lparr>v_prompt := p\<rparr>) = flags v"
  by (simp add: flags_def)

lemma flags_steps [simp]:
  "flags (cancel_prompt v) = flags v" "flags (open_dialog d v) = flags v" "flags (open_utility v) = flags v"
  "flags (close_search v) = flags v" "flags (dismiss_failure i v) = flags v" "flags (connection_failed e v) = flags v"
  "flags (history_over r v) = flags v" "flags (mark_unread i page v) = flags v"
  "flags (taken_from_draft t v) = flags v" "flags (open_invitation c t v) = flags v" "flags (forget_saved i v) = flags v"
  "flags (search_over r v) = flags v" "flags (leave_conversation env v) = flags v" "flags (enter_conversation j pos v) = flags v"
  by (simp_all add: cancel_prompt_def open_dialog_def open_utility_def close_search_def dismiss_failure_def
      connection_failed_def history_over_def mark_unread_def taken_from_draft_def open_invitation_def
      forget_saved_def search_over_def leave_conversation_def enter_conversation_def Let_def split: option.split prod.split)

lemma flags_begin: "begin_in_view env i c t v = (v', key) \<Longrightarrow> flags v' = flags v"
  by (auto simp: begin_in_view_def Let_def split: prod.splits)

lemma flags_clear: "flags (clear_private v) \<subseteq> flags v"
  by (auto simp: clear_private_def flags_def Let_def)

lemma flags_accept: "flags (take_snapshot env s v) \<subseteq> flags v"
  using flags_clear [of v] by (simp add: take_snapshot_def Let_def)

text \<open>Steps that begin and end what a flag stands for.\<close>

lemma flags_ends [simp]:
  "flags (operation_over q v) = flags v - {duty_of q}" "flags (check_over i v) = flags v - {Checking i}"
  "flags (join_over v) = flags v - {Joining}" "flags (invitation_over i v) = flags v - {Submitting i}"
  "flags (v\<lparr>v_jumping := False\<rparr>) = flags v - {Jumping}"
  by (auto simp: flags_def operation_over_def duty_of_def check_over_def join_over_def invitation_over_def remove_key_def
      split: option.splits)

lemma put_names: "fst ` set (put i c kvs) = insert i (fst ` set kvs)"
  using arg_cong [OF keys_put [of i c kvs], of set] by (auto split: if_splits)

lemma flags_begins [simp]:
  "flags (v\<lparr>v_busy := True\<rparr>) = insert Lifecycle (flags v)"
  "flags (v\<lparr>v_pending := put i c (v_pending v)\<rparr>) = insert (Submitting i) (flags v)"
  "flags (v\<lparr>v_checking := insert i (v_checking v)\<rparr>) = insert (Checking i) (flags v)"
  "flags (v\<lparr>v_jumping := True\<rparr>) = insert Jumping (flags v)"
  by (auto simp: flags_def put_names)

section \<open>The handlers\<close>

lemma keeps_returns [simp]: "keeps (cont_duties k) v (returns k v)"
  by (auto simp: keeps_def returns_def Let_def split: option.split prod.split sum.split response.split)

lemma keeps_throws [simp]: "keeps (cont_duties k) v (throws e k v)"
  by (auto simp: keeps_def throws_def Let_def split: option.split prod.split sum.split response.split)

lemma keeps_refresh_view [simp]: "keeps (cont_duties k) v (refresh_view k v)"
  by (auto simp: keeps_def refresh_view_def Let_def split: option.split prod.split sum.split response.split)

lemma keeps_refresh_in_background [simp]: "keeps (cont_duties k) v (refresh_in_background k v)"
  by (auto simp: keeps_def refresh_in_background_def refresh_view_def Let_def split: option.split prod.split sum.split response.split)

lemma keeps_mark_read [simp]: "keeps {} v (mark_read env v)"
  by (auto simp: keeps_def mark_read_def Let_def split: option.split prod.split sum.split response.split)

lemma keeps_after_background [simp]: "keeps (cont_duties k) v (after_background r k v)"
  by (auto simp: keeps_def after_background_def returns_def Let_def split: option.split prod.split sum.split response.split)

lemma keeps_load_history [simp]: "keeps (cont_duties k) v (load_history older bg k v)"
  by (auto simp: keeps_def load_history_def returns_def Let_def split: option.split prod.split sum.split response.split)

lemma keeps_history_failed [simp]: "keeps (cont_duties k) v (history_failed bg n e k v)"
  by (auto simp: keeps_def history_failed_def returns_def throws_def Let_def split: option.split prod.split sum.split response.split)

lemma keeps_refresh_loaded [simp]: "keeps (cont_duties k) v (refresh_loaded k v)"
  by (auto simp: keeps_def refresh_loaded_def returns_def Let_def split: option.split prod.split sum.split response.split)

lemma keeps_watch [simp]: "keeps {} v (watch v)"
  by (auto simp: keeps_def watch_def refresh_view_def Let_def split: option.split prod.split sum.split response.split)

lemma keeps_watch_failed [simp]: "keeps {} v (watch_failed e v)"
  by (auto simp: keeps_def watch_failed_def Let_def split: option.split prod.split sum.split response.split)

lemma keeps_watch_refreshed [simp]: "keeps {} v (watch_refreshed r v)"
  by (auto simp: keeps_def watch_refreshed_def watch_failed_def Let_def split: option.split prod.split sum.split response.split)

lemma keeps_events_arrived [simp]: "keeps {} v (events_arrived a v)"
  by (auto simp: keeps_def events_arrived_def watch_failed_def watch_def refresh_view_def Let_def split: option.split prod.split sum.split response.split)

lemma keeps_search [simp]: "keeps {} v (search env older v)"
  by (auto simp: keeps_def search_def Let_def split: option.split prod.split sum.split response.split)

lemma keeps_search_arrived [simp]: "keeps {} v (search_arrived older i n a v)"
  by (auto simp: keeps_def search_arrived_def Let_def split: option.split prod.split sum.split response.split)

lemma keeps_find_text [simp]: "keeps {} v (find_text t v)"
  by (auto simp: keeps_def find_text_def Let_def split: option.split prod.split sum.split response.split)

lemma keeps_read_marked [simp]: "keeps {} v (read_marked i a v)"
  by (auto simp: keeps_def read_marked_def Let_def split: option.split prod.split sum.split response.split)

lemma keeps_directory_failed [simp]: "keeps {} v (directory_failed e v)"
  by (auto simp: keeps_def directory_failed_def Let_def split: option.split prod.split sum.split response.split)

lemma keeps_list_directory [simp]: "keeps {} v (list_directory env v)"
  by (auto simp: keeps_def list_directory_def Let_def split: option.split prod.split sum.split response.split)

lemma keeps_load_directory [simp]: "keeps {} v (load_directory env again v)"
  by (auto simp: keeps_def load_directory_def list_directory_def Let_def split: option.split prod.split sum.split response.split)

lemma keeps_directory_refreshed [simp]: "keeps {} v (directory_refreshed env a v)"
  by (auto simp: keeps_def directory_refreshed_def directory_failed_def list_directory_def Let_def split: option.split prod.split sum.split response.split)

lemma keeps_directory_listed [simp]: "keeps {} v (directory_listed a v)"
  by (auto simp: keeps_def directory_listed_def directory_failed_def Let_def split: option.split prod.split sum.split response.split)

lemma keeps_send_done [simp]: "keeps {} v (send_done t q r v)"
  by (auto simp: keeps_def send_done_def Let_def split: option.split prod.split sum.split response.split)

lemma keeps_edit_selected [simp]: "keeps {} v (edit_selected q v)"
  by (auto simp: keeps_def edit_selected_def Let_def split: option.split prod.split sum.split response.split)

lemma keeps_join_failed [simp]: "keeps {Joining} v (join_failed q e v)"
  by (auto simp: keeps_def join_failed_def Let_def split: option.split prod.split sum.split response.split)

lemma keeps_join_applied [simp]: "keeps {Joining} v (join_applied q r v)"
  by (auto simp: keeps_def join_applied_def join_failed_def Let_def split: option.split prod.split sum.split response.split)

lemma keeps_operation_failed [simp]: "keeps (insert (duty_of q) (cont_duties k)) v (operation_failed env q result e k v)"
  by (auto simp: keeps_def operation_failed_def Let_def split: option.split prod.split sum.split response.split)

lemma keeps_check_failed [simp]: "keeps {Checking i} v (check_failed env i key e v)"
  by (auto simp: keeps_def check_failed_def Let_def split: option.split prod.split sum.split response.split)

lemma keeps_check_applied [simp]: "keeps {Checking i} v (check_applied env i key r v)"
  by (auto simp: keeps_def check_applied_def check_failed_def Let_def split: option.split prod.split sum.split response.split)

lemma keeps_invitation_failed [simp]: "keeps {Submitting i} v (invitation_failed env i key inst e v)"
  by (auto simp: keeps_def invitation_failed_def Let_def split: option.split prod.split sum.split response.split)

lemma keeps_invitation_elsewhere [simp]: "keeps {Submitting i} v (invitation_elsewhere i v)"
  by (auto simp: keeps_def invitation_elsewhere_def Let_def split: option.split prod.split sum.split response.split)

lemma keeps_invitation_applied [simp]: "keeps {Submitting i} v (invitation_applied env i key inst response r v)"
  by (auto simp: keeps_def invitation_applied_def invitation_failed_def Let_def split: command_output.split local_name.split simp: split: option.split prod.split sum.split response.split)

lemma keeps_select [simp]: "keeps (cont_duties k) v (select env i k v)"
  by (auto simp: keeps_def select_def Let_def split: option.split prod.split sum.split response.split)

lemma keeps_run_local [simp]: "keeps {} v (run_local name args v)"
  by (auto simp: keeps_def run_local_def find_text_def Let_def split: command_output.split local_name.split simp: split: option.split prod.split sum.split response.split)

lemma keeps_history_arrived [simp]: "keeps (cont_duties k) v (history_arrived older bg n i k a v)"
  by (auto simp: keeps_def history_arrived_def history_failed_def returns_def throws_def show_page_def Let_def
      split: sum.split response.split prod.split)

lemma keeps_history_shown [simp]: "keeps (cont_duties k) v (history_shown env n k v)"
  unfolding history_shown_def by (rule keeps_before) (simp_all add: keeps_via [OF _ keeps_returns])

lemma keeps_check_saved [simp]: "keeps {} v (check_saved env i key v)"
  by (auto simp: keeps_def check_saved_def Let_def split: option.split prod.split dest: flags_begin)

lemma keeps_check_all: "keeps {} v (check_all env is v)"
proof (induction "is" arbitrary: v)
  case (Cons i "is")
  then show ?case
    by (auto intro!: keeps_before keeps_via [OF _ keeps_check_saved])
qed (simp add: keeps_def)

lemma keeps_recover [simp]: "keeps {} v (recover_operations env v)"
  by (auto simp: recover_operations_def Let_def intro!: keeps_via [OF _ keeps_check_all] keeps_same
      split: option.split sum.split)

lemma keeps_select_shown [simp]: "keeps (cont_duties k) v (select_shown i changing pos k v)"
  using keeps_load_history [of "Select_loaded i changing pos k"] keeps_returns [of "Select_loaded i changing pos k"]
  by (simp add: select_shown_def)

lemma keeps_select_older [simp]: "keeps (cont_duties k) v (select_older i pos k v)"
  using keeps_load_history [of "Select_older i pos k"]
  by (auto simp: select_older_def intro: keeps_via [OF _ keeps_returns])

lemma keeps_select_loaded [simp]: "keeps (cont_duties k) v (select_loaded i changing pos k v)"
  by (simp add: select_loaded_def split: option.split)

lemma keeps_refresh_reselected [simp]: "keeps (cont_duties k) v (refresh_reselected s changed k v)"
  using keeps_load_history [of "Refresh_loaded k"]
  unfolding refresh_reselected_def Let_def
  by - (rule keeps_via [of "v\<lparr>v_views := retain_views (map conv_id (sn_conversations s)) (v_views v)\<rparr>"], simp_all)

lemma keeps_refresh_restored [simp]: "keeps (cont_duties k) v (refresh_restored env s changed k v)"
  using keeps_select [of "Refresh_reselected s changed k"] by (simp add: refresh_restored_def)

lemma keeps_weaker: "flags w \<subseteq> flags v \<Longrightarrow> keeps D w r \<Longrightarrow> keeps D v r"
  by (auto simp: keeps_def)

lemma keeps_snapshot_arrived [simp]: "keeps (cont_duties k) v (snapshot_arrived env n k a v)"
proof -
  have "keeps (cont_duties k) v (and_then (recover_operations env (take_snapshot env s v)) (\<lambda>v.
      if ready v \<and> \<not> v_restored v
      then select env (first_selection env s) (Refresh_restored s changed k) (v\<lparr>v_restored := True\<rparr>)
      else refresh_restored env s changed k v))" for s changed
  proof (rule keeps_weaker [OF flags_accept [of env s v] keeps_before])
    show "keeps (cont_duties k) w (if ready w \<and> \<not> v_restored w
        then select env (first_selection env s) (Refresh_restored s changed k) (w\<lparr>v_restored := True\<rparr>)
        else refresh_restored env s changed k w)" for w
      using keeps_select [of "Refresh_restored s changed k" "w\<lparr>v_restored := True\<rparr>"] keeps_refresh_restored [of k w]
      by (simp add: keeps_def)
  qed simp
  then show ?thesis by (simp add: snapshot_arrived_def Let_def split: sum.split response.split)
qed

section \<open>Replies and operations\<close>

lemma keeps_apply_instance [simp]: "keeps (cont_duties k) v (apply_instance response k v)"
proof -
  have "keeps (cont_duties k) w (and_then (refresh_in_background Nobody w) (returns k))" for w
    using keeps_refresh_in_background [of Nobody w] by (intro keeps_before) simp_all
  then show ?thesis
    unfolding apply_instance_def Let_def
    by (rule keeps_weaker [rotated])
      (use flags_clear [of "v\<lparr>v_snapshotGeneration := v_snapshotGeneration v + 1\<rparr>"] in \<open>auto split: response.split\<close>)
qed

lemma keeps_replies:
  assumes "flags w = flags v"
  shows "keeps (cont_duties k) v (apply_instance response k w)" "keeps (cont_duties k) v (refresh_in_background k w)"
    "keeps (cont_duties k) v (select env i (Applied_selected response k) w)"
  using keeps_select [of "Applied_selected response k"] by (simp_all add: keeps_via [OF assms])

lemma keeps_apply_response [simp]: "keeps (cont_duties k) v (apply_response env response origin result k v)"
  by (cases response) (auto simp: apply_response_def Let_def intro!: keeps_replies split: command_output.split prod.split)

lemma keeps_operation [simp]: "keeps (cont_duties k) v (operation env q k v)"
  unfolding operation_def Let_def
  by (auto simp: keeps_def duty_of_def split: option.split prod.split dest: flags_begin)

lemma keeps_operation_answered [simp]:
  "keeps (insert (duty_of q) (cont_duties k)) v (operation_answered env q origin result k a v)"
  using keeps_apply_response [of "Operation_applied q result k"] by (auto simp: operation_answered_def split: sum.split)

lemma keeps_operation_applied [simp]:
  "keeps (insert (duty_of q) (cont_duties k)) v (operation_applied env q result k r v)"
proof (cases r)
  case (Inr b)
  then show ?thesis by (auto simp: operation_applied_def returns_def keeps_def split: request.split)
qed (simp add: operation_applied_def)

lemma keeps_over [simp]:
  "keeps {Checking i} v (check_over i v, [])" "keeps {Joining} v (join_over v, [])" "keeps {Submitting i} v (invitation_over i v, [])"
  by (simp_all add: keeps_def)

lemma keeps_check_answered [simp]: "keeps {Checking i} v (check_answered env i key c a v)"
  by (auto simp: check_answered_def intro!: keeps_via [OF _ keeps_apply_response [of "Check_applied i key", simplified]] split: sum.split)

lemma keeps_join_channel [simp]: "keeps {} v (join_channel env v)"
proof -
  have "flags (v\<lparr>v_prompt := p\<rparr>) \<subseteq> insert Joining (flags v)" for p by (auto simp: flags_def)
  then have "flags w \<subseteq> insert Joining (flags v)" if "flags w = flags (v\<lparr>v_prompt := p\<rparr>)" for p w
    using that by simp
  note begun = this [OF flags_begin]
  show ?thesis
  proof (cases "Option.bind (pr_request (v_prompt v)) submission")
    case None
    then show ?thesis
      unfolding join_channel_def Let_def
      by (auto simp: keeps_def submission_def split: option.split prod.split dest!: begun)
  next
    case (Some x)
    then obtain q where q: "pr_request (v_prompt v) = Some q" "submission q = Some x" by (auto simp: bind_eq_Some_conv)
    have submit: "submission (Submit i c t) = Some (i, c, t)" for i c t by (simp add: submission_def)
    show ?thesis
      unfolding join_channel_def Let_def q(1)
      by (auto simp: keeps_def q(2) submit split: prod.split dest!: begun)
  qed
qed

lemma keeps_join_answered [simp]: "keeps {Joining} v (join_answered env q origin key a v)"
  by (auto simp: join_answered_def intro!: keeps_via [OF _ keeps_apply_response [of "Join_applied q key", simplified]] split: sum.split)

lemma keeps_perform_join [simp]: "keeps {} v (perform_join env q v)"
  unfolding perform_join_def Let_def by (auto simp: keeps_def split: prod.split dest: flags_begin)

lemma keeps_invitation_answered [simp]: "keeps {Submitting i} v (invitation_answered env i key origin inst a v)"
  by (auto simp: keeps_def invitation_answered_def invitation_failed_def refresh_in_background_def refresh_view_def Let_def
      split: sum.split response.split)

lemma keeps_invitation_refreshed [simp]: "keeps {Submitting i} v (invitation_refreshed env i key inst response v)"
  using keeps_apply_response [of "Invitation_applied i key inst response"] by (simp add: invitation_refreshed_def)

lemma keeps_reveal_loop [simp]: "keeps {Jumping} v (reveal_loop m i n cursors v)"
  unfolding reveal_loop_def Let_def
  by (intro keeps_cases keeps_load_history [of "Reveal_older m i n cs" for cs, simplified]) (auto simp add: keeps_def)

lemma keeps_reveal_message [simp]: "keeps {} v (reveal_message m v)"
  using keeps_reveal_loop [of "v\<lparr>v_jumping := True, v_search := (v_search v)\<lparr>se_error := []\<rparr>, v_atBottom := False\<rparr>" m
      "v_selected v" "se_generation (v_search v)" "[]"]
  by (auto simp: reveal_message_def keeps_def)

lemma keeps_send_text [simp]: "keeps {} v (send_text env t v)"
  unfolding send_text_def Let_def
  by (intro keeps_cases keeps_same keeps_via [OF _ keeps_run_local] keeps_via [OF _ keeps_operation [of "Send_done t q" for q, simplified]])
    simp_all

lemma keeps_edit_failed [simp]: "keeps {} v (edit_failed env q v)"
  unfolding edit_failed_def
  by (intro keeps_cases keeps_select [of "Edit_selected q", simplified] keeps_same) simp_all

lemma keeps_choose_channel [simp]: "keeps {} v (choose_channel env e v)"
  unfolding choose_channel_def Let_def
  by (intro keeps_cases keeps_via [OF _ keeps_select [of Nobody, simplified]] keeps_same) simp_all


section \<open>Every step\<close>

lemma keeps_answered: "keeps (waiter_duties w) v (answered env r w v)"
  by (cases w) simp_all

lemma keeps_continued: "keeps (cont_duties k) v (continued env r k v)"
proof (cases k)
  case (Find_shown t)
  then show ?thesis by (simp add: keeps_def [of _ _ "(_, [])"])
next
  case (Reveal_shown)
  then show ?thesis by (simp add: keeps_def)
qed (auto intro: keeps_same split: sum.split)

lemma keeps_nobody:
  "keeps {} v (refresh_in_background Nobody v)" "keeps {} v (select env i Nobody v)" "keeps {} v (load_history older bg Nobody v)"
  "flags w = flags v \<Longrightarrow> keeps {} v (operation env q Nobody w)"
  using keeps_refresh_in_background [of Nobody v] keeps_select [of Nobody v] keeps_load_history [of Nobody v]
    keeps_operation [of Nobody w env q] by (simp_all add: keeps_def)

lemma keeps_happened: "keeps {} v (happened env e v)"
proof (cases e)
  case (Unmounted)
  then show ?thesis by (simp add: unmounted_def keeps_same)
qed (auto simp: unlocked_def set_prompt_def show_result_def Let_def dest: flags_begin
    intro!: keeps_same keeps_via [OF _ keeps_mark_read] keeps_nobody split: option.split prod.split)

lemma chat_flags: "chat logs v ts \<Longrightarrow> flags v \<subseteq> duties ts"
proof (induction rule: chat.induct)
  case (opened logs)
  then show ?case by (simp add: flags_def new_view_def no_prompt_def)
next
  case (event logs v ts env e v' new)
  then show ?case using keeps_happened [of v env e] by (auto simp: keeps_def)
next
  case (arrived logs v ts r w us env v' new)
  then show ?case using keeps_answered [of w v env r] by (auto simp: keeps_def)
next
  case (resumed logs v ts r k us env v' new)
  then show ?case using keeps_continued [of k v env r] by (auto simp: keeps_def)
qed auto

text \<open>C10: Nothing stays busy for good.  However events, answers and the continuations of calls follow each
  other, over locks and changes of conversation too, while a lifecycle operation, a submission, the check of a
  saved operation, a join from the form or a jump to a search hit shows as going on, a task that ends it has been
  asked for and not yet run; so a view with nothing left to do shows nothing as going on.\<close>

theorem busy_view_has_task:
  assumes "chat logs v ts"
  shows "flags v \<subseteq> duties ts
    \<and> (ts = [] \<longrightarrow> \<not> v_busy v \<and> v_pending v = [] \<and> v_checking v = {} \<and> \<not> pr_busy (v_prompt v) \<and> \<not> v_jumping v)"
  using chat_flags [OF assms] by (auto simp: flags_def split: if_splits)

text \<open>The view of the other run while it waits to be locked.\<close>

lemma waiting_chat_run:
  "\<exists>v ts. play calm small_log (opening_moves @ [User (Operation_wanted Lock)]) (new_view, []) = Some (v, ts) \<and> v_busy v"
  by (simp add: opening_moves_def run_defs run_simps operation_def submission_def)

theorem busy_view_has_task_witness:
  "\<exists>(v :: chat_view) ts. v_busy v \<and> Lifecycle \<in> duties ts"
proof -
  obtain v ts where run: "play calm small_log (opening_moves @ [User (Operation_wanted Lock)]) (new_view, []) = Some (v, ts)"
    and v: "v_busy v"
    using waiting_chat_run by blast
  have "Lifecycle \<in> flags v" using v by (simp add: flags_def)
  then show ?thesis using busy_view_has_task [OF small_chat [OF run]] v by blast
qed

end
