(* ===== verification/Composer.thy ===== *)
theory Composer
  imports Mentions Rpc_Transport View_State
begin

text \<open>
  The keyboard of the composer in \<open>ui/src/Workspace.svelte\<close>: suggestions of names, completion of commands and
  nicknames, and the input history.  The text is in code units.  The caret belongs to the text field: every
  handler that reads it gets it as an argument, and where one sets it, the position is part of the output.
  A completion of a command waits for the service; its reply is a step of its own.
\<close>

section \<open>The composer\<close>

record open_mention =
  om_text :: units
  om_conversation :: "string option"
  om_context :: mention_context

record completion_range =
  cr_start :: nat
  cr_end :: nat
  cr_prefix :: units
  cr_source :: units
  cr_conversation :: "string option"

type_synonym offered = "units \<times> string"

record composer =
  co_locked :: bool
  co_dialog :: bool
  co_selected :: "string option"
  co_draft :: units
  co_mention :: "open_mention option"
  co_mentionIndex :: nat
  co_completions :: "offered list"
  co_completionIndex :: nat
  co_range :: "completion_range option"
  co_position :: "nat option"
  co_saved :: units

definition new_composer :: composer where
  "new_composer = \<lparr>co_locked = True, co_dialog = False, co_selected = None, co_draft = [], co_mention = None, co_mentionIndex = 0,
     co_completions = [], co_completionIndex = 0, co_range = None, co_position = None, co_saved = []\<rparr>"

text \<open>What the selected conversation offers: the names of its members, those of the others, and what was
  sent there before; \<open>toLocaleLowerCase\<close>; and the selection of the text field.\<close>

record room =
  ro_names :: "units list"
  ro_others :: "units list"
  ro_history :: "units list"
  ro_lower :: "units \<Rightarrow> units"
  ro_start :: nat
  ro_end :: nat

datatype effect = Send | Set_caret nat | Ask_completion units "string option" | Cancel_prompt | Notice thrown

text \<open>A completion that waits for the service: the draft, its head and the end of the word, and the conversation.\<close>

record asked =
  as_text :: units
  as_head :: units
  as_end :: nat
  as_conversation :: "string option"

type_synonym typed = "composer \<times> effect list \<times> asked list"

definition only :: "composer \<Rightarrow> typed" where
  "only s = (s, [], [])"

section \<open>Names\<close>

text \<open>\<open>mentions\<close>: what is open for the draft and the conversation as they are now.\<close>

definition open_names :: "composer \<Rightarrow> units list" where
  "open_names s =
     (case co_mention s of
        Some m \<Rightarrow> if \<not> co_locked s \<and> om_text m = co_draft s \<and> om_conversation m = co_selected s then mention_items (om_context m) else []
      | None \<Rightarrow> [])"

definition updateMentions :: "room \<Rightarrow> composer \<Rightarrow> composer" where
  "updateMentions r s =
     s\<lparr>co_completions := [], co_position := None, co_mentionIndex := 0,
       co_mention := (if co_locked s \<or> ro_start r \<noteq> ro_end r then None
         else map_option (\<lambda>m. \<lparr>om_text = co_draft s, om_conversation = co_selected s, om_context = m\<rparr>)
           (mentionSuggestions (ro_lower r) (co_draft s) (ro_start r) (ro_names r)))\<rparr>"

definition chooseMention :: "units \<Rightarrow> composer \<Rightarrow> typed" where
  "chooseMention name s =
     (case co_mention s of
        Some m \<Rightarrow>
          if name \<in> set (open_names s) then
            (case insertMention (co_draft s) (mention_start (om_context m)) (mention_end (om_context m)) name of (t, caret) \<Rightarrow>
               (s\<lparr>co_draft := t, co_mention := None\<rparr>, [Set_caret caret], []))
          else only s
      | None \<Rightarrow> only s)"

section \<open>Completion\<close>

definition chooseCompletion :: "nat \<Rightarrow> composer \<Rightarrow> typed" where
  "chooseCompletion i s =
     (case co_range s of
        Some q \<Rightarrow>
          if i < length (co_completions s) \<and> co_draft s = cr_source q \<and> co_selected s = cr_conversation q then
            let suffix = drop (cr_end q) (co_draft s);
                insertion = fst (co_completions s ! i) @ (if suffix \<noteq> [] \<and> white (hd suffix) then [] else [32])
            in (s\<lparr>co_draft := take (cr_start q) (co_draft s) @ insertion @ suffix, co_completions := [], co_range := None\<rparr>,
                [Set_caret (cr_start q + length insertion)], [])
          else only (s\<lparr>co_completions := []\<rparr>)
      | None \<Rightarrow> only (s\<lparr>co_completions := []\<rparr>))"

definition choose_single :: "composer \<Rightarrow> typed" where
  "choose_single s = (if length (co_completions s) = 1 then chooseCompletion 0 s else only s)"

definition word_before :: "units \<Rightarrow> units" where
  "word_before head = rev (takeWhile (\<lambda>u. \<not> white u) (rev head))"

definition word_after :: "units \<Rightarrow> units" where
  "word_after t = takeWhile (\<lambda>u. \<not> white u) t"

definition slash_unit :: "16 word" where "slash_unit = 0x2F"

definition complete :: "room \<Rightarrow> composer \<Rightarrow> typed" where
  "complete r s =
     (let caret = ro_start r; t = co_draft s; head = take caret t; token = word_before head;
          start = caret - length token; stop = caret + length (word_after (drop caret t));
          q = \<lparr>cr_start = start, cr_end = stop, cr_prefix = head, cr_source = t, cr_conversation = co_selected s\<rparr>
      in if co_locked s \<or> ro_start r \<noteq> ro_end r \<or> token = [] then only s
         else if \<not> prefix [slash_unit] t then
           choose_single (s\<lparr>co_completionIndex := 0, co_range := Some q,
             co_completions := map (\<lambda>n. (n @ (if start = 0 then ascii '':'' else []), ''Nickname''))
               (take 20 (filter (\<lambda>n. prefix (ro_lower r token) (ro_lower r n)) (ro_others r)))\<rparr>)
         else (s\<lparr>co_completionIndex := 0, co_range := Some q\<rparr>, [Ask_completion head (co_selected s)],
               [\<lparr>as_text = t, as_head = head, as_end = stop, as_conversation = co_selected s\<rparr>]))"

text \<open>... and what it does with the reply.\<close>

definition local_completions :: "units \<Rightarrow> bool \<Rightarrow> offered list" where
  "local_completions head hasConversation =
     map (\<lambda>c. (units_of (cmd_name c), cmd_description c))
       (filter (\<lambda>c. cmd_available c \<and> prefix head (units_of (cmd_name c))) (viewCommands hasConversation))"

definition completion_arrived :: "asked \<Rightarrow> response outcome \<Rightarrow> composer \<Rightarrow> typed" where
  "completion_arrived a reply s =
     (case reply of
        Inl e \<Rightarrow> (s, [Notice e], [])
      | Inr (R_completed items) \<Rightarrow>
          if co_draft s = as_text a \<and> co_selected s = as_conversation a then
            let own = local_completions (as_head a) (case co_selected s of Some i \<Rightarrow> i \<noteq> [] | None \<Rightarrow> False);
                others = map (\<lambda>c. (units_of (compl_text c), compl_description c)) items
            in choose_single (s\<lparr>co_range := Some \<lparr>cr_start = 0, cr_end = as_end a, cr_prefix = as_head a, cr_source = as_text a,
                   cr_conversation = as_conversation a\<rparr>,
                 co_completions := filter (\<lambda>c. fst c \<notin> fst ` set own) others @ own\<rparr>)
          else only s
      | Inr _ \<Rightarrow> only s)"

section \<open>Keys\<close>

record key =
  k_name :: string
  k_shift :: bool
  k_ctrl :: bool
  k_alt :: bool
  k_meta :: bool
  k_composing :: bool

definition plain_arrow :: "key \<Rightarrow> bool" where
  "plain_arrow k \<longleftrightarrow> k_name k \<in> {''ArrowUp'', ''ArrowDown''} \<and> \<not> k_shift k \<and> \<not> k_ctrl k \<and> \<not> k_alt k \<and> \<not> k_meta k"

definition list_key :: "key \<Rightarrow> bool" where
  "list_key k \<longleftrightarrow> k_name k \<in> {''ArrowDown'', ''ArrowUp'', ''Escape'', ''Enter'', ''Tab''}"

text \<open>The next index of a list of \<open>n\<close> entries.\<close>

definition turned :: "key \<Rightarrow> nat \<Rightarrow> nat \<Rightarrow> nat" where
  "turned k n i = (i + (if k_name k = ''ArrowUp'' \<or> k_shift k then n - 1 else 1)) mod n"

definition key_in_names :: "key \<Rightarrow> composer \<Rightarrow> typed" where
  "key_in_names k s =
     (let names = open_names s in
      if k_name k = ''Escape'' then only (s\<lparr>co_mention := None\<rparr>)
      else if k_name k = ''ArrowDown'' \<or> k_name k = ''ArrowUp'' \<or> (k_name k = ''Tab'' \<and> length names > 1)
      then only (s\<lparr>co_mentionIndex := turned k (length names) (co_mentionIndex s)\<rparr>)
      else if co_mentionIndex s < length names then chooseMention (names ! co_mentionIndex s) s
      else only s)"

definition key_in_completions :: "key \<Rightarrow> composer \<Rightarrow> typed" where
  "key_in_completions k s =
     (if k_name k = ''Escape'' then only (s\<lparr>co_completions := [], co_range := None\<rparr>)
      else if k_name k = ''Enter'' then chooseCompletion (co_completionIndex s) s
      else only (s\<lparr>co_completionIndex := turned k (length (co_completions s)) (co_completionIndex s)\<rparr>))"

text \<open>The input history: position \<open>n\<close> is behind the last entry, where the draft is that was set aside.\<close>

definition walks :: "key \<Rightarrow> room \<Rightarrow> composer \<Rightarrow> bool" where
  "walks k r s \<longleftrightarrow> plain_arrow k \<and> 10 \<notin> set (co_draft s) \<and> ro_start r = ro_end r
     \<and> (co_position s \<noteq> None \<or> co_draft s = []
        \<or> (if k_name k = ''ArrowUp'' then ro_start r = 0 else ro_start r = length (co_draft s)))"

definition walk_history :: "key \<Rightarrow> room \<Rightarrow> composer \<Rightarrow> composer" where
  "walk_history k r s =
     (let n = length (ro_history r) in
      if n = 0 then s
      else let s = (if co_position s = None then s\<lparr>co_position := Some n, co_saved := co_draft s\<rparr> else s);
               p = the (co_position s);
               p' = min n (if k_name k = ''ArrowUp'' then p - 1 else p + 1)
        in s\<lparr>co_position := Some p', co_draft := (if p' < n then ro_history r ! p' else co_saved s)\<rparr>)"

definition keydown :: "key \<Rightarrow> room \<Rightarrow> composer \<Rightarrow> typed" where
  "keydown k r s =
     (if k_composing k then only s
      else if co_dialog s \<and> k_name k \<notin> {''Enter'', ''Escape''} then only s
      else if open_names s \<noteq> [] \<and> list_key k \<and> \<not> (k_name k = ''Enter'' \<and> k_shift k) then key_in_names k s
      else if co_completions s \<noteq> [] \<and> list_key k then key_in_completions k s
      else if k_name k = ''Enter'' \<and> \<not> k_shift k then (s, [Send], [])
      else if k_name k = ''Tab'' \<and> \<not> k_shift k \<and> \<not> k_ctrl k \<and> \<not> k_alt k \<and> \<not> k_meta k \<and> trim (co_draft s) \<noteq> [] then complete r s
      else if k_name k = ''Escape'' then (s\<lparr>co_completions := []\<rparr>, [Cancel_prompt], [])
      else if walks k r s then only (walk_history k r s)
      else only s)"

section \<open>The machine\<close>

text \<open>\<open>Left_for\<close> is the change of the conversation in \<open>select\<close> and \<open>Sent\<close> what \<open>send\<close> does once it submits or
  runs a local command; \<open>Draft_set\<close> is any other assignment to the draft, \<open>Locked\<close> the end of the profile's
  session and \<open>Unlocked\<close> its beginning.\<close>

datatype composer_event =
    Typed_text units
  | Clicked
  | Pressed key
  | Name_clicked units
  | Completion_clicked nat
  | Left_for "string option" units
  | Sent bool
  | Draft_set units
  | Dialog bool
  | Locked
  | Unlocked

fun composer_on :: "room \<Rightarrow> composer_event \<Rightarrow> composer \<Rightarrow> typed" where
  "composer_on r (Typed_text t) s = only (updateMentions r (s\<lparr>co_draft := t\<rparr>))"
| "composer_on r Clicked s = only (updateMentions r s)"
| "composer_on r (Pressed k) s = keydown k r s"
| "composer_on r (Name_clicked n) s = chooseMention n s"
| "composer_on r (Completion_clicked i) s = chooseCompletion i s"
| "composer_on r (Left_for i t) s = only (if i = co_selected s then s\<lparr>co_completions := []\<rparr>
     else s\<lparr>co_selected := i, co_draft := t, co_position := None, co_saved := [], co_completions := []\<rparr>)"
| "composer_on r (Sent clears) s = only (s\<lparr>co_draft := (if clears then [] else co_draft s), co_completions := [], co_position := None\<rparr>)"
| "composer_on r (Draft_set t) s = only (s\<lparr>co_draft := t\<rparr>)"
| "composer_on r (Dialog b) s = only (s\<lparr>co_dialog := b\<rparr>)"
| "composer_on r Locked s = only (s\<lparr>co_locked := True, co_dialog := False, co_draft := [], co_saved := [], co_completions := [], co_position := None\<rparr>)"
| "composer_on r Unlocked s = only (s\<lparr>co_locked := False\<rparr>)"

text \<open>The selection lies in the text.\<close>

definition selection_ok :: "room \<Rightarrow> composer_event \<Rightarrow> composer \<Rightarrow> bool" where
  "selection_ok r e s \<longleftrightarrow> ro_start r \<le> length (case e of Typed_text t \<Rightarrow> t | _ \<Rightarrow> co_draft s)"

inductive composing :: "composer \<Rightarrow> asked list \<Rightarrow> bool" where
  opened: "composing new_composer []"
| event: "composing s as \<Longrightarrow> selection_ok r e s \<Longrightarrow> composer_on r e s = (s', out, new) \<Longrightarrow> composing s' (as @ new)"
| replied: "composing s (as @ a # bs) \<Longrightarrow> completion_arrived a reply s = (s', out, new) \<Longrightarrow> composing s' (as @ bs @ new)"

section \<open>Ranges\<close>

text \<open>A range of the draft that ends with a word, and starts with it or with the draft.\<close>

definition bounded_word :: "units \<Rightarrow> nat \<Rightarrow> nat \<Rightarrow> bool" where
  "bounded_word t a b \<longleftrightarrow> a < b \<and> b \<le> length t \<and> (drop b t = [] \<or> white (hd (drop b t)))
     \<and> (a = 0 \<or> white (last (take a t)) \<and> list_all (\<lambda>u. \<not> white u) (take (b - a) (drop a t)))"

definition composer_ok :: "composer \<Rightarrow> asked list \<Rightarrow> bool" where
  "composer_ok s as \<longleftrightarrow> (\<forall>q. co_range s = Some q \<longrightarrow> bounded_word (cr_source q) (cr_start q) (cr_end q))
     \<and> (\<forall>a \<in> set as. bounded_word (as_text a) 0 (as_end a))"

lemma word_before_split: "\<exists>rest. head = rest @ word_before head \<and> (rest = [] \<or> white (last rest)) \<and> list_all (\<lambda>u. \<not> white u) (word_before head)"
proof -
  let ?P = "\<lambda>u. \<not> white u"
  have "head = rev (dropWhile ?P (rev head)) @ word_before head"
    unfolding word_before_def by (metis rev_append rev_rev_ident takeWhile_dropWhile_id)
  moreover have "white (last (rev (dropWhile ?P (rev head))))" if "dropWhile ?P (rev head) \<noteq> []"
    using hd_dropWhile [OF that] that by (simp add: last_rev)
  moreover have "list_all ?P (word_before head)"
    by (auto simp: word_before_def list_all_iff dest: set_takeWhileD)
  ultimately show ?thesis by (intro exI [of _ "rev (dropWhile ?P (rev head))"]) auto
qed

lemma word_after_split: "\<exists>rest. t = word_after t @ rest \<and> (rest = [] \<or> white (hd rest)) \<and> list_all (\<lambda>u. \<not> white u) (word_after t)"
  using hd_dropWhile [of "\<lambda>u. \<not> white u" t]
  by (intro exI [of _ "dropWhile (\<lambda>u. \<not> white u) t"]) (auto simp: word_after_def list_all_iff dest: set_takeWhileD)

lemma word_range:
  assumes "caret \<le> length t" "word_before (take caret t) \<noteq> []"
  shows "bounded_word t (caret - length (word_before (take caret t))) (caret + length (word_after (drop caret t)))"
    "bounded_word t 0 (caret + length (word_after (drop caret t)))"
proof -
  define w v where "w = word_before (take caret t)" and "v = word_after (drop caret t)"
  obtain rest where r: "take caret t = rest @ w" "rest = [] \<or> white (last rest)" "list_all (\<lambda>u. \<not> white u) w"
    using word_before_split [of "take caret t"] unfolding w_def by blast
  obtain more where m: "drop caret t = v @ more" "more = [] \<or> white (hd more)" "list_all (\<lambda>u. \<not> white u) v"
    using word_after_split [of "drop caret t"] unfolding v_def by blast
  have "length (take caret t) = length (rest @ w)" using r(1) by simp
  then have caret: "caret = length rest + length w" using assms(1) by simp
  have t: "t = rest @ w @ v @ more" using r(1) m(1) append_take_drop_id [of caret t] by (metis append_assoc)
  have "0 < length w" using assms(2) by (simp add: w_def)
  then have "bounded_word t (caret - length w) (caret + length v)" "bounded_word t 0 (caret + length v)"
    unfolding t bounded_word_def using r(2,3) m(2,3) caret by auto
  then show "bounded_word t (caret - length (word_before (take caret t))) (caret + length (word_after (drop caret t)))"
    "bounded_word t 0 (caret + length (word_after (drop caret t)))"
    by (simp_all add: w_def v_def)
qed

lemma choose_range: "co_range (fst (chooseCompletion i s)) = None \<or> co_range (fst (chooseCompletion i s)) = co_range s"
  by (simp add: chooseCompletion_def only_def Let_def split: option.split)

lemma choose_asks: "snd (snd (chooseCompletion i s)) = []"
  by (simp add: chooseCompletion_def only_def Let_def split: option.split)

lemma choose_ok: "composer_ok s as \<Longrightarrow> chooseCompletion i s = (s', out, new) \<Longrightarrow> composer_ok s' (as @ new)"
  using choose_range [of i s] choose_asks [of i s] by (auto simp: composer_ok_def)

lemma single_ok: "composer_ok s as \<Longrightarrow> choose_single s = (s', out, new) \<Longrightarrow> composer_ok s' (as @ new)"
  by (auto simp: choose_single_def only_def split: if_splits intro: choose_ok)

lemma composer_ok_same: "composer_ok s as \<Longrightarrow> co_range s' = co_range s \<or> co_range s' = None \<Longrightarrow> composer_ok s' as"
  by (auto simp: composer_ok_def)

lemma mention_ok: "composer_ok s as \<Longrightarrow> chooseMention n s = (s', out, new) \<Longrightarrow> composer_ok s' (as @ new)"
  by (auto simp: chooseMention_def only_def split: option.splits if_splits prod.splits intro: composer_ok_same)

lemma composer_complete_ok:
  assumes "composer_ok s as" "ro_start r \<le> length (co_draft s)" "complete r s = (s', out, new)"
  shows "composer_ok s' (as @ new)"
proof (cases "co_locked s \<or> ro_start r \<noteq> ro_end r \<or> word_before (take (ro_start r) (co_draft s)) = []")
  case False
  note range = word_range [OF assms(2)]
  let ?q = "\<lparr>cr_start = ro_start r - length (word_before (take (ro_start r) (co_draft s))),
    cr_end = ro_start r + length (word_after (drop (ro_start r) (co_draft s))),
    cr_prefix = take (ro_start r) (co_draft s), cr_source = co_draft s, cr_conversation = co_selected s\<rparr>"
  have ok: "composer_ok (s\<lparr>co_completionIndex := 0, co_range := Some ?q, co_completions := cs\<rparr>) as" for cs
    using assms(1) range False by (auto simp: composer_ok_def)
  have asked: "composer_ok (s\<lparr>co_completionIndex := 0, co_range := Some ?q\<rparr>)
      (as @ [\<lparr>as_text = co_draft s, as_head = h, as_end = cr_end ?q, as_conversation = c\<rparr>])" for h c
    using assms(1) range False by (auto simp: composer_ok_def)
  show ?thesis
    using assms(3) False asked unfolding complete_def Let_def
    by (auto split: if_splits intro: single_ok [OF ok])
qed (use assms in \<open>auto simp: complete_def only_def Let_def split: if_splits\<close>)

lemma walk_range: "co_range (walk_history k r s) = co_range s"
  by (simp add: walk_history_def Let_def)

lemma composer_invariant: "composing s as \<Longrightarrow> composer_ok s as"
proof (induction rule: composing.induct)
  case opened
  show ?case by (simp add: composer_ok_def new_composer_def)
next
  case (event s as r e s' out new)
  show ?case
  proof (cases e)
    case (Pressed k)
    then have "ro_start r \<le> length (co_draft s)" using event.hyps by (simp add: selection_ok_def)
    then show ?thesis using event Pressed
      by (auto simp: keydown_def key_in_names_def key_in_completions_def only_def walk_range Let_def split: if_splits
          intro: composer_ok_same composer_complete_ok choose_ok mention_ok)
  qed (use event in \<open>auto simp: only_def updateMentions_def intro: composer_ok_same choose_ok mention_ok split: if_splits\<close>)
next
  case (replied s as a bs reply s' out new)
  have as: "composer_ok s (as @ bs)" using replied.IH by (auto simp: composer_ok_def)
  have ok: "composer_ok (s\<lparr>co_range := Some \<lparr>cr_start = 0, cr_end = as_end a, cr_prefix = p, cr_source = as_text a,
      cr_conversation = c\<rparr>, co_completions := cs\<rparr>) (as @ bs)" for p c cs
    using replied.IH by (auto simp: composer_ok_def)
  show ?case using replied.hyps as single_ok [OF ok]
    by (auto simp: completion_arrived_def only_def Let_def split: sum.splits response.splits if_splits)
qed

section \<open>Walking the history\<close>

text \<open>Where the history stands and what is shown there.\<close>

definition at_entry :: "units list \<Rightarrow> units \<Rightarrow> nat \<Rightarrow> composer \<Rightarrow> bool" where
  "at_entry h draft p s \<longleftrightarrow> p \<le> length h \<and> co_position s = Some p \<and> co_saved s = draft
     \<and> co_draft s = (if p < length h then h ! p else draft)
     \<and> co_mention s = None \<and> co_completions s = [] \<and> \<not> co_dialog s"

definition arrow :: "bool \<Rightarrow> key" where
  "arrow up = \<lparr>k_name = (if up then ''ArrowUp'' else ''ArrowDown''), k_shift = False, k_ctrl = False, k_alt = False,
     k_meta = False, k_composing = False\<rparr>"

definition press :: "bool \<Rightarrow> room \<Rightarrow> composer \<Rightarrow> composer" where
  "press up r s = fst (keydown (arrow up) r s)"

definition presses :: "bool \<Rightarrow> room list \<Rightarrow> composer \<Rightarrow> composer" where
  "presses up rs s = fold (press up) rs s"

lemma press_arrow:
  assumes "co_mention s = None" "co_completions s = []" "\<not> co_dialog s"
  shows "press up r s = (if walks (arrow up) r s then walk_history (arrow up) r s else s)"
  using assms by (simp add: press_def keydown_def arrow_def open_names_def only_def)

definition single_line :: "units \<Rightarrow> bool" where
  "single_line t \<longleftrightarrow> 10 \<notin> set t"

lemma press_at:
  assumes "at_entry h draft p s" "ro_history r = h" "ro_start r = ro_end r" "h \<noteq> []" "single_line draft" "list_all single_line h"
  shows "at_entry h draft (if up then p - 1 else min (length h) (p + 1)) (press up r s)"
proof -
  have "single_line (co_draft s)" using assms by (auto simp: at_entry_def list_all_iff)
  then have "press up r s = walk_history (arrow up) r s"
    using assms by (subst press_arrow) (auto simp: at_entry_def walks_def plain_arrow_def arrow_def single_line_def)
  moreover have "p - 1 < length h" using assms(1,4) by (cases h) (auto simp: at_entry_def)
  ultimately show ?thesis using assms by (auto simp: at_entry_def walk_history_def arrow_def Let_def)
qed

lemma presses_at:
  assumes "at_entry h draft p s" "\<forall>r \<in> set rs. ro_history r = h \<and> ro_start r = ro_end r" "h \<noteq> []" "single_line draft" "list_all single_line h"
  shows "at_entry h draft (if up then p - length rs else min (length h) (p + length rs)) (presses up rs s)"
  using assms(1,2)
proof (induction rs arbitrary: p s)
  case (Cons r rs)
  have "at_entry h draft (if up then p - 1 else min (length h) (p + 1)) (press up r s)"
    by (rule press_at) (use Cons.prems assms in auto)
  from Cons.IH [OF this] Cons.prems(2) show ?case
    by (cases up) (simp_all add: presses_def min_def split: if_splits)
qed (auto simp: presses_def at_entry_def)

section \<open>Properties\<close>


text \<open>A run: a word is typed and completed, with two names to choose from.\<close>

definition typing_room :: room where
  "typing_room = \<lparr>ro_names = [], ro_others = [ascii ''ada'', ascii ''adam'', ascii ''bob''], ro_history = [],
     ro_lower = (\<lambda>us. us), ro_start = 5, ro_end = 5\<rparr>"

definition tab_key :: key where
  "tab_key = \<lparr>k_name = ''Tab'', k_shift = False, k_ctrl = False, k_alt = False, k_meta = False, k_composing = False\<rparr>"

definition typed_composer :: composer where
  "typed_composer = fst (composer_on typing_room (Typed_text (ascii ''hi ad'')) (new_composer\<lparr>co_locked := False\<rparr>))"

definition offering_composer :: composer where
  "offering_composer = fst (complete typing_room typed_composer)"

lemma offered_once:
  "complete typing_room typed_composer = (new_composer\<lparr>co_locked := False, co_draft := ascii ''hi ad'', co_completionIndex := 0,
     co_completions := [(ascii ''ada'', ''Nickname''), (ascii ''adam'', ''Nickname'')],
     co_range := Some \<lparr>cr_start = 3, cr_end = 5, cr_prefix = ascii ''hi ad'', cr_source = ascii ''hi ad'', cr_conversation = None\<rparr>\<rparr>, [], [])"
  by code_simp

lemma offering_facts:
  "co_draft offering_composer = ascii ''hi ad''" "length (co_completions offering_composer) = 2"
  "fst (co_completions offering_composer ! 1) = ascii ''adam''" "co_range offering_composer \<noteq> None"
  "map_option cr_source (co_range offering_composer) = Some (ascii ''hi ad'')"
  "map_option cr_conversation (co_range offering_composer) = Some None" "co_selected offering_composer = None"
  "snd (complete typing_room typed_composer) = ([], [])"
  by (simp_all add: offering_composer_def offered_once new_composer_def)

lemma offering_run: "composing offering_composer []"
proof -
  have "composing (new_composer\<lparr>co_locked := False\<rparr>) []"
    using composing.event [OF composing.opened, of "typing_room\<lparr>ro_start := 0\<rparr>" Unlocked]
    by (simp add: selection_ok_def only_def typing_room_def)
  from composing.event [OF this, of typing_room "Typed_text (ascii ''hi ad'')"]
  have typed: "composing typed_composer []"
    by (simp add: selection_ok_def typed_composer_def only_def typing_room_def ascii_def)
  have "composer_on typing_room (Pressed tab_key) typed_composer = complete typing_room typed_composer"
    by code_simp
  then have "composer_on typing_room (Pressed tab_key) typed_composer = (offering_composer, [], [])"
    using offering_facts(8) by (simp add: offering_composer_def prod_eq_iff)
  from composing.event [OF typed _ this] show ?thesis
    by (simp add: selection_ok_def typed_composer_def only_def updateMentions_def typing_room_def ascii_def)
qed


text \<open>C40: Browsing the input history loses nothing.  From a draft and a history of one line each, the arrow up
  at the beginning of the draft and again wherever the caret then is shows the earlier entries one by one and
  stays at the earliest; at least as many presses of the arrow down bring back the draft as it was.\<close>

theorem history_walk_returns:
  assumes "co_mention s = None" "co_completions s = []" "\<not> co_dialog s" "co_position s = None"
    and "ups \<noteq> []" "length ups \<le> length downs" "ro_start (hd ups) = 0"
    and "\<forall>r \<in> set (ups @ downs). ro_history r = h \<and> ro_start r = ro_end r" "h \<noteq> []"
    and "single_line (co_draft s)" "list_all single_line h"
  shows "co_draft (presses True ups s) = h ! (length h - length ups)
    \<and> co_draft (presses False downs (presses True ups s)) = co_draft s"
proof -
  obtain r rs where ups: "ups = r # rs" using assms(5) by (cases ups) auto
  have first: "walks (arrow True) r s" using assms ups by (auto simp: walks_def plain_arrow_def arrow_def single_line_def)
  have "press True r s = walk_history (arrow True) r s"
    using press_arrow [OF assms(1-3)] first by simp
  then have "at_entry h (co_draft s) (length h - 1) (press True r s)"
    using assms ups by (auto simp: at_entry_def walk_history_def arrow_def Let_def)
  then have "at_entry h (co_draft s) (length h - length ups) (presses True ups s)"
    using presses_at [of h "co_draft s" "length h - 1" "press True r s" rs True] assms ups by (simp add: presses_def)
  moreover from presses_at [OF this, of downs False]
  have "at_entry h (co_draft s) (length h) (presses False downs (presses True ups s))"
    using assms by (simp add: min_absorb1)
  moreover have "length h - length ups < length h" using assms(5,9) by (simp add: ups)
  ultimately show ?thesis by (simp add: at_entry_def)
qed

text \<open>Two entries, walked past the earlier one and back.\<close>

definition walking_room :: room where
  "walking_room = typing_room\<lparr>ro_history := [ascii ''one'', ascii ''two''], ro_start := 0, ro_end := 0\<rparr>"

definition walking_composer :: composer where
  "walking_composer = new_composer\<lparr>co_locked := False, co_draft := ascii ''new''\<rparr>"

theorem history_walk_returns_witness:
  "co_draft (presses True [walking_room, walking_room] walking_composer) = ascii ''one''
    \<and> co_draft (presses False [walking_room, walking_room] (presses True [walking_room, walking_room] walking_composer)) = ascii ''new''"
  using history_walk_returns [of walking_composer "[walking_room, walking_room]" "[walking_room, walking_room]" "[ascii ''one'', ascii ''two'']"]
  by (simp add: walking_room_def walking_composer_def new_composer_def typing_room_def single_line_def ascii_def)

text \<open>An entry of several lines holds the history: neither arrow leaves it.\<close>

lemma entry_of_lines_stays:
  "co_mention s = None \<Longrightarrow> co_completions s = [] \<Longrightarrow> \<not> co_dialog s \<Longrightarrow> \<not> single_line (co_draft s) \<Longrightarrow> press up r s = s"
  by (simp add: press_arrow walks_def single_line_def)

end
