(* ===== verification/Network_Setup.thy ===== *)
theory Network_Setup
  imports Rpc_Transport Invitation_Card
begin

text \<open>
  \<open>ui/src/NetworkSetup.svelte\<close>: connecting to a network by an invitation that is pasted, opened as a link or
  read from a file.  The form is a machine: every handler is a function from the form to the form, the
  calls it awaits and what it does to its surroundings; answers arrive in any order.  The clock of the
  status line is left out.
\<close>

section \<open>The form\<close>

record setup_form =
  su_running :: bool
  su_invitation :: units
  su_error :: string
  su_busy :: bool
  su_preview :: "invitation_preview option"
  su_nickname :: units
  su_pendingCode :: units
  su_operationId :: string
  su_seenInitial :: units
  su_fileRevision :: nat
  su_consumed :: "nat option"

definition new_setup :: setup_form where
  "new_setup = \<lparr>su_running = True, su_invitation = [], su_error = [], su_busy = False, su_preview = None, su_nickname = [],
     su_pendingCode = [], su_operationId = [], su_seenInitial = [], su_fileRevision = 0, su_consumed = None\<rparr>"

text \<open>The properties of the form: whether invitations name a channel as well, whether its owner performs
  the join, and the messages of the errors of \<open>readInvitationFile\<close>.\<close>

record setup_props =
  sp_combined :: bool
  sp_performs :: bool
  sp_describe :: "card_error \<Rightarrow> string"

text \<open>What is awaited.  A call made while a file is loaded remembers the rest of \<open>loadFile\<close>.\<close>

type_synonym loading = "(nat \<times> nat option) option"

datatype setup_task =
    Reading picked_file nat "nat option"
  | Inspecting units loading
  | Importing_code units loading
  | Accepting request

datatype setup_output =
    Asked request
  | Performed request
  | Imported network_status
  | Joined_with response
  | Consumed nat

type_synonym handled = "setup_form \<times> setup_task list \<times> setup_output list"

definition error_text :: "string \<Rightarrow> string" where
  "error_text m = err_message (chatError (Thrown_object None (Some m) True []))"

definition failed_with :: "string \<Rightarrow> setup_form \<Rightarrow> setup_form" where
  "failed_with m s = (if su_running s then s\<lparr>su_error := m\<rparr> else s)"

text \<open>The \<open>finally\<close> of \<open>loadFile\<close>.\<close>

definition file_over :: "loading \<Rightarrow> setup_form \<Rightarrow> setup_output list" where
  "file_over k s =
     (case k of
        Some (revision, Some selection) \<Rightarrow> if su_running s \<and> revision = su_fileRevision s then [Consumed selection] else []
      | _ \<Rightarrow> [])"

definition too_long :: "units \<Rightarrow> bool" where
  "too_long t \<longleftrightarrow> length (utf8_encode t) > MAX_NETWORK_INVITATION_BYTES"

text \<open>\<open>connect\<close> up to its \<open>await\<close>.\<close>

definition refuse :: "string \<Rightarrow> loading \<Rightarrow> setup_form \<Rightarrow> handled" where
  "refuse m k s = (s\<lparr>su_error := m\<rparr>, [], file_over k s)"

definition connect :: "setup_props \<Rightarrow> loading \<Rightarrow> setup_form \<Rightarrow> handled" where
  "connect p k s =
     (let t = trim (su_invitation s) in
      if su_busy s then (s, [], file_over k s)
      else if sp_combined p then
        if t = [] \<or> too_long t then refuse ''Use one complete invitation within the size limit.'' k s
        else (s\<lparr>su_busy := True, su_error := []\<rparr>, [Inspecting t k], [Asked (Networks (Inspect (text_of t)))])
      else if \<not> prefix (ascii ''GCNI1-'') t
      then refuse ''Use a network invitation beginning with GCNI1-. Conversation invitations are used after connecting.'' k s
      else if too_long t then refuse ''This invitation is too large.'' k s
      else (s\<lparr>su_busy := True, su_error := [], su_invitation := [], su_fileRevision := su_fileRevision s + 1\<rparr>,
            [Importing_code t k], [Asked (Import_network_invitation (text_of t))]))"

text \<open>... and from there on, for an invitation that is looked at first and for one that is imported.\<close>

definition not_busy :: "setup_form \<Rightarrow> setup_form" where
  "not_busy s = s\<lparr>su_busy := False\<rparr>"

definition inspected :: "string \<Rightarrow> units \<Rightarrow> loading \<Rightarrow> response outcome \<Rightarrow> setup_form \<Rightarrow> handled" where
  "inspected uuid t k reply s =
     (let s = not_busy (case reply of
          Inl e \<Rightarrow> failed_with (err_message (chatError e)) s
        | Inr (R_networks (N_preview v)) \<Rightarrow>
            if \<not> su_running s then s
            else s\<lparr>su_preview := Some v, su_pendingCode := t, su_invitation := [], su_operationId := uuid\<rparr>
        | Inr _ \<Rightarrow> failed_with (error_text ''Invalid invitation preview'') s)
      in (s, [], file_over k s))"

definition import_answered :: "loading \<Rightarrow> response outcome \<Rightarrow> setup_form \<Rightarrow> handled" where
  "import_answered k reply s =
     (let (s, out) = (case reply of
          Inl e \<Rightarrow> (failed_with (err_message (chatError e)) s, [])
        | Inr (R_network_status status) \<Rightarrow> (s, if su_running s then [Imported status] else [])
        | Inr _ \<Rightarrow> (failed_with (error_text ''Unexpected network response. Try again.'') s, []));
          s = (if su_running s then not_busy s else s)
      in (s, [], out @ file_over k s))"

text \<open>\<open>loadFile\<close>.  Reading may fail on its own; otherwise it is \<open>readInvitationFile\<close>.\<close>

datatype file_answer = Readable | Unreadable "string option"

definition load_file :: "picked_file \<Rightarrow> nat option \<Rightarrow> setup_form \<Rightarrow> handled" where
  "load_file f selection s =
     (let revision = su_fileRevision s + 1 in
      (s\<lparr>su_fileRevision := revision\<rparr>, [Reading f revision selection], []))"

definition read_result :: "setup_props \<Rightarrow> picked_file \<Rightarrow> file_answer \<Rightarrow> (string, units) result" where
  "read_result p f a =
     (case a of
        Unreadable (Some m) \<Rightarrow> Inl m
      | Unreadable None \<Rightarrow> Inl ''Could not read the invitation file.''
      | Readable \<Rightarrow> (case readInvitationFile f of Inl e \<Rightarrow> Inl (sp_describe p e) | Inr t \<Rightarrow> Inr t))"

definition picture_file :: "picked_file \<Rightarrow> bool" where
  "picture_file f \<longleftrightarrow> file_type f = ascii ''image/png'' \<or> has_extension ''.png'' (file_name f)"

definition file_loaded :: "setup_props \<Rightarrow> picked_file \<Rightarrow> nat \<Rightarrow> nat option \<Rightarrow> file_answer \<Rightarrow> setup_form \<Rightarrow> handled" where
  "file_loaded p f revision selection a s =
     (let k = Some (revision, selection) in
      case read_result p f a of
        Inl m \<Rightarrow> (if su_running s \<and> revision = su_fileRevision s then s\<lparr>su_error := m\<rparr> else s, [], file_over k s)
      | Inr t \<Rightarrow>
          if su_running s \<and> \<not> su_busy s \<and> revision = su_fileRevision s then
            (let s = s\<lparr>su_invitation := trim t, su_error := []\<rparr> in
             if sp_combined p \<and> picture_file f then connect p k s else (s, [], file_over k s))
          else (s, [], file_over k s))"

text \<open>\<open>accept\<close>: the join of the invitation on display.\<close>

definition accept_preview :: "setup_props \<Rightarrow> setup_form \<Rightarrow> handled" where
  "accept_preview p s =
     (case su_preview s of
        None \<Rightarrow> (s, [], [])
      | Some v \<Rightarrow>
          if su_busy s then (s, [], [])
          else let q = Networks (Join (text_of (su_pendingCode s)) (text_of (su_nickname s)) (net_id (preview_network v)) (su_operationId s)) in
            (s\<lparr>su_busy := True, su_error := []\<rparr>, [Accepting q], [if sp_performs p then Performed q else Asked q]))"

definition accepted :: "setup_props \<Rightarrow> response outcome \<Rightarrow> setup_form \<Rightarrow> handled" where
  "accepted p reply s =
     (case reply of
        Inl e \<Rightarrow> (not_busy (failed_with (err_message (chatError e)) s), [], [])
      | Inr response \<Rightarrow>
          if \<not> su_running s then (not_busy s, [], [])
          else (not_busy (s\<lparr>su_pendingCode := [], su_nickname := [], su_preview := None\<rparr>), [],
                if sp_performs p then [] else [Joined_with response]))"

definition destroyed :: "setup_form \<Rightarrow> setup_form" where
  "destroyed s = s\<lparr>su_running := False, su_fileRevision := su_fileRevision s + 1, su_invitation := [], su_pendingCode := [],
     su_nickname := []\<rparr>"

definition initial_given :: "setup_props \<Rightarrow> units \<Rightarrow> setup_form \<Rightarrow> handled" where
  "initial_given p t s =
     (if t \<noteq> [] \<and> t \<noteq> su_seenInitial s \<and> \<not> su_busy s \<and> su_preview s = None then
        (let s = s\<lparr>su_seenInitial := t, su_invitation := t\<rparr> in if sp_combined p then connect p None s else (s, [], []))
      else (s, [], []))"

definition selection_given :: "(nat \<times> picked_file) option \<Rightarrow> setup_form \<Rightarrow> handled" where
  "selection_given chosen s =
     (case chosen of
        Some (i, f) \<Rightarrow> if su_consumed s \<noteq> Some i then load_file f (Some i) (s\<lparr>su_consumed := Some i\<rparr>) else (s, [], [])
      | None \<Rightarrow>
          if su_consumed s \<noteq> None then (s\<lparr>su_consumed := None, su_fileRevision := su_fileRevision s + 1\<rparr>, [], []) else (s, [], []))"

definition preview_cancelled :: "setup_form \<Rightarrow> setup_form" where
  "preview_cancelled s = s\<lparr>su_preview := None, su_pendingCode := [], su_error := []\<rparr>"

section \<open>The machine\<close>

text \<open>What reaches the form.  The markup shows the invitation and the file input without a preview, the
  nickname and the buttons of the preview with one, and disables them all while the form is busy.\<close>

datatype setup_event =
    Invitation_typed units
  | Nickname_typed units
  | Submitted
  | Accepted
  | Preview_cancelled
  | File_given picked_file
  | Initial_given units
  | Selection_given "(nat \<times> picked_file) option"

definition entering :: "setup_form \<Rightarrow> bool" where
  "entering s \<longleftrightarrow> \<not> su_busy s \<and> su_preview s = None"

fun setup_on :: "setup_props \<Rightarrow> setup_event \<Rightarrow> setup_form \<Rightarrow> handled" where
  "setup_on p (Invitation_typed t) s = (if entering s then s\<lparr>su_invitation := t\<rparr> else s, [], [])"
| "setup_on p (Nickname_typed t) s = (if \<not> su_busy s \<and> su_preview s \<noteq> None then s\<lparr>su_nickname := t\<rparr> else s, [], [])"
| "setup_on p Submitted s = (if entering s then connect p None s else (s, [], []))"
| "setup_on p Accepted s = accept_preview p s"
| "setup_on p Preview_cancelled s = (if \<not> su_busy s \<and> su_preview s \<noteq> None then preview_cancelled s else s, [], [])"
| "setup_on p (File_given f) s = (if entering s then load_file f None s else (s, [], []))"
| "setup_on p (Initial_given t) s = initial_given p t s"
| "setup_on p (Selection_given chosen) s = selection_given chosen s"

datatype setup_reply = File_reply file_answer | Service_reply "response outcome"

fun setup_answer :: "setup_props \<Rightarrow> string \<Rightarrow> setup_task \<Rightarrow> setup_reply \<Rightarrow> setup_form \<Rightarrow> handled option" where
  "setup_answer p uuid (Reading f revision selection) (File_reply a) s = Some (file_loaded p f revision selection a s)"
| "setup_answer p uuid (Inspecting t k) (Service_reply r) s = Some (inspected uuid t k r s)"
| "setup_answer p uuid (Importing_code t k) (Service_reply r) s = Some (import_answered k r s)"
| "setup_answer p uuid (Accepting q) (Service_reply r) s = Some (accepted p r s)"
| "setup_answer p uuid _ _ s = None"

text \<open>The trace of a run: what the form did, and what it was answered, with the identifier drawn then.\<close>

datatype setup_entry = Did setup_output | Got string setup_task setup_reply | Closed

definition drawn :: "setup_entry list \<Rightarrow> string set" where
  "drawn tr = {u. \<exists>t r. Got u t r \<in> set tr}"

text \<open>\<open>crypto.randomUUID\<close> draws no identifier twice.\<close>

inductive setup_run :: "setup_form \<Rightarrow> setup_task list \<Rightarrow> setup_entry list \<Rightarrow> bool" where
  opened: "setup_run new_setup [] []"
| event: "setup_run s ts tr \<Longrightarrow> su_running s \<Longrightarrow> setup_on p e s = (s', new, out) \<Longrightarrow> setup_run s' (ts @ new) (tr @ map Did out)"
| answer: "setup_run s (ts @ t # us) tr \<Longrightarrow> uuid \<notin> drawn tr \<Longrightarrow> setup_answer p uuid t r s = Some (s', new, out)
    \<Longrightarrow> setup_run s' (ts @ us @ new) (tr @ Got uuid t r # map Did out)"
| closed: "setup_run s ts tr \<Longrightarrow> su_running s \<Longrightarrow> setup_run (destroyed s) ts (tr @ [Closed])"

section \<open>What a step may do\<close>

lemmas setup_defs = connect_def refuse_def inspected_def import_answered_def load_file_def file_loaded_def accept_preview_def
  accepted_def initial_given_def selection_given_def preview_cancelled_def not_busy_def failed_with_def Let_def

fun awaits_service :: "setup_task \<Rightarrow> bool" where
  "awaits_service (Reading _ _ _) = False"
| "awaits_service _ = True"

definition waiting_calls :: "setup_task list \<Rightarrow> nat" where
  "waiting_calls ts = length (filter awaits_service ts)"

lemma waiting_calls_simps [simp]:
  "waiting_calls [] = 0" "waiting_calls (ts @ us) = waiting_calls ts + waiting_calls us"
  "waiting_calls (t # ts) = (if awaits_service t then 1 else 0) + waiting_calls ts"
  by (simp_all add: waiting_calls_def)

definition sendable :: "units \<Rightarrow> bool" where
  "sendable t \<longleftrightarrow> t \<noteq> [] \<and> trim t = t \<and> \<not> too_long t"

fun sendable_task :: "setup_task \<Rightarrow> bool" where
  "sendable_task (Inspecting t _) = sendable t"
| "sendable_task (Importing_code t _) = sendable t"
| "sendable_task _ = True"

fun join_of :: "setup_output \<Rightarrow> network_request option" where
  "join_of (Asked (Networks (Join c n a i))) = Some (Join c n a i)"
| "join_of (Performed (Networks (Join c n a i))) = Some (Join c n a i)"
| "join_of _ = None"

text \<open>The join the form would send.\<close>

definition shown_join :: "setup_form \<Rightarrow> network_request option" where
  "shown_join s = map_option (\<lambda>v. Join (text_of (su_pendingCode s)) (text_of (su_nickname s)) (net_id (preview_network v)) (su_operationId s))
     (su_preview s)"

text \<open>The preview on display with what was asked for it.\<close>

definition display :: "setup_form \<Rightarrow> (string \<times> units \<times> invitation_preview) option" where
  "display s = map_option (\<lambda>v. (su_operationId s, su_pendingCode s, v)) (su_preview s)"

lemma join_of_over: "\<forall>o' \<in> set (file_over k s). join_of o' = None"
  by (auto simp: file_over_def split: option.split)

lemma prefix_nonempty: "prefix (ascii ''GCNI1-'') t \<Longrightarrow> t \<noteq> []"
  by (auto simp: ascii_def)

text \<open>A step of a form on display, without its answers, keeps the preview or takes it away, begins at
  most one call and only when it was not busy, and sends no join but the one on display.\<close>

definition proper :: "setup_form \<Rightarrow> handled \<Rightarrow> bool" where
  "proper s r = (case r of (s', new, out) \<Rightarrow> su_running s'
     \<and> (display s' = display s \<or> display s' = None)
     \<and> (\<forall>o' \<in> set out. \<forall>q. join_of o' = Some q \<longrightarrow> shown_join s = Some q)
     \<and> list_all sendable_task new
     \<and> (if su_busy s then su_busy s' \<and> waiting_calls new = 0 else waiting_calls new = (if su_busy s' then 1 else 0)))"

lemma proper_connect: "su_running s \<Longrightarrow> proper s (connect p k s)"
  using join_of_over by (auto simp: proper_def setup_defs display_def sendable_def prefix_nonempty dest: bspec)

lemma proper_quiet:
  "su_running s' \<Longrightarrow> display s' = display s \<Longrightarrow> su_busy s' = su_busy s \<Longrightarrow> out = [] \<or> out = file_over k w \<Longrightarrow> proper s (s', [], out)"
  using join_of_over [of k w] by (auto simp: proper_def)

lemma proper_before:
  "proper w r \<Longrightarrow> display w = display s \<Longrightarrow> su_busy w = su_busy s \<Longrightarrow> shown_join w = shown_join s \<Longrightarrow> proper s r"
  by (simp add: proper_def)

lemma proper_file_loaded: "su_running s \<Longrightarrow> proper s (file_loaded p f revision selection a s)"
proof (cases "read_result p f a")
  case (Inr t)
  assume run: "su_running s"
  let ?s = "s\<lparr>su_invitation := trim t, su_error := []\<rparr>"
  have "proper s (connect p k ?s)" for k
    by (rule proper_before [OF proper_connect]) (simp_all add: run display_def shown_join_def)
  moreover have "proper s (?s, [], file_over k ?s)" for k
    by (rule proper_quiet [where k = k and w = ?s]) (simp_all add: run display_def)
  moreover have "proper s (s, [], file_over k s)" for k
    by (rule proper_quiet [where k = k and w = s]) (simp_all add: run)
  ultimately show ?thesis using run Inr by (simp add: file_loaded_def Let_def)
qed (auto simp: file_loaded_def Let_def display_def intro!: proper_quiet)

lemma proper_initial: "su_running s \<Longrightarrow> proper s (initial_given p t s)"
proof -
  assume run: "su_running s"
  let ?s = "s\<lparr>su_seenInitial := t, su_invitation := t\<rparr>"
  have "proper s (connect p k ?s)" for k
    by (rule proper_before [OF proper_connect]) (simp_all add: run display_def shown_join_def)
  moreover have "proper s (?s, [], [])"
    by (rule proper_quiet) (simp_all add: run display_def)
  ultimately show ?thesis using run by (simp add: initial_given_def Let_def proper_quiet)
qed

lemma proper_event: "su_running s \<Longrightarrow> proper s (setup_on p e s)"
proof (cases e)
  case (Submitted)
  assume "su_running s"
  then show ?thesis using proper_connect by (auto simp: Submitted) (simp add: proper_def)
next
  case (Initial_given t)
  assume "su_running s"
  then show ?thesis using proper_initial by (simp add: Initial_given)
qed (auto simp: proper_def display_def shown_join_def setup_defs split: option.split)

section \<open>Previews and joins of a run\<close>

fun preview_of :: "setup_entry \<Rightarrow> (string \<times> units \<times> invitation_preview) option" where
  "preview_of (Got u (Inspecting t _) (Service_reply (Inr (R_networks (N_preview v))))) = Some (u, t, v)"
| "preview_of _ = None"

text \<open>The previews a run was answered, each with the identifier drawn and the code it was asked for.\<close>

definition previews :: "setup_entry list \<Rightarrow> (string \<times> units \<times> invitation_preview) list" where
  "previews tr = List.map_filter preview_of tr"

lemma previews_simps [simp]:
  "previews [] = []" "previews (tr @ tr') = previews tr @ previews tr'" "previews (map Did out) = []"
  "previews (Did o' # tr) = previews tr" "previews (Closed # tr) = previews tr"
  by (simp_all add: previews_def List.map_filter_def)

lemma previews_got: "previews (Got u t r # tr) = (case preview_of (Got u t r) of None \<Rightarrow> previews tr | Some v \<Rightarrow> v # previews tr)"
  by (simp add: previews_def List.map_filter_def split: option.split)

definition follows :: "(string \<times> units \<times> invitation_preview) list \<Rightarrow> network_request \<Rightarrow> bool" where
  "follows ps q \<longleftrightarrow> (\<exists>i t v n. q = Join (text_of t) n (net_id (preview_network v)) i \<and> (i, t, v) \<in> set ps \<and> sendable t)"

definition joins_follow :: "setup_entry list \<Rightarrow> bool" where
  "joins_follow tr \<longleftrightarrow> (\<forall>m < length tr. \<forall>o' q. tr ! m = Did o' \<longrightarrow> join_of o' = Some q \<longrightarrow> follows (previews (take m tr)) q)"

lemma follows_mono: "follows ps q \<Longrightarrow> set ps \<subseteq> set ps' \<Longrightarrow> follows ps' q"
  by (fastforce simp: follows_def)

lemma joins_follow_append:
  assumes "joins_follow tr" "\<And>o' q. Did o' \<in> set new \<Longrightarrow> join_of o' = Some q \<Longrightarrow> follows (previews tr) q"
  shows "joins_follow (tr @ new)"
  unfolding joins_follow_def
proof (intro allI impI)
  fix m o' q
  assume m: "m < length (tr @ new)" "(tr @ new) ! m = Did o'" "join_of o' = Some q"
  show "follows (previews (take m (tr @ new))) q"
  proof (cases "m < length tr")
    case True
    then show ?thesis using assms(1) m by (simp add: joins_follow_def nth_append)
  next
    case False
    then have "Did o' \<in> set new" using m by (auto simp: nth_append in_set_conv_nth intro!: exI [of _ "m - length tr"])
    then show ?thesis using follows_mono [OF assms(2) [OF _ m(3)]] False by auto
  qed
qed

definition silent_after_close :: "setup_entry list \<Rightarrow> bool" where
  "silent_after_close tr \<longleftrightarrow> (\<forall>o'. Did o' \<notin> set (dropWhile (\<lambda>x. x \<noteq> Closed) tr))"

lemma silent_open: "Closed \<notin> set tr \<Longrightarrow> silent_after_close tr"
  by (auto simp: silent_after_close_def dest: set_dropWhileD) (metis (mono_tags, lifting) dropWhile_eq_Nil_conv empty_iff list.set(1))

lemma silent_append: "silent_after_close tr \<Longrightarrow> (\<And>o'. Did o' \<notin> set new) \<Longrightarrow> silent_after_close (tr @ new)"
proof (cases "Closed \<in> set tr")
  case True
  assume "silent_after_close tr" "\<And>o'. Did o' \<notin> set new"
  moreover have "dropWhile (\<lambda>x. x \<noteq> Closed) (tr @ new) = dropWhile (\<lambda>x. x \<noteq> Closed) tr @ new"
    by (rule dropWhile_append1 [OF True]) simp
  ultimately show ?thesis by (simp add: silent_after_close_def)
next
  case False
  assume "\<And>o'. Did o' \<notin> set new"
  moreover have "dropWhile (\<lambda>x. x \<noteq> Closed) (tr @ new) = dropWhile (\<lambda>x. x \<noteq> Closed) new"
    by (rule dropWhile_append2) (use False in auto)
  ultimately show ?thesis by (auto simp: silent_after_close_def dest: set_dropWhileD)
qed

text \<open>The invariant of runs.\<close>

definition setup_ok :: "setup_form \<Rightarrow> setup_task list \<Rightarrow> setup_entry list \<Rightarrow> bool" where
  "setup_ok s ts tr \<longleftrightarrow>
     list_all sendable_task ts \<and> waiting_calls ts \<le> 1 \<and> (su_running s \<longrightarrow> waiting_calls ts = (if su_busy s then 1 else 0))
     \<and> (su_running s \<longrightarrow> (\<forall>d. display s = Some d \<longrightarrow> d \<in> set (previews tr)))
     \<and> (\<forall>(u, t, v) \<in> set (previews tr). sendable t \<and> u \<in> drawn tr) \<and> distinct (map fst (previews tr)) \<and> joins_follow tr
     \<and> (\<not> su_running s \<longrightarrow> su_invitation s = [] \<and> su_pendingCode s = [] \<and> su_nickname s = [])
     \<and> (su_running s \<longrightarrow> Closed \<notin> set tr) \<and> silent_after_close tr"

text \<open>Answers of the service: the call is over, and only a preview changes what is on display.\<close>

lemma failed_steps [simp]:
  "su_running (failed_with m s) = su_running s" "display (failed_with m s) = display s" "\<not> su_running s \<Longrightarrow> failed_with m s = s"
  "su_running (not_busy s) = su_running s" "display (not_busy s) = display s" "\<not> su_busy (not_busy s)"
  "su_invitation (not_busy s) = su_invitation s" "su_pendingCode (not_busy s) = su_pendingCode s"
  "su_nickname (not_busy s) = su_nickname s"
  by (simp_all add: failed_with_def not_busy_def display_def)

lemma display_updates [simp]:
  "display (s\<lparr>su_preview := Some v, su_pendingCode := c, su_invitation := [], su_operationId := u\<rparr>) = Some (u, c, v)"
  "display (s\<lparr>su_pendingCode := [], su_nickname := [], su_preview := None\<rparr>) = None"
  by (simp_all add: display_def)

lemma inspected_shape:
  "\<exists>w. inspected u c k reply s = (not_busy w, [], file_over k (not_busy w))
    \<and> (w = s \<or> (\<exists>m. w = failed_with m s)
       \<or> (\<exists>v. reply = Inr (R_networks (N_preview v)) \<and> su_running s
            \<and> w = s\<lparr>su_preview := Some v, su_pendingCode := c, su_invitation := [], su_operationId := u\<rparr>))"
  unfolding inspected_def Let_def
  by (intro exI conjI, rule refl) (auto split: sum.split response.split network_response.split)

lemma import_shape:
  "\<exists>w out. import_answered k reply s = (w, [], out @ file_over k w)
    \<and> w \<in> {if su_running s then not_busy x else x | x. x = s \<or> (\<exists>m. x = failed_with m s)}
    \<and> (\<forall>o' \<in> set out. \<exists>st. o' = Imported st \<and> su_running s)"
  unfolding import_answered_def Let_def
  by (cases reply) (auto split: response.split)

lemma accepted_shape:
  "\<exists>w out. accepted p reply s = (not_busy w, [], out)
    \<and> (w = s \<or> (\<exists>m. w = failed_with m s) \<or> su_running s \<and> w = s\<lparr>su_pendingCode := [], su_nickname := [], su_preview := None\<rparr>)
    \<and> (\<forall>o' \<in> set out. \<exists>x. o' = Joined_with x \<and> su_running s)"
  unfolding accepted_def by (auto split: sum.split)

lemma over_closed [simp]: "\<not> su_running s \<Longrightarrow> file_over k s = []"
  by (simp add: file_over_def split: option.split)

lemma service_answer:
  assumes "setup_answer p u t r s = Some (s', new, out)" "awaits_service t"
  shows "su_running s' = su_running s" "new = []" "su_running s \<Longrightarrow> \<not> su_busy s'" "\<forall>o' \<in> set out. join_of o' = None"
    "su_running s \<Longrightarrow> display s' \<noteq> display s \<Longrightarrow> display s' \<noteq> None \<Longrightarrow> preview_of (Got u t r) = display s'"
    "\<not> su_running s \<Longrightarrow> out = [] \<and> su_invitation s' = su_invitation s \<and> su_pendingCode s' = su_pendingCode s \<and> su_nickname s' = su_nickname s"
proof -
  obtain x where r: "r = Service_reply x" using assms by (cases t; cases r) auto
  have "su_running s' = su_running s \<and> new = [] \<and> (su_running s \<longrightarrow> \<not> su_busy s') \<and> (\<forall>o' \<in> set out. join_of o' = None)
    \<and> (su_running s \<longrightarrow> display s' \<noteq> display s \<longrightarrow> display s' \<noteq> None \<longrightarrow> preview_of (Got u t r) = display s')
    \<and> (\<not> su_running s \<longrightarrow> out = [] \<and> su_invitation s' = su_invitation s \<and> su_pendingCode s' = su_pendingCode s \<and> su_nickname s' = su_nickname s)"
  proof (cases t)
    case (Inspecting c k)
    then show ?thesis using assms(1) inspected_shape [of u c k x s] join_of_over [of k] unfolding r
      by auto
  next
    case (Importing_code c k)
    then show ?thesis using assms(1) import_shape [of k x s] join_of_over [of k] unfolding r
      by (fastforce split: if_splits)
  next
    case (Accepting q)
    then show ?thesis using assms(1) accepted_shape [of p x s] unfolding r
      by fastforce
  qed (use assms(2) in simp)
  then show "su_running s' = su_running s" "new = []" "su_running s \<Longrightarrow> \<not> su_busy s'" "\<forall>o' \<in> set out. join_of o' = None"
    "su_running s \<Longrightarrow> display s' \<noteq> display s \<Longrightarrow> display s' \<noteq> None \<Longrightarrow> preview_of (Got u t r) = display s'"
    "\<not> su_running s \<Longrightarrow> out = [] \<and> su_invitation s' = su_invitation s \<and> su_pendingCode s' = su_pendingCode s \<and> su_nickname s' = su_nickname s"
    by blast+
qed

lemma closed_answer:
  assumes "setup_answer p u t r s = Some (s', new, out)" "\<not> su_running s"
  shows "\<not> su_running s' \<and> new = [] \<and> out = [] \<and> su_invitation s' = su_invitation s \<and> su_pendingCode s' = su_pendingCode s
    \<and> su_nickname s' = su_nickname s"
proof (cases "awaits_service t")
  case True
  from service_answer [OF assms(1) this] assms(2) show ?thesis by simp
next
  case False
  then obtain f revision selection a where "t = Reading f revision selection" "r = File_reply a"
    using assms(1) by (cases t; cases r) auto
  then show ?thesis using assms by (auto simp: file_loaded_def Let_def split: sum.splits)
qed

lemma shown_join_follows:
  "(\<And>d. display s = Some d \<Longrightarrow> d \<in> set ps) \<Longrightarrow> \<forall>(u, t, v) \<in> set ps. sendable t \<Longrightarrow> shown_join s = Some q \<Longrightarrow> follows ps q"
  by (fastforce simp: display_def shown_join_def follows_def)

lemma drawn_simps [simp]:
  "drawn [] = {}" "drawn (tr @ tr') = drawn tr \<union> drawn tr'" "drawn (Did o' # tr) = drawn tr" "drawn (Closed # tr) = drawn tr"
  "drawn (Got u t r # tr) = insert u (drawn tr)" "drawn (map Did out) = {}"
  by (auto simp: drawn_def)

lemma setup_event_ok:
  assumes "setup_ok s ts tr" "su_running s" "setup_on p e s = (s', new, out)"
  shows "setup_ok s' (ts @ new) (tr @ map Did out)"
proof -
  have proper: "proper s (s', new, out)" using proper_event [OF assms(2), of p e] assms(3) by simp
  have follow: "follows (previews tr) q" if "Did o' \<in> set (map Did out)" "join_of o' = Some q" for o' q
    by (rule shown_join_follows [of s])
      (use assms(1,2) proper that in \<open>fastforce simp: setup_ok_def proper_def\<close>)+
  have "joins_follow (tr @ map Did out)"
    by (rule joins_follow_append) (use assms(1) follow in \<open>auto simp: setup_ok_def\<close>)
  moreover have "silent_after_close (tr @ map Did out)"
    by (rule silent_open) (use assms(1,2) in \<open>auto simp: setup_ok_def\<close>)
  ultimately show ?thesis
    using assms(1,2) proper by (auto simp: setup_ok_def proper_def split: if_splits)
qed

lemma setup_answer_ok:
  assumes "setup_ok s (ts @ t # us) tr" "uuid \<notin> drawn tr" "setup_answer p uuid t r s = Some (s', new, out)"
  shows "setup_ok s' (ts @ us @ new) (tr @ Got uuid t r # map Did out)"
proof -
  have ps: "set (previews (tr @ Got uuid t r # map Did out)) = set (previews tr) \<union> set_option (preview_of (Got uuid t r))"
    by (auto simp: previews_got split: option.split)
  have got: "sendable c \<and> u = uuid" if "preview_of (Got uuid t r) = Some (u, c, v)" for u c v
    using that assms(1) by (cases "Got uuid t r" rule: preview_of.cases) (auto simp: setup_ok_def)
  let ?tr = "tr @ Got uuid t r # map Did out"
  have distinct: "distinct (map fst (previews ?tr))"
    using assms(1,2) got by (fastforce simp: setup_ok_def previews_got split: option.split)
  have sendable: "\<forall>(u, c, v) \<in> set (previews ?tr). sendable c \<and> u \<in> drawn ?tr"
    using assms(1) got unfolding ps by (auto simp: setup_ok_def)
  have joins: "joins_follow ?tr" if "\<And>o' q. o' \<in> set out \<Longrightarrow> join_of o' = Some q \<Longrightarrow> follows (previews tr) q"
    by (rule joins_follow_append) (use assms(1) that in \<open>auto simp: setup_ok_def\<close>)
  show ?thesis
  proof (cases "su_running s")
    case False
    note closed = closed_answer [OF assms(3) False]
    have "silent_after_close ?tr"
      by (rule silent_append) (use assms(1) closed in \<open>auto simp: setup_ok_def\<close>)
    then show ?thesis using assms(1) False closed distinct sendable joins by (auto simp: setup_ok_def split: if_splits)
  next
    case run: True
    have shown: "d \<in> set (previews tr)" if "display s = Some d" for d
      using assms(1) run that by (cases d) (auto simp: setup_ok_def)
    have silent: "silent_after_close ?tr" by (rule silent_open) (use assms(1) run in \<open>auto simp: setup_ok_def\<close>)
    show ?thesis
    proof (cases "awaits_service t")
      case True
      note step = service_answer [OF assms(3) True]
      have "joins_follow ?tr" by (rule joins) (use step(4) in auto)
      moreover have "d \<in> set (previews ?tr)" if "display s' = Some d" for d
        using that step(5) [OF run] shown unfolding ps by (cases "display s' = display s") auto
      ultimately show ?thesis using assms(1) run step(1-3) distinct sendable silent True by (auto simp: setup_ok_def split: if_splits)
    next
      case False
      then obtain f revision selection a where t: "t = Reading f revision selection" "r = File_reply a"
        using assms(3) by (cases t; cases r) auto
      then have proper: "proper s (s', new, out)" using proper_file_loaded [OF run] assms(3) by (metis option.inject setup_answer.simps(1))
      have "joins_follow ?tr"
        by (rule joins, rule shown_join_follows [of s])
          (use assms(1) run proper in \<open>fastforce simp: setup_ok_def proper_def\<close>)+
      moreover have "d \<in> set (previews ?tr)" if "display s' = Some d" for d
        using that shown proper unfolding ps by (auto simp: proper_def)
      ultimately show ?thesis using assms(1) run proper distinct sendable silent False by (auto simp: setup_ok_def proper_def split: if_splits)
    qed
  qed
qed

lemma setup_invariant: "setup_run s ts tr \<Longrightarrow> setup_ok s ts tr"
proof (induction rule: setup_run.induct)
  case opened
  show ?case by (simp add: setup_ok_def new_setup_def joins_follow_def silent_after_close_def display_def)
next
  case (event s ts tr p e s' new out)
  then show ?case by (blast intro: setup_event_ok)
next
  case (answer s ts t us tr uuid p r s' new out)
  then show ?case by (blast intro: setup_answer_ok)
next
  case (closed s ts tr)
  have "joins_follow (tr @ [Closed])" "silent_after_close (tr @ [Closed])"
    using closed by (auto simp: setup_ok_def intro!: joins_follow_append silent_append)
  then show ?case using closed by (auto simp: setup_ok_def destroyed_def split: if_splits)
qed

section \<open>Properties\<close>


text \<open>A run: an invitation is pasted, looked at and accepted.\<close>

definition joining_props :: setup_props where
  "joining_props = \<lparr>sp_combined = True, sp_performs = True, sp_describe = (\<lambda>_. [])\<rparr>"

definition a_preview :: invitation_preview where
  "a_preview = \<lparr>preview_network = \<lparr>net_id = ''n'', net_name = ''N'', net_fingerprint = ''f'', net_primary = False,
       net_status = \<lparr>net_state = Connected, net_message = []\<rparr>\<rparr>,
     preview_channel = None, preview_newNetwork = True, preview_expires = None\<rparr>"

definition pasted :: units where
  "pasted = ascii ''GCI1-a''"

lemma pasted_sendable: "pasted \<noteq> []" "trim pasted = pasted" "\<not> too_long pasted"
  using dot_code by (simp_all add: pasted_def code_Inr too_long_def)

definition pasted_join :: network_request where
  "pasted_join = Join (text_of pasted) (text_of []) ''n'' ''u''"

definition pasted_trace :: "setup_entry list" where
  "pasted_trace = [Did (Asked (Networks (Inspect (text_of pasted)))),
     Got ''u'' (Inspecting pasted None) (Service_reply (Inr (R_networks (N_preview a_preview))))]"

lemma joining_run: "\<exists>s. setup_run s [Accepting (Networks pasted_join)] (pasted_trace @ [Did (Performed (Networks pasted_join))])
  \<and> su_running s"
proof -
  let ?p = joining_props
  let ?s1 = "new_setup\<lparr>su_invitation := pasted\<rparr>"
  have s1: "setup_run ?s1 [] []"
    using setup_run.event [OF setup_run.opened, of ?p "Invitation_typed pasted"] by (simp add: new_setup_def entering_def)
  let ?s2 = "?s1\<lparr>su_busy := True\<rparr>"
  have s2: "setup_run ?s2 ([] @ Inspecting pasted None # []) [Did (Asked (Networks (Inspect (text_of pasted))))]"
    using setup_run.event [OF s1, of ?p Submitted] pasted_sendable
    by (simp add: new_setup_def entering_def connect_def joining_props_def Let_def)
  let ?s3 = "?s1\<lparr>su_preview := Some a_preview, su_pendingCode := pasted, su_invitation := [], su_operationId := ''u''\<rparr>"
  have s3: "setup_run ?s3 [] pasted_trace"
    using setup_run.answer [OF s2, of "''u''" ?p "Service_reply (Inr (R_networks (N_preview a_preview)))"]
    by (simp add: new_setup_def inspected_def not_busy_def file_over_def Let_def pasted_trace_def)
  show ?thesis
    using setup_run.event [OF s3, of ?p Accepted]
    by (auto simp: new_setup_def accept_preview_def joining_props_def pasted_join_def a_preview_def Let_def)
qed


text \<open>C22: The form makes one call at a time and is silent once it is gone.  At most one call is outstanding
  and, while the form is there, exactly when it shows as busy; after it was taken away it sends nothing and
  reports nothing, whatever is still answered, and keeps neither the code nor the nickname.\<close>

theorem setup_one_call_then_silent:
  assumes "setup_run s ts tr"
  shows "waiting_calls ts \<le> 1 \<and> (su_running s \<longrightarrow> (su_busy s \<longleftrightarrow> waiting_calls ts = 1))
    \<and> (\<not> su_running s \<longrightarrow> su_invitation s = [] \<and> su_pendingCode s = [] \<and> su_nickname s = [])
    \<and> (\<forall>o'. Did o' \<notin> set (dropWhile (\<lambda>x. x \<noteq> Closed) tr))"
  using setup_invariant [OF assms] by (auto simp: setup_ok_def silent_after_close_def split: if_splits)

theorem setup_one_call_then_silent_witness:
  "\<exists>s ts tr. setup_run s ts tr \<and> \<not> su_running s \<and> waiting_calls ts \<le> 1 \<and> su_pendingCode s = []"
proof -
  obtain s where run: "setup_run s [Accepting (Networks pasted_join)] (pasted_trace @ [Did (Performed (Networks pasted_join))])"
    and "su_running s"
    using joining_run by blast
  note gone = setup_run.closed [OF this]
  have "\<not> su_running (destroyed s)" by (simp add: destroyed_def)
  then show ?thesis using setup_one_call_then_silent [OF gone] gone by blast
qed

end
